(* ===== verification/Prelude.thy ===== *)
theory Prelude
  imports Complex_Main "HOL-Library.Sublist" "HOL-Library.Char_ord" "HOL-Library.List_Lexorder"
begin

text \<open>
  Shared vocabulary of the development: times, Go's 64-bit integers, results, byte strings and
  the string functions of Go's \<open>strings\<close> and \<open>bytes\<close> packages that the sources call,
  the generic lemmas about them, the collections the component theories fill, and the generic
  contract of a component whose operations keep an invariant.

  A Go \<open>string\<close> or \<open>[]byte\<close> is a list of bytes, hence \<open>char list\<close>; \<open>len\<close> is
  \<open>length\<close>. A Go \<open>error\<close> result is the left side of a sum.
\<close>

named_theorems go_defs \<open>definitions of constants (codes, limits) unfolded by evaluation proofs\<close>
named_theorems res_simps \<open>inversion of successful results\<close>
named_theorems keeps \<open>an operation keeps the invariant of its component\<close>

section \<open>Times and integers\<close>

text \<open>A \<open>time.Time\<close> or \<open>time.Duration\<close> is a number of nanoseconds.\<close>

type_synonym time = int

definition sec :: int where [go_defs]: "sec = 1000000000"
definition msec :: int where [go_defs]: "msec = 1000000"
definition minute :: int where [go_defs]: "minute = 60 * sec"
definition hour :: int where [go_defs]: "hour = 60 * minute"
definition day :: int where [go_defs]: "day = 24 * hour"

text \<open>Addition and comparison of Go's \<open>int64\<close>: two's complement wrap-around.\<close>

definition i64 :: "int \<Rightarrow> int" where
  "i64 x = (x + 2 ^ 63) mod 2 ^ 64 - 2 ^ 63"

definition in_i64 :: "int \<Rightarrow> bool" where
  "in_i64 x \<longleftrightarrow> - (2 ^ 63) \<le> x \<and> x < 2 ^ 63"

lemma i64_id: "in_i64 x \<Longrightarrow> i64 x = x"
  by (simp add: i64_def in_i64_def)

lemma in_i64_i64 [simp]: "in_i64 (i64 x)"
  by (simp add: i64_def in_i64_def)

lemma i64_i64_add [simp]: "i64 (i64 a + b) = i64 (a + b)" "i64 (a + i64 b) = i64 (a + b)"
proof -
  have eq: "x + (y - z) + w = (x + w - z) + y" for x y z w :: int by simp
  show "i64 (i64 a + b) = i64 (a + b)"
    unfolding i64_def by (simp add: eq mod_simps algebra_simps)
  show "i64 (a + i64 b) = i64 (a + b)"
    unfolding i64_def by (simp add: eq mod_simps algebra_simps)
qed

section \<open>Results\<close>

definition guard :: "bool \<Rightarrow> 'e \<Rightarrow> 'e + unit" where
  "guard b e = (if b then Inr () else Inl e)"

definition res_bind :: "'e + 'a \<Rightarrow> ('a \<Rightarrow> 'e + 'b) \<Rightarrow> 'e + 'b" where
  "res_bind m f = (case m of Inl e \<Rightarrow> Inl e | Inr x \<Rightarrow> f x)"

lemma guard_Inr [res_simps]: "guard b e = Inr u \<longleftrightarrow> b"
  by (simp add: guard_def)

lemma guard_Inl [res_simps]: "guard b e = Inl e' \<longleftrightarrow> \<not> b \<and> e' = e"
  by (auto simp: guard_def)

lemma res_bind_Inr [res_simps]: "res_bind m f = Inr y \<longleftrightarrow> (\<exists>x. m = Inr x \<and> f x = Inr y)"
  by (auto simp: res_bind_def split: sum.splits)

lemma res_bind_simps [simp]: "res_bind (Inl e) f = Inl e" "res_bind (Inr x) f = f x"
  by (simp_all add: res_bind_def)

lemma guard_simps [simp]: "guard True e = Inr ()" "guard False e = Inl e"
  by (simp_all add: guard_def)

section \<open>Strings\<close>

abbreviation has_prefix :: "string \<Rightarrow> string \<Rightarrow> bool" where
  "has_prefix s p \<equiv> prefix p s"

abbreviation has_suffix :: "string \<Rightarrow> string \<Rightarrow> bool" where
  "has_suffix s p \<equiv> suffix p s"

definition trim_prefix :: "string \<Rightarrow> string \<Rightarrow> string" where
  "trim_prefix s p = (if prefix p s then drop (length p) s else s)"

definition trim_suffix :: "string \<Rightarrow> string \<Rightarrow> string" where
  "trim_suffix s p = (if suffix p s then take (length s - length p) s else s)"

text \<open>\<open>strings.TrimSpace\<close> on ASCII: tab, newline, vertical tab, form feed, return, space.\<close>

definition is_space :: "char \<Rightarrow> bool" where
  "is_space c \<longleftrightarrow> c \<in> {CHR 0x09, CHR 0x0A, CHR 0x0B, CHR 0x0C, CHR 0x0D, CHR 0x20}"

definition trim_space :: "string \<Rightarrow> string" where
  "trim_space s = rev (dropWhile is_space (rev (dropWhile is_space s)))"

definition trim_right :: "char \<Rightarrow> string \<Rightarrow> string" where
  "trim_right c s = rev (dropWhile (\<lambda>x. x = c) (rev s))"

definition trim_char :: "char \<Rightarrow> string \<Rightarrow> string" where
  "trim_char c s = trim_right c (dropWhile (\<lambda>x. x = c) s)"

text \<open>\<open>strings.Split\<close> with a one-byte separator.\<close>

fun split_on :: "char \<Rightarrow> string \<Rightarrow> string list" where
  "split_on c [] = [[]]"
| "split_on c (x # xs) =
     (if x = c then [] # split_on c xs
      else (case split_on c xs of [] \<Rightarrow> [[x]] | p # ps \<Rightarrow> (x # p) # ps))"

text \<open>\<open>strings.Cut\<close> with a one-byte separator.\<close>

fun cut :: "char \<Rightarrow> string \<Rightarrow> (string \<times> string) option" where
  "cut c [] = None"
| "cut c (x # xs) = (if x = c then Some ([], xs)
     else (case cut c xs of None \<Rightarrow> None | Some (a, b) \<Rightarrow> Some (x # a, b)))"

definition is_lower :: "char \<Rightarrow> bool" where
  "is_lower c \<longleftrightarrow> CHR ''a'' \<le> c \<and> c \<le> CHR ''z''"
definition is_upper :: "char \<Rightarrow> bool" where
  "is_upper c \<longleftrightarrow> CHR ''A'' \<le> c \<and> c \<le> CHR ''Z''"
definition is_digit :: "char \<Rightarrow> bool" where
  "is_digit c \<longleftrightarrow> CHR ''0'' \<le> c \<and> c \<le> CHR ''9''"

text \<open>\<open>strings.ToLower\<close> on ASCII.\<close>

definition to_lower :: "string \<Rightarrow> string" where
  "to_lower = map (\<lambda>c. if is_upper c then char_of (of_char c + 32 :: nat) else c)"

text \<open>Decimal rendering (\<open>strconv.Itoa\<close>, the \<open>%d\<close> verb).\<close>

fun nat_str :: "nat \<Rightarrow> string" where
  "nat_str n = (if n < 10 then [char_of (48 + n)] else nat_str (n div 10) @ [char_of (48 + n mod 10)])"

declare nat_str.simps [simp del]

definition int_str :: "int \<Rightarrow> string" where
  "int_str i = (if i < 0 then CHR ''-'' # nat_str (nat (- i)) else nat_str (nat i))"

lemma trim_prefix_prefix [simp]: "trim_prefix (p @ s) p = s"
  by (simp add: trim_prefix_def)

lemma dropWhile_shorter: "dropWhile P s = c # r \<Longrightarrow> length r < length s"
  by (metis length_Cons length_dropWhile_le less_eq_Suc_le)

lemma split_on_nonempty [simp]: "split_on c s \<noteq> []"
  by (induction s) (auto split: list.splits)

lemma split_on_absent: "c \<notin> set s \<Longrightarrow> split_on c s = [s]"
  by (induction s) auto

lemma split_on_append: "c \<notin> set a \<Longrightarrow> split_on c (a @ c # b) = a # split_on c b"
  by (induction a) auto

text \<open>Joining is the inverse of splitting.\<close>

fun join_with :: "string \<Rightarrow> string list \<Rightarrow> string" where
  "join_with sep [] = []"
| "join_with sep [x] = x"
| "join_with sep (x # y # ys) = x @ sep @ join_with sep (y # ys)"

lemma join_split_on: "join_with [c] (split_on c s) = s"
proof (induction s)
  case Nil
  show ?case by simp
next
  case (Cons x s)
  obtain p ps where s: "split_on c s = p # ps"
    by (metis neq_Nil_conv split_on_nonempty)
  show ?case
    using Cons s by (cases ps) auto
qed

lemma cut_Some: "cut c s = Some (a, b) \<Longrightarrow> s = a @ c # b \<and> c \<notin> set a"
  by (induction s arbitrary: a) (auto split: if_splits option.splits)

lemma cut_None: "cut c s = None \<longleftrightarrow> c \<notin> set s"
  by (induction s) (auto split: option.splits)

section \<open>Lists and maps\<close>

lemma map_of_Some_in_keys: "map_of xs k = Some v \<Longrightarrow> k \<in> fst ` set xs"
  by (metis domI dom_map_of_conv_image_fst)

lemma map_of_in_keys: "k \<in> fst ` set xs \<Longrightarrow> \<exists>v. map_of xs k = Some v"
  by (metis domD dom_map_of_conv_image_fst)

text \<open>The first element satisfying a predicate (a Go search loop that returns a pointer).\<close>

lemma find_Some_iff_first: "List.find P xs = Some x \<Longrightarrow> x \<in> set xs \<and> P x"
  by (auto simp: find_Some_iff)

section \<open>Components whose operations keep an invariant\<close>

text \<open>
  The generic contract of a mutex-guarded component: every operation, run to completion under
  the lock, keeps the component's invariant. Interleaved callers see a sequence of operations,
  and every such sequence keeps the invariant.
\<close>

locale guarded_component =
  fixes inv :: "'s \<Rightarrow> bool"
    and init :: "'s"
    and app :: "'op \<Rightarrow> 's \<Rightarrow> 's"
  assumes inv_init: "inv init"
    and inv_app: "inv s \<Longrightarrow> inv (app op s)"
begin

lemma run_keeps: "inv s \<Longrightarrow> inv (fold app ops s)"
  by (induction ops arbitrary: s) (auto intro: inv_app)

lemma run_from_init: "inv (fold app ops init)"
  by (rule run_keeps [OF inv_init])

lemma run_prefix: "inv (fold app (take n ops) init)"
  by (rule run_from_init)

end

end
