(* ===== verification/Json.thy ===== *)
theory Json
  imports Prelude "HOL-Library.Multiset"
begin

text \<open>
  What the sources use of Go's \<open>encoding/json\<close>. A \<open>json.RawMessage\<close> (or a decoded
  request body) is the syntax tree of the document: objects keep their members in document
  order, duplicates included, and numbers keep their literal. Decoding into a Go struct is a
  fold of one member at a time over the zero value, as the library does it; decoding into
  \<open>any\<close> and marshalling again is the canonical form.

  Keys are compared case-insensitively on ASCII, as the library does for struct fields.
\<close>

datatype json =
    JNull
  | JBool bool
  | JNum string
  | JStr string
  | JArr "json list"
  | JObj "(string \<times> json) list"

text \<open>
  A body of bytes is the document it parses to, or bytes that are no JSON document (no decoder
  accepts them).
\<close>

datatype body = Doc json | Bytes string

fun unmarshal :: "(json \<Rightarrow> 'a option) \<Rightarrow> body \<Rightarrow> 'a option" where
  "unmarshal f (Doc v) = f v"
| "unmarshal f (Bytes b) = None"

section \<open>Decoding into Go values\<close>

text \<open>
  A field decoder takes the field's present value and the JSON value: \<open>None\<close> is the
  library's error; \<open>null\<close> leaves a scalar alone and clears a pointer, slice or map.
\<close>

definition key_eq :: "string \<Rightarrow> string \<Rightarrow> bool" where
  "key_eq k name \<longleftrightarrow> to_lower k = to_lower name"

fun dec_string :: "string \<Rightarrow> json \<Rightarrow> string option" where
  "dec_string old JNull = Some old"
| "dec_string old (JStr s) = Some s"
| "dec_string old _ = None"

fun dec_bool :: "bool \<Rightarrow> json \<Rightarrow> bool option" where
  "dec_bool old JNull = Some old"
| "dec_bool old (JBool b) = Some b"
| "dec_bool old _ = None"

text \<open>An \<open>int\<close> field takes an integer literal within 64 bits only.\<close>

definition digit_val :: "char \<Rightarrow> int" where
  "digit_val c = int (of_char c) - 48"

definition digits_val :: "string \<Rightarrow> int" where
  "digits_val ds = foldl (\<lambda>n c. 10 * n + digit_val c) 0 ds"

definition int_lit :: "string \<Rightarrow> int option" where
  "int_lit s =
     (let (neg, ds) = (case s of [] \<Rightarrow> (False, []) | c # cs \<Rightarrow> if c = CHR ''-'' then (True, cs) else (False, s));
          n = (if neg then - digits_val ds else digits_val ds)
      in if ds \<noteq> [] \<and> list_all is_digit ds \<and> in_i64 n then Some n else None)"

fun dec_int :: "int \<Rightarrow> json \<Rightarrow> int option" where
  "dec_int old JNull = Some old"
| "dec_int old (JNum l) = int_lit l"
| "dec_int old _ = None"

text \<open>A \<open>*float64\<close> or \<open>*bool\<close> field; a float keeps its literal.\<close>

fun dec_float_ptr :: "string option \<Rightarrow> json \<Rightarrow> string option option" where
  "dec_float_ptr old JNull = Some None"
| "dec_float_ptr old (JNum l) = Some (Some l)"
| "dec_float_ptr old _ = None"

fun dec_bool_ptr :: "bool option \<Rightarrow> json \<Rightarrow> bool option option" where
  "dec_bool_ptr old JNull = Some None"
| "dec_bool_ptr old (JBool b) = Some (Some b)"
| "dec_bool_ptr old _ = None"

text \<open>Structs: a fold of the field decoder over the members.\<close>

fun dec_members :: "(string \<Rightarrow> json \<Rightarrow> 's \<Rightarrow> 's option) \<Rightarrow> (string \<times> json) list \<Rightarrow> 's \<Rightarrow> 's option" where
  "dec_members f [] s = Some s"
| "dec_members f ((k, v) # kvs) s =
     (case f k v s of None \<Rightarrow> None | Some s' \<Rightarrow> dec_members f kvs s')"

fun dec_struct :: "(string \<Rightarrow> json \<Rightarrow> 's \<Rightarrow> 's option) \<Rightarrow> 's \<Rightarrow> json \<Rightarrow> 's option" where
  "dec_struct f old JNull = Some old"
| "dec_struct f old (JObj kvs) = dec_members f kvs old"
| "dec_struct f old _ = None"

text \<open>Pointers to structs: a fresh zero value unless one is there already.\<close>

definition dec_struct_ptr :: "(string \<Rightarrow> json \<Rightarrow> 's \<Rightarrow> 's option) \<Rightarrow> 's \<Rightarrow> 's option \<Rightarrow> json \<Rightarrow> 's option option" where
  "dec_struct_ptr f zero old v =
     (if v = JNull then Some None
      else map_option Some (dec_struct f (case old of None \<Rightarrow> zero | Some s \<Rightarrow> s) v))"

text \<open>Slices (each element decoded from the zero value) and maps (entries added to the present map).\<close>

fun dec_list :: "(json \<Rightarrow> 'a option) \<Rightarrow> 'a list \<Rightarrow> json \<Rightarrow> 'a list option" where
  "dec_list f old JNull = Some []"
| "dec_list f old (JArr vs) = those (map f vs)"
| "dec_list f old _ = None"

definition alist_put :: "'k \<Rightarrow> 'v \<Rightarrow> ('k \<times> 'v) list \<Rightarrow> ('k \<times> 'v) list" where
  "alist_put k v m = filter (\<lambda>e. fst e \<noteq> k) m @ [(k, v)]"

fun dec_entries :: "(json \<Rightarrow> 'a option) \<Rightarrow> (string \<times> json) list \<Rightarrow> (string \<times> 'a) list \<Rightarrow> (string \<times> 'a) list option" where
  "dec_entries f [] m = Some m"
| "dec_entries f ((k, v) # kvs) m =
     (case f v of None \<Rightarrow> None | Some x \<Rightarrow> dec_entries f kvs (alist_put k x m))"

fun dec_map :: "(json \<Rightarrow> 'a option) \<Rightarrow> (string \<times> 'a) list \<Rightarrow> json \<Rightarrow> (string \<times> 'a) list option" where
  "dec_map f old JNull = Some []"
| "dec_map f old (JObj kvs) = dec_entries f kvs old"
| "dec_map f old _ = None"

lemma alist_put_distinct: "distinct (map fst m) \<Longrightarrow> distinct (map fst (alist_put k v m))"
  by (auto simp: alist_put_def distinct_map_filter)

lemma map_of_alist_put [simp]: "map_of (alist_put k v m) = (map_of m)(k \<mapsto> v)"
proof
  fix x
  show "map_of (alist_put k v m) x = ((map_of m)(k \<mapsto> v)) x"
    by (induction m) (auto simp: alist_put_def)
qed

lemma dec_entries_distinct:
  "dec_entries f kvs m = Some m' \<Longrightarrow> distinct (map fst m) \<Longrightarrow> distinct (map fst m')"
  by (induction f kvs m rule: dec_entries.induct) (auto split: option.splits intro: alist_put_distinct)

lemma dec_map_distinct:
  "dec_map f m v = Some m' \<Longrightarrow> distinct (map fst m) \<Longrightarrow> distinct (map fst m')"
  by (cases v) (auto intro: dec_entries_distinct)

text \<open>An invariant of the struct that every field decoder keeps holds of the decoded struct.\<close>

lemma dec_members_inv:
  assumes step: "\<And>k v s s'. P s \<Longrightarrow> f k v s = Some s' \<Longrightarrow> P s'"
  shows "dec_members f kvs s = Some s' \<Longrightarrow> P s \<Longrightarrow> P s'"
proof (induction kvs arbitrary: s)
  case (Cons kv kvs)
  then show ?case
    by (cases kv) (auto split: option.splits dest: step)
qed simp

lemma dec_struct_inv:
  assumes "\<And>k v s s'. P s \<Longrightarrow> f k v s = Some s' \<Longrightarrow> P s'"
  shows "dec_struct f s v = Some s' \<Longrightarrow> P s \<Longrightarrow> P s'"
  by (cases v) (auto intro: dec_members_inv [OF assms])

text \<open>Strict decoding: every member of an accepted object was accepted by the field decoder.\<close>

lemma dec_members_known:
  assumes known: "\<And>k v s s'. f k v s = Some s' \<Longrightarrow> \<exists>name\<in>N. key_eq k name"
  shows "dec_members f kvs s = Some s' \<Longrightarrow> \<forall>(k, v)\<in>set kvs. \<exists>name\<in>N. key_eq k name"
proof (induction kvs arbitrary: s)
  case (Cons kv kvs)
  then show ?case
    by (cases kv) (fastforce split: option.splits dest: known)
qed simp

section \<open>The canonical form\<close>

text \<open>
  Decoding into \<open>any\<close> keeps the last of several members with one key; marshalling sorts the
  members by key (bytewise). A number becomes a \<open>float64\<close> and is printed again: the
  reprinting is the parameter \<open>nf\<close>.
\<close>

fun dedup_last :: "('k \<times> 'v) list \<Rightarrow> ('k \<times> 'v) list" where
  "dedup_last [] = []"
| "dedup_last ((k, v) # kvs) =
     (if k \<in> fst ` set kvs then dedup_last kvs else (k, v) # dedup_last kvs)"

fun canon :: "(string \<Rightarrow> string) \<Rightarrow> json \<Rightarrow> json" where
  "canon nf JNull = JNull"
| "canon nf (JBool b) = JBool b"
| "canon nf (JNum l) = JNum (nf l)"
| "canon nf (JStr s) = JStr s"
| "canon nf (JArr vs) = JArr (map (canon nf) vs)"
| "canon nf (JObj kvs) = JObj (sort_key fst (dedup_last (map (\<lambda>(k, v). (k, canon nf v)) kvs)))"

lemma fst_dedup_last: "fst ` set (dedup_last kvs) = fst ` set kvs"
  by (induction kvs rule: dedup_last.induct) auto

lemma set_dedup_last: "set (dedup_last kvs) \<subseteq> set kvs"
  by (induction kvs rule: dedup_last.induct) auto

lemma distinct_dedup_last: "distinct (map fst (dedup_last kvs))"
proof (induction kvs rule: dedup_last.induct)
  case (2 k v kvs)
  have "k \<notin> fst ` set kvs \<Longrightarrow> k \<notin> set (map fst (dedup_last kvs))"
    using fst_dedup_last [of kvs] by simp
  with 2 show ?case by (cases "k \<in> fst ` set kvs") simp_all
qed simp

lemma dedup_last_id: "distinct (map fst kvs) \<Longrightarrow> dedup_last kvs = kvs"
  by (induction kvs rule: dedup_last.induct) auto

lemma map_of_dedup_last: "map_of (dedup_last kvs) k = map_of (rev kvs) k"
proof (induction kvs rule: dedup_last.induct)
  case (2 k' v kvs)
  show ?case
  proof (cases "k' \<in> fst ` set kvs")
    case True
    then obtain w where "map_of (rev kvs) k' = Some w"
      using map_of_in_keys [of k' "rev kvs"] by auto
    with True 2 show ?thesis by (cases "k = k'") (auto simp: map_add_def split: option.splits)
  next
    case False
    then have "map_of (rev kvs) k' = None"
      by (simp add: map_of_eq_None_iff)
    with False 2 show ?thesis by (auto simp: map_add_def split: option.splits)
  qed
qed simp

lemma canon_members_map:
  "dedup_last (map (\<lambda>(k, v). (k, g v)) kvs) = map (\<lambda>(k, v). (k, g v)) (dedup_last kvs)"
  by (induction kvs rule: dedup_last.induct) (auto simp: image_iff split_beta)

text \<open>Two lists with distinct keys that are permutations of one another sort to one list.\<close>

lemma filter_key_distinct:
  "distinct (map f ys) \<Longrightarrow> k \<in> set ys \<Longrightarrow> filter (\<lambda>x. f k = f x) ys = [k]"
proof (induction ys)
  case (Cons y ys)
  show ?case
  proof (cases "k = y")
    case True
    with Cons.prems have "\<forall>x\<in>set ys. f y \<noteq> f x" by auto
    with True show ?thesis by simp
  next
    case False
    with Cons.prems have k: "k \<in> set ys" by simp
    have "f y \<notin> f ` set ys" using Cons.prems by simp
    with k have "f k \<noteq> f y" by (metis imageI)
    with k Cons show ?thesis by simp
  qed
qed simp

lemma sort_key_unique:
  assumes eq: "mset xs = mset ys" and d: "distinct (map f xs)"
  shows "sort_key f xs = sort_key f ys"
proof -
  have dy: "distinct (map f ys)"
    using d mset_eq_imp_distinct_iff [of "map f xs" "map f ys"] eq by simp
  have ds: "distinct (map f (sort_key f ys))"
    using dy mset_eq_imp_distinct_iff [of "map f (sort_key f ys)" "map f ys"] by simp
  show ?thesis
  proof (rule properties_for_sort_key)
    show "mset (sort_key f ys) = mset xs" using eq by simp
    fix k assume k: "k \<in> set (sort_key f ys)"
    then have "k \<in> set xs" using mset_eq_setD [OF eq] by simp
    then show "filter (\<lambda>x. f k = f x) (sort_key f ys) = filter (\<lambda>x. f k = f x) xs"
      by (simp only: filter_key_distinct [OF ds k] filter_key_distinct [OF d])
  qed simp
qed

text \<open>The canonical form ignores the order of members and is a fixed point of itself.\<close>

lemma canon_order:
  assumes "mset kvs = mset kvs'" and "distinct (map fst kvs)"
  shows "canon nf (JObj kvs) = canon nf (JObj kvs')"
proof -
  let ?g = "\<lambda>(k, v). (k, canon nf v)"
  have fst: "map fst (map ?g xs) = map fst xs" for xs by (induction xs) auto
  have d': "distinct (map fst kvs')"
    using assms mset_eq_imp_distinct_iff [of "map fst kvs" "map fst kvs'"] by simp
  have m: "mset (map ?g kvs) = mset (map ?g kvs')" using assms by simp
  have "sort_key fst (map ?g kvs) = sort_key fst (map ?g kvs')"
    by (rule sort_key_unique [OF m]) (simp only: fst assms)
  then show ?thesis
    using assms(2) d' by (simp only: canon.simps dedup_last_id fst)
qed

lemma canon_idem:
  assumes nf: "\<And>l. nf (nf l) = nf l"
  shows "canon nf (canon nf v) = canon nf v"
proof (induction v)
  case (JObj kvs)
  let ?g = "\<lambda>(k, v). (k, canon nf v)"
  let ?c = "sort_key fst (dedup_last (map ?g kvs))"
  have "?g kv = kv" if "kv \<in> set ?c" for kv
  proof -
    from that have "kv \<in> ?g ` set kvs" using set_dedup_last [of "map ?g kvs"] by auto
    then obtain k v where "(k, v) \<in> set kvs" and kv: "kv = (k, canon nf v)" by auto
    then have "canon nf (canon nf v) = canon nf v" using JObj by (force simp: snds.simps)
    with kv show ?thesis by simp
  qed
  then have m: "map ?g ?c = ?c" by (rule map_idI)
  have "distinct (map fst ?c)"
    using distinct_dedup_last [of "map ?g kvs"]
      mset_eq_imp_distinct_iff [of "map fst ?c" "map fst (dedup_last (map ?g kvs))"] by simp
  then have "dedup_last ?c = ?c" by (rule dedup_last_id)
  with m show ?case by (simp add: sort_key_id_if_sorted)
qed (simp_all add: nf)

end
