(* ===== verification/StreamWriter.thy ===== *)
theory StreamWriter
  imports Json
begin

text \<open>
  The stream writers: the interface \<open>contract.StreamWriter\<close> as the locale \<open>stream_writer\<close>, the
  gateway's \<open>httpStreamWriter\<close> (\<open>gwcore/platform_adapter.go\<close>) and the orchestrator's
  \<open>accumulatingWriter\<close> (\<open>platform/orchestrator/stream.go\<close>), which wraps another writer.

  A client is the number of writes it still accepts. \<open>parse\<close> turns bytes into the JSON document they
  hold.
\<close>

record 'w stream_ops =
  so_Start :: "int \<Rightarrow> string \<Rightarrow> 'w \<Rightarrow> 'w"
  so_Chunk :: "string \<Rightarrow> 'w \<Rightarrow> bool \<times> 'w"
  so_Flush :: "'w \<Rightarrow> 'w"

locale stream_writer =
  fixes W :: "'w stream_ops"
    and out :: "'w \<Rightarrow> string"
  assumes out_Start: "out (so_Start W s c w) = out w"
    and out_Chunk: "so_Chunk W p w = (ok, w') \<Longrightarrow> out w' = (if ok then out w @ p else out w)"
    and out_Flush: "out (so_Flush W w) = out w"

section \<open>The gateway's writer\<close>

record http_writer =
  hw_started :: bool
  hw_onStart :: nat
  hw_contentType :: string
  hw_status :: int
  hw_flushes :: nat
  hw_flusher :: bool
  hw_room :: nat
  hw_out :: string

definition hw_Start :: "int \<Rightarrow> string \<Rightarrow> http_writer \<Rightarrow> http_writer" where
  "hw_Start statusCode contentType h =
     (if hw_started h then h
      else h\<lparr>hw_started := True, hw_onStart := hw_onStart h + 1,
             hw_contentType := (if contentType \<noteq> [] then contentType else hw_contentType h),
             hw_flusher := True, hw_status := statusCode\<rparr>)"

definition hw_Chunk :: "string \<Rightarrow> http_writer \<Rightarrow> bool \<times> http_writer" where
  "hw_Chunk p h =
     (let h1 = (if \<not> hw_started h then hw_Start 200 ''text/event-stream'' h else h)
      in if hw_room h1 = 0 then (False, h1) else (True, h1\<lparr>hw_room := hw_room h1 - 1, hw_out := hw_out h1 @ p\<rparr>))"

definition hw_Flush :: "http_writer \<Rightarrow> http_writer" where
  "hw_Flush h = (if hw_flusher h then h\<lparr>hw_flushes := hw_flushes h + 1\<rparr> else h)"

definition http_ops :: "http_writer stream_ops" where
  "http_ops = \<lparr>so_Start = hw_Start, so_Chunk = hw_Chunk, so_Flush = hw_Flush\<rparr>"

interpretation http: stream_writer http_ops hw_out
  by unfold_locales (auto simp: http_ops_def hw_Start_def hw_Chunk_def hw_Flush_def Let_def split: if_splits)

section \<open>The accumulating writer\<close>

text \<open>The delta of an OpenAI chunk: \<open>choices[0].delta.content\<close>.\<close>

definition dec_delta :: "string \<Rightarrow> json \<Rightarrow> string \<Rightarrow> string option" where
  "dec_delta k v s = (if key_eq k ''content'' then dec_string s v else Some s)"

definition dec_delta_choice :: "string \<Rightarrow> json \<Rightarrow> string \<Rightarrow> string option" where
  "dec_delta_choice k v s = (if key_eq k ''delta'' then dec_struct dec_delta s v else Some s)"

definition dec_delta_probe :: "string \<Rightarrow> json \<Rightarrow> string list \<Rightarrow> string list option" where
  "dec_delta_probe k v s = (if key_eq k ''choices'' then dec_list (dec_struct dec_delta_choice []) s v else Some s)"

definition sniffDelta :: "body \<Rightarrow> string" where
  "sniffDelta data = (case unmarshal (dec_struct dec_delta_probe []) data of Some (c # _) \<Rightarrow> c | _ \<Rightarrow> [])"

record 'w acc_writer =
  aw_inner :: 'w
  aw_accumulate :: bool
  aw_started :: bool
  aw_buf :: string

definition newAccumulatingWriter :: "'w \<Rightarrow> bool \<Rightarrow> 'w acc_writer" where
  "newAccumulatingWriter inner accumulate = \<lparr>aw_inner = inner, aw_accumulate = accumulate, aw_started = False, aw_buf = []\<rparr>"

definition aw_Start :: "'w stream_ops \<Rightarrow> int \<Rightarrow> string \<Rightarrow> 'w acc_writer \<Rightarrow> 'w acc_writer" where
  "aw_Start W statusCode contentType a = a\<lparr>aw_started := True, aw_inner := so_Start W statusCode contentType (aw_inner a)\<rparr>"

definition accumulated :: "(string \<Rightarrow> body) \<Rightarrow> bool \<Rightarrow> string \<Rightarrow> string" where
  "accumulated parse on p =
     (let line = trim_suffix p [CHR 0x0A]
      in if on \<and> has_prefix line ''data: '' then sniffDelta (parse (trim_prefix line ''data: '')) else [])"

definition aw_Chunk :: "(string \<Rightarrow> body) \<Rightarrow> 'w stream_ops \<Rightarrow> string \<Rightarrow> 'w acc_writer \<Rightarrow> bool \<times> 'w acc_writer" where
  "aw_Chunk parse W p a =
     (let a1 = a\<lparr>aw_buf := aw_buf a @ accumulated parse (aw_accumulate a) p\<rparr>;
          (ok, w) = so_Chunk W p (aw_inner a1)
      in (ok, a1\<lparr>aw_inner := w\<rparr>))"

definition aw_Flush :: "'w stream_ops \<Rightarrow> 'w acc_writer \<Rightarrow> 'w acc_writer" where
  "aw_Flush W a = a\<lparr>aw_inner := so_Flush W (aw_inner a)\<rparr>"

definition acc_ops :: "(string \<Rightarrow> body) \<Rightarrow> 'w stream_ops \<Rightarrow> 'w acc_writer stream_ops" where
  "acc_ops parse W = \<lparr>so_Start = aw_Start W, so_Chunk = aw_Chunk parse W, so_Flush = aw_Flush W\<rparr>"

text \<open>Wrapping keeps the contract: the output is the inner writer's.\<close>

context stream_writer
begin

lemma wrapped: "stream_writer (acc_ops parse W) (out \<circ> aw_inner)"
  by unfold_locales
    (auto simp: acc_ops_def aw_Start_def aw_Chunk_def aw_Flush_def Let_def out_Start out_Flush split: prod.splits dest: out_Chunk)

end

interpretation acc: stream_writer "acc_ops parse http_ops" "hw_out \<circ> aw_inner" for parse
  by (rule http.wrapped)

end
