(* ===== verification/Contract.thy ===== *)
theory Contract
  imports Json
begin

text \<open>
  The versioned boundary between Gateway and Platform (\<open>platform/contract/contract.go\<close>) and
  the error vocabulary of the Platform-Engine boundary
  (\<open>platform/enginecontract/engine.go\<close>): the request and response records, the frozen
  error codes and the two functions that translate them outwards.

  A zero \<open>time.Time\<close> is \<open>None\<close>; a nil pointer is \<open>None\<close>. \<open>NormalizedInput\<close> is a Go
  map from field names to raw JSON: an association list with distinct keys whose order is
  the order one iteration of the map happens to take.
\<close>

definition Version :: string where [go_defs]: "Version = ''gateway-platform-v1''"

record policy_context =
  DataClass :: string
  RoutingMode :: string
  AllowedModels :: "string list"
  ToolsAllowed :: bool

record conversation_context =
  cc_ID :: string
  cc_Version :: int
  cc_RetentionPolicy :: string

record request =
  ContractVersion :: string
  RequestID :: string
  TraceID :: string
  TenantScope :: string
  ProjectScope :: string
  ActorScope :: string
  Policy :: policy_context
  LogicalModel :: string
  PoolID :: string
  Endpoint :: string
  NormalizedInput :: "(string \<times> json) list"
  Stream :: bool
  Deadline :: "time option"
  req_Conversation :: "conversation_context option"
  IdempotencyKey :: string

record usage =
  InputTokens :: "int option"
  OutputTokens :: "int option"

record response =
  StatusCode :: int
  ContentType :: string
  Body :: body
  resp_Usage :: usage
  resp_DeploymentID :: string
  resp_RouteType :: string
  ConversationVersion :: int

record stream_result =
  sr_Usage :: usage
  sr_DeploymentID :: string
  sr_RouteType :: string
  sr_ConversationVersion :: int
  ClientGone :: bool

record perror =
  Code :: string
  Message :: string
  RetryAfter :: int

definition no_usage :: usage where
  "no_usage = \<lparr>InputTokens = None, OutputTokens = None\<rparr>"

definition mk_error :: "string \<Rightarrow> string \<Rightarrow> int \<Rightarrow> perror" where
  "mk_error c m r = \<lparr>Code = c, Message = m, RetryAfter = r\<rparr>"

lemma Code_mk_error [simp]: "Code (mk_error c m r) = c"
  by (simp add: mk_error_def)

section \<open>Frozen error codes\<close>

definition ErrInvalidRequest :: string where [go_defs]: "ErrInvalidRequest = ''platform_invalid_request''"
definition ErrConversationConflict :: string where [go_defs]: "ErrConversationConflict = ''conversation_conflict''"
definition ErrModelNotAllowed :: string where [go_defs]: "ErrModelNotAllowed = ''model_not_allowed''"
definition ErrModelNotAvailable :: string where [go_defs]: "ErrModelNotAvailable = ''model_not_available''"
definition ErrCapacityExhausted :: string where [go_defs]: "ErrCapacityExhausted = ''capacity_exhausted''"
definition ErrInferenceTimeout :: string where [go_defs]: "ErrInferenceTimeout = ''inference_timeout''"
definition ErrPlatformNotReady :: string where [go_defs]: "ErrPlatformNotReady = ''platform_not_ready''"
definition ErrInternalContract :: string where [go_defs]: "ErrInternalContract = ''internal_contract_error''"

definition frozen_codes :: "string list" where
  "frozen_codes = [ErrInvalidRequest, ErrConversationConflict, ErrModelNotAllowed, ErrModelNotAvailable,
     ErrCapacityExhausted, ErrInferenceTimeout, ErrPlatformNotReady, ErrInternalContract]"

definition HTTPStatus :: "string \<Rightarrow> int" where
  "HTTPStatus code =
     (if code = ErrInvalidRequest then 400
      else if code = ErrConversationConflict then 409
      else if code = ErrModelNotAllowed then 403
      else if code = ErrModelNotAvailable \<or> code = ErrPlatformNotReady then 503
      else if code = ErrCapacityExhausted then 429
      else if code = ErrInferenceTimeout then 504
      else 502)"

definition GatewayErrorCode :: "string \<Rightarrow> string" where
  "GatewayErrorCode code =
     (if code = ErrInvalidRequest then ''invalid_request''
      else if code = ErrConversationConflict then ''conversation_conflict''
      else if code = ErrModelNotAllowed then ''policy_denied''
      else if code = ErrModelNotAvailable \<or> code = ErrPlatformNotReady then ''model_unavailable''
      else if code = ErrCapacityExhausted then ''rate_limit_exceeded''
      else if code = ErrInferenceTimeout then ''inference_timeout''
      else ''server_error'')"

section \<open>Route status and capabilities\<close>

record model_info =
  LogicalName :: string
  mi_Ready :: bool

record deployment_status =
  ds_ID :: string
  ds_RouteType :: string
  ds_Status :: string

record route_status =
  rs_LogicalModel :: string
  rs_Ready :: bool
  rs_Deployments :: "deployment_status list"

record capabilities =
  cap_ContractVersion :: string
  cap_Streaming :: bool
  cap_Conversation :: bool
  cap_NativeEngine :: bool
  cap_DistributedPool :: bool
  cap_TaskDecomposition :: bool

section \<open>Reading a chat completion\<close>

text \<open>
  The anonymous struct with which the workflow runner (\<open>service.go\<close> 611-622) and the orchestrator
  (\<open>assistantFromBody\<close>) read \<open>choices[0].message.content\<close>; other members are ignored.
\<close>

definition dec_probe_message :: "string \<Rightarrow> json \<Rightarrow> string \<Rightarrow> string option" where
  "dec_probe_message k v s = (if key_eq k ''content'' then dec_string s v else Some s)"

definition dec_probe_choice :: "string \<Rightarrow> json \<Rightarrow> string \<Rightarrow> string option" where
  "dec_probe_choice k v s = (if key_eq k ''message'' then dec_struct dec_probe_message s v else Some s)"

definition dec_probe :: "string \<Rightarrow> json \<Rightarrow> string list \<Rightarrow> string list option" where
  "dec_probe k v s = (if key_eq k ''choices'' then dec_list (dec_struct dec_probe_choice []) s v else Some s)"

definition first_content :: "body \<Rightarrow> string option" where
  "first_content b =
     (case unmarshal (dec_struct dec_probe []) b of
        Some (c # _) \<Rightarrow> Some c
      | _ \<Rightarrow> None)"

section \<open>Engine contract\<close>

record message =
  Role :: string
  Content :: string

record engine_input =
  Messages :: "message list"
  Prompt :: string

record engine_generation =
  eg_MaxOutputTokens :: int
  eg_Temperature :: "string option"
  eg_TopP :: "string option"
  eg_TopK :: "int option"
  eg_Seed :: "int option"
  eg_Stop :: "string list"

record scheduling =
  Priority :: int
  DeadlineUnixMS :: int

record cache =
  ReuseHandle :: string
  AllowPrefixCache :: bool

record generate_request =
  gr_RequestID :: string
  gr_TraceID :: string
  gr_TenantScope :: string
  gr_ProjectScope :: string
  ModelInstanceID :: string
  gr_Input :: engine_input
  gr_Generation :: engine_generation
  gr_Scheduling :: scheduling
  gr_Cache :: cache

record usage_info =
  ui_InputTokens :: int
  ui_OutputTokens :: int
  ui_TotalTokens :: int

record timing_info =
  QueueMS :: int
  TokenizeMS :: int
  PrefillMS :: int
  DecodeMS :: int
  TotalMS :: int

record generate_response =
  gres_RequestID :: string
  gres_ModelInstanceID :: string
  OutputText :: string
  FinishReason :: string
  gres_Usage :: usage_info
  gres_Timing :: timing_info
  gres_Cache :: cache

record engine_error =
  ee_RequestID :: string
  ee_Code :: string
  ee_Message :: string
  ee_Retryable :: bool
  ee_Component :: string

record stream_event =
  se_Type :: string
  se_RequestID :: string
  se_Sequence :: int
  se_TimestampMS :: int
  Delta :: string
  se_Usage :: "usage_info option"
  se_Final :: "generate_response option"
  se_Err :: "engine_error option"

text \<open>Event types and the engine error codes (\<open>engine.go\<close> 94-100, 127-145).\<close>

definition EventStarted :: string where [go_defs]: "EventStarted = ''response.started''"
definition EventTextDelta :: string where [go_defs]: "EventTextDelta = ''response.output_text.delta''"
definition EventUsage :: string where [go_defs]: "EventUsage = ''response.usage''"
definition EventCompleted :: string where [go_defs]: "EventCompleted = ''response.completed''"
definition EventError :: string where [go_defs]: "EventError = ''response.error''"

definition CodeInvalidRequest :: string where [go_defs]: "CodeInvalidRequest = ''invalid_request''"
definition CodeAuthenticationFailed :: string where [go_defs]: "CodeAuthenticationFailed = ''authentication_failed''"
definition CodeModelNotLoaded :: string where [go_defs]: "CodeModelNotLoaded = ''model_not_loaded''"
definition CodeUnsupportedModel :: string where [go_defs]: "CodeUnsupportedModel = ''unsupported_model''"
definition CodeArtifactVerificationFailed :: string where [go_defs]: "CodeArtifactVerificationFailed = ''artifact_verification_failed''"
definition CodeContextLengthExceeded :: string where [go_defs]: "CodeContextLengthExceeded = ''context_length_exceeded''"
definition CodeResourceExhausted :: string where [go_defs]: "CodeResourceExhausted = ''resource_exhausted''"
definition CodeCapacityExhausted :: string where [go_defs]: "CodeCapacityExhausted = ''capacity_exhausted''"
definition CodeDeadlineRejected :: string where [go_defs]: "CodeDeadlineRejected = ''deadline_rejected''"
definition CodeDeadlineExceeded :: string where [go_defs]: "CodeDeadlineExceeded = ''deadline_exceeded''"
definition CodeRequestCancelled :: string where [go_defs]: "CodeRequestCancelled = ''request_cancelled''"
definition CodeEngineDraining :: string where [go_defs]: "CodeEngineDraining = ''engine_draining''"
definition CodeGPUOOM :: string where [go_defs]: "CodeGPUOOM = ''gpu_oom''"
definition CodeGPUUnhealthy :: string where [go_defs]: "CodeGPUUnhealthy = ''gpu_unhealthy''"
definition CodeInferenceFailed :: string where [go_defs]: "CodeInferenceFailed = ''inference_failed''"
definition CodeStreamConsumerSlow :: string where [go_defs]: "CodeStreamConsumerSlow = ''stream_consumer_slow''"
definition CodeInternalError :: string where [go_defs]: "CodeInternalError = ''internal_error''"

definition PlatformCode :: "string \<Rightarrow> string" where
  "PlatformCode engineCode =
     (if engineCode = CodeInvalidRequest \<or> engineCode = CodeContextLengthExceeded
      then ''platform_invalid_request''
      else if engineCode = CodeModelNotLoaded \<or> engineCode = CodeUnsupportedModel
        \<or> engineCode = CodeArtifactVerificationFailed \<or> engineCode = CodeGPUUnhealthy
        \<or> engineCode = CodeEngineDraining
      then ''model_not_available''
      else if engineCode = CodeResourceExhausted \<or> engineCode = CodeCapacityExhausted
        \<or> engineCode = CodeGPUOOM
      then ''capacity_exhausted''
      else if engineCode = CodeDeadlineRejected \<or> engineCode = CodeDeadlineExceeded
      then ''inference_timeout''
      else ''internal_contract_error'')"

lemma PlatformCode_frozen: "PlatformCode c \<in> set frozen_codes"
  by (simp add: PlatformCode_def frozen_codes_def go_defs)

lemma PlatformCode_timeout:
  "PlatformCode c = ErrInferenceTimeout \<longleftrightarrow> c = CodeDeadlineRejected \<or> c = CodeDeadlineExceeded"
  by (simp add: PlatformCode_def go_defs)

end
