(* ===== verification/Template.thy ===== *)
theory Template
  imports Prelude
begin

text \<open>
  The template engine of the workflows (\<open>platform/workflow/template.go\<close>): references
  \<open>{{path}}\<close>, where the path is a dotted sequence of identifiers, are replaced in one pass by
  the values of an environment. The regular expression \<open>refPattern\<close> is the recogniser
  \<open>ref_at\<close>; its leftmost, non-overlapping matches cut the template into tokens.
\<close>

section \<open>The reference pattern\<close>

definition is_word :: "char \<Rightarrow> bool" where
  "is_word c \<longleftrightarrow> is_lower c \<or> is_upper c \<or> is_digit c \<or> c = CHR ''_''"

text \<open>\<open>\s\<close> of Go's regular expressions: tab, newline, form feed, return, space.\<close>

definition is_re_space :: "char \<Rightarrow> bool" where
  "is_re_space c \<longleftrightarrow> c \<in> {CHR 0x09, CHR 0x0A, CHR 0x0C, CHR 0x0D, CHR 0x20}"

text \<open>The longest dotted path at the start: identifiers separated by single dots.\<close>

function ident_path :: "string \<Rightarrow> (string \<times> string) option" where
  "ident_path s =
     (if takeWhile is_word s = [] then None
      else case dropWhile is_word s of
        [] \<Rightarrow> Some (s, [])
      | c # r \<Rightarrow>
          if c = CHR ''.'' then
            (case ident_path r of
               None \<Rightarrow> Some (takeWhile is_word s, c # r)
             | Some (p, r') \<Rightarrow> Some (takeWhile is_word s @ c # p, r'))
          else Some (takeWhile is_word s, c # r))"

  by pat_completeness auto
termination
  by (relation "measure length") (auto intro: dropWhile_shorter)

declare ident_path.simps [simp del]

text \<open>
  A match of \<open>refPattern\<close> at the start of the text: its path and the text after it. No path
  character is a space, a dot is followed by an identifier and the closing braces are neither,
  so greedy matching without backtracking finds the only match there can be
  (\<open>ref_at_iff\<close> below).
\<close>

definition close_at :: "string \<Rightarrow> string option" where
  "close_at s = (if take 2 (dropWhile is_re_space s) = ''}}'' then Some (drop 2 (dropWhile is_re_space s)) else None)"

definition ref_at :: "string \<Rightarrow> (string \<times> string) option" where
  "ref_at s =
     (if take 2 s \<noteq> ''{{'' then None
      else case ident_path (dropWhile is_re_space (drop 2 s)) of
        None \<Rightarrow> None
      | Some (p, r) \<Rightarrow> (case close_at r of None \<Rightarrow> None | Some r' \<Rightarrow> Some (p, r')))"

definition valid_path :: "string \<Rightarrow> bool" where
  "valid_path p \<longleftrightarrow> list_all (\<lambda>w. w \<noteq> [] \<and> list_all is_word w) (split_on CHR ''.'' p)"

lemma word_not_dot [simp]: "\<not> is_word CHR ''.''"
  by (simp add: is_word_def is_lower_def is_upper_def is_digit_def less_eq_char_def)

lemma word_not_brace [simp]: "\<not> is_word CHR ''}''" "\<not> is_word CHR ''{''"
  by (simp_all add: is_word_def is_lower_def is_upper_def is_digit_def less_eq_char_def)

lemma space_facts: "is_re_space c \<Longrightarrow> \<not> is_word c \<and> c \<noteq> CHR ''.'' \<and> c \<noteq> CHR ''}'' \<and> c \<noteq> CHR ''{''"
  by (auto simp: is_re_space_def is_word_def is_lower_def is_upper_def is_digit_def less_eq_char_def)

lemma no_space_braces [simp]: "\<not> is_re_space CHR ''}''" "\<not> is_re_space CHR ''.''"
  by (simp_all add: is_re_space_def)

lemma valid_path_word: "w \<noteq> [] \<Longrightarrow> list_all is_word w \<Longrightarrow> valid_path w"
proof -
  assume w: "w \<noteq> []" "list_all is_word w"
  then have "CHR ''.'' \<notin> set w" using word_not_dot by (auto simp: list_all_iff simp del: word_not_dot)
  with w show ?thesis by (simp add: valid_path_def split_on_absent)
qed

lemma valid_path_dot:
  assumes "list_all is_word w" "w \<noteq> []"
  shows "valid_path (w @ CHR ''.'' # p) \<longleftrightarrow> valid_path p"
proof -
  have "CHR ''.'' \<notin> set w" using assms word_not_dot by (auto simp: list_all_iff simp del: word_not_dot)
  with assms show ?thesis by (simp add: valid_path_def split_on_append)
qed

lemma takeWhile_words [simp]: "list_all is_word (takeWhile is_word s)"
  by (auto simp: list_all_iff dest: set_takeWhileD)

lemma ident_path_sound: "ident_path s = Some (p, r) \<Longrightarrow> s = p @ r \<and> valid_path p \<and> p \<noteq> []"
proof (induction s arbitrary: p r rule: ident_path.induct)
  case (1 s)
  let ?w = "takeWhile is_word s"
  have w: "?w \<noteq> []" using "1.prems" by (subst (asm) ident_path.simps) (simp split: if_splits)
  show ?case
  proof (cases "dropWhile is_word s")
    case Nil
    then have "s = ?w" by (metis append_Nil2 takeWhile_dropWhile_id)
    moreover have "p = s" "r = []" using "1.prems" w Nil by (subst (asm) ident_path.simps, simp)+
    ultimately show ?thesis using w valid_path_word [OF w takeWhile_words] by (metis append_Nil2)
  next
    case (Cons c rest)
    show ?thesis
    proof (cases "c = CHR ''.'' \<and> ident_path rest \<noteq> None")
      case False
      then have "ident_path s = Some (?w, c # rest)"
        using w Cons by (subst ident_path.simps) (auto split: option.splits)
      with "1.prems" have "p = ?w" "r = c # rest" by simp_all
      then show ?thesis using valid_path_word [OF w takeWhile_words] w
        by (metis Cons takeWhile_dropWhile_id)
    next
      case True
      then obtain p' r' where i: "ident_path rest = Some (p', r')" and c: "c = CHR ''.''" by auto
      then have "ident_path s = Some (?w @ CHR ''.'' # p', r')"
        using w Cons by (subst ident_path.simps) simp
      with "1.prems" i have p': "ident_path rest = Some (p', r)" and p: "p = ?w @ CHR ''.'' # p'" by simp_all
      have "rest = p' @ r \<and> valid_path p'"
        using "1.IH" [OF w Cons _ p'] True by blast
      moreover have "valid_path p"
        using calculation p valid_path_dot [OF takeWhile_words w] by simp
      moreover have "s = ?w @ CHR ''.'' # rest"
        using True Cons by (metis takeWhile_dropWhile_id)
      ultimately show ?thesis using p by (metis append_Cons append_assoc append_is_Nil_conv w)
    qed
  qed
qed

text \<open>What may follow a path for the greedy match to stop there.\<close>

definition stops :: "string \<Rightarrow> bool" where
  "stops r \<longleftrightarrow> (case r of [] \<Rightarrow> True | c # _ \<Rightarrow> \<not> is_word c \<and> c \<noteq> CHR ''.'')"

lemma takeWhile_stop: "list_all P w \<Longrightarrow> (case r of [] \<Rightarrow> True | c # _ \<Rightarrow> \<not> P c)
    \<Longrightarrow> takeWhile P (w @ r) = w \<and> dropWhile P (w @ r) = r"
  by (induction w) (auto split: list.splits)

lemma ident_path_complete: "valid_path p \<Longrightarrow> stops r \<Longrightarrow> ident_path (p @ r) = Some (p, r)"
proof (induction "length p" arbitrary: p rule: less_induct)
  case less
  show ?case
  proof (cases "cut CHR ''.'' p")
    case None
    then have nd: "CHR ''.'' \<notin> set p" by (simp add: cut_None)
    with less.prems have p: "p \<noteq> []" "list_all is_word p" by (simp_all add: valid_path_def split_on_absent)
    from less.prems have "takeWhile is_word (p @ r) = p" "dropWhile is_word (p @ r) = r"
      using takeWhile_stop [OF p(2), of r] by (auto simp: stops_def split: list.splits)
    with p less.prems show ?thesis
      by (subst ident_path.simps) (auto simp: stops_def split: list.splits)
  next
    case (Some ab)
    then obtain w q where c: "cut CHR ''.'' p = Some (w, q)" by (cases ab) auto
    then have p: "p = w @ CHR ''.'' # q" "CHR ''.'' \<notin> set w" by (auto dest: cut_Some)
    with less.prems have w: "w \<noteq> []" "list_all is_word w" and q: "valid_path q"
      by (auto simp: valid_path_def split_on_append)
    have "takeWhile is_word (p @ r) = w" "dropWhile is_word (p @ r) = CHR ''.'' # q @ r"
      using takeWhile_stop [OF w(2), of "CHR ''.'' # q @ r"] p by auto
    moreover have "ident_path (q @ r) = Some (q, r)"
      using less.hyps [of q] q less.prems p by simp
    ultimately show ?thesis using w p by (subst ident_path.simps) simp
  qed
qed

lemma close_at_iff:
  "close_at s = Some r \<longleftrightarrow> (\<exists>sp. list_all is_re_space sp \<and> s = sp @ ''}}'' @ r)"
proof
  assume c: "close_at s = Some r"
  then have t: "take 2 (dropWhile is_re_space s) = ''}}''" and r: "r = drop 2 (dropWhile is_re_space s)"
    by (auto simp: close_at_def split: if_splits)
  have "dropWhile is_re_space s = ''}}'' @ r"
    by (metis append_take_drop_id t r)
  then have "s = takeWhile is_re_space s @ ''}}'' @ r"
    by (metis takeWhile_dropWhile_id)
  then show "\<exists>sp. list_all is_re_space sp \<and> s = sp @ ''}}'' @ r"
    by (metis list_all_iff set_takeWhileD)
next
  assume "\<exists>sp. list_all is_re_space sp \<and> s = sp @ ''}}'' @ r"
  then obtain sp where sp: "list_all is_re_space sp" and s: "s = sp @ ''}}'' @ r" by blast
  have "dropWhile is_re_space s = ''}}'' @ r"
    unfolding s using takeWhile_stop [OF sp, of "''}}'' @ r"] by simp
  then show "close_at s = Some r" by (simp add: close_at_def)
qed

text \<open>The recogniser and the regular expression agree.\<close>

lemma ref_at_iff:
  "ref_at s = Some (p, r) \<longleftrightarrow>
     (\<exists>sp1 sp2. list_all is_re_space sp1 \<and> list_all is_re_space sp2 \<and> valid_path p
        \<and> s = ''{{'' @ sp1 @ p @ sp2 @ ''}}'' @ r)"
proof
  assume r: "ref_at s = Some (p, r)"
  let ?d = "dropWhile is_re_space (drop 2 s)"
  from r obtain r' where t: "take 2 s = ''{{''" and i: "ident_path ?d = Some (p, r')" and c: "close_at r' = Some r"
    by (auto simp: ref_at_def split: if_splits option.splits)
  obtain sp2 where sp2: "list_all is_re_space sp2" "r' = sp2 @ ''}}'' @ r"
    using c close_at_iff by blast
  have d: "?d = p @ r'" and v: "valid_path p" using ident_path_sound [OF i] by auto
  have "drop 2 s = takeWhile is_re_space (drop 2 s) @ p @ r'"
    by (metis d takeWhile_dropWhile_id)
  then have "s = ''{{'' @ takeWhile is_re_space (drop 2 s) @ p @ sp2 @ ''}}'' @ r"
    by (metis append_take_drop_id t sp2(2))
  moreover have "list_all is_re_space (takeWhile is_re_space (drop 2 s))"
    by (metis list_all_iff set_takeWhileD)
  ultimately show "\<exists>sp1 sp2. list_all is_re_space sp1 \<and> list_all is_re_space sp2 \<and> valid_path p
        \<and> s = ''{{'' @ sp1 @ p @ sp2 @ ''}}'' @ r"
    using sp2(1) v by blast
next
  assume "\<exists>sp1 sp2. list_all is_re_space sp1 \<and> list_all is_re_space sp2 \<and> valid_path p
        \<and> s = ''{{'' @ sp1 @ p @ sp2 @ ''}}'' @ r"
  then obtain sp1 sp2 where sp: "list_all is_re_space sp1" "list_all is_re_space sp2" and v: "valid_path p"
    and s: "s = ''{{'' @ sp1 @ p @ sp2 @ ''}}'' @ r" by blast
  have pne: "p \<noteq> [] \<and> is_word (hd p)"
    using v by (cases p) (auto simp: valid_path_def split: if_splits list.splits)
  then obtain c p' where p: "p = c # p'" and "is_word c" by (cases p) auto
  then have "\<not> is_re_space c" using space_facts by blast
  then have d: "dropWhile is_re_space (drop 2 s) = p @ sp2 @ ''}}'' @ r"
    using takeWhile_stop [OF sp(1), of "p @ sp2 @ ''}}'' @ r"] p s by simp
  have "stops (sp2 @ ''}}'' @ r)"
    using sp(2) space_facts by (cases sp2) (auto simp: stops_def)
  then have "ident_path (p @ sp2 @ ''}}'' @ r) = Some (p, sp2 @ ''}}'' @ r)"
    by (rule ident_path_complete [OF v])
  moreover have "close_at (sp2 @ ''}}'' @ r) = Some r"
    using sp(2) close_at_iff by blast
  ultimately show "ref_at s = Some (p, r)"
    using d s by (simp add: ref_at_def)
qed

lemma ref_at_shorter: "ref_at s = Some (p, r) \<Longrightarrow> length r < length s"
  by (auto simp: ref_at_iff)

section \<open>Rendering\<close>

text \<open>The leftmost matches and the characters between them.\<close>

datatype token = Lit char | Ref string

function tokens :: "string \<Rightarrow> token list" where
  "tokens s =
     (case s of
        [] \<Rightarrow> []
      | c # cs \<Rightarrow>
          (case ref_at s of None \<Rightarrow> Lit c # tokens cs | Some (p, r) \<Rightarrow> Ref p # tokens r))"
  by pat_completeness auto
termination
  by (relation "measure length") (auto dest: ref_at_shorter)

declare tokens.simps [simp del]

lemma tokens_Nil [simp]: "tokens [] = []"
  by (simp add: tokens.simps)

definition TemplateRefs :: "string \<Rightarrow> string list" where
  "TemplateRefs tpl = concat (map (\<lambda>t. case t of Ref p \<Rightarrow> [p] | Lit _ \<Rightarrow> []) (tokens tpl))"

datatype template_error = Malformed | UndefinedReference "string list"

text \<open>The template without its references must not hold an opening pair of braces any more.\<close>

definition stripped :: "string \<Rightarrow> string" where
  "stripped tpl = concat (map (\<lambda>t. case t of Lit c \<Rightarrow> [c] | Ref _ \<Rightarrow> []) (tokens tpl))"

fun loose_brace :: "string \<Rightarrow> bool" where
  "loose_brace (c # d # s) = (c = CHR ''{'' \<and> d = CHR ''{'' \<or> loose_brace (d # s))"
| "loose_brace _ = False"

definition CheckTemplateSyntax :: "string \<Rightarrow> template_error + unit" where
  "CheckTemplateSyntax tpl = guard (\<not> loose_brace (stripped tpl)) Malformed"

definition RenderTemplate :: "string \<Rightarrow> (string \<Rightarrow> string option) \<Rightarrow> template_error + string" where
  "RenderTemplate tpl vars =
     res_bind (CheckTemplateSyntax tpl) (\<lambda>_.
       let missing = filter (\<lambda>p. vars p = None) (TemplateRefs tpl);
           out = concat (map (\<lambda>t. case t of Lit c \<Rightarrow> [c] | Ref p \<Rightarrow> (case vars p of None \<Rightarrow> [] | Some v \<Rightarrow> v)) (tokens tpl))
       in if missing \<noteq> [] then Inl (UndefinedReference missing) else Inr out)"

text \<open>Rendering is total on checked templates whose references are all bound, and only there.\<close>

lemma RenderTemplate_Inr:
  "(\<exists>out. RenderTemplate tpl vars = Inr out) \<longleftrightarrow>
     CheckTemplateSyntax tpl = Inr () \<and> (\<forall>p\<in>set (TemplateRefs tpl). vars p \<noteq> None)"
  by (auto simp: RenderTemplate_def res_bind_Inr Let_def filter_empty_conv)

lemma tokens_ref:
  assumes "ref_at s = Some (p, r)"
  shows "tokens s = Ref p # tokens r"
proof -
  have "s \<noteq> []" using assms by (auto simp: ref_at_iff)
  with assms show ?thesis by (subst tokens.simps) (auto split: list.splits)
qed

lemma tokens_lit: "ref_at (c # cs) = None \<Longrightarrow> tokens (c # cs) = Lit c # tokens cs"
  by (subst tokens.simps) simp

lemma tokens_plain:
  assumes "CHR ''{'' \<notin> set a"
  shows "tokens (a @ b) = map Lit a @ tokens b"
  using assms
proof (induction a)
  case (Cons c a)
  then have "ref_at (c # a @ b) = None" by (cases "a @ b") (auto simp: ref_at_def)
  with Cons show ?case by (simp add: tokens_lit)
qed simp

lemma CheckTemplateSyntax_plain: "CHR ''{'' \<notin> set s \<Longrightarrow> CheckTemplateSyntax s = Inr ()"
proof -
  assume s: "CHR ''{'' \<notin> set s"
  have l: "stripped s = s"
    using tokens_plain [OF s, of "[]"] by (simp add: stripped_def comp_def)
  have "\<not> loose_brace t" if "CHR ''{'' \<notin> set t" for t
    using that by (induction t rule: loose_brace.induct) auto
  with s l show ?thesis by (simp add: CheckTemplateSyntax_def)
qed

text \<open>A reference after literal text, rendered.\<close>

lemma RenderTemplate_ref:
  assumes pre: "CHR ''{'' \<notin> set pre"
    and ref: "ref_at s = Some (p, post)"
    and r: "RenderTemplate (pre @ s) vars = Inr out"
  shows "\<exists>v rest. vars p = Some v \<and> RenderTemplate post vars = Inr rest \<and> out = pre @ v @ rest"
proof -
  have t: "tokens (pre @ s) = map Lit pre @ Ref p # tokens post"
    using tokens_plain [OF pre, of s] tokens_ref [OF ref] by simp
  have lb: "loose_brace (pre @ x) \<longleftrightarrow> loose_brace x" for x
    using pre
  proof (induction pre)
    case (Cons c pre)
    then show ?case by (cases "pre @ x") auto
  qed simp
  have st: "stripped (pre @ s) = pre @ stripped post"
    by (simp add: stripped_def t comp_def)
  have refs: "TemplateRefs (pre @ s) = p # TemplateRefs post"
    by (simp add: TemplateRefs_def t comp_def)
  from r have chk: "\<not> loose_brace (stripped post)"
    and ok: "\<forall>q\<in>set (p # TemplateRefs post). vars q \<noteq> None"
    by (auto simp: RenderTemplate_def CheckTemplateSyntax_def st lb refs Let_def filter_empty_conv
        res_simps split: if_splits)
  from ok obtain v where v: "vars p = Some v" by auto
  have miss: "filter (\<lambda>q. vars q = None) (TemplateRefs post) = []"
    "filter (\<lambda>q. vars q = None) (TemplateRefs (pre @ s)) = []"
    using ok by (simp_all add: filter_empty_conv refs)
  show ?thesis
    using r v chk miss
    by (auto simp: RenderTemplate_def CheckTemplateSyntax_def st lb t Let_def comp_def)
qed

section \<open>Properties\<close>

text \<open>\<open>refPattern\<close> is recognised exactly: a match at the start of a text with captured path
  \<open>p\<close> and remaining text \<open>r\<close> is found if and only if the text is two opening braces, spaces, a
  dotted path of identifiers \<open>p\<close>, spaces, two closing braces and \<open>r\<close>.\<close>

theorem reference_recognised_exactly:
  "ref_at s = Some (p, r) \<longleftrightarrow>
     (\<exists>sp1 sp2. list_all is_re_space sp1 \<and> list_all is_re_space sp2 \<and> valid_path p
        \<and> s = ''{{'' @ sp1 @ p @ sp2 @ ''}}'' @ r)"
  by (rule ref_at_iff)

text \<open>A successful rendering is a single pass: the value of a reference enters the output
  verbatim, whatever it contains (references included), between the literal text before it and
  the rendering of the template after it.\<close>

theorem render_single_pass:
  assumes "CHR ''{'' \<notin> set pre" and "list_all is_re_space sp1" and "list_all is_re_space sp2"
    and "valid_path p"
    and "RenderTemplate (pre @ ''{{'' @ sp1 @ p @ sp2 @ ''}}'' @ post) vars = Inr out"
  shows "\<exists>v rest. vars p = Some v \<and> RenderTemplate post vars = Inr rest \<and> out = pre @ v @ rest"
proof (rule RenderTemplate_ref [OF assms(1) _ assms(5)])
  show "ref_at (''{{'' @ sp1 @ p @ sp2 @ ''}}'' @ post) = Some (p, post)"
    unfolding ref_at_iff using assms(2-4) by blast
qed

lemma render_example:
  "RenderTemplate ''a{{ x }}b'' [''x'' \<mapsto> ''{{x}}''] = Inr ''a{{x}}b''"
  by code_simp

theorem render_single_pass_witness:
  "\<exists>v rest. [''x'' \<mapsto> ''{{x}}''] ''x'' = Some v
     \<and> RenderTemplate ''b'' [''x'' \<mapsto> ''{{x}}''] = Inr rest \<and> ''a{{x}}b'' = ''a'' @ v @ rest"
proof (rule render_single_pass [of "''a''" "'' ''" "'' ''" "''x''"])
  show "valid_path ''x''" by code_simp
  show "RenderTemplate (''a'' @ ''{{'' @ '' '' @ ''x'' @ '' '' @ ''}}'' @ ''b'') [''x'' \<mapsto> ''{{x}}''] = Inr ''a{{x}}b''"
    using render_example by simp
qed (simp_all add: is_re_space_def)

end
