(* ===== verification/FlowDef.thy ===== *)
theory FlowDef
  imports Json Template
begin

text \<open>
  Flow definitions (\<open>platform/workflow/flowdef.go\<close>): the data model, the strict parser, the
  validation of a definition against the catalog and the validation of the inputs of a run.

  The Go maps of a definition are association lists in the order one iteration takes. Each
  message of \<open>Validate\<close> is a constructor of \<open>def_error\<close>; \<open>AtStep i e\<close> is the message with the
  prefix \<open>steps[i]\<close>.
\<close>

section \<open>Data model\<close>

record input_prop =
  ip_Type :: string
  ip_MaxLength :: int

record inputs_schema =
  is_Type :: string
  is_Required :: "string list"
  is_Properties :: "(string \<times> input_prop) list"
  is_AdditionalProperties :: "bool option"

record runtime_target =
  rt_LogicalModel :: string
  rt_PoolID :: string

record generation =
  gen_Temperature :: "string option"
  gen_TopP :: "string option"
  gen_MaxOutputTokens :: int

record retry_policy =
  rp_MaxAttempts :: int
  rp_PreferDifferentNode :: bool
  rp_BackoffMS :: int

record fallback_policy =
  fp_AllowedPoolIDs :: "string list"
  fp_AllowDegradedCapability :: bool

record step =
  st_StepID :: string
  st_Name :: string
  st_Type :: string
  st_DependsOn :: "string list"
  st_RuntimeTarget :: runtime_target
  st_SystemPrompt :: string
  st_InputMapping :: "(string \<times> string) list"
  st_Generation :: "generation option"
  st_TimeoutMS :: int
  st_RetryPolicy :: "retry_policy option"
  st_FallbackPolicy :: "fallback_policy option"
  st_OnError :: string

record limits =
  lim_TimeoutMS :: int
  lim_MaxTotalTokens :: int
  lim_MaxSteps :: int
  lim_MaxParallelism :: int

record flow_def =
  fd_Name :: string
  fd_Alias :: string
  fd_Description :: string
  fd_ExecutionMode :: string
  fd_DataClass :: string
  fd_ConversationMode :: string
  fd_InputsSchema :: "inputs_schema option"
  fd_Steps :: "step list"
  fd_OutputMapping :: "(string \<times> string) list"
  fd_Limits :: limits

definition MaxStepsW1 :: int where [go_defs]: "MaxStepsW1 = 20"
definition MaxAttemptsCap :: int where [go_defs]: "MaxAttemptsCap = 5"
definition MaxInputLenDefault :: int where [go_defs]: "MaxInputLenDefault = 100000"
definition DefaultTimeoutMS :: int where [go_defs]: "DefaultTimeoutMS = 180000"
definition DefaultMaxAttempts :: int where [go_defs]: "DefaultMaxAttempts = 1"
definition MaxTemplateOutBytes :: int where [go_defs]: "MaxTemplateOutBytes = 4 * 2 ^ 20"

section \<open>Strict parsing\<close>

text \<open>One decoder per struct; an unknown member is an error (\<open>DisallowUnknownFields\<close>).\<close>

definition input_prop0 :: input_prop where
  "input_prop0 = \<lparr>ip_Type = [], ip_MaxLength = 0\<rparr>"

definition dec_input_prop :: "string \<Rightarrow> json \<Rightarrow> input_prop \<Rightarrow> input_prop option" where
  "dec_input_prop k v s =
     (if key_eq k ''type'' then map_option (\<lambda>x. s\<lparr>ip_Type := x\<rparr>) (dec_string (ip_Type s) v)
      else if key_eq k ''maxLength'' then map_option (\<lambda>x. s\<lparr>ip_MaxLength := x\<rparr>) (dec_int (ip_MaxLength s) v)
      else None)"

definition inputs_schema0 :: inputs_schema where
  "inputs_schema0 = \<lparr>is_Type = [], is_Required = [], is_Properties = [], is_AdditionalProperties = None\<rparr>"

definition dec_inputs_schema :: "string \<Rightarrow> json \<Rightarrow> inputs_schema \<Rightarrow> inputs_schema option" where
  "dec_inputs_schema k v s =
     (if key_eq k ''type'' then map_option (\<lambda>x. s\<lparr>is_Type := x\<rparr>) (dec_string (is_Type s) v)
      else if key_eq k ''required'' then
        map_option (\<lambda>x. s\<lparr>is_Required := x\<rparr>) (dec_list (dec_string []) (is_Required s) v)
      else if key_eq k ''properties'' then
        map_option (\<lambda>x. s\<lparr>is_Properties := x\<rparr>)
          (dec_map (dec_struct dec_input_prop input_prop0) (is_Properties s) v)
      else if key_eq k ''additionalProperties'' then
        map_option (\<lambda>x. s\<lparr>is_AdditionalProperties := x\<rparr>) (dec_bool_ptr (is_AdditionalProperties s) v)
      else None)"

definition dec_runtime_target :: "string \<Rightarrow> json \<Rightarrow> runtime_target \<Rightarrow> runtime_target option" where
  "dec_runtime_target k v s =
     (if key_eq k ''logical_model'' then map_option (\<lambda>x. s\<lparr>rt_LogicalModel := x\<rparr>) (dec_string (rt_LogicalModel s) v)
      else if key_eq k ''pool_id'' then map_option (\<lambda>x. s\<lparr>rt_PoolID := x\<rparr>) (dec_string (rt_PoolID s) v)
      else None)"

definition generation0 :: generation where
  "generation0 = \<lparr>gen_Temperature = None, gen_TopP = None, gen_MaxOutputTokens = 0\<rparr>"

definition dec_generation :: "string \<Rightarrow> json \<Rightarrow> generation \<Rightarrow> generation option" where
  "dec_generation k v s =
     (if key_eq k ''temperature'' then map_option (\<lambda>x. s\<lparr>gen_Temperature := x\<rparr>) (dec_float_ptr (gen_Temperature s) v)
      else if key_eq k ''top_p'' then map_option (\<lambda>x. s\<lparr>gen_TopP := x\<rparr>) (dec_float_ptr (gen_TopP s) v)
      else if key_eq k ''max_output_tokens'' then
        map_option (\<lambda>x. s\<lparr>gen_MaxOutputTokens := x\<rparr>) (dec_int (gen_MaxOutputTokens s) v)
      else None)"

definition retry_policy0 :: retry_policy where
  "retry_policy0 = \<lparr>rp_MaxAttempts = 0, rp_PreferDifferentNode = False, rp_BackoffMS = 0\<rparr>"

definition dec_retry_policy :: "string \<Rightarrow> json \<Rightarrow> retry_policy \<Rightarrow> retry_policy option" where
  "dec_retry_policy k v s =
     (if key_eq k ''max_attempts'' then map_option (\<lambda>x. s\<lparr>rp_MaxAttempts := x\<rparr>) (dec_int (rp_MaxAttempts s) v)
      else if key_eq k ''prefer_different_node'' then
        map_option (\<lambda>x. s\<lparr>rp_PreferDifferentNode := x\<rparr>) (dec_bool (rp_PreferDifferentNode s) v)
      else if key_eq k ''backoff_ms'' then map_option (\<lambda>x. s\<lparr>rp_BackoffMS := x\<rparr>) (dec_int (rp_BackoffMS s) v)
      else None)"

definition fallback_policy0 :: fallback_policy where
  "fallback_policy0 = \<lparr>fp_AllowedPoolIDs = [], fp_AllowDegradedCapability = False\<rparr>"

definition dec_fallback_policy :: "string \<Rightarrow> json \<Rightarrow> fallback_policy \<Rightarrow> fallback_policy option" where
  "dec_fallback_policy k v s =
     (if key_eq k ''allowed_pool_ids'' then
        map_option (\<lambda>x. s\<lparr>fp_AllowedPoolIDs := x\<rparr>) (dec_list (dec_string []) (fp_AllowedPoolIDs s) v)
      else if key_eq k ''allow_degraded_capability'' then
        map_option (\<lambda>x. s\<lparr>fp_AllowDegradedCapability := x\<rparr>) (dec_bool (fp_AllowDegradedCapability s) v)
      else None)"

definition step0 :: step where
  "step0 = \<lparr>st_StepID = [], st_Name = [], st_Type = [], st_DependsOn = [],
     st_RuntimeTarget = \<lparr>rt_LogicalModel = [], rt_PoolID = []\<rparr>, st_SystemPrompt = [], st_InputMapping = [],
     st_Generation = None, st_TimeoutMS = 0, st_RetryPolicy = None, st_FallbackPolicy = None, st_OnError = []\<rparr>"

definition dec_step :: "string \<Rightarrow> json \<Rightarrow> step \<Rightarrow> step option" where
  "dec_step k v s =
     (if key_eq k ''step_id'' then map_option (\<lambda>x. s\<lparr>st_StepID := x\<rparr>) (dec_string (st_StepID s) v)
      else if key_eq k ''name'' then map_option (\<lambda>x. s\<lparr>st_Name := x\<rparr>) (dec_string (st_Name s) v)
      else if key_eq k ''type'' then map_option (\<lambda>x. s\<lparr>st_Type := x\<rparr>) (dec_string (st_Type s) v)
      else if key_eq k ''depends_on'' then
        map_option (\<lambda>x. s\<lparr>st_DependsOn := x\<rparr>) (dec_list (dec_string []) (st_DependsOn s) v)
      else if key_eq k ''runtime_target'' then
        map_option (\<lambda>x. s\<lparr>st_RuntimeTarget := x\<rparr>) (dec_struct dec_runtime_target (st_RuntimeTarget s) v)
      else if key_eq k ''system_prompt'' then
        map_option (\<lambda>x. s\<lparr>st_SystemPrompt := x\<rparr>) (dec_string (st_SystemPrompt s) v)
      else if key_eq k ''input_mapping'' then
        map_option (\<lambda>x. s\<lparr>st_InputMapping := x\<rparr>) (dec_map (dec_string []) (st_InputMapping s) v)
      else if key_eq k ''generation'' then
        map_option (\<lambda>x. s\<lparr>st_Generation := x\<rparr>) (dec_struct_ptr dec_generation generation0 (st_Generation s) v)
      else if key_eq k ''timeout_ms'' then map_option (\<lambda>x. s\<lparr>st_TimeoutMS := x\<rparr>) (dec_int (st_TimeoutMS s) v)
      else if key_eq k ''retry_policy'' then
        map_option (\<lambda>x. s\<lparr>st_RetryPolicy := x\<rparr>) (dec_struct_ptr dec_retry_policy retry_policy0 (st_RetryPolicy s) v)
      else if key_eq k ''fallback_policy'' then
        map_option (\<lambda>x. s\<lparr>st_FallbackPolicy := x\<rparr>)
          (dec_struct_ptr dec_fallback_policy fallback_policy0 (st_FallbackPolicy s) v)
      else if key_eq k ''on_error'' then map_option (\<lambda>x. s\<lparr>st_OnError := x\<rparr>) (dec_string (st_OnError s) v)
      else None)"

definition dec_limits :: "string \<Rightarrow> json \<Rightarrow> limits \<Rightarrow> limits option" where
  "dec_limits k v s =
     (if key_eq k ''timeout_ms'' then map_option (\<lambda>x. s\<lparr>lim_TimeoutMS := x\<rparr>) (dec_int (lim_TimeoutMS s) v)
      else if key_eq k ''max_total_tokens'' then
        map_option (\<lambda>x. s\<lparr>lim_MaxTotalTokens := x\<rparr>) (dec_int (lim_MaxTotalTokens s) v)
      else if key_eq k ''max_steps'' then map_option (\<lambda>x. s\<lparr>lim_MaxSteps := x\<rparr>) (dec_int (lim_MaxSteps s) v)
      else if key_eq k ''max_parallelism'' then
        map_option (\<lambda>x. s\<lparr>lim_MaxParallelism := x\<rparr>) (dec_int (lim_MaxParallelism s) v)
      else None)"

definition flow_def0 :: flow_def where
  "flow_def0 = \<lparr>fd_Name = [], fd_Alias = [], fd_Description = [], fd_ExecutionMode = [], fd_DataClass = [],
     fd_ConversationMode = [], fd_InputsSchema = None, fd_Steps = [], fd_OutputMapping = [],
     fd_Limits = \<lparr>lim_TimeoutMS = 0, lim_MaxTotalTokens = 0, lim_MaxSteps = 0, lim_MaxParallelism = 0\<rparr>\<rparr>"

definition dec_flow_def :: "string \<Rightarrow> json \<Rightarrow> flow_def \<Rightarrow> flow_def option" where
  "dec_flow_def k v s =
     (if key_eq k ''name'' then map_option (\<lambda>x. s\<lparr>fd_Name := x\<rparr>) (dec_string (fd_Name s) v)
      else if key_eq k ''alias'' then map_option (\<lambda>x. s\<lparr>fd_Alias := x\<rparr>) (dec_string (fd_Alias s) v)
      else if key_eq k ''description'' then map_option (\<lambda>x. s\<lparr>fd_Description := x\<rparr>) (dec_string (fd_Description s) v)
      else if key_eq k ''execution_mode'' then
        map_option (\<lambda>x. s\<lparr>fd_ExecutionMode := x\<rparr>) (dec_string (fd_ExecutionMode s) v)
      else if key_eq k ''data_class'' then map_option (\<lambda>x. s\<lparr>fd_DataClass := x\<rparr>) (dec_string (fd_DataClass s) v)
      else if key_eq k ''conversation_mode'' then
        map_option (\<lambda>x. s\<lparr>fd_ConversationMode := x\<rparr>) (dec_string (fd_ConversationMode s) v)
      else if key_eq k ''inputs_schema'' then
        map_option (\<lambda>x. s\<lparr>fd_InputsSchema := x\<rparr>)
          (dec_struct_ptr dec_inputs_schema inputs_schema0 (fd_InputsSchema s) v)
      else if key_eq k ''steps'' then
        map_option (\<lambda>x. s\<lparr>fd_Steps := x\<rparr>) (dec_list (dec_struct dec_step step0) (fd_Steps s) v)
      else if key_eq k ''output_mapping'' then
        map_option (\<lambda>x. s\<lparr>fd_OutputMapping := x\<rparr>) (dec_map (dec_string []) (fd_OutputMapping s) v)
      else if key_eq k ''limits'' then
        map_option (\<lambda>x. s\<lparr>fd_Limits := x\<rparr>) (dec_struct dec_limits (fd_Limits s) v)
      else None)"

datatype parse_error = BadDefinition | TrailingData

text \<open>
  The raw bytes are a first JSON value and the bytes that follow it. \<open>dec.More\<close> looks at the
  next byte that is no space: it reports more data unless that is a closing bracket or brace.
\<close>

definition dec_more :: "string \<Rightarrow> bool" where
  "dec_more rest =
     (case dropWhile (\<lambda>c. c \<in> {CHR 0x09, CHR 0x0A, CHR 0x0D, CHR 0x20}) rest of
        [] \<Rightarrow> False
      | c # _ \<Rightarrow> c \<noteq> CHR '']'' \<and> c \<noteq> CHR ''}'')"

definition ParseDefinition :: "body \<Rightarrow> string \<Rightarrow> parse_error + flow_def" where
  "ParseDefinition raw rest =
     (case unmarshal (dec_struct dec_flow_def flow_def0) raw of
        None \<Rightarrow> Inl BadDefinition
      | Some def \<Rightarrow> if dec_more rest then Inl TrailingData else Inr def)"

section \<open>Validation\<close>

record resolver =
  ModelExists :: "string \<Rightarrow> bool"
  PoolExists :: "string \<Rightarrow> bool"

datatype def_error =
    NameRequired
  | AliasInvalid string
  | ExecutionModeUnsupported
  | ConversationModeUnsupported string
  | ParallelismUnsupported
  | NoSteps
  | TooManySteps nat int
  | SchemaRequired
  | SchemaTypeInvalid
  | NoProperties
  | PropertyTypeInvalid string
  | RequiredUnknown string
  | StepIDInvalid string
  | StepIDNotUnique string
  | StepTypeUnsupported string
  | OnErrorUnsupported string
  | ModelRequired
  | ModelUnknown string
  | PoolUndefined string
  | FallbackPoolUndefined string
  | MaxAttemptsOutOfRange
  | DependsOnNotEarlier string
  | TextRequired
  | MappingKeyUnsupported string
  | TemplateInvalid
  | InputUndeclared string
  | StepUnknown string
  | StepNotInDependsOn string
  | ReferenceNotAllowed string
  | AtStep nat def_error
  | AtOutput def_error

definition id_tail :: "string \<Rightarrow> bool" where
  "id_tail cs \<longleftrightarrow> length cs \<le> 63"

definition step_id_ok :: "string \<Rightarrow> bool" where
  "step_id_ok s =
     (case s of [] \<Rightarrow> False
      | c # cs \<Rightarrow> is_lower c \<and> id_tail cs \<and> list_all (\<lambda>d. is_lower d \<or> is_digit d \<or> d = CHR ''_'') cs)"

definition alias_ok :: "string \<Rightarrow> bool" where
  "alias_ok s =
     (case s of [] \<Rightarrow> False
      | c # cs \<Rightarrow> (is_lower c \<or> is_digit c) \<and> id_tail cs
          \<and> list_all (\<lambda>d. is_lower d \<or> is_digit d \<or> d = CHR ''-'') cs)"

text \<open>One error when the condition holds: a call of \<open>fail\<close> under its guard.\<close>

definition fail_if :: "bool \<Rightarrow> 'e \<Rightarrow> 'e list" where
  "fail_if b e = (if b then [e] else [])"

lemma fail_if_Nil [simp]: "fail_if b e = [] \<longleftrightarrow> \<not> b"
  by (simp add: fail_if_def)

text \<open>The references a template may make: \<open>steps\<close> are the known step ids, \<open>deps\<close> the usable ones.\<close>

definition check_ref :: "string list \<Rightarrow> string list \<Rightarrow> string list \<Rightarrow> string \<Rightarrow> def_error list" where
  "check_ref inputs steps deps ref =
     (case split_on CHR ''.'' ref of
        [a, b] \<Rightarrow>
          if a = ''inputs'' then fail_if (b \<notin> set inputs) (InputUndeclared b)
          else fail_if (ref \<noteq> ''run.id'') (ReferenceNotAllowed ref)
      | [a, b, c] \<Rightarrow>
          if a = ''steps'' \<and> c = ''output'' then
            (if b \<notin> set steps then [StepUnknown b] else fail_if (b \<notin> set deps) (StepNotInDependsOn b))
          else fail_if (ref \<noteq> ''run.id'') (ReferenceNotAllowed ref)
      | _ \<Rightarrow> fail_if (ref \<noteq> ''run.id'') (ReferenceNotAllowed ref))"

definition checkRefs :: "string \<Rightarrow> string list \<Rightarrow> string list \<Rightarrow> string list \<Rightarrow> def_error list" where
  "checkRefs tpl inputs steps deps =
     (case CheckTemplateSyntax tpl of
        Inl _ \<Rightarrow> [TemplateInvalid]
      | Inr _ \<Rightarrow> concat (map (check_ref inputs steps deps) (TemplateRefs tpl)))"

text \<open>The \<open>text\<close> entry of a mapping is required, any other key is refused.\<close>

definition check_mapping :: "(string \<times> string) list \<Rightarrow> string list \<Rightarrow> string list \<Rightarrow> string list \<Rightarrow> def_error list" where
  "check_mapping m inputs steps deps =
     fail_if (map_of m ''text'' = None) TextRequired
     @ concat (map (\<lambda>(key, tpl). if key \<noteq> ''text'' then [MappingKeyUnsupported key]
                                  else checkRefs tpl inputs steps deps) m)"

text \<open>The body of the loop over the steps after its two \<open>continue\<close> guards.\<close>

definition check_step :: "resolver option \<Rightarrow> string list \<Rightarrow> string list \<Rightarrow> step \<Rightarrow> def_error list" where
  "check_step r inputs seen s =
     (let model = rt_LogicalModel (st_RuntimeTarget s); pool = rt_PoolID (st_RuntimeTarget s);
          unknown_model = (\<lambda>m. case r of None \<Rightarrow> False | Some rs \<Rightarrow> \<not> ModelExists rs m);
          unknown_pool = (\<lambda>p. case r of None \<Rightarrow> False | Some rs \<Rightarrow> \<not> PoolExists rs p) in
      fail_if (st_Type s \<noteq> ''LLM'') (StepTypeUnsupported (st_Type s))
      @ fail_if (st_OnError s \<notin> {[], ''STOP''}) (OnErrorUnsupported (st_OnError s))
      @ (if model = [] then [ModelRequired] else fail_if (unknown_model model) (ModelUnknown model))
      @ fail_if (pool \<noteq> [] \<and> unknown_pool pool) (PoolUndefined pool)
      @ (case st_FallbackPolicy s of None \<Rightarrow> []
         | Some fp \<Rightarrow> concat (map (\<lambda>p. fail_if (unknown_pool p) (FallbackPoolUndefined p)) (fp_AllowedPoolIDs fp)))
      @ (case st_RetryPolicy s of None \<Rightarrow> []
         | Some rp \<Rightarrow> fail_if (rp_MaxAttempts rp < 1 \<or> rp_MaxAttempts rp > MaxAttemptsCap) MaxAttemptsOutOfRange)
      @ concat (map (\<lambda>d. fail_if (d \<notin> set seen) (DependsOnNotEarlier d)) (st_DependsOn s))
      @ check_mapping (st_InputMapping s) inputs seen (st_DependsOn s))"

text \<open>The loop over the steps: the errors and the step ids seen, from step \<open>i\<close> on.\<close>

fun check_steps :: "resolver option \<Rightarrow> string list \<Rightarrow> nat \<Rightarrow> string list \<Rightarrow> step list \<Rightarrow> def_error list \<times> string list" where
  "check_steps r inputs i seen [] = ([], seen)"
| "check_steps r inputs i seen (s # ss) =
     (if \<not> step_id_ok (st_StepID s) then
        (let (es, seen') = check_steps r inputs (Suc i) seen ss in (AtStep i (StepIDInvalid (st_StepID s)) # es, seen'))
      else if st_StepID s \<in> set seen then
        (let (es, seen') = check_steps r inputs (Suc i) seen ss in (AtStep i (StepIDNotUnique (st_StepID s)) # es, seen'))
      else
        (let (es, seen') = check_steps r inputs (Suc i) (seen @ [st_StepID s]) ss
         in (map (AtStep i) (check_step r inputs seen s) @ es, seen')))"

definition check_schema :: "inputs_schema option \<Rightarrow> def_error list" where
  "check_schema sch =
     (case sch of
        None \<Rightarrow> [SchemaRequired]
      | Some is \<Rightarrow>
          fail_if (is_Type is \<noteq> ''object'') SchemaTypeInvalid
          @ fail_if (is_Properties is = []) NoProperties
          @ concat (map (\<lambda>(name, p). fail_if (ip_Type p \<noteq> ''string'') (PropertyTypeInvalid name)) (is_Properties is))
          @ concat (map (\<lambda>req. fail_if (req \<notin> fst ` set (is_Properties is)) (RequiredUnknown req)) (is_Required is)))"

definition input_names :: "flow_def \<Rightarrow> string list" where
  "input_names d = (case fd_InputsSchema d of None \<Rightarrow> [] | Some is \<Rightarrow> map fst (is_Properties is))"

definition max_steps :: "flow_def \<Rightarrow> int" where
  "max_steps d =
     (let m = lim_MaxSteps (fd_Limits d) in if m \<le> 0 \<or> m > MaxStepsW1 then MaxStepsW1 else m)"

definition Validate :: "flow_def \<Rightarrow> resolver option \<Rightarrow> def_error list" where
  "Validate d r =
     (let n = length (fd_Steps d);
          (step_errs, seen) = check_steps r (input_names d) 0 [] (fd_Steps d) in
      fail_if (fd_Name d = []) NameRequired
      @ fail_if (\<not> alias_ok (fd_Alias d)) (AliasInvalid (fd_Alias d))
      @ fail_if (fd_ExecutionMode d \<noteq> ''SEQUENTIAL'') ExecutionModeUnsupported
      @ fail_if (fd_ConversationMode d \<notin> {[], ''STATELESS''}) (ConversationModeUnsupported (fd_ConversationMode d))
      @ fail_if (lim_MaxParallelism (fd_Limits d) > 1) ParallelismUnsupported
      @ fail_if (n = 0) NoSteps
      @ fail_if (int n > max_steps d) (TooManySteps n (max_steps d))
      @ check_schema (fd_InputsSchema d)
      @ step_errs
      @ map AtOutput (check_mapping (fd_OutputMapping d) (input_names d) seen seen))"

section \<open>Inputs of a run\<close>

datatype input_error =
    NoSchema
  | MissingInput string
  | UnexpectedInput string
  | InputTooLong string int

definition check_input :: "inputs_schema \<Rightarrow> string \<times> string \<Rightarrow> input_error option" where
  "check_input is nv =
     (case map_of (is_Properties is) (fst nv) of
        None \<Rightarrow> Some (UnexpectedInput (fst nv))
      | Some p \<Rightarrow>
          (let maxLen = (if ip_MaxLength p \<le> 0 then MaxInputLenDefault else ip_MaxLength p)
           in if int (length (snd nv)) > maxLen then Some (InputTooLong (fst nv) maxLen) else None))"

definition ValidateInputs :: "flow_def \<Rightarrow> (string \<times> string) list \<Rightarrow> input_error option" where
  "ValidateInputs d inputs =
     (case fd_InputsSchema d of
        None \<Rightarrow> Some NoSchema
      | Some is \<Rightarrow>
          (case List.find (\<lambda>req. req \<notin> fst ` set inputs) (is_Required is) of
             Some req \<Rightarrow> Some (MissingInput req)
           | None \<Rightarrow>
               (case List.find (\<lambda>nv. check_input is nv \<noteq> None) inputs of
                  None \<Rightarrow> None
                | Some nv \<Rightarrow> check_input is nv)))"

section \<open>What a valid definition is\<close>

definition ref_allowed :: "string list \<Rightarrow> string list \<Rightarrow> string \<Rightarrow> bool" where
  "ref_allowed inputs deps ref \<longleftrightarrow>
     ref = ''run.id''
     \<or> (\<exists>x\<in>set inputs. CHR ''.'' \<notin> set x \<and> ref = ''inputs.'' @ x)
     \<or> (\<exists>x\<in>set deps. CHR ''.'' \<notin> set x \<and> ref = ''steps.'' @ x @ ''.output'')"

definition wf_template :: "string list \<Rightarrow> string list \<Rightarrow> string \<Rightarrow> bool" where
  "wf_template inputs deps tpl \<longleftrightarrow>
     CheckTemplateSyntax tpl = Inr () \<and> (\<forall>ref\<in>set (TemplateRefs tpl). ref_allowed inputs deps ref)"

definition wf_mapping :: "string list \<Rightarrow> string list \<Rightarrow> (string \<times> string) list \<Rightarrow> bool" where
  "wf_mapping inputs deps m \<longleftrightarrow> m \<noteq> [] \<and> (\<forall>(k, tpl)\<in>set m. k = ''text'' \<and> wf_template inputs deps tpl)"

definition wf_step :: "resolver option \<Rightarrow> string list \<Rightarrow> string list \<Rightarrow> step \<Rightarrow> bool" where
  "wf_step r inputs earlier s \<longleftrightarrow>
     step_id_ok (st_StepID s) \<and> st_StepID s \<notin> set earlier
     \<and> st_Type s = ''LLM'' \<and> st_OnError s \<in> {[], ''STOP''}
     \<and> rt_LogicalModel (st_RuntimeTarget s) \<noteq> []
     \<and> (\<forall>rs. r = Some rs \<longrightarrow> ModelExists rs (rt_LogicalModel (st_RuntimeTarget s))
          \<and> (rt_PoolID (st_RuntimeTarget s) \<noteq> [] \<longrightarrow> PoolExists rs (rt_PoolID (st_RuntimeTarget s)))
          \<and> (\<forall>fp. st_FallbackPolicy s = Some fp \<longrightarrow> (\<forall>p\<in>set (fp_AllowedPoolIDs fp). PoolExists rs p)))
     \<and> (\<forall>rp. st_RetryPolicy s = Some rp \<longrightarrow> 1 \<le> rp_MaxAttempts rp \<and> rp_MaxAttempts rp \<le> MaxAttemptsCap)
     \<and> set (st_DependsOn s) \<subseteq> set earlier
     \<and> wf_mapping inputs (st_DependsOn s) (st_InputMapping s)"

definition wf_schema :: "inputs_schema \<Rightarrow> bool" where
  "wf_schema is \<longleftrightarrow> is_Type is = ''object'' \<and> is_Properties is \<noteq> []
     \<and> (\<forall>(name, p)\<in>set (is_Properties is). ip_Type p = ''string'')
     \<and> set (is_Required is) \<subseteq> fst ` set (is_Properties is)"

definition step_ids :: "step list \<Rightarrow> string list" where
  "step_ids = map st_StepID"

definition wf_flow :: "resolver option \<Rightarrow> flow_def \<Rightarrow> bool" where
  "wf_flow r d \<longleftrightarrow>
     fd_Name d \<noteq> [] \<and> alias_ok (fd_Alias d) \<and> fd_ExecutionMode d = ''SEQUENTIAL''
     \<and> fd_ConversationMode d \<in> {[], ''STATELESS''} \<and> lim_MaxParallelism (fd_Limits d) \<le> 1
     \<and> fd_Steps d \<noteq> [] \<and> int (length (fd_Steps d)) \<le> max_steps d
     \<and> (\<exists>is. fd_InputsSchema d = Some is \<and> wf_schema is)
     \<and> (\<forall>i<length (fd_Steps d). wf_step r (input_names d) (step_ids (take i (fd_Steps d))) (fd_Steps d ! i))
     \<and> wf_mapping (input_names d) (step_ids (fd_Steps d)) (fd_OutputMapping d)"

lemma split_on_two:
  "split_on c s = [a, b] \<longleftrightarrow> s = a @ c # b \<and> c \<notin> set a \<and> c \<notin> set b"
proof
  assume l: "split_on c s = [a, b]"
  have "c \<notin> set p" if "p \<in> set (split_on c s)" for p
    using that by (induction s arbitrary: p) (auto split: if_splits list.splits)
  with l show "s = a @ c # b \<and> c \<notin> set a \<and> c \<notin> set b"
    using join_split_on [of c s] by simp
qed (simp add: split_on_append split_on_absent)

lemma split_on_three:
  "split_on c s = [a, b, d] \<longleftrightarrow> s = a @ c # b @ c # d \<and> c \<notin> set a \<and> c \<notin> set b \<and> c \<notin> set d"
proof
  assume l: "split_on c s = [a, b, d]"
  have "c \<notin> set p" if "p \<in> set (split_on c s)" for p
    using that by (induction s arbitrary: p) (auto split: if_splits list.splits)
  with l show "s = a @ c # b @ c # d \<and> c \<notin> set a \<and> c \<notin> set b \<and> c \<notin> set d"
    using join_split_on [of c s] by simp
qed (simp add: split_on_append split_on_absent)

lemma split_run_id: "split_on CHR ''.'' ''run.id'' = [''run'', ''id'']"
  by simp

lemma check_ref_Nil:
  assumes "set deps \<subseteq> set steps"
  shows "check_ref inputs steps deps ref = [] \<longleftrightarrow> ref_allowed inputs deps ref"
proof -
  let ?d = "CHR ''.''"
  have inp: "(\<exists>x\<in>set inputs. ?d \<notin> set x \<and> ref = ''inputs.'' @ x)
      \<longleftrightarrow> (\<exists>x\<in>set inputs. split_on ?d ref = [''inputs'', x])"
    by (auto simp: split_on_two)
  have stp: "(\<exists>x\<in>set deps. ?d \<notin> set x \<and> ref = ''steps.'' @ x @ ''.output'')
      \<longleftrightarrow> (\<exists>x\<in>set deps. split_on ?d ref = [''steps'', x, ''output''])"
    by (auto simp: split_on_three)
  have run: "ref = ''run.id'' \<Longrightarrow> split_on ?d ref = [''run'', ''id'']" by simp
  show ?thesis
    unfolding ref_allowed_def inp stp check_ref_def
    using assms run
    by (auto split: list.splits simp: subset_iff)
qed

lemma checkRefs_Nil:
  assumes "set deps \<subseteq> set steps"
  shows "checkRefs tpl inputs steps deps = [] \<longleftrightarrow> wf_template inputs deps tpl"
  by (auto simp: checkRefs_def wf_template_def check_ref_Nil [OF assms] split: sum.splits)

lemma check_mapping_Nil:
  assumes "set deps \<subseteq> set steps"
  shows "check_mapping m inputs steps deps = [] \<longleftrightarrow> wf_mapping inputs deps m"
proof -
  have entry: "(case kt of (key, tpl) \<Rightarrow> if key \<noteq> ''text'' then [MappingKeyUnsupported key]
        else checkRefs tpl inputs steps deps) = []
      \<longleftrightarrow> (case kt of (key, tpl) \<Rightarrow> key = ''text'' \<and> wf_template inputs deps tpl)" for kt
    by (simp add: split_beta checkRefs_Nil [OF assms])
  have "map_of m ''text'' \<noteq> None" if "\<forall>(k, tpl)\<in>set m. k = ''text'' \<and> wf_template inputs deps tpl" "m \<noteq> []"
    using that by (cases m) auto
  moreover have "m \<noteq> []" if "map_of m ''text'' \<noteq> None" using that by auto
  ultimately show ?thesis
    unfolding check_mapping_def wf_mapping_def append_is_Nil_conv fail_if_Nil concat_eq_Nil_conv set_map
      ball_simps entry by blast
qed

lemma check_step_Nil:
  assumes "step_id_ok (st_StepID s)" "st_StepID s \<notin> set seen"
  shows "check_step r inputs seen s = [] \<longleftrightarrow> wf_step r inputs seen s"
proof (cases "set (st_DependsOn s) \<subseteq> set seen")
  case True
  show ?thesis
    using assms True
    by (auto simp: check_step_def wf_step_def Let_def check_mapping_Nil [OF True] split: option.splits)
next
  case False
  then have "\<exists>d\<in>set (st_DependsOn s). d \<notin> set seen" by blast
  with False show ?thesis
    by (auto simp: check_step_def wf_step_def Let_def)
qed

lemma check_steps_Nil:
  "fst (check_steps r inputs i seen ss) = [] \<longleftrightarrow>
     (\<forall>j<length ss. wf_step r inputs (seen @ step_ids (take j ss)) (ss ! j))"
proof (induction ss arbitrary: i seen)
  case (Cons s ss)
  show ?case
  proof (cases "step_id_ok (st_StepID s) \<and> st_StepID s \<notin> set seen")
    case True
    then show ?thesis
      using Cons check_step_Nil [of s seen r inputs]
      by (auto simp: All_less_Suc2 split_beta Let_def step_ids_def)
  next
    case False
    then have "\<not> wf_step r inputs seen s" by (auto simp: wf_step_def)
    with False show ?thesis by (auto simp: All_less_Suc2 split_beta Let_def step_ids_def)
  qed
qed simp

lemma check_steps_seen:
  "fst (check_steps r inputs i seen ss) = [] \<Longrightarrow> snd (check_steps r inputs i seen ss) = seen @ step_ids ss"
  by (induction ss arbitrary: i seen) (auto simp: split_beta Let_def step_ids_def split: if_splits)

lemma check_schema_Nil: "check_schema sch = [] \<longleftrightarrow> (\<exists>is. sch = Some is \<and> wf_schema is)"
  by (auto simp: check_schema_def wf_schema_def split: option.splits)

lemma Validate_Nil: "Validate d r = [] \<longleftrightarrow> wf_flow r d"
proof -
  let ?c = "check_steps r (input_names d) 0 [] (fd_Steps d)"
  have "check_mapping (fd_OutputMapping d) (input_names d) (snd ?c) (snd ?c) = [] \<longleftrightarrow>
      wf_mapping (input_names d) (step_ids (fd_Steps d)) (fd_OutputMapping d)" if "fst ?c = []"
    using check_steps_seen [OF that] check_mapping_Nil [of "snd ?c" "snd ?c"] by simp
  then show ?thesis
    using check_steps_Nil [of r "input_names d" 0 "[]" "fd_Steps d"]
    by (auto simp: Validate_def wf_flow_def Let_def split_beta check_schema_Nil not_less)
qed

text \<open>A template that was validated renders in every environment that binds the allowed names.\<close>

definition covers :: "(string \<Rightarrow> string option) \<Rightarrow> string list \<Rightarrow> string list \<Rightarrow> bool" where
  "covers vars inputs steps \<longleftrightarrow> vars ''run.id'' \<noteq> None
     \<and> (\<forall>x\<in>set inputs. vars (''inputs.'' @ x) \<noteq> None)
     \<and> (\<forall>x\<in>set steps. vars (''steps.'' @ x @ ''.output'') \<noteq> None)"

lemma covers_allowed: "covers vars inputs deps \<Longrightarrow> ref_allowed inputs deps ref \<Longrightarrow> vars ref \<noteq> None"
  unfolding covers_def ref_allowed_def by blast

lemma wf_template_renders:
  assumes "wf_template inputs deps tpl" "covers vars inputs deps"
  shows "\<exists>out. RenderTemplate tpl vars = Inr out"
  using assms unfolding RenderTemplate_Inr wf_template_def by (blast dest: covers_allowed)

lemma wf_mapping_text:
  "wf_mapping inputs deps m \<Longrightarrow> \<exists>tpl. map_of m ''text'' = Some tpl \<and> wf_template inputs deps tpl"
  by (cases m) (auto simp: wf_mapping_def)

text \<open>Accepted inputs are declared, complete and within their lengths.\<close>

definition input_fits :: "inputs_schema \<Rightarrow> string \<times> string \<Rightarrow> bool" where
  "input_fits is nv \<longleftrightarrow> (\<exists>p. map_of (is_Properties is) (fst nv) = Some p
     \<and> int (length (snd nv)) \<le> (if ip_MaxLength p \<le> 0 then MaxInputLenDefault else ip_MaxLength p))"

lemma check_input_None: "check_input is nv = None \<longleftrightarrow> input_fits is nv"
  by (auto simp: check_input_def input_fits_def Let_def split: option.splits)

lemma ValidateInputs_None:
  "ValidateInputs d inputs = None \<longleftrightarrow>
     (\<exists>is. fd_InputsSchema d = Some is \<and> set (is_Required is) \<subseteq> fst ` set inputs
       \<and> (\<forall>nv\<in>set inputs. input_fits is nv))"
proof (cases "fd_InputsSchema d")
  case (Some sch)
  have req: "List.find (\<lambda>req. req \<notin> fst ` set inputs) (is_Required sch) = None \<longleftrightarrow>
      set (is_Required sch) \<subseteq> fst ` set inputs"
    by (auto simp: find_None_iff)
  have inp: "(case List.find (\<lambda>nv. check_input sch nv \<noteq> None) inputs of
        None \<Rightarrow> None | Some nv \<Rightarrow> check_input sch nv) = None \<longleftrightarrow> (\<forall>nv\<in>set inputs. input_fits sch nv)"
    using find_Some_iff_first [of "\<lambda>nv. check_input sch nv \<noteq> None" inputs]
    by (auto simp: find_None_iff simp flip: check_input_None split: option.splits)
  show ?thesis
    unfolding ValidateInputs_def Some option.case(2)
    using req inp by (cases "List.find (\<lambda>req. req \<notin> fst ` set inputs) (is_Required sch)") auto
qed (simp add: ValidateInputs_def)

text \<open>The members a definition and its steps may have.\<close>

definition flow_members :: "string list" where
  "flow_members = [''name'', ''alias'', ''description'', ''execution_mode'', ''data_class'',
     ''conversation_mode'', ''inputs_schema'', ''steps'', ''output_mapping'', ''limits'']"

definition step_members :: "string list" where
  "step_members = [''step_id'', ''name'', ''type'', ''depends_on'', ''runtime_target'', ''system_prompt'',
     ''input_mapping'', ''generation'', ''timeout_ms'', ''retry_policy'', ''fallback_policy'', ''on_error'']"

lemma dec_flow_def_known: "dec_flow_def k v s = Some s' \<Longrightarrow> \<exists>name\<in>set flow_members. key_eq k name"
  unfolding dec_flow_def_def flow_members_def
  by (simp only: set_simps bex_simps split: if_splits) auto

lemma dec_step_known: "dec_step k v s = Some s' \<Longrightarrow> \<exists>name\<in>set step_members. key_eq k name"
  unfolding dec_step_def step_members_def
  by (simp only: set_simps bex_simps split: if_splits) auto

lemma dec_members_steps:
  assumes "dec_members dec_flow_def kvs s = Some s'" and "(k, JArr vs) \<in> set kvs" and "key_eq k ''steps''"
  shows "those (map (dec_struct dec_step step0) vs) \<noteq> None"
  using assms
proof (induction kvs arbitrary: s)
  case (Cons kv kvs)
  show ?case
  proof (cases "kv = (k, JArr vs)")
    case True
    have "\<not> key_eq k n" if "n \<in> {''name'', ''alias'', ''description'', ''execution_mode'', ''data_class'',
        ''conversation_mode'', ''inputs_schema''}" for n
      using that \<open>key_eq k ''steps''\<close> by (auto simp: key_eq_def to_lower_def is_upper_def less_eq_char_def)
    with True Cons.prems show ?thesis
      by (auto simp: dec_flow_def_def split: option.splits)
  next
    case False
    with Cons show ?thesis by (cases kv) (auto split: option.splits)
  qed
qed simp

lemma those_Some_all: "those xs \<noteq> None \<Longrightarrow> x \<in> set xs \<Longrightarrow> x \<noteq> None"
  by (induction xs) (auto split: option.splits)

lemma ParseDefinition_Inr:
  "ParseDefinition raw rest = Inr d \<longleftrightarrow>
     unmarshal (dec_struct dec_flow_def flow_def0) raw = Some d \<and> \<not> dec_more rest"
  by (auto simp: ParseDefinition_def split: option.splits)

text \<open>A definition of one step, as a document and as the parsed record.\<close>

definition example_doc :: "(string \<times> json) list" where
  "example_doc =
     [(''name'', JStr ''n''), (''alias'', JStr ''a''), (''execution_mode'', JStr ''SEQUENTIAL''),
      (''inputs_schema'', JObj [(''type'', JStr ''object''), (''required'', JArr [JStr ''q'']),
          (''properties'', JObj [(''q'', JObj [(''type'', JStr ''string'')])])]),
      (''steps'', JArr [JObj [(''step_id'', JStr ''s1''), (''type'', JStr ''LLM''),
          (''runtime_target'', JObj [(''logical_model'', JStr ''m'')]),
          (''input_mapping'', JObj [(''text'', JStr ''{{inputs.q}}'')])]]),
      (''output_mapping'', JObj [(''text'', JStr ''{{steps.s1.output}}'')])]"

definition example_step :: step where
  "example_step = step0\<lparr>st_StepID := ''s1'', st_Type := ''LLM'',
     st_RuntimeTarget := \<lparr>rt_LogicalModel = ''m'', rt_PoolID = []\<rparr>,
     st_InputMapping := [(''text'', ''{{inputs.q}}'')]\<rparr>"

definition example_flow :: flow_def where
  "example_flow = flow_def0\<lparr>fd_Name := ''n'', fd_Alias := ''a'', fd_ExecutionMode := ''SEQUENTIAL'',
     fd_InputsSchema := Some \<lparr>is_Type = ''object'', is_Required = [''q''],
        is_Properties = [(''q'', \<lparr>ip_Type = ''string'', ip_MaxLength = 0\<rparr>)], is_AdditionalProperties = None\<rparr>,
     fd_Steps := [example_step], fd_OutputMapping := [(''text'', ''{{steps.s1.output}}'')]\<rparr>"

lemma parse_example: "ParseDefinition (Doc (JObj example_doc)) [] = Inr example_flow"
  by code_simp

lemma validate_example: "Validate example_flow None = []"
  by code_simp

section \<open>Properties\<close>

text \<open>C1: \<open>Validate\<close> reports no error exactly when the definition is a well-formed sequential flow:
  its name, alias, modes and step count are admissible, its input schema is closed, every step has
  a fresh well-formed id, known models and pools and bounded retries, it depends on earlier steps
  only, and its one template refers to declared inputs, the outputs of the steps it depends on and
  the run id.\<close>

theorem validate_accepts_exactly_wf: "Validate d r = [] \<longleftrightarrow> wf_flow r d"
  by (rule Validate_Nil)

text \<open>\<open>ValidateInputs\<close> accepts exactly the inputs that give every required name, name only
  declared properties and stay within each property's length (100000 bytes when none is given).\<close>

theorem inputs_accepted_exactly:
  "ValidateInputs d inputs = None \<longleftrightarrow>
     (\<exists>is. fd_InputsSchema d = Some is \<and> set (is_Required is) \<subseteq> fst ` set inputs
       \<and> (\<forall>nv\<in>set inputs. input_fits is nv))"
  by (rule ValidateInputs_None)

theorem inputs_accepted_exactly_witness:
  "ValidateInputs example_flow [(''q'', ''hi'')] = None
    \<and> (\<exists>is. fd_InputsSchema example_flow = Some is \<and> input_fits is (''q'', ''hi''))"
proof -
  have "ValidateInputs example_flow [(''q'', ''hi'')] = None" by code_simp
  with inputs_accepted_exactly [of example_flow "[(''q'', ''hi'')]"] show ?thesis by auto
qed

text \<open>Parsing is strict: a definition is accepted only if each of its members, and each member
  of each of its steps, is a known field (no field of a later version is accepted and ignored).\<close>

theorem parse_is_strict:
  assumes "ParseDefinition (Doc (JObj kvs)) rest = Inr d"
  shows "(\<forall>(k, v)\<in>set kvs. \<exists>name\<in>set flow_members. key_eq k name)
    \<and> (\<forall>k vs ms. (k, JArr vs) \<in> set kvs \<longrightarrow> key_eq k ''steps'' \<longrightarrow> JObj ms \<in> set vs \<longrightarrow>
          (\<forall>(k', v')\<in>set ms. \<exists>name\<in>set step_members. key_eq k' name))"
proof (intro conjI allI impI)
  from assms have d: "dec_members dec_flow_def kvs flow_def0 = Some d"
    by (simp add: ParseDefinition_Inr)
  show "\<forall>(k, v)\<in>set kvs. \<exists>name\<in>set flow_members. key_eq k name"
    by (rule dec_members_known [OF dec_flow_def_known d])
  fix k vs ms assume "(k, JArr vs) \<in> set kvs" "key_eq k ''steps''" "JObj ms \<in> set vs"
  moreover from this have "dec_struct dec_step step0 (JObj ms) \<in> set (map (dec_struct dec_step step0) vs)"
    by (simp only: set_map) (rule imageI)
  ultimately have "dec_struct dec_step step0 (JObj ms) \<noteq> None"
    using those_Some_all [OF dec_members_steps [OF d]] by blast
  then obtain st where st: "dec_members dec_step ms step0 = Some st" by auto
  show "\<forall>(k', v')\<in>set ms. \<exists>name\<in>set step_members. key_eq k' name"
    by (rule dec_members_known [OF dec_step_known st])
qed

theorem parse_is_strict_witness:
  "list_all (\<lambda>(k, v). \<exists>name\<in>set flow_members. key_eq k name) example_doc"
  using parse_is_strict [OF parse_example] by (simp add: list_all_iff)

end
