(* ===== verification/PlatformCfg.thy ===== *)
theory PlatformCfg
  imports FlowDef
begin

text \<open>
  The \<open>platform:\<close> section of the gateway configuration (\<open>platform/platformcfg/config.go\<close>): its
  structs, \<open>Validate\<close> with the defaults it fills in, and the lookups of the catalog.

  \<open>Validate\<close> mutates the configuration it checks; here it returns the configuration with its
  defaults, or the first error (the text of the messages is left out, their arguments are kept).
  \<open>urlp\<close> is \<open>url.Parse\<close>: the scheme and the host of a URL, \<open>None\<close> for its error.
\<close>

section \<open>Data\<close>

definition BackendNativeEngine :: string where [go_defs]: "BackendNativeEngine = ''native_engine''"
definition BackendExternalConnector :: string where [go_defs]: "BackendExternalConnector = ''external_connector''"
definition ApprovalApproved :: string where [go_defs]: "ApprovalApproved = ''approved''"
definition ApprovalSuspended :: string where [go_defs]: "ApprovalSuspended = ''suspended''"
definition ApprovalRetired :: string where [go_defs]: "ApprovalRetired = ''retired''"
definition ManageObserveOnly :: string where [go_defs]: "ManageObserveOnly = ''observe_only''"
definition ManageInferenceOnly :: string where [go_defs]: "ManageInferenceOnly = ''inference_only''"
definition ManageLifecycleLimited :: string where [go_defs]: "ManageLifecycleLimited = ''lifecycle_limited''"
definition ManageNativeManaged :: string where [go_defs]: "ManageNativeManaged = ''native_managed''"

record cfg_capabilities =
  ca_Chat :: bool
  ca_Streaming :: bool
  ca_Embeddings :: bool
  ca_ToolCalling :: bool
  ca_ContextLength :: int

record deployment =
  dep_ID :: string
  dep_BackendType :: string
  dep_RuntimeEndpointID :: string
  dep_PhysicalModel :: string
  dep_EngineID :: string
  dep_ModelInstanceID :: string
  dep_ArtifactPath :: string
  dep_ArtifactDigest :: string

record model_entry =
  me_LogicalName :: string
  me_DisplayName :: string
  me_ApprovalStatus :: string
  me_AllowedDataClasses :: "string list"
  me_Capabilities :: cfg_capabilities
  me_Deployments :: "deployment list"

record runtime_endpoint =
  ep_ID :: string
  ep_DisplayName :: string
  ep_ConnectorType :: string
  ep_BaseURL :: string
  ep_NetworkZone :: string
  ep_CredentialFile :: string
  ep_ManagementMode :: string
  ep_HealthPath :: string

record engine_ref =
  er_ID :: string
  er_Endpoint :: string

record orch_cfg =
  oc_MaxConcurrent :: int
  oc_MaxQueue :: int
  oc_DefaultDeadlineSeconds :: int

record retention =
  ret_MessageDays :: int
  ret_SummaryDays :: int
  ret_KVCacheMinutes :: int

record memory_cfg =
  mc_Mode :: string
  mc_DataDir :: string
  mc_EncryptionKeyFile :: string
  mc_Retention :: retention
  mc_SummaryModel :: string

record pool_cfg =
  plc_StickyTTLSeconds :: int
  plc_HealthIntervalSeconds :: int

record pool_entry =
  pe_ID :: string
  pe_Description :: string
  pe_DeploymentIDs :: "string list"

record workflows_cfg =
  wc_Enabled :: bool
  wc_DataDir :: string
  wc_OpenAIAliasEnabled :: "bool option"
  wc_MaxFlows :: int
  wc_RunRetentionDays :: int
  wc_EventRetentionDays :: int
  wc_ContentRetentionDays :: int
  wc_MaxConcurrentRuns :: int

record config =
  cf_Enabled :: bool
  cf_Models :: "model_entry list"
  cf_RuntimeEndpoints :: "runtime_endpoint list"
  cf_Engines :: "engine_ref list"
  cf_Orchestrator :: orch_cfg
  cf_Memory :: memory_cfg
  cf_Pool :: pool_cfg
  cf_Pools :: "pool_entry list"
  cf_Workflows :: workflows_cfg

definition AliasEnabled :: "workflows_cfg \<Rightarrow> bool" where
  "AliasEnabled w = (case wc_OpenAIAliasEnabled w of None \<Rightarrow> True | Some b \<Rightarrow> b)"

definition ValidDataClass :: "string \<Rightarrow> bool" where
  "ValidDataClass c \<longleftrightarrow> c \<in> {''public'', ''internal'', ''confidential'', ''restricted''}"

section \<open>Validation\<close>

datatype cfg_error =
    EndpointIdRequired nat | DuplicateEndpoint string | ConnectorUnsupported nat string | BadBaseURL nat string
  | NativeManagedReserved nat | BadManagementMode nat string | EngineIdRequired nat | DuplicateEngine string
  | NoModels | ModelNameRequired nat | DuplicateModel string | ReservedName nat string | BadApproval nat string
  | BadDataClass nat string | NoDeployments nat | DeploymentIdRequired nat nat | DuplicateDeployment nat string
  | DeploymentNotUnique string | UnknownEndpoint nat nat string | PhysicalModelRequired nat nat
  | UnknownEngine nat nat string | InstanceRequired nat nat | BadBackend nat nat string | MemoryDirRequired
  | MemoryKeyRequired | UnknownSummaryModel string | BadMemoryMode string | KVCacheTooLong | PoolIdRequired nat
  | DuplicatePool string | PoolEmpty nat | PoolUnknownDeployment nat string | ContentRetentionUnsupported

text \<open>Runtime endpoints.\<close>

definition check_endpoint ::
  "(string \<Rightarrow> (string \<times> string) option) \<Rightarrow> nat \<Rightarrow> string list \<Rightarrow> runtime_endpoint \<Rightarrow> cfg_error + unit" where
  "check_endpoint urlp i seen r =
     (if ep_ID r = [] then Inl (EndpointIdRequired i)
      else if ep_ID r \<in> set seen then Inl (DuplicateEndpoint (ep_ID r))
      else if ep_ConnectorType r \<noteq> ''openai_compatible'' then Inl (ConnectorUnsupported i (ep_ConnectorType r))
      else case urlp (ep_BaseURL r) of
        None \<Rightarrow> Inl (BadBaseURL i (ep_BaseURL r))
      | Some (scheme, host) \<Rightarrow>
          if (scheme \<noteq> ''http'' \<and> scheme \<noteq> ''https'') \<or> host = [] then Inl (BadBaseURL i (ep_BaseURL r))
          else if ep_ManagementMode r \<in> {[], ManageObserveOnly, ManageInferenceOnly, ManageLifecycleLimited} then Inr ()
          else if ep_ManagementMode r = ManageNativeManaged then Inl (NativeManagedReserved i)
          else Inl (BadManagementMode i (ep_ManagementMode r)))"

fun check_endpoints ::
  "(string \<Rightarrow> (string \<times> string) option) \<Rightarrow> nat \<Rightarrow> string list \<Rightarrow> runtime_endpoint list \<Rightarrow> cfg_error + string list" where
  "check_endpoints urlp i seen [] = Inr seen"
| "check_endpoints urlp i seen (r # rs) =
     res_bind (check_endpoint urlp i seen r) (\<lambda>_. check_endpoints urlp (Suc i) (ep_ID r # seen) rs)"

fun check_engines :: "nat \<Rightarrow> string list \<Rightarrow> engine_ref list \<Rightarrow> cfg_error + string list" where
  "check_engines i seen [] = Inr seen"
| "check_engines i seen (e # es) =
     (if er_ID e = [] then Inl (EngineIdRequired i)
      else if er_ID e \<in> set seen then Inl (DuplicateEngine (er_ID e))
      else check_engines (Suc i) (er_ID e # seen) es)"

text \<open>Models and their deployments: \<open>own\<close> are the deployment ids of the model, \<open>every\<close> those of the catalog.\<close>

definition check_deployment ::
  "string list \<Rightarrow> string list \<Rightarrow> nat \<Rightarrow> nat \<Rightarrow> string list \<Rightarrow> string list \<Rightarrow> deployment \<Rightarrow> cfg_error + unit" where
  "check_deployment rteIDs engIDs i j own every d =
     (if dep_ID d = [] then Inl (DeploymentIdRequired i j)
      else if dep_ID d \<in> set own then Inl (DuplicateDeployment i (dep_ID d))
      else if dep_ID d \<in> set every then Inl (DeploymentNotUnique (dep_ID d))
      else if dep_BackendType d = BackendExternalConnector then
        (if dep_RuntimeEndpointID d \<notin> set rteIDs then Inl (UnknownEndpoint i j (dep_RuntimeEndpointID d))
         else if dep_PhysicalModel d = [] then Inl (PhysicalModelRequired i j)
         else Inr ())
      else if dep_BackendType d = BackendNativeEngine then
        (if dep_EngineID d \<notin> set engIDs then Inl (UnknownEngine i j (dep_EngineID d))
         else if dep_ModelInstanceID d = [] \<or> dep_ArtifactDigest d = [] then Inl (InstanceRequired i j)
         else Inr ())
      else Inl (BadBackend i j (dep_BackendType d)))"

fun check_deployments ::
  "string list \<Rightarrow> string list \<Rightarrow> nat \<Rightarrow> nat \<Rightarrow> string list \<Rightarrow> string list \<Rightarrow> deployment list \<Rightarrow> cfg_error + string list" where
  "check_deployments rteIDs engIDs i j own every [] = Inr every"
| "check_deployments rteIDs engIDs i j own every (d # ds) =
     res_bind (check_deployment rteIDs engIDs i j own every d)
       (\<lambda>_. check_deployments rteIDs engIDs i (Suc j) (dep_ID d # own) (dep_ID d # every) ds)"

definition check_model_head :: "nat \<Rightarrow> string list \<Rightarrow> model_entry \<Rightarrow> cfg_error + unit" where
  "check_model_head i names m =
     (if me_LogicalName m = [] then Inl (ModelNameRequired i)
      else if me_LogicalName m \<in> set names then Inl (DuplicateModel (me_LogicalName m))
      else if 5 \<le> length (me_LogicalName m) \<and> take 5 (me_LogicalName m) = ''flow:''
        then Inl (ReservedName i (me_LogicalName m))
      else if me_ApprovalStatus m \<notin> {ApprovalApproved, ApprovalSuspended, ApprovalRetired}
        then Inl (BadApproval i (me_ApprovalStatus m))
      else case List.find (\<lambda>dc. \<not> ValidDataClass dc) (me_AllowedDataClasses m) of
        Some dc \<Rightarrow> Inl (BadDataClass i dc)
      | None \<Rightarrow> if me_Deployments m = [] then Inl (NoDeployments i) else Inr ())"

fun check_models ::
  "string list \<Rightarrow> string list \<Rightarrow> nat \<Rightarrow> string list \<Rightarrow> string list \<Rightarrow> model_entry list
     \<Rightarrow> cfg_error + string list \<times> string list" where
  "check_models rteIDs engIDs i names every [] = Inr (names, every)"
| "check_models rteIDs engIDs i names every (m # ms) =
     res_bind (check_model_head i names m)
       (\<lambda>_. res_bind (check_deployments rteIDs engIDs i 0 [] every (me_Deployments m))
         (\<lambda>every'. check_models rteIDs engIDs (Suc i) (me_LogicalName m # names) every' ms))"

definition pos_or :: "int \<Rightarrow> int \<Rightarrow> int" where
  "pos_or d x = (if x \<le> 0 then d else x)"

definition orch_defaults :: "orch_cfg \<Rightarrow> orch_cfg" where
  "orch_defaults oc = oc\<lparr>oc_MaxConcurrent := pos_or 64 (oc_MaxConcurrent oc), oc_MaxQueue := pos_or 256 (oc_MaxQueue oc),
     oc_DefaultDeadlineSeconds := pos_or 120 (oc_DefaultDeadlineSeconds oc)\<rparr>"

definition check_memory_mode :: "string list \<Rightarrow> memory_cfg \<Rightarrow> cfg_error + memory_cfg" where
  "check_memory_mode names mc =
     (if mc_Mode mc = [] \<or> mc_Mode mc = ''stateless'' then Inr (mc\<lparr>mc_Mode := ''stateless''\<rparr>)
      else if mc_Mode mc = ''managed'' then
        (if mc_DataDir mc = [] then Inl MemoryDirRequired
         else if mc_EncryptionKeyFile mc = [] then Inl MemoryKeyRequired
         else
           let rt = mc_Retention mc; md = pos_or 30 (ret_MessageDays rt);
               rt' = rt\<lparr>ret_MessageDays := md, ret_SummaryDays := pos_or md (ret_SummaryDays rt)\<rparr>
           in if mc_SummaryModel mc \<noteq> [] \<and> mc_SummaryModel mc \<notin> set names
              then Inl (UnknownSummaryModel (mc_SummaryModel mc))
              else Inr (mc\<lparr>mc_Retention := rt'\<rparr>))
      else Inl (BadMemoryMode (mc_Mode mc)))"

definition check_memory :: "string list \<Rightarrow> memory_cfg \<Rightarrow> cfg_error + memory_cfg" where
  "check_memory names mc =
     res_bind (check_memory_mode names mc) (\<lambda>mc1.
       let rt = mc_Retention mc1; rt' = rt\<lparr>ret_KVCacheMinutes := pos_or 15 (ret_KVCacheMinutes rt)\<rparr>
       in if ret_KVCacheMinutes rt' > 60 then Inl KVCacheTooLong else Inr (mc1\<lparr>mc_Retention := rt'\<rparr>))"

definition pool_defaults :: "pool_cfg \<Rightarrow> pool_cfg" where
  "pool_defaults pc = pc\<lparr>plc_StickyTTLSeconds := pos_or 300 (plc_StickyTTLSeconds pc),
     plc_HealthIntervalSeconds := pos_or 30 (plc_HealthIntervalSeconds pc)\<rparr>"

fun check_pools :: "string list \<Rightarrow> nat \<Rightarrow> string list \<Rightarrow> pool_entry list \<Rightarrow> cfg_error + unit" where
  "check_pools every i seen [] = Inr ()"
| "check_pools every i seen (p # ps) =
     (if pe_ID p = [] then Inl (PoolIdRequired i)
      else if pe_ID p \<in> set seen then Inl (DuplicatePool (pe_ID p))
      else if pe_DeploymentIDs p = [] then Inl (PoolEmpty i)
      else case List.find (\<lambda>d. d \<notin> set every) (pe_DeploymentIDs p) of
        Some d \<Rightarrow> Inl (PoolUnknownDeployment i d)
      | None \<Rightarrow> check_pools every (Suc i) (pe_ID p # seen) ps)"

definition check_workflows :: "workflows_cfg \<Rightarrow> cfg_error + workflows_cfg" where
  "check_workflows w =
     (if wc_Enabled w then
        (let w' = w\<lparr>wc_DataDir := (if wc_DataDir w = [] then ''workflows'' else wc_DataDir w),
               wc_MaxFlows := pos_or 100 (wc_MaxFlows w), wc_RunRetentionDays := pos_or 90 (wc_RunRetentionDays w),
               wc_EventRetentionDays := pos_or 30 (wc_EventRetentionDays w),
               wc_MaxConcurrentRuns := pos_or 8 (wc_MaxConcurrentRuns w)\<rparr>
         in if wc_ContentRetentionDays w \<noteq> 0 then Inl ContentRetentionUnsupported else Inr w')
      else Inr w)"

definition Validate_config :: "(string \<Rightarrow> (string \<times> string) option) \<Rightarrow> config \<Rightarrow> cfg_error + config" where
  "Validate_config urlp c =
     (if \<not> cf_Enabled c then Inr c
      else
        res_bind (check_endpoints urlp 0 [] (cf_RuntimeEndpoints c)) (\<lambda>rteIDs.
        res_bind (check_engines 0 [] (cf_Engines c)) (\<lambda>engIDs.
        if cf_Models c = [] then Inl NoModels
        else
          res_bind (check_models rteIDs engIDs 0 [] [] (cf_Models c)) (\<lambda>(names, every).
          let c1 = c\<lparr>cf_Orchestrator := orch_defaults (cf_Orchestrator c)\<rparr> in
          res_bind (check_memory names (cf_Memory c1)) (\<lambda>mc.
          let c2 = c1\<lparr>cf_Memory := mc, cf_Pool := pool_defaults (cf_Pool c1)\<rparr> in
          res_bind (check_pools every 0 [] (cf_Pools c2)) (\<lambda>_.
          res_bind (check_workflows (cf_Workflows c2)) (\<lambda>w.
          Inr (c2\<lparr>cf_Workflows := w\<rparr>))))))))"

section \<open>Lookups\<close>

definition FindPool :: "config \<Rightarrow> string \<Rightarrow> pool_entry option" where
  "FindPool c pid = List.find (\<lambda>p. pe_ID p = pid) (cf_Pools c)"

definition FindModel :: "config \<Rightarrow> string \<Rightarrow> model_entry option" where
  "FindModel c logical = List.find (\<lambda>m. me_LogicalName m = logical) (cf_Models c)"

definition FindEndpoint :: "config \<Rightarrow> string \<Rightarrow> runtime_endpoint option" where
  "FindEndpoint c eid = List.find (\<lambda>r. ep_ID r = eid) (cf_RuntimeEndpoints c)"

text \<open>\<open>catalogResolver\<close> (\<open>platform/platform.go\<close>): what the workflow validation asks of the catalog.\<close>

definition catalogResolver :: "config \<Rightarrow> resolver" where
  "catalogResolver c = \<lparr>ModelExists = (\<lambda>name. case FindModel c name of None \<Rightarrow> False
                          | Some m \<Rightarrow> me_ApprovalStatus m = ApprovalApproved),
                        PoolExists = (\<lambda>pid. FindPool c pid \<noteq> None)\<rparr>"


section \<open>The accepted configurations\<close>

definition endpoint_ok :: "(string \<Rightarrow> (string \<times> string) option) \<Rightarrow> runtime_endpoint \<Rightarrow> bool" where
  "endpoint_ok urlp r \<longleftrightarrow> ep_ID r \<noteq> [] \<and> ep_ConnectorType r = ''openai_compatible''
     \<and> (\<exists>scheme host. urlp (ep_BaseURL r) = Some (scheme, host) \<and> scheme \<in> {''http'', ''https''} \<and> host \<noteq> [])
     \<and> ep_ManagementMode r \<in> {[], ManageObserveOnly, ManageInferenceOnly, ManageLifecycleLimited}"

definition deployment_ok :: "string set \<Rightarrow> string set \<Rightarrow> deployment \<Rightarrow> bool" where
  "deployment_ok rteIDs engIDs d \<longleftrightarrow> dep_ID d \<noteq> []
     \<and> (dep_BackendType d = BackendExternalConnector \<and> dep_RuntimeEndpointID d \<in> rteIDs \<and> dep_PhysicalModel d \<noteq> []
        \<or> dep_BackendType d = BackendNativeEngine \<and> dep_EngineID d \<in> engIDs
          \<and> dep_ModelInstanceID d \<noteq> [] \<and> dep_ArtifactDigest d \<noteq> [])"

definition model_ok :: "string set \<Rightarrow> string set \<Rightarrow> model_entry \<Rightarrow> bool" where
  "model_ok rteIDs engIDs m \<longleftrightarrow> me_LogicalName m \<noteq> [] \<and> \<not> prefix ''flow:'' (me_LogicalName m)
     \<and> me_ApprovalStatus m \<in> {ApprovalApproved, ApprovalSuspended, ApprovalRetired}
     \<and> list_all ValidDataClass (me_AllowedDataClasses m) \<and> me_Deployments m \<noteq> []
     \<and> list_all (deployment_ok rteIDs engIDs) (me_Deployments m)"

definition memory_ok :: "string set \<Rightarrow> memory_cfg \<Rightarrow> bool" where
  "memory_ok names mc \<longleftrightarrow> mc_Mode mc \<in> {[], ''stateless'', ''managed''}
     \<and> (mc_Mode mc = ''managed'' \<longrightarrow> mc_DataDir mc \<noteq> [] \<and> mc_EncryptionKeyFile mc \<noteq> []
          \<and> (mc_SummaryModel mc = [] \<or> mc_SummaryModel mc \<in> names))
     \<and> ret_KVCacheMinutes (mc_Retention mc) \<le> 60"

definition pool_ok :: "string set \<Rightarrow> pool_entry \<Rightarrow> bool" where
  "pool_ok every p \<longleftrightarrow> pe_ID p \<noteq> [] \<and> pe_DeploymentIDs p \<noteq> [] \<and> list_all (\<lambda>d. d \<in> every) (pe_DeploymentIDs p)"

definition catalog_deployments :: "config \<Rightarrow> deployment list" where
  "catalog_deployments c = concat (map me_Deployments (cf_Models c))"

definition config_ok :: "(string \<Rightarrow> (string \<times> string) option) \<Rightarrow> config \<Rightarrow> bool" where
  "config_ok urlp c \<longleftrightarrow>
     (let rteIDs = ep_ID ` set (cf_RuntimeEndpoints c); engIDs = er_ID ` set (cf_Engines c) in
     distinct (map ep_ID (cf_RuntimeEndpoints c)) \<and> list_all (endpoint_ok urlp) (cf_RuntimeEndpoints c)
     \<and> distinct (map er_ID (cf_Engines c)) \<and> [] \<notin> engIDs
     \<and> cf_Models c \<noteq> [] \<and> distinct (map me_LogicalName (cf_Models c))
     \<and> list_all (model_ok rteIDs engIDs) (cf_Models c)
     \<and> distinct (map dep_ID (catalog_deployments c))
     \<and> memory_ok (me_LogicalName ` set (cf_Models c)) (cf_Memory c)
     \<and> distinct (map pe_ID (cf_Pools c)) \<and> list_all (pool_ok (dep_ID ` set (catalog_deployments c))) (cf_Pools c)
     \<and> (wc_Enabled (cf_Workflows c) \<longrightarrow> wc_ContentRetentionDays (cf_Workflows c) = 0))"

text \<open>The defaults that an accepted configuration is completed with.\<close>

definition memory_defaults :: "memory_cfg \<Rightarrow> memory_cfg" where
  "memory_defaults mc =
     (let rt = mc_Retention mc; md = pos_or 30 (ret_MessageDays rt);
          rt1 = (if mc_Mode mc = ''managed'' then rt\<lparr>ret_MessageDays := md, ret_SummaryDays := pos_or md (ret_SummaryDays rt)\<rparr> else rt)
      in mc\<lparr>mc_Mode := (if mc_Mode mc = ''managed'' then ''managed'' else ''stateless''),
            mc_Retention := rt1\<lparr>ret_KVCacheMinutes := pos_or 15 (ret_KVCacheMinutes rt)\<rparr>\<rparr>)"

definition workflows_defaults :: "workflows_cfg \<Rightarrow> workflows_cfg" where
  "workflows_defaults w =
     (if wc_Enabled w then
        w\<lparr>wc_DataDir := (if wc_DataDir w = [] then ''workflows'' else wc_DataDir w),
          wc_MaxFlows := pos_or 100 (wc_MaxFlows w), wc_RunRetentionDays := pos_or 90 (wc_RunRetentionDays w),
          wc_EventRetentionDays := pos_or 30 (wc_EventRetentionDays w),
          wc_MaxConcurrentRuns := pos_or 8 (wc_MaxConcurrentRuns w)\<rparr>
      else w)"

definition with_defaults :: "config \<Rightarrow> config" where
  "with_defaults c =
     c\<lparr>cf_Orchestrator := orch_defaults (cf_Orchestrator c), cf_Memory := memory_defaults (cf_Memory c),
       cf_Pool := pool_defaults (cf_Pool c), cf_Workflows := workflows_defaults (cf_Workflows c)\<rparr>"

lemma pos_or_idem [simp]: "0 < d \<Longrightarrow> pos_or d (pos_or d x) = pos_or d x" "0 < d \<Longrightarrow> 0 < pos_or d x"
  by (auto simp: pos_or_def)

lemma check_endpoint_Inr [res_simps]:
  "check_endpoint urlp i seen r = Inr u \<longleftrightarrow> endpoint_ok urlp r \<and> ep_ID r \<notin> set seen"
  by (auto simp: check_endpoint_def endpoint_ok_def split: option.splits if_splits)

lemma check_endpoints_Inr [res_simps]:
  "check_endpoints urlp i seen rs = Inr ids \<longleftrightarrow>
     ids = rev (map ep_ID rs) @ seen \<and> list_all (endpoint_ok urlp) rs \<and> distinct (map ep_ID rs)
     \<and> set (map ep_ID rs) \<inter> set seen = {}"
  by (induction rs arbitrary: i seen) (auto simp: res_simps)

lemma check_engines_Inr [res_simps]:
  "check_engines i seen es = Inr ids \<longleftrightarrow>
     ids = rev (map er_ID es) @ seen \<and> [] \<notin> er_ID ` set es \<and> distinct (map er_ID es)
     \<and> set (map er_ID es) \<inter> set seen = {}"
  by (induction es arbitrary: i seen) auto

lemma check_deployment_Inr [res_simps]:
  "check_deployment rteIDs engIDs i j own every d = Inr u \<longleftrightarrow>
     deployment_ok (set rteIDs) (set engIDs) d \<and> dep_ID d \<notin> set own \<and> dep_ID d \<notin> set every"
  by (auto simp: check_deployment_def deployment_ok_def go_defs)

lemma check_deployments_Inr [res_simps]:
  "set own \<subseteq> set every \<Longrightarrow> check_deployments rteIDs engIDs i j own every ds = Inr ids \<longleftrightarrow>
     ids = rev (map dep_ID ds) @ every \<and> list_all (deployment_ok (set rteIDs) (set engIDs)) ds
     \<and> distinct (map dep_ID ds) \<and> set (map dep_ID ds) \<inter> set every = {}"
proof (induction ds arbitrary: j own every)
  case (Cons d ds)
  have "set (dep_ID d # own) \<subseteq> set (dep_ID d # every)" using Cons.prems by auto
  from Cons.IH [OF this] show ?case
    using Cons.prems by (auto simp: res_simps)
qed auto

lemma find_case_Inr [res_simps]:
  "(case List.find P xs of None \<Rightarrow> r | Some x \<Rightarrow> Inl (f x)) = Inr u \<longleftrightarrow> list_all (\<lambda>x. \<not> P x) xs \<and> r = Inr u"
proof (cases "List.find P xs")
  case None
  then have "list_all (\<lambda>x. \<not> P x) xs" by (simp add: find_None_iff list_all_iff)
  then show ?thesis using None by simp
next
  case (Some x)
  then have "x \<in> set xs" "P x" by (simp_all add: find_Some_iff_first)
  then show ?thesis using Some by (auto simp: list_all_iff)
qed

lemma reserved_prefix: "5 \<le> length s \<and> take 5 s = ''flow:'' \<longleftrightarrow> prefix ''flow:'' s"
proof
  assume "5 \<le> length s \<and> take 5 s = ''flow:''"
  then show "prefix ''flow:'' s" by (metis take_is_prefix)
next
  assume "prefix ''flow:'' s"
  then show "5 \<le> length s \<and> take 5 s = ''flow:''" by (auto simp: prefix_def)
qed

lemma check_model_head_Inr:
  "check_model_head i names m = Inr u \<longleftrightarrow> me_LogicalName m \<notin> set names \<and> me_LogicalName m \<noteq> []
     \<and> \<not> prefix ''flow:'' (me_LogicalName m)
     \<and> me_ApprovalStatus m \<in> {ApprovalApproved, ApprovalSuspended, ApprovalRetired}
     \<and> list_all ValidDataClass (me_AllowedDataClasses m) \<and> me_Deployments m \<noteq> []"
  unfolding check_model_head_def reserved_prefix by (auto simp: find_case_Inr)

lemma check_models_Inr [res_simps]:
  "check_models rteIDs engIDs i names every ms = Inr (ns, ds) \<longleftrightarrow>
     ns = rev (map me_LogicalName ms) @ names \<and> ds = rev (map dep_ID (concat (map me_Deployments ms))) @ every
     \<and> list_all (model_ok (set rteIDs) (set engIDs)) ms \<and> distinct (map me_LogicalName ms)
     \<and> set (map me_LogicalName ms) \<inter> set names = {} \<and> distinct (map dep_ID (concat (map me_Deployments ms)))
     \<and> set (map dep_ID (concat (map me_Deployments ms))) \<inter> set every = {}"
proof (induction ms arbitrary: i names every)
  case (Cons m ms)
  let ?D = "map dep_ID (me_Deployments m)" and ?R = "map dep_ID (concat (map me_Deployments ms))"
  have "check_models rteIDs engIDs i names every (m # ms) = Inr (ns, ds) \<longleftrightarrow>
      (\<exists>u. check_model_head i names m = Inr u) \<and> list_all (deployment_ok (set rteIDs) (set engIDs)) (me_Deployments m)
      \<and> distinct ?D \<and> set ?D \<inter> set every = {}
      \<and> check_models rteIDs engIDs (Suc i) (me_LogicalName m # names) (rev ?D @ every) ms = Inr (ns, ds)"
    by (auto simp: res_bind_Inr check_deployments_Inr)
  also have "\<dots> \<longleftrightarrow> (\<exists>u. check_model_head i names m = Inr u) \<and> list_all (deployment_ok (set rteIDs) (set engIDs)) (me_Deployments m)
      \<and> distinct ?D \<and> set ?D \<inter> set every = {}
      \<and> ns = rev (map me_LogicalName ms) @ me_LogicalName m # names \<and> ds = rev ?R @ rev ?D @ every
     \<and> list_all (model_ok (set rteIDs) (set engIDs)) ms \<and> distinct (map me_LogicalName ms)
     \<and> set (map me_LogicalName ms) \<inter> set (me_LogicalName m # names) = {} \<and> distinct ?R
     \<and> set ?R \<inter> set (rev ?D @ every) = {}"
    by (simp only: Cons.IH)
  also have "\<dots> \<longleftrightarrow> ns = rev (map me_LogicalName (m # ms)) @ names \<and> ds = rev (?D @ ?R) @ every
     \<and> list_all (model_ok (set rteIDs) (set engIDs)) (m # ms) \<and> distinct (map me_LogicalName (m # ms))
     \<and> set (map me_LogicalName (m # ms)) \<inter> set names = {} \<and> distinct (?D @ ?R) \<and> set (?D @ ?R) \<inter> set every = {}"
    unfolding check_model_head_Inr model_ok_def distinct_append set_append set_rev
    by (simp del: set_map) blast
  finally show ?case by (simp only: list.map concat.simps map_append)
qed auto

lemma check_memory_Inr [res_simps]:
  "check_memory names mc = Inr mc' \<longleftrightarrow> memory_ok (set names) mc \<and> mc' = memory_defaults mc"
  by (auto simp: check_memory_def check_memory_mode_def memory_ok_def memory_defaults_def Let_def pos_or_def res_simps
    split: if_splits)

lemma check_pools_Inr [res_simps]:
  "check_pools every i seen ps = Inr u \<longleftrightarrow>
     list_all (pool_ok (set every)) ps \<and> distinct (map pe_ID ps) \<and> set (map pe_ID ps) \<inter> set seen = {}"
proof (induction ps arbitrary: i seen)
  case (Cons p ps)
  then show ?case by (auto simp: pool_ok_def find_case_Inr)
qed auto

lemma check_workflows_Inr [res_simps]:
  "check_workflows w = Inr w' \<longleftrightarrow>
     (wc_Enabled w \<longrightarrow> wc_ContentRetentionDays w = 0) \<and> w' = workflows_defaults w"
  by (auto simp: check_workflows_def workflows_defaults_def Let_def)

lemma Validate_config_Inr:
  "Validate_config urlp c = Inr c' \<longleftrightarrow>
     (if cf_Enabled c then config_ok urlp c \<and> c' = with_defaults c else c' = c)"
proof (cases "cf_Enabled c")
  case True
  show ?thesis
    by (simp add: True Validate_config_def config_ok_def with_defaults_def catalog_deployments_def Let_def res_simps)
      (auto simp: res_simps)
qed (auto simp: Validate_config_def)


lemma config_ok_defaults: "config_ok urlp c \<Longrightarrow> config_ok urlp (with_defaults c)"
  by (auto simp: config_ok_def with_defaults_def catalog_deployments_def memory_ok_def memory_defaults_def
      workflows_defaults_def pos_or_def Let_def)

lemma with_defaults_idem: "with_defaults (with_defaults c) = with_defaults c"
proof -
  have "orch_defaults (orch_defaults x) = orch_defaults x" for x by (simp add: orch_defaults_def)
  moreover have "pool_defaults (pool_defaults x) = pool_defaults x" for x by (simp add: pool_defaults_def)
  moreover have "workflows_defaults (workflows_defaults x) = workflows_defaults x" for x
    by (simp add: workflows_defaults_def)
  moreover have "memory_defaults (memory_defaults x) = memory_defaults x" for x
    by (simp add: memory_defaults_def Let_def)
  ultimately show ?thesis by (simp add: with_defaults_def)
qed

lemma find_unique: "distinct (map f xs) \<Longrightarrow> x \<in> set xs \<Longrightarrow> List.find (\<lambda>y. f y = f x) xs = Some x"
  by (induction xs) auto

lemma FindModel_mem: "FindModel c n = Some m \<Longrightarrow> m \<in> set (cf_Models c) \<and> me_LogicalName m = n"
  unfolding FindModel_def by (rule find_Some_iff_first)

lemma FindPool_mem: "FindPool c n = Some p \<Longrightarrow> p \<in> set (cf_Pools c) \<and> pe_ID p = n"
  unfolding FindPool_def by (rule find_Some_iff_first)

section \<open>An example\<close>

definition demo_urlp :: "string \<Rightarrow> (string \<times> string) option" where
  "demo_urlp u = (if u = ''http://10.0.0.1:8000'' then Some (''http'', ''10.0.0.1:8000'') else None)"

definition demo_deployment :: "string \<Rightarrow> deployment" where
  "demo_deployment i = \<lparr>dep_ID = i, dep_BackendType = ''external_connector'', dep_RuntimeEndpointID = ''r1'',
     dep_PhysicalModel = ''llama'', dep_EngineID = [], dep_ModelInstanceID = [], dep_ArtifactPath = [], dep_ArtifactDigest = []\<rparr>"

definition demo_model :: model_entry where
  "demo_model = \<lparr>me_LogicalName = ''chat'', me_DisplayName = [], me_ApprovalStatus = ''approved'',
     me_AllowedDataClasses = [''internal''],
     me_Capabilities = \<lparr>ca_Chat = True, ca_Streaming = True, ca_Embeddings = False, ca_ToolCalling = False, ca_ContextLength = 4096\<rparr>,
     me_Deployments = [demo_deployment ''d1'', demo_deployment ''d2'']\<rparr>"

definition demo_config :: config where
  "demo_config = \<lparr>cf_Enabled = True, cf_Models = [demo_model],
     cf_RuntimeEndpoints = [\<lparr>ep_ID = ''r1'', ep_DisplayName = [], ep_ConnectorType = ''openai_compatible'',
       ep_BaseURL = ''http://10.0.0.1:8000'', ep_NetworkZone = [], ep_CredentialFile = [], ep_ManagementMode = [], ep_HealthPath = []\<rparr>],
     cf_Engines = [], cf_Orchestrator = \<lparr>oc_MaxConcurrent = 0, oc_MaxQueue = -1, oc_DefaultDeadlineSeconds = 30\<rparr>,
     cf_Memory = \<lparr>mc_Mode = [], mc_DataDir = [], mc_EncryptionKeyFile = [],
       mc_Retention = \<lparr>ret_MessageDays = 0, ret_SummaryDays = 0, ret_KVCacheMinutes = 0\<rparr>, mc_SummaryModel = []\<rparr>,
     cf_Pool = \<lparr>plc_StickyTTLSeconds = 0, plc_HealthIntervalSeconds = 0\<rparr>,
     cf_Pools = [\<lparr>pe_ID = ''p1'', pe_Description = [], pe_DeploymentIDs = [''d2'']\<rparr>],
     cf_Workflows = \<lparr>wc_Enabled = True, wc_DataDir = [], wc_OpenAIAliasEnabled = None, wc_MaxFlows = 0,
       wc_RunRetentionDays = 0, wc_EventRetentionDays = 0, wc_ContentRetentionDays = 0, wc_MaxConcurrentRuns = 0\<rparr>\<rparr>"

lemma demo_config_valid: "Validate_config demo_urlp demo_config = Inr (with_defaults demo_config)"
  by code_simp

section \<open>Properties\<close>

text \<open>C30: Validation accepts exactly the well-formed configurations (unique and non-empty identifiers,
  supported endpoints, references that resolve, catalog-wide unique deployments, no reserved
  names, bounded cache time, no content retention) and completes them with the defaults; a
  disabled section is not inspected.\<close>

theorem config_accepted_exactly:
  "Validate_config urlp c = Inr c' \<longleftrightarrow>
     (if cf_Enabled c then config_ok urlp c \<and> c' = with_defaults c else c' = c)"
  by (rule Validate_config_Inr)

text \<open>Validating twice changes nothing, and every limit of an accepted, enabled configuration that is
  used as a capacity, a number of days or a time is positive.\<close>

theorem validated_config_is_stable:
  assumes "Validate_config urlp c = Inr c'"
  shows "Validate_config urlp c' = Inr c'
    \<and> (cf_Enabled c \<longrightarrow> 0 < oc_MaxConcurrent (cf_Orchestrator c') \<and> 0 < oc_MaxQueue (cf_Orchestrator c')
        \<and> 0 < oc_DefaultDeadlineSeconds (cf_Orchestrator c') \<and> 0 < plc_StickyTTLSeconds (cf_Pool c')
        \<and> 0 < ret_KVCacheMinutes (mc_Retention (cf_Memory c')) \<and> ret_KVCacheMinutes (mc_Retention (cf_Memory c')) \<le> 60
        \<and> (wc_Enabled (cf_Workflows c') \<longrightarrow> 0 < wc_MaxConcurrentRuns (cf_Workflows c') \<and> 0 < wc_MaxFlows (cf_Workflows c')))"
proof (cases "cf_Enabled c")
  case True
  have c: "config_ok urlp c" "c' = with_defaults c" using assms True by (simp_all add: Validate_config_Inr)
  have "cf_Enabled c'" by (simp add: c True with_defaults_def)
  then have "Validate_config urlp c' = Inr c'"
    by (simp add: Validate_config_Inr c config_ok_defaults with_defaults_idem)
  moreover have "memory_ok (me_LogicalName ` set (cf_Models c')) (cf_Memory c')"
    using config_ok_defaults [OF c(1)] by (simp add: c(2) config_ok_def Let_def)
  ultimately show ?thesis
    by (simp add: c(2) with_defaults_def orch_defaults_def pool_defaults_def memory_defaults_def
        workflows_defaults_def memory_ok_def Let_def)
qed (use assms in \<open>simp add: Validate_config_Inr\<close>)

theorem validated_config_is_stable_witness:
  "Validate_config demo_urlp (with_defaults demo_config) = Inr (with_defaults demo_config)
   \<and> 0 < oc_MaxQueue (cf_Orchestrator (with_defaults demo_config))"
  using validated_config_is_stable [OF demo_config_valid] by (simp add: demo_config_def)

end
