(* ===== verification/Pool.thy ===== *)
theory Pool
  imports PlatformCfg
begin

text \<open>
  The pool of deployment nodes (\<open>platform/pool/pool.go\<close>): health, draining, the number of requests
  in flight and the latency average of each node, the sticky table of conversations, and the
  order in which candidates are tried.

  The average is kept in exact rationals (the code's \<open>float64\<close> rounds). Times are arguments;
  the latency of a request is not negative (Go's clock readings are monotonic).
\<close>

record node =
  nd_ID :: string
  nd_RouteType :: string
  nd_Healthy :: bool
  nd_Draining :: bool
  nd_Inflight :: int
  nd_EMALatencyMS :: rat
  nd_LastSeen :: time

record sticky_entry =
  se_nodeID :: string
  se_expires :: time

record pool =
  po_nodes :: "(string \<times> node) list"
  po_sticky :: "(string \<times> sticky_entry) list"
  po_stickyTTL :: time

definition New_pool :: "time \<Rightarrow> pool" where
  "New_pool ttl = \<lparr>po_nodes = [], po_sticky = [], po_stickyTTL = ttl\<rparr>"

definition node_of :: "pool \<Rightarrow> string \<Rightarrow> node option" where
  "node_of p i = map_of (po_nodes p) i"

text \<open>An operation on the node found under an id, if there is one.\<close>

definition on_node :: "string \<Rightarrow> (node \<Rightarrow> node) \<Rightarrow> pool \<Rightarrow> pool" where
  "on_node i f p = (case node_of p i of None \<Rightarrow> p | Some n \<Rightarrow> p\<lparr>po_nodes := alist_put i (f n) (po_nodes p)\<rparr>)"

definition Register :: "string \<Rightarrow> string \<Rightarrow> time \<Rightarrow> pool \<Rightarrow> pool" where
  "Register i routeType now p =
     (case node_of p i of
        Some n \<Rightarrow> p\<lparr>po_nodes := alist_put i (n\<lparr>nd_RouteType := routeType\<rparr>) (po_nodes p)\<rparr>
      | None \<Rightarrow> p\<lparr>po_nodes := alist_put i \<lparr>nd_ID = i, nd_RouteType = routeType, nd_Healthy = True, nd_Draining = False,
                   nd_Inflight = 0, nd_EMALatencyMS = 0, nd_LastSeen = now\<rparr> (po_nodes p)\<rparr>)"

definition SetHealth :: "string \<Rightarrow> bool \<Rightarrow> time \<Rightarrow> pool \<Rightarrow> pool" where
  "SetHealth i healthy now = on_node i (\<lambda>n. n\<lparr>nd_Healthy := healthy, nd_LastSeen := now\<rparr>)"

definition Drain_node :: "string \<Rightarrow> pool \<Rightarrow> pool" where
  "Drain_node i = on_node i (\<lambda>n. n\<lparr>nd_Draining := True\<rparr>)"

definition Resume_node :: "string \<Rightarrow> pool \<Rightarrow> pool" where
  "Resume_node i = on_node i (\<lambda>n. n\<lparr>nd_Draining := False\<rparr>)"

definition Snapshot_pool :: "pool \<Rightarrow> node list" where
  "Snapshot_pool p = sort_key nd_ID (map snd (po_nodes p))"

definition Assignable :: "pool \<Rightarrow> string \<Rightarrow> bool" where
  "Assignable p i = (case node_of p i of None \<Rightarrow> False | Some n \<Rightarrow> nd_Healthy n \<and> \<not> nd_Draining n)"

text \<open>\<open>Acquire\<close> and the release function it returns.\<close>

definition Acquire :: "string \<Rightarrow> pool \<Rightarrow> pool" where
  "Acquire i = on_node i (\<lambda>n. n\<lparr>nd_Inflight := nd_Inflight n + 1\<rparr>)"

definition release_node :: "time \<Rightarrow> bool \<Rightarrow> time \<Rightarrow> node \<Rightarrow> node" where
  "release_node latency ok now n =
     (let ms = of_int (latency div msec);
          n1 = (if nd_Inflight n > 0 then n\<lparr>nd_Inflight := nd_Inflight n - 1\<rparr> else n);
          n2 = (if nd_EMALatencyMS n1 = 0 then n1\<lparr>nd_EMALatencyMS := ms\<rparr>
                else n1\<lparr>nd_EMALatencyMS := (4 / 5) * nd_EMALatencyMS n1 + (1 / 5) * ms\<rparr>);
          n3 = (if \<not> ok then n2\<lparr>nd_Healthy := False\<rparr> else n2)
      in n3\<lparr>nd_LastSeen := now\<rparr>)"

definition release :: "string \<Rightarrow> time \<Rightarrow> bool \<Rightarrow> time \<Rightarrow> pool \<Rightarrow> pool" where
  "release i latency ok now = on_node i (release_node latency ok now)"

section \<open>Ordering candidates\<close>

text \<open>The sticky node of a conversation; an expired entry is removed.\<close>

definition sticky_node :: "string \<Rightarrow> time \<Rightarrow> pool \<Rightarrow> string \<times> pool" where
  "sticky_node convKey now p =
     (if convKey \<noteq> [] \<and> po_stickyTTL p > 0 then
        (case map_of (po_sticky p) convKey of
           None \<Rightarrow> ([], p)
         | Some e \<Rightarrow> if now < se_expires e then (se_nodeID e, p)
                     else ([], p\<lparr>po_sticky := filter (\<lambda>x. fst x \<noteq> convKey) (po_sticky p)\<rparr>))
      else ([], p))"

text \<open>The sort key: dead nodes after the others, then by load.\<close>

datatype score = Score (sc_dead: bool) (sc_order: rat)

instantiation score :: linorder
begin

definition less_eq_score :: "score \<Rightarrow> score \<Rightarrow> bool" where
  "less_eq_score a b \<longleftrightarrow> sc_dead a < sc_dead b \<or> sc_dead a = sc_dead b \<and> sc_order a \<le> sc_order b"

definition less_score :: "score \<Rightarrow> score \<Rightarrow> bool" where
  "less_score a b \<longleftrightarrow> sc_dead a < sc_dead b \<or> sc_dead a = sc_dead b \<and> sc_order a < sc_order b"

instance
proof
  fix a b c :: score
  show "(a < b) = (a \<le> b \<and> \<not> b \<le> a)" by (auto simp: less_eq_score_def less_score_def)
  show "a \<le> a" by (simp add: less_eq_score_def)
  show "a \<le> b \<Longrightarrow> b \<le> c \<Longrightarrow> a \<le> c" by (auto simp: less_eq_score_def)
  show "a \<le> b \<Longrightarrow> b \<le> a \<Longrightarrow> a = b" by (cases a; cases b) (auto simp: less_eq_score_def)
  show "a \<le> b \<or> b \<le> a" by (auto simp: less_eq_score_def)
qed

end

definition scored :: "pool \<Rightarrow> string \<Rightarrow> string \<Rightarrow> score" where
  "scored p stickyNode i =
     (case node_of p i of
        None \<Rightarrow> Score False 0
      | Some n \<Rightarrow>
          (let dead = (\<not> nd_Healthy n \<or> nd_Draining n);
               order = of_int (nd_Inflight n) * 1000 + nd_EMALatencyMS n
           in if i = stickyNode \<and> \<not> dead then Score dead (- 1) else Score dead order))"

definition Order :: "string list \<Rightarrow> string \<Rightarrow> time \<Rightarrow> pool \<Rightarrow> string list \<times> pool" where
  "Order candidates convKey now p =
     (let (stickyNode, p') = sticky_node convKey now p
      in (sort_key (scored p stickyNode) candidates, p'))"

definition RecordSticky :: "string \<Rightarrow> string \<Rightarrow> time \<Rightarrow> pool \<Rightarrow> pool" where
  "RecordSticky convKey nodeID now p =
     (if convKey = [] \<or> po_stickyTTL p \<le> 0 then p
      else
        let s = alist_put convKey \<lparr>se_nodeID = nodeID, se_expires = now + po_stickyTTL p\<rparr> (po_sticky p)
        in p\<lparr>po_sticky := (if length s > 4096 then filter (\<lambda>(k, e). \<not> se_expires e < now) s else s)\<rparr>)"

section \<open>Invariant\<close>

definition node_ok :: "string \<Rightarrow> node \<Rightarrow> bool" where
  "node_ok i n \<longleftrightarrow> nd_ID n = i \<and> 0 \<le> nd_Inflight n \<and> 0 \<le> nd_EMALatencyMS n"

definition pool_inv :: "pool \<Rightarrow> bool" where
  "pool_inv p \<longleftrightarrow> distinct (map fst (po_nodes p)) \<and> distinct (map fst (po_sticky p))
     \<and> (\<forall>i n. node_of p i = Some n \<longrightarrow> node_ok i n)"

datatype pool_op =
    OpRegister string string time
  | OpHealth string bool time
  | OpDrain string
  | OpResume string
  | OpAcquire string
  | OpRelease string nat bool time
  | OpOrder "string list" string time
  | OpSticky string string time

fun app_pool :: "pool_op \<Rightarrow> pool \<Rightarrow> pool" where
  "app_pool (OpRegister i rt now) p = Register i rt now p"
| "app_pool (OpHealth i h now) p = SetHealth i h now p"
| "app_pool (OpDrain i) p = Drain_node i p"
| "app_pool (OpResume i) p = Resume_node i p"
| "app_pool (OpAcquire i) p = Acquire i p"
| "app_pool (OpRelease i l ok now) p = release i (int l) ok now p"
| "app_pool (OpOrder cs k now) p = snd (Order cs k now p)"
| "app_pool (OpSticky k i now) p = RecordSticky k i now p"

lemma node_of_simps [simp]:
  "node_of (p\<lparr>po_nodes := alist_put i n (po_nodes p)\<rparr>) = (node_of p)(i \<mapsto> n)"
  "node_of (p\<lparr>po_sticky := s\<rparr>) = node_of p"
  by (auto simp: node_of_def fun_eq_iff)

lemma pool_inv_put:
  assumes "pool_inv p" "node_ok i n"
  shows "pool_inv (p\<lparr>po_nodes := alist_put i n (po_nodes p)\<rparr>)"
  unfolding pool_inv_def node_of_simps using assms by (simp add: pool_inv_def alist_put_distinct)

lemma pool_inv_node: "pool_inv p \<Longrightarrow> node_of p i = Some n \<Longrightarrow> node_ok i n"
  by (simp add: pool_inv_def)

lemma pool_inv_on_node:
  "pool_inv p \<Longrightarrow> (\<And>n. node_ok i n \<Longrightarrow> node_ok i (f n)) \<Longrightarrow> pool_inv (on_node i f p)"
  by (auto simp: on_node_def pool_inv_node intro: pool_inv_put split: option.splits)

lemma node_ok_release: "node_ok i n \<Longrightarrow> 0 \<le> l \<Longrightarrow> node_ok i (release_node l ok now n)"
  by (auto simp: node_ok_def release_node_def Let_def msec_def intro!: add_nonneg_nonneg pos_imp_zdiv_nonneg_iff [THEN iffD2])

lemma pool_inv_sticky: "pool_inv p \<Longrightarrow> distinct (map fst s) \<Longrightarrow> pool_inv (p\<lparr>po_sticky := s\<rparr>)"
  by (simp add: pool_inv_def)

lemma app_pool_inv: "pool_inv p \<Longrightarrow> pool_inv (app_pool op p)"
proof (cases op)
  case (OpRegister i rt now)
  assume "pool_inv p"
  then show ?thesis
    by (auto simp: OpRegister Register_def node_ok_def dest: pool_inv_node intro!: pool_inv_put split: option.splits)
next
  case (OpOrder cs k now)
  assume p: "pool_inv p"
  then have "distinct (map fst (filter (\<lambda>x. fst x \<noteq> k) (po_sticky p)))" by (simp add: pool_inv_def distinct_map_filter)
  then show ?thesis
    using p by (auto simp: OpOrder Order_def sticky_node_def intro: pool_inv_sticky split: option.splits)
next
  case (OpSticky k i now)
  assume p: "pool_inv p"
  then have "distinct (map fst (po_sticky p))" by (simp add: pool_inv_def)
  then show ?thesis
    using p by (auto simp: OpSticky RecordSticky_def Let_def alist_put_distinct distinct_map_filter intro!: pool_inv_sticky)
qed (auto simp: SetHealth_def Drain_node_def Resume_node_def Acquire_def release_def node_ok_release
      intro!: pool_inv_on_node, auto simp: node_ok_def)

interpretation pool: guarded_component pool_inv "New_pool ttl" app_pool for ttl
  by unfold_locales (simp_all add: app_pool_inv, simp add: pool_inv_def New_pool_def node_of_def)


section \<open>Requests in flight\<close>

definition inflight :: "pool \<Rightarrow> string \<Rightarrow> int" where
  "inflight p i = (case node_of p i of None \<Rightarrow> 0 | Some n \<Rightarrow> nd_Inflight n)"

fun opens :: "string \<Rightarrow> pool_op \<Rightarrow> int" where
  "opens i (OpAcquire j) = (if i = j then 1 else 0)"
| "opens i (OpRelease j l ok now) = (if i = j then - 1 else 0)"
| "opens i _ = 0"

definition outstanding :: "string \<Rightarrow> pool_op list \<Rightarrow> int" where
  "outstanding i ops = sum_list (map (opens i) ops)"

text \<open>Every release belongs to an earlier acquisition.\<close>

definition balanced :: "string \<Rightarrow> pool_op list \<Rightarrow> bool" where
  "balanced i ops \<longleftrightarrow> (\<forall>n \<le> length ops. 0 \<le> outstanding i (take n ops))"

lemma node_on_node: "node_of (on_node j f p) i = (if i = j then map_option f (node_of p i) else node_of p i)"
  by (auto simp: on_node_def split: option.splits)

lemma node_sticky: "node_of (snd (sticky_node k now p)) = node_of p"
  by (auto simp: sticky_node_def split: option.splits)

lemma node_Order: "node_of (snd (Order cs k now p)) = node_of p"
  using node_sticky [of k now p] by (auto simp: Order_def split: prod.splits)

lemma release_node_inflight [simp]:
  "nd_Inflight (release_node l ok now n) = (if nd_Inflight n > 0 then nd_Inflight n - 1 else nd_Inflight n)"
  by (simp add: release_node_def Let_def)

lemma app_pool_node:
  assumes "node_of p i = Some n" and "0 \<le> nd_Inflight n + opens i op"
  shows "\<exists>n'. node_of (app_pool op p) i = Some n' \<and> nd_Inflight n' = nd_Inflight n + opens i op"
  using assms
  by (cases op) (auto simp: Register_def SetHealth_def Drain_node_def Resume_node_def Acquire_def release_def
      Let_def node_on_node node_Order RecordSticky_def split: option.splits)

lemma outstanding_snoc: "outstanding i (ops @ [op]) = outstanding i ops + opens i op"
  by (simp add: outstanding_def)

lemma balanced_snoc: "balanced i (ops @ [op]) \<Longrightarrow> balanced i ops \<and> 0 \<le> outstanding i (ops @ [op])"
  unfolding balanced_def by (metis length_append_singleton le_Suc_eq append_take_drop_id butlast_snoc order_refl take_all take_append
      diff_is_0_eq take0 append_Nil2)

lemma inflight_run:
  assumes "node_of p i = Some n" and "nd_Inflight n = 0" and "balanced i ops"
  shows "\<exists>n'. node_of (fold app_pool ops p) i = Some n' \<and> nd_Inflight n' = outstanding i ops"
  using assms(3)
proof (induction ops rule: rev_induct)
  case Nil
  then show ?case using assms by (simp add: outstanding_def)
next
  case (snoc op ops)
  note bal = balanced_snoc [OF snoc.prems]
  then obtain n' where n': "node_of (fold app_pool ops p) i = Some n'" "nd_Inflight n' = outstanding i ops"
    using snoc.IH by blast
  have "0 \<le> nd_Inflight n' + opens i op" using bal n' by (simp add: outstanding_snoc)
  from app_pool_node [OF n'(1) this] show ?case using n' by (simp add: outstanding_snoc)
qed

section \<open>Properties\<close>

definition demo_pool :: pool where
  "demo_pool = fold app_pool [OpRegister ''d1'' ''connector'' 0, OpRegister ''d2'' ''connector'' 0,
     OpAcquire ''d2'', OpSticky ''conv'' ''d2'' 5] (New_pool 100)"

text \<open>The scheduling order is a stable sort of the candidates: a permutation of them in which nodes
  that accept requests precede the others, less loaded nodes come first, and equally loaded ones
  keep their order.\<close>

theorem order_is_stable_sort:
  assumes "fst (Order cs convKey now p) = out" and "fst (sticky_node convKey now p) = st"
  shows "mset out = mset cs \<and> sorted (map (scored p st) out)
    \<and> filter (\<lambda>i. scored p st i = k) out = filter (\<lambda>i. scored p st i = k) cs"
  using assms by (auto simp: Order_def sort_key_stable split: prod.splits)

theorem order_is_stable_sort_witness:
  "mset (fst (Order [''d1'', ''d2'', ''d3''] ''conv'' 6 demo_pool)) = mset [''d1'', ''d2'', ''d3'']"
  using order_is_stable_sort [OF refl refl] by blast

text \<open>Routing is sticky: while the entry of a conversation has not expired, its node is tried first
  whenever it is a candidate that accepts requests.\<close>

theorem sticky_node_is_first:
  assumes "p = fold app_pool ops (New_pool ttl)"
    and "map_of (po_sticky p) convKey = Some e" and "now < se_expires e" and "0 < po_stickyTTL p" and "convKey \<noteq> []"
    and "Assignable p (se_nodeID e)" and "se_nodeID e \<in> set cs"
  shows "\<exists>rest. fst (Order cs convKey now p) = se_nodeID e # rest"
proof -
  let ?f = "scored p (se_nodeID e)"
  have inv: "pool_inv p" unfolding assms(1) by (rule pool.run_from_init)
  have st: "sticky_node convKey now p = (se_nodeID e, p)" using assms by (simp add: sticky_node_def)
  have first: "?f (se_nodeID e) = Score False (- 1)"
    using assms(6) by (auto simp: scored_def Assignable_def Let_def split: option.splits)
  have other: "Score False 0 \<le> ?f i" if "i \<noteq> se_nodeID e" for i
    using pool_inv_node [OF inv] that
    by (auto simp: scored_def less_eq_score_def node_ok_def Let_def split: option.splits)
  obtain x rest where out: "fst (Order cs convKey now p) = x # rest"
    using assms(7) by (cases "sort_key ?f cs") (auto simp: Order_def st dest: arg_cong [of _ _ set])
  have "sorted (map ?f (x # rest))"
    using out sorted_sort_key [of ?f cs] by (simp add: Order_def st del: sorted_sort_key)
  moreover have "se_nodeID e \<in> set (x # rest)" using out assms(7) by (auto simp: Order_def st dest: arg_cong [of _ _ set])
  ultimately have "?f x \<le> Score False (- 1)" using first by (auto dest: order_trans)
  then have "x = se_nodeID e" using other [of x] by (auto simp: less_eq_score_def)
  then show ?thesis using out by blast
qed

theorem sticky_node_is_first_witness:
  "\<exists>rest. fst (Order [''d1'', ''d2''] ''conv'' 6 demo_pool) = ''d2'' # rest"
proof -
  let ?e = "\<lparr>se_nodeID = ''d2'', se_expires = 105\<rparr>"
  have "map_of (po_sticky demo_pool) ''conv'' = Some ?e" "0 < po_stickyTTL demo_pool" "Assignable demo_pool ''d2''"
    by code_simp+
  then show ?thesis
    using sticky_node_is_first [OF demo_pool_def, of "''conv''" ?e 6 "[''d1'', ''d2'']"] by simp
qed

text \<open>The load of a node is exact: after any history in which every release belongs to an earlier
  acquisition, a node registered with nothing in flight counts the requests acquired and not yet
  released.\<close>

theorem inflight_is_outstanding:
  assumes "node_of p i = Some n" and "nd_Inflight n = 0" and "balanced i ops"
  shows "inflight (fold app_pool ops p) i = outstanding i ops"
  using inflight_run [OF assms] by (auto simp: inflight_def)

theorem inflight_is_outstanding_witness:
  "inflight (fold app_pool [OpAcquire ''d1'', OpRelease ''d1'' 3 False 8, OpAcquire ''d1''] (Register ''d1'' ''native'' 0 (New_pool 1))) ''d1'' = 1"
proof -
  let ?ops = "[OpAcquire ''d1'', OpRelease ''d1'' 3 False 8, OpAcquire ''d1'']"
  have "balanced ''d1'' ?ops"
    by (auto simp: balanced_def outstanding_def le_Suc_eq)
  then show ?thesis
    using inflight_is_outstanding [of "Register ''d1'' ''native'' 0 (New_pool 1)" "''d1''" _ ?ops]
    by (simp add: Register_def New_pool_def node_of_def alist_put_def outstanding_def)
qed

end
