(* ===== verification/ModelManager.thy ===== *)
theory ModelManager
  imports Pool Contract
begin

text \<open>
  The model manager (\<open>platform/modelmanager/manager.go\<close>): activation of deployments, draining,
  resolution of a logical model to candidates, the model and route listings and one round of the
  health probe.

  A connector is the runtime endpoint it was built for; the clients of an engine are its id. What
  the engines and endpoints answer is a parameter (\<open>engine_env\<close>): results of \<open>LoadModel\<close>,
  \<open>GetModelStatus\<close>, \<open>Drain\<close>, \<open>Resume\<close> (\<open>Some\<close> or \<open>Inl\<close> an error code) and of the endpoint probe.
  Error codes are kept, log lines are left out.
\<close>

record engine_env =
  ev_Load :: "string \<Rightarrow> deployment \<Rightarrow> string option"
  ev_Status :: "string \<Rightarrow> string \<Rightarrow> string + string"
  ev_Drain :: "string \<Rightarrow> string option"
  ev_Resume :: "string \<Rightarrow> string option"
  ev_Probe :: "runtime_endpoint \<Rightarrow> bool"

record candidate =
  cd_DeploymentID :: string
  cd_RouteType :: string
  cd_ContextLength :: int
  cd_Connector :: "runtime_endpoint option"
  cd_PhysicalModel :: string
  cd_Engine :: "string option"
  cd_ModelInstanceID :: string

record manager =
  mg_cfg :: config
  mg_connectors :: "string \<Rightarrow> runtime_endpoint option"
  mg_engines :: "string list"
  mg_depStatus :: "string \<Rightarrow> string option"
  mg_pool :: pool

definition New_manager :: "config \<Rightarrow> pool \<Rightarrow> string list \<Rightarrow> manager" where
  "New_manager cfg p engines =
     \<lparr>mg_cfg = cfg, mg_connectors = fold (\<lambda>ep m. m(ep_ID ep \<mapsto> ep)) (cf_RuntimeEndpoints cfg) Map.empty,
      mg_engines = engines, mg_depStatus = Map.empty, mg_pool = p\<rparr>"

text \<open>Setting the status of a deployment; the zero value of a missing entry is the empty string.\<close>

definition set_status :: "string \<Rightarrow> string \<Rightarrow> manager \<Rightarrow> manager" where
  "set_status i st m = m\<lparr>mg_depStatus := (mg_depStatus m)(i \<mapsto> st)\<rparr>"

definition status_of :: "manager \<Rightarrow> string \<Rightarrow> string" where
  "status_of m i = (case mg_depStatus m i of None \<Rightarrow> [] | Some st \<Rightarrow> st)"

definition register_in_pool :: "string \<Rightarrow> string \<Rightarrow> time \<Rightarrow> manager \<Rightarrow> manager" where
  "register_in_pool i rt now m = m\<lparr>mg_pool := Register i rt now (mg_pool m)\<rparr>"

section \<open>Activation\<close>

definition apply_deployment :: "engine_env \<Rightarrow> time \<Rightarrow> model_entry \<Rightarrow> deployment \<Rightarrow> manager \<Rightarrow> manager" where
  "apply_deployment env now mdl d m =
     (let key = dep_ID d in
      if me_ApprovalStatus mdl \<noteq> ApprovalApproved then set_status key ''suspended'' m
      else if dep_BackendType d = BackendExternalConnector then
        register_in_pool key ''connector'' now (set_status key ''available'' m)
      else if dep_BackendType d = BackendNativeEngine then
        (if dep_EngineID d \<notin> set (mg_engines m) then set_status key ''unavailable'' m
         else if ev_Load env (dep_EngineID d) d \<noteq> None then set_status key ''unavailable'' m
         else if ev_Status env (dep_EngineID d) (dep_ModelInstanceID d) \<noteq> Inr ''ready'' then set_status key ''unavailable'' m
         else register_in_pool key ''native'' now (set_status key ''available'' m))
      else m)"

definition Apply_catalog :: "engine_env \<Rightarrow> time \<Rightarrow> manager \<Rightarrow> manager" where
  "Apply_catalog env now m =
     fold (\<lambda>mdl. fold (apply_deployment env now mdl) (me_Deployments mdl)) (cf_Models (mg_cfg m)) m"

section \<open>Draining\<close>

definition findDeployment :: "manager \<Rightarrow> string \<Rightarrow> deployment option" where
  "findDeployment m i = List.find (\<lambda>d. dep_ID d = i) (catalog_deployments (mg_cfg m))"

datatype drain_error = UnknownDeployment string | EngineDrain string | EngineResume string

definition Drain_deployment :: "engine_env \<Rightarrow> string \<Rightarrow> manager \<Rightarrow> (drain_error + unit) \<times> manager" where
  "Drain_deployment env i m =
     (case findDeployment m i of
        None \<Rightarrow> (Inl (UnknownDeployment i), m)
      | Some d \<Rightarrow>
          (let m' = m\<lparr>mg_pool := Drain_node i (mg_pool m)\<rparr>
           in if dep_BackendType d = BackendNativeEngine \<and> dep_EngineID d \<in> set (mg_engines m') then
                (case ev_Drain env (dep_EngineID d) of Some c \<Rightarrow> (Inl (EngineDrain c), m') | None \<Rightarrow> (Inr (), m'))
              else (Inr (), m')))"

definition Resume_deployment :: "engine_env \<Rightarrow> string \<Rightarrow> manager \<Rightarrow> (drain_error + unit) \<times> manager" where
  "Resume_deployment env i m =
     (case findDeployment m i of
        None \<Rightarrow> (Inl (UnknownDeployment i), m)
      | Some d \<Rightarrow>
          (let m' = m\<lparr>mg_pool := Resume_node i (mg_pool m)\<rparr>
           in if dep_BackendType d = BackendNativeEngine \<and> dep_EngineID d \<in> set (mg_engines m) then
                (case ev_Resume env (dep_EngineID d) of Some c \<Rightarrow> (Inl (EngineResume c), m) | None \<Rightarrow> (Inr (), m'))
              else (Inr (), m')))"

section \<open>Resolution\<close>

text \<open>The candidate of a deployment, unless its connector or engine is missing.\<close>

definition candidate_of :: "manager \<Rightarrow> model_entry \<Rightarrow> deployment \<Rightarrow> candidate option" where
  "candidate_of m entry d =
     (let c = \<lparr>cd_DeploymentID = dep_ID d, cd_RouteType = [], cd_ContextLength = ca_ContextLength (me_Capabilities entry),
               cd_Connector = None, cd_PhysicalModel = [], cd_Engine = None, cd_ModelInstanceID = []\<rparr> in
      if status_of m (dep_ID d) \<noteq> ''available'' then None
      else if dep_BackendType d = BackendExternalConnector then
        (case mg_connectors m (dep_RuntimeEndpointID d) of
           None \<Rightarrow> None
         | Some conn \<Rightarrow> Some (c\<lparr>cd_RouteType := ''connector'', cd_Connector := Some conn, cd_PhysicalModel := dep_PhysicalModel d\<rparr>))
      else if dep_BackendType d = BackendNativeEngine then
        (if dep_EngineID d \<in> set (mg_engines m)
         then Some (c\<lparr>cd_RouteType := ''native'', cd_Engine := Some (dep_EngineID d), cd_ModelInstanceID := dep_ModelInstanceID d\<rparr>)
         else None)
      else Some c)"

definition Resolve :: "manager \<Rightarrow> string \<Rightarrow> policy_context \<Rightarrow> perror + candidate list" where
  "Resolve m logical policy =
     (case FindModel (mg_cfg m) logical of
        None \<Rightarrow> Inl (mk_error ErrModelNotAvailable (''unknown model '' @ logical) 0)
      | Some entry \<Rightarrow>
          if me_ApprovalStatus entry \<noteq> ApprovalApproved
          then Inl (mk_error ErrModelNotAllowed ''model is not approved for use'' 0)
          else if me_AllowedDataClasses entry \<noteq> [] \<and> DataClass policy \<noteq> []
            \<and> DataClass policy \<notin> set (me_AllowedDataClasses entry)
          then Inl (mk_error ErrModelNotAllowed ''declared data class is not allowed for this model'' 0)
          else
            (let out = List.map_filter (candidate_of m entry) (me_Deployments entry)
             in if out = [] then Inl (mk_error ErrModelNotAvailable (''no deployment is available for model '' @ logical) 10)
                else Inr out))"

section \<open>Listings and health\<close>

definition Models_list :: "manager \<Rightarrow> model_info list" where
  "Models_list m =
     map (\<lambda>mdl. \<lparr>LogicalName = me_LogicalName mdl,
                  mi_Ready = (me_ApprovalStatus mdl = ApprovalApproved
                     \<and> list_ex (\<lambda>d. status_of m (dep_ID d) = ''available'') (me_Deployments mdl))\<rparr>)
       (cf_Models (mg_cfg m))"

definition deployment_route :: "manager \<Rightarrow> deployment \<Rightarrow> deployment_status" where
  "deployment_route m d =
     \<lparr>ds_ID = dep_ID d, ds_RouteType = (if dep_BackendType d = BackendNativeEngine then ''native'' else ''connector''),
      ds_Status = (if status_of m (dep_ID d) = [] then ''unavailable'' else status_of m (dep_ID d))\<rparr>"

definition RouteStatus_of :: "manager \<Rightarrow> string \<Rightarrow> perror + route_status" where
  "RouteStatus_of m logical =
     (case FindModel (mg_cfg m) logical of
        None \<Rightarrow> Inl (mk_error ErrModelNotAvailable ''unknown model'' 0)
      | Some entry \<Rightarrow>
          (let ds = map (deployment_route m) (me_Deployments entry)
           in Inr \<lparr>rs_LogicalModel = logical, rs_Ready = list_ex (\<lambda>d. ds_Status d = ''available'') ds, rs_Deployments = ds\<rparr>))"

definition HasNativeEngine :: "manager \<Rightarrow> bool" where
  "HasNativeEngine m \<longleftrightarrow> mg_engines m \<noteq> []"

text \<open>One probe: the answer for a deployment that is neither suspended nor unavailable.\<close>

definition probe_result :: "engine_env \<Rightarrow> manager \<Rightarrow> deployment \<Rightarrow> bool" where
  "probe_result env m d =
     (if dep_BackendType d = BackendExternalConnector then
        (case mg_connectors m (dep_RuntimeEndpointID d) of None \<Rightarrow> False | Some conn \<Rightarrow> ev_Probe env conn)
      else if dep_EngineID d \<in> set (mg_engines m) then ev_Status env (dep_EngineID d) (dep_ModelInstanceID d) = Inr ''ready''
      else False)"

definition probe_round :: "engine_env \<Rightarrow> time \<Rightarrow> manager \<Rightarrow> manager" where
  "probe_round env now m =
     (let targets = filter (\<lambda>d. status_of m (dep_ID d) \<notin> {''suspended'', ''unavailable''}) (catalog_deployments (mg_cfg m))
      in m\<lparr>mg_pool := fold (\<lambda>d. SetHealth (dep_ID d) (probe_result env m d) now) targets (mg_pool m)\<rparr>)"


section \<open>Activation of a catalog\<close>

definition catalog_pairs :: "config \<Rightarrow> (model_entry \<times> deployment) list" where
  "catalog_pairs c = concat (map (\<lambda>mdl. map (Pair mdl) (me_Deployments mdl)) (cf_Models c))"

definition verified :: "engine_env \<Rightarrow> string list \<Rightarrow> deployment \<Rightarrow> bool" where
  "verified env engines d \<longleftrightarrow> dep_EngineID d \<in> set engines \<and> ev_Load env (dep_EngineID d) d = None
     \<and> ev_Status env (dep_EngineID d) (dep_ModelInstanceID d) = Inr ''ready''"

definition activation :: "engine_env \<Rightarrow> string list \<Rightarrow> model_entry \<Rightarrow> deployment \<Rightarrow> string" where
  "activation env engines mdl d =
     (if me_ApprovalStatus mdl \<noteq> ApprovalApproved then ''suspended''
      else if dep_BackendType d = BackendExternalConnector \<or> verified env engines d then ''available''
      else ''unavailable'')"

lemma manager_simps [simp]:
  "status_of (set_status i st m) j = (if i = j then st else status_of m j)"
  "status_of (register_in_pool i rt now m) = status_of m"
  "mg_cfg (set_status i st m) = mg_cfg m" "mg_cfg (register_in_pool i rt now m) = mg_cfg m"
  "mg_engines (set_status i st m) = mg_engines m" "mg_engines (register_in_pool i rt now m) = mg_engines m"
  "mg_connectors (set_status i st m) = mg_connectors m" "mg_connectors (register_in_pool i rt now m) = mg_connectors m"
  by (auto simp: status_of_def set_status_def register_in_pool_def)

lemma apply_deployment_simps [simp]:
  "mg_cfg (apply_deployment env now mdl d m) = mg_cfg m"
  "mg_engines (apply_deployment env now mdl d m) = mg_engines m"
  "mg_connectors (apply_deployment env now mdl d m) = mg_connectors m"
  "i \<noteq> dep_ID d \<Longrightarrow> status_of (apply_deployment env now mdl d m) i = status_of m i"
  by (simp_all add: apply_deployment_def Let_def)

lemma apply_deployment_status:
  "dep_BackendType d \<in> {BackendExternalConnector, BackendNativeEngine} \<Longrightarrow>
     status_of (apply_deployment env now mdl d m) (dep_ID d) = activation env (mg_engines m) mdl d"
  by (auto simp: apply_deployment_def activation_def verified_def Let_def go_defs)

lemma Apply_catalog_pairs:
  "Apply_catalog env now m = fold (\<lambda>(mdl, d). apply_deployment env now mdl d) (catalog_pairs (mg_cfg m)) m"
proof -
  have "fold (\<lambda>mdl. fold (apply_deployment env now mdl) (me_Deployments mdl)) ms x
      = fold (\<lambda>(mdl, d). apply_deployment env now mdl d) (concat (map (\<lambda>mdl. map (Pair mdl) (me_Deployments mdl)) ms)) x" for ms x
    by (induction ms arbitrary: x) (simp_all add: fold_map comp_def)
  then show ?thesis by (simp add: Apply_catalog_def catalog_pairs_def)
qed

lemma fold_apply_keeps:
  "mg_cfg (fold (\<lambda>(mdl, d). apply_deployment env now mdl d) ps m) = mg_cfg m"
  "mg_engines (fold (\<lambda>(mdl, d). apply_deployment env now mdl d) ps m) = mg_engines m"
  "mg_connectors (fold (\<lambda>(mdl, d). apply_deployment env now mdl d) ps m) = mg_connectors m"
  by (induction ps arbitrary: m) auto

lemma fold_apply_other:
  "i \<notin> dep_ID ` snd ` set ps \<Longrightarrow> status_of (fold (\<lambda>(mdl, d). apply_deployment env now mdl d) ps m) i = status_of m i"
  by (induction ps arbitrary: m) auto

lemma fold_apply_status:
  "distinct (map (dep_ID \<circ> snd) ps) \<Longrightarrow> (mdl, d) \<in> set ps
     \<Longrightarrow> dep_BackendType d \<in> {BackendExternalConnector, BackendNativeEngine}
     \<Longrightarrow> status_of (fold (\<lambda>(mdl, d). apply_deployment env now mdl d) ps m) (dep_ID d) = activation env (mg_engines m) mdl d"
proof (induction ps arbitrary: m)
  case (Cons p ps)
  obtain mdl' d' where p: "p = (mdl', d')" by (cases p)
  show ?case
  proof (cases "(mdl, d) = p")
    case True
    have "dep_ID d \<notin> dep_ID ` snd ` set ps" using Cons.prems(1) True [symmetric] by (simp add: image_image comp_def)
    then show ?thesis using True Cons.prems(3) p by (simp add: fold_apply_other apply_deployment_status)
  next
    case False
    then have "(mdl, d) \<in> set ps" using Cons.prems(2) by simp
    then show ?thesis using Cons p by simp
  qed
qed simp

lemma catalog_pairs_deployments: "map (dep_ID \<circ> snd) (catalog_pairs c) = map dep_ID (catalog_deployments c)"
  by (simp add: catalog_pairs_def catalog_deployments_def map_concat comp_def)

lemma config_ok_deployment:
  assumes "config_ok urlp c" "mdl \<in> set (cf_Models c)" "d \<in> set (me_Deployments mdl)"
  shows "deployment_ok (ep_ID ` set (cf_RuntimeEndpoints c)) (er_ID ` set (cf_Engines c)) d"
  using assms by (auto simp: config_ok_def model_ok_def list_all_iff Let_def)

lemma Apply_status:
  assumes c: "config_ok urlp (mg_cfg m)" and m: "mdl \<in> set (cf_Models (mg_cfg m))" and d: "d \<in> set (me_Deployments mdl)"
  shows "status_of (Apply_catalog env now m) (dep_ID d) = activation env (mg_engines m) mdl d"
  unfolding Apply_catalog_pairs
proof (rule fold_apply_status)
  show "distinct (map (dep_ID \<circ> snd) (catalog_pairs (mg_cfg m)))"
    using c by (simp add: catalog_pairs_deployments config_ok_def Let_def del: map_map)
  show "(mdl, d) \<in> set (catalog_pairs (mg_cfg m))" using m d by (auto simp: catalog_pairs_def)
  show "dep_BackendType d \<in> {BackendExternalConnector, BackendNativeEngine}"
    using config_ok_deployment [OF c m d] by (auto simp: deployment_ok_def)
qed

section \<open>What is served\<close>

definition class_ok :: "model_entry \<Rightarrow> policy_context \<Rightarrow> bool" where
  "class_ok entry policy \<longleftrightarrow> me_AllowedDataClasses entry = [] \<or> DataClass policy = []
     \<or> DataClass policy \<in> set (me_AllowedDataClasses entry)"

lemma Resolve_Inr:
  "Resolve m logical policy = Inr cs \<longleftrightarrow>
     (\<exists>entry. FindModel (mg_cfg m) logical = Some entry \<and> me_ApprovalStatus entry = ApprovalApproved \<and> class_ok entry policy
        \<and> cs = List.map_filter (candidate_of m entry) (me_Deployments entry) \<and> cs \<noteq> [])"
  by (auto simp: Resolve_def class_ok_def Let_def split: option.splits if_splits)

lemma candidate_of_Some:
  "candidate_of m entry d = Some c \<Longrightarrow> status_of m (dep_ID d) = ''available'' \<and> cd_DeploymentID c = dep_ID d
     \<and> (dep_BackendType d = BackendExternalConnector \<longrightarrow> cd_RouteType c = ''connector'' \<and> cd_PhysicalModel c = dep_PhysicalModel d
          \<and> cd_Connector c = mg_connectors m (dep_RuntimeEndpointID d) \<and> cd_Connector c \<noteq> None)
     \<and> (dep_BackendType d = BackendNativeEngine \<longrightarrow> cd_RouteType c = ''native'' \<and> cd_Engine c = Some (dep_EngineID d)
          \<and> cd_ModelInstanceID c = dep_ModelInstanceID d \<and> dep_EngineID d \<in> set (mg_engines m))"
  by (auto simp: candidate_of_def go_defs Let_def split: if_splits option.splits)

text \<open>A candidate that serves a deployment of an entry as configured and verified.\<close>

definition serves :: "engine_env \<Rightarrow> manager \<Rightarrow> model_entry \<Rightarrow> deployment \<Rightarrow> candidate \<Rightarrow> bool" where
  "serves env m entry d c \<longleftrightarrow> d \<in> set (me_Deployments entry) \<and> cd_DeploymentID c = dep_ID d
     \<and> (cd_RouteType c = ''connector'' \<and> cd_PhysicalModel c = dep_PhysicalModel d
          \<and> cd_Connector c = mg_connectors m (dep_RuntimeEndpointID d) \<and> cd_Connector c \<noteq> None
        \<or> cd_RouteType c = ''native'' \<and> cd_Engine c = Some (dep_EngineID d)
          \<and> cd_ModelInstanceID c = dep_ModelInstanceID d \<and> verified env (mg_engines m) d)"

lemma map_filter_mem: "x \<in> set (List.map_filter f xs) \<Longrightarrow> \<exists>y \<in> set xs. f y = Some x"
  by (auto simp: List.map_filter_def)

lemma Resolve_serves:
  assumes ok: "config_ok urlp (mg_cfg m)" and r: "Resolve (Apply_catalog env now m) logical policy = Inr cs" and c: "c \<in> set cs"
  shows "\<exists>entry d. FindModel (mg_cfg m) logical = Some entry \<and> me_ApprovalStatus entry = ApprovalApproved
     \<and> class_ok entry policy \<and> serves env m entry d c"
proof -
  let ?m = "Apply_catalog env now m"
  have keep: "mg_cfg ?m = mg_cfg m" "mg_engines ?m = mg_engines m" "mg_connectors ?m = mg_connectors m"
    by (simp_all add: Apply_catalog_pairs fold_apply_keeps)
  obtain entry where e: "FindModel (mg_cfg m) logical = Some entry" "me_ApprovalStatus entry = ApprovalApproved"
      "class_ok entry policy" "cs = List.map_filter (candidate_of ?m entry) (me_Deployments entry)"
    using r unfolding Resolve_Inr keep by blast
  have "c \<in> set (List.map_filter (candidate_of ?m entry) (me_Deployments entry))" using c unfolding e(4) .
  from map_filter_mem [OF this] obtain d where d: "d \<in> set (me_Deployments entry)" "candidate_of ?m entry d = Some c"
    by blast
  have m: "entry \<in> set (cf_Models (mg_cfg m))" using FindModel_mem [OF e(1)] by simp
  have "activation env (mg_engines m) entry d = ''available''"
    using candidate_of_Some [OF d(2)] Apply_status [OF ok m d(1), of env now] by simp
  moreover have "deployment_ok (ep_ID ` set (cf_RuntimeEndpoints (mg_cfg m))) (er_ID ` set (cf_Engines (mg_cfg m))) d"
    by (rule config_ok_deployment [OF ok m d(1)])
  ultimately have "serves env m entry d c"
    using candidate_of_Some [OF d(2)] d(1) e(2)
    by (auto simp: serves_def activation_def deployment_ok_def keep split: if_splits)
  then show ?thesis using e by blast
qed

section \<open>Properties\<close>

definition demo_engines :: engine_env where
  "demo_engines = \<lparr>ev_Load = (\<lambda>_ _. None), ev_Status = (\<lambda>_ _. Inr ''ready''), ev_Drain = (\<lambda>_. None),
     ev_Resume = (\<lambda>_. None), ev_Probe = (\<lambda>_. True)\<rparr>"

definition demo_manager :: manager where
  "demo_manager = New_manager (with_defaults demo_config) (New_pool 100) []"

text \<open>C28: Only what was approved and verified is served: after the activation of a valid configuration
  every candidate a request is offered belongs to the requested model, which is approved and
  allows the data class, and is a configured connector endpoint or an instance that its engine has
  loaded from the configured artifact and reports ready.\<close>

theorem served_deployments_are_verified:
  assumes "Validate_config urlp c = Inr (mg_cfg m)" and "cf_Enabled c"
    and "Resolve (Apply_catalog env now m) logical policy = Inr cs"
  shows "list_all (\<lambda>cand. \<exists>entry d. FindModel (mg_cfg m) logical = Some entry \<and> me_ApprovalStatus entry = ApprovalApproved
     \<and> class_ok entry policy \<and> serves env m entry d cand) cs"
proof -
  have "config_ok urlp (mg_cfg m)" using assms(1,2) by (auto simp: Validate_config_Inr config_ok_defaults)
  from Resolve_serves [OF this assms(3)] show ?thesis by (auto simp: list_all_iff)
qed

theorem served_deployments_are_verified_witness:
  "\<exists>c1 c2. Resolve (Apply_catalog demo_engines 0 demo_manager) ''chat'' \<lparr>DataClass = ''internal'', RoutingMode = [], AllowedModels = [], ToolsAllowed = False\<rparr>
     = Inr [c1, c2] \<and> (\<exists>entry d. me_ApprovalStatus entry = ApprovalApproved \<and> serves demo_engines demo_manager entry d c1)"
proof -
  let ?p = "\<lparr>DataClass = ''internal'', RoutingMode = [], AllowedModels = [], ToolsAllowed = False\<rparr>"
  have "map_sum id length (Resolve (Apply_catalog demo_engines 0 demo_manager) ''chat'' ?p) = Inr 2" by code_simp
  then obtain c1 c2 where r: "Resolve (Apply_catalog demo_engines 0 demo_manager) ''chat'' ?p = Inr [c1, c2]"
    by (cases "Resolve (Apply_catalog demo_engines 0 demo_manager) ''chat'' ?p") (auto simp: length_Suc_conv numeral_2_eq_2)
  have "Validate_config demo_urlp demo_config = Inr (mg_cfg demo_manager)"
    by (simp add: demo_config_valid demo_manager_def New_manager_def)
  from served_deployments_are_verified [OF this _ r] show ?thesis using r by (auto simp: demo_config_def)
qed

end
