(* ===== verification/Native.thy ===== *)
theory Native
  imports StreamWriter Contract ModelManager
begin

text \<open>
  The bridge between the OpenAI-compatible body and the engine contract
  (\<open>platform/orchestrator/native.go\<close>): the engine request of a body, the completion of an engine
  response, and the rendering of engine events as server-sent events.

  The engine is a parameter: \<open>generate\<close> answers a request; \<open>generate_stream\<close> gives the events it
  emits and its result, once for a consumer that took them all and once for one that refused an
  event (the engine stops emitting then). \<open>render\<close> prints a JSON document; floats keep their
  literal.
\<close>

section \<open>Requests\<close>

record raw_message =
  rm_Role :: string
  rm_Content :: "json option"

definition dec_raw_message :: "string \<Rightarrow> json \<Rightarrow> raw_message \<Rightarrow> raw_message option" where
  "dec_raw_message k v m =
     (if key_eq k ''role'' then map_option (\<lambda>x. m\<lparr>rm_Role := x\<rparr>) (dec_string (rm_Role m) v)
      else if key_eq k ''content'' then Some (m\<lparr>rm_Content := Some v\<rparr>)
      else Some m)"

definition raw_messages :: "json \<Rightarrow> raw_message list option" where
  "raw_messages v = dec_list (dec_struct dec_raw_message \<lparr>rm_Role = [], rm_Content = None\<rparr>) [] v"

text \<open>The loop over the decoded messages: only text content is supported.\<close>

fun text_messages :: "raw_message list \<Rightarrow> message list option" where
  "text_messages [] = Some []"
| "text_messages (m # ms) =
     (case (case rm_Content m of None \<Rightarrow> None | Some v \<Rightarrow> dec_string [] v) of
        None \<Rightarrow> None
      | Some txt \<Rightarrow> map_option ((#) \<lparr>Role = rm_Role m, Content = txt\<rparr>) (text_messages ms))"

definition invalid_request :: "string \<Rightarrow> perror" where
  "invalid_request msg = mk_error ErrInvalidRequest msg 0"

definition engineInputFromBody :: "(string \<times> json) list \<Rightarrow> perror + engine_input" where
  "engineInputFromBody b =
     (case map_of b ''messages'' of
        Some raw \<Rightarrow>
          (case raw_messages raw of
             None \<Rightarrow> Inl (invalid_request ''messages must be an array'')
           | Some msgs \<Rightarrow>
               (case text_messages msgs of
                  None \<Rightarrow> Inl (invalid_request ''only text content is supported on this deployment'')
                | Some ms \<Rightarrow> Inr \<lparr>Messages = ms, Prompt = []\<rparr>))
      | None \<Rightarrow>
          (case map_of b ''prompt'' of
             Some raw \<Rightarrow>
               (case dec_string [] raw of
                  None \<Rightarrow> Inl (invalid_request ''prompt must be a string'')
                | Some p \<Rightarrow> Inr \<lparr>Messages = [], Prompt = p\<rparr>)
           | None \<Rightarrow> Inl (invalid_request ''messages or prompt is required'')))"

text \<open>
  The generation options: a value that does not decode is ignored, a \<open>null\<close> decodes to the zero
  value of the variable. A list of stop strings keeps an empty string for an element of another type.
\<close>

definition opt_int :: "(string \<times> json) list \<Rightarrow> string \<Rightarrow> int \<Rightarrow> int" where
  "opt_int b k old = (case map_of b k of None \<Rightarrow> old | Some raw \<Rightarrow> (case dec_int old raw of None \<Rightarrow> old | Some n \<Rightarrow> n))"

fun dec_float :: "json \<Rightarrow> string option" where
  "dec_float JNull = Some ''0''"
| "dec_float (JNum l) = Some l"
| "dec_float _ = None"

definition opt_float :: "(string \<times> json) list \<Rightarrow> string \<Rightarrow> string option" where
  "opt_float b k = (case map_of b k of None \<Rightarrow> None | Some raw \<Rightarrow> dec_float raw)"

definition opt_seed :: "(string \<times> json) list \<Rightarrow> int option" where
  "opt_seed b = (case map_of b ''seed'' of None \<Rightarrow> None | Some raw \<Rightarrow> dec_int 0 raw)"

fun stop_list :: "json \<Rightarrow> string list" where
  "stop_list (JArr vs) = map (\<lambda>v. case dec_string [] v of None \<Rightarrow> [] | Some s \<Rightarrow> s) vs"
| "stop_list _ = []"

definition opt_stop :: "(string \<times> json) list \<Rightarrow> string list" where
  "opt_stop b =
     (case map_of b ''stop'' of
        None \<Rightarrow> []
      | Some raw \<Rightarrow> (case dec_string [] raw of Some single \<Rightarrow> [single] | None \<Rightarrow> stop_list raw))"

definition generation_of :: "(string \<times> json) list \<Rightarrow> engine_generation" where
  "generation_of b =
     \<lparr>eg_MaxOutputTokens = opt_int b ''max_completion_tokens'' (opt_int b ''max_tokens'' 0),
      eg_Temperature = opt_float b ''temperature'', eg_TopP = opt_float b ''top_p'', eg_TopK = None,
      eg_Seed = opt_seed b, eg_Stop = opt_stop b\<rparr>"

definition engineRequest :: "candidate \<Rightarrow> request \<Rightarrow> (string \<times> json) list \<Rightarrow> time \<Rightarrow> perror + generate_request" where
  "engineRequest cand req b deadline =
     res_bind (engineInputFromBody b) (\<lambda>input.
       Inr \<lparr>gr_RequestID = RequestID req, gr_TraceID = TraceID req, gr_TenantScope = TenantScope req,
            gr_ProjectScope = ProjectScope req, ModelInstanceID = cd_ModelInstanceID cand, gr_Input = input,
            gr_Generation = generation_of b, gr_Scheduling = \<lparr>Priority = 0, DeadlineUnixMS = deadline div msec\<rparr>,
            gr_Cache = \<lparr>ReuseHandle = [], AllowPrefixCache = False\<rparr>\<rparr>)"

definition engineErrToContract :: "engine_error \<Rightarrow> perror" where
  "engineErrToContract err = mk_error (PlatformCode (ee_Code err)) (''engine: '' @ ee_Message err) 0"

section \<open>Plain calls\<close>

definition jint :: "int \<Rightarrow> json" where
  "jint n = JNum (int_str n)"

definition usage_json :: "usage_info \<Rightarrow> json" where
  "usage_json u = JObj [(''completion_tokens'', jint (ui_OutputTokens u)), (''prompt_tokens'', jint (ui_InputTokens u)),
     (''total_tokens'', jint (ui_TotalTokens u))]"

definition openAICompletion :: "request \<Rightarrow> generate_response \<Rightarrow> time \<Rightarrow> body" where
  "openAICompletion req resp now =
     Doc (JObj
       [(''choices'', JArr [JObj [(''finish_reason'', JStr (if FinishReason resp = [] then ''stop'' else FinishReason resp)),
           (''index'', jint 0), (''message'', JObj [(''content'', JStr (OutputText resp)), (''role'', JStr ''assistant'')])]]),
        (''created'', jint (now div sec)), (''id'', JStr (''chatcmpl-'' @ gres_RequestID resp)),
        (''model'', JStr (LogicalModel req)), (''object'', JStr ''chat.completion''), (''usage'', usage_json (gres_Usage resp))])"

definition nativeExecute ::
  "(generate_request \<Rightarrow> engine_error + generate_response) \<Rightarrow> time \<Rightarrow> time \<Rightarrow> candidate \<Rightarrow> request \<Rightarrow> (string \<times> json) list
     \<Rightarrow> perror + response" where
  "nativeExecute generate dl now cand req b =
     res_bind (engineRequest cand req b dl) (\<lambda>ereq.
       case generate ereq of
         Inl eerr \<Rightarrow> Inl (if ee_Code eerr = CodeRequestCancelled then mk_error ErrInferenceTimeout ''request cancelled'' 0
                          else engineErrToContract eerr)
       | Inr resp \<Rightarrow>
           Inr \<lparr>StatusCode = 200, ContentType = ''application/json; charset=utf-8'', Body = openAICompletion req resp now,
                resp_Usage = \<lparr>InputTokens = Some (ui_InputTokens (gres_Usage resp)), OutputTokens = Some (ui_OutputTokens (gres_Usage resp))\<rparr>,
                resp_DeploymentID = cd_DeploymentID cand, resp_RouteType = ''native'', ConversationVersion = 0\<rparr>)"

section \<open>Streaming calls\<close>

record 'w native_state =
  ns_started :: bool
  ns_usage :: usage
  ns_w :: 'w

definition sse_line :: "(json \<Rightarrow> string) \<Rightarrow> json \<Rightarrow> string" where
  "sse_line render payload = ''data: '' @ render payload @ [CHR 0x0A]"

definition writeEvent :: "(json \<Rightarrow> string) \<Rightarrow> 'w stream_ops \<Rightarrow> json \<Rightarrow> 'w \<Rightarrow> bool \<times> 'w" where
  "writeEvent render W payload w =
     (case so_Chunk W (sse_line render payload) w of
        (False, w1) \<Rightarrow> (False, w1)
      | (True, w1) \<Rightarrow> (let (ok, w2) = so_Chunk W [CHR 0x0A] w1 in (ok, so_Flush W w2)))"

definition chunk_json :: "request \<Rightarrow> time \<Rightarrow> (string \<times> json) list \<Rightarrow> (string \<times> json) list \<Rightarrow> json" where
  "chunk_json req now choice extra =
     JObj ([(''choices'', JArr [JObj choice]), (''created'', jint (now div sec)), (''id'', JStr (''chatcmpl-'' @ RequestID req)),
            (''model'', JStr (LogicalModel req)), (''object'', JStr ''chat.completion.chunk'')] @ extra)"

definition error_json :: "request \<Rightarrow> string \<Rightarrow> json" where
  "error_json req msg =
     JObj [(''error'', JObj [(''code'', JStr ''model_unavailable''), (''message'', JStr msg), (''request_id'', JStr (RequestID req)),
                            (''type'', JStr ''service_error'')])]"

definition usage_of_info :: "usage_info \<Rightarrow> usage" where
  "usage_of_info u = \<lparr>InputTokens = Some (ui_InputTokens u), OutputTokens = Some (ui_OutputTokens u)\<rparr>"

definition write_done :: "'w stream_ops \<Rightarrow> 'w \<Rightarrow> bool \<times> 'w" where
  "write_done W w =
     (let (ok, w1) = so_Chunk W (''data: [DONE]'' @ [CHR 0x0A]) w; w2 = snd (so_Chunk W [CHR 0x0A] w1)
      in (ok, so_Flush W w2))"

text \<open>The callback for one engine event; \<open>False\<close> stops the engine.\<close>

definition on_event ::
  "(json \<Rightarrow> string) \<Rightarrow> 'w stream_ops \<Rightarrow> request \<Rightarrow> time \<Rightarrow> stream_event \<Rightarrow> 'w native_state \<Rightarrow> bool \<times> 'w native_state" where
  "on_event render W req now ev s =
     (if se_Type ev = EventStarted then
        (True, if ns_started s then s else s\<lparr>ns_started := True, ns_w := so_Start W 200 ''text/event-stream'' (ns_w s)\<rparr>)
      else if se_Type ev = EventTextDelta then
        (let (ok, w) = writeEvent render W (chunk_json req now
               [(''delta'', JObj [(''content'', JStr (Delta ev))]), (''index'', jint 0)] []) (ns_w s)
         in (ok, s\<lparr>ns_w := w\<rparr>))
      else if se_Type ev = EventUsage then
        (True, case se_Usage ev of None \<Rightarrow> s | Some u \<Rightarrow> s\<lparr>ns_usage := usage_of_info u\<rparr>)
      else if se_Type ev = EventCompleted then
        (let finish = (case se_Final ev of None \<Rightarrow> ''stop'' | Some f \<Rightarrow> if FinishReason f = [] then ''stop'' else FinishReason f);
             usage = (case se_Final ev of None \<Rightarrow> JObj [] | Some f \<Rightarrow> usage_json (gres_Usage f));
             s1 = (case se_Final ev of None \<Rightarrow> s | Some f \<Rightarrow> s\<lparr>ns_usage := usage_of_info (gres_Usage f)\<rparr>);
             (ok, w) = writeEvent render W (chunk_json req now
               [(''delta'', JObj []), (''finish_reason'', JStr finish), (''index'', jint 0)] [(''usage'', usage)]) (ns_w s1)
         in if \<not> ok then (False, s1\<lparr>ns_w := w\<rparr>)
            else (let (ok2, w2) = write_done W w in (ok2, s1\<lparr>ns_w := w2\<rparr>)))
      else if se_Type ev = EventError then
        (let msg = (case se_Err ev of None \<Rightarrow> ''inference failed'' | Some err \<Rightarrow> ''engine error: '' @ ee_Code err)
         in (False, s\<lparr>ns_w := snd (writeEvent render W (error_json req msg) (ns_w s))\<rparr>))
      else (True, s))"

fun feed ::
  "(json \<Rightarrow> string) \<Rightarrow> 'w stream_ops \<Rightarrow> request \<Rightarrow> time \<Rightarrow> stream_event list \<Rightarrow> 'w native_state \<Rightarrow> bool \<times> 'w native_state" where
  "feed render W req now [] s = (True, s)"
| "feed render W req now (ev # evs) s =
     (case on_event render W req now ev s of (False, s') \<Rightarrow> (False, s') | (True, s') \<Rightarrow> feed render W req now evs s')"

record engine_stream =
  es_events :: "stream_event list"
  es_done :: "engine_error option"
  es_refused :: "engine_error option"

definition nativeStream ::
  "(json \<Rightarrow> string) \<Rightarrow> (generate_request \<Rightarrow> engine_stream) \<Rightarrow> time \<Rightarrow> time \<Rightarrow> 'w stream_ops \<Rightarrow> candidate \<Rightarrow> request
     \<Rightarrow> (string \<times> json) list \<Rightarrow> 'w \<Rightarrow> (perror + stream_result) \<times> 'w" where
  "nativeStream render generate_stream dl now W cand req b w =
     (case engineRequest cand req b dl of
        Inl err \<Rightarrow> (Inl err, w)
      | Inr ereq \<Rightarrow>
          (let es = generate_stream ereq;
               (took, s) = feed render W req now (es_events es) \<lparr>ns_started = False, ns_usage = no_usage, ns_w = w\<rparr>;
               result = \<lparr>sr_Usage = ns_usage s, sr_DeploymentID = [], sr_RouteType = [], sr_ConversationVersion = 0, ClientGone = False\<rparr>
           in case (if took then es_done es else es_refused es) of
                None \<Rightarrow> (Inr result, ns_w s)
              | Some eerr \<Rightarrow>
                  if ee_Code eerr = CodeRequestCancelled then (Inr (result\<lparr>ClientGone := True\<rparr>), ns_w s)
                  else if ns_started s then
                    (Inr result, snd (writeEvent render W (error_json req (''engine error: '' @ ee_Code eerr)) (ns_w s)))
                  else (Inl (engineErrToContract eerr), ns_w s)))"

end
