(* ===== verification/Connector.thy ===== *)
theory Connector
  imports StreamWriter Contract PlatformCfg
begin

text \<open>
  The connector to an OpenAI-compatible runtime (\<open>platform/connector/connector.go\<close>): the circuit
  breaker, the request it builds, the plain and the streaming call, the health probe, the model
  listing and the extraction of token counts.

  The network is a parameter: \<open>http\<close> answers a request with a transport error (which may be a
  timeout) or a response; \<open>files\<close> is the content of credential files. Times are arguments.
  \<open>parse\<close> turns bytes into the JSON document they hold.
\<close>

definition connectTimeout :: time where [go_defs]: "connectTimeout = 10 * sec"
definition overallTimeout :: time where [go_defs]: "overallTimeout = 15 * minute"
definition healthTimeout :: time where [go_defs]: "healthTimeout = 2 * sec"
definition breakerThreshold :: nat where [go_defs]: "breakerThreshold = 3"
definition breakerCooldown :: time where [go_defs]: "breakerCooldown = 30 * sec"

text \<open>\<open>OpenAICompatible\<close>; \<open>openedAt\<close> is \<open>None\<close> as long as it is the zero time.\<close>

record connector =
  co_ep :: runtime_endpoint
  co_failures :: nat
  co_openedAt :: "time option"

definition New_connector :: "runtime_endpoint \<Rightarrow> connector" where
  "New_connector ep = \<lparr>co_ep = ep, co_failures = 0, co_openedAt = None\<rparr>"

record call_result =
  cr_StatusCode :: int
  cr_ContentType :: string
  cr_Body :: body
  cr_Usage :: usage

record stream_outcome =
  so_Usage :: usage
  so_ClientGone :: bool

section \<open>Circuit breaker\<close>

definition breakerOpen :: "time \<Rightarrow> connector \<Rightarrow> bool \<times> connector" where
  "breakerOpen now c =
     (if co_failures c < breakerThreshold then (False, c)
      else if (case co_openedAt c of None \<Rightarrow> True | Some t \<Rightarrow> now - t > breakerCooldown)
        then (False, c\<lparr>co_failures := breakerThreshold - 1\<rparr>)
      else (True, c))"

definition recordResult :: "bool \<Rightarrow> time \<Rightarrow> connector \<Rightarrow> connector" where
  "recordResult ok now c =
     (if ok then c\<lparr>co_failures := 0\<rparr>
      else
        let c1 = c\<lparr>co_failures := co_failures c + 1\<rparr>
        in if co_failures c1 = breakerThreshold then c1\<lparr>co_openedAt := Some now\<rparr> else c1)"

section \<open>Requests\<close>

record http_request =
  hq_Method :: string
  hq_URL :: string
  hq_Headers :: "(string \<times> string) list"
  hq_Body :: body

record http_response =
  hp_StatusCode :: int
  hp_ContentType :: string
  hp_Body :: string
  hp_ReadErr :: bool

datatype http_result = TransportError bool | Answer http_response

definition credential :: "(string \<Rightarrow> string option) \<Rightarrow> connector \<Rightarrow> string option" where
  "credential files c =
     (if ep_CredentialFile (co_ep c) = [] then Some []
      else map_option trim_space (files (ep_CredentialFile (co_ep c))))"

definition buildRequest ::
  "(string \<Rightarrow> bool) \<Rightarrow> (string \<Rightarrow> string option) \<Rightarrow> string \<Rightarrow> body \<Rightarrow> string \<Rightarrow> string \<Rightarrow> connector \<Rightarrow> perror + http_request" where
  "buildRequest url_ok files upstreamPath b accept reqID c =
     (if \<not> url_ok (ep_BaseURL (co_ep c) @ upstreamPath)
      then Inl (mk_error ErrInternalContract ''failed to build upstream request'' 0)
      else
        let hs = [(''Content-Type'', ''application/json''), (''X-Request-ID'', reqID)]
                 @ (if accept \<noteq> [] then [(''Accept'', accept)] else [])
        in case credential files c of
             None \<Rightarrow> Inl (mk_error ErrModelNotAvailable ''runtime credential unavailable'' 0)
           | Some cred \<Rightarrow>
               Inr \<lparr>hq_Method = ''POST'', hq_URL = ep_BaseURL (co_ep c) @ upstreamPath,
                    hq_Headers = hs @ (if cred \<noteq> [] then [(''Authorization'', ''Bearer '' @ cred)] else []), hq_Body = b\<rparr>)"

definition classifyTransport :: "bool \<Rightarrow> perror" where
  "classifyTransport timeout =
     (if timeout then mk_error ErrInferenceTimeout ''inference did not complete in time'' 0
      else mk_error ErrModelNotAvailable ''runtime is unreachable'' 5)"

section \<open>Token counts\<close>

record usage_probe =
  up_PromptTokens :: int
  up_CompletionTokens :: int
  up_InputTokens :: int
  up_OutputTokens :: int

definition usage_probe0 :: usage_probe where
  "usage_probe0 = \<lparr>up_PromptTokens = 0, up_CompletionTokens = 0, up_InputTokens = 0, up_OutputTokens = 0\<rparr>"

definition dec_usage_probe :: "string \<Rightarrow> json \<Rightarrow> usage_probe \<Rightarrow> usage_probe option" where
  "dec_usage_probe k v u =
     (if key_eq k ''prompt_tokens'' then map_option (\<lambda>n. u\<lparr>up_PromptTokens := n\<rparr>) (dec_int (up_PromptTokens u) v)
      else if key_eq k ''completion_tokens'' then map_option (\<lambda>n. u\<lparr>up_CompletionTokens := n\<rparr>) (dec_int (up_CompletionTokens u) v)
      else if key_eq k ''input_tokens'' then map_option (\<lambda>n. u\<lparr>up_InputTokens := n\<rparr>) (dec_int (up_InputTokens u) v)
      else if key_eq k ''output_tokens'' then map_option (\<lambda>n. u\<lparr>up_OutputTokens := n\<rparr>) (dec_int (up_OutputTokens u) v)
      else Some u)"

record usage_doc =
  ud_Usage :: "usage_probe option"
  ud_Response :: "usage_probe option option"

definition dec_usage_response :: "string \<Rightarrow> json \<Rightarrow> usage_probe option \<Rightarrow> usage_probe option option" where
  "dec_usage_response k v u = (if key_eq k ''usage'' then dec_struct_ptr dec_usage_probe usage_probe0 u v else Some u)"

definition dec_usage_doc :: "string \<Rightarrow> json \<Rightarrow> usage_doc \<Rightarrow> usage_doc option" where
  "dec_usage_doc k v d =
     (if key_eq k ''usage'' then map_option (\<lambda>u. d\<lparr>ud_Usage := u\<rparr>) (dec_struct_ptr dec_usage_probe usage_probe0 (ud_Usage d) v)
      else if key_eq k ''response'' then map_option (\<lambda>r. d\<lparr>ud_Response := r\<rparr>) (dec_struct_ptr dec_usage_response None (ud_Response d) v)
      else Some d)"

definition SniffUsage :: "body \<Rightarrow> usage" where
  "SniffUsage data =
     (case unmarshal (dec_struct dec_usage_doc \<lparr>ud_Usage = None, ud_Response = None\<rparr>) data of
        None \<Rightarrow> no_usage
      | Some probe \<Rightarrow>
          (case (case ud_Usage probe of Some u \<Rightarrow> Some u
                 | None \<Rightarrow> (case ud_Response probe of None \<Rightarrow> None | Some u \<Rightarrow> u)) of
             None \<Rightarrow> no_usage
           | Some u \<Rightarrow> \<lparr>InputTokens = Some (i64 (up_PromptTokens u + up_InputTokens u)),
                         OutputTokens = Some (i64 (up_CompletionTokens u + up_OutputTokens u))\<rparr>))"

section \<open>Plain calls\<close>

definition circuit_open :: perror where
  "circuit_open = mk_error ErrModelNotAvailable ''runtime circuit is open'' (breakerCooldown div sec)"

definition Do ::
  "(string \<Rightarrow> body) \<Rightarrow> (string \<Rightarrow> bool) \<Rightarrow> (string \<Rightarrow> string option) \<Rightarrow> (http_request \<Rightarrow> http_result) \<Rightarrow> time \<Rightarrow> time
     \<Rightarrow> string \<Rightarrow> body \<Rightarrow> string \<Rightarrow> string \<Rightarrow> connector \<Rightarrow> (perror + call_result) \<times> connector" where
  "Do parse url_ok files http now done upstreamPath b accept reqID c =
     (let (isOpen, c1) = breakerOpen now c in
      if isOpen then (Inl circuit_open, c1)
      else case buildRequest url_ok files upstreamPath b accept reqID c1 of
        Inl err \<Rightarrow> (Inl err, c1)
      | Inr req \<Rightarrow>
          (case http req of
             TransportError timeout \<Rightarrow> (Inl (classifyTransport timeout), recordResult False done c1)
           | Answer resp \<Rightarrow>
               if hp_ReadErr resp
               then (Inl (mk_error ErrInternalContract ''upstream body read failed'' 0), recordResult False done c1)
               else (Inr \<lparr>cr_StatusCode = hp_StatusCode resp, cr_ContentType = hp_ContentType resp, cr_Body = parse (hp_Body resp),
                          cr_Usage = SniffUsage (parse (hp_Body resp))\<rparr>,
                     recordResult (hp_StatusCode resp < 500) done c1)))"

section \<open>Streaming calls\<close>

text \<open>
  \<open>bufio.ScanLines\<close> with a buffer of 4 MiB: lines without their newline and a trailing return, the
  rest after the last newline unless it is empty; a line that does not fit ends the scan.
\<close>

definition drop_cr :: "string \<Rightarrow> string" where
  "drop_cr l = trim_suffix l [CHR 0x0D]"

definition max_line :: int where [go_defs]: "max_line = 4 * 1024 * 1024"

fun scan_parts :: "string list \<Rightarrow> string list" where
  "scan_parts [] = []"
| "scan_parts [l] = (if l = [] \<or> int (length l) \<ge> max_line then [] else [drop_cr l])"
| "scan_parts (l # ls) = (if int (length l) \<ge> max_line then [] else drop_cr l # scan_parts ls)"

definition scan_lines :: "string \<Rightarrow> string list" where
  "scan_lines b = scan_parts (split_on (CHR 0x0A) b)"

fun contains :: "string \<Rightarrow> string \<Rightarrow> bool" where
  "contains sub [] = (sub = [])"
| "contains sub (c # cs) = (prefix sub (c # cs) \<or> contains sub cs)"

definition line_usage :: "(string \<Rightarrow> body) \<Rightarrow> string \<Rightarrow> usage \<Rightarrow> usage" where
  "line_usage parse line u =
     (if has_prefix line ''data: '' \<and> contains ''\"usage\"'' (trim_prefix line ''data: '') then
        (let u' = SniffUsage (parse (trim_prefix line ''data: ''))
         in if InputTokens u' \<noteq> None \<or> OutputTokens u' \<noteq> None then u' else u)
      else u)"

fun copy_lines :: "(string \<Rightarrow> body) \<Rightarrow> 'w stream_ops \<Rightarrow> string list \<Rightarrow> usage \<Rightarrow> 'w \<Rightarrow> stream_outcome \<times> 'w" where
  "copy_lines parse W [] u w = (\<lparr>so_Usage = u, so_ClientGone = False\<rparr>, so_Flush W w)"
| "copy_lines parse W (l # ls) u w =
     (case so_Chunk W (l @ [CHR 0x0A]) w of
        (False, w1) \<Rightarrow> (\<lparr>so_Usage = u, so_ClientGone = True\<rparr>, w1)
      | (True, w1) \<Rightarrow>
          copy_lines parse W ls (line_usage parse l u) (if l = [] then so_Flush W w1 else w1))"

definition DoStream ::
  "(string \<Rightarrow> body) \<Rightarrow> (string \<Rightarrow> bool) \<Rightarrow> (string \<Rightarrow> string option) \<Rightarrow> (http_request \<Rightarrow> http_result) \<Rightarrow> time \<Rightarrow> time
     \<Rightarrow> 'w stream_ops \<Rightarrow> string \<Rightarrow> body \<Rightarrow> string \<Rightarrow> string \<Rightarrow> connector \<Rightarrow> 'w
     \<Rightarrow> (perror + stream_outcome) \<times> connector \<times> 'w" where
  "DoStream parse url_ok files http now done W upstreamPath b accept reqID c w =
     (let (isOpen, c1) = breakerOpen now c in
      if isOpen then (Inl circuit_open, c1, w)
      else case buildRequest url_ok files upstreamPath b accept reqID c1 of
        Inl err \<Rightarrow> (Inl err, c1, w)
      | Inr req \<Rightarrow>
          (case http req of
             TransportError timeout \<Rightarrow> (Inl (classifyTransport timeout), recordResult False done c1, w)
           | Answer resp \<Rightarrow>
               let c2 = recordResult (hp_StatusCode resp < 500) done c1; ct = hp_ContentType resp in
               if \<not> has_prefix ct ''text/event-stream'' then
                 (if hp_ReadErr resp then (Inl (mk_error ErrInternalContract ''upstream body read failed'' 0), c2, w)
                  else
                    let w1 = so_Start W (hp_StatusCode resp) ct w;
                        w2 = snd (so_Chunk W (hp_Body resp) w1)
                    in (Inr \<lparr>so_Usage = SniffUsage (parse (hp_Body resp)), so_ClientGone = False\<rparr>, c2, so_Flush W w2))
               else
                 let (outcome, w1) = copy_lines parse W (scan_lines (hp_Body resp)) no_usage (so_Start W (hp_StatusCode resp) ct w)
                 in (Inr outcome, c2, w1)))"

section \<open>Probe and listing\<close>

definition Health :: "(http_request \<Rightarrow> http_result) \<Rightarrow> (string \<Rightarrow> bool) \<Rightarrow> connector \<Rightarrow> bool" where
  "Health http url_ok c =
     (let path = (if ep_HealthPath (co_ep c) = [] then ''/v1/models'' else ep_HealthPath (co_ep c));
          url = ep_BaseURL (co_ep c) @ path
      in if \<not> url_ok url then False
         else case http \<lparr>hq_Method = ''GET'', hq_URL = url, hq_Headers = [], hq_Body = Bytes []\<rparr> of
           TransportError _ \<Rightarrow> False
         | Answer resp \<Rightarrow> hp_StatusCode resp < 500)"

definition dec_model_item :: "string \<Rightarrow> json \<Rightarrow> string \<Rightarrow> string option" where
  "dec_model_item k v s = (if key_eq k ''id'' then dec_string s v else Some s)"

definition dec_model_list :: "string \<Rightarrow> json \<Rightarrow> string list \<Rightarrow> string list option" where
  "dec_model_list k v s = (if key_eq k ''data'' then dec_list (dec_struct dec_model_item []) s v else Some s)"

datatype list_error = ListingNotPermitted | ListingRequest | ListingTransport | ListingDecode

text \<open>\<open>ListModels\<close> decodes the first document of at most 1 MiB of the answer.\<close>

definition ListModels ::
  "(string \<Rightarrow> body) \<Rightarrow> (http_request \<Rightarrow> http_result) \<Rightarrow> (string \<Rightarrow> bool) \<Rightarrow> (string \<Rightarrow> string option) \<Rightarrow> connector
     \<Rightarrow> list_error + string list" where
  "ListModels parse http url_ok files c =
     (if ep_ManagementMode (co_ep c) = [] then Inl ListingNotPermitted
      else
        let url = ep_BaseURL (co_ep c) @ ''/v1/models''
        in if \<not> url_ok url then Inl ListingRequest
           else
             let hs = (case credential files c of None \<Rightarrow> [] | Some cred \<Rightarrow>
                         if cred \<noteq> [] then [(''Authorization'', ''Bearer '' @ cred)] else [])
             in case http \<lparr>hq_Method = ''GET'', hq_URL = url, hq_Headers = hs, hq_Body = Bytes []\<rparr> of
                  TransportError _ \<Rightarrow> Inl ListingTransport
                | Answer resp \<Rightarrow>
                    (case unmarshal (dec_struct dec_model_list []) (parse (take 1048576 (hp_Body resp))) of
                       None \<Rightarrow> Inl ListingDecode
                     | Some ids \<Rightarrow> Inr ids))"


section \<open>Lemmas\<close>

context stream_writer
begin

lemma out_copy_lines:
  "copy_lines parse W ls u w = (res, w') \<Longrightarrow>
     \<exists>n \<le> length ls. out w' = out w @ concat (map (\<lambda>l. l @ [CHR 0x0A]) (take n ls)) \<and> (\<not> so_ClientGone res \<longrightarrow> n = length ls)"
proof (induction ls arbitrary: u w)
  case Nil
  then show ?case by (auto simp: out_Flush)
next
  case (Cons l ls)
  obtain ok w1 where c: "so_Chunk W (l @ [CHR 0x0A]) w = (ok, w1)" by fastforce
  show ?case
  proof (cases ok)
    case True
    let ?w = "if l = [] then so_Flush W w1 else w1"
    have o: "out ?w = out w @ l @ [CHR 0x0A]" using out_Chunk [OF c] True by (simp add: out_Flush)
    have "copy_lines parse W ls (line_usage parse l u) ?w = (res, w')" using Cons.prems c True by simp
    from Cons.IH [OF this] obtain n where "n \<le> length ls"
        "out w' = out ?w @ concat (map (\<lambda>l. l @ [CHR 0x0A]) (take n ls))" "\<not> so_ClientGone res \<longrightarrow> n = length ls"
      by blast
    then show ?thesis using o by (intro exI [of _ "Suc n"]) simp
  next
    case False
    then show ?thesis using Cons.prems c out_Chunk [OF c] by (intro exI [of _ 0]) auto
  qed
qed

end

definition plain_line :: "string \<Rightarrow> bool" where
  "plain_line l \<longleftrightarrow> CHR 0x0A \<notin> set l \<and> \<not> suffix [CHR 0x0D] l \<and> int (length l) < max_line"

lemma scan_lines_plain:
  "list_all plain_line ls \<Longrightarrow> scan_lines (concat (map (\<lambda>l. l @ [CHR 0x0A]) ls)) = ls"
proof (induction ls)
  case Nil
  show ?case by (simp add: scan_lines_def)
next
  case (Cons l ls)
  let ?r = "concat (map (\<lambda>l. l @ [CHR 0x0A]) ls)"
  obtain p ps where p: "split_on (CHR 0x0A) ?r = p # ps" by (metis neq_Nil_conv split_on_nonempty)
  have "split_on (CHR 0x0A) (l @ CHR 0x0A # ?r) = l # p # ps"
    using Cons.prems by (simp add: split_on_append p plain_line_def)
  then show ?case using Cons p by (simp add: scan_lines_def plain_line_def drop_cr_def trim_suffix_def)
qed

lemma breaker_opens:
  assumes "co_failures c = 0"
  shows "recordResult False t3 (recordResult False t2 (recordResult False t1 c)) = c\<lparr>co_failures := 3, co_openedAt := Some t3\<rparr>"
  using assms by (simp add: recordResult_def go_defs Let_def)

lemma buildRequest_url:
  "buildRequest url_ok files path b accept reqID c = Inr req \<Longrightarrow> prefix (ep_BaseURL (co_ep c)) (hq_URL req)"
  by (auto simp: buildRequest_def Let_def split: if_splits option.splits)

lemma breakerOpen_ep: "breakerOpen now c = (b, c') \<Longrightarrow> co_ep c' = co_ep c"
  by (auto simp: breakerOpen_def split: if_splits)

lemma recordResult_ep [simp]: "co_ep (recordResult ok now c) = co_ep c"
  by (simp add: recordResult_def Let_def)

lemma Do_ep: "co_ep (snd (Do parse url_ok files http now done path b accept reqID c)) = co_ep c"
  by (auto simp: Do_def Let_def dest: breakerOpen_ep split: prod.splits sum.splits http_result.splits)

lemma DoStream_ep: "co_ep (fst (snd (DoStream parse url_ok files http now done W path b accept reqID c w))) = co_ep c"
  by (auto simp: DoStream_def Let_def dest: breakerOpen_ep split: prod.splits sum.splits http_result.splits)

text \<open>
  Two places where the code does more, or less, than its comments say: after the cool-down every caller
  is let through until one of them fails, not one; and a stream with CRLF line ends is not copied
  byte for byte.
\<close>

lemma half_open_admits_every_caller:
  "breakerOpen now c = (False, c1) \<Longrightarrow> breakerOpen now' c1 = (False, c1)"
  by (auto simp: breakerOpen_def breakerThreshold_def split: if_splits)

lemma crlf_is_rewritten: "scan_lines (''a'' @ [CHR 0x0D, CHR 0x0A]) = [''a'']"
  by code_simp

section \<open>Properties\<close>


text \<open>No request forgery: a connector asks the network only for URLs below its configured base URL;
  two networks that agree on those give the same results, whatever the request says.\<close>

theorem only_configured_endpoint_is_contacted:
  assumes "\<And>req. prefix (ep_BaseURL (co_ep c)) (hq_URL req) \<Longrightarrow> http1 req = http2 req"
  shows "Do parse url_ok files http1 now done path b accept reqID c = Do parse url_ok files http2 now done path b accept reqID c
    \<and> DoStream parse url_ok files http1 now done W path b accept reqID c w = DoStream parse url_ok files http2 now done W path b accept reqID c w
    \<and> Health http1 url_ok c = Health http2 url_ok c
    \<and> ListModels parse http1 url_ok files c = ListModels parse http2 url_ok files c"
proof (intro conjI)
  have same: "http1 req = http2 req" if "breakerOpen now c = (x, c1)" "buildRequest url_ok files path b accept reqID c1 = Inr req" for x c1 req
    using assms buildRequest_url [OF that(2)] breakerOpen_ep [OF that(1)] by simp
  show "Do parse url_ok files http1 now done path b accept reqID c = Do parse url_ok files http2 now done path b accept reqID c"
    unfolding Do_def Let_def by (auto simp: same split: prod.splits sum.splits)
  show "DoStream parse url_ok files http1 now done W path b accept reqID c w = DoStream parse url_ok files http2 now done W path b accept reqID c w"
    unfolding DoStream_def Let_def by (auto simp: same split: prod.splits sum.splits)
  show "Health http1 url_ok c = Health http2 url_ok c" by (simp add: Health_def Let_def assms)
  show "ListModels parse http1 url_ok files c = ListModels parse http2 url_ok files c" by (simp add: ListModels_def Let_def assms)
qed

text \<open>Streaming is transparent: an event stream of newline-terminated lines reaches the client byte
  for byte, or, when the client goes away, up to a line boundary.\<close>

theorem stream_is_transparent:
  assumes "list_all plain_line ls" and "hp_Body resp = concat (map (\<lambda>l. l @ [CHR 0x0A]) ls)"
    and "has_prefix (hp_ContentType resp) ''text/event-stream''"
    and "DoStream parse url_ok files (\<lambda>_. Answer resp) now done http_ops path b accept reqID c w = (Inr res, c', w')"
  shows "\<exists>n \<le> length ls. hw_out w' = hw_out w @ concat (map (\<lambda>l. l @ [CHR 0x0A]) (take n ls))
    \<and> (\<not> so_ClientGone res \<longrightarrow> hw_out w' = hw_out w @ hp_Body resp)"
proof -
  let ?w = "so_Start http_ops (hp_StatusCode resp) (hp_ContentType resp) w"
  have "copy_lines parse http_ops ls no_usage ?w = (res, w')"
    using assms by (auto simp: DoStream_def Let_def scan_lines_plain split: prod.splits sum.splits if_splits)
  from http.out_copy_lines [OF this] obtain n where "n \<le> length ls"
      "hw_out w' = hw_out ?w @ concat (map (\<lambda>l. l @ [CHR 0x0A]) (take n ls))" "\<not> so_ClientGone res \<longrightarrow> n = length ls"
    by blast
  then show ?thesis using assms(2) by (intro exI [of _ n]) (auto simp: http.out_Start)
qed

section \<open>Witnesses\<close>

definition demo_connector :: connector where
  "demo_connector = New_connector (hd (cf_RuntimeEndpoints demo_config))"

definition demo_http :: "http_request \<Rightarrow> http_result" where
  "demo_http req = Answer \<lparr>hp_StatusCode = 200, hp_ContentType = ''text/event-stream'',
     hp_Body = ''data: a'' @ [CHR 0x0A, CHR 0x0A], hp_ReadErr = False\<rparr>"

definition demo_client :: http_writer where
  "demo_client = \<lparr>hw_started = False, hw_onStart = 0, hw_contentType = [], hw_status = 0, hw_flushes = 0,
     hw_flusher = False, hw_room = 9, hw_out = []\<rparr>"


theorem only_configured_endpoint_is_contacted_witness:
  "Health demo_http (\<lambda>_. True) demo_connector =
     Health (\<lambda>req. if prefix ''http://10.0.0.1:8000'' (hq_URL req) then demo_http req else TransportError True) (\<lambda>_. True) demo_connector"
  using only_configured_endpoint_is_contacted [of demo_connector demo_http
      "\<lambda>req. if prefix ''http://10.0.0.1:8000'' (hq_URL req) then demo_http req else TransportError True"
      Bytes "\<lambda>_. True" "\<lambda>_. None" 0 0 "[]" "Bytes []" "[]" "[]" http_ops demo_client]
  by (simp add: demo_connector_def New_connector_def demo_config_def)

theorem stream_is_transparent_witness:
  "\<exists>c' w' res. DoStream Bytes (\<lambda>_. True) (\<lambda>_. None) demo_http 4 5 http_ops ''/v1/x'' (Bytes []) [] ''q'' demo_connector demo_client
     = (Inr res, c', w') \<and> hw_out w' = ''data: a'' @ [CHR 0x0A, CHR 0x0A]"
proof -
  let ?D = "DoStream Bytes (\<lambda>_. True) (\<lambda>_. None) demo_http 4 5 http_ops ''/v1/x'' (Bytes []) [] ''q'' demo_connector demo_client"
  let ?resp = "\<lparr>hp_StatusCode = 200, hp_ContentType = ''text/event-stream'', hp_Body = ''data: a'' @ [CHR 0x0A, CHR 0x0A], hp_ReadErr = False\<rparr>"
  have "map_sum id so_ClientGone (fst ?D) = Inr False" by code_simp
  then obtain res c' w' where d: "?D = (Inr res, c', w')" "\<not> so_ClientGone res"
    by (cases ?D; cases "fst ?D") auto
  moreover have "demo_http = (\<lambda>_. Answer ?resp)" by (simp add: fun_eq_iff demo_http_def)
  moreover have "list_all plain_line [''data: a'', []]" by code_simp
  ultimately show ?thesis
    using stream_is_transparent [of "[''data: a'', []]" ?resp Bytes "\<lambda>_. True" "\<lambda>_. None" 4 5 "''/v1/x''" "Bytes []" "[]" "''q''"
        demo_connector demo_client res c' w']
    by (auto simp: demo_client_def)
qed

end
