(* ===== verification/Memory.thy ===== *)
theory Memory
  imports PlatformCfg Json
begin

text \<open>
  The conversation memory (\<open>platform/memory/memory.go\<close>, \<open>context.go\<close>): the encrypted files of the
  conversations, the operations on them and the context builder.

  A file is what AES-256-GCM makes of it: it opens under the key it was sealed with, and bytes that
  were tampered with do not open at all (\<open>Garbage\<close>). A sealed plaintext that does not decode as a
  conversation is \<open>Sealed k None\<close>. Whether the write of an operation succeeds is an argument; the
  times are arguments. The locks make each operation atomic on its conversation. A zero
  \<open>ExpiresAt\<close> is \<open>None\<close>.
\<close>

record conv_message =
  ms_Seq :: int
  ms_Role :: string
  ms_Content :: string
  ms_TokenEst :: int
  ms_ModelID :: string
  ms_RequestID :: string
  ms_Status :: string
  ms_CreatedAt :: time

record summary =
  su_FromSeq :: int
  su_ToSeq :: int
  su_Text :: string
  su_GeneratorModel :: string
  su_CreatedAt :: time

record conversation =
  cv_ID :: string
  cv_DataClass :: string
  cv_RetentionDays :: int
  cv_Version :: int
  cv_Status :: string
  cv_NextSeq :: int
  cv_ExpiresAt :: "time option"
  cv_CreatedAt :: time
  cv_UpdatedAt :: time
  cv_Messages :: "conv_message list"
  cv_Summaries :: "summary list"
  cv_SeenRequests :: "string list"

datatype blob = Sealed string "conversation option" | Garbage

record mem_store =
  mem_files :: "(string \<times> blob) list"
  mem_key :: string
  mem_retention :: retention

datatype mem_error = ErrConflict | ErrNotFound | InvalidConvID | Undecryptable | Undecodable | MemWriteFailed

section \<open>Opening, sealing\<close>

text \<open>\<open>hex.DecodeString\<close>: pairs of hexadecimal digits.\<close>

definition hex_val :: "char \<Rightarrow> nat option" where
  "hex_val c = (let n = of_char c :: nat in
     if 48 \<le> n \<and> n \<le> 57 then Some (n - 48) else if 97 \<le> n \<and> n \<le> 102 then Some (n - 87)
     else if 65 \<le> n \<and> n \<le> 70 then Some (n - 55) else None)"

fun hex_decode :: "string \<Rightarrow> string option" where
  "hex_decode [] = Some []"
| "hex_decode [c] = None"
| "hex_decode (a # b # cs) =
     (case (hex_val a, hex_val b, hex_decode cs) of
        (Some x, Some y, Some rest) \<Rightarrow> Some (char_of (16 * x + y) # rest)
      | _ \<Rightarrow> None)"

text \<open>\<open>Open\<close>: \<open>keyfile\<close> is the content of the key file, \<open>None\<close> when it cannot be read.\<close>

datatype open_error = KeyUnreadable | BadKey

definition Open_memory :: "string option \<Rightarrow> retention \<Rightarrow> (string \<times> blob) list \<Rightarrow> open_error + mem_store" where
  "Open_memory keyfile ret files =
     (case keyfile of
        None \<Rightarrow> Inl KeyUnreadable
      | Some raw \<Rightarrow>
          (case hex_decode (trim_space raw) of
             None \<Rightarrow> Inl BadKey
           | Some key \<Rightarrow> if length key \<noteq> 32 then Inl BadKey
                         else Inr \<lparr>mem_files = files, mem_key = key, mem_retention = ret\<rparr>))"

definition seal :: "mem_store \<Rightarrow> conversation \<Rightarrow> blob" where
  "seal s c = Sealed (mem_key s) (Some c)"

fun unseal :: "string \<Rightarrow> blob \<Rightarrow> conversation option option" where
  "unseal key (Sealed k c) = (if k = key then Some c else None)"
| "unseal key Garbage = None"

definition expired :: "time \<Rightarrow> conversation \<Rightarrow> bool" where
  "expired now c \<longleftrightarrow> (case cv_ExpiresAt c of None \<Rightarrow> False | Some t \<Rightarrow> t < now)"

definition read_conv :: "mem_store \<Rightarrow> string \<Rightarrow> time \<Rightarrow> mem_error + conversation" where
  "read_conv s cid now =
     (case map_of (mem_files s) cid of
        None \<Rightarrow> Inl ErrNotFound
      | Some b \<Rightarrow>
          (case unseal (mem_key s) b of
             None \<Rightarrow> Inl Undecryptable
           | Some None \<Rightarrow> Inl Undecodable
           | Some (Some c) \<Rightarrow> if cv_Status c = ''deleting'' \<or> expired now c then Inl ErrNotFound else Inr c))"

definition write_conv :: "conversation \<Rightarrow> time \<Rightarrow> bool \<Rightarrow> mem_store \<Rightarrow> (mem_error + conversation) \<times> mem_store" where
  "write_conv c now ok s =
     (let c' = c\<lparr>cv_UpdatedAt := now\<rparr>
      in if ok then (Inr c', s\<lparr>mem_files := alist_put (cv_ID c) (seal s c') (mem_files s)\<rparr>)
         else (Inl MemWriteFailed, s))"

section \<open>Operations\<close>

definition conv_id_ok :: "string \<Rightarrow> bool" where
  "conv_id_ok cid \<longleftrightarrow> 1 \<le> length cid \<and> length cid \<le> 128
     \<and> list_all (\<lambda>c. is_lower c \<or> is_upper c \<or> is_digit c \<or> c = CHR ''_'' \<or> c = CHR ''-'') cid"

definition estimateTokens :: "string \<Rightarrow> int" where
  "estimateTokens s = (let n = int (length s) div 4 in if n = 0 \<and> s \<noteq> [] then 1 else n)"

definition new_conversation :: "mem_store \<Rightarrow> string \<Rightarrow> string \<Rightarrow> time \<Rightarrow> conversation" where
  "new_conversation s cid dataClass now =
     (let days = ret_MessageDays (mem_retention s)
      in \<lparr>cv_ID = cid, cv_DataClass = dataClass, cv_RetentionDays = days, cv_Version = 1, cv_Status = ''active'',
          cv_NextSeq = 1, cv_ExpiresAt = Some (now + days * day), cv_CreatedAt = now, cv_UpdatedAt = now,
          cv_Messages = [], cv_Summaries = [], cv_SeenRequests = []\<rparr>)"

definition GetOrCreate ::
  "string \<Rightarrow> string \<Rightarrow> int \<Rightarrow> time \<Rightarrow> bool \<Rightarrow> mem_store \<Rightarrow> (mem_error + conversation) \<times> mem_store" where
  "GetOrCreate cid dataClass expectedVersion now ok s =
     (if \<not> conv_id_ok cid then (Inl InvalidConvID, s)
      else case read_conv s cid now of
        Inl ErrNotFound \<Rightarrow> write_conv (new_conversation s cid dataClass now) now ok s
      | Inl err \<Rightarrow> (Inl err, s)
      | Inr c \<Rightarrow> if expectedVersion > 0 \<and> cv_Version c \<noteq> expectedVersion then (Inl ErrConflict, s) else (Inr c, s))"

definition add_message :: "conv_message \<Rightarrow> conversation \<Rightarrow> conversation" where
  "add_message m c = c\<lparr>cv_Messages := cv_Messages c @ [m\<lparr>ms_Seq := cv_NextSeq c\<rparr>], cv_NextSeq := cv_NextSeq c + 1\<rparr>"

definition user_message :: "string \<Rightarrow> time \<Rightarrow> conv_message \<Rightarrow> conv_message" where
  "user_message requestID now m =
     m\<lparr>ms_RequestID := requestID, ms_Status := ''complete'', ms_CreatedAt := now, ms_TokenEst := estimateTokens (ms_Content m)\<rparr>"

definition append_turn :: "string \<Rightarrow> string \<Rightarrow> conv_message list \<Rightarrow> string \<Rightarrow> string \<Rightarrow> time \<Rightarrow> conversation \<Rightarrow> conversation" where
  "append_turn requestID modelID userMsgs content status now c =
     (let c1 = fold (\<lambda>m. add_message (user_message requestID now m)) userMsgs c;
          c2 = add_message \<lparr>ms_Seq = 0, ms_Role = ''assistant'', ms_Content = content, ms_TokenEst = estimateTokens content,
                 ms_ModelID = modelID, ms_RequestID = requestID,
                 ms_Status = (if status = [] then ''complete'' else status), ms_CreatedAt = now\<rparr> c1;
          seen = cv_SeenRequests c2 @ [requestID]
      in c2\<lparr>cv_Version := cv_Version c2 + 1,
            cv_SeenRequests := (if length seen > 256 then drop (length seen - 256) seen else seen)\<rparr>)"

definition AppendTurn ::
  "string \<Rightarrow> int \<Rightarrow> string \<Rightarrow> string \<Rightarrow> conv_message list \<Rightarrow> string \<Rightarrow> string \<Rightarrow> time \<Rightarrow> bool \<Rightarrow> mem_store
     \<Rightarrow> (mem_error + int) \<times> mem_store" where
  "AppendTurn cid expectedVersion requestID modelID userMsgs content status now ok s =
     (case read_conv s cid now of
        Inl err \<Rightarrow> (Inl err, s)
      | Inr c \<Rightarrow>
          if expectedVersion > 0 \<and> cv_Version c \<noteq> expectedVersion then (Inl ErrConflict, s)
          else if requestID \<in> set (cv_SeenRequests c) then (Inr (cv_Version c), s)
          else
            (case write_conv (append_turn requestID modelID userMsgs content status now c) now ok s of
               (Inl err, s') \<Rightarrow> (Inl err, s')
             | (Inr c', s') \<Rightarrow> (Inr (cv_Version c'), s')))"

definition replace_range :: "int \<Rightarrow> int \<Rightarrow> string \<Rightarrow> string \<Rightarrow> time \<Rightarrow> conversation \<Rightarrow> conversation" where
  "replace_range fromSeq toSeq txt model now c =
     c\<lparr>cv_Messages := filter (\<lambda>m. ms_Seq m < fromSeq \<or> ms_Seq m > toSeq) (cv_Messages c),
       cv_Summaries := cv_Summaries c @ [\<lparr>su_FromSeq = fromSeq, su_ToSeq = toSeq, su_Text = txt,
         su_GeneratorModel = model, su_CreatedAt = now\<rparr>],
       cv_Version := cv_Version c + 1\<rparr>"

definition ReplaceWithSummary ::
  "string \<Rightarrow> int \<Rightarrow> int \<Rightarrow> string \<Rightarrow> string \<Rightarrow> time \<Rightarrow> bool \<Rightarrow> mem_store \<Rightarrow> (mem_error + unit) \<times> mem_store" where
  "ReplaceWithSummary cid fromSeq toSeq txt model now ok s =
     (case read_conv s cid now of
        Inl err \<Rightarrow> (Inl err, s)
      | Inr c \<Rightarrow>
          (let (res, s') = write_conv (replace_range fromSeq toSeq txt model now c) now ok s
           in (map_sum id (\<lambda>_. ()) res, s')))"

definition Delete_conv :: "string \<Rightarrow> mem_store \<Rightarrow> (mem_error + unit) \<times> mem_store" where
  "Delete_conv cid s =
     (if \<not> conv_id_ok cid then (Inl InvalidConvID, s)
      else if map_of (mem_files s) cid = None then (Inl ErrNotFound, s)
      else (Inr (), s\<lparr>mem_files := filter (\<lambda>e. fst e \<noteq> cid) (mem_files s)\<rparr>))"

text \<open>\<open>SweepExpired\<close>: files that do not open, do not decode or have expired are removed.\<close>

definition sweepable :: "string \<Rightarrow> time \<Rightarrow> blob \<Rightarrow> bool" where
  "sweepable key now b =
     (case unseal key b of None \<Rightarrow> True | Some None \<Rightarrow> True | Some (Some c) \<Rightarrow> expired now c)"

definition SweepExpired :: "time \<Rightarrow> mem_store \<Rightarrow> nat \<times> mem_store" where
  "SweepExpired now s =
     (let gone = filter (\<lambda>e. sweepable (mem_key s) now (snd e)) (mem_files s)
      in (length gone, s\<lparr>mem_files := filter (\<lambda>e. \<not> sweepable (mem_key s) now (snd e)) (mem_files s)\<rparr>))"

section \<open>The context builder\<close>

record built_context =
  bc_Messages :: "json list"
  bc_TokenEst :: int
  bc_NeedsSummary :: bool
  bc_SummaryFromSeq :: int
  bc_SummaryToSeq :: int

definition chat_json :: "string \<Rightarrow> string \<Rightarrow> json" where
  "chat_json role content = JObj [(''role'', JStr role), (''content'', JStr content)]"

record chat_message_rec =
  ch_Role :: string
  ch_Content :: string

definition dec_chat :: "string \<Rightarrow> json \<Rightarrow> chat_message_rec \<Rightarrow> chat_message_rec option" where
  "dec_chat k v m =
     (if key_eq k ''role'' then map_option (\<lambda>x. m\<lparr>ch_Role := x\<rparr>) (dec_string (ch_Role m) v)
      else if key_eq k ''content'' then map_option (\<lambda>x. m\<lparr>ch_Content := x\<rparr>) (dec_string (ch_Content m) v)
      else Some m)"

definition chat0 :: chat_message_rec where "chat0 = \<lparr>ch_Role = [], ch_Content = []\<rparr>"

definition current_tokens :: "json list \<Rightarrow> int" where
  "current_tokens msgs = sum_list (map (\<lambda>v. case dec_struct dec_chat chat0 v of None \<Rightarrow> 0 | Some m \<Rightarrow> estimateTokens (ch_Content m)) msgs)"

text \<open>
  The backward loop over the stored messages, newest first: the picked messages (oldest first) and
  the message it stopped at.
\<close>

fun pick :: "int \<Rightarrow> conv_message list \<Rightarrow> conv_message list \<Rightarrow> conv_message list \<times> conv_message option" where
  "pick remain [] acc = (acc, None)"
| "pick remain (m # ms) acc =
     (if ms_Status m \<noteq> ''complete'' then pick remain ms acc
      else if remain - ms_TokenEst m < 0 then (acc, Some m)
      else pick (remain - ms_TokenEst m) ms (m # acc))"

definition safetyMargin :: int where [go_defs]: "safetyMargin = 256"

definition context_budget :: "int \<Rightarrow> int \<Rightarrow> int" where
  "context_budget window reserved = (if window \<le> 0 then 8192 else window) - (if reserved \<le> 0 then 1024 else reserved) - safetyMargin"

definition BuildContext :: "conversation \<Rightarrow> json list \<Rightarrow> int \<Rightarrow> int \<Rightarrow> built_context" where
  "BuildContext c current window reserved =
     (let currentTokens = current_tokens current;
          remain = context_budget window reserved - currentTokens - sum_list (map (\<lambda>s. estimateTokens (su_Text s)) (cv_Summaries c));
          heads = map (\<lambda>s. chat_json ''system'' (''[conversation summary] '' @ su_Text s)) (cv_Summaries c);
          (picked, cutoff) = pick remain (rev (cv_Messages c)) []
      in \<lparr>bc_Messages = heads @ map (\<lambda>m. chat_json (ms_Role m) (ms_Content m)) picked @ current,
          bc_TokenEst = sum_list (map ms_TokenEst picked) + currentTokens,
          bc_NeedsSummary = (cutoff \<noteq> None),
          bc_SummaryFromSeq = (case cutoff of None \<Rightarrow> 0 | Some m \<Rightarrow> ms_Seq (hd (cv_Messages c))),
          bc_SummaryToSeq = (case cutoff of None \<Rightarrow> 0 | Some m \<Rightarrow> ms_Seq m)\<rparr>)"


section \<open>Invariant\<close>

definition conv_ok :: "conversation \<Rightarrow> bool" where
  "conv_ok c \<longleftrightarrow> sorted_wrt (<) (map ms_Seq (cv_Messages c))
     \<and> list_all (\<lambda>m. 1 \<le> ms_Seq m \<and> ms_Seq m < cv_NextSeq c) (cv_Messages c)
     \<and> 1 \<le> cv_NextSeq c \<and> 1 \<le> cv_Version c \<and> length (cv_SeenRequests c) \<le> 256"

definition mem_inv :: "mem_store \<Rightarrow> bool" where
  "mem_inv s \<longleftrightarrow> distinct (map fst (mem_files s))
     \<and> (\<forall>cid c. map_of (mem_files s) cid = Some (Sealed (mem_key s) (Some c)) \<longrightarrow> cv_ID c = cid \<and> conv_ok c)"

datatype mem_op =
    MGet string string int time bool
  | MAppend string int string string "conv_message list" string string time bool
  | MReplace string int int string string time bool
  | MDelete string
  | MSweep time

fun app_mem :: "mem_op \<Rightarrow> mem_store \<Rightarrow> mem_store" where
  "app_mem (MGet cid dc v now ok) s = snd (GetOrCreate cid dc v now ok s)"
| "app_mem (MAppend cid v r m us t st now ok) s = snd (AppendTurn cid v r m us t st now ok s)"
| "app_mem (MReplace cid a b t m now ok) s = snd (ReplaceWithSummary cid a b t m now ok s)"
| "app_mem (MDelete cid) s = snd (Delete_conv cid s)"
| "app_mem (MSweep now) s = snd (SweepExpired now s)"

definition empty_mem :: "string \<Rightarrow> retention \<Rightarrow> mem_store" where
  "empty_mem key ret = \<lparr>mem_files = [], mem_key = key, mem_retention = ret\<rparr>"

declare map_of_eq_Some_iff [simp del]

lemma read_conv_Inr:
  "read_conv s cid now = Inr c \<longleftrightarrow>
     map_of (mem_files s) cid = Some (Sealed (mem_key s) (Some c)) \<and> cv_Status c \<noteq> ''deleting'' \<and> \<not> expired now c"
proof (cases "map_of (mem_files s) cid")
  case (Some b)
  then show ?thesis by (cases b) (auto simp: read_conv_def split: option.splits)
qed (simp add: read_conv_def)

lemma read_conv_inv: "mem_inv s \<Longrightarrow> read_conv s cid now = Inr c \<Longrightarrow> cv_ID c = cid \<and> conv_ok c"
  by (auto simp: mem_inv_def read_conv_Inr)

lemma conv_ok_add: "conv_ok c \<Longrightarrow> conv_ok (add_message m c)"
  by (force simp: conv_ok_def add_message_def sorted_wrt_append list_all_iff)

lemma add_message_simps [simp]:
  "cv_ID (add_message m c) = cv_ID c" "cv_Version (add_message m c) = cv_Version c"
  "cv_SeenRequests (add_message m c) = cv_SeenRequests c" "cv_Status (add_message m c) = cv_Status c"
  "cv_ExpiresAt (add_message m c) = cv_ExpiresAt c"
  by (simp_all add: add_message_def)

lemma fold_add_simps:
  "conv_ok c \<Longrightarrow> conv_ok (fold (\<lambda>m. add_message (f m)) ms c)"
  "cv_ID (fold (\<lambda>m. add_message (f m)) ms c) = cv_ID c"
  "cv_Version (fold (\<lambda>m. add_message (f m)) ms c) = cv_Version c"
  "cv_SeenRequests (fold (\<lambda>m. add_message (f m)) ms c) = cv_SeenRequests c"
  "cv_Status (fold (\<lambda>m. add_message (f m)) ms c) = cv_Status c"
  "cv_ExpiresAt (fold (\<lambda>m. add_message (f m)) ms c) = cv_ExpiresAt c"
  by (induction ms arbitrary: c) (simp_all add: conv_ok_add)

lemma append_turn_simps [simp]:
  "cv_ID (append_turn r m us t st now c) = cv_ID c"
  "cv_Version (append_turn r m us t st now c) = cv_Version c + 1"
  "cv_Status (append_turn r m us t st now c) = cv_Status c"
  "cv_ExpiresAt (append_turn r m us t st now c) = cv_ExpiresAt c"
  "r \<in> set (cv_SeenRequests (append_turn r m us t st now c))"
  by (simp_all add: append_turn_def Let_def fold_add_simps)

lemma conv_ok_append_turn:
  assumes "conv_ok c"
  shows "conv_ok (append_turn r m us t st now c)"
proof -
  have *: "conv_ok d \<Longrightarrow> length q \<le> 256 \<Longrightarrow> conv_ok (d\<lparr>cv_Version := cv_Version d + 1, cv_SeenRequests := q\<rparr>)" for d q
    by (simp add: conv_ok_def)
  show ?thesis
    unfolding append_turn_def Let_def by (rule *) (auto intro!: conv_ok_add fold_add_simps(1) assms)
qed

lemma conv_ok_replace: "conv_ok c \<Longrightarrow> conv_ok (replace_range a b t m now c)"
proof -
  assume c: "conv_ok c"
  have "sorted_wrt (<) (map ms_Seq (filter P (cv_Messages c)))" for P
    using c sorted_wrt_filter [of "\<lambda>x y. ms_Seq x < ms_Seq y" "cv_Messages c" P]
    by (simp add: conv_ok_def sorted_wrt_map)
  then show ?thesis using c by (auto simp: conv_ok_def replace_range_def list_all_iff)
qed

lemma conv_ok_updated [simp]: "conv_ok (c\<lparr>cv_UpdatedAt := t\<rparr>) = conv_ok c"
  by (simp add: conv_ok_def)

lemma mem_inv_write:
  "mem_inv s \<Longrightarrow> conv_ok c \<Longrightarrow> mem_inv (snd (write_conv c now ok s))"
  by (auto simp: mem_inv_def write_conv_def seal_def Let_def alist_put_distinct)

lemma map_of_filter_keep:
  "distinct (map fst xs) \<Longrightarrow> map_of (filter P xs) k = Some v \<longleftrightarrow> map_of xs k = Some v \<and> P (k, v)"
  by (simp add: map_of_eq_Some_iff distinct_map_filter)

lemma mem_inv_filter: "mem_inv s \<Longrightarrow> mem_inv (s\<lparr>mem_files := filter P (mem_files s)\<rparr>)"
  by (auto simp: mem_inv_def distinct_map_filter map_of_filter_keep)

lemma snd_write_conv [simp]:
  "mem_key (snd (write_conv c now ok s)) = mem_key s" "mem_retention (snd (write_conv c now ok s)) = mem_retention s"
  by (simp_all add: write_conv_def Let_def)

lemma app_mem_inv:
  assumes inv: "mem_inv s"
  shows "mem_inv (app_mem op s)"
proof (cases op)
  case (MGet cid dc v now ok)
  have "conv_ok (new_conversation s cid dc now)" by (simp add: conv_ok_def new_conversation_def Let_def)
  then show ?thesis
    using inv by (auto simp: MGet GetOrCreate_def intro: mem_inv_write split: sum.splits mem_error.splits)
next
  case (MAppend cid v r m us t st now ok)
  have "mem_inv (snd (write_conv (append_turn r m us t st now c) now ok s))" if "read_conv s cid now = Inr c" for c
    using read_conv_inv [OF inv that] by (intro mem_inv_write inv conv_ok_append_turn) simp
  then show ?thesis using inv by (auto simp: MAppend AppendTurn_def split: sum.splits prod.splits)
next
  case (MReplace cid a b t m now ok)
  have "mem_inv (snd (write_conv (replace_range a b t m now c) now ok s))" if "read_conv s cid now = Inr c" for c
    using read_conv_inv [OF inv that] by (intro mem_inv_write inv conv_ok_replace) simp
  then show ?thesis using inv by (auto simp: MReplace ReplaceWithSummary_def Let_def split: sum.splits prod.splits)
next
  case (MDelete cid)
  then show ?thesis using inv by (simp add: Delete_conv_def mem_inv_filter)
next
  case (MSweep now)
  then show ?thesis using inv by (simp add: SweepExpired_def Let_def mem_inv_filter)
qed

interpretation conversations: guarded_component mem_inv "empty_mem key ret" app_mem for key ret
  by unfold_locales (simp_all add: app_mem_inv, simp add: mem_inv_def empty_mem_def)


section \<open>Lemmas\<close>

abbreviation complete :: "conv_message \<Rightarrow> bool" where
  "complete m \<equiv> ms_Status m = ''complete''"

abbreviation tokens_of :: "conv_message list \<Rightarrow> int" where
  "tokens_of ms \<equiv> sum_list (map ms_TokenEst ms)"

lemma pick_spec:
  "pick remain ms acc = (res, cutoff) \<Longrightarrow>
     \<exists>n \<le> length ms. res = rev (filter complete (take n ms)) @ acc
       \<and> (filter complete (take n ms) \<noteq> [] \<longrightarrow> tokens_of (filter complete (take n ms)) \<le> remain)
       \<and> (case cutoff of None \<Rightarrow> n = length ms
          | Some m \<Rightarrow> n < length ms \<and> m = ms ! n \<and> complete m \<and> remain < tokens_of (filter complete (take n ms)) + ms_TokenEst m)"
proof (induction remain ms acc rule: pick.induct)
  case (2 remain m ms acc)
  show ?case
  proof (cases "complete m \<and> remain - ms_TokenEst m < 0")
    case True
    then show ?thesis using 2 by (intro exI [of _ 0]) auto
  next
    case False
    let ?remain = "if complete m then remain - ms_TokenEst m else remain" and ?acc = "if complete m then m # acc else acc"
    have p: "pick ?remain ms ?acc = (res, cutoff)" using "2.prems" False by (auto split: if_splits)
    have "\<exists>n \<le> length ms. res = rev (filter complete (take n ms)) @ ?acc
        \<and> (filter complete (take n ms) \<noteq> [] \<longrightarrow> tokens_of (filter complete (take n ms)) \<le> ?remain)
        \<and> (case cutoff of None \<Rightarrow> n = length ms
          | Some m \<Rightarrow> n < length ms \<and> m = ms ! n \<and> complete m \<and> ?remain < tokens_of (filter complete (take n ms)) + ms_TokenEst m)"
      using "2.IH" False p by (cases "complete m") simp_all
    then obtain n where n: "n \<le> length ms" "res = rev (filter complete (take n ms)) @ ?acc"
        "filter complete (take n ms) \<noteq> [] \<longrightarrow> tokens_of (filter complete (take n ms)) \<le> ?remain"
        "case cutoff of None \<Rightarrow> n = length ms
          | Some m \<Rightarrow> n < length ms \<and> m = ms ! n \<and> complete m \<and> ?remain < tokens_of (filter complete (take n ms)) + ms_TokenEst m"
      by blast
    have "tokens_of (filter complete (take (Suc n) (m # ms))) \<le> remain" if "filter complete (take (Suc n) (m # ms)) \<noteq> []"
      using n(3) that False by (cases "filter complete (take n ms) = []") (auto split: if_splits)
    then show ?thesis
      using n by (intro exI [of _ "Suc n"]) (auto split: option.splits if_splits)
  qed
qed simp

lemma take_rev_drop: "n \<le> length xs \<Longrightarrow> take n (rev xs) = rev (drop (length xs - n) xs)"
  by (simp add: rev_drop)

lemma read_after_write:
  assumes "write_conv c now ok s = (Inr c', s')"
  shows "read_conv s' (cv_ID c) t = (if cv_Status c = ''deleting'' \<or> expired t c then Inl ErrNotFound else Inr c')"
proof -
  have "c' = c\<lparr>cv_UpdatedAt := now\<rparr>" "s' = s\<lparr>mem_files := alist_put (cv_ID c) (seal s c') (mem_files s)\<rparr>"
    using assms by (auto simp: write_conv_def Let_def split: if_splits)
  then show ?thesis by (simp add: read_conv_def seal_def expired_def)
qed

lemma AppendTurn_new:
  assumes inv: "mem_inv s" and r: "read_conv s cid now = Inr c" and new: "q \<notin> set (cv_SeenRequests c)"
    and a: "AppendTurn cid v q m us t st now ok s = (Inr n, s')"
  shows "n = cv_Version c + 1
    \<and> read_conv s' cid now = Inr ((append_turn q m us t st now c)\<lparr>cv_UpdatedAt := now\<rparr>)"
proof -
  let ?c = "append_turn q m us t st now c"
  have "cv_ID c = cid" using read_conv_inv [OF inv r] by simp
  then have w: "write_conv ?c now ok s = (Inr (?c\<lparr>cv_UpdatedAt := now\<rparr>), s')" "n = cv_Version ?c"
    using a r new by (auto simp: AppendTurn_def write_conv_def Let_def split: if_splits sum.splits prod.splits)
  have "\<not> (cv_Status ?c = ''deleting'' \<or> expired now ?c)" using r by (auto simp: read_conv_Inr expired_def)
  then show ?thesis using read_after_write [OF w(1), of now] w(2) \<open>cv_ID c = cid\<close> by simp
qed

lemma messages_append_turn:
  "cv_Messages (append_turn q m us t st now c) =
     cv_Messages (fold (\<lambda>m. add_message (user_message q now m)) us c) @ [last (cv_Messages (append_turn q m us t st now c))]"
  by (simp add: append_turn_def add_message_def Let_def)

lemma contents_fold_add:
  "map ms_Content (cv_Messages (fold (\<lambda>m. add_message (user_message q now m)) us c)) = map ms_Content (cv_Messages c) @ map ms_Content us"
  by (induction us arbitrary: c) (simp_all add: add_message_def user_message_def)

lemma contents_append_turn:
  "map ms_Content (cv_Messages (append_turn q m us t st now c)) = map ms_Content (cv_Messages c) @ map ms_Content us @ [t]"
  using contents_fold_add [of q now us c] by (simp add: append_turn_def Let_def) (simp add: add_message_def)

section \<open>Properties\<close>

text \<open>C26: Whatever requests, failed writes, summaries, deletions and sweeps came before, a conversation
  that can be read has strictly increasing message numbers below its next number, a positive
  version, at most 256 remembered requests, is stored under its own id and has not expired.\<close>

theorem conversations_stay_well_formed:
  assumes "read_conv (fold app_mem ops (empty_mem key ret)) cid now = Inr c"
  shows "conv_ok c \<and> cv_ID c = cid \<and> \<not> expired now c"
  using read_conv_inv [OF conversations.run_from_init assms] assms by (simp add: read_conv_Inr)

text \<open>A turn is stored exactly once: it appends the user messages and the reply and raises the
  version by one; repeating the request changes nothing and returns the same version, and another
  turn that expected the old version is a conflict.\<close>

theorem turn_is_stored_once:
  assumes "mem_inv s" and "read_conv s cid now = Inr c" and "q \<notin> set (cv_SeenRequests c)"
    and "AppendTurn cid v q m us t st now ok s = (Inr n, s')"
  shows "n = cv_Version c + 1
    \<and> (\<exists>c'. read_conv s' cid now = Inr c' \<and> map ms_Content (cv_Messages c') = map ms_Content (cv_Messages c) @ map ms_Content us @ [t])
    \<and> AppendTurn cid 0 q m2 us2 t2 st2 now ok2 s' = (Inr n, s')
    \<and> AppendTurn cid (cv_Version c) q2 m2 us2 t2 st2 now ok2 s' = (Inl ErrConflict, s')"
proof -
  let ?c = "(append_turn q m us t st now c)\<lparr>cv_UpdatedAt := now\<rparr>"
  have new: "n = cv_Version c + 1" "read_conv s' cid now = Inr ?c" using AppendTurn_new [OF assms] by simp_all
  have "1 \<le> cv_Version c" using read_conv_inv [OF assms(1,2)] by (simp add: conv_ok_def)
  then show ?thesis using new by (simp add: AppendTurn_def contents_append_turn)
qed

text \<open>C27: The context of a request is the longest history that fits: summaries, then the complete
  messages of a final segment of the history within the token budget, then the messages of the
  request, uncut; a summary is asked for exactly when a message was left out, up to that message.\<close>

theorem context_is_longest_fitting_history:
  assumes "b = BuildContext c current window reserved"
    and "limit = context_budget window reserved - current_tokens current - sum_list (map (\<lambda>x. estimateTokens (su_Text x)) (cv_Summaries c))"
  shows "\<exists>k \<le> length (cv_Messages c). \<exists>picked. picked = filter complete (drop k (cv_Messages c))
    \<and> bc_Messages b = map (\<lambda>x. chat_json ''system'' (''[conversation summary] '' @ su_Text x)) (cv_Summaries c)
         @ map (\<lambda>m. chat_json (ms_Role m) (ms_Content m)) picked @ current
    \<and> (picked \<noteq> [] \<longrightarrow> tokens_of picked \<le> limit)
    \<and> (bc_NeedsSummary b \<longleftrightarrow> 0 < k)
    \<and> (0 < k \<longrightarrow> complete (cv_Messages c ! (k - 1)) \<and> limit < tokens_of picked + ms_TokenEst (cv_Messages c ! (k - 1))
         \<and> bc_SummaryToSeq b = ms_Seq (cv_Messages c ! (k - 1)))"
proof -
  let ?ms = "cv_Messages c"
  obtain picked cutoff where p: "pick limit (rev ?ms) [] = (picked, cutoff)" by fastforce
  have tr: "tokens_of (rev xs) = tokens_of xs" for xs by (simp add: rev_map [symmetric])
  obtain n where n0: "n \<le> length ?ms" "picked = rev (filter complete (take n (rev ?ms)))"
      "filter complete (take n (rev ?ms)) \<noteq> [] \<longrightarrow> tokens_of (filter complete (take n (rev ?ms))) \<le> limit"
      "case cutoff of None \<Rightarrow> n = length ?ms
          | Some m \<Rightarrow> n < length ?ms \<and> m = rev ?ms ! n \<and> complete m
              \<and> limit < tokens_of (filter complete (take n (rev ?ms))) + ms_TokenEst m"
    using pick_spec [OF p] unfolding length_rev append_Nil2 by blast
  then have rp: "filter complete (take n (rev ?ms)) = rev picked" by simp
  have pd: "picked = filter complete (drop (length ?ms - n) ?ms)"
    using rp by (simp add: take_rev_drop [OF n0(1)] rev_filter [symmetric])
  note n = n0(1) pd n0(3,4) [unfolded rp tr rev_is_Nil_conv]
  have b: "bc_NeedsSummary b = (cutoff \<noteq> None)" "bc_SummaryToSeq b = (case cutoff of None \<Rightarrow> 0 | Some m \<Rightarrow> ms_Seq m)"
      "bc_Messages b = map (\<lambda>x. chat_json ''system'' (''[conversation summary] '' @ su_Text x)) (cv_Summaries c)
         @ map (\<lambda>m. chat_json (ms_Role m) (ms_Content m)) picked @ current"
    using p by (simp_all add: assms BuildContext_def Let_def)
  have nth: "n < length ?ms \<Longrightarrow> rev ?ms ! n = ?ms ! (length ?ms - n - 1)" by (simp add: rev_nth)
  show ?thesis
    by (intro exI [of _ "length ?ms - n"] exI [of _ picked] conjI) (use n b nth in \<open>auto split: option.splits\<close>)
qed

text \<open>Retention is enforced: a sweep removes every file that cannot be opened or has expired, counts
  them, and does not change what can be read of the others.\<close>

theorem sweep_enforces_retention:
  assumes "mem_inv s" and "SweepExpired now s = (n, s')"
  shows "list_all (\<lambda>e. \<exists>c. snd e = Sealed (mem_key s) (Some c) \<and> \<not> expired now c) (mem_files s')
    \<and> n + length (mem_files s') = length (mem_files s)
    \<and> (read_conv s' cid now = Inr c \<longleftrightarrow> read_conv s cid now = Inr c)"
proof -
  have s': "s' = s\<lparr>mem_files := filter (\<lambda>e. \<not> sweepable (mem_key s) now (snd e)) (mem_files s)\<rparr>"
    and n: "n = length (filter (\<lambda>e. sweepable (mem_key s) now (snd e)) (mem_files s))"
    using assms(2) by (auto simp: SweepExpired_def Let_def)
  have kept: "\<exists>c. b = Sealed (mem_key s) (Some c) \<and> \<not> expired now c" if "\<not> sweepable (mem_key s) now b" for b
    using that by (cases b) (auto simp: sweepable_def split: option.splits if_splits)
  have "distinct (map fst (mem_files s))" using assms(1) by (simp add: mem_inv_def)
  then have "read_conv s' cid now = Inr c \<longleftrightarrow> read_conv s cid now = Inr c"
    by (auto simp: read_conv_Inr s' map_of_filter_keep sweepable_def)
  then show ?thesis
    using kept sum_length_filter_compl [of "\<lambda>e. sweepable (mem_key s) now (snd e)" "mem_files s"]
    by (auto simp: s' n list_all_iff)
qed

section \<open>Witnesses\<close>

definition demo_ret :: retention where
  "demo_ret = \<lparr>ret_MessageDays = 30, ret_SummaryDays = 30, ret_KVCacheMinutes = 15\<rparr>"

definition demo_user :: conv_message where
  "demo_user = \<lparr>ms_Seq = 0, ms_Role = ''user'', ms_Content = ''hello there'', ms_TokenEst = 0, ms_ModelID = [],
     ms_RequestID = [], ms_Status = [], ms_CreatedAt = 0\<rparr>"

definition demo_mem_ops :: "mem_op list" where
  "demo_mem_ops = [MGet ''conv'' ''internal'' 0 5 True, MAppend ''conv'' 1 ''q1'' ''m'' [demo_user] ''hi'' [] 6 True]"

definition demo_mem :: mem_store where
  "demo_mem = fold app_mem demo_mem_ops (empty_mem ''k'' demo_ret)"

lemma demo_mem_conv: "\<exists>c. read_conv demo_mem ''conv'' 7 = Inr c \<and> cv_Version c = 2 \<and> cv_SeenRequests c = [''q1''] \<and> length (cv_Messages c) = 2"
proof -
  have "map_sum id (\<lambda>c. (cv_Version c, cv_SeenRequests c, length (cv_Messages c))) (read_conv demo_mem ''conv'' 7) = Inr (2, [''q1''], 2)"
    by code_simp
  then show ?thesis by (cases "read_conv demo_mem ''conv'' 7") auto
qed

theorem conversations_stay_well_formed_witness: "\<exists>c. read_conv demo_mem ''conv'' 7 = Inr c \<and> conv_ok c"
  using demo_mem_conv conversations_stay_well_formed [of demo_mem_ops "''k''" demo_ret "''conv''" 7]
  by (auto simp: demo_mem_def)

lemma demo_mem_inv: "mem_inv demo_mem"
  unfolding demo_mem_def by (rule conversations.run_from_init)

theorem turn_is_stored_once_witness:
  "\<exists>s'. AppendTurn ''conv'' 2 ''q2'' ''m'' [] ''ok'' [] 7 True demo_mem = (Inr 3, s')
     \<and> AppendTurn ''conv'' 2 ''q3'' ''m'' [] ''ok'' [] 7 True s' = (Inl ErrConflict, s')"
proof -
  obtain c where c: "read_conv demo_mem ''conv'' 7 = Inr c" "cv_Version c = 2" "cv_SeenRequests c = [''q1'']"
    using demo_mem_conv by blast
  have "fst (AppendTurn ''conv'' 2 ''q2'' ''m'' [] ''ok'' [] 7 True demo_mem) = Inr 3" by code_simp
  then obtain s' where s': "AppendTurn ''conv'' 2 ''q2'' ''m'' [] ''ok'' [] 7 True demo_mem = (Inr 3, s')"
    by (metis prod.collapse)
  have "''q2'' \<notin> set (cv_SeenRequests c)" by (simp add: c)
  from turn_is_stored_once [OF demo_mem_inv c(1) this s'] show ?thesis using s' c(2) by auto
qed

theorem context_is_longest_fitting_history_witness:
  "\<exists>c k. read_conv demo_mem ''conv'' 7 = Inr c \<and> k \<le> 2 \<and> bc_Messages (BuildContext c [] 0 0)
     = map (\<lambda>m. chat_json (ms_Role m) (ms_Content m)) (filter complete (drop k (cv_Messages c)))"
proof -
  have "map_sum id (\<lambda>c. (cv_Summaries c, length (cv_Messages c))) (read_conv demo_mem ''conv'' 7) = Inr ([], 2)" by code_simp
  then obtain c where c: "read_conv demo_mem ''conv'' 7 = Inr c" "cv_Summaries c = []" "length (cv_Messages c) = 2"
    by (cases "read_conv demo_mem ''conv'' 7") auto
  from context_is_longest_fitting_history [OF refl refl, of c "[]" 0 0] show ?thesis
    using c by auto
qed

theorem sweep_enforces_retention_witness:
  "length (mem_files (snd (SweepExpired (31 * day) demo_mem))) + fst (SweepExpired (31 * day) demo_mem) = 1"
proof -
  have "length (mem_files demo_mem) = 1" by code_simp
  then show ?thesis
    using sweep_enforces_retention [OF demo_mem_inv prod.collapse [symmetric], of "31 * day" "[]"]
    by (metis (no_types, lifting) add.commute)
qed

end
