(* ===== verification/Orchestrator.thy ===== *)
theory Orchestrator
  imports Native Connector Memory
begin

text \<open>
  The inference orchestrator (\<open>platform/orchestrator/orchestrator.go\<close>, \<open>stream.go\<close>,
  \<open>summary.go\<close>): admission, cancellation, preparation of a request, execution with failover, plain
  and streaming, token counting and the summary job.

  The state of one request is threaded through the orchestrator's shared state: the manager with
  its pool, the connectors by endpoint id (their circuit breakers) and the conversation store. What
  other requests do to the pool between two candidates is a parameter (\<open>nt_others\<close>), as are the
  network, the engines, the clock and the success of file writes (\<open>net\<close>, indexed by the number of the
  candidate in the loop).
\<close>

section \<open>Admission\<close>

text \<open>
  Two bounded channels. A request enters the queue or is refused; it leaves the queue with a slot
  or, when its context ends, without one; a slot is given back when the request is done.
\<close>

record admission =
  ad_queue :: nat
  ad_sem :: nat

inductive adm_step :: "nat \<Rightarrow> nat \<Rightarrow> admission \<Rightarrow> admission \<Rightarrow> bool" for maxQ maxC where
  enqueue: "ad_queue a < maxQ \<Longrightarrow> adm_step maxQ maxC a (a\<lparr>ad_queue := ad_queue a + 1\<rparr>)"
| admit: "0 < ad_queue a \<Longrightarrow> ad_sem a < maxC \<Longrightarrow> adm_step maxQ maxC a (a\<lparr>ad_queue := ad_queue a - 1, ad_sem := ad_sem a + 1\<rparr>)"
| give_up: "0 < ad_queue a \<Longrightarrow> adm_step maxQ maxC a (a\<lparr>ad_queue := ad_queue a - 1\<rparr>)"
| release_slot: "0 < ad_sem a \<Longrightarrow> adm_step maxQ maxC a (a\<lparr>ad_sem := ad_sem a - 1\<rparr>)"

definition queue_full :: perror where
  "queue_full = mk_error ErrCapacityExhausted ''request queue is full'' 5"

definition cancelled_in_queue :: perror where
  "cancelled_in_queue = mk_error ErrInferenceTimeout ''cancelled while queued'' 0"

text \<open>The cancel functions by request id; a function is the number of its request.\<close>

definition registerCancel :: "string \<Rightarrow> nat \<Rightarrow> (string \<Rightarrow> nat option) \<Rightarrow> (string \<Rightarrow> nat option)" where
  "registerCancel reqID cancel m = m(reqID \<mapsto> cancel)"

definition unregisterCancel :: "string \<Rightarrow> (string \<Rightarrow> nat option) \<Rightarrow> (string \<Rightarrow> nat option)" where
  "unregisterCancel reqID m = m(reqID := None)"

definition Cancel :: "string \<Rightarrow> (string \<Rightarrow> nat option) \<Rightarrow> nat option" where
  "Cancel requestID m = m requestID"

section \<open>State and environment\<close>

record orch =
  ot_cfg :: config
  ot_manager :: manager
  ot_conns :: "string \<Rightarrow> connector"
  ot_mem :: "mem_store option"

record net =
  nt_parse :: "string \<Rightarrow> body"
  nt_render :: "json \<Rightarrow> string"
  nt_url_ok :: "string \<Rightarrow> bool"
  nt_files :: "string \<Rightarrow> string option"
  nt_http :: "nat \<Rightarrow> http_request \<Rightarrow> http_result"
  nt_engine :: "nat \<Rightarrow> string \<Rightarrow> generate_request \<Rightarrow> engine_error + generate_response"
  nt_stream :: "nat \<Rightarrow> string \<Rightarrow> generate_request \<Rightarrow> engine_stream"
  nt_start :: "nat \<Rightarrow> time"
  nt_latency :: "nat \<Rightarrow> nat"
  nt_others :: "nat \<Rightarrow> pool_op list"
  nt_writes :: "nat \<Rightarrow> bool"

abbreviation the_pool :: "orch \<Rightarrow> pool" where
  "the_pool o1 \<equiv> mg_pool (ot_manager o1)"

definition upd_pool :: "(pool \<Rightarrow> pool) \<Rightarrow> orch \<Rightarrow> orch" where
  "upd_pool f o1 = o1\<lparr>ot_manager := (ot_manager o1)\<lparr>mg_pool := f (the_pool o1)\<rparr>\<rparr>"

definition deadline :: "orch \<Rightarrow> request \<Rightarrow> time \<Rightarrow> time" where
  "deadline o1 req now =
     (case Deadline req of Some d \<Rightarrow> d
      | None \<Rightarrow> now + oc_DefaultDeadlineSeconds (cf_Orchestrator (ot_cfg o1)) * sec)"

section \<open>Preparation\<close>

record prepared =
  pr_ordered :: "candidate list"
  pr_body :: "(string \<times> json) list"
  pr_conv :: "conversation option"
  pr_built :: "built_context option"
  pr_userMsgs :: "conv_message list"
  pr_convKey :: string

definition memErr :: "mem_error \<Rightarrow> perror" where
  "memErr err =
     (case err of
        ErrConflict \<Rightarrow> mk_error ErrConversationConflict ''conversation version conflict'' 0
      | ErrNotFound \<Rightarrow> mk_error ErrInvalidRequest ''conversation not found'' 0
      | _ \<Rightarrow> mk_error ErrPlatformNotReady ''conversation store unavailable'' 0)"

text \<open>The candidates after the restriction to a pool and to connectors for endpoints other than chat.\<close>

definition restrict_pool :: "config \<Rightarrow> string \<Rightarrow> candidate list \<Rightarrow> perror + candidate list" where
  "restrict_pool cfg pid cands =
     (if pid = [] then Inr cands
      else case FindPool cfg pid of
        None \<Rightarrow> Inl (mk_error ErrInvalidRequest (''unknown pool '' @ pid) 0)
      | Some pe \<Rightarrow>
          (let filtered = filter (\<lambda>c. cd_DeploymentID c \<in> set (pe_DeploymentIDs pe)) cands
           in if filtered = [] then Inl (mk_error ErrModelNotAvailable ''no deployment of this model belongs to the requested pool'' 10)
              else Inr filtered))"

definition restrict_endpoint :: "string \<Rightarrow> candidate list \<Rightarrow> perror + candidate list" where
  "restrict_endpoint endpoint cands =
     (if endpoint = ''/v1/chat/completions'' then Inr cands
      else
        let filtered = filter (\<lambda>c. cd_RouteType c = ''connector'') cands
        in if filtered = [] then Inl (mk_error ErrModelNotAvailable ''no deployment supports this endpoint'' 0)
           else Inr filtered)"

definition select_candidates :: "orch \<Rightarrow> request \<Rightarrow> perror + candidate list" where
  "select_candidates o1 req =
     (if ContractVersion req \<noteq> Version then Inl (mk_error ErrInternalContract (''unsupported contract version '' @ ContractVersion req) 0)
      else
        res_bind (Resolve (ot_manager o1) (LogicalModel req) (Policy req)) (\<lambda>cands.
        res_bind (restrict_pool (ot_cfg o1) (PoolID req) cands) (\<lambda>cands.
        restrict_endpoint (Endpoint req) cands)))"

text \<open>The conversation part: the body with the merged messages, and what is to be stored later.\<close>

definition stored_user_messages :: "json list \<Rightarrow> conv_message list" where
  "stored_user_messages current =
     List.map_filter (\<lambda>raw. case dec_struct dec_chat chat0 raw of
         None \<Rightarrow> None
       | Some m \<Rightarrow> if ch_Role m \<noteq> [] then Some \<lparr>ms_Seq = 0, ms_Role = ch_Role m, ms_Content = ch_Content m, ms_TokenEst = 0,
                      ms_ModelID = [], ms_RequestID = [], ms_Status = [], ms_CreatedAt = 0\<rparr> else None) current"

definition prepare_conversation ::
  "request \<Rightarrow> candidate list \<Rightarrow> time \<Rightarrow> bool \<Rightarrow> prepared \<Rightarrow> orch \<Rightarrow> (perror + prepared) \<times> orch" where
  "prepare_conversation req cands now ok p o1 =
     (case req_Conversation req of
        None \<Rightarrow> (Inr p, o1)
      | Some cc \<Rightarrow>
          if cc_ID cc = [] then (Inr p, o1)
          else (case ot_mem o1 of
            None \<Rightarrow> (Inl (mk_error ErrInvalidRequest ''conversation memory is not enabled on this platform'' 0), o1)
          | Some mem \<Rightarrow>
              (let (res, mem') = GetOrCreate (cc_ID cc) (DataClass (Policy req)) (cc_Version cc) now ok mem; o2 = o1\<lparr>ot_mem := Some mem'\<rparr>
               in case res of
                    Inl err \<Rightarrow> (Inl (memErr err), o2)
                  | Inr conv \<Rightarrow>
                      (case (case map_of (pr_body p) ''messages'' of None \<Rightarrow> Some [] | Some raw \<Rightarrow> dec_list Some [] raw) of
                         None \<Rightarrow> (Inl (mk_error ErrInvalidRequest ''messages must be an array'' 0), o2)
                       | Some current \<Rightarrow>
                           (let window = (case cands of [] \<Rightarrow> 0 | c # _ \<Rightarrow> cd_ContextLength c);
                                built = BuildContext conv current window 0
                            in (Inr (p\<lparr>pr_conv := Some conv, pr_convKey := cv_ID conv, pr_built := Some built,
                                      pr_body := alist_put ''messages'' (JArr (bc_Messages built)) (pr_body p),
                                      pr_userMsgs := stored_user_messages current\<rparr>), o2))))))"

definition by_id :: "candidate list \<Rightarrow> string \<Rightarrow> candidate option" where
  "by_id cands i = map_of (rev (map (\<lambda>c. (cd_DeploymentID c, c)) cands)) i"

definition prepare :: "request \<Rightarrow> time \<Rightarrow> bool \<Rightarrow> orch \<Rightarrow> (perror + prepared) \<times> orch" where
  "prepare req now ok o1 =
     (case select_candidates o1 req of
        Inl err \<Rightarrow> (Inl err, o1)
      | Inr cands \<Rightarrow>
          (case prepare_conversation req cands now ok
                  \<lparr>pr_ordered = [], pr_body = NormalizedInput req, pr_conv = None, pr_built = None, pr_userMsgs = [], pr_convKey = []\<rparr> o1 of
             (Inl err, o2) \<Rightarrow> (Inl err, o2)
           | (Inr p, o2) \<Rightarrow>
               (let (ids, pool') = Order (map cd_DeploymentID cands) (pr_convKey p) now (the_pool o2)
                in (Inr (p\<lparr>pr_ordered := List.map_filter (by_id cands) ids\<rparr>), upd_pool (\<lambda>_. pool') o2))))"

section \<open>One candidate\<close>

text \<open>\<open>marshalWithModel\<close>: the body with the physical model; a map is printed with sorted keys.\<close>

definition marshalWithModel :: "(string \<times> json) list \<Rightarrow> string \<Rightarrow> body" where
  "marshalWithModel b physicalModel = Doc (JObj (sort_key fst (alist_put ''model'' (JStr physicalModel) b)))"

definition with_connector :: "candidate \<Rightarrow> orch \<Rightarrow> (connector \<Rightarrow> (perror + 'r) \<times> connector) \<Rightarrow> (perror + 'r) \<times> orch" where
  "with_connector cand o1 f =
     (case cd_Connector cand of
        None \<Rightarrow> (Inl (mk_error ''panic'' ''nil connector'' 0), o1)
      | Some ep \<Rightarrow>
          (let (res, c) = f (ot_conns o1 (ep_ID ep)) in (res, o1\<lparr>ot_conns := (ot_conns o1)(ep_ID ep := c)\<rparr>)))"

definition executeOn :: "net \<Rightarrow> time \<Rightarrow> request \<Rightarrow> prepared \<Rightarrow> nat \<Rightarrow> candidate \<Rightarrow> orch \<Rightarrow> (perror + response) \<times> orch" where
  "executeOn nt dl req p n cand o1 =
     (if cd_RouteType cand = ''native'' then
        (nativeExecute (nt_engine nt n (case cd_Engine cand of None \<Rightarrow> [] | Some e \<Rightarrow> e)) dl (nt_start nt n) cand req (pr_body p), o1)
      else
        case with_connector cand o1 (Do (nt_parse nt) (nt_url_ok nt) (nt_files nt) (nt_http nt n) (nt_start nt n)
               (nt_start nt n + int (nt_latency nt n)) (Endpoint req) (marshalWithModel (pr_body p) (cd_PhysicalModel cand))
               ''application/json'' (RequestID req)) of
          (Inl err, o2) \<Rightarrow> (Inl err, o2)
        | (Inr res, o2) \<Rightarrow>
            if cr_StatusCode res = 503 then (Inl (mk_error ErrModelNotAvailable ''upstream returned 503'' 10), o2)
            else (Inr \<lparr>StatusCode = cr_StatusCode res, ContentType = cr_ContentType res, Body = cr_Body res, resp_Usage = cr_Usage res,
                       resp_DeploymentID = cd_DeploymentID cand, resp_RouteType = cd_RouteType cand, ConversationVersion = 0\<rparr>, o2))"

definition streamOn ::
  "net \<Rightarrow> time \<Rightarrow> request \<Rightarrow> prepared \<Rightarrow> 'w stream_ops \<Rightarrow> nat \<Rightarrow> candidate \<Rightarrow> orch \<times> 'w \<Rightarrow> (perror + stream_result) \<times> (orch \<times> 'w)" where
  "streamOn nt dl req p W n cand ow =
     (let (o1, w) = ow in
      if cd_RouteType cand = ''native'' then
        (let (res, w') = nativeStream (nt_render nt) (nt_stream nt n (case cd_Engine cand of None \<Rightarrow> [] | Some e \<Rightarrow> e)) dl (nt_start nt n)
                           W cand req (pr_body p) w
         in (res, (o1, w')))
      else
        case cd_Connector cand of
          None \<Rightarrow> (Inl (mk_error ''panic'' ''nil connector'' 0), (o1, w))
        | Some ep \<Rightarrow>
            (let (res, c, w') = DoStream (nt_parse nt) (nt_url_ok nt) (nt_files nt) (nt_http nt n) (nt_start nt n)
                   (nt_start nt n + int (nt_latency nt n)) W (Endpoint req) (marshalWithModel (pr_body p) (cd_PhysicalModel cand))
                   ''text/event-stream'' (RequestID req) (ot_conns o1 (ep_ID ep)) w
             in (map_sum id (\<lambda>x. \<lparr>sr_Usage = so_Usage x, sr_DeploymentID = [], sr_RouteType = [], sr_ConversationVersion = 0,
                                ClientGone = so_ClientGone x\<rparr>) res,
                 (o1\<lparr>ot_conns := (ot_conns o1)(ep_ID ep := c)\<rparr>, w'))))"

section \<open>Failover\<close>

text \<open>
  The loop over the ordered candidates, common to \<open>Execute\<close> and \<open>ExecuteStream\<close>. \<open>call\<close> runs one
  candidate, \<open>ok\<close> judges a result for the node's health, \<open>halt\<close> says after which errors the loop
  ends. The log collects the calls with their error codes (\<open>None\<close> for success).
\<close>

record ('r, 'w) failover_args =
  fa_call :: "nat \<Rightarrow> candidate \<Rightarrow> orch \<times> 'w \<Rightarrow> (perror + 'r) \<times> (orch \<times> 'w)"
  fa_ok :: "'r \<Rightarrow> bool"
  fa_halt :: "perror \<Rightarrow> 'w \<Rightarrow> bool"
  fa_convKey :: string

definition no_candidate :: perror where
  "no_candidate = mk_error ErrModelNotAvailable ''no candidate available'' 0"

definition finish_time :: "net \<Rightarrow> nat \<Rightarrow> time" where
  "finish_time nt n = nt_start nt n + int (nt_latency nt n)"

text \<open>One candidate: acquire, call, release with the outcome.\<close>

definition try_candidate ::
  "net \<Rightarrow> ('r, 'w) failover_args \<Rightarrow> nat \<Rightarrow> candidate \<Rightarrow> orch \<times> 'w \<Rightarrow> (perror + 'r) \<times> (orch \<times> 'w)" where
  "try_candidate nt fa n cand ow =
     (let i = cd_DeploymentID cand;
          (res, (o1, w)) = fa_call fa n cand (upd_pool (Acquire i) (fst ow), snd ow);
          good = (case res of Inl _ \<Rightarrow> False | Inr r \<Rightarrow> fa_ok fa r);
          o2 = upd_pool (release i (int (nt_latency nt n)) good (finish_time nt n)) o1;
          o3 = (case res of Inl _ \<Rightarrow> o2 | Inr _ \<Rightarrow> upd_pool (RecordSticky (fa_convKey fa) i (finish_time nt n)) o2)
      in (res, (o3, w)))"

type_synonym call_log = "(string \<times> string option) list"

fun failover ::
  "net \<Rightarrow> ('r, 'w) failover_args \<Rightarrow> nat \<Rightarrow> candidate list \<Rightarrow> perror option \<Rightarrow> orch \<times> 'w \<Rightarrow> call_log
     \<Rightarrow> (perror + candidate \<times> 'r) \<times> (orch \<times> 'w) \<times> call_log" where
  "failover nt fa n [] lastErr ow lg = (Inl (case lastErr of None \<Rightarrow> no_candidate | Some err \<Rightarrow> err), ow, lg)"
| "failover nt fa n (cand # cs) lastErr ow lg =
     (let ow1 = (upd_pool (fold app_pool (nt_others nt n)) (fst ow), snd ow) in
      if \<not> Assignable (the_pool (fst ow1)) (cd_DeploymentID cand) \<and> cs \<noteq> []
      then failover nt fa (Suc n) cs lastErr ow1 lg
      else case try_candidate nt fa n cand ow1 of
        (Inr r, ow2) \<Rightarrow> (Inr (cand, r), ow2, lg @ [(cd_DeploymentID cand, None)])
      | (Inl err, ow2) \<Rightarrow>
          (let lg' = lg @ [(cd_DeploymentID cand, Some (Code err))]
           in if fa_halt fa err (snd ow2) then (Inl err, ow2, lg')
              else failover nt fa (Suc n) cs (Some err) ow2 lg'))"

section \<open>Storing the turn\<close>

text \<open>\<open>commitTurn\<close>: the new version (0 when there is none) and the summary job it schedules.\<close>

definition commitTurn ::
  "prepared \<Rightarrow> request \<Rightarrow> string \<Rightarrow> string \<Rightarrow> time \<Rightarrow> bool \<Rightarrow> orch \<Rightarrow> int \<times> (string \<times> int \<times> int) option \<times> orch" where
  "commitTurn p req content status now ok o1 =
     (case (pr_conv p, ot_mem o1) of
        (Some conv, Some mem) \<Rightarrow>
          (case AppendTurn (cv_ID conv) (cv_Version conv) (RequestID req) (LogicalModel req) (pr_userMsgs p) content status now ok mem of
             (Inl _, mem') \<Rightarrow> (0, None, o1\<lparr>ot_mem := Some mem'\<rparr>)
           | (Inr ver, mem') \<Rightarrow>
               (ver,
                case pr_built p of
                  None \<Rightarrow> None
                | Some b \<Rightarrow> if bc_NeedsSummary b \<and> mc_SummaryModel (cf_Memory (ot_cfg o1)) \<noteq> []
                            then Some (cv_ID conv, bc_SummaryFromSeq b, bc_SummaryToSeq b) else None,
                o1\<lparr>ot_mem := Some mem'\<rparr>))
      | _ \<Rightarrow> (0, None, o1))"

definition assistantFromBody :: "body \<Rightarrow> string" where
  "assistantFromBody b = (case first_content b of None \<Rightarrow> [] | Some c \<Rightarrow> c)"

section \<open>Execution\<close>

definition execute_args :: "net \<Rightarrow> time \<Rightarrow> request \<Rightarrow> prepared \<Rightarrow> (response, unit) failover_args" where
  "execute_args nt dl req p =
     \<lparr>fa_call = (\<lambda>n cand (o1, w). let (res, o2) = executeOn nt dl req p n cand o1 in (res, (o2, w))),
      fa_ok = (\<lambda>r. StatusCode r < 500), fa_halt = (\<lambda>err _. Code err = ErrInferenceTimeout), fa_convKey = pr_convKey p\<rparr>"

text \<open>\<open>Execute\<close> after admission; the second result is the summary job, the last the log of the calls.\<close>

definition Execute ::
  "net \<Rightarrow> request \<Rightarrow> time \<Rightarrow> time \<Rightarrow> orch \<Rightarrow> (perror + response) \<times> (string \<times> int \<times> int) option \<times> orch \<times> call_log" where
  "Execute nt req now done o1 =
     (case prepare req now (nt_writes nt 0) o1 of
        (Inl err, o2) \<Rightarrow> (Inl err, None, o2, [])
      | (Inr p, o2) \<Rightarrow>
          (case failover nt (execute_args nt (deadline o2 req now) req p) 0 (pr_ordered p) None (o2, ()) [] of
             (Inl err, (o3, _), lg) \<Rightarrow> (Inl err, None, o3, lg)
           | (Inr (cand, resp), (o3, _), lg) \<Rightarrow>
               (let (ver, job, o4) = commitTurn p req (assistantFromBody (Body resp)) ''complete'' done (nt_writes nt 1) o3
                in (Inr (resp\<lparr>ConversationVersion := ver\<rparr>), job, o4, lg))))"

definition stream_args ::
  "net \<Rightarrow> time \<Rightarrow> 'w stream_ops \<Rightarrow> request \<Rightarrow> prepared \<Rightarrow> (stream_result, 'w acc_writer) failover_args" where
  "stream_args nt dl W req p =
     \<lparr>fa_call = streamOn nt dl req p (acc_ops (nt_parse nt) W), fa_ok = (\<lambda>_. True),
      fa_halt = (\<lambda>err a. aw_started a \<or> Code err = ErrInferenceTimeout), fa_convKey = pr_convKey p\<rparr>"

definition ExecuteStream ::
  "net \<Rightarrow> 'w stream_ops \<Rightarrow> request \<Rightarrow> time \<Rightarrow> time \<Rightarrow> orch \<Rightarrow> 'w
     \<Rightarrow> (perror + stream_result) \<times> (string \<times> int \<times> int) option \<times> orch \<times> 'w \<times> call_log" where
  "ExecuteStream nt W req now done o1 w =
     (case prepare req now (nt_writes nt 0) o1 of
        (Inl err, o2) \<Rightarrow> (Inl err, None, o2, w, [])
      | (Inr p, o2) \<Rightarrow>
          (case failover nt (stream_args nt (deadline o2 req now) W req p) 0 (pr_ordered p) None
                  (o2, newAccumulatingWriter w (pr_conv p \<noteq> None)) [] of
             (Inl err, (o3, a), lg) \<Rightarrow> (Inl err, None, o3, aw_inner a, lg)
           | (Inr (cand, res), (o3, a), lg) \<Rightarrow>
               (let status = (if ClientGone res then ''interrupted'' else ''complete'');
                    (ver, job, o4) = commitTurn p req (aw_buf a) status done (nt_writes nt 1) o3
                in (Inr (res\<lparr>sr_ConversationVersion := ver, sr_DeploymentID := cd_DeploymentID cand, sr_RouteType := cd_RouteType cand\<rparr>),
                    job, o4, aw_inner a, lg))))"


section \<open>Token counting and summaries\<close>

text \<open>\<open>cnt\<close> is the engine's \<open>CountTokens\<close>; without one, a quarter of the bytes of each member.\<close>

fun count_native ::
  "(string \<Rightarrow> string \<Rightarrow> engine_input \<Rightarrow> engine_error + int) \<Rightarrow> (string \<times> json) list \<Rightarrow> candidate list \<Rightarrow> (perror + int) option" where
  "count_native cnt b [] = None"
| "count_native cnt b (c # cs) =
     (case (if cd_RouteType c = ''native'' then cd_Engine c else None) of
        None \<Rightarrow> count_native cnt b cs
      | Some eng \<Rightarrow>
          (case engineInputFromBody b of
             Inl err \<Rightarrow> Some (Inl err)
           | Inr input \<Rightarrow>
               (case cnt eng (cd_ModelInstanceID c) input of
                  Inr n \<Rightarrow> Some (Inr n)
                | Inl _ \<Rightarrow> count_native cnt b cs)))"

definition CountTokens ::
  "(json \<Rightarrow> string) \<Rightarrow> (string \<Rightarrow> string \<Rightarrow> engine_input \<Rightarrow> engine_error + int) \<Rightarrow> request \<Rightarrow> orch \<Rightarrow> perror + int" where
  "CountTokens render cnt req o1 =
     res_bind (Resolve (ot_manager o1) (LogicalModel req) (Policy req)) (\<lambda>cands.
       case count_native cnt (NormalizedInput req) cands of
         Some res \<Rightarrow> res
       | None \<Rightarrow> Inr (sum_list (map (\<lambda>(k, v). int (length (render v)) div 4) (NormalizedInput req))))"

text \<open>The summary job of a range, as one run of its goroutine.\<close>

definition summary_text :: "int \<Rightarrow> int \<Rightarrow> conversation \<Rightarrow> string" where
  "summary_text fromSeq toSeq c =
     concat (map (\<lambda>m. ms_Role m @ '': '' @ ms_Content m @ [CHR 0x0A])
       (filter (\<lambda>m. fromSeq \<le> ms_Seq m \<and> ms_Seq m \<le> toSeq \<and> ms_Status m = ''complete'') (cv_Messages c)))"

definition summary_request :: "string \<Rightarrow> string \<Rightarrow> request \<Rightarrow> request" where
  "summary_request model txt orig =
     \<lparr>ContractVersion = Version, RequestID = RequestID orig @ ''-sum'', TraceID = [], TenantScope = TenantScope orig, ProjectScope = [],
      ActorScope = ''platform-summary'', Policy = Policy orig, LogicalModel = model, PoolID = [], Endpoint = ''/v1/chat/completions'',
      NormalizedInput = [(''messages'', JArr [JObj [(''content'', JStr (''Summarize the following conversation compactly, preserving decisions and facts:''
          @ [CHR 0x0A, CHR 0x0A] @ txt)), (''role'', JStr ''user'')]])],
      Stream = False, Deadline = None, req_Conversation = None, IdempotencyKey = []\<rparr>"

definition scheduleSummary ::
  "net \<Rightarrow> string \<Rightarrow> int \<Rightarrow> int \<Rightarrow> request \<Rightarrow> time \<Rightarrow> time \<Rightarrow> bool \<Rightarrow> bool \<Rightarrow> orch \<Rightarrow> orch" where
  "scheduleSummary nt convID fromSeq toSeq orig now done okc okw o1 =
     (let model = mc_SummaryModel (cf_Memory (ot_cfg o1)) in
      case ot_mem o1 of
        None \<Rightarrow> o1
      | Some mem \<Rightarrow>
          if model = [] then o1
          else
            (case GetOrCreate convID (DataClass (Policy orig)) 0 now okc mem of
               (Inl _, mem') \<Rightarrow> o1\<lparr>ot_mem := Some mem'\<rparr>
             | (Inr conv, mem') \<Rightarrow>
                 (let o2 = o1\<lparr>ot_mem := Some mem'\<rparr>; txt = summary_text fromSeq toSeq conv in
                  if txt = [] then o2
                  else
                    case Execute nt (summary_request model txt orig) now done o2 of
                      (Inl _, _, o3, _) \<Rightarrow> o3
                    | (Inr resp, _, o3, _) \<Rightarrow>
                        (let summary = assistantFromBody (Body resp) in
                         if StatusCode resp \<noteq> 200 \<or> summary = [] then o3
                         else o3\<lparr>ot_mem := map_option (\<lambda>m. snd (ReplaceWithSummary convID fromSeq toSeq summary model done okw m)) (ot_mem o3)\<rparr>))))"

end
