(* ===== verification/OrchestratorProps.thy ===== *)
theory OrchestratorProps
  imports Orchestrator
begin

text \<open>
  Properties of the orchestrator: the bounds of admission, what the failover loop calls and in which
  order, which deployments a request can reach, that every in-flight slot is given back, and the
  engine options that an explicit \<open>null\<close> produces.
\<close>

section \<open>Admission\<close>

definition empty_admission :: admission where
  "empty_admission = \<lparr>ad_queue = 0, ad_sem = 0\<rparr>"

lemma adm_step_bounds:
  "adm_step maxQ maxC a b \<Longrightarrow> ad_queue a \<le> maxQ \<and> ad_sem a \<le> maxC \<Longrightarrow> ad_queue b \<le> maxQ \<and> ad_sem b \<le> maxC"
  by (induction rule: adm_step.induct) auto

lemma adm_reachable_bounds:
  "(adm_step maxQ maxC)\<^sup>*\<^sup>* empty_admission a \<Longrightarrow> ad_queue a \<le> maxQ \<and> ad_sem a \<le> maxC"
  by (induction rule: rtranclp_induct) (auto simp: empty_admission_def dest: adm_step_bounds)

section \<open>Candidates\<close>

lemma res_bind_InrD: "res_bind m f = Inr y \<Longrightarrow> \<exists>x. m = Inr x \<and> f x = Inr y"
  by (simp add: res_bind_Inr)

lemma restrict_pool_Inr:
  "restrict_pool cfg pid cands = Inr cs \<Longrightarrow> set cs \<subseteq> set cands \<and> mset cs \<subseteq># mset cands
     \<and> (pid \<noteq> [] \<longrightarrow> (\<exists>pe. FindPool cfg pid = Some pe \<and> (\<forall>c \<in> set cs. cd_DeploymentID c \<in> set (pe_DeploymentIDs pe))))"
  by (auto simp: restrict_pool_def Let_def split: if_splits option.splits)

lemma restrict_endpoint_Inr:
  "restrict_endpoint ep cands = Inr cs \<Longrightarrow> set cs \<subseteq> set cands \<and> mset cs \<subseteq># mset cands"
  by (auto simp: restrict_endpoint_def Let_def split: if_splits)

text \<open>The deployments a request may reach.\<close>

definition reachable_deployment :: "orch \<Rightarrow> request \<Rightarrow> string \<Rightarrow> bool" where
  "reachable_deployment o1 req i \<longleftrightarrow>
     (\<exists>entry d. FindModel (mg_cfg (ot_manager o1)) (LogicalModel req) = Some entry \<and> me_ApprovalStatus entry = ApprovalApproved
        \<and> class_ok entry (Policy req) \<and> d \<in> set (me_Deployments entry) \<and> dep_ID d = i
        \<and> status_of (ot_manager o1) i = ''available'')
     \<and> (PoolID req \<noteq> [] \<longrightarrow> (\<exists>pe. FindPool (ot_cfg o1) (PoolID req) = Some pe \<and> i \<in> set (pe_DeploymentIDs pe)))"

lemma select_candidates_reachable:
  assumes "select_candidates o1 req = Inr cands" and c: "c \<in> set cands"
  shows "reachable_deployment o1 req (cd_DeploymentID c)"
proof -
  obtain c0 c1 where r: "Resolve (ot_manager o1) (LogicalModel req) (Policy req) = Inr c0"
      "restrict_pool (ot_cfg o1) (PoolID req) c0 = Inr c1" "restrict_endpoint (Endpoint req) c1 = Inr cands"
    using assms by (auto simp: select_candidates_def res_bind_Inr split: if_splits)
  have c1: "c \<in> set c1" using restrict_endpoint_Inr [OF r(3)] c by blast
  then have c0: "c \<in> set c0" using restrict_pool_Inr [OF r(2)] by blast
  obtain entry where e: "FindModel (mg_cfg (ot_manager o1)) (LogicalModel req) = Some entry" "me_ApprovalStatus entry = ApprovalApproved"
      "class_ok entry (Policy req)" "c0 = List.map_filter (candidate_of (ot_manager o1) entry) (me_Deployments entry)"
    using r(1) unfolding Resolve_Inr by blast
  have "c \<in> set (List.map_filter (candidate_of (ot_manager o1) entry) (me_Deployments entry))" using c0 unfolding e(4) .
  from map_filter_mem [OF this] obtain d where d: "d \<in> set (me_Deployments entry)" "candidate_of (ot_manager o1) entry d = Some c"
    by blast
  have i: "dep_ID d = cd_DeploymentID c" "status_of (ot_manager o1) (cd_DeploymentID c) = ''available''"
    using candidate_of_Some [OF d(2)] by simp_all
  show ?thesis
    unfolding reachable_deployment_def
    using restrict_pool_Inr [OF r(2)] c1 e(1-3) d(1) i by blast
qed

lemma select_candidates_nonempty: "select_candidates o1 req = Inr cands \<Longrightarrow> cands \<noteq> []"
  by (auto simp: select_candidates_def res_bind_Inr restrict_pool_def restrict_endpoint_def Resolve_Inr Let_def
      split: if_splits option.splits)

lemma prepare_Inr:
  assumes "prepare req now ok o1 = (Inr p, o2)"
  obtains cands where "select_candidates o1 req = Inr cands" and "set (pr_ordered p) \<subseteq> set cands"
    and "mset (map cd_DeploymentID (pr_ordered p)) \<subseteq># mset (map cd_DeploymentID cands)"
proof -
  obtain cands where s: "select_candidates o1 req = Inr cands"
    using assms by (cases "select_candidates o1 req") (auto simp: prepare_def)
  obtain p0 o0 where pc: "prepare_conversation req cands now ok
      \<lparr>pr_ordered = [], pr_body = NormalizedInput req, pr_conv = None, pr_built = None, pr_userMsgs = [], pr_convKey = []\<rparr> o1 = (Inr p0, o0)"
    using assms s by (auto simp: prepare_def split: sum.splits prod.splits)
  obtain ids po where od: "Order (map cd_DeploymentID cands) (pr_convKey p0) now (the_pool o0) = (ids, po)"
    by (cases "Order (map cd_DeploymentID cands) (pr_convKey p0) now (the_pool o0)") blast
  have p: "pr_ordered p = List.map_filter (by_id cands) ids" using assms s pc od by (auto simp: prepare_def)
  have ids: "mset ids = mset (map cd_DeploymentID cands)" using od by (auto simp: Order_def split: prod.splits)
  have bid: "by_id cands i = Some c \<Longrightarrow> c \<in> set cands \<and> cd_DeploymentID c = i" for i c
    by (auto simp: by_id_def dest: map_of_SomeD)
  have "set (List.map_filter (by_id cands) xs) \<subseteq> set cands" for xs using bid by (auto simp: List.map_filter_def)
  moreover have "mset (map cd_DeploymentID (List.map_filter (by_id cands) xs)) \<subseteq># mset xs" for xs
    by (induction xs) (auto simp: List.map_filter_simps dest!: bid split: option.splits intro: subset_mset.order_trans)
  ultimately show thesis using that s p ids by metis
qed

lemma prepare_nonempty: "prepare req now ok o1 = (Inr p, o2) \<Longrightarrow> pr_ordered p \<noteq> []"
proof -
  assume pr: "prepare req now ok o1 = (Inr p, o2)"
  then obtain cands p0 o0 where s: "select_candidates o1 req = Inr cands"
    and pc: "prepare_conversation req cands now ok
      \<lparr>pr_ordered = [], pr_body = NormalizedInput req, pr_conv = None, pr_built = None, pr_userMsgs = [], pr_convKey = []\<rparr> o1 = (Inr p0, o0)"
    by (auto simp: prepare_def split: sum.splits prod.splits)
  obtain ids po where od: "Order (map cd_DeploymentID cands) (pr_convKey p0) now (the_pool o0) = (ids, po)" by (metis surj_pair)
  have p: "pr_ordered p = List.map_filter (by_id cands) ids" using pr s pc od by (auto simp: prepare_def)
  have ids: "mset ids = mset (map cd_DeploymentID cands)" using od by (auto simp: Order_def split: prod.splits)
  obtain c cs where c: "cands = c # cs" using select_candidates_nonempty [OF s] by (cases cands) auto
  then have "cd_DeploymentID c \<in> set ids" using mset_eq_setD [OF ids] by simp
  moreover have "by_id cands (cd_DeploymentID c) \<noteq> None" by (simp add: by_id_def c map_of_eq_None_iff)
  ultimately show ?thesis by (force simp: p List.map_filter_def filter_empty_conv)
qed

section \<open>The failover loop\<close>

definition halts_on_timeout :: "('r, 'w) failover_args \<Rightarrow> bool" where
  "halts_on_timeout fa \<longleftrightarrow> (\<forall>err w. Code err = ErrInferenceTimeout \<longrightarrow> fa_halt fa err w)"

definition failed_before :: "string option \<Rightarrow> bool" where
  "failed_before c \<longleftrightarrow> (case c of None \<Rightarrow> False | Some code \<Rightarrow> code \<noteq> ErrInferenceTimeout)"

abbreviation disturbed :: "net \<Rightarrow> nat \<Rightarrow> orch \<times> 'w \<Rightarrow> orch \<times> 'w" where
  "disturbed nt n ow \<equiv> (upd_pool (fold app_pool (nt_others nt n)) (fst ow), snd ow)"

abbreviation skipped :: "net \<Rightarrow> nat \<Rightarrow> candidate \<Rightarrow> candidate list \<Rightarrow> orch \<times> 'w \<Rightarrow> bool" where
  "skipped nt n cand cs ow \<equiv> \<not> Assignable (the_pool (fst (disturbed nt n ow))) (cd_DeploymentID cand) \<and> cs \<noteq> []"

lemma failover_skip:
  "skipped nt n cand cs ow \<Longrightarrow> failover nt fa n (cand # cs) lastErr ow lg = failover nt fa (Suc n) cs lastErr (disturbed nt n ow) lg"
  by (simp add: Let_def)

lemma failover_try:
  assumes "\<not> skipped nt n cand cs ow" and "try_candidate nt fa n cand (disturbed nt n ow) = (x, ow2)"
  shows "failover nt fa n (cand # cs) lastErr ow lg =
    (case x of Inr r \<Rightarrow> (Inr (cand, r), ow2, lg @ [(cd_DeploymentID cand, None)])
     | Inl err \<Rightarrow> if fa_halt fa err (snd ow2) then (Inl err, ow2, lg @ [(cd_DeploymentID cand, Some (Code err))])
                  else failover nt fa (Suc n) cs (Some err) ow2 (lg @ [(cd_DeploymentID cand, Some (Code err))]))"
  unfolding failover.simps Let_def using assms by (auto split: sum.splits)

lemma failover_log:
  "failover nt fa n cs lastErr ow lg = (res, ow', lg') \<Longrightarrow> halts_on_timeout fa \<Longrightarrow>
     \<exists>calls. lg' = lg @ calls \<and> subseq (map fst calls) (map cd_DeploymentID cs)
       \<and> list_all (\<lambda>c. failed_before (snd c)) (butlast calls)
       \<and> (\<forall>cand r. res = Inr (cand, r) \<longrightarrow> calls \<noteq> [] \<and> last calls = (cd_DeploymentID cand, None))
       \<and> (\<forall>err. res = Inl err \<longrightarrow> (if calls = [] then err = (case lastErr of None \<Rightarrow> no_candidate | Some err \<Rightarrow> err)
            else snd (last calls) = Some (Code err)))"
proof (induction nt fa n cs lastErr ow lg rule: failover.induct)
  case (2 nt fa n cand cs lastErr ow lg)
  show ?case
  proof (cases "skipped nt n cand cs ow")
    case True
    then have "failover nt fa (Suc n) cs lastErr (disturbed nt n ow) lg = (res, ow', lg')"
      using "2.prems"(1) failover_skip [OF True, of fa lastErr lg] by simp
    from "2.IH"(1) [OF refl True this "2.prems"(2)] show ?thesis by (auto intro: subseq_Cons')
  next
    case False
    obtain x ow2 where t: "try_candidate nt fa n cand (disturbed nt n ow) = (x, ow2)"
      by (cases "try_candidate nt fa n cand (disturbed nt n ow)") blast
    note eq = failover_try [OF False t, of lastErr lg, unfolded "2.prems"(1)]
    show ?thesis
    proof (cases x)
      case (Inr r)
      then show ?thesis using eq by (intro exI [of _ "[(cd_DeploymentID cand, None)]"]) auto
    next
      case (Inl err)
      let ?e = "(cd_DeploymentID cand, Some (Code err))"
      show ?thesis
      proof (cases "fa_halt fa err (snd ow2)")
        case True
        then show ?thesis using eq Inl by (intro exI [of _ "[?e]"]) auto
      next
        case no: False
        have f: "failover nt fa (Suc n) cs (Some err) ow2 (lg @ [?e]) = (res, ow', lg')"
          using eq Inl no by simp
        obtain calls where c: "lg' = (lg @ [?e]) @ calls" "subseq (map fst calls) (map cd_DeploymentID cs)"
            "list_all (\<lambda>c. failed_before (snd c)) (butlast calls)"
            "\<forall>cand r. res = Inr (cand, r) \<longrightarrow> calls \<noteq> [] \<and> last calls = (cd_DeploymentID cand, None)"
            "\<forall>e. res = Inl e \<longrightarrow> (if calls = [] then e = err else snd (last calls) = Some (Code e))"
          using "2.IH"(2) [OF refl False t [symmetric] Inl refl no f "2.prems"(2)] unfolding option.case by blast
        moreover have "failed_before (snd ?e)" using no "2.prems"(2) by (auto simp: failed_before_def halts_on_timeout_def)
        ultimately show ?thesis by (intro exI [of _ "?e # calls"]) auto
      qed
    qed
  qed
qed auto

text \<open>The last candidate is tried even when it is not assignable.\<close>

lemma failover_tries:
  "failover nt fa n cs lastErr ow lg = (res, ow', lg') \<Longrightarrow> cs \<noteq> [] \<or> lg \<noteq> [] \<Longrightarrow> lg' \<noteq> []"
proof (induction nt fa n cs lastErr ow lg rule: failover.induct)
  case (2 nt fa n c cs lastErr ow lg)
  show ?case
  proof (cases "skipped nt n c cs ow")
    case True
    then show ?thesis using "2.IH"(1) [OF refl True] "2.prems" failover_skip [OF True, of fa lastErr lg] by auto
  next
    case False
    obtain x ow2 where t: "try_candidate nt fa n c (disturbed nt n ow) = (x, ow2)" by (metis surj_pair)
    note eq = failover_try [OF False t, of lastErr lg, unfolded "2.prems"(1)]
    then show ?thesis
      using "2.IH"(2) [OF refl False t [symmetric] _ refl] by (auto split: sum.splits if_splits)
  qed
qed simp

section \<open>Results of one request\<close>

lemma halts_on_timeout_args: "halts_on_timeout (execute_args nt dl req p)" "halts_on_timeout (stream_args nt dl W req p)"
  by (simp_all add: halts_on_timeout_def execute_args_def stream_args_def)

lemma failover_result_call:
  "failover nt fa n cs lastErr ow lg = (Inr (cand, r), ow', lg') \<Longrightarrow>
     cand \<in> set cs \<and> (\<exists>k ow1 ow2. fa_call fa k cand ow1 = (Inr r, ow2))"
proof (induction nt fa n cs lastErr ow lg rule: failover.induct)
  case (2 nt fa n c cs lastErr ow lg)
  show ?case
  proof (cases "skipped nt n c cs ow")
    case True
    then show ?thesis using "2.IH"(1) [OF refl True] "2.prems" failover_skip [OF True, of fa lastErr lg] by auto
  next
    case False
    obtain x ow2 where t: "try_candidate nt fa n c (disturbed nt n ow) = (x, ow2)"
      by (cases "try_candidate nt fa n c (disturbed nt n ow)") blast
    note eq = failover_try [OF False t, of lastErr lg, unfolded "2.prems"(1)]
    show ?thesis
    proof (cases x)
      case (Inr r')
      then have "r' = r" "c = cand" using eq by auto
      then show ?thesis using t Inr by (auto simp: try_candidate_def Let_def split: prod.splits) blast
    next
      case (Inl err)
      then show ?thesis using "2.IH"(2) [OF refl False t [symmetric] Inl refl] eq by (auto split: if_splits)
    qed
  qed
qed simp

lemma nativeExecute_deployment:
  "nativeExecute generate dl now cand req b = Inr r \<Longrightarrow> resp_DeploymentID r = cd_DeploymentID cand"
  by (auto simp: nativeExecute_def res_bind_def split: if_splits sum.splits)

lemma executeOn_deployment:
  "executeOn nt dl req p n cand o1 = (Inr r, o2) \<Longrightarrow> resp_DeploymentID r = cd_DeploymentID cand"
  by (auto simp: executeOn_def dest: nativeExecute_deployment split: if_splits sum.splits prod.splits)

text \<open>What the log of the calls of a request shows.\<close>

lemma Execute_log:
  assumes "Execute nt req now done o1 = (res, job, o2, lg)"
  shows "(lg = [] \<and> (\<exists>err. res = Inl err)) \<or>
    (\<exists>p o3 cands. prepare req now (nt_writes nt 0) o1 = (Inr p, o3)
      \<and> subseq (map fst lg) (map cd_DeploymentID (pr_ordered p))
      \<and> list_all (\<lambda>c. failed_before (snd c)) (butlast lg)
      \<and> (case res of Inr r \<Rightarrow> lg \<noteq> [] \<and> last lg = (resp_DeploymentID r, None)
          | Inl err \<Rightarrow> if lg = [] then err = no_candidate else snd (last lg) = Some (Code err)))"
proof (cases "prepare req now (nt_writes nt 0) o1")
  case (Pair x o3)
  show ?thesis
  proof (cases x)
    case (Inl err)
    then show ?thesis using assms Pair by (auto simp: Execute_def)
  next
    case (Inr p)
    let ?fa = "execute_args nt (deadline o3 req now) req p"
    obtain y o4 w lg' where f: "failover nt ?fa 0 (pr_ordered p) None (o3, ()) [] = (y, (o4, w), lg')"
      by (metis surj_pair)
    have lg: "lg' = lg" using assms Pair Inr f by (auto simp: Execute_def split: sum.splits prod.splits)
    note spec = failover_log [OF f halts_on_timeout_args(1)]
    show ?thesis
    proof (cases y)
      case (Inl err)
      then have "res = Inl err" using assms Pair Inr f by (auto simp: Execute_def)
      then show ?thesis using spec Inl lg Pair Inr by auto
    next
      case r: (Inr cr)
      obtain cand r where cr: "cr = (cand, r)" by (cases cr)
      then obtain r' where res: "res = Inr r'" "resp_DeploymentID r' = resp_DeploymentID r"
        using assms Pair Inr f r by (auto simp: Execute_def split: prod.splits)
      obtain k ow1 ow2 where "fa_call ?fa k cand ow1 = (Inr r, ow2)" using failover_result_call [OF f [unfolded r cr]] by blast
      then have "resp_DeploymentID r = cd_DeploymentID cand"
        by (cases ow1) (auto simp: execute_args_def dest: executeOn_deployment split: prod.splits)
      then show ?thesis using spec r cr res lg Pair Inr by auto
    qed
  qed
qed

lemma Execute_tried:
  assumes "Execute nt req now done o1 = (res, job, o2, lg)" and "lg = []"
  shows "\<exists>err. fst (prepare req now (nt_writes nt 0) o1) = Inl err \<and> res = Inl err"
proof (cases "prepare req now (nt_writes nt 0) o1")
  case (Pair x o3)
  show ?thesis
  proof (cases x)
    case (Inr p)
    obtain y ow lg' where f: "failover nt (execute_args nt (deadline o3 req now) req p) 0 (pr_ordered p) None (o3, ()) [] = (y, ow, lg')"
      by (metis surj_pair)
    then have "lg' \<noteq> []" using failover_tries [OF f] prepare_nonempty Pair Inr by blast
    moreover have "lg = lg'" using assms(1) Pair Inr f by (cases ow) (auto simp: Execute_def split: sum.splits prod.splits)
    ultimately show ?thesis using assms(2) by simp
  qed (use assms Pair in \<open>simp add: Execute_def\<close>)
qed

lemma ExecuteStream_log:
  assumes "ExecuteStream nt W req now done o1 w = (res, job, o2, w', lg)"
  shows "lg = [] \<or> (\<exists>p o3. prepare req now (nt_writes nt 0) o1 = (Inr p, o3)
      \<and> subseq (map fst lg) (map cd_DeploymentID (pr_ordered p)) \<and> list_all (\<lambda>c. failed_before (snd c)) (butlast lg))"
proof (cases "prepare req now (nt_writes nt 0) o1")
  case (Pair x o3)
  show ?thesis
  proof (cases x)
    case (Inl err)
    then show ?thesis using assms Pair by (auto simp: ExecuteStream_def)
  next
    case (Inr p)
    let ?fa = "stream_args nt (deadline o3 req now) W req p"
    obtain y o4 a lg' where f: "failover nt ?fa 0 (pr_ordered p) None (o3, newAccumulatingWriter w (pr_conv p \<noteq> None)) [] = (y, (o4, a), lg')"
      by (metis surj_pair)
    have "lg' = lg" using assms Pair Inr f by (auto simp: ExecuteStream_def Let_def split: sum.splits prod.splits)
    then show ?thesis using failover_log [OF f halts_on_timeout_args(2)] Pair Inr by auto
  qed
qed

lemma subseq_set: "subseq xs ys \<Longrightarrow> set xs \<subseteq> set ys"
  by (induction rule: list_emb.induct) auto

lemma prepared_reachable:
  assumes "prepare req now ok o1 = (Inr p, o2)" and "subseq is (map cd_DeploymentID (pr_ordered p))"
  shows "list_all (reachable_deployment o1 req) is"
proof -
  obtain cands where c: "select_candidates o1 req = Inr cands" "set (pr_ordered p) \<subseteq> set cands" by (rule prepare_Inr [OF assms(1)])
  have "set is \<subseteq> cd_DeploymentID ` set (pr_ordered p)" using subseq_set [OF assms(2)] by simp
  then show ?thesis using select_candidates_reachable [OF c(1)] c(2) by (auto simp: list_all_iff)
qed


text \<open>With a valid catalog no deployment is called twice.\<close>

lemma distinct_mset_sub: "mset xs \<subseteq># mset ys \<Longrightarrow> distinct ys \<Longrightarrow> distinct xs"
proof -
  assume sub: "mset xs \<subseteq># mset ys" and d: "distinct ys"
  have le: "count (mset xs) a \<le> count (mset ys) a" for a by (rule mset_subset_eq_count [OF sub])
  have "count (mset ys) a \<le> 1" for a
    using d by (cases "a \<in> set ys") (simp_all add: distinct_count_atmost_1 not_in_iff [symmetric])
  then have "count (mset xs) a \<le> 1" for a by (meson le order_trans)
  then have "count (mset xs) a = (if a \<in> set xs then 1 else 0)" for a
    by (metis One_nat_def count_mset_0_iff le_Suc_eq le_zero_eq)
  then show ?thesis unfolding distinct_count_atmost_1 by blast
qed

lemma distinct_concat_part: "distinct (concat xss) \<Longrightarrow> xs \<in> set xss \<Longrightarrow> distinct xs"
  by (induction xss) auto

lemma map_filter_ids:
  "(\<And>x c. f x = Some c \<Longrightarrow> g c = h x) \<Longrightarrow> mset (map g (List.map_filter f xs)) \<subseteq># mset (map h xs)"
  by (induction xs) (auto split: option.splits intro: subset_mset.order_trans)

lemma candidates_distinct:
  assumes ok: "config_ok urlp (mg_cfg (ot_manager o1))" and s: "select_candidates o1 req = Inr cands"
  shows "distinct (map cd_DeploymentID cands)"
proof -
  obtain c0 c1 where r: "Resolve (ot_manager o1) (LogicalModel req) (Policy req) = Inr c0"
      "restrict_pool (ot_cfg o1) (PoolID req) c0 = Inr c1" "restrict_endpoint (Endpoint req) c1 = Inr cands"
    using s by (auto simp: select_candidates_def res_bind_Inr split: if_splits)
  obtain entry where e: "FindModel (mg_cfg (ot_manager o1)) (LogicalModel req) = Some entry"
      "c0 = List.map_filter (candidate_of (ot_manager o1) entry) (me_Deployments entry)"
    using r(1) unfolding Resolve_Inr by blast
  have "distinct (concat (map (\<lambda>m. map dep_ID (me_Deployments m)) (cf_Models (mg_cfg (ot_manager o1)))))"
    using ok by (simp add: config_ok_def catalog_deployments_def map_concat comp_def Let_def)
  then have d: "distinct (map dep_ID (me_Deployments entry))"
    by (rule distinct_concat_part) (use FindModel_mem [OF e(1)] in auto)
  have "mset (map cd_DeploymentID c0) \<subseteq># mset (map dep_ID (me_Deployments entry))"
    unfolding e(2) by (rule map_filter_ids) (use candidate_of_Some in blast)
  moreover have "mset (map cd_DeploymentID cands) \<subseteq># mset (map cd_DeploymentID c0)"
    using restrict_pool_Inr [OF r(2)] restrict_endpoint_Inr [OF r(3)]
    by (metis image_mset_subseteq_mono mset_map subset_mset.order_trans)
  ultimately show ?thesis using distinct_mset_sub [OF _ d] subset_mset.order_trans by blast
qed

lemma subseq_distinct: "subseq xs ys \<Longrightarrow> distinct ys \<Longrightarrow> distinct xs"
  by (induction rule: list_emb.induct) (auto dest: subseq_set)

lemma prepared_distinct:
  assumes "config_ok urlp (mg_cfg (ot_manager o1))" and "prepare req now ok o1 = (Inr p, o2)"
    and "subseq is (map cd_DeploymentID (pr_ordered p))"
  shows "distinct is"
proof -
  obtain cands where c: "select_candidates o1 req = Inr cands"
      "mset (map cd_DeploymentID (pr_ordered p)) \<subseteq># mset (map cd_DeploymentID cands)" by (rule prepare_Inr [OF assms(2)])
  show ?thesis by (rule subseq_distinct [OF assms(3) distinct_mset_sub [OF c(2) candidates_distinct [OF assms(1) c(1)]]])
qed

section \<open>In-flight slots\<close>

lemma the_pool_upd [simp]: "the_pool (upd_pool f o1) = f (the_pool o1)"
  by (simp add: upd_pool_def)

lemma executeOn_pool: "executeOn nt dl req p n cand o1 = (res, o2) \<Longrightarrow> the_pool o2 = the_pool o1"
  by (auto simp: executeOn_def with_connector_def Let_def split: if_splits sum.splits prod.splits option.splits)

lemma streamOn_pool: "streamOn nt dl req p W n cand (o1, w) = (res, (o2, w')) \<Longrightarrow> the_pool o2 = the_pool o1"
  by (auto simp: streamOn_def Let_def split: if_splits sum.splits prod.splits option.splits)

definition pool_neutral :: "('r, 'w) failover_args \<Rightarrow> bool" where
  "pool_neutral fa \<longleftrightarrow> (\<forall>n cand ow res ow'. fa_call fa n cand ow = (res, ow') \<longrightarrow> the_pool (fst ow') = the_pool (fst ow))"

lemma pool_neutral_args: "pool_neutral (execute_args nt dl req p)" "pool_neutral (stream_args nt dl W req p)"
  by (auto simp: pool_neutral_def execute_args_def stream_args_def executeOn_pool streamOn_pool split: prod.splits)

lemma inflight_quiet: "pool_inv p \<Longrightarrow> opens i op = 0 \<Longrightarrow> inflight (app_pool op p) i = inflight p i"
proof (cases "node_of p i")
  case None
  then show ?thesis
    by (cases op) (auto simp: inflight_def Register_def SetHealth_def Drain_node_def Resume_node_def Acquire_def release_def
        node_on_node node_Order RecordSticky_def Let_def split: option.splits)
next
  case (Some n)
  assume "pool_inv p" "opens i op = 0"
  then show ?thesis using app_pool_node [OF Some, of op] pool_inv_node [of p i n] Some by (auto simp: inflight_def node_ok_def)
qed

lemma fold_quiet:
  "pool_inv p \<Longrightarrow> list_all (\<lambda>op. opens i op = 0) ops \<Longrightarrow> pool_inv (fold app_pool ops p) \<and> inflight (fold app_pool ops p) i = inflight p i"
  by (induction ops arbitrary: p) (auto simp: inflight_quiet app_pool_inv)

lemma slot_returned:
  assumes "pool_inv p"
  shows "inflight (release j (int l) g t (Acquire j p)) i = inflight p i"
    and "pool_inv (release j (int l) g t (Acquire j p))"
proof -
  show "pool_inv (release j (int l) g t (Acquire j p))"
    using app_pool_inv [OF app_pool_inv [OF assms, of "OpAcquire j"], of "OpRelease j l g t"] by simp
  show "inflight (release j (int l) g t (Acquire j p)) i = inflight p i"
    using pool_inv_node [OF assms] by (force simp: inflight_def release_def Acquire_def node_on_node node_ok_def split: option.splits)
qed

lemma try_candidate_slots:
  assumes "pool_neutral fa" and "pool_inv (the_pool (fst ow))" and "try_candidate nt fa n cand ow = (res, ow')"
  shows "pool_inv (the_pool (fst ow')) \<and> inflight (the_pool (fst ow')) i = inflight (the_pool (fst ow)) i"
proof -
  let ?j = "cd_DeploymentID cand"
  obtain r o1 w where c: "fa_call fa n cand (upd_pool (Acquire ?j) (fst ow), snd ow) = (r, (o1, w))" by (metis surj_pair)
  then have "the_pool o1 = Acquire ?j (the_pool (fst ow))" using assms(1) by (fastforce simp: pool_neutral_def)
  then have o2: "inflight (release ?j (int l) g t (the_pool o1)) i = inflight (the_pool (fst ow)) i"
      "pool_inv (release ?j (int l) g t (the_pool o1))" for l g t
    using slot_returned [OF assms(2)] by simp_all
  have st: "pool_inv (RecordSticky k j t q) \<and> inflight (RecordSticky k j t q) i = inflight q i" if "pool_inv q" for k j t q
    using app_pool_inv [OF that, of "OpSticky k j t"] inflight_quiet [OF that, of i "OpSticky k j t"] by simp
  show ?thesis
    using assms(3) c o2 st [OF o2(2)] by (auto simp: try_candidate_def Let_def split: sum.splits)
qed

lemma failover_slots:
  "failover nt fa n cs lastErr ow lg = (res, ow', lg') \<Longrightarrow> pool_neutral fa \<Longrightarrow> pool_inv (the_pool (fst ow))
     \<Longrightarrow> (\<And>n. list_all (\<lambda>op. opens i op = 0) (nt_others nt n))
     \<Longrightarrow> inflight (the_pool (fst ow')) i = inflight (the_pool (fst ow)) i"
proof (induction nt fa n cs lastErr ow lg rule: failover.induct)
  case (2 nt fa n c cs lastErr ow lg)
  have q: "pool_inv (the_pool (fst (disturbed nt n ow)))" "inflight (the_pool (fst (disturbed nt n ow))) i = inflight (the_pool (fst ow)) i"
    using fold_quiet [OF "2.prems"(3) "2.prems"(4)] by simp_all
  show ?case
  proof (cases "skipped nt n c cs ow")
    case True
    then show ?thesis
      using "2.IH"(1) [OF refl True _ "2.prems"(2) q(1) "2.prems"(4)] "2.prems"(1) failover_skip [OF True, of fa lastErr lg] q(2) by simp
  next
    case False
    obtain x ow2 where t: "try_candidate nt fa n c (disturbed nt n ow) = (x, ow2)"
      by (cases "try_candidate nt fa n c (disturbed nt n ow)") blast
    note eq = failover_try [OF False t, of lastErr lg, unfolded "2.prems"(1)]
    note ow2 = try_candidate_slots [OF "2.prems"(2) q(1) t, of i]
    show ?thesis
    proof (cases x)
      case (Inr r')
      then show ?thesis using eq ow2 q by auto
    next
      case (Inl err)
      then show ?thesis
        using "2.IH"(2) [OF refl False t [symmetric] Inl refl _ _ "2.prems"(2) _ "2.prems"(4)] eq ow2 q by (auto split: if_splits)
    qed
  qed
qed simp

lemma prepare_slots:
  assumes "prepare req now ok o1 = (x, o2)" and "pool_inv (the_pool o1)"
  shows "pool_inv (the_pool o2) \<and> inflight (the_pool o2) i = inflight (the_pool o1) i"
proof -
  have conv: "the_pool o3 = the_pool o1" if "prepare_conversation req cands now ok p0 o1 = (y, o3)" for cands p0 y o3
    using that by (auto simp: prepare_conversation_def Let_def split: option.splits if_splits sum.splits prod.splits)
  have od: "pool_inv q' \<and> inflight q' i = inflight (the_pool o1) i" if "Order cs k now (the_pool o1) = (ids, q')" for cs k ids q'
    using app_pool_inv [OF assms(2), of "OpOrder cs k now"] inflight_quiet [OF assms(2), of i "OpOrder cs k now"] that by simp
  show ?thesis
  proof (cases "select_candidates o1 req")
    case (Inl err)
    then show ?thesis using assms by (auto simp: prepare_def)
  next
    case (Inr cands)
    obtain y o3 where pc: "prepare_conversation req cands now ok
        \<lparr>pr_ordered = [], pr_body = NormalizedInput req, pr_conv = None, pr_built = None, pr_userMsgs = [], pr_convKey = []\<rparr> o1 = (y, o3)"
      by (metis surj_pair)
    note same = conv [OF pc]
    show ?thesis
    proof (cases y)
      case (Inl err)
      then show ?thesis using assms same pc Inr by (auto simp: prepare_def)
    next
      case r: (Inr p)
      obtain ids q' where q: "Order (map cd_DeploymentID cands) (pr_convKey p) now (the_pool o1) = (ids, q')" by (metis surj_pair)
      then have "the_pool o2 = q'" using assms(1) Inr pc r same by (auto simp: prepare_def)
      then show ?thesis using od [OF q] by simp
    qed
  qed
qed

lemma commitTurn_pool: "commitTurn p req content status now ok o1 = (ver, job, o2) \<Longrightarrow> the_pool o2 = the_pool o1"
  by (auto simp: commitTurn_def split: option.splits sum.splits prod.splits)


lemma Execute_slots:
  assumes "Execute nt req now done o1 = (res, job, o2, lg)" and "pool_inv (the_pool o1)"
    and quiet: "\<And>n. list_all (\<lambda>op. opens i op = 0) (nt_others nt n)"
  shows "inflight (the_pool o2) i = inflight (the_pool o1) i"
proof -
  obtain x o3 where pr: "prepare req now (nt_writes nt 0) o1 = (x, o3)" by (metis surj_pair)
  note kept = prepare_slots [OF pr assms(2), of i]
  show ?thesis
  proof (cases x)
    case (Inl err)
    then show ?thesis using assms(1) pr kept by (simp add: Execute_def)
  next
    case (Inr p)
    obtain y o4 w lg' where f: "failover nt (execute_args nt (deadline o3 req now) req p) 0 (pr_ordered p) None (o3, ()) [] = (y, (o4, w), lg')"
      by (metis surj_pair)
    have "inflight (the_pool o4) i = inflight (the_pool o3) i"
      using failover_slots [OF f pool_neutral_args(1) _ quiet] kept by simp
    moreover have "the_pool o2 = the_pool o4"
      using assms(1) pr Inr f commitTurn_pool by (force simp: Execute_def split: sum.splits prod.splits)
    ultimately show ?thesis using kept by simp
  qed
qed

lemma ExecuteStream_slots:
  assumes "ExecuteStream nt W req now done o1 w = (res, job, o2, w', lg)" and "pool_inv (the_pool o1)"
    and quiet: "\<And>n. list_all (\<lambda>op. opens i op = 0) (nt_others nt n)"
  shows "inflight (the_pool o2) i = inflight (the_pool o1) i"
proof -
  obtain x o3 where pr: "prepare req now (nt_writes nt 0) o1 = (x, o3)" by (metis surj_pair)
  note kept = prepare_slots [OF pr assms(2), of i]
  show ?thesis
  proof (cases x)
    case (Inl err)
    then show ?thesis using assms(1) pr kept by (simp add: ExecuteStream_def)
  next
    case (Inr p)
    obtain y o4 a lg' where f: "failover nt (stream_args nt (deadline o3 req now) W req p) 0 (pr_ordered p) None
        (o3, newAccumulatingWriter w (pr_conv p \<noteq> None)) [] = (y, (o4, a), lg')"
      by (metis surj_pair)
    have "inflight (the_pool o4) i = inflight (the_pool o3) i"
      using failover_slots [OF f pool_neutral_args(2) _ quiet] kept by simp
    moreover have "the_pool o2 = the_pool o4"
      using assms(1) pr Inr f commitTurn_pool by (force simp: ExecuteStream_def Let_def split: sum.splits prod.splits)
    ultimately show ?thesis using kept by simp
  qed
qed

section \<open>An example\<close>

definition demo_request :: request where
  "demo_request = \<lparr>ContractVersion = Version, RequestID = ''q1'', TraceID = [], TenantScope = [], ProjectScope = [], ActorScope = [],
     Policy = \<lparr>DataClass = ''internal'', RoutingMode = [], AllowedModels = [], ToolsAllowed = False\<rparr>,
     LogicalModel = ''chat'', PoolID = [], Endpoint = ''/v1/chat/completions'', NormalizedInput = [], Stream = False,
     Deadline = None, req_Conversation = None, IdempotencyKey = []\<rparr>"

text \<open>The first deployment cannot be reached, the second answers.\<close>

definition demo_net :: net where
  "demo_net = \<lparr>nt_parse = Bytes, nt_render = (\<lambda>_. []), nt_url_ok = (\<lambda>_. True), nt_files = (\<lambda>_. None),
     nt_http = (\<lambda>n. if n = 0 then (\<lambda>_. TransportError False) else demo_http),
     nt_engine = (\<lambda>_ _ _. Inl \<lparr>ee_RequestID = [], ee_Code = [], ee_Message = [], ee_Retryable = False, ee_Component = []\<rparr>),
     nt_stream = (\<lambda>_ _ _. \<lparr>es_events = [], es_done = None, es_refused = None\<rparr>),
     nt_start = (\<lambda>n. int n), nt_latency = (\<lambda>_. 1), nt_others = (\<lambda>_. []), nt_writes = (\<lambda>_. True)\<rparr>"

definition demo_orch :: orch where
  "demo_orch = \<lparr>ot_cfg = with_defaults demo_config, ot_manager = Apply_catalog demo_engines 0 demo_manager,
     ot_conns = (\<lambda>_. demo_connector), ot_mem = None\<rparr>"

lemma demo_run:
  "map_sum Code resp_DeploymentID (fst (Execute demo_net demo_request 0 9 demo_orch)) = Inr ''d2''
   \<and> snd (snd (snd (Execute demo_net demo_request 0 9 demo_orch))) = [(''d1'', Some ErrModelNotAvailable), (''d2'', None)]"
  by code_simp

lemma demo_executes:
  obtains r job o2 where "Execute demo_net demo_request 0 9 demo_orch = (Inr r, job, o2, [(''d1'', Some ErrModelNotAvailable), (''d2'', None)])"
    and "resp_DeploymentID r = ''d2''"
proof -
  obtain x job o2 lg where e: "Execute demo_net demo_request 0 9 demo_orch = (x, job, o2, lg)" by (metis surj_pair)
  then show thesis using demo_run that by (cases x) auto
qed

lemma demo_orch_valid: "config_ok demo_urlp (mg_cfg (ot_manager demo_orch))"
proof -
  have "mg_cfg (ot_manager demo_orch) = with_defaults demo_config"
    by (simp add: demo_orch_def demo_manager_def New_manager_def Apply_catalog_pairs fold_apply_keeps)
  moreover have "config_ok demo_urlp demo_config" using demo_config_valid by (simp add: Validate_config_Inr demo_config_def)
  ultimately show ?thesis by (simp add: config_ok_defaults)
qed

section \<open>Properties\<close>

text \<open>C24: Failover is safe: with a valid catalog no deployment is called twice for one request, a further
  candidate is tried only after a failure that is not a timeout (an inference that may still run is
  not started again), at least one candidate is tried unless the preparation refused the request,
  and the caller gets the outcome of the last call: its response or its error code.\<close>

theorem failover_is_safe:
  assumes "Execute nt req now done o1 = (res, job, o2, lg)" and "config_ok urlp (mg_cfg (ot_manager o1))"
  shows "distinct (map fst lg) \<and> list_all (\<lambda>c. failed_before (snd c)) (butlast lg)
    \<and> (case res of Inr r \<Rightarrow> lg \<noteq> [] \<and> last lg = (resp_DeploymentID r, None)
        | Inl err \<Rightarrow> if lg = [] then fst (prepare req now (nt_writes nt 0) o1) = Inl err else snd (last lg) = Some (Code err))"
  using Execute_log [OF assms(1)] Execute_tried [OF assms(1)] prepared_distinct [OF assms(2)] by (auto split: sum.splits)

theorem failover_is_safe_witness:
  "distinct [''d1'', ''d2''] \<and> failed_before (Some ErrModelNotAvailable)"
proof (rule demo_executes)
  let ?lg = "[(''d1'', Some ErrModelNotAvailable), (''d2'', None)]"
  fix r job o2
  assume "Execute demo_net demo_request 0 9 demo_orch = (Inr r, job, o2, ?lg)"
  from failover_is_safe [OF this demo_orch_valid]
  have "distinct (map fst ?lg)" "list_all (\<lambda>c. failed_before (snd c)) (butlast ?lg)" by blast+
  then show ?thesis by simp
qed

text \<open>A request reaches only what its policy allows, whether it streams or not: every deployment
  that is called is an available deployment of the approved model the request names, the model
  allows the request's data class, and it belongs to the pool the request names, if any.\<close>

theorem requests_stay_within_policy:
  assumes "Execute nt req now done o1 = (res, job, o2, lg)" and "ExecuteStream nt W req now done o1 w = (res', job', o2', w', lg')"
  shows "list_all (reachable_deployment o1 req) (map fst (lg @ lg'))"
  using Execute_log [OF assms(1)] ExecuteStream_log [OF assms(2)] prepared_reachable [of req now "nt_writes nt 0" o1]
  by (auto simp: list_all_append)

theorem requests_stay_within_policy_witness:
  "reachable_deployment demo_orch demo_request ''d1'' \<and> reachable_deployment demo_orch demo_request ''d2''"
proof (rule demo_executes)
  fix r job o2
  assume e: "Execute demo_net demo_request 0 9 demo_orch = (Inr r, job, o2, [(''d1'', Some ErrModelNotAvailable), (''d2'', None)])"
  obtain a b c d lg where s: "ExecuteStream demo_net http_ops demo_request 0 9 demo_orch demo_client = (a, b, c, d, lg)"
    by (metis surj_pair)
  from requests_stay_within_policy [OF e s] show ?thesis by simp
qed

text \<open>Admission is bounded: whatever requests come and leave, at most \<open>MaxQueue\<close> wait and at most
  \<open>MaxConcurrent\<close> run.\<close>

theorem admission_is_bounded:
  assumes "(adm_step maxQ maxC)\<^sup>*\<^sup>* empty_admission a"
  shows "ad_queue a \<le> maxQ \<and> ad_sem a \<le> maxC"
  using adm_reachable_bounds [OF assms] .

theorem admission_is_bounded_witness:
  "ad_queue \<lparr>ad_queue = 1, ad_sem = 1\<rparr> \<le> 1 \<and> ad_sem \<lparr>ad_queue = 1, ad_sem = 1\<rparr> \<le> 2"
proof (rule admission_is_bounded)
  let ?step = "adm_step 1 2"
  have "?step empty_admission \<lparr>ad_queue = 1, ad_sem = 0\<rparr>"
    using adm_step.enqueue [of empty_admission 1 2] by (simp add: empty_admission_def)
  moreover have "?step \<lparr>ad_queue = 1, ad_sem = 0\<rparr> \<lparr>ad_queue = 0, ad_sem = 1\<rparr>"
    using adm_step.admit [of "\<lparr>ad_queue = 1, ad_sem = 0\<rparr>" 2 1] by simp
  moreover have "?step \<lparr>ad_queue = 0, ad_sem = 1\<rparr> \<lparr>ad_queue = 1, ad_sem = 1\<rparr>"
    using adm_step.enqueue [of "\<lparr>ad_queue = 0, ad_sem = 1\<rparr>" 1 2] by simp
  ultimately show "?step\<^sup>*\<^sup>* empty_admission \<lparr>ad_queue = 1, ad_sem = 1\<rparr>"
    by (meson rtranclp.rtrancl_into_rtrancl rtranclp.rtrancl_refl)
qed

text \<open>C25: Every in-flight slot is given back: when a request is done, however it ended and however
  often it failed over, it holds no slot of any deployment (as far as other requests leave the
  deployment alone meanwhile).\<close>

theorem every_slot_is_given_back:
  assumes "pool_inv (the_pool o1)" and "\<And>n. list_all (\<lambda>op. opens i op = 0) (nt_others nt n)"
    and "Execute nt req now done o1 = (res, job, o2, lg)" and "ExecuteStream nt W req now done o1 w = (res', job', o2', w', lg')"
  shows "inflight (the_pool o2) i = inflight (the_pool o1) i \<and> inflight (the_pool o2') i = inflight (the_pool o1) i"
  using Execute_slots [OF assms(3,1,2)] ExecuteStream_slots [OF assms(4,1,2)] by simp

lemma pool_inv_listI:
  "distinct (map fst (po_nodes p)) \<Longrightarrow> distinct (map fst (po_sticky p)) \<Longrightarrow> list_all (\<lambda>(i, n). node_ok i n) (po_nodes p) \<Longrightarrow> pool_inv p"
  by (auto simp: pool_inv_def node_of_def list_all_iff dest!: map_of_SomeD)

lemma demo_pool_inv: "pool_inv (the_pool demo_orch)"
  by (rule pool_inv_listI; code_simp)

theorem every_slot_is_given_back_witness:
  "\<exists>x job o2 lg. Execute demo_net demo_request 0 9 demo_orch = (x, job, o2, lg) \<and> inflight (the_pool o2) ''d1'' = inflight (the_pool demo_orch) ''d1''"
proof -
  obtain x job o2 lg where e: "Execute demo_net demo_request 0 9 demo_orch = (x, job, o2, lg)" by (metis surj_pair)
  obtain a b c d lg' where s: "ExecuteStream demo_net http_ops demo_request 0 9 demo_orch demo_client = (a, b, c, d, lg')"
    by (metis surj_pair)
  from every_slot_is_given_back [OF demo_pool_inv _ e s, of "''d1''"] e show ?thesis by (simp add: demo_net_def)
qed

text \<open>An explicit \<open>null\<close> is not taken as an absent option: it becomes temperature 0, one empty stop
  string and seed 0, where an absent member leaves the engine's defaults.\<close>

theorem null_options_become_values:
  "eg_Temperature (generation_of [(''temperature'', JNull)]) = Some ''0'' \<and> eg_Temperature (generation_of []) = None
   \<and> eg_Stop (generation_of [(''stop'', JNull)]) = [[]] \<and> eg_Stop (generation_of []) = []
   \<and> eg_Seed (generation_of [(''seed'', JNull)]) = Some 0 \<and> eg_Seed (generation_of []) = None"
  by code_simp

end
