(* ===== verification/GwConfig.thy ===== *)
theory GwConfig
  imports PlatformCfg
begin

text \<open>
  The gateway configuration (\<open>gwcore/config.go\<close>): its records, the validation that also fills the
  defaults, the policy questions it answers, and the accepted configurations.

  \<open>Validate\<close> returns the completed configuration or the first error. \<open>urlp\<close> is \<open>url.Parse\<close> as in
  \<open>PlatformCfg\<close>. The YAML decoder is not under the sources.
\<close>

section \<open>Records\<close>

record gateway_section =
  gs_ID :: string
  gs_Listen :: string
  gs_StrictLocalMode :: "bool option"
  gs_AllowedDataClasses :: "string list"
  gs_MaxRequestBytes :: int

record virtual_key =
  vk_ID :: string
  vk_Name :: string
  vk_KeyHash :: string
  vk_AllowedModels :: "string list"
  vk_RPMLimit :: int
  vk_Disabled :: bool
  vk_AllowTools :: "bool option"

record model_target =
  mt_Runtime :: string
  mt_Endpoint :: string
  mt_PhysicalModel :: string

record cloud_fallback =
  cl_Model :: string

record model_def =
  md_LogicalName :: string
  md_Runtime :: string
  md_Endpoint :: string
  md_PhysicalModel :: string
  md_Fallback :: "model_target list"
  md_CloudFallback :: "cloud_fallback option"

record hybrid_section =
  hs_Enabled :: bool
  hs_Endpoint :: string
  hs_APIKeyFile :: string
  hs_AllowedDataClasses :: "string list"

record gw_config =
  gc_SchemaVersion :: string
  gc_Gateway :: gateway_section
  gc_VirtualKeys :: "virtual_key list"
  gc_Models :: "model_def list"
  gc_AuditPath :: string
  gc_Hybrid :: hybrid_section
  gc_Platform :: "config option"

definition PlatformEnabled :: "gw_config \<Rightarrow> bool" where
  "PlatformEnabled c = (case gc_Platform c of None \<Rightarrow> False | Some p \<Rightarrow> cf_Enabled p)"

definition key_ToolsAllowed :: "virtual_key \<Rightarrow> bool" where
  "key_ToolsAllowed k = (case vk_AllowTools k of None \<Rightarrow> True | Some b \<Rightarrow> b)"

definition primary_target :: "model_def \<Rightarrow> model_target" where
  "primary_target m = \<lparr>mt_Runtime = md_Runtime m, mt_Endpoint = md_Endpoint m, mt_PhysicalModel = md_PhysicalModel m\<rparr>"

definition Targets :: "model_def \<Rightarrow> model_target list" where
  "Targets m = primary_target m # md_Fallback m"

definition StrictLocal :: "gw_config \<Rightarrow> bool" where
  "StrictLocal c = (case gs_StrictLocalMode (gc_Gateway c) of None \<Rightarrow> True | Some b \<Rightarrow> b)"

definition FindModelDef :: "gw_config \<Rightarrow> string \<Rightarrow> model_def option" where
  "FindModelDef c logical = List.find (\<lambda>m. md_LogicalName m = logical) (gc_Models c)"

definition DataClassAllowed :: "gw_config \<Rightarrow> string \<Rightarrow> bool" where
  "DataClassAllowed c class \<longleftrightarrow> class \<in> set (gs_AllowedDataClasses (gc_Gateway c))"

definition CloudEligible :: "gw_config \<Rightarrow> model_def \<Rightarrow> string \<Rightarrow> string \<Rightarrow> bool" where
  "CloudEligible c def dataClass routingMode =
     (if StrictLocal c \<or> \<not> hs_Enabled (gc_Hybrid c) \<or> md_CloudFallback def = None then False
      else if routingMode = ''local-only'' then False
      else if dataClass = [] then False
      else dataClass \<in> set (hs_AllowedDataClasses (gc_Hybrid c)))"

definition validRuntimeAdapter :: "string \<Rightarrow> bool" where
  "validRuntimeAdapter t \<longleftrightarrow> t \<in> {''vllm'', ''ollama'', ''tgi'', ''openai_compatible'', ''lykuro_native''}"

definition sha256_hex :: "string \<Rightarrow> bool" where
  "sha256_hex s \<longleftrightarrow> length s = 64 \<and> list_all (\<lambda>c. is_digit c \<or> CHR ''a'' \<le> c \<and> c \<le> CHR ''f'') s"

section \<open>Validation\<close>

datatype gw_error =
    BadSchemaVersion string | GatewayIdRequired | BadAllowedClass string
  | GwModelNameRequired nat | GwDuplicateModel string | BadRuntime nat "nat option" string | BadEndpoint nat "nat option" string
  | TargetModelRequired nat "nat option" | CloudNeedsHybrid nat | CloudModelNotComposite nat string
  | HybridNeedsNonStrict | BadHybridEndpoint string | HybridKeyRequired | BadHybridClass string
  | PlatformError cfg_error | KeyIdRequired nat | DuplicateKey string | BadKeyHash nat
  | FlowsNotEnabled nat string | BadFlowRef nat string | UnknownKeyModel nat string

definition valid_url :: "(string \<Rightarrow> (string \<times> string) option) \<Rightarrow> string \<Rightarrow> bool" where
  "valid_url urlp u = (case urlp u of None \<Rightarrow> False | Some (scheme, host) \<Rightarrow> scheme \<noteq> [] \<and> host \<noteq> [])"

definition validTarget :: "(string \<Rightarrow> (string \<times> string) option) \<Rightarrow> nat \<Rightarrow> nat option \<Rightarrow> model_target \<Rightarrow> gw_error + unit" where
  "validTarget urlp i j t =
     (if \<not> validRuntimeAdapter (mt_Runtime t) then Inl (BadRuntime i j (mt_Runtime t))
      else if \<not> valid_url urlp (mt_Endpoint t) then Inl (BadEndpoint i j (mt_Endpoint t))
      else if mt_PhysicalModel t = [] then Inl (TargetModelRequired i j)
      else Inr ())"

fun valid_fallbacks :: "(string \<Rightarrow> (string \<times> string) option) \<Rightarrow> nat \<Rightarrow> nat \<Rightarrow> model_target list \<Rightarrow> gw_error + unit" where
  "valid_fallbacks urlp i j [] = Inr ()"
| "valid_fallbacks urlp i j (t # ts) = res_bind (validTarget urlp i (Some j) t) (\<lambda>_. valid_fallbacks urlp i (Suc j) ts)"

definition composite_key :: "string \<Rightarrow> bool" where
  "composite_key s = (case cut CHR ''/'' s of None \<Rightarrow> False | Some (provider, mdl) \<Rightarrow> provider \<noteq> [] \<and> mdl \<noteq> [])"

definition check_cloud :: "bool \<Rightarrow> nat \<Rightarrow> cloud_fallback option \<Rightarrow> gw_error + unit" where
  "check_cloud hybrid i cf =
     (case cf of
        None \<Rightarrow> Inr ()
      | Some cl \<Rightarrow> if \<not> hybrid then Inl (CloudNeedsHybrid i)
                  else if \<not> composite_key (cl_Model cl) then Inl (CloudModelNotComposite i (cl_Model cl))
                  else Inr ())"

text \<open>The loop over the models: the names seen.\<close>

fun check_model_defs ::
  "(string \<Rightarrow> (string \<times> string) option) \<Rightarrow> bool \<Rightarrow> nat \<Rightarrow> string list \<Rightarrow> model_def list \<Rightarrow> gw_error + string list" where
  "check_model_defs urlp hybrid i seen [] = Inr seen"
| "check_model_defs urlp hybrid i seen (m # ms) =
     (if md_LogicalName m = [] then Inl (GwModelNameRequired i)
      else if md_LogicalName m \<in> set seen then Inl (GwDuplicateModel (md_LogicalName m))
      else
        res_bind (validTarget urlp i None (primary_target m)) (\<lambda>_.
        res_bind (valid_fallbacks urlp i 0 (md_Fallback m)) (\<lambda>_.
        res_bind (check_cloud hybrid i (md_CloudFallback m)) (\<lambda>_.
        check_model_defs urlp hybrid (Suc i) (md_LogicalName m # seen) ms))))"

definition gateway_defaults :: "gateway_section \<Rightarrow> gateway_section" where
  "gateway_defaults g =
     g\<lparr>gs_Listen := (if gs_Listen g = [] then '':8443'' else gs_Listen g),
       gs_MaxRequestBytes := (if gs_MaxRequestBytes g \<le> 0 then 10485760 else gs_MaxRequestBytes g),
       gs_AllowedDataClasses := (if gs_AllowedDataClasses g = [] then [''public''] else gs_AllowedDataClasses g)\<rparr>"

definition check_hybrid ::
  "(string \<Rightarrow> (string \<times> string) option) \<Rightarrow> bool \<Rightarrow> hybrid_section \<Rightarrow> gw_error + hybrid_section" where
  "check_hybrid urlp strict h =
     (if \<not> hs_Enabled h then Inr h
      else if strict then Inl HybridNeedsNonStrict
      else if \<not> valid_url urlp (hs_Endpoint h) then Inl (BadHybridEndpoint (hs_Endpoint h))
      else if hs_APIKeyFile h = [] then Inl HybridKeyRequired
      else
        let h' = (if hs_AllowedDataClasses h = [] then h\<lparr>hs_AllowedDataClasses := [''public'']\<rparr> else h)
        in case List.find (\<lambda>dc. dc \<noteq> ''public'' \<and> dc \<noteq> ''internal'') (hs_AllowedDataClasses h') of
             Some dc \<Rightarrow> Inl (BadHybridClass dc)
           | None \<Rightarrow> Inr h')"

definition check_platform ::
  "(string \<Rightarrow> (string \<times> string) option) \<Rightarrow> config option \<Rightarrow> gw_error + config option" where
  "check_platform urlp p =
     (case p of
        None \<Rightarrow> Inr None
      | Some pc \<Rightarrow> (case Validate_config urlp pc of Inl e \<Rightarrow> Inl (PlatformError e) | Inr pc' \<Rightarrow> Inr (Some pc')))"

text \<open>The models a key may name: those of the gateway and, when it is enabled, of the platform.\<close>

definition platform_names :: "config option \<Rightarrow> string list" where
  "platform_names p = (case p of None \<Rightarrow> [] | Some pc \<Rightarrow> if cf_Enabled pc then map me_LogicalName (cf_Models pc) else [])"

definition flows_on :: "config option \<Rightarrow> bool" where
  "flows_on p = (case p of None \<Rightarrow> False | Some pc \<Rightarrow> cf_Enabled pc \<and> wc_Enabled (cf_Workflows pc))"

fun check_key_models :: "bool \<Rightarrow> string list \<Rightarrow> nat \<Rightarrow> string list \<Rightarrow> gw_error + unit" where
  "check_key_models flows seen i [] = Inr ()"
| "check_key_models flows seen i (am # ams) =
     (if has_prefix am ''flow:'' then
        (if \<not> flows then Inl (FlowsNotEnabled i am)
         else if length am = length ''flow:'' then Inl (BadFlowRef i am)
         else check_key_models flows seen i ams)
      else if am \<notin> set seen then Inl (UnknownKeyModel i am)
      else check_key_models flows seen i ams)"

fun check_keys :: "bool \<Rightarrow> string list \<Rightarrow> nat \<Rightarrow> string list \<Rightarrow> virtual_key list \<Rightarrow> gw_error + unit" where
  "check_keys flows seen i ids [] = Inr ()"
| "check_keys flows seen i ids (k # ks) =
     (if vk_ID k = [] then Inl (KeyIdRequired i)
      else if vk_ID k \<in> set ids then Inl (DuplicateKey (vk_ID k))
      else if \<not> sha256_hex (vk_KeyHash k) then Inl (BadKeyHash i)
      else res_bind (check_key_models flows seen i (vk_AllowedModels k)) (\<lambda>_.
           check_keys flows seen (Suc i) (vk_ID k # ids) ks))"

definition Validate_gateway :: "(string \<Rightarrow> (string \<times> string) option) \<Rightarrow> gw_config \<Rightarrow> gw_error + gw_config" where
  "Validate_gateway urlp c =
     (if gc_SchemaVersion c \<noteq> ''1'' then Inl (BadSchemaVersion (gc_SchemaVersion c))
      else if gs_ID (gc_Gateway c) = [] then Inl GatewayIdRequired
      else
        let g = gateway_defaults (gc_Gateway c) in
        case List.find (\<lambda>dc. \<not> ValidDataClass dc) (gs_AllowedDataClasses g) of
          Some dc \<Rightarrow> Inl (BadAllowedClass dc)
        | None \<Rightarrow>
            res_bind (check_model_defs urlp (hs_Enabled (gc_Hybrid c)) 0 [] (gc_Models c)) (\<lambda>seen.
            res_bind (check_hybrid urlp (StrictLocal c) (gc_Hybrid c)) (\<lambda>h.
            res_bind (check_platform urlp (gc_Platform c)) (\<lambda>p.
            res_bind (check_keys (flows_on p) (platform_names p @ seen) 0 [] (gc_VirtualKeys c)) (\<lambda>_.
            Inr (c\<lparr>gc_Gateway := g, gc_Hybrid := h, gc_Platform := p\<rparr>))))))"

text \<open>Reading a configuration; \<open>yaml\<close> decodes the bytes of a file.\<close>

datatype load_error = ConfigUnreadable | ConfigSyntax | ConfigInvalid gw_error

definition ParseConfig ::
  "(body \<Rightarrow> gw_config option) \<Rightarrow> (string \<Rightarrow> (string \<times> string) option) \<Rightarrow> body \<Rightarrow> load_error + gw_config" where
  "ParseConfig yaml urlp raw =
     (case yaml raw of
        None \<Rightarrow> Inl ConfigSyntax
      | Some c \<Rightarrow> (case Validate_gateway urlp c of Inl e \<Rightarrow> Inl (ConfigInvalid e) | Inr c' \<Rightarrow> Inr c'))"

definition LoadConfig ::
  "(string \<Rightarrow> body option) \<Rightarrow> (body \<Rightarrow> gw_config option) \<Rightarrow> (string \<Rightarrow> (string \<times> string) option) \<Rightarrow> string \<Rightarrow> load_error + gw_config" where
  "LoadConfig files yaml urlp path = (case files path of None \<Rightarrow> Inl ConfigUnreadable | Some raw \<Rightarrow> ParseConfig yaml urlp raw)"

section \<open>The accepted configurations\<close>

definition target_ok :: "(string \<Rightarrow> (string \<times> string) option) \<Rightarrow> model_target \<Rightarrow> bool" where
  "target_ok urlp t \<longleftrightarrow> validRuntimeAdapter (mt_Runtime t) \<and> valid_url urlp (mt_Endpoint t) \<and> mt_PhysicalModel t \<noteq> []"

definition model_def_ok :: "(string \<Rightarrow> (string \<times> string) option) \<Rightarrow> bool \<Rightarrow> model_def \<Rightarrow> bool" where
  "model_def_ok urlp hybrid m \<longleftrightarrow> md_LogicalName m \<noteq> [] \<and> list_all (target_ok urlp) (Targets m)
     \<and> (\<forall>cl. md_CloudFallback m = Some cl \<longrightarrow> hybrid \<and> composite_key (cl_Model cl))"

definition hybrid_ok :: "(string \<Rightarrow> (string \<times> string) option) \<Rightarrow> bool \<Rightarrow> hybrid_section \<Rightarrow> bool" where
  "hybrid_ok urlp strict h \<longleftrightarrow> (hs_Enabled h \<longrightarrow> \<not> strict \<and> valid_url urlp (hs_Endpoint h) \<and> hs_APIKeyFile h \<noteq> []
     \<and> set (hs_AllowedDataClasses h) \<subseteq> {''public'', ''internal''})"

text \<open>What a key may be allowed: a model that exists, or a named flow where workflows are enabled.\<close>

definition grant_ok :: "bool \<Rightarrow> string set \<Rightarrow> string \<Rightarrow> bool" where
  "grant_ok flows names am \<longleftrightarrow> (if prefix ''flow:'' am then flows \<and> am \<noteq> ''flow:'' else am \<in> names)"

definition key_ok :: "bool \<Rightarrow> string set \<Rightarrow> virtual_key \<Rightarrow> bool" where
  "key_ok flows names k \<longleftrightarrow> vk_ID k \<noteq> [] \<and> sha256_hex (vk_KeyHash k) \<and> list_all (grant_ok flows names) (vk_AllowedModels k)"

definition gw_config_ok :: "(string \<Rightarrow> (string \<times> string) option) \<Rightarrow> gw_config \<Rightarrow> bool" where
  "gw_config_ok urlp c \<longleftrightarrow> gc_SchemaVersion c = ''1'' \<and> gs_ID (gc_Gateway c) \<noteq> []
     \<and> list_all ValidDataClass (gs_AllowedDataClasses (gc_Gateway c))
     \<and> list_all (model_def_ok urlp (hs_Enabled (gc_Hybrid c))) (gc_Models c) \<and> distinct (map md_LogicalName (gc_Models c))
     \<and> hybrid_ok urlp (StrictLocal c) (gc_Hybrid c)
     \<and> (\<forall>p. gc_Platform c = Some p \<longrightarrow> cf_Enabled p \<longrightarrow> config_ok urlp p)
     \<and> list_all (key_ok (flows_on (gc_Platform c))
          (md_LogicalName ` set (gc_Models c) \<union> set (platform_names (gc_Platform c)))) (gc_VirtualKeys c)
     \<and> distinct (map vk_ID (gc_VirtualKeys c))"

definition hybrid_defaults :: "hybrid_section \<Rightarrow> hybrid_section" where
  "hybrid_defaults h = (if hs_Enabled h \<and> hs_AllowedDataClasses h = [] then h\<lparr>hs_AllowedDataClasses := [''public'']\<rparr> else h)"

definition platform_defaults :: "config option \<Rightarrow> config option" where
  "platform_defaults = map_option (\<lambda>p. if cf_Enabled p then with_defaults p else p)"

definition gw_with_defaults :: "gw_config \<Rightarrow> gw_config" where
  "gw_with_defaults c =
     c\<lparr>gc_Gateway := gateway_defaults (gc_Gateway c), gc_Hybrid := hybrid_defaults (gc_Hybrid c),
       gc_Platform := platform_defaults (gc_Platform c)\<rparr>"

lemma validTarget_Inr [res_simps]: "validTarget urlp i j t = Inr u \<longleftrightarrow> target_ok urlp t"
  by (simp add: validTarget_def target_ok_def)

lemma valid_fallbacks_Inr [res_simps]: "valid_fallbacks urlp i j ts = Inr u \<longleftrightarrow> list_all (target_ok urlp) ts"
  by (induction ts arbitrary: j) (auto simp: res_simps)

lemma check_cloud_Inr [res_simps]:
  "check_cloud hybrid i cf = Inr u \<longleftrightarrow> (\<forall>cl. cf = Some cl \<longrightarrow> hybrid \<and> composite_key (cl_Model cl))"
  by (auto simp: check_cloud_def split: option.splits)

lemma check_model_defs_Inr [res_simps]:
  "check_model_defs urlp hybrid i seen ms = Inr ns \<longleftrightarrow>
     ns = rev (map md_LogicalName ms) @ seen \<and> list_all (model_def_ok urlp hybrid) ms
     \<and> distinct (map md_LogicalName ms) \<and> set (map md_LogicalName ms) \<inter> set seen = {}"
proof (induction ms arbitrary: i seen)
  case (Cons m ms)
  then show ?case by (auto simp: res_simps model_def_ok_def Targets_def)
qed auto

lemma check_hybrid_Inr [res_simps]:
  "check_hybrid urlp strict h = Inr h' \<longleftrightarrow> hybrid_ok urlp strict h \<and> h' = hybrid_defaults h"
  by (auto simp: check_hybrid_def hybrid_ok_def hybrid_defaults_def Let_def find_case_Inr list_all_iff split: option.splits)

lemma check_platform_Inr [res_simps]:
  "check_platform urlp p = Inr p' \<longleftrightarrow> (\<forall>pc. p = Some pc \<longrightarrow> cf_Enabled pc \<longrightarrow> config_ok urlp pc) \<and> p' = platform_defaults p"
proof (cases p)
  case (Some pc)
  show ?thesis
  proof (cases "Validate_config urlp pc")
    case (Inl e)
    then have "cf_Enabled pc \<and> \<not> config_ok urlp pc"
      using Validate_config_Inr [of urlp pc "if cf_Enabled pc then with_defaults pc else pc"] by (auto split: if_splits)
    then show ?thesis using Some Inl by (simp add: check_platform_def)
  next
    case (Inr pc')
    then show ?thesis
      using Some Validate_config_Inr [of urlp pc pc'] by (auto simp: check_platform_def platform_defaults_def split: if_splits)
  qed
qed (auto simp: check_platform_def platform_defaults_def)

lemma flow_ref: "prefix ''flow:'' am \<Longrightarrow> length am = length ''flow:'' \<longleftrightarrow> am = ''flow:''"
  by (auto simp: prefix_def)

lemma check_key_models_Inr [res_simps]:
  "check_key_models flows seen i ams = Inr u \<longleftrightarrow> list_all (grant_ok flows (set seen)) ams"
proof (induction ams)
  case (Cons am ams)
  then show ?case by (cases "prefix ''flow:'' am") (auto simp: grant_ok_def [of flows "set seen" am] dest: flow_ref)
qed simp

lemma check_keys_Inr [res_simps]:
  "check_keys flows seen i ids ks = Inr u \<longleftrightarrow>
     list_all (key_ok flows (set seen)) ks \<and> distinct (map vk_ID ks) \<and> set (map vk_ID ks) \<inter> set ids = {}"
  by (induction ks arbitrary: i ids) (auto simp: res_simps key_ok_def)

lemma platform_defaults_simps [simp]:
  "flows_on (platform_defaults p) = flows_on p" "platform_names (platform_defaults p) = platform_names p"
  by (auto simp: flows_on_def platform_names_def platform_defaults_def with_defaults_def workflows_defaults_def
      split: option.splits)

lemma Validate_gateway_Inr:
  "Validate_gateway urlp c = Inr c' \<longleftrightarrow> gw_config_ok urlp c \<and> c' = gw_with_defaults c"
proof -
  have classes: "list_all ValidDataClass (gs_AllowedDataClasses (gateway_defaults g)) = list_all ValidDataClass (gs_AllowedDataClasses g)" for g
    by (simp add: gateway_defaults_def ValidDataClass_def)
  show ?thesis
    unfolding Validate_gateway_def Let_def
    by (simp add: res_simps classes gw_config_ok_def gw_with_defaults_def Un_commute) auto
qed

text \<open>In an accepted configuration the cloud is a matter of explicit choices.\<close>

lemma cloud_choice:
  assumes "Validate_gateway urlp c = Inr c'" and "CloudEligible c' def dc rm"
  shows "gs_StrictLocalMode (gc_Gateway c) = Some False" and "hs_Enabled (gc_Hybrid c)" and "dc \<in> {''public'', ''internal''}"
    and "rm \<noteq> ''local-only''" and "md_CloudFallback def \<noteq> None"
proof -
  have c: "gw_config_ok urlp c" "c' = gw_with_defaults c" using assms(1) by (simp_all add: Validate_gateway_Inr)
  have e: "\<not> StrictLocal c'" "hs_Enabled (gc_Hybrid c')" "dc \<in> set (hs_AllowedDataClasses (gc_Hybrid c'))"
      "rm \<noteq> ''local-only''" "md_CloudFallback def \<noteq> None"
    using assms(2) by (auto simp: CloudEligible_def split: if_splits)
  show "rm \<noteq> ''local-only''" "md_CloudFallback def \<noteq> None" by fact+
  show "hs_Enabled (gc_Hybrid c)" using e(2) by (auto simp: c(2) gw_with_defaults_def hybrid_defaults_def split: if_splits)
  then show "dc \<in> {''public'', ''internal''}"
    using e(3) c(1) by (auto simp: c(2) gw_with_defaults_def hybrid_defaults_def gw_config_ok_def hybrid_ok_def split: if_splits)
  show "gs_StrictLocalMode (gc_Gateway c) = Some False"
    using e(1) by (auto simp: c(2) gw_with_defaults_def StrictLocal_def gateway_defaults_def split: option.splits)
qed

section \<open>Properties\<close>

text \<open>C31: The gateway accepts exactly the well-formed configurations: schema 1, an id, known data classes,
  unique models with valid targets, cloud fallbacks only in hybrid mode, hybrid mode only with
  strict local mode turned off and for public or internal data, a valid platform section, unique keys
  whose grants exist; and it completes them with the defaults.\<close>

theorem gw_config_accepted_exactly:
  "Validate_gateway urlp c = Inr c' \<longleftrightarrow> gw_config_ok urlp c \<and> c' = gw_with_defaults c"
  by (rule Validate_gateway_Inr)

end
