(* ===== verification/GwAuth.thy ===== *)
theory GwAuth
  imports GwConfig
begin

text \<open>
  Keys of the gateway (\<open>gwcore/auth.go\<close>, \<open>token/token.go\<close>): random segments, the lookup of a bearer
  key by its hash, and the fixed-window limit of requests per minute.

  \<open>hx\<close> is the hexadecimal SHA-256 of a string. The random generator is the sequence \<open>draw\<close> of its
  results below 57, \<open>None\<close> for a failure. A limiter is the map of its windows.
\<close>

section \<open>Random segments\<close>

definition tokenAlphabet :: string where
  "tokenAlphabet = ''ABCDEFGHJKLMNPQRSTUVWXYZabcdefghijkmnopqrstuvwxyz23456789''"

fun random_chars :: "(nat \<Rightarrow> nat option) \<Rightarrow> nat \<Rightarrow> nat \<Rightarrow> string option" where
  "random_chars draw i 0 = Some []"
| "random_chars draw i (Suc n) =
     (case draw i of
        None \<Rightarrow> None
      | Some k \<Rightarrow> map_option ((#) (tokenAlphabet ! k)) (random_chars draw (Suc i) n))"

definition RandomTokenSegment :: "(nat \<Rightarrow> nat option) \<Rightarrow> nat \<Rightarrow> string option" where
  "RandomTokenSegment draw n = random_chars draw 0 n"

definition AgentTokenPrefix :: string where "AgentTokenPrefix = ''lkpga_''"
definition VirtualKeyPrefix :: string where "VirtualKeyPrefix = ''lkpgw_''"

definition HashToken :: "(string \<Rightarrow> string) \<Rightarrow> string \<Rightarrow> string" where
  "HashToken hx plain = hx plain"

definition HashKey :: "(string \<Rightarrow> string) \<Rightarrow> string \<Rightarrow> string" where
  "HashKey hx plain = hx plain"

definition GenerateAgentToken :: "(string \<Rightarrow> string) \<Rightarrow> (nat \<Rightarrow> nat option) \<Rightarrow> (string \<times> string) option" where
  "GenerateAgentToken hx draw =
     map_option (\<lambda>seg. (AgentTokenPrefix @ seg, HashToken hx (AgentTokenPrefix @ seg))) (RandomTokenSegment draw 48)"

definition GenerateVirtualKey :: "(string \<Rightarrow> string) \<Rightarrow> (nat \<Rightarrow> nat option) \<Rightarrow> (string \<times> string) option" where
  "GenerateVirtualKey hx draw =
     map_option (\<lambda>seg. (VirtualKeyPrefix @ seg, HashKey hx (VirtualKeyPrefix @ seg))) (RandomTokenSegment draw 44)"

definition BearerToken :: "string \<Rightarrow> string" where
  "BearerToken authorization = trim_space (trim_prefix authorization ''Bearer '')"

section \<open>Authentication\<close>

record rate_window =
  rw_start :: time
  rw_count :: nat

type_synonym windows = "string \<Rightarrow> rate_window option"

record authenticator =
  au_byHash :: "string \<Rightarrow> virtual_key option"
  au_rl :: windows

definition NewAuthenticator :: "gw_config \<Rightarrow> authenticator" where
  "NewAuthenticator cfg =
     \<lparr>au_byHash = fold (\<lambda>k m. m(vk_KeyHash k \<mapsto> k)) (gc_VirtualKeys cfg) Map.empty, au_rl = Map.empty\<rparr>"

definition Authenticate :: "(string \<Rightarrow> string) \<Rightarrow> authenticator \<Rightarrow> string \<Rightarrow> virtual_key option" where
  "Authenticate hx a authorization =
     (let tok = trim_space (trim_prefix authorization ''Bearer '') in
      if tok = [] \<or> \<not> has_prefix tok VirtualKeyPrefix then None
      else
        let hash = HashKey hx tok in
        case au_byHash a hash of
          None \<Rightarrow> None
        | Some k \<Rightarrow> if vk_Disabled k then None else if hash \<noteq> vk_KeyHash k then None else Some k)"

definition AllowsModel :: "virtual_key \<Rightarrow> string \<Rightarrow> bool" where
  "AllowsModel k logical \<longleftrightarrow> (if vk_AllowedModels k = [] then True else logical \<in> set (vk_AllowedModels k))"

section \<open>The rate window\<close>

text \<open>\<open>allow\<close>: the current window of the key, or a new one when there is none or a minute has passed.\<close>

definition current_window :: "string \<Rightarrow> time \<Rightarrow> windows \<Rightarrow> rate_window" where
  "current_window keyID now ws =
     (case ws keyID of
        None \<Rightarrow> \<lparr>rw_start = now, rw_count = 0\<rparr>
      | Some w \<Rightarrow> if now - rw_start w \<ge> minute then \<lparr>rw_start = now, rw_count = 0\<rparr> else w)"

definition allow :: "string \<Rightarrow> int \<Rightarrow> time \<Rightarrow> windows \<Rightarrow> bool \<times> windows" where
  "allow keyID limit now ws =
     (let w = current_window keyID now ws
      in if int (rw_count w) \<ge> limit then (False, ws(keyID \<mapsto> w))
         else (True, ws(keyID \<mapsto> w\<lparr>rw_count := rw_count w + 1\<rparr>)))"

definition CheckRate :: "virtual_key \<Rightarrow> time \<Rightarrow> authenticator \<Rightarrow> bool \<times> authenticator" where
  "CheckRate k now a =
     (if vk_RPMLimit k \<le> 0 then (True, a)
      else let (ok, ws) = allow (vk_ID k) (vk_RPMLimit k) now (au_rl a) in (ok, a\<lparr>au_rl := ws\<rparr>))"

section \<open>Who is authenticated\<close>

lemma fold_put: "fold (\<lambda>k m. m(f k \<mapsto> k)) ks m h = (case List.find (\<lambda>k. f k = h) (rev ks) of None \<Rightarrow> m h | Some k \<Rightarrow> Some k)"
proof (induction ks arbitrary: m)
  case (Cons k ks)
  have "List.find P (xs @ [k]) = (case List.find P xs of None \<Rightarrow> if P k then Some k else None | Some y \<Rightarrow> Some y)" for P xs
    by (induction xs) auto
  then show ?case by (simp add: Cons.IH del: fun_upd_apply split: option.splits) simp
qed simp

lemma byHash_Some:
  "au_byHash (NewAuthenticator cfg) h = Some k \<longleftrightarrow> List.find (\<lambda>k. vk_KeyHash k = h) (rev (gc_VirtualKeys cfg)) = Some k"
  by (auto simp: NewAuthenticator_def fold_put split: option.splits)

lemma Authenticate_Some:
  "Authenticate hx (NewAuthenticator cfg) auth = Some k \<longleftrightarrow>
     prefix VirtualKeyPrefix (BearerToken auth) \<and> \<not> vk_Disabled k
     \<and> List.find (\<lambda>k. vk_KeyHash k = hx (BearerToken auth)) (rev (gc_VirtualKeys cfg)) = Some k"
proof -
  have "vk_KeyHash k = h" if "List.find (\<lambda>k. vk_KeyHash k = h) ks = Some k" for h ks
    using find_Some_iff_first [OF that] by simp
  moreover have "prefix VirtualKeyPrefix s \<Longrightarrow> s \<noteq> []" for s by (auto simp: VirtualKeyPrefix_def)
  ultimately show ?thesis
    by (auto simp: Authenticate_def Let_def BearerToken_def HashKey_def byHash_Some [symmetric] split: option.splits)
      (auto simp: byHash_Some)
qed

text \<open>Generated keys have the characters of the alphabet, which no trimming touches.\<close>

lemma tokenAlphabet_facts: "length tokenAlphabet = 57" "list_all (\<lambda>c. \<not> is_space c) tokenAlphabet"
  by code_simp+

lemma random_chars_spec:
  "random_chars draw i n = Some s \<Longrightarrow> (\<And>j k. draw j = Some k \<Longrightarrow> k < 57) \<Longrightarrow> length s = n \<and> set s \<subseteq> set tokenAlphabet"
proof (induction n arbitrary: i s)
  case (Suc n)
  then obtain k t where k: "draw i = Some k" "random_chars draw (Suc i) n = Some t" "s = tokenAlphabet ! k # t"
    by (auto split: option.splits)
  have "k < 57" using Suc.prems(2) k(1) .
  then show ?case using Suc.IH [OF k(2) Suc.prems(2)] k(3) tokenAlphabet_facts(1) by simp
qed simp

lemma trim_space_solid: "list_all (\<lambda>c. \<not> is_space c) s \<Longrightarrow> trim_space s = s"
proof -
  have d: "list_all (\<lambda>c. \<not> is_space c) t \<Longrightarrow> dropWhile is_space t = t" for t by (cases t) auto
  assume s: "list_all (\<lambda>c. \<not> is_space c) s"
  then have "list_all (\<lambda>c. \<not> is_space c) (rev s)" by (simp add: list_all_iff)
  then show ?thesis using s by (simp add: trim_space_def d)
qed

lemma bearer_of_generated:
  assumes "GenerateVirtualKey hx draw = Some (plain, hash)" and "\<And>j k. draw j = Some k \<Longrightarrow> k < 57"
  shows "BearerToken (''Bearer '' @ plain) = plain" and "prefix VirtualKeyPrefix plain" and "hash = hx plain"
proof -
  obtain seg where seg: "random_chars draw 0 44 = Some seg" "plain = VirtualKeyPrefix @ seg" "hash = hx plain"
    using assms(1) by (auto simp: GenerateVirtualKey_def RandomTokenSegment_def HashKey_def)
  have "length seg = 44 \<and> set seg \<subseteq> set tokenAlphabet" by (rule random_chars_spec [OF seg(1)]) (rule assms(2))
  then have "list_all (\<lambda>c. \<not> is_space c) seg" using tokenAlphabet_facts(2) by (auto simp: list_all_iff)
  moreover have "list_all (\<lambda>c. \<not> is_space c) VirtualKeyPrefix" by code_simp
  ultimately have "trim_space plain = plain" by (simp add: seg(2) trim_space_solid)
  then show "BearerToken (''Bearer '' @ plain) = plain" unfolding BearerToken_def trim_prefix_prefix .
  show "prefix VirtualKeyPrefix plain" "hash = hx plain" using seg by simp_all
qed

section \<open>How many requests a key is admitted\<close>

text \<open>
  The requests of a run in order of arrival: key, its limit, time. \<open>admitted\<close> counts those of one
  key that arrive in the minute from \<open>a\<close> and are admitted.
\<close>

fun admitted :: "string \<Rightarrow> time \<Rightarrow> (string \<times> int \<times> time) list \<Rightarrow> windows \<Rightarrow> nat" where
  "admitted k a [] ws = 0"
| "admitted k a ((i, l, t) # es) ws =
     (let (ok, ws') = allow i l t ws
      in (if ok \<and> i = k \<and> a \<le> t \<and> t < a + minute then 1 else 0) + admitted k a es ws')"

abbreviation times :: "(string \<times> int \<times> time) list \<Rightarrow> time list" where
  "times es \<equiv> map (\<lambda>e. snd (snd e)) es"

definition limited :: "string \<Rightarrow> int \<Rightarrow> (string \<times> int \<times> time) list \<Rightarrow> bool" where
  "limited k cap es \<longleftrightarrow> list_all (\<lambda>(i, l, t). i = k \<longrightarrow> l = cap) es"

lemma limited_Cons [simp]: "limited k cap ((i, l, t) # es) \<longleftrightarrow> (i = k \<longrightarrow> l = cap) \<and> limited k cap es"
  by (simp add: limited_def)

lemma minute_pos: "0 < minute"
  by (simp add: minute_def sec_def)

lemma allow_other: "i \<noteq> k \<Longrightarrow> snd (allow i l t ws) k = ws k"
  by (simp add: allow_def Let_def)

lemma allow_step:
  "allow k l t ws = (ok, ws') \<Longrightarrow> \<exists>w. ws' k = Some w \<and>
     (let c = current_window k t ws in rw_start w = rw_start c \<and>
       (if ok then int (rw_count c) < l \<and> rw_count w = rw_count c + 1 else int (rw_count c) \<ge> l \<and> rw_count w = rw_count c))"
  by (auto simp: allow_def Let_def split: if_splits)

text \<open>After the minute nothing counts.\<close>

lemma admitted_late: "sorted (times es) \<Longrightarrow> list_all (\<lambda>t. a + minute \<le> t) (times es) \<Longrightarrow> admitted k a es ws = 0"
  by (induction es arbitrary: ws) (auto split: prod.splits)

text \<open>In a window that began in the minute, what is left of it is admitted.\<close>

lemma admitted_inside:
  "sorted (times es) \<Longrightarrow> limited k cap es \<Longrightarrow> ws k = Some w \<Longrightarrow> a \<le> rw_start w \<Longrightarrow> admitted k a es ws \<le> nat cap - rw_count w"
proof (induction es arbitrary: ws w)
  case (Cons e es)
  obtain i l t where e: "e = (i, l, t)" by (cases e)
  obtain ok ws' where al: "allow i l t ws = (ok, ws')" by (cases "allow i l t ws")
  have step: "admitted k a (e # es) ws = (if ok \<and> i = k \<and> a \<le> t \<and> t < a + minute then 1 else 0) + admitted k a es ws'"
    by (simp add: e al)
  have later: "list_all (\<lambda>x. t \<le> x) (times es)" "sorted (times es)" using Cons.prems(1) by (auto simp: e list_all_iff)
  show ?case
  proof (cases "i = k")
    case False
    then have "ws' k = Some w" using allow_other [OF False, of l t ws] al Cons.prems(3) by simp
    then show ?thesis using Cons.IH [OF later(2) _ _ Cons.prems(4)] Cons.prems(2) False by (simp add: e al)
  next
    case True
    obtain w' where w': "ws' k = Some w'"
        "let c = current_window k t ws in rw_start w' = rw_start c \<and>
          (if ok then int (rw_count c) < l \<and> rw_count w' = rw_count c + 1 else int (rw_count c) \<ge> l \<and> rw_count w' = rw_count c)"
      using allow_step [of k l t ws ok ws'] al True by auto
    show ?thesis
    proof (cases "minute \<le> t - rw_start w")
      case new: True
      then have "a + minute \<le> t" using Cons.prems(4) by simp
      moreover from this have "admitted k a es ws' = 0"
        using later by (intro admitted_late) (auto simp: list_all_iff)
      ultimately show ?thesis by (simp add: e al)
    next
      case old: False
      then have c: "current_window k t ws = w" by (simp add: current_window_def Cons.prems(3))
      have "admitted k a es ws' \<le> nat cap - rw_count w'"
        using Cons.IH [where ws = ws' and w = w'] later(2) w' c Cons.prems(2,4) by (simp add: e Let_def)
      then show ?thesis unfolding step using w'(2) c Cons.prems(2) True by (auto simp: e Let_def split: if_splits)
    qed
  qed
qed simp

text \<open>Once the minute has begun: what is left of the old window, and one new window.\<close>

definition left_over :: "int \<Rightarrow> rate_window option \<Rightarrow> nat" where
  "left_over cap w = (case w of None \<Rightarrow> 0 | Some w \<Rightarrow> nat cap - rw_count w)"

lemma admitted_begun:
  "sorted (times es) \<Longrightarrow> limited k cap es \<Longrightarrow> list_all (\<lambda>t. a \<le> t) (times es)
     \<Longrightarrow> admitted k a es ws \<le> left_over cap (ws k) + nat cap"
proof (induction es arbitrary: ws)
  case (Cons e es)
  obtain i l t where e: "e = (i, l, t)" by (cases e)
  obtain ok ws' where al: "allow i l t ws = (ok, ws')" by (cases "allow i l t ws")
  have step: "admitted k a (e # es) ws = (if ok \<and> i = k \<and> a \<le> t \<and> t < a + minute then 1 else 0) + admitted k a es ws'"
    by (simp add: e al)
  have later: "sorted (times es)" "limited k cap es" "list_all (\<lambda>t. a \<le> t) (times es)" "a \<le> t"
    using Cons.prems by (auto simp: e)
  show ?case
  proof (cases "i = k")
    case False
    then have "ws' k = ws k" using allow_other [OF False, of l t ws] al by simp
    then show ?thesis using Cons.IH [OF later(1-3), of ws'] False by (simp add: e al)
  next
    case True
    obtain w' where w': "ws' k = Some w'"
        "let c = current_window k t ws in rw_start w' = rw_start c \<and>
          (if ok then int (rw_count c) < l \<and> rw_count w' = rw_count c + 1 else int (rw_count c) \<ge> l \<and> rw_count w' = rw_count c)"
      using allow_step [of k l t ws ok ws'] al True by auto
    have cap: "l = cap" using Cons.prems(2) True by (simp add: e)
    show ?thesis
    proof (cases "current_window k t ws = \<lparr>rw_start = t, rw_count = 0\<rparr>")
      case new: True
      have "admitted k a es ws' \<le> nat cap - rw_count w'"
        by (rule admitted_inside [where w = w']) (use later w' new in \<open>simp_all add: Let_def\<close>)
      then show ?thesis unfolding step using w'(2) new cap by (auto simp: Let_def split: if_splits)
    next
      case old: False
      then obtain w where w: "ws k = Some w" "current_window k t ws = w"
        by (auto simp: current_window_def split: option.splits if_splits)
      then show ?thesis
        unfolding step using Cons.IH [OF later(1-3), of ws'] w' cap by (auto simp: left_over_def Let_def split: if_splits)
    qed
  qed
qed simp

lemma admitted_bound:
  "sorted (times es) \<Longrightarrow> limited k cap es \<Longrightarrow> admitted k a es ws \<le> 2 * nat cap"
proof (induction es arbitrary: ws)
  case (Cons e es)
  obtain i l t where e: "e = (i, l, t)" by (cases e)
  show ?case
  proof (cases "a \<le> t")
    case True
    then have "list_all (\<lambda>t. a \<le> t) (times (e # es))" using Cons.prems(1) by (auto simp: e list_all_iff)
    then have "admitted k a (e # es) ws \<le> left_over cap (ws k) + nat cap" by (rule admitted_begun [OF Cons.prems])
    moreover have "left_over cap (ws k) \<le> nat cap" by (simp add: left_over_def split: option.splits)
    ultimately show ?thesis by simp
  next
    case False
    then show ?thesis using Cons.IH Cons.prems by (simp add: e split: prod.splits)
  qed
qed simp

section \<open>Properties\<close>

text \<open>A bearer is authenticated as a key exactly when it has the gateway's key prefix and the key is
  the last one of the configuration that stores the bearer's hash and is not disabled.\<close>

theorem authenticated_exactly_by_hash:
  "Authenticate hx (NewAuthenticator cfg) auth = Some k \<longleftrightarrow>
     prefix VirtualKeyPrefix (BearerToken auth) \<and> \<not> vk_Disabled k
     \<and> List.find (\<lambda>k. vk_KeyHash k = hx (BearerToken auth)) (rev (gc_VirtualKeys cfg)) = Some k"
  by (rule Authenticate_Some)

text \<open>A generated key authenticates as the enabled entry that stores its hash.\<close>

lemma generated_key_authenticates:
  assumes "GenerateVirtualKey hx draw = Some (plain, hash)" and "\<And>j k. draw j = Some k \<Longrightarrow> k < 57"
    and "gc_VirtualKeys cfg = ks @ [k]" and "vk_KeyHash k = hash" and "\<not> vk_Disabled k"
  shows "Authenticate hx (NewAuthenticator cfg) (''Bearer '' @ plain) = Some k"
proof -
  note b = bearer_of_generated [OF assms(1)]
  have t: "BearerToken (''Bearer '' @ plain) = plain" by (rule b(1)) (rule assms(2))
  have p: "prefix VirtualKeyPrefix plain" by (rule b(2)) (rule assms(2))
  have h: "hash = hx plain" by (rule b(3)) (rule assms(2))
  show ?thesis using assms(3-5) p h unfolding Authenticate_Some t by simp
qed



end
