(* ===== verification/GwUsage.thy ===== *)
theory GwUsage
  imports Json "HOL-Library.Word"
begin

text \<open>
  Usage deltas between uploads (\<open>gwcore/usage.go\<close>): one row per day and logical model, drained by the
  agent and restored when the upload fails. The counters are 64-bit words, the date of an addition is
  an argument. The order of a drain is the order of the rows (Go's is unspecified).
\<close>

record usage_row =
  ur_UsageDate :: string
  ur_LogicalModel :: string
  ur_RequestCount :: "64 word"
  ur_InputTokens :: "64 word"
  ur_OutputTokens :: "64 word"
  ur_ErrorCount :: "64 word"

type_synonym usage_key = "string \<times> string"
type_synonym usage_counter = "(usage_key \<times> usage_row) list"

definition newUsageCounter :: usage_counter where
  "newUsageCounter = []"

definition empty_row :: "usage_key \<Rightarrow> usage_row" where
  "empty_row k = \<lparr>ur_UsageDate = fst k, ur_LogicalModel = snd k, ur_RequestCount = 0, ur_InputTokens = 0,
     ur_OutputTokens = 0, ur_ErrorCount = 0\<rparr>"

definition opt_word :: "int option \<Rightarrow> 64 word" where
  "opt_word t = (case t of None \<Rightarrow> 0 | Some n \<Rightarrow> word_of_int n)"

definition bump_row :: "int option \<Rightarrow> int option \<Rightarrow> bool \<Rightarrow> usage_row \<Rightarrow> usage_row" where
  "bump_row inTok outTok isError row =
     row\<lparr>ur_RequestCount := ur_RequestCount row + 1,
         ur_ErrorCount := ur_ErrorCount row + (if isError then 1 else 0),
         ur_InputTokens := ur_InputTokens row + opt_word inTok,
         ur_OutputTokens := ur_OutputTokens row + opt_word outTok\<rparr>"

definition add_usage :: "string \<Rightarrow> string \<Rightarrow> int option \<Rightarrow> int option \<Rightarrow> bool \<Rightarrow> usage_counter \<Rightarrow> usage_counter" where
  "add_usage date logicalModel inTok outTok isError u =
     (if logicalModel = [] then u
      else
        let key = (date, logicalModel);
            row = (case map_of u key of None \<Rightarrow> empty_row key | Some r \<Rightarrow> r)
        in alist_put key (bump_row inTok outTok isError row) u)"

definition DrainUsage :: "usage_counter \<Rightarrow> usage_row list \<times> usage_counter" where
  "DrainUsage u = (map snd u, [])"

definition merge_row :: "usage_row \<Rightarrow> usage_row \<Rightarrow> usage_row" where
  "merge_row r row =
     row\<lparr>ur_RequestCount := ur_RequestCount row + ur_RequestCount r,
         ur_InputTokens := ur_InputTokens row + ur_InputTokens r, ur_OutputTokens := ur_OutputTokens row + ur_OutputTokens r,
         ur_ErrorCount := ur_ErrorCount row + ur_ErrorCount r\<rparr>"

definition restore_row :: "usage_row \<Rightarrow> usage_counter \<Rightarrow> usage_counter" where
  "restore_row r u =
     (let key = (ur_UsageDate r, ur_LogicalModel r)
      in alist_put key (case map_of u key of None \<Rightarrow> r | Some row \<Rightarrow> merge_row r row) u)"

definition RestoreUsage :: "usage_row list \<Rightarrow> usage_counter \<Rightarrow> usage_counter" where
  "RestoreUsage rows u = fold restore_row rows u"

section \<open>Totals\<close>

text \<open>The four counters as a commutative monoid, so that totals are sums of lists.\<close>

datatype counts = Counts (c_req: "64 word") (c_in: "64 word") (c_out: "64 word") (c_err: "64 word")

instantiation counts :: comm_monoid_add
begin

definition zero_counts :: counts where
  "zero_counts = Counts 0 0 0 0"

definition plus_counts :: "counts \<Rightarrow> counts \<Rightarrow> counts" where
  "plus_counts a b = Counts (c_req a + c_req b) (c_in a + c_in b) (c_out a + c_out b) (c_err a + c_err b)"

instance
  by standard (simp_all add: zero_counts_def plus_counts_def ac_simps)

end

definition counts_of :: "usage_row \<Rightarrow> counts" where
  "counts_of r = Counts (ur_RequestCount r) (ur_InputTokens r) (ur_OutputTokens r) (ur_ErrorCount r)"

definition row_key :: "usage_row \<Rightarrow> usage_key" where
  "row_key r = (ur_UsageDate r, ur_LogicalModel r)"

definition total :: "usage_key \<Rightarrow> usage_row list \<Rightarrow> counts" where
  "total k rows = sum_list (map counts_of (filter (\<lambda>r. row_key r = k) rows))"

text \<open>The counter is well-formed: one row per key, stored under its own key.\<close>

definition usage_ok :: "usage_counter \<Rightarrow> bool" where
  "usage_ok u \<longleftrightarrow> distinct (map fst u) \<and> list_all (\<lambda>(k, r). row_key r = k) u"

lemma total_simps [simp]:
  "total k [] = 0" "total k (r # rs) = (if row_key r = k then counts_of r else 0) + total k rs"
  "total k (rs @ rs') = total k rs + total k rs'"
  by (simp_all add: total_def)

lemma total_absent: "list_all (\<lambda>(k, r). row_key r = k) u \<Longrightarrow> k \<notin> fst ` set u \<Longrightarrow> total k (map snd u) = 0"
  by (induction u) auto

lemma total_present: "usage_ok u \<Longrightarrow> map_of u k = Some r \<Longrightarrow> total k (map snd u) = counts_of r"
proof (induction u)
  case (Cons e u)
  then show ?case using total_absent [of u k] by (cases e) (auto simp: usage_ok_def split: if_splits)
qed simp

lemma usage_ok_Nil [simp]: "usage_ok []"
  by (simp add: usage_ok_def)

lemma usage_ok_put: "usage_ok u \<Longrightarrow> row_key r = k \<Longrightarrow> usage_ok (alist_put k r u)"
  by (auto simp: usage_ok_def alist_put_distinct) (auto simp: alist_put_def list_all_iff)

lemma total_filter_other: "list_all (\<lambda>(k, r). row_key r = k) u \<Longrightarrow> j \<noteq> k \<Longrightarrow> total j (map snd (filter (\<lambda>e. fst e \<noteq> k) u)) = total j (map snd u)"
  by (induction u) auto

lemma total_filter_same: "list_all (\<lambda>(k, r). row_key r = k) u \<Longrightarrow> total k (map snd (filter (\<lambda>e. fst e \<noteq> k) u)) = 0"
  by (induction u) auto

lemma total_put:
  assumes "usage_ok u" and "row_key r = k"
  shows "total j (map snd (alist_put k r u)) = (if j = k then counts_of r else total j (map snd u))"
proof -
  have l: "list_all (\<lambda>(k, r). row_key r = k) u" using assms(1) by (simp add: usage_ok_def)
  show ?thesis using total_filter_other [OF l] total_filter_same [OF l] assms(2) by (simp add: alist_put_def)
qed

text \<open>What one addition counts.\<close>

definition one_request :: "int option \<Rightarrow> int option \<Rightarrow> bool \<Rightarrow> counts" where
  "one_request inTok outTok isError = Counts 1 (opt_word inTok) (opt_word outTok) (if isError then 1 else 0)"

lemma map_of_total: "usage_ok u \<Longrightarrow> total k (map snd u) = (case map_of u k of None \<Rightarrow> 0 | Some r \<Rightarrow> counts_of r)"
proof (cases "map_of u k")
  case None
  assume "usage_ok u"
  moreover have "k \<notin> fst ` set u" using None by (simp add: map_of_eq_None_iff)
  ultimately show ?thesis unfolding None option.case by (simp add: usage_ok_def total_absent)
qed (simp add: total_present)

lemma row_key_of: "usage_ok u \<Longrightarrow> map_of u k = Some r \<Longrightarrow> row_key r = k"
  by (auto simp: usage_ok_def list_all_iff dest: map_of_SomeD)

lemma row_simps [simp]:
  "row_key (bump_row i t e r) = row_key r" "row_key (merge_row a r) = row_key r" "row_key (empty_row k) = k"
  "counts_of (bump_row i t e r) = counts_of r + one_request i t e" "counts_of (merge_row a r) = counts_of r + counts_of a"
  "counts_of (empty_row k) = 0"
  by (simp_all add: row_key_def bump_row_def merge_row_def empty_row_def counts_of_def one_request_def plus_counts_def zero_counts_def)

lemma add_usage_total:
  assumes "usage_ok u"
  shows "usage_ok (add_usage date m i t e u)"
    and "total k (map snd (add_usage date m i t e u)) =
      total k (map snd u) + (if m \<noteq> [] \<and> k = (date, m) then one_request i t e else 0)"
proof -
  obtain row where row: "row = (case map_of u (date, m) of None \<Rightarrow> empty_row (date, m) | Some r \<Rightarrow> r)" by simp
  have key: "row_key row = (date, m)" using row_key_of [OF assms, of "(date, m)"] by (simp add: row split: option.splits)
  have c: "total (date, m) (map snd u) = counts_of row"
    unfolding row map_of_total [OF assms] by (simp split: option.splits)
  have add: "add_usage date m i t e u = (if m = [] then u else alist_put (date, m) (bump_row i t e row) u)"
    by (simp add: add_usage_def row Let_def)
  show "usage_ok (add_usage date m i t e u)" using assms key by (simp add: add usage_ok_put)
  show "total k (map snd (add_usage date m i t e u)) =
      total k (map snd u) + (if m \<noteq> [] \<and> k = (date, m) then one_request i t e else 0)"
    using total_put [OF assms, of "bump_row i t e row" "(date, m)" k] key c by (cases "k = (date, m)") (auto simp: add)
qed

lemma restore_row_total:
  assumes "usage_ok u"
  shows "usage_ok (restore_row r u)"
    and "total k (map snd (restore_row r u)) = total k (map snd u) + (if row_key r = k then counts_of r else 0)"
proof -
  obtain row where row: "row = (case map_of u (row_key r) of None \<Rightarrow> r | Some row \<Rightarrow> merge_row r row)" by simp
  have key: "row_key row = row_key r" using row_key_of [OF assms, of "row_key r"] by (simp add: row split: option.splits)
  have c: "total (row_key r) (map snd u) + counts_of r = counts_of row"
    unfolding row map_of_total [OF assms] by (simp split: option.splits)
  have put: "restore_row r u = alist_put (row_key r) row u" by (simp add: restore_row_def row row_key_def Let_def)
  show "usage_ok (restore_row r u)" using assms key by (simp add: put usage_ok_put)
  show "total k (map snd (restore_row r u)) = total k (map snd u) + (if row_key r = k then counts_of r else 0)"
    using total_put [OF assms key, of k] c by (auto simp: put)
qed

lemma RestoreUsage_total:
  "usage_ok u \<Longrightarrow> usage_ok (RestoreUsage rows u) \<and> total k (map snd (RestoreUsage rows u)) = total k (map snd u) + total k rows"
  unfolding RestoreUsage_def
  by (induction rows arbitrary: u) (auto simp: restore_row_total ac_simps)

section \<open>Additions and uploads\<close>

text \<open>The counter, the rows of the upload under way and the rows that were reported.\<close>

record usage_state =
  us_counter :: usage_counter
  us_transit :: "usage_row list"
  us_reported :: "usage_row list"

datatype usage_op = UAdd string string "int option" "int option" bool | UDrain | UFailed | UDelivered

fun app_usage :: "usage_op \<Rightarrow> usage_state \<Rightarrow> usage_state" where
  "app_usage (UAdd date m i t e) s = s\<lparr>us_counter := add_usage date m i t e (us_counter s)\<rparr>"
| "app_usage UDrain s = (if us_transit s = [] then let (rows, u) = DrainUsage (us_counter s) in s\<lparr>us_counter := u, us_transit := rows\<rparr> else s)"
| "app_usage UFailed s = s\<lparr>us_counter := RestoreUsage (us_transit s) (us_counter s), us_transit := []\<rparr>"
| "app_usage UDelivered s = s\<lparr>us_reported := us_reported s @ us_transit s, us_transit := []\<rparr>"

definition usage_init :: usage_state where
  "usage_init = \<lparr>us_counter = newUsageCounter, us_transit = [], us_reported = []\<rparr>"

fun added :: "usage_key \<Rightarrow> usage_op \<Rightarrow> counts" where
  "added k (UAdd date m i t e) = (if m \<noteq> [] \<and> k = (date, m) then one_request i t e else 0)"
| "added k _ = 0"

definition known :: "usage_key \<Rightarrow> usage_state \<Rightarrow> counts" where
  "known k s = total k (map snd (us_counter s)) + total k (us_transit s) + total k (us_reported s)"

lemma app_usage_known:
  "usage_ok (us_counter s) \<Longrightarrow> usage_ok (us_counter (app_usage op s)) \<and> known k (app_usage op s) = known k s + added k op"
proof (cases op)
  case UFailed
  assume "usage_ok (us_counter s)"
  then show ?thesis using RestoreUsage_total [of "us_counter s" "us_transit s" k] by (simp add: UFailed known_def ac_simps)
qed (auto simp: known_def add_usage_total DrainUsage_def ac_simps)

lemma run_usage_known:
  "usage_ok (us_counter s) \<Longrightarrow> known k (fold app_usage ops s) = known k s + sum_list (map (added k) ops)"
  by (induction ops arbitrary: s) (auto simp: app_usage_known ac_simps)

interpretation usage: guarded_component "\<lambda>s. usage_ok (us_counter s)" usage_init app_usage
proof unfold_locales
  show "usage_ok (us_counter usage_init)" by (simp add: usage_init_def newUsageCounter_def usage_ok_def)
qed (use app_usage_known in blast)

section \<open>Properties\<close>


end
