(* ===== verification/Metrics.thy ===== *)
theory Metrics
  imports Json "HOL-Library.Word"
begin

text \<open>
  The metrics registry and its Prometheus text (\<open>gwcore/metrics.go\<close>). Counters are 64-bit words, kept in
  lists with one entry per label. A duration is a number of nanoseconds and so is a bucket's bound:
  every bound is a whole number of milliseconds, so comparing the durations compares the seconds of
  the code. The sum of a histogram is exact (a float in the code); \<open>fmt_g\<close> prints it. \<open>go_quote\<close> is the
  verb \<open>%q\<close> on ASCII.
\<close>

section \<open>Histograms\<close>

definition durationBuckets :: "time list" where
  "durationBuckets = map (\<lambda>ms. ms * msec) [50, 100, 250, 500, 1000, 2500, 5000, 10000, 30000, 60000, 300000]"

definition ttftBuckets :: "time list" where
  "ttftBuckets = map (\<lambda>ms. ms * msec) [50, 100, 250, 500, 1000, 2000, 5000, 10000, 30000]"

record histogram =
  hg_buckets :: "time list"
  hg_counts :: "64 word list"
  hg_sum :: time
  hg_total :: "64 word"

definition newHistogram :: "time list \<Rightarrow> histogram" where
  "newHistogram buckets = \<lparr>hg_buckets = buckets, hg_counts = map (\<lambda>_. 0) buckets, hg_sum = 0, hg_total = 0\<rparr>"

definition observe :: "time \<Rightarrow> histogram \<Rightarrow> histogram" where
  "observe v h =
     h\<lparr>hg_sum := hg_sum h + v, hg_total := hg_total h + 1,
       hg_counts := map2 (\<lambda>b c. if v \<le> b then c + 1 else c) (hg_buckets h) (hg_counts h)\<rparr>"

section \<open>The registry\<close>

type_synonym 'k counter = "('k \<times> 64 word) list"

definition counter_of :: "'k \<Rightarrow> 'k counter \<Rightarrow> 64 word" where
  "counter_of k m = (case map_of m k of None \<Rightarrow> 0 | Some n \<Rightarrow> n)"

definition add_count :: "'k \<Rightarrow> 64 word \<Rightarrow> 'k counter \<Rightarrow> 'k counter" where
  "add_count k n m = alist_put k (counter_of k m + n) m"

record metrics =
  mx_requests :: "(string \<times> string) counter"
  mx_durations :: "(string \<times> histogram) list"
  mx_ttft :: histogram
  mx_inputTokens :: "string counter"
  mx_outputTokens :: "string counter"
  mx_modelErrors :: "string counter"
  mx_policyDenied :: "64 word"
  mx_rateLimited :: "64 word"
  mx_authFailures :: "64 word"
  mx_activeStreams :: int
  mx_configVersion :: int
  mx_heartbeats :: "bool counter"
  mx_workflowRuns :: "string counter"
  mx_workflowFallback :: "64 word"

definition newMetrics :: metrics where
  "newMetrics =
     \<lparr>mx_requests = [], mx_durations = [], mx_ttft = newHistogram ttftBuckets, mx_inputTokens = [], mx_outputTokens = [],
      mx_modelErrors = [], mx_policyDenied = 0, mx_rateLimited = 0, mx_authFailures = 0, mx_activeStreams = 0,
      mx_configVersion = 0, mx_heartbeats = [], mx_workflowRuns = [], mx_workflowFallback = 0\<rparr>"

definition recordWorkflowRun :: "string \<Rightarrow> bool \<Rightarrow> metrics \<Rightarrow> metrics" where
  "recordWorkflowRun status fallbackUsed m =
     m\<lparr>mx_workflowRuns := add_count status 1 (mx_workflowRuns m),
       mx_workflowFallback := mx_workflowFallback m + (if fallbackUsed then 1 else 0)\<rparr>"

definition count_request :: "string \<Rightarrow> int \<Rightarrow> metrics \<Rightarrow> metrics" where
  "count_request endpoint status m = m\<lparr>mx_requests := add_count (endpoint, int_str status) 1 (mx_requests m)\<rparr>"

definition observe_duration :: "string \<Rightarrow> time \<Rightarrow> metrics \<Rightarrow> metrics" where
  "observe_duration endpoint latency m =
     m\<lparr>mx_durations := alist_put endpoint (observe latency (case map_of (mx_durations m) endpoint of
         None \<Rightarrow> newHistogram durationBuckets | Some h \<Rightarrow> h)) (mx_durations m)\<rparr>"

definition add_tokens :: "string \<Rightarrow> int option \<Rightarrow> string counter \<Rightarrow> string counter" where
  "add_tokens model t m = (case t of None \<Rightarrow> m | Some n \<Rightarrow> add_count model (word_of_int n) m)"

definition count_tokens :: "string \<Rightarrow> int option \<Rightarrow> int option \<Rightarrow> metrics \<Rightarrow> metrics" where
  "count_tokens model inTok outTok m =
     (if model = [] then m
      else m\<lparr>mx_inputTokens := add_tokens model inTok (mx_inputTokens m),
             mx_outputTokens := add_tokens model outTok (mx_outputTokens m)\<rparr>)"

definition count_result :: "int \<Rightarrow> string \<Rightarrow> metrics \<Rightarrow> metrics" where
  "count_result status result m =
     (if result = ''policy_denied'' then m\<lparr>mx_policyDenied := mx_policyDenied m + 1\<rparr>
      else if status \<ge> 500 then m\<lparr>mx_modelErrors := add_count result 1 (mx_modelErrors m)\<rparr>
      else m)"

definition recordRequest ::
  "string \<Rightarrow> int \<Rightarrow> string \<Rightarrow> string \<Rightarrow> int option \<Rightarrow> int option \<Rightarrow> time \<Rightarrow> metrics \<Rightarrow> metrics" where
  "recordRequest endpoint status result model inTok outTok latency m =
     count_result status result
       (count_tokens model inTok outTok (observe_duration endpoint latency (count_request endpoint status m)))"

definition recordDenied :: "string \<Rightarrow> int \<Rightarrow> string \<Rightarrow> metrics \<Rightarrow> metrics" where
  "recordDenied endpoint status result m0 =
     (let m = count_request endpoint status m0 in
      if result = ''authentication_failed'' then m\<lparr>mx_authFailures := mx_authFailures m + 1\<rparr>
      else if result = ''rate_limit_exceeded'' then m\<lparr>mx_rateLimited := mx_rateLimited m + 1\<rparr>
      else if result = ''policy_denied'' then m\<lparr>mx_policyDenied := mx_policyDenied m + 1\<rparr>
      else m)"

definition streamStarted :: "time \<Rightarrow> metrics \<Rightarrow> metrics" where
  "streamStarted ttft m = m\<lparr>mx_ttft := observe ttft (mx_ttft m), mx_activeStreams := mx_activeStreams m + 1\<rparr>"

definition streamEnded :: "metrics \<Rightarrow> metrics" where
  "streamEnded m = (if mx_activeStreams m > 0 then m\<lparr>mx_activeStreams := mx_activeStreams m - 1\<rparr> else m)"

definition SetConfigVersion :: "int \<Rightarrow> metrics \<Rightarrow> metrics" where
  "SetConfigVersion v m = m\<lparr>mx_configVersion := v\<rparr>"

definition RecordHeartbeat :: "bool \<Rightarrow> metrics \<Rightarrow> metrics" where
  "RecordHeartbeat ok m = m\<lparr>mx_heartbeats := add_count ok 1 (mx_heartbeats m)\<rparr>"

section \<open>The text\<close>

definition hex_digit :: "nat \<Rightarrow> char" where
  "hex_digit n = (if n < 10 then char_of (48 + n) else char_of (87 + n))"

definition quote_char :: "char \<Rightarrow> string" where
  "quote_char c =
     (if c = CHR 0x22 then [CHR 0x5C, CHR 0x22]
      else if c = CHR 0x5C then [CHR 0x5C, CHR 0x5C]
      else if c = CHR 0x07 then [CHR 0x5C, CHR ''a'']
      else if c = CHR 0x08 then [CHR 0x5C, CHR ''b'']
      else if c = CHR 0x0C then [CHR 0x5C, CHR ''f'']
      else if c = CHR 0x0A then [CHR 0x5C, CHR ''n'']
      else if c = CHR 0x0D then [CHR 0x5C, CHR ''r'']
      else if c = CHR 0x09 then [CHR 0x5C, CHR ''t'']
      else if c = CHR 0x0B then [CHR 0x5C, CHR ''v'']
      else if c < CHR '' '' \<or> c = CHR 0x7F then
        [CHR 0x5C, CHR ''x'', hex_digit (of_char c div 16), hex_digit (of_char c mod 16)]
      else [c])"

definition go_quote :: "string \<Rightarrow> string" where
  "go_quote s = [CHR 0x22] @ concat (map quote_char s) @ [CHR 0x22]"

definition word_str :: "64 word \<Rightarrow> string" where
  "word_str n = int_str (sint n)"

definition sortedKeys :: "('k::linorder \<times> 'v) list \<Rightarrow> 'k list" where
  "sortedKeys m = sort (map fst m)"

text \<open>The order of \<open>sortedKeys2\<close>: first labels, then second ones.\<close>

definition sortedKeys2 :: "((string \<times> string) \<times> 'v) list \<Rightarrow> (string \<times> string) list" where
  "sortedKeys2 m = sort_key fst (sort_key snd (map fst m))"

text \<open>\<open>strconv.FormatFloat\<close> with \<open>'g'\<close> of the bounds in seconds, which are multiples of 10 milliseconds.\<close>

definition bound_str :: "time \<Rightarrow> string" where
  "bound_str b =
     (let ms = b div msec; whole = int_str (ms div 1000); frac = ms mod 1000 in
      if frac = 0 then whole
      else if frac mod 100 = 0 then whole @ ''.'' @ int_str (frac div 100)
      else whole @ ''.'' @ (if frac < 100 then ''0'' else []) @ int_str (frac div 10))"

definition writeHistogram :: "(time \<Rightarrow> string) \<Rightarrow> string \<Rightarrow> string \<Rightarrow> histogram \<Rightarrow> string list" where
  "writeHistogram fmt_g name label h =
     (let sep = (if label \<noteq> [] then '','' else []) in
      map2 (\<lambda>b n. name @ ''_bucket{'' @ label @ sep @ ''le='' @ go_quote (bound_str b) @ ''} '' @ word_str n) (hg_buckets h) (hg_counts h)
      @ [name @ ''_bucket{'' @ label @ sep @ ''le='' @ go_quote ''+Inf'' @ ''} '' @ word_str (hg_total h)]
      @ (if label \<noteq> [] then
           [name @ ''_sum{'' @ label @ ''} '' @ fmt_g (hg_sum h), name @ ''_count{'' @ label @ ''} '' @ word_str (hg_total h)]
         else [name @ ''_sum '' @ fmt_g (hg_sum h), name @ ''_count '' @ word_str (hg_total h)]))"

definition family :: "string \<Rightarrow> string \<Rightarrow> string \<Rightarrow> string list" where
  "family name help kind = [''# HELP '' @ name @ '' '' @ help, ''# TYPE '' @ name @ '' '' @ kind]"

definition labelled :: "string \<Rightarrow> string \<Rightarrow> string counter \<Rightarrow> string list" where
  "labelled name label m =
     map (\<lambda>k. name @ ''{'' @ label @ ''='' @ go_quote k @ ''} '' @ word_str (counter_of k m)) (sortedKeys m)"

definition request_line :: "(string \<times> string) counter \<Rightarrow> string \<times> string \<Rightarrow> string" where
  "request_line m k =
     ''lykuro_pgw_requests_total{endpoint='' @ go_quote (fst k) @ '',status='' @ go_quote (snd k) @ ''} '' @ word_str (counter_of k m)"

definition single :: "string \<Rightarrow> string \<Rightarrow> string \<Rightarrow> string \<Rightarrow> string list" where
  "single name help kind value = family name help kind @ [name @ '' '' @ value]"

text \<open>The lines that \<open>ServeHTTP\<close> writes.\<close>

definition metrics_lines :: "(time \<Rightarrow> string) \<Rightarrow> string \<Rightarrow> metrics \<Rightarrow> string list" where
  "metrics_lines fmt_g version m =
     family ''lykuro_pgw_build_info'' ''Gateway build information'' ''gauge''
     @ [''lykuro_pgw_build_info{version='' @ go_quote version @ ''} 1'']
     @ family ''lykuro_pgw_requests_total'' ''Requests by endpoint and HTTP status'' ''counter''
     @ map (request_line (mx_requests m)) (sortedKeys2 (mx_requests m))
     @ family ''lykuro_pgw_request_duration_seconds'' ''Request latency'' ''histogram''
     @ concat (map (\<lambda>ep. writeHistogram fmt_g ''lykuro_pgw_request_duration_seconds'' (''endpoint='' @ go_quote ep)
                            (the (map_of (mx_durations m) ep))) (sortedKeys (mx_durations m)))
     @ family ''lykuro_pgw_first_token_latency_seconds'' ''Time to first streamed byte'' ''histogram''
     @ writeHistogram fmt_g ''lykuro_pgw_first_token_latency_seconds'' [] (mx_ttft m)
     @ family ''lykuro_pgw_input_tokens_total'' ''Input tokens by logical model'' ''counter''
     @ labelled ''lykuro_pgw_input_tokens_total'' ''model'' (mx_inputTokens m)
     @ family ''lykuro_pgw_output_tokens_total'' ''Output tokens by logical model'' ''counter''
     @ labelled ''lykuro_pgw_output_tokens_total'' ''model'' (mx_outputTokens m)
     @ family ''lykuro_pgw_model_errors_total'' ''Inference failures by result code'' ''counter''
     @ labelled ''lykuro_pgw_model_errors_total'' ''code'' (mx_modelErrors m)
     @ single ''lykuro_pgw_policy_denied_total'' ''Policy denials'' ''counter'' (word_str (mx_policyDenied m))
     @ single ''lykuro_pgw_rate_limited_total'' ''Rate-limited requests'' ''counter'' (word_str (mx_rateLimited m))
     @ single ''lykuro_pgw_auth_failures_total'' ''Authentication failures'' ''counter'' (word_str (mx_authFailures m))
     @ single ''lykuro_pgw_active_streams'' ''Currently open streaming responses'' ''gauge'' (int_str (mx_activeStreams m))
     @ single ''lykuro_pgw_config_version'' ''Applied signed-config generation'' ''gauge'' (int_str (mx_configVersion m))
     @ family ''lykuro_pgw_heartbeat_total'' ''Control-plane heartbeats by result'' ''counter''
     @ [''lykuro_pgw_heartbeat_total{result='' @ go_quote ''success'' @ ''} '' @ word_str (counter_of True (mx_heartbeats m)),
        ''lykuro_pgw_heartbeat_total{result='' @ go_quote ''failure'' @ ''} '' @ word_str (counter_of False (mx_heartbeats m))]
     @ family ''lykuro_pgw_workflow_runs_total'' ''Finished workflow runs by status'' ''counter''
     @ labelled ''lykuro_pgw_workflow_runs_total'' ''status'' (mx_workflowRuns m)
     @ single ''lykuro_pgw_workflow_fallback_total'' ''Workflow runs that used an approved fallback pool'' ''counter''
         (word_str (mx_workflowFallback m))"

definition metrics_text :: "(time \<Rightarrow> string) \<Rightarrow> string \<Rightarrow> metrics \<Rightarrow> string" where
  "metrics_text fmt_g version m = concat (map (\<lambda>l. l @ [CHR 0x0A]) (metrics_lines fmt_g version m))"

section \<open>Lemmas\<close>

text \<open>A histogram counts its observations: each bucket those within its bound.\<close>

lemma observe_simps [simp]:
  "hg_buckets (observe v h) = hg_buckets h" "hg_total (observe v h) = hg_total h + 1" "hg_sum (observe v h) = hg_sum h + v"
  by (simp_all add: observe_def)

definition histogram_of :: "time list \<Rightarrow> time list \<Rightarrow> histogram" where
  "histogram_of bs obs = fold observe obs (newHistogram bs)"

lemma map2_map_self: "map2 f xs (map g xs) = map (\<lambda>x. f x (g x)) xs"
  by (induction xs) simp_all

lemma histogram_counts:
  "histogram_of bs obs = \<lparr>hg_buckets = bs, hg_counts = map (\<lambda>b. of_nat (length (filter (\<lambda>v. v \<le> b) obs))) bs,
     hg_sum = sum_list obs, hg_total = of_nat (length obs)\<rparr>"
proof (induction obs rule: rev_induct)
  case Nil
  show ?case by (simp add: histogram_of_def newHistogram_def)
next
  case (snoc v obs)
  have "histogram_of bs (obs @ [v]) = observe v (histogram_of bs obs)" by (simp add: histogram_of_def)
  then show ?case unfolding snoc by (simp add: observe_def map2_map_self add.commute)
qed

lemma counter_of_add: "counter_of j (add_count k n m) = counter_of j m + (if j = k then n else 0)"
  by (simp add: add_count_def counter_of_def)

lemma counter_of_simps [simp]: "counter_of k [] = 0"
  by (simp add: counter_of_def)

lemma add_count_distinct: "distinct (map fst m) \<Longrightarrow> distinct (map fst (add_count k n m))"
  by (simp add: add_count_def alist_put_distinct)

lemma recordRequest_requests [simp]:
  "mx_requests (recordRequest ep st res md i u t m) = add_count (ep, int_str st) 1 (mx_requests m)"
  by (simp add: recordRequest_def count_result_def count_tokens_def observe_duration_def count_request_def)

lemma recordDenied_requests [simp]: "mx_requests (recordDenied ep st res m) = add_count (ep, int_str st) 1 (mx_requests m)"
  by (simp add: recordDenied_def count_request_def Let_def)

lemma stream_simps [simp]:
  "mx_requests (streamStarted t m) = mx_requests m" "mx_requests (streamEnded m) = mx_requests m"
  "mx_requests (recordWorkflowRun st fb m) = mx_requests m" "mx_requests (SetConfigVersion v m) = mx_requests m"
  "mx_requests (RecordHeartbeat ok m) = mx_requests m"
  by (simp_all add: streamStarted_def streamEnded_def recordWorkflowRun_def SetConfigVersion_def RecordHeartbeat_def)

text \<open>A stream that has ended leaves no trace in the gauge.\<close>

lemma stream_balance: "0 \<le> mx_activeStreams m \<Longrightarrow> mx_activeStreams (streamEnded (streamStarted t m)) = mx_activeStreams m"
  by (simp add: streamStarted_def streamEnded_def)

end
