(* ===== verification/GwServer.thy ===== *)
theory GwServer
  imports GwAuth GwUsage Metrics Contract
begin

text \<open>
  The gateway's HTTP service (\<open>gwcore/server.go\<close>) and its audit trail (\<open>gwcore/audit.go\<close>): the state,
  the reload of the configuration, the checks that every API request passes (\<open>withAuth\<close>), the
  listing of models and readiness.

  A request is the record of the headers the handlers read. An error response (\<open>writeAPIError\<close>) is
  a value; the text of its message is kept where it is fixed. Writing an audit
  line succeeds. \<open>hx\<close> is as in \<open>GwAuth\<close>, \<open>freshID\<close> the random request id.
\<close>

section \<open>State\<close>

record audit_record =
  ar_Timestamp :: time
  ar_RequestID :: string
  ar_GatewayID :: string
  ar_VirtualKeyID :: string
  ar_Endpoint :: string
  ar_LogicalModel :: string
  ar_PhysicalModel :: string
  ar_DataClass :: string
  ar_Routing :: string
  ar_Status :: int
  ar_Result :: string
  ar_Tokens :: usage
  ar_LatencyMS :: int
  ar_ContentLogged :: bool

record gw_server =
  sv_cfg :: gw_config
  sv_auth :: authenticator
  sv_audit :: "audit_record list"
  sv_usage :: usage_counter
  sv_platform :: bool
  sv_metrics :: metrics
  sv_onConfigApplied :: "(gw_config \<Rightarrow> bool) option"

definition NewServer :: "gw_config \<Rightarrow> gw_server" where
  "NewServer cfg = \<lparr>sv_cfg = cfg, sv_auth = NewAuthenticator cfg, sv_audit = [], sv_usage = newUsageCounter, sv_platform = False,
     sv_metrics = newMetrics, sv_onConfigApplied = None\<rparr>"

definition SetPlatformBackend :: "bool \<Rightarrow> gw_server \<Rightarrow> gw_server" where
  "SetPlatformBackend b s = s\<lparr>sv_platform := b\<rparr>"

text \<open>The hook that \<open>main\<close> registers rebuilds the platform for a configuration: the value says whether it
  installs a backend.\<close>

definition OnConfigApplied :: "(gw_config \<Rightarrow> bool) \<Rightarrow> gw_server \<Rightarrow> gw_server" where
  "OnConfigApplied fn s = s\<lparr>sv_onConfigApplied := Some fn\<rparr>"

definition SetConfig :: "gw_config \<Rightarrow> gw_server \<Rightarrow> gw_server" where
  "SetConfig cfg s =
     (let s1 = s\<lparr>sv_cfg := cfg, sv_auth := NewAuthenticator cfg\<rparr> in
      case sv_onConfigApplied s of None \<Rightarrow> s1 | Some hook \<Rightarrow> SetPlatformBackend (hook cfg) s1)"

definition platformBackend :: "gw_server \<Rightarrow> bool" where
  "platformBackend s \<longleftrightarrow> PlatformEnabled (sv_cfg s) \<and> sv_platform s"

definition Record :: "audit_record \<Rightarrow> gw_server \<Rightarrow> gw_server" where
  "Record r s = s\<lparr>sv_audit := sv_audit s @ [r\<lparr>ar_ContentLogged := False\<rparr>]\<rparr>"

section \<open>Requests and errors\<close>

record in_request =
  iq_RequestID :: string
  iq_Path :: string
  iq_Authorization :: string
  iq_DataClass :: string
  iq_RoutingMode :: string
  iq_Accept :: string
  iq_IdempotencyKey :: string
  iq_ConversationID :: string
  iq_ConversationVersion :: string
  iq_RetentionPolicy :: string
  iq_Body :: body
  iq_BodyLength :: int
  iq_BodyReadable :: bool

record api_error =
  ae_Status :: int
  ae_Code :: string
  ae_Message :: string
  ae_RetryAfter :: int

definition api_error :: "int \<Rightarrow> string \<Rightarrow> string \<Rightarrow> api_error" where
  "api_error status code message = \<lparr>ae_Status = status, ae_Code = code, ae_Message = message, ae_RetryAfter = 0\<rparr>"

definition api_error_type :: "string \<Rightarrow> string" where
  "api_error_type code =
     (if code = ''authentication_failed'' then ''authentication_error''
      else if code = ''policy_denied'' then ''policy_error''
      else if code = ''rate_limit_exceeded'' then ''rate_limit_error''
      else if code \<in> {''model_unavailable'', ''inference_timeout'', ''config_not_ready''} then ''service_error''
      else ''invalid_request_error'')"

definition writeAPIError :: "api_error \<Rightarrow> string \<Rightarrow> json" where
  "writeAPIError e reqID =
     JObj [(''error'', JObj [(''code'', JStr (ae_Code e)), (''message'', JStr (ae_Message e)), (''request_id'', JStr reqID),
                             (''type'', JStr (api_error_type (ae_Code e)))])]"

definition ensureRequestID :: "string \<Rightarrow> in_request \<Rightarrow> in_request" where
  "ensureRequestID freshID r =
     (if iq_RequestID r = [] \<or> length (iq_RequestID r) > 128 then r\<lparr>iq_RequestID := freshID\<rparr> else r)"

definition auditDenied :: "time \<Rightarrow> in_request \<Rightarrow> virtual_key option \<Rightarrow> int \<Rightarrow> string \<Rightarrow> gw_server \<Rightarrow> gw_server" where
  "auditDenied now r key status result s =
     (Record \<lparr>ar_Timestamp = now, ar_RequestID = iq_RequestID r, ar_GatewayID = gs_ID (gc_Gateway (sv_cfg s)),
       ar_VirtualKeyID = (case key of None \<Rightarrow> [] | Some k \<Rightarrow> vk_ID k), ar_Endpoint = iq_Path r, ar_LogicalModel = [],
       ar_PhysicalModel = [], ar_DataClass = iq_DataClass r, ar_Routing = ''local-only'', ar_Status = status, ar_Result = result,
       ar_Tokens = no_usage, ar_LatencyMS = 0, ar_ContentLogged = False\<rparr> s)
       \<lparr>sv_metrics := recordDenied (iq_Path r) status result (sv_metrics s)\<rparr>"

definition auditProxy ::
  "time \<Rightarrow> int \<Rightarrow> in_request \<Rightarrow> virtual_key \<Rightarrow> string \<Rightarrow> string \<Rightarrow> string \<Rightarrow> int \<Rightarrow> string \<Rightarrow> usage \<Rightarrow> gw_server \<Rightarrow> gw_server" where
  "auditProxy now latency r key logical physical routing status result toks s =
     (Record \<lparr>ar_Timestamp = now, ar_RequestID = iq_RequestID r, ar_GatewayID = gs_ID (gc_Gateway (sv_cfg s)),
       ar_VirtualKeyID = vk_ID key, ar_Endpoint = iq_Path r, ar_LogicalModel = logical, ar_PhysicalModel = physical,
       ar_DataClass = iq_DataClass r, ar_Routing = routing, ar_Status = status, ar_Result = result, ar_Tokens = toks,
       ar_LatencyMS = latency div msec, ar_ContentLogged = False\<rparr> s)
       \<lparr>sv_metrics := recordRequest (iq_Path r) status result logical (InputTokens toks) (OutputTokens toks) latency (sv_metrics s)\<rparr>"

text \<open>A stream of the response: its start is counted and, when the handler returns, its end.\<close>

definition stream_started :: "time \<Rightarrow> gw_server \<Rightarrow> gw_server" where
  "stream_started ttft s = s\<lparr>sv_metrics := streamStarted ttft (sv_metrics s)\<rparr>"

definition stream_ended :: "gw_server \<Rightarrow> gw_server" where
  "stream_ended s = s\<lparr>sv_metrics := streamEnded (sv_metrics s)\<rparr>"

text \<open>\<open>/metrics\<close> and its copy in the admin interface.\<close>

definition handleMetrics :: "(time \<Rightarrow> string) \<Rightarrow> string \<Rightarrow> gw_server \<Rightarrow> string" where
  "handleMetrics fmt_g version s = metrics_text fmt_g version (sv_metrics s)"

section \<open>The checks of every request\<close>

definition withAuth ::
  "(string \<Rightarrow> string) \<Rightarrow> string \<Rightarrow> time \<Rightarrow> in_request \<Rightarrow> gw_server \<Rightarrow> (api_error + virtual_key \<times> in_request) \<times> gw_server" where
  "withAuth hx freshID now r0 s =
     (let r = ensureRequestID freshID r0 in
      case Authenticate hx (sv_auth s) (iq_Authorization r) of
        None \<Rightarrow> (Inl (api_error 401 ''authentication_failed'' ''invalid or missing virtual key''),
                 auditDenied now r None 401 ''authentication_failed'' s)
      | Some key \<Rightarrow>
          (let (ok, a) = CheckRate key now (sv_auth s); s1 = s\<lparr>sv_auth := a\<rparr> in
           if \<not> ok then
             (Inl ((api_error 429 ''rate_limit_exceeded'' ''requests per minute limit exceeded'')\<lparr>ae_RetryAfter := 60\<rparr>),
              auditDenied now r (Some key) 429 ''rate_limit_exceeded'' s1)
           else if iq_DataClass r \<noteq> [] \<and> \<not> DataClassAllowed (sv_cfg s1) (iq_DataClass r) then
             (Inl (api_error 403 ''policy_denied'' ''declared data class is not allowed on this gateway''),
              auditDenied now r (Some key) 403 ''policy_denied'' s1)
           else if iq_RoutingMode r = ''hybrid'' \<and> StrictLocal (sv_cfg s1) then
             (Inl (api_error 403 ''policy_denied'' ''hybrid routing is disabled (strict local mode)''),
              auditDenied now r (Some key) 403 ''policy_denied'' s1)
           else (Inr (key, r), s1)))"

text \<open>\<open>/v1/models\<close>: the logical models a key may use; \<open>listed\<close> are those of the platform.\<close>

definition handleModels :: "model_info list \<Rightarrow> virtual_key \<Rightarrow> gw_server \<Rightarrow> string list" where
  "handleModels listed key s =
     filter (AllowsModel key)
       (if platformBackend s then map Contract.LogicalName listed else map md_LogicalName (gc_Models (sv_cfg s)))"

text \<open>\<open>ping\<close> is \<open>pingRuntime\<close> of an endpoint.\<close>

definition RuntimeHealthy :: "(string \<Rightarrow> bool) \<Rightarrow> gw_server \<Rightarrow> bool" where
  "RuntimeHealthy ping s \<longleftrightarrow> list_ex (\<lambda>m. list_ex (\<lambda>t. ping (mt_Endpoint t)) (Targets m)) (gc_Models (sv_cfg s))"

definition handleReady :: "(string \<Rightarrow> bool) \<Rightarrow> gw_server \<Rightarrow> int \<times> (string \<times> bool) list" where
  "handleReady ping s =
     (let models = map (\<lambda>m. (md_LogicalName m, list_ex (\<lambda>t. ping (mt_Endpoint t)) (Targets m))) (gc_Models (sv_cfg s))
      in (if list_ex snd models then 200 else 503, models))"

section \<open>Lemmas\<close>

lemma SetConfig_simps [simp]:
  "sv_cfg (SetConfig cfg s) = cfg" "sv_auth (SetConfig cfg s) = NewAuthenticator cfg" "sv_audit (SetConfig cfg s) = sv_audit s"
  "sv_usage (SetConfig cfg s) = sv_usage s" "sv_metrics (SetConfig cfg s) = sv_metrics s"
  "sv_onConfigApplied (SetConfig cfg s) = sv_onConfigApplied s"
  "sv_platform (SetConfig cfg s) = (case sv_onConfigApplied s of None \<Rightarrow> sv_platform s | Some hook \<Rightarrow> hook cfg)"
  by (simp_all add: SetConfig_def SetPlatformBackend_def Let_def split: option.split)

lemma audit_simps [simp]:
  "sv_cfg (Record rec s) = sv_cfg s" "sv_auth (Record rec s) = sv_auth s" "sv_usage (Record rec s) = sv_usage s"
  "sv_platform (Record rec s) = sv_platform s" "sv_metrics (Record rec s) = sv_metrics s"
  "sv_cfg (auditDenied now r key st res s) = sv_cfg s" "sv_auth (auditDenied now r key st res s) = sv_auth s"
  "sv_usage (auditDenied now r key st res s) = sv_usage s" "sv_platform (auditDenied now r key st res s) = sv_platform s"
  "sv_cfg (auditProxy now lat r k lg ph rt st' res toks s) = sv_cfg s" "sv_auth (auditProxy now lat r k lg ph rt st' res toks s) = sv_auth s"
  "sv_usage (auditProxy now lat r k lg ph rt st' res toks s) = sv_usage s"
  "sv_platform (auditProxy now lat r k lg ph rt st' res toks s) = sv_platform s"
  by (simp_all add: Record_def auditDenied_def auditProxy_def)

lemma stream_server_simps [simp]:
  "sv_cfg (stream_started t s) = sv_cfg s" "sv_auth (stream_started t s) = sv_auth s" "sv_usage (stream_started t s) = sv_usage s"
  "sv_platform (stream_started t s) = sv_platform s" "sv_audit (stream_started t s) = sv_audit s"
  "sv_cfg (stream_ended s) = sv_cfg s" "sv_auth (stream_ended s) = sv_auth s" "sv_usage (stream_ended s) = sv_usage s"
  "sv_platform (stream_ended s) = sv_platform s" "sv_audit (stream_ended s) = sv_audit s"
  by (simp_all add: stream_started_def stream_ended_def)

text \<open>What a request that passed the checks has.\<close>

lemma withAuth_Inr:
  assumes "withAuth hx freshID now r0 s = (Inr (key, r), s1)"
  shows "r = ensureRequestID freshID r0" and "Authenticate hx (sv_auth s) (iq_Authorization r0) = Some key"
    and "iq_DataClass r0 = [] \<or> DataClassAllowed (sv_cfg s) (iq_DataClass r0)"
    and "iq_RoutingMode r0 = ''hybrid'' \<longrightarrow> \<not> StrictLocal (sv_cfg s)"
    and "sv_cfg s1 = sv_cfg s" and "sv_platform s1 = sv_platform s" and "au_byHash (sv_auth s1) = au_byHash (sv_auth s)"
    and "r = ensureRequestID freshID r0 \<Longrightarrow> iq_DataClass r = iq_DataClass r0"
    and "sv_audit s1 = sv_audit s" and "sv_usage s1 = sv_usage s"
  using assms
  by (auto simp: withAuth_def Let_def ensureRequestID_def CheckRate_def split: option.splits prod.splits if_splits)

text \<open>The bearer of a request that passed is an enabled key of the configuration.\<close>

lemma withAuth_key:
  assumes "sv_auth s = NewAuthenticator (sv_cfg s)" and "withAuth hx freshID now r0 s = (Inr (key, r), s1)"
  shows "key \<in> set (gc_VirtualKeys (sv_cfg s)) \<and> \<not> vk_Disabled key \<and> vk_KeyHash key = hx (BearerToken (iq_Authorization r0))"
proof -
  have "List.find (\<lambda>k. vk_KeyHash k = hx (BearerToken (iq_Authorization r0))) (rev (gc_VirtualKeys (sv_cfg s))) = Some key
      \<and> \<not> vk_Disabled key"
    using withAuth_Inr(2) [OF assms(2)] assms(1) by (simp add: Authenticate_Some)
  then show ?thesis using find_Some_iff_first by force
qed

text \<open>A request that was refused leaves one audit line with the status it was answered with.\<close>

lemma withAuth_Inl:
  "withAuth hx freshID now r0 s = (Inl e, s1) \<Longrightarrow>
     sv_usage s1 = sv_usage s \<and> sv_cfg s1 = sv_cfg s
     \<and> (\<exists>rec. sv_audit s1 = sv_audit s @ [rec] \<and> ar_Status rec = ae_Status e \<and> ar_Result rec = ae_Code e \<and> \<not> ar_ContentLogged rec)"
  by (auto simp: withAuth_def Let_def auditDenied_def Record_def api_error_def split: option.splits prod.splits if_splits)

text \<open>A reload forgets the rate windows.\<close>

lemma reload_forgets_windows: "au_rl (sv_auth (SetConfig cfg s)) = Map.empty"
  by (simp add: NewAuthenticator_def)

end
