(* ===== verification/GwProxy.thy ===== *)
theory GwProxy
  imports GwServer Connector
begin

text \<open>
  The transparent proxy of the gateway (\<open>gwcore/proxy.go\<close>): reading the request, the checks of model,
  key and tools, the attempts (local candidates, then the approved cloud when the request is
  eligible), the failover loop, the copying of the response and its accounting.

  The network, the file of the cloud key, the URL check and the clock are arguments (\<open>proxy_env\<close>);
  \<open>W\<close> is the client's response writer. A log collects the requests that are sent.
\<close>

section \<open>Reading the request\<close>

text \<open>The members of the body, as \<open>map[string]json.RawMessage\<close>.\<close>

definition payload_of :: "body \<Rightarrow> (string \<times> json) list option" where
  "payload_of b = unmarshal (dec_map Some []) b"

definition read_payload :: "gw_config \<Rightarrow> in_request \<Rightarrow> api_error + (string \<times> json) list" where
  "read_payload cfg r =
     (if \<not> iq_BodyReadable r then Inl (api_error 400 ''invalid_request'' ''failed to read request body'')
      else if iq_BodyLength r > gs_MaxRequestBytes (gc_Gateway cfg) then Inl (api_error 400 ''invalid_request'' ''request body too large'')
      else case payload_of (iq_Body r) of
        None \<Rightarrow> Inl (api_error 400 ''invalid_request'' ''request body must be JSON'')
      | Some p \<Rightarrow> Inr p)"

definition logical_model :: "(string \<times> json) list \<Rightarrow> string" where
  "logical_model p =
     (case map_of p ''model'' of None \<Rightarrow> [] | Some raw \<Rightarrow> (case dec_string [] raw of None \<Rightarrow> [] | Some m \<Rightarrow> m))"

definition has_tools :: "(string \<times> json) list \<Rightarrow> bool" where
  "has_tools p \<longleftrightarrow> list_ex (\<lambda>f. map_of p f \<noteq> None) [''tools'', ''tool_choice'', ''functions'', ''function_call'']"

definition is_streaming :: "(string \<times> json) list \<Rightarrow> bool" where
  "is_streaming p =
     (case map_of p ''stream'' of None \<Rightarrow> False | Some raw \<Rightarrow> (case dec_bool False raw of None \<Rightarrow> False | Some b \<Rightarrow> b))"

section \<open>Attempts\<close>

record upstream_target =
  ut_endpoint :: string
  ut_model :: string
  ut_auth :: string
  ut_routing :: string

definition local_attempts :: "model_def \<Rightarrow> upstream_target list" where
  "local_attempts def =
     map (\<lambda>t. \<lparr>ut_endpoint = mt_Endpoint t, ut_model = mt_PhysicalModel t, ut_auth = [], ut_routing = ''local''\<rparr>) (Targets def)"

definition cloud_attempt :: "(string \<Rightarrow> string option) \<Rightarrow> gw_config \<Rightarrow> model_def \<Rightarrow> in_request \<Rightarrow> upstream_target list" where
  "cloud_attempt files cfg def r =
     (if CloudEligible cfg def (iq_DataClass r) (iq_RoutingMode r) then
        (case (files (hs_APIKeyFile (gc_Hybrid cfg)), md_CloudFallback def) of
           (Some cred, Some cl) \<Rightarrow> [\<lparr>ut_endpoint = hs_Endpoint (gc_Hybrid cfg), ut_model = cl_Model cl,
                                     ut_auth = trim_space cred, ut_routing = ''hybrid-cloud''\<rparr>]
         | _ \<Rightarrow> [])
      else [])"

text \<open>The upstream request: the body with the physical model, printed with sorted keys.\<close>

definition upstream_request :: "string \<Rightarrow> in_request \<Rightarrow> (string \<times> json) list \<Rightarrow> upstream_target \<Rightarrow> http_request" where
  "upstream_request upstreamPath r p tg =
     \<lparr>hq_Method = ''POST'', hq_URL = ut_endpoint tg @ upstreamPath,
      hq_Headers = [(''Content-Type'', ''application/json''), (''X-Request-ID'', iq_RequestID r)]
        @ (if ut_auth tg \<noteq> [] then [(''Authorization'', ''Bearer '' @ ut_auth tg)] else [])
        @ (if iq_Accept r \<noteq> [] then [(''Accept'', iq_Accept r)] else []),
      hq_Body = Doc (JObj (sort_key fst (alist_put ''model'' (JStr (ut_model tg)) p)))\<rparr>"

datatype last_error = TimedOut | Unreachable | Was503

datatype upstream = BuildFailed | NoResponse "last_error option" | Responded upstream_target http_response

fun try_attempts ::
  "(string \<Rightarrow> bool) \<Rightarrow> (nat \<Rightarrow> http_request \<Rightarrow> http_result) \<Rightarrow> (upstream_target \<Rightarrow> http_request) \<Rightarrow> nat \<Rightarrow> upstream_target list
     \<Rightarrow> last_error option \<Rightarrow> upstream \<times> (upstream_target \<times> http_request) list" where
  "try_attempts url_ok http mk n [] err = (NoResponse err, [])"
| "try_attempts url_ok http mk n (tg # tgs) err =
     (let rq = mk tg in
      if \<not> url_ok (hq_URL rq) then (BuildFailed, [])
      else case http n rq of
        TransportError True \<Rightarrow> (NoResponse (Some TimedOut), [(tg, rq)])
      | TransportError False \<Rightarrow>
          (let (u, lg) = try_attempts url_ok http mk (Suc n) tgs (Some Unreachable) in (u, (tg, rq) # lg))
      | Answer resp \<Rightarrow>
          if hp_StatusCode resp = 503 \<and> tgs \<noteq> [] then
            (let (u, lg) = try_attempts url_ok http mk (Suc n) tgs (Some Was503) in (u, (tg, rq) # lg))
          else (Responded tg resp, [(tg, rq)]))"

text \<open>The status and code when there is no response.\<close>

definition upstreamFailure :: "last_error option \<Rightarrow> api_error" where
  "upstreamFailure err =
     (case err of
        None \<Rightarrow> api_error 503 ''model_unavailable'' ''no runtime candidate available''
      | Some TimedOut \<Rightarrow> api_error 504 ''inference_timeout'' ''inference did not complete in time''
      | Some _ \<Rightarrow> api_error 503 ''model_unavailable'' ''runtime is unreachable'')"

section \<open>The handler\<close>

record proxy_env =
  px_parse :: "string \<Rightarrow> body"
  px_url_ok :: "string \<Rightarrow> bool"
  px_http :: "nat \<Rightarrow> http_request \<Rightarrow> http_result"
  px_file :: "string \<Rightarrow> string option"
  px_date :: string
  px_now :: time
  px_latency :: int
  px_ttft :: time

text \<open>\<open>streamAndSniff\<close>: the loop is that of the connector's stream.\<close>

definition streamAndSniff :: "(string \<Rightarrow> body) \<Rightarrow> 'w stream_ops \<Rightarrow> string \<Rightarrow> 'w \<Rightarrow> usage \<times> 'w" where
  "streamAndSniff parse W b w = (let (x, w') = copy_lines parse W (scan_lines b) no_usage w in (so_Usage x, w'))"

definition pass_response ::
  "proxy_env \<Rightarrow> 'w stream_ops \<Rightarrow> bool \<Rightarrow> http_response \<Rightarrow> 'w \<Rightarrow> bool \<times> usage \<times> 'w" where
  "pass_response e W streaming resp w =
     (let w1 = so_Start W (hp_StatusCode resp) (hp_ContentType resp) w in
      if streaming \<and> has_prefix (hp_ContentType resp) ''text/event-stream'' then
        (let (u, w2) = streamAndSniff (px_parse e) W (hp_Body resp) w1 in (False, u, w2))
      else if hp_ReadErr resp then (True, no_usage, w1)
      else (False, SniffUsage (px_parse e (hp_Body resp)), snd (so_Chunk W (hp_Body resp) w1)))"

text \<open>The metrics of a response that is passed on as a stream.\<close>

definition count_stream :: "proxy_env \<Rightarrow> bool \<Rightarrow> http_response \<Rightarrow> gw_server \<Rightarrow> gw_server" where
  "count_stream e streaming resp s =
     (if streaming \<and> has_prefix (hp_ContentType resp) ''text/event-stream'' then stream_ended (stream_started (px_ttft e) s) else s)"

definition proxy_result :: "bool \<Rightarrow> int \<Rightarrow> string" where
  "proxy_result bodyError status =
     (if bodyError then ''upstream_body_error'' else if status \<ge> 400 then ''upstream_'' @ int_str status else ''success'')"

text \<open>The checks before anything is sent.\<close>

definition check_proxy :: "gw_config \<Rightarrow> virtual_key \<Rightarrow> (string \<times> json) list \<Rightarrow> (string \<times> api_error) + model_def" where
  "check_proxy cfg key p =
     (let logical = logical_model p in
      case FindModelDef cfg logical of
        None \<Rightarrow> Inl (''model_not_found'', api_error 404 ''invalid_request'' (''unknown model '' @ logical))
      | Some def \<Rightarrow>
          if \<not> AllowsModel key logical then
            Inl (''policy_denied'', api_error 403 ''policy_denied'' ''the requested model is not allowed for this key'')
          else if has_tools p \<and> \<not> key_ToolsAllowed key then
            Inl (''policy_denied'', api_error 403 ''policy_denied'' ''tool use is not allowed for this key'')
          else Inr def)"

definition proxyRequest ::
  "proxy_env \<Rightarrow> 'w stream_ops \<Rightarrow> in_request \<Rightarrow> virtual_key \<Rightarrow> string \<Rightarrow> gw_server \<Rightarrow> 'w
     \<Rightarrow> api_error option \<times> gw_server \<times> 'w \<times> (upstream_target \<times> http_request) list" where
  "proxyRequest e W r key upstreamPath s w =
     (let cfg = sv_cfg s; audit = auditProxy (px_now e) (px_latency e) r key in
      case read_payload cfg r of
        Inl err \<Rightarrow> (Some err, s, w, [])
      | Inr p \<Rightarrow>
          (let logical = logical_model p in
           if logical = [] then (Some (api_error 400 ''invalid_request'' ''model is required''), s, w, [])
           else case check_proxy cfg key p of
             Inl (result, err) \<Rightarrow> (Some err, audit logical [] ''local'' (ae_Status err) result no_usage s, w, [])
           | Inr def \<Rightarrow>
               (case try_attempts (px_url_ok e) (px_http e) (upstream_request upstreamPath r p) 0
                       (local_attempts def @ cloud_attempt (px_file e) cfg def r) None of
                  (BuildFailed, lg) \<Rightarrow> (Some (api_error 500 ''server_error'' ''failed to build upstream request''), s, w, lg)
                | (NoResponse err, lg) \<Rightarrow>
                    (let ae = upstreamFailure err
                     in (Some ae, audit logical (md_PhysicalModel def) ''local'' (ae_Status ae) (ae_Code ae) no_usage s, w, lg))
                | (Responded used resp, lg) \<Rightarrow>
                    (let (bodyError, toks, w') = pass_response e W (is_streaming p) resp w;
                         s0 = count_stream e (is_streaming p) resp s;
                         s1 = s0\<lparr>sv_usage := add_usage (px_date e) logical (InputTokens toks) (OutputTokens toks)
                                  (bodyError \<or> hp_StatusCode resp \<ge> 400) (sv_usage s0)\<rparr>
                     in (None, audit logical (ut_model used) (ut_routing used) (hp_StatusCode resp)
                                 (proxy_result bodyError (hp_StatusCode resp)) toks s1, w', lg)))))"

section \<open>Lemmas\<close>

lemma count_stream_simps [simp]:
  "sv_cfg (count_stream e st resp s) = sv_cfg s" "sv_auth (count_stream e st resp s) = sv_auth s"
  "sv_usage (count_stream e st resp s) = sv_usage s" "sv_platform (count_stream e st resp s) = sv_platform s"
  "sv_audit (count_stream e st resp s) = sv_audit s" "mx_requests (sv_metrics (count_stream e st resp s)) = mx_requests (sv_metrics s)"
  by (simp_all add: count_stream_def stream_started_def stream_ended_def)

text \<open>The outcomes after which the loop goes on to the next target.\<close>

definition passes_on :: "http_result \<Rightarrow> bool" where
  "passes_on x \<longleftrightarrow> (case x of TransportError t \<Rightarrow> \<not> t | Answer resp \<Rightarrow> hp_StatusCode resp = 503)"

lemma try_attempts_cases:
  assumes "try_attempts url_ok http mk n (tg # tgs) err = (u, lg)"
  obtains (built) "u = BuildFailed" "lg = []"
  | (passed) err' lg' where "passes_on (http n (mk tg))" "try_attempts url_ok http mk (Suc n) tgs err' = (u, lg')" "lg = (tg, mk tg) # lg'"
  | (answered) resp where "u = Responded tg resp" "lg = [(tg, mk tg)]" "http n (mk tg) = Answer resp"
  | (timeout) "u = NoResponse (Some TimedOut)" "lg = [(tg, mk tg)]"
proof (cases "url_ok (hq_URL (mk tg))")
  case False
  then show thesis using assms built by (simp add: Let_def)
next
  case True
  show thesis
  proof (cases "http n (mk tg)")
    case (TransportError t)
    then show thesis using assms True passed timeout by (cases t) (auto simp: Let_def passes_on_def split: prod.splits)
  next
    case (Answer resp)
    then show thesis
      using assms True passed answered by (cases "hp_StatusCode resp = 503 \<and> tgs \<noteq> []") (auto simp: Let_def passes_on_def split: prod.splits)
  qed
qed

text \<open>What the log shows: a prefix of the targets in order; all but the last were passed on.\<close>

lemma try_attempts_log:
  "try_attempts url_ok http mk n tgs err = (u, lg) \<Longrightarrow>
     prefix (map fst lg) tgs \<and> list_all (\<lambda>(tg, rq). rq = mk tg) lg
     \<and> (\<forall>i < length lg - 1. passes_on (http (n + i) (snd (lg ! i))))
     \<and> (\<forall>tg resp. u = Responded tg resp \<longrightarrow> lg \<noteq> [] \<and> fst (last lg) = tg
          \<and> http (n + length lg - 1) (snd (last lg)) = Answer resp)"
proof (induction tgs arbitrary: n err u lg)
  case (Cons tg tgs)
  from Cons.prems show ?case
  proof (cases rule: try_attempts_cases)
    case (passed err' lg')
    have "passes_on (http (n + i) (snd (lg ! i)))" if "i < length lg - 1" for i
      using that Cons.IH [OF passed(2)] passed by (cases i) auto
    then show ?thesis using Cons.IH [OF passed(2)] passed by auto
  qed auto
qed simp

lemma cloud_attempt_eligible:
  assumes "tg \<in> set (cloud_attempt files cfg def r)"
  shows "CloudEligible cfg def (iq_DataClass r) (iq_RoutingMode r)" and "ut_endpoint tg = hs_Endpoint (gc_Hybrid cfg)"
proof -
  show e: "CloudEligible cfg def (iq_DataClass r) (iq_RoutingMode r)"
    using assms by (cases "CloudEligible cfg def (iq_DataClass r) (iq_RoutingMode r)") (simp_all add: cloud_attempt_def)
  then have "tg \<in> set (case (files (hs_APIKeyFile (gc_Hybrid cfg)), md_CloudFallback def) of
      (Some cred, Some cl) \<Rightarrow> [\<lparr>ut_endpoint = hs_Endpoint (gc_Hybrid cfg), ut_model = cl_Model cl,
         ut_auth = trim_space cred, ut_routing = ''hybrid-cloud''\<rparr>] | _ \<Rightarrow> [])"
    using assms by (simp add: cloud_attempt_def)
  then show "ut_endpoint tg = hs_Endpoint (gc_Hybrid cfg)"
    by (cases "files (hs_APIKeyFile (gc_Hybrid cfg))"; cases "md_CloudFallback def") simp_all
qed

lemma local_attempts_target:
  "tg \<in> set (local_attempts def) \<Longrightarrow> ut_auth tg = [] \<and> ut_routing tg = ''local''
     \<and> (\<exists>t \<in> set (Targets def). ut_endpoint tg = mt_Endpoint t \<and> ut_model tg = mt_PhysicalModel t)"
  by (auto simp: local_attempts_def)

lemma proxy_sends:
  assumes "proxyRequest e W r key path s w = (res, s', w', lg)" and "lg \<noteq> []"
  obtains p def u where "read_payload (sv_cfg s) r = Inr p" and "check_proxy (sv_cfg s) key p = Inr def"
    and "try_attempts (px_url_ok e) (px_http e) (upstream_request path r p) 0
          (local_attempts def @ cloud_attempt (px_file e) (sv_cfg s) def r) None = (u, lg)"
proof -
  obtain p where p: "read_payload (sv_cfg s) r = Inr p"
    using assms by (cases "read_payload (sv_cfg s) r") (auto simp: proxyRequest_def Let_def)
  obtain def where d: "check_proxy (sv_cfg s) key p = Inr def"
    using assms p by (cases "check_proxy (sv_cfg s) key p") (auto simp: proxyRequest_def Let_def split: if_splits)
  obtain u lg' where t: "try_attempts (px_url_ok e) (px_http e) (upstream_request path r p) 0
      (local_attempts def @ cloud_attempt (px_file e) (sv_cfg s) def r) None = (u, lg')" by (metis surj_pair)
  have "lg' = lg" using assms p d t by (auto simp: proxyRequest_def Let_def split: if_splits upstream.splits prod.splits)
  then show thesis using that p d t by blast
qed

lemma check_proxy_Inr:
  "check_proxy cfg key p = Inr def \<longleftrightarrow> FindModelDef cfg (logical_model p) = Some def \<and> AllowsModel key (logical_model p)
     \<and> (has_tools p \<longrightarrow> key_ToolsAllowed key)"
  by (auto simp: check_proxy_def Let_def split: option.splits if_splits)

text \<open>Where a request of the proxy may go.\<close>

definition may_leave :: "gw_config \<Rightarrow> in_request \<Rightarrow> model_def \<Rightarrow> bool" where
  "may_leave cfg r def \<longleftrightarrow> \<not> StrictLocal cfg \<and> hs_Enabled (gc_Hybrid cfg) \<and> md_CloudFallback def \<noteq> None
     \<and> iq_DataClass r \<in> {''public'', ''internal''} \<and> iq_RoutingMode r \<noteq> ''local-only''"

lemma sent_to:
  assumes "Validate_gateway urlp c = Inr (sv_cfg s)" and "proxyRequest e W r key path s w = (res, s', w', lg)" and "(tg, rq) \<in> set lg"
  shows "\<exists>p def. read_payload (sv_cfg s) r = Inr p \<and> FindModelDef (sv_cfg s) (logical_model p) = Some def
    \<and> AllowsModel key (logical_model p) \<and> rq = upstream_request path r p tg
    \<and> ((\<exists>t \<in> set (Targets def). ut_endpoint tg = mt_Endpoint t \<and> ut_auth tg = [])
       \<or> ut_endpoint tg = hs_Endpoint (gc_Hybrid (sv_cfg s)) \<and> may_leave (sv_cfg s) r def)"
proof -
  have "lg \<noteq> []" using assms(3) by auto
  then obtain p def u where p: "read_payload (sv_cfg s) r = Inr p" "check_proxy (sv_cfg s) key p = Inr def"
    "try_attempts (px_url_ok e) (px_http e) (upstream_request path r p) 0
        (local_attempts def @ cloud_attempt (px_file e) (sv_cfg s) def r) None = (u, lg)"
    using proxy_sends [OF assms(2)] by blast
  note l = try_attempts_log [OF p(3)]
  have "tg \<in> set (local_attempts def @ cloud_attempt (px_file e) (sv_cfg s) def r)"
    using l assms(3) set_mono_prefix [of "map fst lg"] by (metis fst_conv image_eqI list.set_map subsetD)
  then consider "tg \<in> set (local_attempts def)" | "tg \<in> set (cloud_attempt (px_file e) (sv_cfg s) def r)" by auto
  then have "(\<exists>t \<in> set (Targets def). ut_endpoint tg = mt_Endpoint t \<and> ut_auth tg = [])
      \<or> ut_endpoint tg = hs_Endpoint (gc_Hybrid (sv_cfg s)) \<and> may_leave (sv_cfg s) r def"
  proof cases
    case 1
    then show ?thesis using local_attempts_target by blast
  next
    case 2
    note el = cloud_attempt_eligible [OF 2]
    have "may_leave (sv_cfg s) r def"
      using el(1) cloud_choice(3,4,5) [OF assms(1) el(1)] by (simp add: may_leave_def CloudEligible_def split: if_splits)
    then show ?thesis using el(2) by blast
  qed
  moreover have "rq = upstream_request path r p tg" using l assms(3) by (auto simp: list_all_iff)
  ultimately show ?thesis using p(1,2) unfolding check_proxy_Inr by blast
qed


section \<open>Example\<close>

text \<open>A hybrid gateway with one model, one key and an approved cloud.\<close>

definition demo_key :: virtual_key where
  "demo_key = \<lparr>vk_ID = ''k1'', vk_Name = [], vk_KeyHash = replicate 64 CHR ''0'', vk_AllowedModels = [''chat''], vk_RPMLimit = 0,
     vk_Disabled = False, vk_AllowTools = None\<rparr>"

definition demo_gateway :: gw_config where
  "demo_gateway = \<lparr>gc_SchemaVersion = ''1'',
     gc_Gateway = \<lparr>gs_ID = ''gw'', gs_Listen = [], gs_StrictLocalMode = Some False,
       gs_AllowedDataClasses = [''public'', ''internal'', ''confidential''], gs_MaxRequestBytes = 0\<rparr>,
     gc_VirtualKeys = [demo_key],
     gc_Models = [\<lparr>md_LogicalName = ''chat'', md_Runtime = ''vllm'', md_Endpoint = ''http://10.0.0.1:8000'', md_PhysicalModel = ''llama'',
       md_Fallback = [], md_CloudFallback = Some \<lparr>cl_Model = ''lykuro/chat''\<rparr>\<rparr>],
     gc_AuditPath = [],
     gc_Hybrid = \<lparr>hs_Enabled = True, hs_Endpoint = ''https://cloud'', hs_APIKeyFile = ''key'', hs_AllowedDataClasses = [''public'']\<rparr>,
     gc_Platform = None\<rparr>"

definition demo_gw_urlp :: "string \<Rightarrow> (string \<times> string) option" where
  "demo_gw_urlp u = (if u = ''https://cloud'' then Some (''https'', ''cloud'') else Some (''http'', ''10.0.0.1:8000''))"

definition demo_server :: gw_server where
  "demo_server = NewServer (gw_with_defaults demo_gateway)"

definition demo_in :: "string \<Rightarrow> in_request" where
  "demo_in dc = \<lparr>iq_RequestID = ''q1'', iq_Path = ''/v1/chat/completions'', iq_Authorization = ''Bearer lkpgw_secret'', iq_DataClass = dc,
     iq_RoutingMode = [], iq_Accept = [], iq_IdempotencyKey = [], iq_ConversationID = [], iq_ConversationVersion = [],
     iq_RetentionPolicy = [], iq_Body = Doc (JObj [(''model'', JStr ''chat'')]), iq_BodyLength = 16, iq_BodyReadable = True\<rparr>"

text \<open>The local runtime cannot be reached, the cloud does not answer in time.\<close>

definition demo_proxy_env :: proxy_env where
  "demo_proxy_env = \<lparr>px_parse = Bytes, px_url_ok = (\<lambda>_. True), px_http = (\<lambda>n _. TransportError (n = 1)), px_file = (\<lambda>_. Some ''secret''),
     px_date = ''2026-01-01'', px_now = 5, px_latency = 7, px_ttft = 3\<rparr>"

definition demo_hash :: "string \<Rightarrow> string" where
  "demo_hash _ = replicate 64 CHR ''0''"

lemma demo_gateway_valid: "Validate_gateway demo_gw_urlp demo_gateway = Inr (gw_with_defaults demo_gateway)"
  by code_simp

lemma demo_cfg [simp]: "sv_cfg demo_server = gw_with_defaults demo_gateway"
  by (simp add: demo_server_def NewServer_def)

abbreviation demo_proxy :: "string \<Rightarrow> api_error option \<times> gw_server \<times> http_writer \<times> (upstream_target \<times> http_request) list" where
  "demo_proxy dc \<equiv> proxyRequest demo_proxy_env http_ops (demo_in dc) demo_key ''/v1/chat/completions'' demo_server demo_client"

section \<open>Properties\<close>

text \<open>C3: Confidential data stays local: unless the configuration turned strict local mode off and hybrid on,
  the request declares the class public or internal and does not ask for local routing, every
  request the proxy sends goes to a runtime that is configured for the requested model, and carries
  no cloud credential.\<close>

theorem confidential_data_stays_local:
  assumes "Validate_gateway urlp c = Inr (sv_cfg s)"
    and "gs_StrictLocalMode (gc_Gateway c) \<noteq> Some False \<or> \<not> hs_Enabled (gc_Hybrid c)
      \<or> iq_DataClass r \<notin> {''public'', ''internal''} \<or> iq_RoutingMode r = ''local-only''"
    and "proxyRequest e W r key path s w = (res, s', w', lg)"
  shows "list_all (\<lambda>(tg, rq). \<exists>def \<in> set (gc_Models c). \<exists>t \<in> set (Targets def).
      hq_URL rq = mt_Endpoint t @ path \<and> ''Authorization'' \<notin> fst ` set (hq_Headers rq)) lg"
  unfolding list_all_iff
proof (intro ballI, clarify)
  fix tg rq assume m: "(tg, rq) \<in> set lg"
  obtain p def where d: "FindModelDef (sv_cfg s) (logical_model p) = Some def" "rq = upstream_request path r p tg"
      "(\<exists>t \<in> set (Targets def). ut_endpoint tg = mt_Endpoint t \<and> ut_auth tg = [])
       \<or> ut_endpoint tg = hs_Endpoint (gc_Hybrid (sv_cfg s)) \<and> may_leave (sv_cfg s) r def"
    using sent_to [OF assms(1,3) m] by blast
  have cfg: "sv_cfg s = gw_with_defaults c" using assms(1) by (simp add: Validate_gateway_Inr)
  have "\<not> may_leave (sv_cfg s) r def"
    using assms(2) by (auto simp: may_leave_def cfg gw_with_defaults_def StrictLocal_def gateway_defaults_def hybrid_defaults_def
        split: option.splits if_splits)
  then obtain t where t: "t \<in> set (Targets def)" "ut_endpoint tg = mt_Endpoint t" "ut_auth tg = []" using d(3) by blast
  have "def \<in> set (gc_Models c)"
    using d(1) find_Some_iff_first by (fastforce simp: FindModelDef_def cfg gw_with_defaults_def)
  then show "\<exists>def \<in> set (gc_Models c). \<exists>t \<in> set (Targets def).
      hq_URL rq = mt_Endpoint t @ path \<and> ''Authorization'' \<notin> fst ` set (hq_Headers rq)"
    using t d(2) by (intro bexI [of _ def] bexI [of _ t]) (auto simp: upstream_request_def)
qed

theorem confidential_data_stays_local_witness:
  "list_all (\<lambda>(tg, rq). \<exists>def \<in> set (gc_Models demo_gateway). \<exists>t \<in> set (Targets def).
      hq_URL rq = mt_Endpoint t @ ''/v1/chat/completions'' \<and> ''Authorization'' \<notin> fst ` set (hq_Headers rq))
     (snd (snd (snd (demo_proxy ''confidential''))))"
proof -
  obtain a b x lg where e: "demo_proxy ''confidential'' = (a, b, x, lg)" by (metis surj_pair)
  have v: "Validate_gateway demo_gw_urlp demo_gateway = Inr (sv_cfg demo_server)" by (simp add: demo_gateway_valid)
  from confidential_data_stays_local [OF v _ e] show ?thesis unfolding e by (simp add: demo_in_def)
qed



text \<open>The proxy fails over in order and never after a timeout: the targets are tried in the configured
  order, the local ones before the cloud, a further one only after the previous one could not be
  reached or answered 503, and the client gets the answer of the last one tried.\<close>

theorem proxy_failover_is_ordered:
  assumes "try_attempts url_ok http (upstream_request path r p) 0 (local_attempts def @ cloud_attempt files cfg def r) None = (u, lg)"
  shows "prefix (map fst lg) (local_attempts def @ cloud_attempt files cfg def r)
    \<and> (\<forall>i < length lg - 1. passes_on (http i (snd (lg ! i))))
    \<and> (\<forall>tg resp. u = Responded tg resp \<longrightarrow> lg \<noteq> [] \<and> fst (last lg) = tg \<and> http (length lg - 1) (snd (last lg)) = Answer resp)"
  using try_attempts_log [OF assms] by simp

theorem proxy_failover_is_ordered_witness:
  "\<exists>u tg1 tg2 rq1 rq2. try_attempts (\<lambda>_. True) (px_http demo_proxy_env) (upstream_request [] (demo_in ''public'') []) 0
     (local_attempts (hd (gc_Models demo_gateway)) @ cloud_attempt (\<lambda>_. Some ''secret'') demo_gateway (hd (gc_Models demo_gateway)) (demo_in ''public'')) None
     = (u, [(tg1, rq1), (tg2, rq2)]) \<and> passes_on (px_http demo_proxy_env 0 rq1)"
proof -
  let ?T = "try_attempts (\<lambda>_. True) (px_http demo_proxy_env) (upstream_request [] (demo_in ''public'') []) 0
     (local_attempts (hd (gc_Models demo_gateway)) @ cloud_attempt (\<lambda>_. Some ''secret'') demo_gateway (hd (gc_Models demo_gateway)) (demo_in ''public'')) None"
  have "length (snd ?T) = 2" by code_simp
  then obtain u tg1 tg2 rq1 rq2 where t: "?T = (u, [(tg1, rq1), (tg2, rq2)])"
    by (cases ?T) (auto simp: length_Suc_conv numeral_2_eq_2)
  from proxy_failover_is_ordered [OF t] show ?thesis using t by auto
qed

text \<open>A failed excursion is audited as local: when requests were sent and the client gets an error,
  there is no audit line at all or one that says the request was routed locally, even if the last
  of them went to the cloud.\<close>

theorem failed_cloud_call_is_audited_as_local:
  assumes "proxyRequest e W r key path s w = (Some ae, s', w', lg)" and "lg \<noteq> []"
  shows "ae_Status ae = 500 \<and> sv_audit s' = sv_audit s
    \<or> (\<exists>rec. sv_audit s' = sv_audit s @ [rec] \<and> ar_Routing rec = ''local'' \<and> ar_Status rec = ae_Status ae)"
proof -
  obtain p def u where p: "read_payload (sv_cfg s) r = Inr p" "check_proxy (sv_cfg s) key p = Inr def"
    "try_attempts (px_url_ok e) (px_http e) (upstream_request path r p) 0
        (local_attempts def @ cloud_attempt (px_file e) (sv_cfg s) def r) None = (u, lg)"
    using proxy_sends [OF assms] by blast
  have "logical_model p \<noteq> []" using assms p(1) by (auto simp: proxyRequest_def Let_def)
  then show ?thesis
    using assms(1) p
    by (cases u) (auto simp: proxyRequest_def auditProxy_def Record_def api_error_def Let_def split: prod.splits)
qed

theorem failed_cloud_call_is_audited_as_local_witness:
  "map (ut_routing \<circ> fst) (snd (snd (snd (demo_proxy ''public'')))) = [''local'', ''hybrid-cloud'']
   \<and> (\<exists>rec. sv_audit (fst (snd (demo_proxy ''public''))) = sv_audit demo_server @ [rec] \<and> ar_Routing rec = ''local'')"
proof -
  have lg: "map (ut_routing \<circ> fst) (snd (snd (snd (demo_proxy ''public'')))) = [''local'', ''hybrid-cloud'']" by code_simp
  have err: "map_option ae_Status (fst (demo_proxy ''public'')) = Some 504" by code_simp
  obtain ae s' w' lg' where p: "demo_proxy ''public'' = (Some ae, s', w', lg')" and "ae_Status ae = 504"
    using err by (cases "demo_proxy ''public''") auto
  moreover from lg p have "lg' \<noteq> []" by auto
  ultimately show ?thesis using failed_cloud_call_is_audited_as_local [OF p] lg by auto
qed

end
