(* ===== verification/GwPlatform.thy ===== *)
theory GwPlatform
  imports GwProxy Orchestrator
begin

text \<open>
  The platform adapter of the gateway (\<open>gwcore/platform_adapter.go\<close>): the checks of a request, the
  contract request built from it, the call of the platform backend, plain or streaming, and the
  translation of its errors; and the choice between the adapter and the proxy (\<open>routeInference\<close>).

  The backend is the interface \<open>contract.Backend\<close>, a record of its operations over a state of its own.
  A request for \<open>flow:\<close> models on the chat endpoint is handed to the workflow API (\<open>ToWorkflow\<close>).
\<close>

section \<open>Building the request\<close>

text \<open>\<open>strconv.ParseInt\<close> in base 10.\<close>

definition parse_int :: "string \<Rightarrow> int option" where
  "parse_int s = (case s of c # cs \<Rightarrow> if c = CHR ''+'' then (if prefix ''-'' cs then None else int_lit cs) else int_lit s | [] \<Rightarrow> None)"

definition conversation_of :: "in_request \<Rightarrow> conversation_context option" where
  "conversation_of r =
     (if iq_ConversationID r = [] then None
      else Some \<lparr>cc_ID = iq_ConversationID r,
                 cc_Version = (if iq_ConversationVersion r = [] then 0
                               else case parse_int (iq_ConversationVersion r) of None \<Rightarrow> 0 | Some n \<Rightarrow> n),
                 cc_RetentionPolicy = iq_RetentionPolicy r\<rparr>)"

definition contract_request :: "gw_config \<Rightarrow> in_request \<Rightarrow> virtual_key \<Rightarrow> string \<Rightarrow> (string \<times> json) list \<Rightarrow> request" where
  "contract_request cfg r key upstreamPath p =
     \<lparr>ContractVersion = Version, RequestID = iq_RequestID r, TraceID = iq_RequestID r, TenantScope = gs_ID (gc_Gateway cfg),
      ProjectScope = [], ActorScope = vk_ID key,
      Policy = \<lparr>DataClass = iq_DataClass r, RoutingMode = iq_RoutingMode r, AllowedModels = vk_AllowedModels key,
                ToolsAllowed = key_ToolsAllowed key\<rparr>,
      LogicalModel = logical_model p, PoolID = [], Endpoint = upstreamPath, NormalizedInput = filter (\<lambda>e. fst e \<noteq> ''model'') p,
      Stream = is_streaming p, Deadline = None, req_Conversation = conversation_of r, IdempotencyKey = iq_IdempotencyKey r\<rparr>"

datatype platform_route =
    Refused "string option" api_error
  | ToWorkflow "(string \<times> json) list"
  | ToBackend request "(string \<times> json) list"

text \<open>The checks of \<open>platformRequest\<close>; a refusal with an audit result is audited.\<close>

definition platform_route :: "gw_config \<Rightarrow> in_request \<Rightarrow> virtual_key \<Rightarrow> string \<Rightarrow> platform_route" where
  "platform_route cfg r key upstreamPath =
     (case read_payload cfg r of
        Inl err \<Rightarrow> Refused None err
      | Inr p \<Rightarrow>
          (let logical = logical_model p in
           if logical = [] then Refused None (api_error 400 ''invalid_request'' ''model is required'')
           else if \<not> AllowsModel key logical then
             Refused (Some logical) (api_error 403 ''policy_denied'' ''the requested model is not allowed for this key'')
           else if has_tools p \<and> \<not> key_ToolsAllowed key then
             Refused (Some logical) (api_error 403 ''policy_denied'' ''tool use is not allowed for this key'')
           else if has_prefix logical ''flow:'' \<and> upstreamPath = ''/v1/chat/completions'' then ToWorkflow p
           else ToBackend (contract_request cfg r key upstreamPath p) p))"

section \<open>Calling the backend\<close>

record ('s, 'w) backend =
  bk_Execute :: "request \<Rightarrow> 's \<Rightarrow> (perror + response) \<times> 's"
  bk_ExecuteStream :: "request \<Rightarrow> 'w \<Rightarrow> 's \<Rightarrow> (perror + stream_result) \<times> 'w \<times> 's"

text \<open>The answer to the client.\<close>

datatype answer =
    Failed api_error
  | Streamed
  | Plain int string "int option" body
  | Workflow "(string \<times> json) list"

definition platform_error :: "perror \<Rightarrow> api_error" where
  "platform_error err =
     (api_error (HTTPStatus (Code err)) (GatewayErrorCode (Code err)) (Message err))
       \<lparr>ae_RetryAfter := (if RetryAfter err > 0 then RetryAfter err else 0)\<rparr>"

text \<open>\<open>writePlatformError\<close>: after the first byte of a stream nothing is written any more.\<close>

definition writePlatformError ::
  "proxy_env \<Rightarrow> in_request \<Rightarrow> virtual_key \<Rightarrow> string \<Rightarrow> perror \<Rightarrow> bool \<Rightarrow> gw_server \<Rightarrow> answer \<times> gw_server" where
  "writePlatformError e r key logical err sseStarted s =
     (let ae = platform_error err;
          s1 = auditProxy (px_now e) (px_latency e) r key logical [] ''platform'' (ae_Status ae) (ae_Code ae) no_usage s
      in (if sseStarted then Streamed else Failed ae, s1))"

definition platform_result :: "int \<Rightarrow> string" where
  "platform_result status = (if status \<ge> 400 then ''upstream_'' @ int_str status else ''success'')"

definition count_usage :: "proxy_env \<Rightarrow> string \<Rightarrow> usage \<Rightarrow> bool \<Rightarrow> gw_server \<Rightarrow> gw_server" where
  "count_usage e logical u isError s =
     s\<lparr>sv_usage := add_usage (px_date e) logical (InputTokens u) (OutputTokens u) isError (sv_usage s)\<rparr>"

text \<open>The metrics of a stream that the backend has started.\<close>

definition stream_start :: "proxy_env \<Rightarrow> http_writer \<Rightarrow> gw_server \<Rightarrow> gw_server" where
  "stream_start e w s = (if hw_started w then stream_started (px_ttft e) s else s)"

definition stream_end_of :: "http_writer \<Rightarrow> gw_server \<Rightarrow> gw_server" where
  "stream_end_of w s = (if hw_started w then stream_ended s else s)"

definition platformRequest ::
  "proxy_env \<Rightarrow> ('s, http_writer) backend \<Rightarrow> in_request \<Rightarrow> virtual_key \<Rightarrow> string \<Rightarrow> gw_server \<Rightarrow> http_writer \<Rightarrow> 's
     \<Rightarrow> answer \<times> gw_server \<times> http_writer \<times> 's" where
  "platformRequest e bk r key upstreamPath s w b =
     (let audit = auditProxy (px_now e) (px_latency e) r key in
      case platform_route (sv_cfg s) r key upstreamPath of
        Refused None err \<Rightarrow> (Failed err, s, w, b)
      | Refused (Some logical) err \<Rightarrow> (Failed err, audit logical [] ''platform'' (ae_Status err) ''policy_denied'' no_usage s, w, b)
      | ToWorkflow p \<Rightarrow> (Workflow p, s, w, b)
      | ToBackend q p \<Rightarrow>
          (let logical = LogicalModel q in
           if is_streaming p then
             (case bk_ExecuteStream bk q w b of
                (Inl err, w', b') \<Rightarrow>
                  (let (a, s') = writePlatformError e r key logical err (hw_started w') (stream_start e w' s) in (a, stream_end_of w' s', w', b'))
              | (Inr res, w', b') \<Rightarrow>
                  (Streamed,
                   stream_end_of w' (audit logical (sr_DeploymentID res) (''platform-'' @ sr_RouteType res) 200
                     (if ClientGone res then ''client_disconnected'' else ''success'') (sr_Usage res)
                     (count_usage e logical (sr_Usage res) False (stream_start e w' s))), w', b'))
           else
             (case bk_Execute bk q b of
                (Inl err, b') \<Rightarrow> (let (a, s') = writePlatformError e r key logical err False s in (a, s', w, b'))
              | (Inr resp, b') \<Rightarrow>
                  (Plain (StatusCode resp) (ContentType resp)
                     (if ConversationVersion resp > 0 then Some (ConversationVersion resp) else None) (Body resp),
                   audit logical (resp_DeploymentID resp) (''platform-'' @ resp_RouteType resp) (StatusCode resp)
                     (platform_result (StatusCode resp)) (resp_Usage resp)
                     (count_usage e logical (resp_Usage resp) (StatusCode resp \<ge> 400) s), w, b'))))"

text \<open>\<open>routeInference\<close>: the adapter when the platform is on, the proxy otherwise.\<close>

definition routeInference ::
  "proxy_env \<Rightarrow> ('s, http_writer) backend \<Rightarrow> in_request \<Rightarrow> virtual_key \<Rightarrow> string \<Rightarrow> gw_server \<Rightarrow> http_writer \<Rightarrow> 's
     \<Rightarrow> (answer + api_error option) \<times> gw_server \<times> http_writer \<times> 's" where
  "routeInference e bk r key upstreamPath s w b =
     (if platformBackend s then
        (let (a, s', w', b') = platformRequest e bk r key upstreamPath s w b in (Inl a, s', w', b'))
      else
        (let (err, s', w', lg) = proxyRequest e http_ops r key upstreamPath s w in (Inr err, s', w', b)))"

text \<open>The orchestrator as a backend (\<open>platform/platform.go\<close> delegates to it); \<open>now\<close>, \<open>fin\<close> are its clock.\<close>

definition orchestrator_backend :: "net \<Rightarrow> time \<Rightarrow> time \<Rightarrow> (orch, http_writer) backend" where
  "orchestrator_backend nt now fin =
     \<lparr>bk_Execute = (\<lambda>q o1. let (res, _, o2, _) = Execute nt q now fin o1 in (res, o2)),
      bk_ExecuteStream = (\<lambda>q w o1. let (res, _, o2, w', _) = ExecuteStream nt http_ops q now fin o1 w in (res, w', o2))\<rparr>"

section \<open>Lemmas\<close>

lemma stream_platform_simps [simp]:
  "sv_cfg (stream_start e w s) = sv_cfg s" "sv_auth (stream_start e w s) = sv_auth s" "sv_usage (stream_start e w s) = sv_usage s"
  "sv_platform (stream_start e w s) = sv_platform s" "sv_audit (stream_start e w s) = sv_audit s"
  "mx_requests (sv_metrics (stream_start e w s)) = mx_requests (sv_metrics s)"
  "sv_cfg (stream_end_of w s) = sv_cfg s" "sv_auth (stream_end_of w s) = sv_auth s" "sv_usage (stream_end_of w s) = sv_usage s"
  "sv_platform (stream_end_of w s) = sv_platform s" "sv_audit (stream_end_of w s) = sv_audit s"
  "mx_requests (sv_metrics (stream_end_of w s)) = mx_requests (sv_metrics s)"
  by (simp_all add: stream_start_def stream_end_of_def stream_started_def stream_ended_def)

lemma platform_route_backend:
  assumes "platform_route cfg r key path = ToBackend q p"
  shows "read_payload cfg r = Inr p" and "q = contract_request cfg r key path p" and "logical_model p \<noteq> []"
    and "AllowsModel key (logical_model p)" and "has_tools p \<longrightarrow> key_ToolsAllowed key"
  using assms by (auto simp: platform_route_def Let_def split: sum.splits if_splits)

text \<open>Every outcome but a malformed request and a workflow leaves one audit line.\<close>

lemma platformRequest_audit:
  assumes "platformRequest e bk r key path s w b = (a, s', w', b')"
  shows "(\<exists>err. platform_route (sv_cfg s) r key path = Refused None err \<and> a = Failed err \<and> s' = s)
    \<or> (\<exists>p. a = Workflow p \<and> s' = s)
    \<or> (\<exists>rec. sv_audit s' = sv_audit s @ [rec] \<and> ar_VirtualKeyID rec = vk_ID key \<and> \<not> ar_ContentLogged rec
         \<and> (\<forall>ae. a = Failed ae \<longrightarrow> ar_Status rec = ae_Status ae) \<and> (\<forall>st ct v bd. a = Plain st ct v bd \<longrightarrow> ar_Status rec = st))"
  using assms
  by (auto simp: platformRequest_def writePlatformError_def count_usage_def auditProxy_def Record_def Let_def
      split: platform_route.splits option.splits if_splits prod.splits sum.splits)

end
