(* ===== verification/FlowStore.thy ===== *)
theory FlowStore
  imports FlowDef
begin

text \<open>
  The flow store (\<open>platform/workflow/store.go\<close>): the in-memory index of flows with its alias
  table, and the files of each flow's directory (\<open>meta.json\<close>, \<open>draft.json\<close>, \<open>v<N>.json\<close>).

  Every operation runs under the store's mutex, so it is one state transition. A write may fail:
  \<open>w i\<close> says whether the \<open>i\<close>-th write (or \<open>mkdir\<close>) of the operation succeeds; a failed
  write leaves the file as it was (temp file and rename). Times and new identifiers are arguments.
  Two functions of the library are parameters: \<open>nf\<close> prints a parsed number again, \<open>sha\<close> is
  the hexadecimal SHA-256 digest of the compact encoding of a document.
\<close>

section \<open>State\<close>

definition FlowDraft :: string where [go_defs]: "FlowDraft = ''draft''"
definition FlowPublished :: string where [go_defs]: "FlowPublished = ''published''"
definition FlowSuspended :: string where [go_defs]: "FlowSuspended = ''suspended''"
definition FlowRetired :: string where [go_defs]: "FlowRetired = ''retired''"

lemma flow_status_distinct [simp]:
  "FlowDraft \<noteq> FlowPublished" "FlowDraft \<noteq> FlowSuspended" "FlowDraft \<noteq> FlowRetired"
  "FlowPublished \<noteq> FlowDraft" "FlowPublished \<noteq> FlowSuspended" "FlowPublished \<noteq> FlowRetired"
  "FlowSuspended \<noteq> FlowDraft" "FlowSuspended \<noteq> FlowPublished" "FlowSuspended \<noteq> FlowRetired"
  "FlowRetired \<noteq> FlowDraft" "FlowRetired \<noteq> FlowPublished" "FlowRetired \<noteq> FlowSuspended"
  by (simp_all add: go_defs)

datatype flow_error =
    ErrFlowNotFound
  | ErrAliasTaken
  | ErrRevisionConflict
  | ErrVersionNotFound
  | ErrFlowRetired
  | ErrTooManyFlows
  | NotJSON
  | WriteFailed
  | ReadFailed
  | VersionExists int
  | ChecksumFailed int
  | NoPublishedVersion
  | StatusNotSettable string
  | AliasDuplicate string

record flow_meta =
  fm_FlowID :: string
  fm_Alias :: string
  fm_Name :: string
  fm_Status :: string
  fm_DraftRevision :: int
  fm_LatestVersion :: int
  fm_CreatedAt :: time
  fm_UpdatedAt :: time
  fm_RetiredAt :: "time option"

record draft =
  dr_Revision :: int
  dr_Definition :: json
  dr_Checksum :: string
  dr_UpdatedAt :: time

record flow_version =
  fv_Version :: int
  fv_Definition :: json
  fv_Checksum :: string
  fv_PublishedAt :: time

text \<open>A file is missing, holds something that does not decode, or holds a value.\<close>

datatype 'a on_disk = Missing | Corrupt | File 'a

record flow_dir =
  fdir_meta :: "flow_meta on_disk"
  fdir_draft :: "draft on_disk"
  fdir_version :: "int \<Rightarrow> flow_version on_disk"

definition empty_dir :: flow_dir where
  "empty_dir = \<lparr>fdir_meta = Missing, fdir_draft = Missing, fdir_version = (\<lambda>_. Missing)\<rparr>"

record flow_store =
  fs_maxFlows :: int
  fs_metas :: "(string \<times> flow_meta) list"
  fs_alias :: "string \<Rightarrow> string option"
  fs_disk :: "(string \<times> flow_dir) list"

definition flow_meta_of :: "flow_store \<Rightarrow> string \<Rightarrow> flow_meta option" where
  "flow_meta_of s fid = map_of (fs_metas s) fid"

definition flowDir :: "flow_store \<Rightarrow> string \<Rightarrow> flow_dir" where
  "flowDir s fid = (case map_of (fs_disk s) fid of None \<Rightarrow> empty_dir | Some d \<Rightarrow> d)"

definition put_meta :: "flow_meta \<Rightarrow> flow_store \<Rightarrow> flow_store" where
  "put_meta m s = s\<lparr>fs_metas := alist_put (fm_FlowID m) m (fs_metas s)\<rparr>"

definition put_dir :: "string \<Rightarrow> flow_dir \<Rightarrow> flow_store \<Rightarrow> flow_store" where
  "put_dir fid d s = s\<lparr>fs_disk := alist_put fid d (fs_disk s)\<rparr>"

text \<open>\<open>writeJSON\<close> of the three kinds of files.\<close>

definition write_meta :: "flow_meta \<Rightarrow> flow_store \<Rightarrow> flow_store" where
  "write_meta m s = put_dir (fm_FlowID m) ((flowDir s (fm_FlowID m))\<lparr>fdir_meta := File m\<rparr>) s"

definition write_draft :: "string \<Rightarrow> draft \<Rightarrow> flow_store \<Rightarrow> flow_store" where
  "write_draft fid d s = put_dir fid ((flowDir s fid)\<lparr>fdir_draft := File d\<rparr>) s"

definition write_version :: "string \<Rightarrow> flow_version \<Rightarrow> flow_store \<Rightarrow> flow_store" where
  "write_version fid fv s =
     (let d = flowDir s fid
      in put_dir fid (d\<lparr>fdir_version := (fdir_version d)(fv_Version fv := File fv)\<rparr>) s)"

section \<open>Operations\<close>

text \<open>\<open>OpenFlowStore\<close>: \<open>ReadDir\<close> lists the directories by name.\<close>

fun load_metas :: "(string \<times> flow_dir) list \<Rightarrow> flow_store \<Rightarrow> flow_error + flow_store" where
  "load_metas [] s = Inr s"
| "load_metas ((n, d) # ds) s =
     (case fdir_meta d of
        File m \<Rightarrow>
          if fs_alias s (fm_Alias m) \<noteq> None then Inl (AliasDuplicate (fm_Alias m))
          else load_metas ds ((put_meta m s)\<lparr>fs_alias := (fs_alias s)(fm_Alias m \<mapsto> fm_FlowID m)\<rparr>)
      | _ \<Rightarrow> Inl ReadFailed)"

definition OpenFlowStore :: "(string \<times> flow_dir) list \<Rightarrow> int \<Rightarrow> flow_error + flow_store" where
  "OpenFlowStore disk maxFlows =
     load_metas (sort_key fst disk)
       \<lparr>fs_maxFlows = maxFlows, fs_metas = [], fs_alias = (\<lambda>_. None), fs_disk = disk\<rparr>"

definition Checksum :: "(string \<Rightarrow> string) \<Rightarrow> (json \<Rightarrow> string) \<Rightarrow> body \<Rightarrow> (string \<times> json) option" where
  "Checksum nf sha def = unmarshal (\<lambda>v. Some (sha (canon nf v), canon nf v)) def"

definition List_flows :: "flow_store \<Rightarrow> flow_meta list" where
  "List_flows s = sort_key (\<lambda>m. - fm_UpdatedAt m) (map snd (fs_metas s))"

definition Get_flow :: "flow_store \<Rightarrow> string \<Rightarrow> flow_error + flow_meta" where
  "Get_flow s fid = (case flow_meta_of s fid of None \<Rightarrow> Inl ErrFlowNotFound | Some m \<Rightarrow> Inr m)"

definition ResolveAlias :: "flow_store \<Rightarrow> string \<Rightarrow> flow_error + string \<times> int" where
  "ResolveAlias s alias =
     (case fs_alias s alias of
        None \<Rightarrow> Inl ErrFlowNotFound
      | Some fid \<Rightarrow>
          (case flow_meta_of s fid of
             None \<Rightarrow> Inl ErrFlowNotFound
           | Some m \<Rightarrow>
               if fm_Status m \<noteq> FlowPublished \<or> fm_LatestVersion m = 0 then Inl ErrFlowNotFound
               else Inr (fid, fm_LatestVersion m)))"

definition Create_flow ::
  "(string \<Rightarrow> string) \<Rightarrow> (json \<Rightarrow> string) \<Rightarrow> body \<Rightarrow> string \<Rightarrow> string \<Rightarrow> string \<Rightarrow> time \<Rightarrow> (nat \<Rightarrow> bool)
     \<Rightarrow> flow_store \<Rightarrow> (flow_error + flow_meta) \<times> flow_store" where
  "Create_flow nf sha def alias name fid now w s =
     (if fs_maxFlows s > 0 \<and> int (length (fs_metas s)) \<ge> fs_maxFlows s then (Inl ErrTooManyFlows, s)
      else if fs_alias s alias \<noteq> None then (Inl ErrAliasTaken, s)
      else (case Checksum nf sha def of
        None \<Rightarrow> (Inl NotJSON, s)
      | Some (sm, cdef) \<Rightarrow>
          (let m = \<lparr>fm_FlowID = fid, fm_Alias = alias, fm_Name = name, fm_Status = FlowDraft,
                    fm_DraftRevision = 1, fm_LatestVersion = 0, fm_CreatedAt = now, fm_UpdatedAt = now,
                    fm_RetiredAt = None\<rparr>;
               d = \<lparr>dr_Revision = 1, dr_Definition = cdef, dr_Checksum = sm, dr_UpdatedAt = now\<rparr>;
               s1 = put_dir fid (flowDir s fid) s;
               s2 = write_draft fid d s1;
               s3 = write_meta m s2;
               s4 = (put_meta m s3)\<lparr>fs_alias := (fs_alias s3)(alias \<mapsto> fid)\<rparr>
           in if \<not> w 0 then (Inl WriteFailed, s)
              else if \<not> w 1 then (Inl WriteFailed, s1)
              else if \<not> w 2 then (Inl WriteFailed, s2)
              else (Inr m, s4))))"

definition readDraft :: "flow_store \<Rightarrow> string \<Rightarrow> flow_error + draft" where
  "readDraft s fid = (case fdir_draft (flowDir s fid) of File d \<Rightarrow> Inr d | _ \<Rightarrow> Inl ReadFailed)"

definition GetDraft :: "flow_store \<Rightarrow> string \<Rightarrow> flow_error + draft" where
  "GetDraft s fid = (case flow_meta_of s fid of None \<Rightarrow> Inl ErrFlowNotFound | Some _ \<Rightarrow> readDraft s fid)"

definition UpdateDraft ::
  "(string \<Rightarrow> string) \<Rightarrow> (json \<Rightarrow> string) \<Rightarrow> string \<Rightarrow> int \<Rightarrow> body \<Rightarrow> time \<Rightarrow> (nat \<Rightarrow> bool)
     \<Rightarrow> flow_store \<Rightarrow> (flow_error + draft) \<times> flow_store" where
  "UpdateDraft nf sha fid expectRevision def now w s =
     (case flow_meta_of s fid of
        None \<Rightarrow> (Inl ErrFlowNotFound, s)
      | Some m \<Rightarrow>
          if fm_Status m = FlowRetired then (Inl ErrFlowRetired, s)
          else if fm_DraftRevision m \<noteq> expectRevision then (Inl ErrRevisionConflict, s)
          else (case Checksum nf sha def of
            None \<Rightarrow> (Inl NotJSON, s)
          | Some (sm, cdef) \<Rightarrow>
              (let d = \<lparr>dr_Revision = expectRevision + 1, dr_Definition = cdef, dr_Checksum = sm, dr_UpdatedAt = now\<rparr>;
                   m' = m\<lparr>fm_DraftRevision := dr_Revision d, fm_UpdatedAt := now\<rparr>;
                   s1 = write_draft fid d s;
                   s2 = put_meta m' s1
               in if \<not> w 0 then (Inl WriteFailed, s)
                  else if \<not> w 1 then (Inl WriteFailed, s2)
                  else (Inr d, write_meta m' s2))))"

definition Publish ::
  "string \<Rightarrow> int \<Rightarrow> time \<Rightarrow> (nat \<Rightarrow> bool) \<Rightarrow> flow_store \<Rightarrow> (flow_error + flow_version) \<times> flow_store" where
  "Publish fid expectRevision now w s =
     (case flow_meta_of s fid of
        None \<Rightarrow> (Inl ErrFlowNotFound, s)
      | Some m \<Rightarrow>
          if fm_Status m = FlowRetired then (Inl ErrFlowRetired, s)
          else if fm_DraftRevision m \<noteq> expectRevision then (Inl ErrRevisionConflict, s)
          else (case readDraft s fid of
            Inl e \<Rightarrow> (Inl e, s)
          | Inr d \<Rightarrow>
              (let ver = fm_LatestVersion m + 1;
                   fv = \<lparr>fv_Version = ver, fv_Definition = dr_Definition d, fv_Checksum = dr_Checksum d, fv_PublishedAt = now\<rparr>;
                   m' = m\<lparr>fm_LatestVersion := ver, fm_Status := FlowPublished, fm_UpdatedAt := now\<rparr>;
                   s1 = write_version fid fv s;
                   s2 = put_meta m' s1
               in if fdir_version (flowDir s fid) ver \<noteq> Missing then (Inl (VersionExists ver), s)
                  else if \<not> w 0 then (Inl WriteFailed, s)
                  else if \<not> w 1 then (Inl WriteFailed, s2)
                  else (Inr fv, write_meta m' s2))))"

definition GetVersion ::
  "(string \<Rightarrow> string) \<Rightarrow> (json \<Rightarrow> string) \<Rightarrow> flow_store \<Rightarrow> string \<Rightarrow> int \<Rightarrow> flow_error + flow_version" where
  "GetVersion nf sha s fid version =
     (case flow_meta_of s fid of
        None \<Rightarrow> Inl ErrFlowNotFound
      | Some _ \<Rightarrow>
          (case fdir_version (flowDir s fid) version of
             Missing \<Rightarrow> Inl ErrVersionNotFound
           | Corrupt \<Rightarrow> Inl ReadFailed
           | File fv \<Rightarrow>
               (case Checksum nf sha (Doc (fv_Definition fv)) of
                  None \<Rightarrow> Inl (ChecksumFailed version)
                | Some (sm, _) \<Rightarrow> if sm \<noteq> fv_Checksum fv then Inl (ChecksumFailed version) else Inr fv)))"

text \<open>\<open>Versions\<close> lists the published versions without their definitions.\<close>

fun read_versions ::
  "(string \<Rightarrow> string) \<Rightarrow> (json \<Rightarrow> string) \<Rightarrow> flow_store \<Rightarrow> string \<Rightarrow> int list \<Rightarrow> flow_error + flow_version list" where
  "read_versions nf sha s fid [] = Inr []"
| "read_versions nf sha s fid (v # vs) =
     res_bind (GetVersion nf sha s fid v) (\<lambda>fv.
       res_bind (read_versions nf sha s fid vs) (\<lambda>out. Inr (fv\<lparr>fv_Definition := JNull\<rparr> # out)))"

definition Versions ::
  "(string \<Rightarrow> string) \<Rightarrow> (json \<Rightarrow> string) \<Rightarrow> flow_store \<Rightarrow> string \<Rightarrow> flow_error + flow_version list" where
  "Versions nf sha s fid =
     (case flow_meta_of s fid of
        None \<Rightarrow> Inl ErrFlowNotFound
      | Some m \<Rightarrow> read_versions nf sha s fid [1..fm_LatestVersion m])"

definition SetStatus ::
  "string \<Rightarrow> string \<Rightarrow> time \<Rightarrow> (nat \<Rightarrow> bool) \<Rightarrow> flow_store \<Rightarrow> (flow_error + flow_meta) \<times> flow_store" where
  "SetStatus fid status now w s =
     (case flow_meta_of s fid of
        None \<Rightarrow> (Inl ErrFlowNotFound, s)
      | Some m \<Rightarrow>
          (let commit = (\<lambda>m1. let m2 = m1\<lparr>fm_Status := status, fm_UpdatedAt := now\<rparr>; s1 = put_meta m2 s
                           in if \<not> w 0 then (Inl WriteFailed, s1) else (Inr m2, write_meta m2 s1))
           in if status = FlowSuspended \<or> status = FlowPublished then
                (if fm_LatestVersion m = 0 then (Inl NoPublishedVersion, s)
                 else if fm_Status m = FlowRetired then (Inl ErrFlowRetired, s)
                 else commit m)
              else if status = FlowRetired then commit (m\<lparr>fm_RetiredAt := Some now\<rparr>)
              else (Inl (StatusNotSettable status), s)))"

section \<open>Lookup after update\<close>

lemma flow_meta_of_simps [simp]:
  "flow_meta_of (put_meta m s) = (flow_meta_of s)(fm_FlowID m \<mapsto> m)"
  "flow_meta_of (put_dir fid d s) = flow_meta_of s"
  "flow_meta_of (s\<lparr>fs_alias := al\<rparr>) = flow_meta_of s"
  by (auto simp: flow_meta_of_def put_meta_def put_dir_def fun_eq_iff)

lemma flowDir_simps [simp]:
  "flowDir (put_dir fid d s) = (flowDir s)(fid := d)"
  "flowDir (put_meta m s) = flowDir s"
  "flowDir (s\<lparr>fs_alias := al\<rparr>) = flowDir s"
  by (auto simp: flowDir_def put_meta_def put_dir_def fun_eq_iff)

lemma fs_alias_simps [simp]:
  "fs_alias (put_dir fid d s) = fs_alias s" "fs_alias (put_meta m s) = fs_alias s"
  "fs_maxFlows (put_dir fid d s) = fs_maxFlows s" "fs_maxFlows (put_meta m s) = fs_maxFlows s"
  by (simp_all add: put_dir_def put_meta_def)

lemma fs_metas_simps [simp]:
  "fs_metas (put_dir fid d s) = fs_metas s"
  "fs_metas (put_meta m s) = alist_put (fm_FlowID m) m (fs_metas s)"
  by (simp_all add: put_dir_def put_meta_def)

lemmas store_writes = write_meta_def write_draft_def write_version_def

section \<open>The invariant\<close>

text \<open>
  What the in-memory index promises of a flow and of its directory: the draft on disk has the
  revision the index knows, versions \<open>1..LatestVersion\<close> and no others exist, and every stored
  definition is canonical and carries its own checksum.
\<close>

definition stored_ok :: "(string \<Rightarrow> string) \<Rightarrow> (json \<Rightarrow> string) \<Rightarrow> json \<Rightarrow> string \<Rightarrow> bool" where
  "stored_ok nf sha def sm \<longleftrightarrow> canon nf def = def \<and> sm = sha def"

definition draft_ok :: "(string \<Rightarrow> string) \<Rightarrow> (json \<Rightarrow> string) \<Rightarrow> int \<Rightarrow> draft on_disk \<Rightarrow> bool" where
  "draft_ok nf sha r f \<longleftrightarrow> (\<exists>d. f = File d \<and> dr_Revision d = r \<and> stored_ok nf sha (dr_Definition d) (dr_Checksum d))"

definition versions_ok :: "(string \<Rightarrow> string) \<Rightarrow> (json \<Rightarrow> string) \<Rightarrow> int \<Rightarrow> (int \<Rightarrow> flow_version on_disk) \<Rightarrow> bool" where
  "versions_ok nf sha latest f \<longleftrightarrow> 0 \<le> latest
     \<and> (\<forall>v. 1 \<le> v \<and> v \<le> latest \<longrightarrow>
          (\<exists>fv. f v = File fv \<and> fv_Version fv = v \<and> stored_ok nf sha (fv_Definition fv) (fv_Checksum fv)))
     \<and> (\<forall>v. v < 1 \<or> latest < v \<longrightarrow> f v = Missing)"

definition flow_ok :: "(string \<Rightarrow> string) \<Rightarrow> (json \<Rightarrow> string) \<Rightarrow> string \<Rightarrow> flow_meta \<Rightarrow> flow_dir \<Rightarrow> bool" where
  "flow_ok nf sha fid m d \<longleftrightarrow>
     fm_FlowID m = fid \<and> fm_Status m \<in> {FlowDraft, FlowPublished, FlowSuspended, FlowRetired}
     \<and> (fm_Status m \<in> {FlowPublished, FlowSuspended} \<longrightarrow> 1 \<le> fm_LatestVersion m)
     \<and> 1 \<le> fm_DraftRevision m
     \<and> draft_ok nf sha (fm_DraftRevision m) (fdir_draft d)
     \<and> versions_ok nf sha (fm_LatestVersion m) (fdir_version d)"

definition flow_inv :: "(string \<Rightarrow> string) \<Rightarrow> (json \<Rightarrow> string) \<Rightarrow> flow_store \<Rightarrow> bool" where
  "flow_inv nf sha s \<longleftrightarrow>
     distinct (map fst (fs_metas s))
     \<and> (\<forall>fid m. flow_meta_of s fid = Some m \<longrightarrow> flow_ok nf sha fid m (flowDir s fid))
     \<and> (\<forall>a fid. fs_alias s a = Some fid \<longleftrightarrow> (\<exists>m. flow_meta_of s fid = Some m \<and> fm_Alias m = a))"

lemma flow_inv_ok: "flow_inv nf sha s \<Longrightarrow> flow_meta_of s fid = Some m \<Longrightarrow> flow_ok nf sha fid m (flowDir s fid)"
  by (simp add: flow_inv_def)

text \<open>One flow changes, its alias does not.\<close>

lemma flow_inv_update:
  assumes inv: "flow_inv nf sha s" and m: "flow_meta_of s fid = Some m"
    and s': "flow_meta_of s' = (flow_meta_of s)(fid \<mapsto> m')" "flowDir s' = (flowDir s)(fid := d')"
      "fs_alias s' = fs_alias s" "distinct (map fst (fs_metas s'))"
    and ok: "fm_Alias m' = fm_Alias m" "flow_ok nf sha fid m' d'"
  shows "flow_inv nf sha s'"
  using assms unfolding flow_inv_def by auto

text \<open>The step every change ends with: the new record in memory, then \<open>meta.json\<close>.\<close>

lemma flow_ok_meta_file [simp]: "flow_ok nf sha fid m (d\<lparr>fdir_meta := f\<rparr>) = flow_ok nf sha fid m d"
  by (simp add: flow_ok_def)

lemma flow_inv_commit:
  assumes inv: "flow_inv nf sha s" and m: "flow_meta_of s fid = Some m"
    and s1: "fs_metas s1 = fs_metas s" "flowDir s1 = (flowDir s)(fid := d)" "fs_alias s1 = fs_alias s"
    and ok: "fm_Alias m' = fm_Alias m" "flow_ok nf sha fid m' d"
  shows "flow_inv nf sha (put_meta m' s1)" and "flow_inv nf sha (write_meta m' (put_meta m' s1))"
proof -
  have i: "fm_FlowID m' = fid" using ok by (simp add: flow_ok_def)
  have f: "flow_meta_of s1 = flow_meta_of s" using s1 by (simp add: flow_meta_of_def fun_eq_iff)
  have d: "distinct (map fst (alist_put fid m' (fs_metas s)))"
    using inv by (simp add: flow_inv_def alist_put_distinct)
  show "flow_inv nf sha (put_meta m' s1)"
    by (rule flow_inv_update [OF inv m, where m' = m' and d' = d]) (simp_all add: i f s1 d ok)
  show "flow_inv nf sha (write_meta m' (put_meta m' s1))"
    by (rule flow_inv_update [OF inv m, where m' = m' and d' = "d\<lparr>fdir_meta := File m'\<rparr>"])
      (simp_all add: write_meta_def i f s1 d ok)
qed

lemma versions_ok_publish:
  assumes "versions_ok nf sha l f" "fv_Version fv = l + 1" "stored_ok nf sha (fv_Definition fv) (fv_Checksum fv)"
  shows "versions_ok nf sha (l + 1) (f(l + 1 := File fv))"
  using assms by (auto simp: versions_ok_def)

lemma Checksum_stored_ok:
  assumes "\<And>l. nf (nf l) = nf l" and "Checksum nf sha def = Some (sm, cdef)"
  shows "stored_ok nf sha cdef sm"
  using assms canon_idem [of nf] by (cases def) (auto simp: Checksum_def stored_ok_def)

section \<open>Every operation keeps the invariant\<close>

lemma Create_flow_inv [keeps]:
  assumes nf: "\<And>l. nf (nf l) = nf l" and inv: "flow_inv nf sha s"
    and fresh: "flow_meta_of s fid = None" "flowDir s fid = empty_dir"
  shows "flow_inv nf sha (snd (Create_flow nf sha def alias name fid now w s))"
proof (cases "Checksum nf sha def")
  case (Some p)
  then obtain sm cdef where c: "Checksum nf sha def = Some (sm, cdef)" by (cases p) auto
  note st = Checksum_stored_ok [OF nf c]
  have same: "flow_inv nf sha s'" if "flow_meta_of s' = flow_meta_of s" "fs_metas s' = fs_metas s"
    "fs_alias s' = fs_alias s" "\<And>f. f \<noteq> fid \<Longrightarrow> flowDir s' f = flowDir s f" for s'
    using inv fresh that unfolding flow_inv_def by (metis option.distinct(1))
  have new: "flow_inv nf sha s'" if "fs_alias s alias = None"
    "flow_meta_of s' = (flow_meta_of s)(fid \<mapsto> m)" "flowDir s' = (flowDir s)(fid := d)"
    "fs_alias s' = (fs_alias s)(alias \<mapsto> fid)" "distinct (map fst (fs_metas s'))"
    "fm_Alias m = alias" "flow_ok nf sha fid m d" for s' m d
  proof -
    have "fs_alias s a \<noteq> Some fid" for a
      using inv fresh by (auto simp: flow_inv_def)
    moreover have "fm_Alias m' \<noteq> alias" if "flow_meta_of s f = Some m'" for f m'
      using inv that \<open>fs_alias s alias = None\<close> unfolding flow_inv_def by (metis option.distinct(1))
    ultimately show ?thesis
      using inv that fresh unfolding flow_inv_def by auto
  qed
  have d: "distinct (map fst (fs_metas s))" using inv by (simp add: flow_inv_def)
  let ?m = "\<lparr>fm_FlowID = fid, fm_Alias = alias, fm_Name = name, fm_Status = FlowDraft,
      fm_DraftRevision = 1, fm_LatestVersion = 0, fm_CreatedAt = now, fm_UpdatedAt = now, fm_RetiredAt = None\<rparr>"
  let ?d = "\<lparr>dr_Revision = 1, dr_Definition = cdef, dr_Checksum = sm, dr_UpdatedAt = now\<rparr>"
  let ?s1 = "put_dir fid (flowDir s fid) s"
  let ?s2 = "write_draft fid ?d ?s1"
  let ?s3 = "write_meta ?m ?s2"
  let ?s4 = "(put_meta ?m ?s3)\<lparr>fs_alias := (fs_alias ?s3)(alias \<mapsto> fid)\<rparr>"
  have "flow_inv nf sha ?s1" by (rule same) simp_all
  moreover have "flow_inv nf sha ?s2" by (rule same) (simp_all add: store_writes)
  moreover have "flow_inv nf sha ?s4" if "fs_alias s alias = None"
  proof (rule new [OF that])
    show "flow_ok nf sha fid ?m (empty_dir\<lparr>fdir_draft := File ?d, fdir_meta := File ?m\<rparr>)"
      using st by (simp add: flow_ok_def draft_ok_def versions_ok_def empty_dir_def)
  qed (simp_all add: store_writes fresh alist_put_distinct d)
  ultimately show ?thesis
    unfolding Create_flow_def c Let_def option.case prod.case using inv by simp
next
  case None
  then show ?thesis using inv by (auto simp: Create_flow_def)
qed

lemma UpdateDraft_inv [keeps]:
  assumes nf: "\<And>l. nf (nf l) = nf l" and inv: "flow_inv nf sha s"
  shows "flow_inv nf sha (snd (UpdateDraft nf sha fid rv def now w s))"
proof (cases "flow_meta_of s fid")
  case (Some m)
  note ok = flow_inv_ok [OF inv Some]
  have d: "distinct (map fst (fs_metas s))" using inv by (simp add: flow_inv_def)
  show ?thesis
  proof (cases "Checksum nf sha def")
    case (Some p)
    then obtain sm cdef where c: "Checksum nf sha def = Some (sm, cdef)" by (cases p) auto
    note st = Checksum_stored_ok [OF nf c]
    show ?thesis
      unfolding UpdateDraft_def \<open>flow_meta_of s fid = Some m\<close> c Let_def option.case prod.case
      using ok st inv
      by (auto simp: store_writes flow_ok_def draft_ok_def alist_put_distinct d
          intro!: flow_inv_update [OF inv \<open>flow_meta_of s fid = Some m\<close>])
  qed (use inv Some in \<open>simp add: UpdateDraft_def\<close>)
qed (use inv in \<open>simp add: UpdateDraft_def\<close>)

lemma Publish_inv [keeps]:
  assumes inv: "flow_inv nf sha s"
  shows "flow_inv nf sha (snd (Publish fid rv now w s))"
proof (cases "flow_meta_of s fid")
  case (Some m)
  note ok = flow_inv_ok [OF inv Some]
  have d: "distinct (map fst (fs_metas s))" using inv by (simp add: flow_inv_def)
  from ok obtain dr where dr: "fdir_draft (flowDir s fid) = File dr"
    and st: "stored_ok nf sha (dr_Definition dr) (dr_Checksum dr)"
    by (auto simp: flow_ok_def draft_ok_def)
  let ?fv = "\<lparr>fv_Version = fm_LatestVersion m + 1, fv_Definition = dr_Definition dr,
      fv_Checksum = dr_Checksum dr, fv_PublishedAt = now\<rparr>"
  have v: "versions_ok nf sha (fm_LatestVersion m) (fdir_version (flowDir s fid))"
    using ok by (simp add: flow_ok_def)
  then have v': "versions_ok nf sha (fm_LatestVersion m + 1)
      ((fdir_version (flowDir s fid))(fm_LatestVersion m + 1 := File ?fv))"
    by (rule versions_ok_publish) (simp_all add: st)
  have r: "readDraft s fid = Inr dr" using dr by (simp add: readDraft_def)
  have l: "0 \<le> fm_LatestVersion m" using v by (simp add: versions_ok_def)
  let ?m = "m\<lparr>fm_LatestVersion := fm_LatestVersion m + 1, fm_Status := FlowPublished, fm_UpdatedAt := now\<rparr>"
  let ?d = "(flowDir s fid)\<lparr>fdir_version := (fdir_version (flowDir s fid))(fm_LatestVersion m + 1 := File ?fv)\<rparr>"
  have "flow_ok nf sha fid ?m ?d"
    using ok v' l by (simp add: flow_ok_def)
  note commit = flow_inv_commit [OF inv Some, of "write_version fid ?fv s" ?d ?m, OF _ _ _ _ this]
  show ?thesis
    unfolding Publish_def Some r Let_def option.case sum.case
    using inv commit by (simp add: write_version_def Let_def)
qed (use inv in \<open>simp add: Publish_def\<close>)

lemma SetStatus_inv [keeps]:
  assumes inv: "flow_inv nf sha s"
  shows "flow_inv nf sha (snd (SetStatus fid st now w s))"
proof (cases "flow_meta_of s fid")
  case (Some m)
  note ok = flow_inv_ok [OF inv Some]
  have d: "distinct (map fst (fs_metas s))" using inv by (simp add: flow_inv_def)
  have l: "0 \<le> fm_LatestVersion m" using ok by (simp add: flow_ok_def versions_ok_def)
  have commit: "flow_inv nf sha (put_meta m' s)" "flow_inv nf sha (write_meta m' (put_meta m' s))"
    if "fm_Alias m' = fm_Alias m" "flow_ok nf sha fid m' (flowDir s fid)" for m'
    using flow_inv_commit [OF inv Some, of s "flowDir s fid" m', OF _ _ _ that] by simp_all
  have live: "flow_ok nf sha fid (m\<lparr>fm_Status := st, fm_UpdatedAt := now\<rparr>) (flowDir s fid)"
    if "fm_LatestVersion m \<noteq> 0" "st = FlowSuspended \<or> st = FlowPublished"
    using ok l that by (auto simp: flow_ok_def)
  have gone: "flow_ok nf sha fid (m\<lparr>fm_RetiredAt := Some now, fm_Status := FlowRetired, fm_UpdatedAt := now\<rparr>) (flowDir s fid)"
    using ok by (simp add: flow_ok_def)
  show ?thesis
    unfolding SetStatus_def Some Let_def option.case
    using inv commit [OF _ live] commit [OF _ gone] by auto
qed (use inv in \<open>simp add: SetStatus_def\<close>)

section \<open>Histories of the store\<close>

text \<open>
  An operation with its arguments. \<open>newFlowID\<close> draws 96 random bits: a creation whose
  identifier is in use already is taken not to happen.
\<close>

datatype flow_op =
    OpCreate body string string string time "nat \<Rightarrow> bool"
  | OpUpdate string int body time "nat \<Rightarrow> bool"
  | OpPublish string int time "nat \<Rightarrow> bool"
  | OpSetStatus string string time "nat \<Rightarrow> bool"

fun app_flow :: "(string \<Rightarrow> string) \<Rightarrow> (json \<Rightarrow> string) \<Rightarrow> flow_op \<Rightarrow> flow_store \<Rightarrow> flow_store" where
  "app_flow nf sha (OpCreate def alias name fid now w) s =
     (if flow_meta_of s fid \<noteq> None \<or> fid \<in> fst ` set (fs_disk s) then s
      else snd (Create_flow nf sha def alias name fid now w s))"
| "app_flow nf sha (OpUpdate fid r def now w) s = snd (UpdateDraft nf sha fid r def now w s)"
| "app_flow nf sha (OpPublish fid r now w) s = snd (Publish fid r now w s)"
| "app_flow nf sha (OpSetStatus fid st now w) s = snd (SetStatus fid st now w s)"

definition empty_store :: "int \<Rightarrow> flow_store" where
  "empty_store mx = \<lparr>fs_maxFlows = mx, fs_metas = [], fs_alias = (\<lambda>_. None), fs_disk = []\<rparr>"

definition idem :: "(string \<Rightarrow> string) \<Rightarrow> bool" where
  "idem nf \<longleftrightarrow> (\<forall>l. nf (nf l) = nf l)"

lemma flow_inv_empty: "flow_inv nf sha (empty_store mx)"
  by (simp add: flow_inv_def empty_store_def flow_meta_of_def)

lemma flowDir_fresh: "fid \<notin> fst ` set (fs_disk s) \<Longrightarrow> flowDir s fid = empty_dir"
  by (simp add: flowDir_def map_of_eq_None_iff [THEN iffD2] split: option.splits)

lemma app_flow_inv: "idem nf \<Longrightarrow> flow_inv nf sha s \<Longrightarrow> flow_inv nf sha (app_flow nf sha op s)"
  by (cases op) (auto simp: idem_def keeps intro!: Create_flow_inv flowDir_fresh)

interpretation flow_store: guarded_component
  "\<lambda>s. idem nf \<longrightarrow> flow_inv nf sha s" "empty_store mx" "app_flow nf sha" for nf sha mx
  by unfold_locales (auto simp: flow_inv_empty app_flow_inv)

text \<open>A version file, once written, never changes.\<close>

lemma Create_flow_versions:
  "fdir_version (flowDir (snd (Create_flow nf sha def alias name fid now w s)) f) = fdir_version (flowDir s f)"
  by (auto simp: Create_flow_def Let_def store_writes split: option.splits)

lemma UpdateDraft_versions:
  "fdir_version (flowDir (snd (UpdateDraft nf sha fid r def now w s)) f) = fdir_version (flowDir s f)"
  by (auto simp: UpdateDraft_def Let_def store_writes split: option.splits)

lemma SetStatus_versions:
  "fdir_version (flowDir (snd (SetStatus fid st now w s)) f) = fdir_version (flowDir s f)"
  by (auto simp: SetStatus_def Let_def store_writes split: option.splits)

lemma Publish_versions:
  "fdir_version (flowDir s f) v \<noteq> Missing \<Longrightarrow>
     fdir_version (flowDir (snd (Publish fid r now w s)) f) v = fdir_version (flowDir s f) v"
  by (auto simp: Publish_def Let_def store_writes split: option.splits sum.splits)

lemma app_flow_versions:
  "fdir_version (flowDir s f) v \<noteq> Missing \<Longrightarrow>
     fdir_version (flowDir (app_flow nf sha op s) f) v = fdir_version (flowDir s f) v"
  by (cases op) (simp_all add: Create_flow_versions UpdateDraft_versions SetStatus_versions Publish_versions)

lemma versions_immutable:
  "fdir_version (flowDir s f) v \<noteq> Missing \<Longrightarrow>
     fdir_version (flowDir (fold (app_flow nf sha) ops s) f) v = fdir_version (flowDir s f) v"
proof (induction ops arbitrary: s)
  case (Cons op ops)
  then show ?case using app_flow_versions [of s f v nf sha op] by simp
qed simp

text \<open>A retired flow stays retired.\<close>

definition is_retired :: "flow_store \<Rightarrow> string \<Rightarrow> bool" where
  "is_retired s fid \<longleftrightarrow> (\<exists>m. flow_meta_of s fid = Some m \<and> fm_Status m = FlowRetired)"

lemma app_flow_retired: "is_retired s fid \<Longrightarrow> flow_inv nf sha s \<Longrightarrow> is_retired (app_flow nf sha op s) fid"
  by (cases op)
    (auto simp: is_retired_def Create_flow_def UpdateDraft_def Publish_def SetStatus_def Let_def store_writes
      flow_inv_def flow_ok_def split: option.splits sum.splits)

lemma is_retired_unresolved: "is_retired s fid \<Longrightarrow> ResolveAlias s a \<noteq> Inr (fid, v)"
  by (auto simp: ResolveAlias_def is_retired_def split: option.splits)

section \<open>Restart\<close>

text \<open>Reading the directories back: what \<open>load_metas\<close> builds from consistent files.\<close>

definition dirs_ok :: "(string \<times> flow_dir) list \<Rightarrow> bool" where
  "dirs_ok ds \<longleftrightarrow> distinct (map fst ds)
     \<and> (\<forall>n d. (n, d) \<in> set ds \<longrightarrow> (\<exists>m. fdir_meta d = File m \<and> fm_FlowID m = n))
     \<and> (\<forall>n d n' d' m m'. (n, d) \<in> set ds \<longrightarrow> (n', d') \<in> set ds \<longrightarrow> fdir_meta d = File m \<longrightarrow>
          fdir_meta d' = File m' \<longrightarrow> fm_Alias m = fm_Alias m' \<longrightarrow> n = n')"

lemma dirs_ok_tl:
  assumes "dirs_ok (nd # ds)"
  shows "dirs_ok ds"
  unfolding dirs_ok_def
proof (intro conjI allI impI)
  show "distinct (map fst ds)" using assms by (simp add: dirs_ok_def)
next
  fix n d assume "(n, d) \<in> set ds"
  then have "(n, d) \<in> set (nd # ds)" by simp
  with assms show "\<exists>m. fdir_meta d = File m \<and> fm_FlowID m = n" unfolding dirs_ok_def by blast
next
  fix n d n' d' m m'
  assume "(n, d) \<in> set ds" "(n', d') \<in> set ds"
  then have "(n, d) \<in> set (nd # ds)" "(n', d') \<in> set (nd # ds)" by simp_all
  moreover assume "fdir_meta d = File m" "fdir_meta d' = File m'" "fm_Alias m = fm_Alias m'"
  ultimately show "n = n'" using assms unfolding dirs_ok_def by blast
qed

lemma load_metas_spec:
  assumes "dirs_ok ds"
    and "\<And>n d m. (n, d) \<in> set ds \<Longrightarrow> fdir_meta d = File m \<Longrightarrow> fs_alias s (fm_Alias m) = None \<and> flow_meta_of s n = None"
  shows "\<exists>s'. load_metas ds s = Inr s' \<and> fs_disk s' = fs_disk s \<and> fs_maxFlows s' = fs_maxFlows s
    \<and> (\<forall>fid m. flow_meta_of s' fid = Some m \<longleftrightarrow>
          flow_meta_of s fid = Some m \<or> (\<exists>d. (fid, d) \<in> set ds \<and> fdir_meta d = File m))
    \<and> (\<forall>a fid. fs_alias s' a = Some fid \<longleftrightarrow>
          fs_alias s a = Some fid \<or> (\<exists>d m. (fid, d) \<in> set ds \<and> fdir_meta d = File m \<and> fm_Alias m = a))"
  using assms
proof (induction ds arbitrary: s)
  case (Cons nd ds)
  obtain n d where nd: "nd = (n, d)" by (cases nd)
  obtain m where m: "fdir_meta d = File m" "fm_FlowID m = n"
    using Cons.prems(1) unfolding dirs_ok_def nd by (metis list.set_intros(1))
  have fresh: "fs_alias s (fm_Alias m) = None" "flow_meta_of s n = None"
    using Cons.prems(2) [of n d m] m nd by auto
  let ?s = "(put_meta m s)\<lparr>fs_alias := (fs_alias s)(fm_Alias m \<mapsto> fm_FlowID m)\<rparr>"
  note ds = dirs_ok_tl [OF Cons.prems(1)]
  have nin: "n \<notin> fst ` set ds" using Cons.prems(1) by (simp add: dirs_ok_def nd)
  have al: "fm_Alias m' \<noteq> fm_Alias m" if "(n', d') \<in> set ds" "fdir_meta d' = File m'" for n' d' m'
  proof
    assume "fm_Alias m' = fm_Alias m"
    then have "n = n'" using Cons.prems(1) that m unfolding dirs_ok_def nd by (metis list.set_intros)
    with nin that show False by force
  qed
  have fr: "fs_alias ?s (fm_Alias m') = None \<and> flow_meta_of ?s n' = None"
    if "(n', d') \<in> set ds" "fdir_meta d' = File m'" for n' d' m'
    using Cons.prems(2) [of n' d' m'] al [OF that] that nin nd m by (force simp: image_iff)
  obtain s' where s': "load_metas ds ?s = Inr s'"
    "fs_disk s' = fs_disk ?s" "fs_maxFlows s' = fs_maxFlows ?s"
    "\<And>fid m. flow_meta_of s' fid = Some m \<longleftrightarrow>
          flow_meta_of ?s fid = Some m \<or> (\<exists>d. (fid, d) \<in> set ds \<and> fdir_meta d = File m)"
    "\<And>a fid. fs_alias s' a = Some fid \<longleftrightarrow>
          fs_alias ?s a = Some fid \<or> (\<exists>d m. (fid, d) \<in> set ds \<and> fdir_meta d = File m \<and> fm_Alias m = a)"
    using Cons.IH [of ?s, OF ds fr] by force
  have "load_metas (nd # ds) s = Inr s'" using s'(1) m fresh nd by simp
  moreover have "fs_disk s' = fs_disk s" "fs_maxFlows s' = fs_maxFlows s"
    using s'(2,3) by (simp_all add: put_meta_def)
  moreover have "flow_meta_of s' fid = Some m' \<longleftrightarrow>
          flow_meta_of s fid = Some m' \<or> (\<exists>d. (fid, d) \<in> set (nd # ds) \<and> fdir_meta d = File m')" for fid m'
    unfolding s'(4) using m fresh nd nin by auto
  moreover have "fs_alias s' a = Some fid \<longleftrightarrow>
          fs_alias s a = Some fid \<or> (\<exists>d m. (fid, d) \<in> set (nd # ds) \<and> fdir_meta d = File m \<and> fm_Alias m = a)" for a fid
    unfolding s'(5) using m fresh nd by auto
  ultimately show ?case by blast
qed simp

text \<open>Memory and disk agree when no write has failed.\<close>

definition synced :: "flow_store \<Rightarrow> bool" where
  "synced s \<longleftrightarrow> distinct (map fst (fs_disk s))
     \<and> (\<forall>fid. flow_meta_of s fid = None \<longleftrightarrow> fid \<notin> fst ` set (fs_disk s))
     \<and> (\<forall>fid m. flow_meta_of s fid = Some m \<longrightarrow> fdir_meta (flowDir s fid) = File m)"

lemma synced_dirs_ok:
  assumes "synced s" "flow_inv nf sha s" "set ds = set (fs_disk s)" "distinct (map fst ds)"
  shows "dirs_ok ds"
proof -
  have fl: "\<exists>m. flow_meta_of s n = Some m \<and> fdir_meta d = File m \<and> fm_FlowID m = n
      \<and> fs_alias s (fm_Alias m) = Some n" if "(n, d) \<in> set ds" for n d
  proof -
    have "map_of (fs_disk s) n = Some d" using that assms(1,3) by (simp add: synced_def)
    moreover have "flow_meta_of s n \<noteq> None"
      using that assms(1,3) unfolding synced_def by (metis fst_conv imageI)
    ultimately show ?thesis
      using assms(1,2) by (force simp: synced_def flowDir_def flow_inv_def flow_ok_def)
  qed
  have "n = n'" if "(n, d) \<in> set ds" "(n', d') \<in> set ds" "fdir_meta d = File m" "fdir_meta d' = File m'"
    "fm_Alias m = fm_Alias m'" for n d n' d' m m'
    using that by (metis on_disk.inject option.inject fl)
  moreover have "\<exists>m. fdir_meta d = File m \<and> fm_FlowID m = n" if "(n, d) \<in> set ds" for n d
    using fl [OF that] by blast
  ultimately show ?thesis using assms(4) unfolding dirs_ok_def by blast
qed

lemma open_synced:
  assumes sy: "synced s" and inv: "flow_inv nf sha s"
  shows "\<exists>s'. OpenFlowStore (fs_disk s) mx = Inr s' \<and> flow_meta_of s' = flow_meta_of s
    \<and> fs_alias s' = fs_alias s \<and> fs_disk s' = fs_disk s"
proof -
  let ?ds = "sort_key fst (fs_disk s)"
  let ?s0 = "\<lparr>fs_maxFlows = mx, fs_metas = [], fs_alias = (\<lambda>_. None), fs_disk = fs_disk s\<rparr>"
  have "distinct (map fst ?ds)"
    using sy mset_eq_imp_distinct_iff [of "map fst ?ds" "map fst (fs_disk s)"] by (simp add: synced_def)
  then have ok: "dirs_ok ?ds" using synced_dirs_ok [OF sy inv, of ?ds] by simp
  obtain s' where s': "load_metas ?ds ?s0 = Inr s'" "fs_disk s' = fs_disk s"
    "\<And>fid m. flow_meta_of s' fid = Some m \<longleftrightarrow> (\<exists>d. (fid, d) \<in> set (fs_disk s) \<and> fdir_meta d = File m)"
    "\<And>a fid. fs_alias s' a = Some fid \<longleftrightarrow> (\<exists>d m. (fid, d) \<in> set (fs_disk s) \<and> fdir_meta d = File m \<and> fm_Alias m = a)"
    using load_metas_spec [OF ok, of ?s0] by (auto simp: flow_meta_of_def)
  have disk: "(\<exists>d. (fid, d) \<in> set (fs_disk s) \<and> fdir_meta d = File m) \<longleftrightarrow> flow_meta_of s fid = Some m" for fid m
  proof
    assume "\<exists>d. (fid, d) \<in> set (fs_disk s) \<and> fdir_meta d = File m"
    then obtain d where d: "map_of (fs_disk s) fid = Some d" "fdir_meta d = File m"
      using sy by (auto simp: synced_def)
    then have "flow_meta_of s fid \<noteq> None" using sy map_of_Some_in_keys [OF d(1)] by (simp add: synced_def)
    with d sy show "flow_meta_of s fid = Some m" by (force simp: synced_def flowDir_def)
  next
    assume m: "flow_meta_of s fid = Some m"
    then have "fid \<in> fst ` set (fs_disk s)" using sy unfolding synced_def by (metis option.distinct(1))
    then obtain d where "map_of (fs_disk s) fid = Some d" using map_of_in_keys by fastforce
    with m sy show "\<exists>d. (fid, d) \<in> set (fs_disk s) \<and> fdir_meta d = File m"
      by (force simp: synced_def flowDir_def dest: map_of_SomeD)
  qed
  have "flow_meta_of s' fid = flow_meta_of s fid" for fid
    using s'(3) [unfolded disk] by (metis not_Some_eq)
  moreover have "fs_alias s' a = fs_alias s a" for a
  proof -
    have "(\<exists>d m. (fid, d) \<in> set (fs_disk s) \<and> fdir_meta d = File m \<and> fm_Alias m = a) \<longleftrightarrow> fs_alias s a = Some fid" for fid
      using inv disk [of fid] unfolding flow_inv_def by blast
    then show ?thesis using s'(4) by (metis not_Some_eq)
  qed
  ultimately show ?thesis
    using s'(1,2) unfolding OpenFlowStore_def by (auto simp: fun_eq_iff)
qed

fun writes_ok :: "flow_op \<Rightarrow> bool" where
  "writes_ok (OpCreate _ _ _ _ _ w) = (w 0 \<and> w 1 \<and> w 2)"
| "writes_ok (OpUpdate _ _ _ _ w) = (w 0 \<and> w 1)"
| "writes_ok (OpPublish _ _ _ w) = (w 0 \<and> w 1)"
| "writes_ok (OpSetStatus _ _ _ w) = w 0"

lemma fst_alist_put [simp]: "fst ` set (alist_put k v m) = insert k (fst ` set m)"
  by (auto simp: alist_put_def image_iff)

lemma synced_commit:
  assumes sy: "synced s" and m: "flow_meta_of s fid = Some m" and i: "fm_FlowID m' = fid"
    and s1: "flow_meta_of s1 = flow_meta_of s" "fs_disk s1 = fs_disk s \<or> (\<exists>d. fs_disk s1 = alist_put fid d (fs_disk s))"
  shows "synced (write_meta m' (put_meta m' s1))"
proof -
  let ?s = "write_meta m' (put_meta m' s1)"
  have f: "flow_meta_of ?s = (flow_meta_of s)(fid \<mapsto> m')"
    by (simp add: write_meta_def i s1)
  have fid: "fid \<in> fst ` set (fs_disk s)" using sy m unfolding synced_def by (metis option.distinct(1))
  have k1: "fst ` set (fs_disk s1) = fst ` set (fs_disk s)" "distinct (map fst (fs_disk s1))"
    using s1(2)
  proof (atomize (full), elim disjE exE)
    assume "fs_disk s1 = fs_disk s"
    then show "fst ` set (fs_disk s1) = fst ` set (fs_disk s) \<and> distinct (map fst (fs_disk s1))"
      using sy by (simp add: synced_def)
  next
    fix d assume "fs_disk s1 = alist_put fid d (fs_disk s)"
    then show "fst ` set (fs_disk s1) = fst ` set (fs_disk s) \<and> distinct (map fst (fs_disk s1))"
      using sy fid alist_put_distinct [of "fs_disk s"] by (simp add: synced_def insert_absorb del: set_map)
  qed
  have d1: "flowDir s1 f = flowDir s f" if "f \<noteq> fid" for f
    using s1(2) that by (auto simp: flowDir_def)
  have k: "\<exists>d. fs_disk ?s = alist_put fid d (fs_disk s1)"
    unfolding write_meta_def put_dir_def put_meta_def i by (rule exI) simp
  then obtain dd where dd: "fs_disk ?s = alist_put fid dd (fs_disk s1)" by blast
  have k2: "fst ` set (fs_disk ?s) = fst ` set (fs_disk s)" "distinct (map fst (fs_disk ?s))"
    unfolding dd using k1 fid alist_put_distinct [of "fs_disk s1"] by (simp_all only: fst_alist_put insert_absorb)
  have d: "flowDir ?s = (flowDir s1)(fid := (flowDir s1 fid)\<lparr>fdir_meta := File m'\<rparr>)"
    by (simp add: write_meta_def i)
  show ?thesis
    unfolding synced_def f k2 d using k2(2) sy fid d1 by (simp add: synced_def)
qed

lemma synced_step:
  assumes sy: "synced s" and inv: "flow_inv nf sha s" and w: "writes_ok op"
  shows "synced (app_flow nf sha op s)"
proof (cases op)
  case (OpCreate b al nm fid now wr)
  show ?thesis
  proof (cases "flow_meta_of s fid \<noteq> None \<or> fid \<in> fst ` set (fs_disk s)")
    case True
    then show ?thesis using sy OpCreate by auto
  next
    case False
    then show ?thesis
      using sy w OpCreate
      by (auto simp: Create_flow_def synced_def Let_def store_writes alist_put_distinct put_dir_def put_meta_def
          flow_meta_of_def flowDir_def split: option.splits)
  qed
next
  case (OpUpdate fid r b now wr)
  show ?thesis
  proof (cases "flow_meta_of s fid")
    case (Some m)
    then have "fm_FlowID m = fid" using flow_inv_ok [OF inv] by (simp add: flow_ok_def)
    with Some show ?thesis
      using sy w OpUpdate
      by (auto simp: UpdateDraft_def Let_def write_draft_def put_dir_def split: option.splits
          intro!: synced_commit [OF sy Some] simp: flow_meta_of_def)
  qed (use sy OpUpdate in \<open>simp add: UpdateDraft_def\<close>)
next
  case (OpPublish fid r now wr)
  show ?thesis
  proof (cases "flow_meta_of s fid")
    case (Some m)
    then have "fm_FlowID m = fid" using flow_inv_ok [OF inv] by (simp add: flow_ok_def)
    with Some show ?thesis
      using sy w OpPublish
      by (auto simp: Publish_def Let_def write_version_def put_dir_def split: option.splits sum.splits
          intro!: synced_commit [OF sy Some] simp: flow_meta_of_def)
  qed (use sy OpPublish in \<open>simp add: Publish_def\<close>)
next
  case (OpSetStatus fid st now wr)
  show ?thesis
  proof (cases "flow_meta_of s fid")
    case (Some m)
    then have "fm_FlowID m = fid" using flow_inv_ok [OF inv] by (simp add: flow_ok_def)
    with Some show ?thesis
      using sy w OpSetStatus
      by (auto simp: SetStatus_def Let_def split: option.splits
          intro!: synced_commit [OF sy Some] simp: flow_meta_of_def)
  qed (use sy OpSetStatus in \<open>simp add: SetStatus_def\<close>)
qed

text \<open>Histories whose writes all succeed.\<close>

lemma synced_empty: "synced (empty_store mx)"
  by (simp add: synced_def empty_store_def flow_meta_of_def)

lemma synced_run:
  assumes "idem nf" "list_all writes_ok ops"
  shows "synced (fold (app_flow nf sha) ops (empty_store mx))"
proof -
  have "synced (fold (app_flow nf sha) ops s)" if "synced s" "flow_inv nf sha s" "list_all writes_ok ops" for s
    using that
  proof (induction ops arbitrary: s)
    case (Cons op ops)
    then show ?case
      using synced_step [of s nf sha op] app_flow_inv [OF assms(1), of sha s op] by simp
  qed simp
  then show ?thesis using assms by (simp add: synced_empty flow_inv_empty)
qed

section \<open>What the operations promise\<close>

lemma flow_store_history_inv: "idem nf \<Longrightarrow> flow_inv nf sha (fold (app_flow nf sha) ops (empty_store mx))"
  using flow_store.run_from_init [of nf sha ops mx] by simp

lemma GetVersion_inv:
  assumes "flow_inv nf sha s" and "flow_meta_of s fid = Some m"
  shows "(1 \<le> v \<and> v \<le> fm_LatestVersion m \<longrightarrow>
           (\<exists>fv. GetVersion nf sha s fid v = Inr fv \<and> fdir_version (flowDir s fid) v = File fv \<and> fv_Version fv = v))
       \<and> (v < 1 \<or> fm_LatestVersion m < v \<longrightarrow> GetVersion nf sha s fid v = Inl ErrVersionNotFound)"
  using flow_inv_ok [OF assms] assms(2)
  by (fastforce simp: flow_ok_def versions_ok_def stored_ok_def GetVersion_def Checksum_def)

lemma ResolveAlias_Inr:
  "ResolveAlias s a = Inr (fid, v) \<longleftrightarrow>
     (\<exists>m. fs_alias s a = Some fid \<and> flow_meta_of s fid = Some m \<and> fm_Status m = FlowPublished
       \<and> fm_LatestVersion m = v \<and> v \<noteq> 0)"
  by (auto simp: ResolveAlias_def split: option.splits)

lemma UpdateDraft_Inr:
  "UpdateDraft nf sha fid r def now w s = (Inr d, s') \<Longrightarrow>
     dr_Revision d = r + 1 \<and> (\<exists>m. flow_meta_of s fid = Some m \<and> fm_DraftRevision m = r \<and> fm_Status m \<noteq> FlowRetired
       \<and> (fm_FlowID m = fid \<longrightarrow> flow_meta_of s' fid = Some (m\<lparr>fm_DraftRevision := r + 1, fm_UpdatedAt := now\<rparr>)))"
  by (auto simp: UpdateDraft_def Let_def store_writes split: option.splits if_splits)

lemma Publish_Inr:
  assumes inv: "flow_inv nf sha s" and p: "Publish fid r now w s = (Inr fv, s')"
  shows "\<exists>m d. flow_meta_of s fid = Some m \<and> fm_DraftRevision m = r \<and> GetDraft s fid = Inr d \<and> dr_Revision d = r
    \<and> fv_Version fv = fm_LatestVersion m + 1 \<and> fv_Definition fv = dr_Definition d
    \<and> GetVersion nf sha s' fid (fv_Version fv) = Inr fv
    \<and> ResolveAlias s' (fm_Alias m) = Inr (fid, fv_Version fv)"
proof -
  from p obtain m where m: "flow_meta_of s fid = Some m" and r: "fm_DraftRevision m = r"
    by (auto simp: Publish_def split: option.splits if_splits)
  from flow_inv_ok [OF inv m] have id: "fm_FlowID m = fid" and l: "0 \<le> fm_LatestVersion m"
    by (simp_all add: flow_ok_def versions_ok_def)
  from p m obtain d where d: "readDraft s fid = Inr d"
    by (auto simp: Publish_def split: if_splits sum.splits)
  then have dr: "dr_Revision d = r" "stored_ok nf sha (dr_Definition d) (dr_Checksum d)"
    using flow_inv_ok [OF inv m] r
    by (auto simp: flow_ok_def draft_ok_def readDraft_def split: on_disk.splits)
  have al: "fs_alias s (fm_Alias m) = Some fid" using inv m by (auto simp: flow_inv_def)
  show ?thesis
    using p m r d dr id l al
    by (auto simp: Publish_def Let_def store_writes GetDraft_def GetVersion_def Checksum_def stored_ok_def
        ResolveAlias_def split: if_splits)
qed

text \<open>A directory without a readable \<open>meta.json\<close> makes the whole store fail to open.\<close>

lemma load_metas_unreadable:
  assumes "(n, d) \<in> set ds" and "\<And>m. fdir_meta d \<noteq> File m"
  shows "\<exists>e. load_metas ds s = Inl e"
  using assms
proof (induction ds arbitrary: s)
  case (Cons nd ds)
  then show ?case by (cases nd) (auto split: on_disk.splits)
qed simp

lemma open_unreadable:
  assumes "map_of disk n = Some d" and "\<And>m. fdir_meta d \<noteq> File m"
  shows "\<exists>e. OpenFlowStore disk mx = Inl e"
  unfolding OpenFlowStore_def
  by (rule load_metas_unreadable [of n d]) (use assms map_of_SomeD in fastforce)+

text \<open>A history for the examples: a flow is created and published.\<close>

definition demo_ops :: "flow_op list" where
  "demo_ops = [OpCreate (Doc JNull) ''a'' ''n'' ''f1'' 5 (\<lambda>_. True), OpPublish ''f1'' 1 6 (\<lambda>_. True)]"

definition demo_store :: flow_store where
  "demo_store = fold (app_flow id (\<lambda>_. ''h'')) demo_ops (empty_store 10)"

lemma idem_id: "idem id"
  by (simp add: idem_def)

lemma demo_resolves: "ResolveAlias demo_store ''a'' = Inr (''f1'', 1)"
  by code_simp

section \<open>Properties\<close>

text \<open>C36: A published version is immutable: once \<open>v<N>.json\<close> of a flow has been written, no sequence
  of operations, with whatever writes failing, changes or removes it.\<close>

theorem published_versions_never_change:
  assumes "fdir_version (flowDir s fid) v = File fv"
  shows "fdir_version (flowDir (fold (app_flow nf sha) ops s) fid) v = File fv"
  using versions_immutable [of s fid v nf sha ops] assms by simp

theorem published_versions_never_change_witness:
  "\<exists>fv. fdir_version (flowDir (fold (app_flow id (\<lambda>_. ''h''))
      [OpUpdate ''f1'' 1 (Doc (JBool True)) 7 (\<lambda>_. True), OpPublish ''f1'' 2 8 (\<lambda>_. False)] demo_store) ''f1'') 1 = File fv"
proof -
  have "fdir_version (flowDir demo_store ''f1'') 1
      = File \<lparr>fv_Version = 1, fv_Definition = JNull, fv_Checksum = ''h'', fv_PublishedAt = 6\<rparr>"
    by code_simp
  from published_versions_never_change [OF this] show ?thesis by blast
qed

text \<open>After any history of the store, whatever writes failed, a published alias resolves to one
  flow, its latest version is readable and passes the verification of its checksum, and no other flow
  has that alias.\<close>

theorem resolved_alias_is_runnable:
  assumes "idem nf" and "s = fold (app_flow nf sha) ops (empty_store mx)"
    and "ResolveAlias s a = Inr (fid, v)"
  shows "\<exists>fv. GetVersion nf sha s fid v = Inr fv \<and> fv_Version fv = v
    \<and> (\<forall>fid' m'. flow_meta_of s fid' = Some m' \<longrightarrow> fm_Alias m' = a \<longrightarrow> fid' = fid)"
proof -
  have inv: "flow_inv nf sha s" using flow_store_history_inv assms by blast
  from assms(3) obtain m where m: "flow_meta_of s fid = Some m" "fm_LatestVersion m = v" "fs_alias s a = Some fid" "v \<noteq> 0"
    by (auto simp: ResolveAlias_Inr)
  moreover have "0 \<le> v" using flow_inv_ok [OF inv m(1)] m(2) by (simp add: flow_ok_def versions_ok_def)
  moreover have "fid' = fid" if "flow_meta_of s fid' = Some m'" "fm_Alias m' = a" for fid' m'
    using inv that m(3) unfolding flow_inv_def by (metis option.inject)
  ultimately show ?thesis
    using GetVersion_inv [OF inv m(1), of v] by auto
qed

theorem resolved_alias_is_runnable_witness:
  "\<exists>fv. GetVersion id (\<lambda>_. ''h'') demo_store ''f1'' 1 = Inr fv \<and> fv_Version fv = 1"
  using resolved_alias_is_runnable [OF idem_id demo_store_def demo_resolves] by blast

text \<open>Publishing freezes the draft: the new version is the next number and holds the draft's
  definition at the expected revision, it loads with a valid checksum, and the alias resolves to it.\<close>

theorem publish_freezes_draft:
  assumes "idem nf" and "s = fold (app_flow nf sha) ops (empty_store mx)"
    and "Publish fid r now w s = (Inr fv, s')"
  shows "\<exists>m d. flow_meta_of s fid = Some m \<and> GetDraft s fid = Inr d \<and> dr_Revision d = r
    \<and> fv_Version fv = fm_LatestVersion m + 1 \<and> fv_Definition fv = dr_Definition d
    \<and> GetVersion nf sha s' fid (fv_Version fv) = Inr fv
    \<and> ResolveAlias s' (fm_Alias m) = Inr (fid, fv_Version fv)"
  using Publish_Inr [OF flow_store_history_inv [OF assms(1)] assms(3) [unfolded assms(2)]] assms(2) by blast

theorem publish_freezes_draft_witness:
  "ResolveAlias (snd (Publish ''f1'' 1 7 (\<lambda>_. True) demo_store)) ''a'' = Inr (''f1'', 2)
    \<and> (\<exists>m. flow_meta_of demo_store ''f1'' = Some m \<and> fm_LatestVersion m = 1)"
proof -
  let ?p = "Publish ''f1'' 1 7 (\<lambda>_. True) demo_store"
  let ?fv = "\<lparr>fv_Version = 2, fv_Definition = JNull, fv_Checksum = ''h'', fv_PublishedAt = 7\<rparr>"
  have "fst ?p = Inr ?fv" by code_simp
  then have "?p = (Inr ?fv, snd ?p)" by (metis prod.collapse)
  from publish_freezes_draft [OF idem_id demo_store_def this]
  have "\<exists>m. flow_meta_of demo_store ''f1'' = Some m \<and> fm_LatestVersion m = 1" by auto
  moreover have "ResolveAlias (snd ?p) ''a'' = Inr (''f1'', 2)" by code_simp
  ultimately show ?thesis by blast
qed

text \<open>The revision is an optimistic lock: of two draft updates made with the same expected
  revision, the second one is refused with a conflict and changes nothing, and so is a publication.\<close>

theorem draft_revision_is_a_lock:
  assumes "idem nf" and "s = fold (app_flow nf sha) ops (empty_store mx)"
    and "UpdateDraft nf sha fid r def now w s = (Inr d, s')"
  shows "UpdateDraft nf sha fid r def2 now2 w2 s' = (Inl ErrRevisionConflict, s')
    \<and> Publish fid r now2 w2 s' = (Inl ErrRevisionConflict, s')"
proof -
  have inv: "flow_inv nf sha s" using flow_store_history_inv assms by blast
  obtain m where m: "flow_meta_of s fid = Some m" "fm_Status m \<noteq> FlowRetired"
    "fm_FlowID m = fid \<longrightarrow> flow_meta_of s' fid = Some (m\<lparr>fm_DraftRevision := r + 1, fm_UpdatedAt := now\<rparr>)"
    using UpdateDraft_Inr [OF assms(3)] by blast
  moreover have "fm_FlowID m = fid" using flow_inv_ok [OF inv m(1)] by (simp add: flow_ok_def)
  ultimately show ?thesis by (simp add: UpdateDraft_def Publish_def)
qed

theorem draft_revision_is_a_lock_witness:
  "UpdateDraft id (\<lambda>_. ''h'') ''f1'' 1 (Doc JNull) 8 (\<lambda>_. True)
      (snd (UpdateDraft id (\<lambda>_. ''h'') ''f1'' 1 (Doc (JBool True)) 7 (\<lambda>_. True) demo_store))
    = (Inl ErrRevisionConflict, snd (UpdateDraft id (\<lambda>_. ''h'') ''f1'' 1 (Doc (JBool True)) 7 (\<lambda>_. True) demo_store))"
proof -
  have "fst (UpdateDraft id (\<lambda>_. ''h'') ''f1'' 1 (Doc (JBool True)) 7 (\<lambda>_. True) demo_store)
      = Inr \<lparr>dr_Revision = 2, dr_Definition = JBool True, dr_Checksum = ''h'', dr_UpdatedAt = 7\<rparr>"
    by code_simp
  then have "UpdateDraft id (\<lambda>_. ''h'') ''f1'' 1 (Doc (JBool True)) 7 (\<lambda>_. True) demo_store
      = (Inr \<lparr>dr_Revision = 2, dr_Definition = JBool True, dr_Checksum = ''h'', dr_UpdatedAt = 7\<rparr>,
         snd (UpdateDraft id (\<lambda>_. ''h'') ''f1'' 1 (Doc (JBool True)) 7 (\<lambda>_. True) demo_store))"
    by (metis prod.collapse)
  from draft_revision_is_a_lock [OF idem_id demo_store_def this] show ?thesis by blast
qed

text \<open>Retirement is final: whatever operations follow, a retired flow is never resolved again.\<close>

theorem retired_flow_never_resolves:
  assumes "idem nf" and "s = fold (app_flow nf sha) ops (empty_store mx)" and "is_retired s fid"
  shows "ResolveAlias (fold (app_flow nf sha) ops' s) a \<noteq> Inr (fid, v)"
proof (rule is_retired_unresolved)
  have "is_retired (fold (app_flow nf sha) ops' t) fid" if "is_retired t fid" "flow_inv nf sha t" for t
    using that
  proof (induction ops' arbitrary: t)
    case (Cons op ops')
    then show ?case using app_flow_retired app_flow_inv [OF assms(1)] by simp
  qed simp
  then show "is_retired (fold (app_flow nf sha) ops' s) fid"
    using assms flow_store_history_inv by blast
qed

theorem retired_flow_never_resolves_witness:
  "ResolveAlias (fold (app_flow id (\<lambda>_. ''h'')) [OpSetStatus ''f1'' FlowPublished 9 (\<lambda>_. True)]
     (fold (app_flow id (\<lambda>_. ''h'')) (demo_ops @ [OpSetStatus ''f1'' FlowRetired 8 (\<lambda>_. True)]) (empty_store 10))) ''a''
     \<noteq> Inr (''f1'', 1)"
proof (rule retired_flow_never_resolves [OF idem_id refl])
  have "fm_Status (the (flow_meta_of (fold (app_flow id (\<lambda>_. ''h''))
      (demo_ops @ [OpSetStatus ''f1'' FlowRetired 8 (\<lambda>_. True)]) (empty_store 10)) ''f1'')) = FlowRetired
    \<and> flow_meta_of (fold (app_flow id (\<lambda>_. ''h''))
      (demo_ops @ [OpSetStatus ''f1'' FlowRetired 8 (\<lambda>_. True)]) (empty_store 10)) ''f1'' \<noteq> None"
    by code_simp
  then show "is_retired (fold (app_flow id (\<lambda>_. ''h''))
      (demo_ops @ [OpSetStatus ''f1'' FlowRetired 8 (\<lambda>_. True)]) (empty_store 10)) ''f1''"
    by (auto simp: is_retired_def)
qed

text \<open>A restart loses nothing: when the writes of a history succeeded, reopening the directory
  gives back the same flows under the same aliases.\<close>

theorem restart_restores_index:
  assumes "idem nf" and "list_all writes_ok ops" and "s = fold (app_flow nf sha) ops (empty_store mx)"
  shows "\<exists>s'. OpenFlowStore (fs_disk s) mx = Inr s' \<and> flow_meta_of s' = flow_meta_of s \<and> fs_alias s' = fs_alias s"
  using open_synced [OF synced_run [OF assms(1,2)] flow_store_history_inv [OF assms(1)]] assms(3) by blast

theorem restart_restores_index_witness:
  "\<exists>s'. OpenFlowStore (fs_disk demo_store) 10 = Inr s' \<and> flow_meta_of s' = flow_meta_of demo_store
    \<and> fs_alias s' = fs_alias demo_store"
  by (rule restart_restores_index [OF idem_id _ demo_store_def]) (simp add: demo_ops_def)

text \<open>A creation that fails between the draft and \<open>meta.json\<close> (a full disk, a crash) leaves a
  directory behind with which no later start of the store succeeds.\<close>

theorem failed_create_blocks_restart:
  assumes "flow_meta_of s fid = None" and "flowDir s fid = empty_dir"
    and "Create_flow nf sha def alias name fid now w s = (Inl WriteFailed, s')" and "w 0"
  shows "\<exists>e. OpenFlowStore (fs_disk s') mx = Inl e"
proof -
  from assms have "\<exists>d. map_of (fs_disk s') fid = Some d \<and> (\<forall>m. fdir_meta d \<noteq> File m)"
    by (auto simp: Create_flow_def Let_def write_draft_def put_dir_def empty_dir_def flowDir_def
        split: if_splits option.splits)
  then show ?thesis using open_unreadable by blast
qed

theorem failed_create_blocks_restart_witness:
  "\<exists>e. OpenFlowStore (fs_disk (snd (Create_flow id (\<lambda>_. ''h'') (Doc JNull) ''b'' ''n'' ''f2'' 9 (\<lambda>i. i < 2) demo_store))) 10 = Inl e"
proof -
  have "fst (Create_flow id (\<lambda>_. ''h'') (Doc JNull) ''b'' ''n'' ''f2'' 9 (\<lambda>i. i < 2) demo_store) = Inl WriteFailed"
    by code_simp
  then have c: "Create_flow id (\<lambda>_. ''h'') (Doc JNull) ''b'' ''n'' ''f2'' 9 (\<lambda>i. i < 2) demo_store = (Inl WriteFailed,
      snd (Create_flow id (\<lambda>_. ''h'') (Doc JNull) ''b'' ''n'' ''f2'' 9 (\<lambda>i. i < 2) demo_store))"
    by (metis prod.collapse)
  have n: "flow_meta_of demo_store ''f2'' = None" by code_simp
  have "''f2'' \<notin> fst ` set (fs_disk demo_store)" by code_simp
  then have "flowDir demo_store ''f2'' = empty_dir" by (rule flowDir_fresh)
  from failed_create_blocks_restart [OF n this c] show ?thesis by simp
qed

end
