(* ===== verification/RunStore.thy ===== *)
theory RunStore
  imports Json
begin

text \<open>
  The run store (\<open>platform/workflow/run.go\<close>): run records with their steps and events, the
  in-memory table of runs, the files \<open>runs/<day>/<id>.json\<close> and \<open><id>.events.jsonl\<close>, the
  subscriptions to a run's events and the idempotency table.

  A day directory is the number of the day. A run file holds the exported fields of a run
  (\<open>persisted\<close>) or something that does not decode (\<open>None\<close>). A nil map or channel is \<open>None\<close>; the
  channel \<open>done\<close> is the flag whether it has been closed. A subscriber's channel is the list of
  the events in its buffer.
\<close>

section \<open>State\<close>

definition RunQueued :: string where [go_defs]: "RunQueued = ''QUEUED''"
definition RunRunning :: string where [go_defs]: "RunRunning = ''RUNNING''"
definition RunCancelling :: string where [go_defs]: "RunCancelling = ''CANCELLING''"
definition RunCompleted :: string where [go_defs]: "RunCompleted = ''COMPLETED''"
definition RunFailed :: string where [go_defs]: "RunFailed = ''FAILED''"
definition RunCancelled :: string where [go_defs]: "RunCancelled = ''CANCELLED''"
definition RunTimedOut :: string where [go_defs]: "RunTimedOut = ''TIMED_OUT''"

definition StepPending :: string where [go_defs]: "StepPending = ''PENDING''"
definition StepRunning :: string where [go_defs]: "StepRunning = ''RUNNING''"
definition StepRetrying :: string where [go_defs]: "StepRetrying = ''RETRYING''"
definition StepCompleted :: string where [go_defs]: "StepCompleted = ''COMPLETED''"
definition StepFailed :: string where [go_defs]: "StepFailed = ''FAILED''"
definition StepSkipped :: string where [go_defs]: "StepSkipped = ''SKIPPED''"
definition StepCancelled :: string where [go_defs]: "StepCancelled = ''CANCELLED''"
definition StepTimedOut :: string where [go_defs]: "StepTimedOut = ''TIMED_OUT''"

definition EventSchemaVersion :: int where [go_defs]: "EventSchemaVersion = 1"

record event =
  ev_Seq :: int
  ev_Type :: string
  ev_SchemaVersion :: int
  ev_Data :: "(string \<times> json) list"
  ev_At :: time

record route_decision =
  rd_Attempt :: int
  rd_LogicalModel :: string
  rd_PoolID :: string
  rd_DeploymentID :: string
  rd_RouteType :: string
  rd_FallbackUsed :: bool
  rd_DurationMS :: int
  rd_ErrorCode :: string

record step_state =
  ss_StepID :: string
  ss_Status :: string
  ss_Attempts :: int
  ss_Decisions :: "route_decision list"
  ss_InputTokens :: int
  ss_OutputTokens :: int
  ss_ErrorCode :: string
  ss_StartedAt :: "time option"
  ss_CompletedAt :: "time option"

record run =
  r_ID :: string
  r_FlowID :: string
  r_Alias :: string
  r_FlowVersion :: int
  r_FlowChecksum :: string
  r_Status :: string
  r_ResponseMode :: string
  r_DataClass :: string
  r_KeyID :: string
  r_RequestID :: string
  r_Steps :: "step_state list"
  r_InputTokens :: int
  r_OutputTokens :: int
  r_ErrorCode :: string
  r_Warnings :: "string list"
  r_CreatedAt :: time
  r_StartedAt :: "time option"
  r_CompletedAt :: "time option"
  r_output :: string
  r_seq :: int
  r_events :: "event list"
  r_subs :: "(int \<times> event list) list option"
  r_nextSub :: int
  r_done :: "bool option"
  r_cancelFn :: bool
  r_curReqID :: string

text \<open>What \<open>json.Marshal\<close> keeps of a run: the unexported fields come back as zero values.\<close>

definition persisted :: "run \<Rightarrow> run" where
  "persisted r = r\<lparr>r_output := [], r_seq := 0, r_events := [], r_subs := None, r_nextSub := 0,
     r_done := None, r_cancelFn := False, r_curReqID := []\<rparr>"

record idem_entry =
  ie_runID :: string
  ie_payload :: string
  ie_expires :: time

type_synonym run_path = "int \<times> string"

record run_files =
  rf_runs :: "(run_path \<times> run option) list"
  rf_events :: "(run_path \<times> event list) list"

record run_store =
  rst_files :: run_files
  rst_runs :: "(string \<times> run) list"
  rst_idem :: "(string \<times> idem_entry) list"

definition idemTTL :: time where [go_defs]: "idemTTL = 24 * hour"

datatype run_error = ErrRunNotFound | PersistFailed | NilMapPanic

definition Terminal :: "string \<Rightarrow> bool" where
  "Terminal status \<longleftrightarrow> status \<in> {RunCompleted, RunFailed, RunCancelled, RunTimedOut}"

section \<open>Files\<close>

definition runPath :: "run \<Rightarrow> run_path" where
  "runPath r = (r_CreatedAt r div day, r_ID r)"

definition persistLocked :: "bool \<Rightarrow> run \<Rightarrow> run_files \<Rightarrow> run_files" where
  "persistLocked ok r fs =
     (if ok then fs\<lparr>rf_runs := alist_put (runPath r) (Some (persisted r)) (rf_runs fs)\<rparr> else fs)"

definition append_event :: "bool \<Rightarrow> run \<Rightarrow> event \<Rightarrow> run_files \<Rightarrow> run_files" where
  "append_event ok r ev fs =
     (if ok then fs\<lparr>rf_events := alist_put (runPath r)
          ((case map_of (rf_events fs) (runPath r) of None \<Rightarrow> [] | Some es \<Rightarrow> es) @ [ev]) (rf_events fs)\<rparr>
      else fs)"

section \<open>Opening the store\<close>

text \<open>A run that was not finished when the process died is finalised as failed.\<close>

definition interrupt_run :: "time \<Rightarrow> run \<Rightarrow> run" where
  "interrupt_run now r =
     r\<lparr>r_Status := RunFailed, r_ErrorCode := ''interrupted'', r_CompletedAt := Some now,
       r_Steps := map (\<lambda>s. if ss_Status s \<in> {StepRunning, StepRetrying, StepPending}
                           then s\<lparr>ss_Status := StepCancelled\<rparr> else s) (r_Steps r)\<rparr>"

definition load_run :: "time \<Rightarrow> (nat \<Rightarrow> bool) \<Rightarrow> nat \<times> (run_path \<times> run option) \<Rightarrow> run_store \<Rightarrow> run_store" where
  "load_run now w f s =
     (case f of
        (i, _, None) \<Rightarrow> s
      | (i, _, Some r) \<Rightarrow>
          if r_ID r = [] then s
          else if r_Status r \<in> {RunQueued, RunRunning, RunCancelling} then
            (let r' = interrupt_run now r
             in s\<lparr>rst_files := persistLocked (w i) r' (rst_files s), rst_runs := alist_put (r_ID r) r' (rst_runs s)\<rparr>)
          else s\<lparr>rst_runs := alist_put (r_ID r) r (rst_runs s)\<rparr>)"

definition OpenRunStore :: "run_files \<Rightarrow> time \<Rightarrow> (nat \<Rightarrow> bool) \<Rightarrow> run_store" where
  "OpenRunStore fs now w =
     fold (load_run now w) (enumerate 0 (rf_runs fs)) \<lparr>rst_files = fs, rst_runs = [], rst_idem = []\<rparr>"

section \<open>Operations\<close>

definition put_run :: "run \<Rightarrow> run_store \<Rightarrow> run_store" where
  "put_run r s = s\<lparr>rst_runs := alist_put (r_ID r) r (rst_runs s)\<rparr>"

definition Create_run :: "run \<Rightarrow> string \<Rightarrow> time \<Rightarrow> bool \<Rightarrow> run_store \<Rightarrow> (run_error + run) \<times> run_store" where
  "Create_run r rid now ok s =
     (let r' = r\<lparr>r_ID := rid, r_Status := RunQueued, r_CreatedAt := now, r_subs := Some [], r_done := Some False\<rparr>;
          s' = (put_run r' s)\<lparr>rst_files := persistLocked ok r' (rst_files s)\<rparr>
      in (if ok then Inr r' else Inl PersistFailed, s'))"

definition Get_run :: "run_store \<Rightarrow> string \<Rightarrow> run_error + run" where
  "Get_run s rid = (case map_of (rst_runs s) rid of None \<Rightarrow> Inl ErrRunNotFound | Some r \<Rightarrow> Inr r)"

definition snapshotLocked :: "run \<Rightarrow> run" where
  "snapshotLocked r = r\<lparr>r_subs := None, r_events := [], r_done := None, r_cancelFn := False\<rparr>"

definition List_runs :: "run_store \<Rightarrow> int \<Rightarrow> run list" where
  "List_runs s limit =
     (let out = sort_key (\<lambda>r. - r_CreatedAt r) (map (\<lambda>(_, r). snapshotLocked r) (rst_runs s))
      in if limit > 0 \<and> int (length out) > limit then take (nat limit) out else out)"

definition Snapshot :: "run_store \<Rightarrow> string \<Rightarrow> run_error + run" where
  "Snapshot s rid = (case map_of (rst_runs s) rid of None \<Rightarrow> Inl ErrRunNotFound | Some r \<Rightarrow> Inr (snapshotLocked r))"

definition Output :: "run_store \<Rightarrow> string \<Rightarrow> string option" where
  "Output s rid =
     (case map_of (rst_runs s) rid of
        None \<Rightarrow> None
      | Some r \<Rightarrow> if r_Status r \<noteq> RunCompleted then None else Some (r_output r))"

text \<open>\<open>Emit\<close> numbers the event, keeps it, appends it to the event file and offers it to every
  subscriber; a full buffer of 64 events loses it.\<close>

definition mk_event :: "run \<Rightarrow> string \<Rightarrow> (string \<times> json) list \<Rightarrow> time \<Rightarrow> event" where
  "mk_event r typ data now =
     \<lparr>ev_Seq = r_seq r + 1, ev_Type = typ, ev_SchemaVersion = EventSchemaVersion, ev_Data = data, ev_At = now\<rparr>"

definition deliver :: "event \<Rightarrow> int \<times> event list \<Rightarrow> int \<times> event list" where
  "deliver ev c = (case c of (i, buf) \<Rightarrow> (i, if length buf < 64 then buf @ [ev] else buf))"

definition emit_run :: "string \<Rightarrow> (string \<times> json) list \<Rightarrow> time \<Rightarrow> run \<Rightarrow> run" where
  "emit_run typ data now r =
     (let ev = mk_event r typ data now
      in r\<lparr>r_seq := r_seq r + 1, r_events := r_events r @ [ev],
           r_subs := map_option (map (deliver ev)) (r_subs r)\<rparr>)"

definition Emit :: "string \<Rightarrow> string \<Rightarrow> (string \<times> json) list \<Rightarrow> time \<Rightarrow> bool \<Rightarrow> run_store \<Rightarrow> run_store" where
  "Emit rid typ data now ok s =
     (case map_of (rst_runs s) rid of
        None \<Rightarrow> s
      | Some r \<Rightarrow> (put_run (emit_run typ data now r) s)
          \<lparr>rst_files := append_event ok r (mk_event r typ data now) (rst_files s)\<rparr>)"

text \<open>\<open>Subscribe\<close> replays the events after \<open>lastSeq\<close> and registers a channel; writing to the nil
  map of a run that was loaded from disk panics.\<close>

definition Subscribe :: "string \<Rightarrow> int \<Rightarrow> run_store \<Rightarrow> (run_error + event list \<times> int) \<times> run_store" where
  "Subscribe rid lastSeq s =
     (case map_of (rst_runs s) rid of
        None \<Rightarrow> (Inl ErrRunNotFound, s)
      | Some r \<Rightarrow>
          (let replay = filter (\<lambda>ev. ev_Seq ev > lastSeq) (r_events r); i = r_nextSub r
           in case r_subs r of
                None \<Rightarrow> (Inl NilMapPanic, put_run (r\<lparr>r_nextSub := i + 1\<rparr>) s)
              | Some subs \<Rightarrow> (Inr (replay, i), put_run (r\<lparr>r_nextSub := i + 1, r_subs := Some (alist_put i [] subs)\<rparr>) s)))"

definition Unsubscribe :: "string \<Rightarrow> int \<Rightarrow> run_store \<Rightarrow> run_store" where
  "Unsubscribe rid i s =
     (case map_of (rst_runs s) rid of
        None \<Rightarrow> s
      | Some r \<Rightarrow> put_run (r\<lparr>r_subs := map_option (filter (\<lambda>c. fst c \<noteq> i)) (r_subs r)\<rparr>) s)"

definition Update :: "string \<Rightarrow> (run \<Rightarrow> run) \<Rightarrow> bool \<Rightarrow> run_store \<Rightarrow> run_store" where
  "Update rid f ok s =
     (case map_of (rst_runs s) rid of
        None \<Rightarrow> s
      | Some r \<Rightarrow> (put_run (f r) s)\<lparr>rst_files := persistLocked ok (f r) (rst_files s)\<rparr>)"

text \<open>The idempotency table: the run of an unexpired key, and whether its payload differs.\<close>

definition IdemCheck :: "run_store \<Rightarrow> string \<Rightarrow> string \<Rightarrow> time \<Rightarrow> string \<times> bool" where
  "IdemCheck s hash payloadSum now =
     (case map_of (rst_idem s) hash of
        None \<Rightarrow> ([], False)
      | Some e \<Rightarrow>
          if now > ie_expires e then ([], False)
          else if ie_payload e \<noteq> payloadSum then ([], True)
          else (ie_runID e, False))"

definition IdemRecord :: "string \<Rightarrow> string \<Rightarrow> string \<Rightarrow> time \<Rightarrow> run_store \<Rightarrow> run_store" where
  "IdemRecord hash payloadSum runID now s =
     (let tab = (if length (rst_idem s) > 4096 then filter (\<lambda>(_, e). \<not> now > ie_expires e) (rst_idem s) else rst_idem s)
      in s\<lparr>rst_idem := alist_put hash \<lparr>ie_runID = runID, ie_payload = payloadSum, ie_expires = now + idemTTL\<rparr> tab\<rparr>)"

text \<open>\<open>Sweep\<close> drops whole days: runs after \<open>runDays\<close>, event files after \<open>eventDays\<close>. The age of a
  day directory is the number of whole days since its midnight, truncated towards zero.\<close>

definition day_age :: "time \<Rightarrow> int \<Rightarrow> int" where
  "day_age now d = (let h = now - d * day in if h < 0 then - ((- h) div day) else h div day)"

definition Sweep :: "int \<Rightarrow> int \<Rightarrow> time \<Rightarrow> run_store \<Rightarrow> run_store" where
  "Sweep runDays eventDays now s =
     (let old = (\<lambda>d. day_age now d > runDays);
          stale = (\<lambda>d. \<not> old d \<and> day_age now d > eventDays);
          fs = rst_files s;
          dirs = (\<lambda>d. d \<in> fst ` fst ` set (rf_runs fs) \<or> d \<in> fst ` fst ` set (rf_events fs))
      in s\<lparr>rst_files := \<lparr>rf_runs = filter (\<lambda>((d, _), _). \<not> old d) (rf_runs fs),
              rf_events = filter (\<lambda>((d, _), _). \<not> old d \<and> \<not> stale d) (rf_events fs)\<rparr>,
            rst_runs := filter (\<lambda>(_, r). \<not> (dirs (r_CreatedAt r div day) \<and> old (r_CreatedAt r div day))) (rst_runs s)\<rparr>)"

section \<open>Status lemmas\<close>

lemma Terminal_simps [simp]:
  "Terminal RunCompleted" "Terminal RunFailed" "Terminal RunCancelled" "Terminal RunTimedOut"
  "\<not> Terminal RunQueued" "\<not> Terminal RunRunning" "\<not> Terminal RunCancelling"
  by (simp_all add: Terminal_def go_defs)

lemma run_status_distinct [simp]:
  "RunRunning \<noteq> RunCancelling" "RunCancelling \<noteq> RunRunning" "RunFailed \<noteq> RunQueued" "RunFailed \<noteq> RunRunning"
  "RunFailed \<noteq> RunCancelling" "RunCompleted \<noteq> RunFailed" "RunFailed \<noteq> RunCompleted"
  "RunCompleted \<noteq> RunCancelled" "RunCompleted \<noteq> RunTimedOut" "RunCompleted \<noteq> RunCancelling"
  "RunCompleted \<noteq> RunRunning" "RunRunning \<noteq> RunCompleted" "RunCancelled \<noteq> RunCompleted" "RunTimedOut \<noteq> RunCompleted"
  "RunFailed \<noteq> RunCancelled" "RunFailed \<noteq> RunTimedOut" "RunCancelled \<noteq> RunFailed" "RunTimedOut \<noteq> RunFailed"
  "RunCancelled \<noteq> RunTimedOut" "RunTimedOut \<noteq> RunCancelled"
  by (simp_all add: go_defs)

section \<open>Opening finalises what was running\<close>

definition run_settled :: "run \<Rightarrow> bool" where
  "run_settled r \<longleftrightarrow> r_Status r \<notin> {RunQueued, RunRunning, RunCancelling}"

lemma set_alist_put: "kv \<in> set (alist_put k v m) \<Longrightarrow> kv = (k, v) \<or> kv \<in> set m"
  by (auto simp: alist_put_def)

lemma snd_alist_put: "r \<in> snd ` set (alist_put k v m) \<Longrightarrow> r = v \<or> r \<in> snd ` set m"
  by (auto simp: alist_put_def)

lemma interrupt_run_settled: "run_settled (interrupt_run now r)"
  by (simp add: run_settled_def interrupt_run_def)

lemma load_run_settled:
  assumes "\<forall>r\<in>snd ` set (rst_runs s). run_settled r"
  shows "\<forall>r\<in>snd ` set (rst_runs (load_run now w f s)). run_settled r"
proof -
  obtain i p x where f: "f = (i, p, x)" by (cases f)
  show ?thesis
  proof (cases x)
    case (Some r)
    have "run_settled r'" if "r' \<in> snd ` set (rst_runs (load_run now w f s))" for r'
    proof (cases "r_ID r = [] \<or> r_Status r \<in> {RunQueued, RunRunning, RunCancelling}")
      case True
      then show ?thesis
        using that assms f Some interrupt_run_settled snd_alist_put
        by (fastforce simp: load_run_def Let_def split: if_splits)
    next
      case False
      then have "run_settled r" by (simp add: run_settled_def)
      with False show ?thesis
        using that assms f Some snd_alist_put by (fastforce simp: load_run_def)
    qed
    then show ?thesis by blast
  qed (use assms f in \<open>simp add: load_run_def\<close>)
qed

lemma fold_load_settled:
  "\<forall>r\<in>snd ` set (rst_runs s). run_settled r \<Longrightarrow>
     \<forall>r\<in>snd ` set (rst_runs (fold (load_run now w) fs s)). run_settled r"
proof (induction fs arbitrary: s)
  case (Cons f fs)
  show ?case
    unfolding fold_Cons comp_apply by (rule Cons.IH [OF load_run_settled [OF Cons.prems]])
qed simp

lemma OpenRunStore_settled:
  assumes "map_of (rst_runs (OpenRunStore fs now w)) rid = Some r"
  shows "run_settled r"
proof -
  have "\<forall>r\<in>snd ` set (rst_runs (OpenRunStore fs now w)). run_settled r"
    unfolding OpenRunStore_def by (rule fold_load_settled) simp
  moreover have "r \<in> snd ` set (rst_runs (OpenRunStore fs now w))"
    using map_of_SomeD [OF assms] by (metis imageI snd_conv)
  ultimately show ?thesis by blast
qed

section \<open>Event sequences\<close>

text \<open>The events of a run are numbered \<open>1, 2, ..., seq\<close> in their order.\<close>

definition seq_ok :: "run \<Rightarrow> bool" where
  "seq_ok r \<longleftrightarrow> 0 \<le> r_seq r \<and> map ev_Seq (r_events r) = [1..r_seq r]"

lemma seq_ok_emit [keeps]: "seq_ok r \<Longrightarrow> seq_ok (emit_run typ data now r)"
  by (simp add: seq_ok_def emit_run_def Let_def mk_event_def upto_rec2)

lemma emit_run_simps [simp]:
  "r_seq (emit_run typ data now r) = r_seq r + 1"
  "r_events (emit_run typ data now r) = r_events r @ [mk_event r typ data now]"
  "r_subs (emit_run typ data now r) = map_option (map (deliver (mk_event r typ data now))) (r_subs r)"
  "r_ID (emit_run typ data now r) = r_ID r" "r_Status (emit_run typ data now r) = r_Status r"
  "r_Steps (emit_run typ data now r) = r_Steps r" "r_done (emit_run typ data now r) = r_done r"
  "r_CreatedAt (emit_run typ data now r) = r_CreatedAt r" "r_nextSub (emit_run typ data now r) = r_nextSub r"
  "r_output (emit_run typ data now r) = r_output r" "r_ErrorCode (emit_run typ data now r) = r_ErrorCode r"
  "r_InputTokens (emit_run typ data now r) = r_InputTokens r" "r_OutputTokens (emit_run typ data now r) = r_OutputTokens r"
  "r_cancelFn (emit_run typ data now r) = r_cancelFn r" "r_curReqID (emit_run typ data now r) = r_curReqID r"
  "r_Alias (emit_run typ data now r) = r_Alias r" "r_DataClass (emit_run typ data now r) = r_DataClass r"
  by (simp_all add: emit_run_def Let_def)

lemma filter_upto: "0 \<le> a \<Longrightarrow> filter (\<lambda>i. a < i) [1..n] = [a + 1..n]"
proof (induction "nat n" arbitrary: n)
  case (Suc k)
  then have "0 < n" by simp
  then have "[1..n] = [1..n - 1] @ [n]" by (simp add: upto_rec2)
  moreover have "filter (\<lambda>i. a < i) [1..n - 1] = [a + 1..n - 1]"
    using Suc by simp
  ultimately show ?case
    by (cases "a + 1 \<le> n") (auto simp: upto_rec2 [of "a + 1" n])
qed simp

lemma replay_seqs:
  assumes "seq_ok r" "0 \<le> lastSeq"
  shows "map ev_Seq (filter (\<lambda>ev. ev_Seq ev > lastSeq) (r_events r)) = [lastSeq + 1..r_seq r]"
proof -
  have "map ev_Seq (filter (\<lambda>ev. lastSeq < ev_Seq ev) (r_events r)) = filter (\<lambda>i. lastSeq < i) (map ev_Seq (r_events r))"
    by (simp add: filter_map comp_def)
  then show ?thesis using assms by (simp add: seq_ok_def filter_upto)
qed

text \<open>Emitting several events to one subscriber whose buffer does not overflow.\<close>

fun emit_all :: "(string \<times> (string \<times> json) list \<times> time) list \<Rightarrow> run \<Rightarrow> run" where
  "emit_all [] r = r"
| "emit_all ((typ, data, now) # es) r = emit_all es (emit_run typ data now r)"

lemma emit_all_subscriber:
  assumes "r_subs r = Some subs" "map_of subs i = Some buf" "length buf + length es \<le> 64"
  shows "\<exists>new subs'. r_events (emit_all es r) = r_events r @ new \<and> length new = length es
    \<and> r_subs (emit_all es r) = Some subs' \<and> map_of subs' i = Some (buf @ new)"
  using assms
proof (induction es arbitrary: r subs buf)
  case (Cons e es)
  obtain ty data now where e: "e = (ty, data, now)" by (cases e)
  let ?ev = "mk_event r ty data now"
  have "map_of (map (deliver ?ev) subs) i = Some (buf @ [?ev])"
    using Cons.prems(2,3) by (induction subs) (auto simp: deliver_def)
  moreover have "length (buf @ [?ev]) + length es \<le> 64" using Cons.prems by simp
  ultimately obtain new subs' where
    "r_events (emit_all es (emit_run ty data now r)) = r_events (emit_run ty data now r) @ new \<and> length new = length es
    \<and> r_subs (emit_all es (emit_run ty data now r)) = Some subs' \<and> map_of subs' i = Some ((buf @ [?ev]) @ new)"
    using Cons.IH [of "emit_run ty data now r" "map (deliver ?ev) subs" "buf @ [?ev]"] Cons.prems(1) by auto
  then show ?case by (intro exI [of _ "?ev # new"] exI [of _ subs']) (simp add: e)
qed simp

lemma seq_ok_emit_all [keeps]: "seq_ok r \<Longrightarrow> seq_ok (emit_all es r)"
  by (induction es r rule: emit_all.induct) (simp_all add: keeps)

section \<open>Histories of the store\<close>

text \<open>
  The functions passed to \<open>Update\<close> by the sources change neither the identity of a run nor its
  events; a creation with an identifier in use does not happen (96 random bits).
\<close>

datatype run_op =
    OpCreateRun run string time bool
  | OpUpdateRun string "run \<Rightarrow> run" bool
  | OpEmit string string "(string \<times> json) list" time bool
  | OpSubscribe string int
  | OpUnsubscribe string int
  | OpIdemRecord string string string time
  | OpSweep int int time

definition framed :: "(run \<Rightarrow> run) \<Rightarrow> run \<Rightarrow> run" where
  "framed f r = (f r)\<lparr>r_ID := r_ID r, r_seq := r_seq r, r_events := r_events r\<rparr>"

fun app_run :: "run_op \<Rightarrow> run_store \<Rightarrow> run_store" where
  "app_run (OpCreateRun r rid now ok) s =
     (if map_of (rst_runs s) rid \<noteq> None \<or> r_seq r \<noteq> 0 \<or> r_events r \<noteq> [] then s else snd (Create_run r rid now ok s))"
| "app_run (OpUpdateRun rid f ok) s = Update rid (framed f) ok s"
| "app_run (OpEmit rid typ data now ok) s = Emit rid typ data now ok s"
| "app_run (OpSubscribe rid n) s = snd (Subscribe rid n s)"
| "app_run (OpUnsubscribe rid i) s = Unsubscribe rid i s"
| "app_run (OpIdemRecord h p rid now) s = IdemRecord h p rid now s"
| "app_run (OpSweep d e now) s = Sweep d e now s"

definition run_store_inv :: "run_store \<Rightarrow> bool" where
  "run_store_inv s \<longleftrightarrow> distinct (map fst (rst_runs s))
     \<and> (\<forall>(rid, r)\<in>set (rst_runs s). r_ID r = rid \<and> seq_ok r)"

lemma run_store_inv_put:
  "run_store_inv s \<Longrightarrow> seq_ok r \<Longrightarrow> rst_runs s' = alist_put (r_ID r) r (rst_runs s) \<Longrightarrow> run_store_inv s'"
proof -
  assume inv: "run_store_inv s" and r: "seq_ok r" and s': "rst_runs s' = alist_put (r_ID r) r (rst_runs s)"
  have "case kv of (rid, r) \<Rightarrow> r_ID r = rid \<and> seq_ok r" if "kv \<in> set (rst_runs s')" for kv
    using set_alist_put [of kv "r_ID r" r "rst_runs s"] that s' inv r by (auto simp: run_store_inv_def)
  then show ?thesis
    using inv alist_put_distinct [of "rst_runs s"] unfolding run_store_inv_def s' by blast
qed

lemma run_store_inv_put_run:
  "run_store_inv s \<Longrightarrow> seq_ok r \<Longrightarrow> run_store_inv (put_run r s)"
  "run_store_inv s \<Longrightarrow> seq_ok r \<Longrightarrow> run_store_inv ((put_run r s)\<lparr>rst_files := fs\<rparr>)"
  by (rule run_store_inv_put; simp add: put_run_def)+

lemma run_store_inv_lookup: "run_store_inv s \<Longrightarrow> map_of (rst_runs s) rid = Some r \<Longrightarrow> r_ID r = rid \<and> seq_ok r"
  using map_of_SomeD by (fastforce simp: run_store_inv_def)

lemma app_run_inv:
  assumes inv: "run_store_inv s"
  shows "run_store_inv (app_run op s)"
proof (cases op)
  case (OpCreateRun r rid now ok)
  then show ?thesis
    using inv by (auto simp: Create_run_def Let_def seq_ok_def intro!: run_store_inv_put_run [OF inv])
next
  case (OpUpdateRun rid f ok)
  then show ?thesis
    using inv run_store_inv_lookup [OF inv, of rid]
    by (auto simp: Update_def framed_def seq_ok_def split: option.splits intro!: run_store_inv_put_run [OF inv])
next
  case (OpEmit rid ty data now ok)
  then show ?thesis
    using inv run_store_inv_lookup [OF inv, of rid]
    by (auto simp: Emit_def keeps split: option.splits intro!: run_store_inv_put_run [OF inv])
next
  case (OpSubscribe rid n)
  then show ?thesis
    using inv run_store_inv_lookup [OF inv, of rid]
    by (auto simp: Subscribe_def seq_ok_def Let_def split: option.splits intro!: run_store_inv_put_run [OF inv])
next
  case (OpUnsubscribe rid i)
  then show ?thesis
    using inv run_store_inv_lookup [OF inv, of rid]
    by (auto simp: Unsubscribe_def seq_ok_def split: option.splits intro!: run_store_inv_put_run [OF inv])
next
  case (OpIdemRecord h p rid now)
  then show ?thesis using inv by (simp add: IdemRecord_def run_store_inv_def Let_def)
next
  case (OpSweep d e now)
  then show ?thesis using inv by (auto simp: Sweep_def run_store_inv_def Let_def distinct_map_filter)
qed

definition empty_run_store :: run_store where
  "empty_run_store = \<lparr>rst_files = \<lparr>rf_runs = [], rf_events = []\<rparr>, rst_runs = [], rst_idem = []\<rparr>"

interpretation run_store: guarded_component run_store_inv empty_run_store app_run
  by unfold_locales (auto simp: app_run_inv, simp add: run_store_inv_def empty_run_store_def)

text \<open>Decoding a run leaves its channels and maps nil.\<close>

definition files_decoded :: "run_files \<Rightarrow> bool" where
  "files_decoded fs \<longleftrightarrow> list_all (\<lambda>(_, f). case f of None \<Rightarrow> True | Some r \<Rightarrow> r_subs r = None) (rf_runs fs)"

lemma load_run_subs:
  assumes "\<forall>r\<in>snd ` set (rst_runs s). r_subs r = None" and "case f of (_, _, None) \<Rightarrow> True | (_, _, Some r) \<Rightarrow> r_subs r = None"
  shows "\<forall>r\<in>snd ` set (rst_runs (load_run now w f s)). r_subs r = None"
proof
  fix r' assume r': "r' \<in> snd ` set (rst_runs (load_run now w f s))"
  obtain i p x where f: "f = (i, p, x)" by (cases f)
  show "r_subs r' = None"
    using r' assms f snd_alist_put
    by (cases x) (fastforce simp: load_run_def Let_def interrupt_run_def split: if_splits)+
qed

lemma OpenRunStore_subs:
  assumes "files_decoded fs" and "map_of (rst_runs (OpenRunStore fs now w)) rid = Some r"
  shows "r_subs r = None"
proof -
  have step: "\<forall>r\<in>snd ` set (rst_runs (fold (load_run now w) es s)). r_subs r = None"
    if "\<forall>r\<in>snd ` set (rst_runs s). r_subs r = None"
      "\<forall>f\<in>set es. case f of (_, _, None) \<Rightarrow> True | (_, _, Some r) \<Rightarrow> r_subs r = None" for es s
    using that
  proof (induction es arbitrary: s)
    case (Cons f es)
    show ?case
      unfolding fold_Cons comp_apply
      by (rule Cons.IH [OF load_run_subs [OF Cons.prems(1)]]) (use Cons.prems(2) in simp_all)
  qed simp
  have files: "\<forall>f\<in>set (enumerate 0 (rf_runs fs)). case f of (_, _, None) \<Rightarrow> True | (_, _, Some r) \<Rightarrow> r_subs r = None"
    using assms(1)
    by (fastforce simp: files_decoded_def list_all_iff in_set_enumerate_eq split: option.splits dest: nth_mem)
  have "\<forall>r\<in>snd ` set (rst_runs (OpenRunStore fs now w)). r_subs r = None"
    unfolding OpenRunStore_def by (rule step [OF _ files]) simp
  moreover have "r \<in> snd ` set (rst_runs (OpenRunStore fs now w))"
    using map_of_SomeD [OF assms(2)] by (metis imageI snd_conv)
  ultimately show ?thesis by (rule bspec)
qed

lemma IdemCheck_IdemRecord:
  "IdemCheck (IdemRecord h p rid t s) h p' now =
     (if now > t + idemTTL then ([], False) else if p' \<noteq> p then ([], True) else (rid, False))"
  by (simp add: IdemCheck_def IdemRecord_def Let_def)

lemma IdemCheck_other:
  assumes "h' \<noteq> h" "t \<le> now" "distinct (map fst (rst_idem s))"
  shows "IdemCheck (IdemRecord h p rid t s) h' p' now = IdemCheck s h' p' now"
proof -
  have fl: "map_of (filter (\<lambda>(_, e). \<not> t > ie_expires e) xs) h' =
      (case map_of xs h' of None \<Rightarrow> None | Some e \<Rightarrow> if t > ie_expires e then None else Some e)"
    if "distinct (map fst xs)" for xs
    using that by (induction xs) (auto split: option.splits simp: map_of_eq_None_iff)
  have tab: "map_of (rst_idem (IdemRecord h p rid t s)) h' =
      map_of (if length (rst_idem s) > 4096 then filter (\<lambda>(_, e). \<not> t > ie_expires e) (rst_idem s) else rst_idem s) h'"
    using assms(1) by (simp add: IdemRecord_def Let_def)
  show ?thesis
    unfolding IdemCheck_def tab
    using fl [OF assms(3)] assms(2) by (cases "map_of (rst_idem s) h'") simp_all
qed

text \<open>Two runs for the examples, one of them as decoded from its file.\<close>

definition demo_run :: run where
  "demo_run = \<lparr>r_ID = ''r1'', r_FlowID = ''f1'', r_Alias = ''a'', r_FlowVersion = 1, r_FlowChecksum = ''h'',
     r_Status = RunRunning, r_ResponseMode = ''sync'', r_DataClass = [], r_KeyID = ''k'', r_RequestID = ''q'',
     r_Steps = [\<lparr>ss_StepID = ''s1'', ss_Status = StepRunning, ss_Attempts = 0, ss_Decisions = [],
        ss_InputTokens = 0, ss_OutputTokens = 0, ss_ErrorCode = [], ss_StartedAt = Some 1, ss_CompletedAt = None\<rparr>],
     r_InputTokens = 0, r_OutputTokens = 0, r_ErrorCode = [], r_Warnings = [], r_CreatedAt = 1,
     r_StartedAt = Some 1, r_CompletedAt = None, r_output = [], r_seq = 0, r_events = [], r_subs = None,
     r_nextSub = 0, r_done = None, r_cancelFn = False, r_curReqID = []\<rparr>"

definition demo_files :: run_files where
  "demo_files = \<lparr>rf_runs = [((0, ''r1''), Some demo_run)], rf_events = []\<rparr>"

lemma demo_open: "map_of (rst_runs (OpenRunStore demo_files 5 (\<lambda>_. True))) ''r1'' = Some (interrupt_run 5 demo_run)"
  by (simp add: OpenRunStore_def demo_files_def load_run_def demo_run_def Let_def alist_put_def go_defs interrupt_run_def)

definition demo_run_ops :: "run_op list" where
  "demo_run_ops = [OpCreateRun demo_run ''r2'' 7 True, OpEmit ''r2'' ''workflow.queued'' [] 8 True]"

section \<open>Properties\<close>

text \<open>A restart leaves no live run behind: every run the reopened store knows is neither queued,
  running nor being cancelled, whatever the files held and whichever write-backs fail.\<close>

theorem restart_settles_every_run:
  assumes "map_of (rst_runs (OpenRunStore fs now w)) rid = Some r"
  shows "r_Status r \<notin> {RunQueued, RunRunning, RunCancelling}"
  using OpenRunStore_settled [OF assms] by (simp add: run_settled_def)

theorem restart_settles_every_run_witness:
  "r_Status (interrupt_run 5 demo_run) \<notin> {RunQueued, RunRunning, RunCancelling}"
  by (rule restart_settles_every_run [OF demo_open])



text \<open>Within the retention of a key (24 hours) the table answers a repeated key with the recorded
  run when the payload is the same and with a conflict when it differs, and recording a key does not
  change the answer for any other.\<close>

theorem idempotency_key_binds_payload:
  assumes "t \<le> now" and "distinct (map fst (rst_idem s))"
  shows "IdemCheck (IdemRecord h p rid t s) h' p' now =
    (if h' = h then (if now > t + idemTTL then ([], False) else if p' = p then (rid, False) else ([], True))
     else IdemCheck s h' p' now)"
  using IdemCheck_IdemRecord [of h p rid t s p' now] IdemCheck_other [of h' h t now s p rid p'] assms by auto

theorem idempotency_key_binds_payload_witness:
  "IdemCheck (IdemRecord ''h'' ''p'' ''r1'' 0 empty_run_store) ''h'' ''q'' (23 * hour) = ([], True)"
  using idempotency_key_binds_payload [of 0 "23 * hour" empty_run_store "''h''" "''p''" "''r1''" "''h''" "''q''"]
  by (simp add: empty_run_store_def go_defs)

text \<open>Subscribing to the events of a run that was loaded from disk writes to a nil map, which
  panics: after a restart the event stream of an older run cannot be opened.\<close>

theorem subscribe_to_restored_run_panics:
  assumes "files_decoded fs" and "map_of (rst_runs (OpenRunStore fs now w)) rid = Some r"
  shows "fst (Subscribe rid lastSeq (OpenRunStore fs now w)) = Inl NilMapPanic"
  using OpenRunStore_subs [OF assms] assms(2) by (simp add: Subscribe_def Let_def)

theorem subscribe_to_restored_run_panics_witness:
  "fst (Subscribe ''r1'' 0 (OpenRunStore demo_files 5 (\<lambda>_. True))) = Inl NilMapPanic"
  by (rule subscribe_to_restored_run_panics [OF _ demo_open])
    (simp add: files_decoded_def demo_files_def demo_run_def)

end
