(* ===== verification/WorkflowRun.thy ===== *)
theory WorkflowRun
  imports Contract FlowDef RunStore
begin

text \<open>
  The runner of a workflow (\<open>platform/workflow/service.go\<close> 337-674): \<open>execute\<close>, \<open>runStep\<close>,
  \<open>attempt\<close>, \<open>failRun\<close> and \<open>finishInterrupted\<close>.

  The runner is one goroutine; a cancellation and the deadline of the run happen concurrently.
  Every action of the runner that other goroutines can observe or influence (a store update, an
  event, a look at the context, a call of the executor) is preceded by a \<open>tick\<close>, at which the
  environment may interfere: \<open>e_events k\<close> is what happens just before the runner's \<open>k\<close>-th action.
  All results hold for every environment, hence for every interleaving at the granularity of the
  store lock.
\<close>

section \<open>Codes\<close>

definition CodeTemplateRender :: string where [go_defs]: "CodeTemplateRender = ''template_render_error''"
definition CodeNoEligible :: string where [go_defs]: "CodeNoEligible = ''no_eligible_runtime''"
definition CodeBudgetExceeded :: string where [go_defs]: "CodeBudgetExceeded = ''budget_exceeded''"
definition CodeInputValidation :: string where [go_defs]: "CodeInputValidation = ''workflow_input_validation_error''"
definition CodeStepTimeout :: string where [go_defs]: "CodeStepTimeout = ''step_timeout''"
definition CodeInvalidResponse :: string where [go_defs]: "CodeInvalidResponse = ''runtime_invalid_response''"
definition CodeCancelled :: string where [go_defs]: "CodeCancelled = ''cancelled''"

section \<open>World and environment\<close>

datatype ctx_err = Canceled | DeadlineExceeded

text \<open>
  What can happen concurrently: the critical section of \<open>CancelRun\<close> (mark the run), the call of
  the cancel function it found there, its event, and the expiry of the run's deadline.
\<close>

datatype interference = IMark | ICancelCtx | INotify | IDeadline

record env =
  e_events :: "nat \<Rightarrow> interference list"
  e_now :: "nat \<Rightarrow> time"
  e_write :: "nat \<Rightarrow> bool"
  e_timer :: "nat \<Rightarrow> bool"
  e_exec :: "nat \<Rightarrow> request \<Rightarrow> perror + response"
  e_nf :: "string \<Rightarrow> string"

record world =
  w_run :: run
  w_files :: run_files
  w_ctx :: "ctx_err option"
  w_tick :: nat
  w_marked :: bool
  w_armed :: bool
  w_calls :: "(request \<times> (perror + response)) list"
  w_closes :: nat

definition store_run :: "env \<Rightarrow> run \<Rightarrow> world \<Rightarrow> world" where
  "store_run e r w = w\<lparr>w_run := r, w_files := persistLocked (e_write e (w_tick w)) r (w_files w)\<rparr>"

definition log_event :: "env \<Rightarrow> string \<Rightarrow> (string \<times> json) list \<Rightarrow> world \<Rightarrow> world" where
  "log_event e typ data w =
     (let now = e_now e (w_tick w); r = w_run w
      in w\<lparr>w_run := emit_run typ data now r,
           w_files := append_event (e_write e (w_tick w)) r (mk_event r typ data now) (w_files w)\<rparr>)"

definition run_id_data :: "run \<Rightarrow> (string \<times> json) list" where
  "run_id_data r = [(''run_id'', JStr (r_ID r))]"

text \<open>\<open>CancelRun\<close> 286-308; a finished run is left alone, the cancel function may still be nil.\<close>

definition cancel_mark :: "run \<Rightarrow> run" where
  "cancel_mark r = (if Terminal (r_Status r) then r else r\<lparr>r_Status := RunCancelling\<rparr>)"

fun interfere :: "env \<Rightarrow> interference \<Rightarrow> world \<Rightarrow> world" where
  "interfere e IMark w =
     (let r = w_run w; w' = store_run e (cancel_mark r) w
      in if Terminal (r_Status r) then w'
         else w'\<lparr>w_marked := True, w_armed := (w_armed w \<or> r_cancelFn r)\<rparr>)"
| "interfere e ICancelCtx w =
     (if w_armed w \<and> w_ctx w = None then w\<lparr>w_ctx := Some Canceled\<rparr> else w)"
| "interfere e INotify w =
     (if w_marked w then log_event e ''workflow.cancelling'' (run_id_data (w_run w)) w else w)"
| "interfere e IDeadline w = (if w_ctx w = None then w\<lparr>w_ctx := Some DeadlineExceeded\<rparr> else w)"

definition tick :: "env \<Rightarrow> world \<Rightarrow> world" where
  "tick e w = (fold (interfere e) (e_events e (w_tick w)) w)\<lparr>w_tick := Suc (w_tick w)\<rparr>"

text \<open>\<open>s.runs.Update\<close> and \<open>s.runs.Emit\<close> as the runner calls them; a look at the context.\<close>

definition upd :: "env \<Rightarrow> (run \<Rightarrow> run) \<Rightarrow> world \<Rightarrow> world" where
  "upd e f w = (let w' = tick e w in store_run e (f (w_run w')) w')"

definition emit :: "env \<Rightarrow> string \<Rightarrow> (string \<times> json) list \<Rightarrow> world \<Rightarrow> world" where
  "emit e typ data w = log_event e typ data (tick e w)"

definition close_done :: "world \<Rightarrow> world" where
  "close_done w = w\<lparr>w_run := (w_run w)\<lparr>r_done := Some True\<rparr>, w_closes := Suc (w_closes w)\<rparr>"

definition upd_step :: "nat \<Rightarrow> (step_state \<Rightarrow> step_state) \<Rightarrow> run \<Rightarrow> run" where
  "upd_step i f r = r\<lparr>r_Steps := (r_Steps r)[i := f (r_Steps r ! i)]\<rparr>"

section \<open>One attempt\<close>

definition retryable :: "string \<Rightarrow> bool" where
  "retryable code \<longleftrightarrow> code \<in> {ErrCapacityExhausted, ErrModelNotAvailable, ErrPlatformNotReady}"

record target =
  tg_poolID :: string
  tg_fallback :: bool

definition chat_message :: "string \<Rightarrow> string \<Rightarrow> json" where
  "chat_message role text = JObj [(''content'', JStr text), (''role'', JStr role)]"

definition attempt_body :: "env \<Rightarrow> step \<Rightarrow> string \<Rightarrow> (string \<times> json) list" where
  "attempt_body e st text =
     [(''messages'', JArr ((if st_SystemPrompt st \<noteq> [] then [chat_message ''system'' (st_SystemPrompt st)] else [])
                           @ [chat_message ''user'' text]))]
     @ (case st_Generation st of
          None \<Rightarrow> []
        | Some g \<Rightarrow>
            (case gen_Temperature g of None \<Rightarrow> [] | Some t \<Rightarrow> [(''temperature'', JNum (e_nf e t))])
            @ (case gen_TopP g of None \<Rightarrow> [] | Some t \<Rightarrow> [(''top_p'', JNum (e_nf e t))])
            @ (if gen_MaxOutputTokens g > 0 then [(''max_tokens'', JNum (int_str (gen_MaxOutputTokens g)))] else []))"

definition attempt_request :: "env \<Rightarrow> run \<Rightarrow> step \<Rightarrow> string \<Rightarrow> string \<Rightarrow> target \<Rightarrow> time \<Rightarrow> request" where
  "attempt_request e r st text reqID tg now =
     \<lparr>ContractVersion = Version, RequestID = reqID, TraceID = r_RequestID r, TenantScope = [],
      ProjectScope = [], ActorScope = ''workflow:'' @ r_Alias r,
      Policy = \<lparr>DataClass = r_DataClass r, RoutingMode = [], AllowedModels = [], ToolsAllowed = False\<rparr>,
      LogicalModel = rt_LogicalModel (st_RuntimeTarget st), PoolID = tg_poolID tg,
      Endpoint = ''/v1/chat/completions'', NormalizedInput = attempt_body e st text, Stream = False,
      Deadline = (if st_TimeoutMS st > 0 then Some (now + st_TimeoutMS st * msec) else None),
      req_Conversation = None, IdempotencyKey = []\<rparr>"

definition call_executor :: "env \<Rightarrow> request \<Rightarrow> world \<Rightarrow> (perror + response) \<times> world" where
  "call_executor e req w =
     (let w' = tick e w; res = e_exec e (length (w_calls w')) req
      in (res, w'\<lparr>w_calls := w_calls w' @ [(req, res)]\<rparr>))"

record attempt_result =
  at_out :: string
  at_usage :: usage
  at_dep :: string
  at_route :: string
  at_err :: "perror option"

definition attempt :: "env \<Rightarrow> step \<Rightarrow> string \<Rightarrow> nat \<Rightarrow> target \<Rightarrow> world \<Rightarrow> attempt_result \<times> world" where
  "attempt e st text n tg w =
     (let reqID = r_ID (w_run w) @ ''-'' @ st_StepID st @ ''-a'' @ nat_str n;
          w1 = upd e (\<lambda>r. r\<lparr>r_curReqID := reqID\<rparr>) w;
          req = attempt_request e (w_run w1) st text reqID tg (e_now e (w_tick w1));
          (res, w2) = call_executor e req w1
      in case res of
           Inl err \<Rightarrow> (\<lparr>at_out = [], at_usage = no_usage, at_dep = [], at_route = [], at_err = Some err\<rparr>, w2)
         | Inr resp \<Rightarrow>
             (let bad = (\<lambda>m. \<lparr>at_out = [], at_usage = resp_Usage resp, at_dep = resp_DeploymentID resp,
                         at_route = resp_RouteType resp, at_err = Some (mk_error ErrInternalContract m 0)\<rparr>)
              in if StatusCode resp \<ge> 400 then (bad (''upstream returned status '' @ int_str (StatusCode resp)), w2)
                 else case first_content (Body resp) of
                   None \<Rightarrow> (bad ''upstream response is not a chat completion'', w2)
                 | Some out \<Rightarrow> (\<lparr>at_out = out, at_usage = resp_Usage resp, at_dep = resp_DeploymentID resp,
                                 at_route = resp_RouteType resp, at_err = None\<rparr>, w2)))"

section \<open>One step\<close>

text \<open>The result of \<open>runStep\<close>: output, error code (empty on success) and message.\<close>

record step_result =
  sr_out :: string
  sr_code :: string
  sr_msg :: string

definition aborted :: step_result where
  "aborted = \<lparr>sr_out = [], sr_code = CodeCancelled, sr_msg = ''run aborted''\<rparr>"

definition record_attempt :: "nat \<Rightarrow> nat \<Rightarrow> route_decision \<Rightarrow> attempt_result \<Rightarrow> run \<Rightarrow> run" where
  "record_attempt idx n dec res =
     upd_step idx (\<lambda>s.
       let s1 = s\<lparr>ss_Attempts := int n, ss_Decisions := ss_Decisions s @ [dec]\<rparr>;
           add = (\<lambda>x u. case u of None \<Rightarrow> x | Some t \<Rightarrow> i64 (x + t))
       in if at_err res = None then
            s1\<lparr>ss_InputTokens := add (ss_InputTokens s1) (InputTokens (at_usage res)),
               ss_OutputTokens := add (ss_OutputTokens s1) (OutputTokens (at_usage res))\<rparr>
          else s1)"

definition decision :: "nat \<Rightarrow> step \<Rightarrow> target \<Rightarrow> attempt_result \<Rightarrow> route_decision" where
  "decision n st tg res =
     \<lparr>rd_Attempt = int n, rd_LogicalModel = rt_LogicalModel (st_RuntimeTarget st), rd_PoolID = tg_poolID tg,
      rd_DeploymentID = at_dep res, rd_RouteType = at_route res, rd_FallbackUsed = tg_fallback tg,
      rd_DurationMS = 0, rd_ErrorCode = (case at_err res of None \<Rightarrow> [] | Some err \<Rightarrow> Code err)\<rparr>"

text \<open>Before a second or later attempt: the status, the event and the back-off, which ends with the
  timer or with the context (either, when both are ready).\<close>

definition attempt_wait :: "env \<Rightarrow> nat \<Rightarrow> step \<Rightarrow> nat \<Rightarrow> world \<Rightarrow> bool \<times> world" where
  "attempt_wait e idx st n w =
     (if n > 1 then
        (let w1 = upd e (upd_step idx (\<lambda>s. s\<lparr>ss_Status := StepRetrying\<rparr>)) w;
             w2 = emit e ''step.retrying'' [(''step_id'', JStr (st_StepID st)), (''attempt'', JNum (nat_str n))] w1;
             w3 = tick e w2
         in (w_ctx w3 = None \<or> e_timer e (w_tick w3), w3))
      else (True, w))"

text \<open>
  What an attempt's result means: the return value of \<open>runStep\<close> (\<open>Inl\<close>), or the code and message of
  a retryable error (\<open>Inr\<close>). After a timeout inference may have begun: nothing else is tried.
\<close>

definition attempt_outcome :: "attempt_result \<Rightarrow> step_result + string \<times> string" where
  "attempt_outcome res =
     (case at_err res of
        None \<Rightarrow> Inl \<lparr>sr_out = at_out res, sr_code = [], sr_msg = []\<rparr>
      | Some err \<Rightarrow>
          if Code err = ErrInferenceTimeout then
            Inl \<lparr>sr_out = [], sr_code = CodeStepTimeout, sr_msg = ''step timed out''\<rparr>
          else if retryable (Code err) then Inr (CodeNoEligible, Message err)
          else Inl \<lparr>sr_out = [], sr_code = (if Code err = ErrInvalidRequest then CodeInputValidation
                       else CodeInvalidResponse), sr_msg = Message err\<rparr>)"

text \<open>The body of the attempt loop; \<open>n\<close> is the number of attempts made before.\<close>

definition attempt_once ::
  "env \<Rightarrow> nat \<Rightarrow> step \<Rightarrow> string \<Rightarrow> target \<Rightarrow> nat \<Rightarrow> world \<Rightarrow> (step_result + string \<times> string) \<times> world" where
  "attempt_once e idx st text tg n w =
     (let w0 = tick e w in
      if w_ctx w0 \<noteq> None then (Inl aborted, w0)
      else case attempt_wait e idx st (Suc n) w0 of
        (False, w1) \<Rightarrow> (Inl aborted, w1)
      | (True, w1) \<Rightarrow>
          (let (res, w2) = attempt e st text (Suc n) tg w1
           in (attempt_outcome res, upd e (record_attempt idx (Suc n) (decision (Suc n) st tg res) res) w2)))"

text \<open>The inner loop: at most \<open>a\<close> more attempts on one target.\<close>

fun try_target ::
  "env \<Rightarrow> nat \<Rightarrow> step \<Rightarrow> string \<Rightarrow> target \<Rightarrow> nat \<Rightarrow> nat \<Rightarrow> string \<times> string \<Rightarrow> world
     \<Rightarrow> (step_result + nat \<times> (string \<times> string)) \<times> world" where
  "try_target e idx st text tg 0 n lst w = (Inr (n, lst), w)"
| "try_target e idx st text tg (Suc a) n lst w =
     (case attempt_once e idx st text tg n w of
        (Inl res, w') \<Rightarrow> (Inl res, w')
      | (Inr lst', w') \<Rightarrow> try_target e idx st text tg a (Suc n) lst' w')"

text \<open>The outer loop over the primary target and the approved fallback pools.\<close>

fun try_targets ::
  "env \<Rightarrow> nat \<Rightarrow> step \<Rightarrow> string \<Rightarrow> nat \<Rightarrow> target list \<Rightarrow> nat \<Rightarrow> string \<times> string \<Rightarrow> world \<Rightarrow> step_result \<times> world" where
  "try_targets e idx st text a [] n lst w =
     ((if fst lst = [] then \<lparr>sr_out = [], sr_code = CodeNoEligible, sr_msg = ''no eligible runtime''\<rparr>
       else \<lparr>sr_out = [], sr_code = fst lst, sr_msg = snd lst\<rparr>), w)"
| "try_targets e idx st text a (tg # tgs) n lst w =
     (let w0 = (if tg_fallback tg then
                  emit e ''fallback.selected'' [(''step_id'', JStr (st_StepID st)), (''pool_id'', JStr (tg_poolID tg))] w
                else w)
      in case try_target e idx st text tg a n lst w0 of
           (Inl res, w') \<Rightarrow> (res, w')
         | (Inr (n', lst'), w') \<Rightarrow> try_targets e idx st text a tgs n' lst' w')"

definition max_attempts :: "step \<Rightarrow> int" where
  "max_attempts st = (case st_RetryPolicy st of None \<Rightarrow> DefaultMaxAttempts | Some rp \<Rightarrow> rp_MaxAttempts rp)"

definition targets :: "step \<Rightarrow> target list" where
  "targets st = \<lparr>tg_poolID = rt_PoolID (st_RuntimeTarget st), tg_fallback = False\<rparr>
     # (case st_FallbackPolicy st of None \<Rightarrow> []
        | Some fp \<Rightarrow> map (\<lambda>p. \<lparr>tg_poolID = p, tg_fallback = True\<rparr>) (fp_AllowedPoolIDs fp))"

definition runStep :: "env \<Rightarrow> nat \<Rightarrow> step \<Rightarrow> string \<Rightarrow> world \<Rightarrow> step_result \<times> world" where
  "runStep e idx st text w = try_targets e idx st text (nat (max_attempts st)) (targets st) 0 ([], []) w"

section \<open>Finishing a run\<close>

text \<open>The update of \<open>failRun\<close>: the status, the skipped steps and the token totals (64-bit sums).\<close>

definition skip_from :: "nat \<Rightarrow> step_state list \<Rightarrow> step_state list" where
  "skip_from n ss = map (\<lambda>(j, s). if n \<le> j \<and> ss_Status s = StepPending then s\<lparr>ss_Status := StepSkipped\<rparr> else s)
     (enumerate 0 ss)"

definition token_sum :: "(step_state \<Rightarrow> int) \<Rightarrow> step_state list \<Rightarrow> int" where
  "token_sum f ss = foldl (\<lambda>n s. i64 (n + f s)) 0 ss"

definition fail_update :: "nat \<Rightarrow> string \<Rightarrow> time \<Rightarrow> run \<Rightarrow> run" where
  "fail_update nextStep code done r =
     (let ss = skip_from nextStep (r_Steps r)
      in r\<lparr>r_Status := RunFailed, r_ErrorCode := code, r_CompletedAt := Some done, r_Steps := ss,
           r_InputTokens := token_sum ss_InputTokens ss, r_OutputTokens := token_sum ss_OutputTokens ss\<rparr>)"

definition failRun :: "env \<Rightarrow> nat \<Rightarrow> string \<Rightarrow> string \<Rightarrow> world \<Rightarrow> world" where
  "failRun e nextStep code msg w =
     (let w1 = upd e (fail_update nextStep code (e_now e (w_tick w))) w;
          w2 = emit e ''workflow.failed'' (run_id_data (w_run w1)
                 @ [(''error_code'', JStr code), (''message'', JStr msg)]) w1
      in close_done w2)"

definition interrupted_step :: "step_state \<Rightarrow> step_state" where
  "interrupted_step s =
     (if ss_Status s = StepPending then s\<lparr>ss_Status := StepSkipped\<rparr>
      else if ss_Status s = StepRunning \<or> ss_Status s = StepRetrying then s\<lparr>ss_Status := StepCancelled\<rparr>
      else s)"

definition interrupt_update :: "nat \<Rightarrow> string \<Rightarrow> string \<Rightarrow> time \<Rightarrow> run \<Rightarrow> run" where
  "interrupt_update stepIdx status code done r =
     r\<lparr>r_Status := status, r_ErrorCode := code, r_CompletedAt := Some done,
       r_Steps := map (\<lambda>(j, s). if stepIdx \<le> j then interrupted_step s else s) (enumerate 0 (r_Steps r))\<rparr>"

definition finishInterrupted :: "env \<Rightarrow> nat \<Rightarrow> ctx_err \<Rightarrow> world \<Rightarrow> world" where
  "finishInterrupted e stepIdx cause w =
     (let w0 = tick e w;
          canc = (r_Status (w_run w0) = RunCancelling \<or> cause = Canceled);
          status = (if canc then RunCancelled else RunTimedOut);
          code = (if canc then CodeCancelled else CodeStepTimeout);
          evt = (if canc then ''workflow.cancelled'' else ''workflow.failed'');
          w1 = upd e (interrupt_update stepIdx status code (e_now e (w_tick w0))) w0;
          w2 = emit e evt (run_id_data (w_run w1) @ [(''error_code'', JStr code)]) w1
      in close_done w2)"

section \<open>The run\<close>

definition template_text :: "(string \<times> string) list \<Rightarrow> string" where
  "template_text m = (case map_of m ''text'' of None \<Rightarrow> [] | Some t \<Rightarrow> t)"

fun template_error_text :: "template_error \<Rightarrow> string" where
  "template_error_text Malformed = ''malformed template reference (unclosed or invalid {{...}})''"
| "template_error_text (UndefinedReference ps) = ''undefined template reference: '' @ join_with '', '' ps"

definition input_vars :: "(string \<times> string) list \<Rightarrow> (string \<Rightarrow> string option) \<Rightarrow> (string \<Rightarrow> string option)" where
  "input_vars inputs vars = fold (\<lambda>(k, v) m. m(''inputs.'' @ k \<mapsto> v)) inputs vars"

definition init_vars :: "flow_def \<Rightarrow> (string \<times> string) list \<Rightarrow> string \<Rightarrow> (string \<Rightarrow> string option)" where
  "init_vars def inputs rid =
     input_vars inputs
       (input_vars (case fd_InputsSchema def of None \<Rightarrow> [] | Some is \<Rightarrow> map (\<lambda>(n, _). (n, [])) (is_Properties is))
          [''run.id'' \<mapsto> rid])"

definition int_data :: "string \<Rightarrow> int \<Rightarrow> string \<times> json" where
  "int_data k i = (k, JNum (int_str i))"

definition complete_update :: "time \<Rightarrow> int \<Rightarrow> int \<Rightarrow> string \<Rightarrow> run \<Rightarrow> run" where
  "complete_update done totalIn totalOut final r =
     r\<lparr>r_Status := RunCompleted, r_CompletedAt := Some done, r_InputTokens := totalIn,
       r_OutputTokens := totalOut, r_output := final\<rparr>"

text \<open>The end of a run whose steps all completed.\<close>

definition finish_run :: "env \<Rightarrow> flow_def \<Rightarrow> (string \<Rightarrow> string option) \<Rightarrow> int \<Rightarrow> int \<Rightarrow> world \<Rightarrow> world" where
  "finish_run e def vars totalIn totalOut w =
     (case RenderTemplate (template_text (fd_OutputMapping def)) vars of
        Inl err \<Rightarrow> failRun e (length (fd_Steps def)) CodeTemplateRender (template_error_text err) w
      | Inr final \<Rightarrow>
          (let done = e_now e (w_tick w);
               w1 = upd e (complete_update done totalIn totalOut final) w;
               w2 = emit e ''workflow.completed'' (run_id_data (w_run w1)
                      @ [int_data ''input_tokens'' totalIn, int_data ''output_tokens'' totalOut,
                         int_data ''duration_ms'' ((done - r_CreatedAt (w_run w1)) div msec)]) w1
           in close_done w2))"

text \<open>A step that failed: the run was interrupted, or the step is the error.\<close>

definition step_failed :: "env \<Rightarrow> nat \<Rightarrow> step \<Rightarrow> step_result \<Rightarrow> world \<Rightarrow> world" where
  "step_failed e i st res w =
     (let w0 = tick e w in
      case w_ctx w0 of
        Some cause \<Rightarrow> finishInterrupted e i cause w0
      | None \<Rightarrow>
          (let done = e_now e (w_tick w0);
               w1 = upd e (upd_step i (\<lambda>s. s\<lparr>ss_Status := (if sr_code res = CodeStepTimeout then StepTimedOut else StepFailed),
                      ss_ErrorCode := sr_code res, ss_CompletedAt := Some done\<rparr>)) w0;
               w2 = emit e ''step.failed'' [(''step_id'', JStr (st_StepID st)), (''error_code'', JStr (sr_code res))] w1
           in failRun e (Suc i) (sr_code res) (sr_msg res) w2))"

definition step_completed :: "env \<Rightarrow> nat \<Rightarrow> step \<Rightarrow> time \<Rightarrow> world \<Rightarrow> world" where
  "step_completed e i st start w =
     (let done = e_now e (w_tick w);
          w1 = upd e (upd_step i (\<lambda>s. s\<lparr>ss_Status := StepCompleted, ss_CompletedAt := Some done\<rparr>)) w;
          s = r_Steps (w_run w1) ! i
      in emit e ''step.completed'' [(''step_id'', JStr (st_StepID st)), int_data ''attempts'' (ss_Attempts s),
           int_data ''input_tokens'' (ss_InputTokens s), int_data ''output_tokens'' (ss_OutputTokens s),
           int_data ''duration_ms'' ((e_now e (w_tick w1) - start) div msec)] w1)"

definition step_started :: "env \<Rightarrow> nat \<Rightarrow> step \<Rightarrow> world \<Rightarrow> world" where
  "step_started e i st w =
     (let start = e_now e (w_tick w);
          w1 = upd e (upd_step i (\<lambda>s. s\<lparr>ss_Status := StepRunning, ss_StartedAt := Some start\<rparr>)) w
      in emit e ''step.started'' [(''step_id'', JStr (st_StepID st))] w1)"

text \<open>The loop over the steps, from step \<open>i\<close> on, with the variables and token totals so far.\<close>

fun run_steps ::
  "env \<Rightarrow> flow_def \<Rightarrow> nat \<Rightarrow> step list \<Rightarrow> (string \<Rightarrow> string option) \<Rightarrow> int \<Rightarrow> int \<Rightarrow> world \<Rightarrow> world" where
  "run_steps e def i [] vars totalIn totalOut w = finish_run e def vars totalIn totalOut w"
| "run_steps e def i (st # sts) vars totalIn totalOut w =
     (if lim_MaxTotalTokens (fd_Limits def) > 0 \<and> i64 (totalIn + totalOut) \<ge> lim_MaxTotalTokens (fd_Limits def) then
        failRun e i CodeBudgetExceeded ''max_total_tokens budget exhausted'' w
      else
        let w0 = tick e w in
        case w_ctx w0 of
          Some cause \<Rightarrow> finishInterrupted e i cause w0
        | None \<Rightarrow>
            (case RenderTemplate (template_text (st_InputMapping st)) vars of
               Inl err \<Rightarrow> failRun e i CodeTemplateRender (template_error_text err) w0
             | Inr text \<Rightarrow>
                 if int (length text) > MaxTemplateOutBytes then
                   failRun e i CodeTemplateRender ''rendered input exceeds size limit'' w0
                 else
                   let start = e_now e (w_tick w0);
                       (res, w1) = runStep e i st text (step_started e i st w0)
                   in if sr_code res \<noteq> [] then step_failed e i st res w1
                      else
                        let w2 = step_completed e i st start w1;
                            s = r_Steps (w_run w2) ! i
                        in run_steps e def (Suc i) sts (vars(''steps.'' @ st_StepID st @ ''.output'' \<mapsto> sr_out res))
                             (i64 (totalIn + ss_InputTokens s)) (i64 (totalOut + ss_OutputTokens s)) w2))"

definition execute :: "env \<Rightarrow> flow_def \<Rightarrow> (string \<times> string) list \<Rightarrow> world \<Rightarrow> world" where
  "execute e def inputs w =
     (let now = e_now e (w_tick w);
          w1 = upd e (\<lambda>r. r\<lparr>r_Status := RunRunning, r_StartedAt := Some now, r_cancelFn := True\<rparr>) w;
          w2 = emit e ''workflow.started'' (run_id_data (w_run w1)) w1
      in run_steps e def 0 (fd_Steps def) (init_vars def inputs (r_ID (w_run w2))) 0 0 w2)"

end
