(* ===== verification/WorkflowService.thy ===== *)
theory WorkflowService
  imports FlowStore RunStore WorkflowRun
begin

text \<open>
  The workflow service (\<open>platform/workflow/service.go\<close> 20-335): the flow operations with their
  validation, the start of a run (version, inputs, idempotency, capacity, creation) and its
  cancellation. Each operation calls the stores one after the other; the interleavings of
  \<open>PublishFlow\<close> and of two starts with one key are treated by properties about the store states
  between the calls.

  The text of error messages is left out, the codes are kept. Parameters, as in the stores: \<open>nf\<close>
  and \<open>sha\<close> (reprinting and digest of documents) and \<open>hex\<close>, the hexadecimal SHA-256 of bytes.
\<close>

definition CodeNotFound :: string where [go_defs]: "CodeNotFound = ''workflow_not_found''"
definition CodeNotPublished :: string where [go_defs]: "CodeNotPublished = ''workflow_not_published''"
definition CodeIdemConflict :: string where [go_defs]: "CodeIdemConflict = ''idempotency_conflict''"
definition CodeRevConflict :: string where [go_defs]: "CodeRevConflict = ''workflow_version_conflict''"
definition CodeCapacity :: string where [go_defs]: "CodeCapacity = ''workflow_capacity_exhausted''"
definition CodeInternal :: string where [go_defs]: "CodeInternal = ''workflow_internal_error''"

record run_err =
  re_Code :: string
  re_RetryAfter :: int

definition mk_run_err :: "string \<Rightarrow> int \<Rightarrow> run_err" where
  "mk_run_err c r = \<lparr>re_Code = c, re_RetryAfter = r\<rparr>"

datatype sv_error = EParse parse_error | EDef def_error | EStore flow_error | EAlias string | EAliasChanged

record service =
  sv_flows :: flow_store
  sv_runs :: run_store
  sv_resolver :: "resolver option"
  sv_sem :: nat
  sv_maxRuns :: nat

section \<open>Flows\<close>

definition SingleInputName ::
  "(string \<Rightarrow> string) \<Rightarrow> (json \<Rightarrow> string) \<Rightarrow> service \<Rightarrow> string \<Rightarrow> run_err + string" where
  "SingleInputName nf sha s alias =
     (case ResolveAlias (sv_flows s) alias of
        Inl _ \<Rightarrow> Inl (mk_run_err CodeNotFound 0)
      | Inr (flowID, latest) \<Rightarrow>
          (case GetVersion nf sha (sv_flows s) flowID latest of
             Inl _ \<Rightarrow> Inl (mk_run_err CodeNotPublished 0)
           | Inr fv \<Rightarrow>
               (case ParseDefinition (Doc (fv_Definition fv)) [] of
                  Inl _ \<Rightarrow> Inl (mk_run_err CodeInternal 0)
                | Inr def \<Rightarrow>
                    (case fd_InputsSchema def of
                       None \<Rightarrow> Inl (mk_run_err CodeInternal 0)
                     | Some is \<Rightarrow>
                         if length (is_Required is) = 1 then Inr (is_Required is ! 0)
                         else if is_Required is = [] \<and> length (is_Properties is) = 1 then Inr (fst (is_Properties is ! 0))
                         else Inl (mk_run_err CodeInputValidation 0)))))"

definition ValidateDefinition :: "service \<Rightarrow> body \<Rightarrow> string \<Rightarrow> sv_error list + flow_def" where
  "ValidateDefinition s raw rest =
     (case ParseDefinition raw rest of
        Inl err \<Rightarrow> Inl [EParse err]
      | Inr def \<Rightarrow>
          (let errs = Validate def (sv_resolver s) in if errs \<noteq> [] then Inl (map EDef errs) else Inr def))"

definition CreateFlow ::
  "(string \<Rightarrow> string) \<Rightarrow> (json \<Rightarrow> string) \<Rightarrow> body \<Rightarrow> string \<Rightarrow> string \<Rightarrow> time \<Rightarrow> (nat \<Rightarrow> bool)
     \<Rightarrow> service \<Rightarrow> (sv_error list + flow_meta) \<times> service" where
  "CreateFlow nf sha raw rest fid now w s =
     (case ParseDefinition raw rest of
        Inl err \<Rightarrow> (Inl [EParse err], s)
      | Inr def \<Rightarrow>
          if \<not> alias_ok (fd_Alias def) then (Inl [EAlias (fd_Alias def)], s)
          else
            (let (res, fs) = Create_flow nf sha raw (fd_Alias def) (fd_Name def) fid now w (sv_flows s)
             in (case res of Inl err \<Rightarrow> Inl [EStore err] | Inr m \<Rightarrow> Inr m, s\<lparr>sv_flows := fs\<rparr>)))"

definition UpdateFlow ::
  "(string \<Rightarrow> string) \<Rightarrow> (json \<Rightarrow> string) \<Rightarrow> string \<Rightarrow> int \<Rightarrow> body \<Rightarrow> string \<Rightarrow> time \<Rightarrow> (nat \<Rightarrow> bool)
     \<Rightarrow> service \<Rightarrow> (sv_error list + draft) \<times> service" where
  "UpdateFlow nf sha fid expectRevision raw rest now w s =
     (case ParseDefinition raw rest of
        Inl err \<Rightarrow> (Inl [EParse err], s)
      | Inr def \<Rightarrow>
          (case Get_flow (sv_flows s) fid of
             Inl err \<Rightarrow> (Inl [EStore err], s)
           | Inr m \<Rightarrow>
               if fd_Alias def \<noteq> fm_Alias m then (Inl [EAliasChanged], s)
               else
                 (let (res, fs) = UpdateDraft nf sha fid expectRevision raw now w (sv_flows s)
                  in (case res of Inl err \<Rightarrow> Inl [EStore err] | Inr d \<Rightarrow> Inr d, s\<lparr>sv_flows := fs\<rparr>))))"

text \<open>\<open>PublishFlow\<close> reads and validates the draft, then publishes at the expected revision.\<close>

definition publish_check :: "string \<Rightarrow> int \<Rightarrow> service \<Rightarrow> sv_error list + flow_def" where
  "publish_check fid expectRevision s =
     (case GetDraft (sv_flows s) fid of
        Inl err \<Rightarrow> Inl [EStore err]
      | Inr d \<Rightarrow>
          if dr_Revision d \<noteq> expectRevision then Inl [EStore ErrRevisionConflict]
          else ValidateDefinition s (Doc (dr_Definition d)) [])"

definition PublishFlow ::
  "string \<Rightarrow> int \<Rightarrow> time \<Rightarrow> (nat \<Rightarrow> bool) \<Rightarrow> service \<Rightarrow> (sv_error list + flow_version) \<times> service" where
  "PublishFlow fid expectRevision now w s =
     (case publish_check fid expectRevision s of
        Inl errs \<Rightarrow> (Inl errs, s)
      | Inr _ \<Rightarrow>
          (let (res, fs) = Publish fid expectRevision now w (sv_flows s)
           in (case res of Inl err \<Rightarrow> Inl [EStore err] | Inr fv \<Rightarrow> Inr fv, s\<lparr>sv_flows := fs\<rparr>)))"

section \<open>Starting and cancelling a run\<close>

definition hashParts :: "(string \<Rightarrow> string) \<Rightarrow> string list \<Rightarrow> string" where
  "hashParts hex parts = hex (concat (map (\<lambda>p. p @ [CHR 0x00]) parts))"

text \<open>The bytes that \<open>canonicalInputs\<close> digests: keys in order, each key and value closed by a NUL.\<close>

definition canonical_bytes :: "(string \<times> string) list \<Rightarrow> string" where
  "canonical_bytes inputs = concat (map (\<lambda>(k, v). k @ [CHR 0x00] @ v @ [CHR 0x00]) (sort_key fst inputs))"

definition canonicalInputs :: "(string \<Rightarrow> string) \<Rightarrow> (string \<times> string) list \<Rightarrow> string" where
  "canonicalInputs hex inputs = hex (canonical_bytes inputs)"

record start_params =
  sp_Alias :: string
  sp_FlowVersion :: int
  sp_Inputs :: "(string \<times> string) list"
  sp_ResponseMode :: string
  sp_KeyID :: string
  sp_RequestID :: string
  sp_DataClass :: string
  sp_IdemKey :: string

definition pending_step :: "step \<Rightarrow> step_state" where
  "pending_step st = \<lparr>ss_StepID = st_StepID st, ss_Status = StepPending, ss_Attempts = 0, ss_Decisions = [],
     ss_InputTokens = 0, ss_OutputTokens = 0, ss_ErrorCode = [], ss_StartedAt = None, ss_CompletedAt = None\<rparr>"

definition new_run :: "start_params \<Rightarrow> string \<Rightarrow> int \<Rightarrow> string \<Rightarrow> flow_def \<Rightarrow> run" where
  "new_run p flowID version checksum def =
     \<lparr>r_ID = [], r_FlowID = flowID, r_Alias = sp_Alias p, r_FlowVersion = version, r_FlowChecksum = checksum,
      r_Status = [], r_ResponseMode = sp_ResponseMode p, r_DataClass = sp_DataClass p, r_KeyID = sp_KeyID p,
      r_RequestID = sp_RequestID p, r_Steps = map pending_step (fd_Steps def), r_InputTokens = 0, r_OutputTokens = 0,
      r_ErrorCode = [], r_Warnings = [], r_CreatedAt = 0, r_StartedAt = None, r_CompletedAt = None, r_output = [],
      r_seq = 0, r_events = [], r_subs = None, r_nextSub = 0, r_done = None, r_cancelFn = False, r_curReqID = []\<rparr>"

text \<open>
  The first half of \<open>StartRun\<close>: the version, its definition, the inputs, and the run of a repeated
  idempotency key (\<open>Some\<close>) or the digests to record the new run under (\<open>None\<close>).
\<close>

record start_plan =
  pl_flowID :: string
  pl_version :: int
  pl_checksum :: string
  pl_def :: flow_def
  pl_idem :: "(string \<times> string) option"
  pl_existing :: "run option"

definition start_plan ::
  "(string \<Rightarrow> string) \<Rightarrow> (json \<Rightarrow> string) \<Rightarrow> (string \<Rightarrow> string) \<Rightarrow> start_params \<Rightarrow> time \<Rightarrow> service
     \<Rightarrow> run_err + start_plan" where
  "start_plan nf sha hex p now s =
     (case ResolveAlias (sv_flows s) (sp_Alias p) of
        Inl _ \<Rightarrow> Inl (mk_run_err CodeNotFound 0)
      | Inr (flowID, latest) \<Rightarrow>
          (let version = (if sp_FlowVersion p = 0 then latest else sp_FlowVersion p) in
           case GetVersion nf sha (sv_flows s) flowID version of
             Inl _ \<Rightarrow> Inl (mk_run_err CodeNotPublished 0)
           | Inr fv \<Rightarrow>
               (case ParseDefinition (Doc (fv_Definition fv)) [] of
                  Inl _ \<Rightarrow> Inl (mk_run_err CodeInternal 0)
                | Inr def \<Rightarrow>
                    if ValidateInputs def (sp_Inputs p) \<noteq> None then Inl (mk_run_err CodeInputValidation 0)
                    else
                      let pl = \<lparr>pl_flowID = flowID, pl_version = version, pl_checksum = fv_Checksum fv, pl_def = def,
                                pl_idem = None, pl_existing = None\<rparr> in
                      if sp_IdemKey p = [] then Inr pl
                      else
                        let h = hashParts hex [sp_KeyID p, sp_IdemKey p];
                            sm = hashParts hex [sp_Alias p, int_str version, canonicalInputs hex (sp_Inputs p), sp_ResponseMode p];
                            (runID, conflict) = IdemCheck (sv_runs s) h sm now
                        in if conflict then Inl (mk_run_err CodeIdemConflict 0)
                           else
                             Inr (pl\<lparr>pl_idem := Some (h, sm),
                                     pl_existing := (if runID = [] then None
                                       else case Get_run (sv_runs s) runID of Inl _ \<Rightarrow> None | Inr r \<Rightarrow> Some r)\<rparr>))))"

text \<open>\<open>StartRun\<close>: the run, and the definition the runner is started with when the run is new.\<close>

definition StartRun ::
  "(string \<Rightarrow> string) \<Rightarrow> (json \<Rightarrow> string) \<Rightarrow> (string \<Rightarrow> string) \<Rightarrow> start_params \<Rightarrow> string \<Rightarrow> time \<Rightarrow> bool \<Rightarrow> bool
     \<Rightarrow> service \<Rightarrow> (run_err + run \<times> flow_def option) \<times> service" where
  "StartRun nf sha hex p rid now ok ok_event s =
     (case start_plan nf sha hex p now s of
        Inl err \<Rightarrow> (Inl err, s)
      | Inr pl \<Rightarrow>
          (case pl_existing pl of
             Some r \<Rightarrow> (Inr (r, None), s)
           | None \<Rightarrow>
               if sv_sem s \<ge> sv_maxRuns s then (Inl (mk_run_err CodeCapacity 10), s)
               else
                 (let (res, rs) = Create_run (new_run p (pl_flowID pl) (pl_version pl) (pl_checksum pl) (pl_def pl))
                                    rid now ok (sv_runs s)
                  in case res of
                       Inl _ \<Rightarrow> (Inl (mk_run_err CodeInternal 0), s\<lparr>sv_runs := rs\<rparr>)
                     | Inr r \<Rightarrow>
                         (let rs1 = (case pl_idem pl of None \<Rightarrow> rs | Some (h, sm) \<Rightarrow> IdemRecord h sm rid now rs);
                              data = [(''run_id'', JStr rid), (''flow_version'', JNum (int_str (pl_version pl)))];
                              rs2 = Emit rid ''workflow.queued'' data now ok_event rs1
                          in (Inr (emit_run ''workflow.queued'' data now r, Some (pl_def pl)),
                              s\<lparr>sv_runs := rs2, sv_sem := Suc (sv_sem s)\<rparr>)))))"

text \<open>The runner gives its slot back when it returns.\<close>

definition release_slot :: "service \<Rightarrow> service" where
  "release_slot s = s\<lparr>sv_sem := sv_sem s - 1\<rparr>"

text \<open>
  \<open>CancelRun\<close>: \<open>None\<close> when the run is unknown or finished; otherwise whether a cancel function was
  found and the request to cancel at the executor. The event follows as a second step.
\<close>

definition CancelRun :: "string \<Rightarrow> bool \<Rightarrow> run_store \<Rightarrow> (run_error + (bool \<times> string) option) \<times> run_store" where
  "CancelRun rid ok s =
     (case Get_run s rid of
        Inl err \<Rightarrow> (Inl err, s)
      | Inr r \<Rightarrow>
          (let s' = Update rid cancel_mark ok s
           in if Terminal (r_Status r) then (Inr None, s')
              else (Inr (Some (r_cancelFn r, r_curReqID r)), s')))"

definition cancel_event :: "string \<Rightarrow> time \<Rightarrow> bool \<Rightarrow> run_store \<Rightarrow> run_store" where
  "cancel_event rid now ok s = Emit rid ''workflow.cancelling'' [(''run_id'', JStr rid)] now ok s"

end
