(* ===== verification/WorkflowRunProps.thy ===== *)
theory WorkflowRunProps
  imports WorkflowRun
begin

text \<open>
  The correctness of the workflow runner: what concurrent interference cannot change, the contract
  of a step (the locale \<open>step_invariant\<close>, interpreted on the invariants of the runner), the final
  state of a run, the bound and the targets of its executor calls, the templates of a validated
  flow, and a cancellation that comes too early.
\<close>

section \<open>What interference leaves alone\<close>

lemma store_run_simps [simp]:
  "w_run (store_run e r w) = r" "w_ctx (store_run e r w) = w_ctx w" "w_tick (store_run e r w) = w_tick w"
  "w_calls (store_run e r w) = w_calls w" "w_closes (store_run e r w) = w_closes w"
  "w_marked (store_run e r w) = w_marked w" "w_armed (store_run e r w) = w_armed w"
  by (simp_all add: store_run_def)

lemma log_event_simps [simp]:
  "w_run (log_event e ty data w) = emit_run ty data (e_now e (w_tick w)) (w_run w)"
  "w_ctx (log_event e ty data w) = w_ctx w" "w_tick (log_event e ty data w) = w_tick w"
  "w_calls (log_event e ty data w) = w_calls w" "w_closes (log_event e ty data w) = w_closes w"
  by (simp_all add: log_event_def Let_def)

lemma cancel_mark_simps [simp]:
  "r_ID (cancel_mark r) = r_ID r" "r_Steps (cancel_mark r) = r_Steps r" "r_seq (cancel_mark r) = r_seq r"
  "r_events (cancel_mark r) = r_events r" "r_done (cancel_mark r) = r_done r" "r_output (cancel_mark r) = r_output r"
  "r_Alias (cancel_mark r) = r_Alias r" "r_DataClass (cancel_mark r) = r_DataClass r"
  "r_cancelFn (cancel_mark r) = r_cancelFn r" "r_ErrorCode (cancel_mark r) = r_ErrorCode r"
  "r_InputTokens (cancel_mark r) = r_InputTokens r" "r_OutputTokens (cancel_mark r) = r_OutputTokens r"
  "Terminal (r_Status (cancel_mark r)) = Terminal (r_Status r)"
  "r_Status (cancel_mark r) \<in> {r_Status r, RunCancelling}"
  by (simp_all add: cancel_mark_def)

text \<open>Any observation that each kind of interference keeps is kept by a tick.\<close>

lemma tick_keeps:
  assumes "\<And>i w. P w \<Longrightarrow> P (interfere e i w)" "\<And>w n. P w \<Longrightarrow> P (w\<lparr>w_tick := n\<rparr>)" "P w"
  shows "P (tick e w)"
proof -
  have "P (fold (interfere e) xs w)" if "P w" for xs w
    using that by (induction xs arbitrary: w) (simp_all add: assms(1))
  with assms show ?thesis by (simp add: tick_def)
qed

lemma tick_same:
  assumes "\<And>i w. f (interfere e i w) = f w" "\<And>w n. f (w\<lparr>w_tick := n\<rparr>) = f w"
  shows "f (tick e w) = f w"
  by (rule tick_keeps [where P = "\<lambda>w'. f w' = f w"]) (simp_all add: assms)

lemma interfere_same [simp]:
  "r_ID (w_run (interfere e i w)) = r_ID (w_run w)"
  "r_Steps (w_run (interfere e i w)) = r_Steps (w_run w)"
  "r_done (w_run (interfere e i w)) = r_done (w_run w)"
  "r_output (w_run (interfere e i w)) = r_output (w_run w)"
  "r_ErrorCode (w_run (interfere e i w)) = r_ErrorCode (w_run w)"
  "r_InputTokens (w_run (interfere e i w)) = r_InputTokens (w_run w)"
  "r_OutputTokens (w_run (interfere e i w)) = r_OutputTokens (w_run w)"
  "r_cancelFn (w_run (interfere e i w)) = r_cancelFn (w_run w)"
  "Terminal (r_Status (w_run (interfere e i w))) = Terminal (r_Status (w_run w))"
  "w_calls (interfere e i w) = w_calls w"
  "w_closes (interfere e i w) = w_closes w"
  by (cases i; simp add: Let_def)+

lemma tick_simps [simp]:
  "r_ID (w_run (tick e w)) = r_ID (w_run w)"
  "r_Steps (w_run (tick e w)) = r_Steps (w_run w)"
  "r_done (w_run (tick e w)) = r_done (w_run w)"
  "r_output (w_run (tick e w)) = r_output (w_run w)"
  "r_ErrorCode (w_run (tick e w)) = r_ErrorCode (w_run w)"
  "r_InputTokens (w_run (tick e w)) = r_InputTokens (w_run w)"
  "r_OutputTokens (w_run (tick e w)) = r_OutputTokens (w_run w)"
  "r_cancelFn (w_run (tick e w)) = r_cancelFn (w_run w)"
  "Terminal (r_Status (w_run (tick e w))) = Terminal (r_Status (w_run w))"
  "w_calls (tick e w) = w_calls w"
  "w_closes (tick e w) = w_closes w"
  by (rule tick_same; simp)+

text \<open>A context that is done stays done.\<close>

lemma interfere_ctx: "w_ctx w \<noteq> None \<Longrightarrow> w_ctx (interfere e i w) \<noteq> None"
  by (cases i) (auto simp: Let_def)

lemma tick_ctx: "w_ctx w \<noteq> None \<Longrightarrow> w_ctx (tick e w) \<noteq> None"
  by (rule tick_keeps [where P = "\<lambda>w. w_ctx w \<noteq> None"]) (simp_all add: interfere_ctx)

lemma upd_simps [simp]:
  "w_run (upd e f w) = f (w_run (tick e w))" "w_calls (upd e f w) = w_calls w" "w_closes (upd e f w) = w_closes w"
  "w_ctx (upd e f w) = w_ctx (tick e w)"
  by (simp_all add: upd_def Let_def)

lemma emit_simps [simp]:
  "w_run (emit e ty data w) = emit_run ty data (e_now e (w_tick (tick e w))) (w_run (tick e w))"
  "w_calls (emit e ty data w) = w_calls w" "w_closes (emit e ty data w) = w_closes w"
  "w_ctx (emit e ty data w) = w_ctx (tick e w)"
  by (simp_all add: emit_def)

lemma call_executor_simps [simp]:
  "w_run (snd (call_executor e req w)) = w_run (tick e w)"
  "w_calls (snd (call_executor e req w)) = w_calls w @ [(req, fst (call_executor e req w))]"
  "w_closes (snd (call_executor e req w)) = w_closes w"
  "w_ctx (snd (call_executor e req w)) = w_ctx (tick e w)"
  by (simp_all add: call_executor_def Let_def)

section \<open>Events of a run that goes on\<close>

definition terminal_event :: "event \<Rightarrow> bool" where
  "terminal_event ev \<longleftrightarrow> ev_Type ev \<in> {''workflow.completed'', ''workflow.failed'', ''workflow.cancelled''}"

definition live :: "world \<Rightarrow> bool" where
  "live w \<longleftrightarrow> seq_ok (w_run w) \<and> list_all (\<lambda>ev. \<not> terminal_event ev) (r_events (w_run w))
     \<and> w_closes w = 0 \<and> r_done (w_run w) = Some False \<and> \<not> Terminal (r_Status (w_run w))"

lemma live_log: "live w \<Longrightarrow> ty \<notin> {''workflow.completed'', ''workflow.failed'', ''workflow.cancelled''} \<Longrightarrow>
    live (log_event e ty data w)"
  by (simp add: live_def keeps terminal_event_def mk_event_def)

lemma live_interfere: "live w \<Longrightarrow> live (interfere e i w)"
  by (cases i) (auto simp: live_def Let_def seq_ok_def cancel_mark_def keeps terminal_event_def mk_event_def
      upto_rec2)

lemma live_tick [keeps]: "live w \<Longrightarrow> live (tick e w)"
  by (rule tick_keeps [where P = live]) (simp_all add: live_interfere, simp add: live_def)

lemma live_emit [keeps]: "live w \<Longrightarrow> ty \<notin> {''workflow.completed'', ''workflow.failed'', ''workflow.cancelled''} \<Longrightarrow>
    live (emit e ty data w)"
  unfolding emit_def by (rule live_log [OF live_tick])

text \<open>An update that keeps identity, events, completion flag and liveness of the status.\<close>

definition live_fn :: "(run \<Rightarrow> run) \<Rightarrow> bool" where
  "live_fn f \<longleftrightarrow> (\<forall>r. r_seq (f r) = r_seq r \<and> r_events (f r) = r_events r \<and> r_done (f r) = r_done r
     \<and> (\<not> Terminal (r_Status r) \<longrightarrow> \<not> Terminal (r_Status (f r))))"

lemma live_upd [keeps]: "live w \<Longrightarrow> live_fn f \<Longrightarrow> live (upd e f w)"
  using live_tick [of w e] by (simp add: live_def live_fn_def seq_ok_def)

lemma live_fns [simp]:
  "live_fn (upd_step i f)" "live_fn (record_attempt i n dec res)" "live_fn (\<lambda>r. r\<lparr>r_curReqID := q\<rparr>)"
  by (simp_all add: live_fn_def upd_step_def record_attempt_def)

section \<open>Invariants of a step\<close>

text \<open>
  What \<open>runStep\<close> does to the world is a sequence of five kinds of actions; a property of
  worlds that each of them keeps is kept by the step.
\<close>

locale step_invariant =
  fixes e :: env and idx :: nat and st :: step and I :: "world \<Rightarrow> bool"
  assumes I_tick: "I w \<Longrightarrow> I (tick e w)"
    and I_reqid: "I w \<Longrightarrow> I (upd e (\<lambda>r. r\<lparr>r_curReqID := q\<rparr>) w)"
    and I_step: "I w \<Longrightarrow> I (upd e (upd_step idx (\<lambda>s. s\<lparr>ss_Status := StepRetrying\<rparr>)) w)"
    and I_record: "I w \<Longrightarrow> I (upd e (record_attempt idx n dec res) w)"
    and I_emit: "I w \<Longrightarrow> ty \<in> {''step.retrying'', ''fallback.selected''} \<Longrightarrow> I (emit e ty data w)"
    and I_call: "I w \<Longrightarrow> tg \<in> set (targets st) \<Longrightarrow>
      I (snd (call_executor e (attempt_request e r st text q tg now) w))"
begin

lemma attempt_keeps: "I w \<Longrightarrow> tg \<in> set (targets st) \<Longrightarrow> I (snd (attempt e st tx n tg w))"
  unfolding attempt_def Let_def
  by (auto split: prod.splits sum.splits option.splits)
    (metis I_call I_reqid snd_conv)+

lemma attempt_wait_keeps: "I w \<Longrightarrow> I (snd (attempt_wait e idx st n w))"
  unfolding attempt_wait_def Let_def by (simp add: I_tick I_step I_emit)

lemma attempt_once_keeps:
  assumes "I w" "tg \<in> set (targets st)"
  shows "I (snd (attempt_once e idx st tx tg n w))"
proof -
  obtain b w1 where w1: "attempt_wait e idx st (Suc n) (tick e w) = (b, w1)" by fastforce
  obtain res w2 where w2: "attempt e st tx (Suc n) tg w1 = (res, w2)" by fastforce
  have "I w1" using attempt_wait_keeps [OF I_tick [OF assms(1)], of "Suc n"] w1 by simp
  moreover from attempt_keeps [OF this assms(2), of tx "Suc n"] w2 have "I w2" by simp
  ultimately show ?thesis
    using w1 w2 assms(1) by (cases b) (simp_all add: attempt_once_def Let_def I_tick I_record)
qed

lemma try_target_keeps: "I w \<Longrightarrow> tg \<in> set (targets st) \<Longrightarrow> I (snd (try_target e idx st tx tg a n lst w))"
proof (induction a arbitrary: n lst w)
  case (Suc a)
  then show ?case
    using attempt_once_keeps [OF Suc.prems, of tx n]
    by (auto split: prod.splits sum.splits)
qed simp

lemma try_targets_keeps:
  "I w \<Longrightarrow> set tgs \<subseteq> set (targets st) \<Longrightarrow> I (snd (try_targets e idx st tx a tgs n lst w))"
proof (induction tgs arbitrary: n lst w)
  case (Cons tg tgs)
  have "I (if tg_fallback tg then emit e ''fallback.selected''
      [(''step_id'', JStr (st_StepID st)), (''pool_id'', JStr (tg_poolID tg))] w else w)"
    using Cons.prems(1) I_emit by simp
  from try_target_keeps [OF this, of tg tx a n lst] show ?case
    using Cons by (auto simp: Let_def split: prod.splits sum.splits)
qed simp

lemma runStep_keeps: "I w \<Longrightarrow> I (snd (runStep e idx st tx w))"
  unfolding runStep_def by (rule try_targets_keeps) simp_all

end

interpretation live: step_invariant e idx st live for e idx st
proof unfold_locales
  fix w tg r tx q t assume "live w"
  then show "live (snd (call_executor e (attempt_request e r st tx q tg t) w))"
    using live_tick [of w e] by (simp add: live_def)
qed (auto intro: keeps)

section \<open>Step states\<close>

lemma step_status_distinct [simp]:
  "StepPending \<noteq> StepRunning" "StepPending \<noteq> StepRetrying" "StepPending \<noteq> StepCompleted" "StepPending \<noteq> StepFailed"
  "StepPending \<noteq> StepSkipped" "StepPending \<noteq> StepCancelled" "StepPending \<noteq> StepTimedOut"
  "StepRunning \<noteq> StepPending" "StepRetrying \<noteq> StepPending" "StepCompleted \<noteq> StepPending" "StepFailed \<noteq> StepPending"
  "StepTimedOut \<noteq> StepPending" "StepCompleted \<noteq> StepRunning" "StepCompleted \<noteq> StepRetrying"
  "StepFailed \<noteq> StepRunning" "StepFailed \<noteq> StepRetrying" "StepTimedOut \<noteq> StepRunning" "StepTimedOut \<noteq> StepRetrying"
  "StepCompleted \<noteq> StepSkipped" "StepCompleted \<noteq> StepFailed" "StepCompleted \<noteq> StepCancelled" "StepCompleted \<noteq> StepTimedOut"
  by (simp_all add: go_defs)

text \<open>The statuses of the steps as a function of the position, split at \<open>k\<close>.\<close>

definition split_at :: "nat \<Rightarrow> (string \<Rightarrow> bool) \<Rightarrow> string \<Rightarrow> step_state list \<Rightarrow> bool" where
  "split_at k mid rest ss \<longleftrightarrow> (\<forall>j<length ss.
     (j < k \<longrightarrow> ss_Status (ss ! j) = StepCompleted) \<and> (j = k \<longrightarrow> mid (ss_Status (ss ! j)))
     \<and> (k < j \<longrightarrow> ss_Status (ss ! j) = rest))"

definition active :: "string \<Rightarrow> bool" where
  "active s \<longleftrightarrow> s \<in> {StepRunning, StepRetrying}"

definition settled :: "string \<Rightarrow> bool" where
  "settled s \<longleftrightarrow> s \<in> {StepFailed, StepTimedOut, StepCancelled, StepSkipped}"

definition broken :: "string \<Rightarrow> bool" where
  "broken s \<longleftrightarrow> s \<in> {StepFailed, StepTimedOut}"

abbreviation before_step :: "nat \<Rightarrow> world \<Rightarrow> bool" where
  "before_step i w \<equiv> split_at i (\<lambda>s. s = StepPending) StepPending (r_Steps (w_run w))"

abbreviation in_step :: "nat \<Rightarrow> world \<Rightarrow> bool" where
  "in_step i w \<equiv> split_at i active StepPending (r_Steps (w_run w))"

lemma split_at_update:
  assumes "split_at i P r ss" and "\<And>s. P (ss_Status s) \<Longrightarrow> Q (ss_Status (f s))"
  shows "split_at i Q r (ss[i := f (ss ! i)])"
  using assms by (auto simp: split_at_def nth_list_update)

lemma split_at_next:
  assumes "split_at i P StepPending ss"
  shows "split_at (Suc i) (\<lambda>s. s = StepPending) StepPending (ss[i := (ss ! i)\<lparr>ss_Status := StepCompleted, ss_CompletedAt := t\<rparr>])"
  using assms by (auto simp: split_at_def nth_list_update less_Suc_eq)

lemma in_step_record: "in_step i w \<Longrightarrow> in_step i (upd e (record_attempt i n dec res) w)"
  by (auto simp: record_attempt_def upd_step_def Let_def intro!: split_at_update)

lemma in_step_retry: "in_step i w \<Longrightarrow> in_step i (upd e (upd_step i (\<lambda>s. s\<lparr>ss_Status := StepRetrying\<rparr>)) w)"
  by (auto simp: upd_step_def active_def intro!: split_at_update)

interpretation statuses: step_invariant e idx st "in_step idx" for e idx st
  by unfold_locales ((rule in_step_record in_step_retry, assumption) | simp)+

lemma length_steps [simp]: "length (r_Steps (upd_step i f r)) = length (r_Steps r)"
  by (simp add: upd_step_def)

interpretation step_count: step_invariant e idx st "\<lambda>w. length (r_Steps (w_run w)) = n" for e idx st n
  by unfold_locales (simp_all add: record_attempt_def)

interpretation run_id: step_invariant e idx st "\<lambda>w. r_ID (w_run w) = rid" for e idx st rid
  by unfold_locales (simp_all add: record_attempt_def upd_step_def)

section \<open>How a run ends\<close>

definition final_shape :: "step_state list \<Rightarrow> bool" where
  "final_shape ss \<longleftrightarrow> (\<exists>k. split_at k settled StepSkipped ss)"

definition finished :: "world \<Rightarrow> bool" where
  "finished w \<longleftrightarrow> seq_ok (w_run w) \<and> Terminal (r_Status (w_run w))
     \<and> w_closes w = 1 \<and> r_done (w_run w) = Some True
     \<and> (\<exists>es ev. r_events (w_run w) = es @ [ev] \<and> terminal_event ev \<and> list_all (\<lambda>ev. \<not> terminal_event ev) es)
     \<and> final_shape (r_Steps (w_run w))
     \<and> (r_Status (w_run w) = RunCompleted \<longleftrightarrow> list_all (\<lambda>s. ss_Status s = StepCompleted) (r_Steps (w_run w))
           \<and> r_ErrorCode (w_run w) = [])"

lemma close_done_simps [simp]:
  "w_run (close_done w) = (w_run w)\<lparr>r_done := Some True\<rparr>" "w_closes (close_done w) = Suc (w_closes w)"
  "w_calls (close_done w) = w_calls w"
  by (simp_all add: close_done_def)

text \<open>Between the final update and the terminal event the run is terminal already; interference
  no longer changes its status then.\<close>

definition ending :: "world \<Rightarrow> bool" where
  "ending w \<longleftrightarrow> seq_ok (w_run w) \<and> list_all (\<lambda>ev. \<not> terminal_event ev) (r_events (w_run w))
     \<and> w_closes w = 0 \<and> Terminal (r_Status (w_run w))"

lemma ending_interfere: "ending w \<Longrightarrow> ending (interfere e i w) \<and> r_Status (w_run (interfere e i w)) = r_Status (w_run w)"
  by (cases i) (auto simp: ending_def Let_def seq_ok_def cancel_mark_def terminal_event_def mk_event_def upto_rec2)

lemma ending_tick: "ending w \<Longrightarrow> ending (tick e w) \<and> r_Status (w_run (tick e w)) = r_Status (w_run w)"
  by (rule tick_keeps [where P = "\<lambda>w'. ending w' \<and> r_Status (w_run w') = r_Status (w_run w)"])
    (use ending_interfere in \<open>simp_all, simp add: ending_def\<close>)

lemma ending_upd:
  assumes "live w" "r_seq (f (w_run (tick e w))) = r_seq (w_run (tick e w))"
    "r_events (f (w_run (tick e w))) = r_events (w_run (tick e w))" "Terminal (r_Status (f (w_run (tick e w))))"
  shows "ending (upd e f w)"
  using live_tick [OF assms(1), of e] assms by (simp add: ending_def live_def seq_ok_def)

text \<open>The last three actions of every path: the final update, the terminal event, the close.\<close>

lemma finished_end:
  assumes w1: "ending w1" and ty: "ty \<in> {''workflow.completed'', ''workflow.failed'', ''workflow.cancelled''}"
    and shape: "final_shape (r_Steps (w_run w1))"
    and compl: "r_Status (w_run w1) = RunCompleted \<longleftrightarrow> list_all (\<lambda>s. ss_Status s = StepCompleted) (r_Steps (w_run w1))
           \<and> r_ErrorCode (w_run w1) = []"
  shows "finished (close_done (emit e ty data w1))"
proof -
  have t: "ending (tick e w1)" "r_Status (w_run (tick e w1)) = r_Status (w_run w1)"
    using ending_tick [OF w1] by auto
  let ?r = "w_run (tick e w1)" and ?now = "e_now e (w_tick (tick e w1))"
  have "seq_ok (emit_run ty data ?now ?r)" using t by (simp add: ending_def keeps)
  then have "seq_ok (w_run (close_done (emit e ty data w1)))" by (simp add: seq_ok_def)
  moreover have "terminal_event (mk_event ?r ty data ?now)" using ty by (auto simp: terminal_event_def mk_event_def)
  ultimately show ?thesis
    using t shape compl w1 by (auto simp: finished_def ending_def)
qed

lemma split_at_weaken:
  "split_at k P r ss \<Longrightarrow> (\<And>s. P s \<Longrightarrow> Q s) \<Longrightarrow> split_at k Q r ss"
  by (auto simp: split_at_def)

lemma split_at_not_all:
  assumes "split_at k P r ss" "\<And>s. P s \<Longrightarrow> s \<noteq> StepCompleted" "r \<noteq> StepCompleted" "k < length ss"
  shows "\<not> list_all (\<lambda>s. ss_Status s = StepCompleted) ss"
  using assms by (auto simp: split_at_def list_all_length)

lemma skip_from_shape:
  assumes "split_at k (\<lambda>s. s = StepPending \<and> n \<le> k \<or> broken s) StepPending ss" "n \<le> Suc k"
  shows "split_at k settled StepSkipped (skip_from n ss)"
  using assms by (auto simp: split_at_def skip_from_def nth_enumerate_eq settled_def broken_def)

lemma interrupted_shape:
  assumes "split_at i (\<lambda>s. s = StepPending \<or> active s) StepPending ss"
  shows "split_at i settled StepSkipped
      (map (\<lambda>(j, s). if i \<le> j then interrupted_step s else s) (enumerate 0 ss))"
  using assms by (auto simp: split_at_def nth_enumerate_eq settled_def interrupted_step_def active_def)

lemma failRun_finished:
  assumes w: "live w" and code: "code \<noteq> []"
    and k: "split_at k (\<lambda>s. s = StepPending \<and> n \<le> k \<or> broken s) StepPending (r_Steps (w_run w))" "n \<le> Suc k"
  shows "finished (failRun e n code msg w)"
  unfolding failRun_def Let_def
proof (rule finished_end)
  let ?f = "fail_update n code (e_now e (w_tick w))"
  show "ending (upd e ?f w)"
    by (rule ending_upd [OF w]) (simp_all add: fail_update_def Let_def)
  show "final_shape (r_Steps (w_run (upd e ?f w)))"
    using skip_from_shape [OF k] by (auto simp: fail_update_def Let_def final_shape_def)
qed (use code in \<open>simp_all add: fail_update_def Let_def\<close>)

lemma finishInterrupted_finished:
  assumes w: "live w" and i: "split_at i (\<lambda>s. s = StepPending \<or> active s) StepPending (r_Steps (w_run w))"
  shows "finished (finishInterrupted e i cause w)"
  unfolding finishInterrupted_def Let_def
proof (rule finished_end)
  fix st code :: string and t
  let ?w = "upd e (interrupt_update i (if r_Status (w_run (tick e w)) = RunCancelling \<or> cause = Canceled then RunCancelled else RunTimedOut)
      (if r_Status (w_run (tick e w)) = RunCancelling \<or> cause = Canceled then CodeCancelled else CodeStepTimeout)
      (e_now e (w_tick (tick e w)))) (tick e w)"
  show "ending ?w"
    by (rule ending_upd [OF live_tick [OF w]]) (simp_all add: interrupt_update_def)
  show "final_shape (r_Steps (w_run ?w))"
    using interrupted_shape [OF i] by (auto simp: interrupt_update_def final_shape_def)
  show "r_Status (w_run ?w) = RunCompleted \<longleftrightarrow>
      list_all (\<lambda>s. ss_Status s = StepCompleted) (r_Steps (w_run ?w)) \<and> r_ErrorCode (w_run ?w) = []"
    by (simp add: interrupt_update_def go_defs)
qed simp

lemma finish_run_finished:
  assumes w: "live w" "before_step n w" "length (r_Steps (w_run w)) = n" "length (fd_Steps def) = n"
    and err: "r_ErrorCode (w_run w) = []"
  shows "finished (finish_run e def vars tin tout w)"
proof (cases "RenderTemplate (template_text (fd_OutputMapping def)) vars")
  case (Inl er)
  have "split_at n (\<lambda>s. s = StepPending \<and> n \<le> n \<or> broken s) StepPending (r_Steps (w_run w))"
    by (rule split_at_weaken [OF w(2)]) simp
  from failRun_finished [OF w(1) _ this] Inl w(4) show ?thesis
    by (simp add: finish_run_def CodeTemplateRender_def)
next
  case (Inr final)
  have all: "list_all (\<lambda>s. ss_Status s = StepCompleted) (r_Steps (w_run w))"
    using w(2,3) by (simp add: split_at_def list_all_length)
  have sh: "final_shape (r_Steps (w_run w))"
    using w(2,3) unfolding final_shape_def by (intro exI [of _ n]) (simp add: split_at_def)
  show ?thesis
    unfolding finish_run_def Inr sum.case Let_def
  proof (rule finished_end)
    show "ending (upd e (complete_update (e_now e (w_tick w)) tin tout final) w)"
      by (rule ending_upd [OF w(1)]) (simp_all add: complete_update_def)
  qed (use all sh err in \<open>simp_all add: complete_update_def\<close>)
qed

section \<open>The loop over the steps\<close>

lemma step_started_facts:
  assumes "live w" "before_step i w" "i < length (r_Steps (w_run w))"
  shows "live (step_started e i st w)" "in_step i (step_started e i st w)"
    "length (r_Steps (w_run (step_started e i st w))) = length (r_Steps (w_run w))"
    "w_calls (step_started e i st w) = w_calls w"
    "r_ErrorCode (w_run (step_started e i st w)) = r_ErrorCode (w_run w)"
    "r_ID (w_run (step_started e i st w)) = r_ID (w_run w)"
  using assms
  by (auto simp: step_started_def Let_def upd_step_def active_def intro!: keeps split_at_update)

lemma step_completed_facts:
  assumes "live w" "in_step i w"
  shows "live (step_completed e i st t w)" "before_step (Suc i) (step_completed e i st t w)"
    "length (r_Steps (w_run (step_completed e i st t w))) = length (r_Steps (w_run w))"
    "w_calls (step_completed e i st t w) = w_calls w"
    "r_ErrorCode (w_run (step_completed e i st t w)) = r_ErrorCode (w_run w)"
    "r_ID (w_run (step_completed e i st t w)) = r_ID (w_run w)"
  using assms
  by (auto simp: step_completed_def Let_def upd_step_def intro!: keeps split_at_next)

lemma step_failed_finished:
  assumes w: "live w" "in_step i w" "sr_code res \<noteq> []"
  shows "finished (step_failed e i st res w)"
proof (cases "w_ctx (tick e w)")
  case (Some cause)
  have "split_at i (\<lambda>s. s = StepPending \<or> active s) StepPending (r_Steps (w_run (tick e w)))"
    using w(2) by (auto intro: split_at_weaken)
  with Some finishInterrupted_finished [OF live_tick [OF w(1)]] show ?thesis
    by (simp add: step_failed_def Let_def)
next
  case None
  let ?w1 = "upd e (upd_step i (\<lambda>s. s\<lparr>ss_Status := (if sr_code res = CodeStepTimeout then StepTimedOut else StepFailed),
      ss_ErrorCode := sr_code res, ss_CompletedAt := Some (e_now e (w_tick (tick e w)))\<rparr>)) (tick e w)"
  let ?w2 = "emit e ''step.failed'' [(''step_id'', JStr (st_StepID st)), (''error_code'', JStr (sr_code res))] ?w1"
  have "live ?w2" by (intro live_emit live_upd live_tick w live_fns) simp
  moreover have "split_at i (\<lambda>s. s = StepPending \<and> Suc i \<le> i \<or> broken s) StepPending (r_Steps (w_run ?w2))"
    using w(2) by (auto simp: upd_step_def broken_def intro!: split_at_update)
  ultimately show ?thesis
    using failRun_finished [OF _ w(3), of ?w2 i "Suc i"] None by (simp add: step_failed_def Let_def)
qed

interpretation error_code: step_invariant e idx st "\<lambda>w. r_ErrorCode (w_run w) = c" for e idx st c
  by unfold_locales (simp_all add: record_attempt_def upd_step_def)

lemma run_steps_finished:
  assumes "live w" "before_step i w" "i + length sts = n" "length (r_Steps (w_run w)) = n" "length (fd_Steps def) = n"
    "r_ErrorCode (w_run w) = []"
  shows "finished (run_steps e def i sts vars tin tout w)"
  using assms
proof (induction sts arbitrary: i vars tin tout w)
  case Nil
  then show ?case using finish_run_finished [of w n] by simp
next
  case (Cons st sts)
  have pend: "split_at i (\<lambda>s. s = StepPending \<and> i \<le> i \<or> broken s) StepPending (r_Steps (w_run w))"
    and pend': "split_at i (\<lambda>s. s = StepPending \<or> active s) StepPending (r_Steps (w_run w))"
    using Cons.prems(2) by (auto intro: split_at_weaken)
  let ?w0 = "tick e w"
  have fail: "finished (failRun e i code msg w')" if "live w'" "r_Steps (w_run w') = r_Steps (w_run w)" "code \<noteq> []" for w' code msg
    using failRun_finished [OF that(1,3), of i i] pend that(2) by simp
  have codes: "CodeBudgetExceeded \<noteq> []" "CodeTemplateRender \<noteq> []" by (simp_all add: go_defs)
  have intr: "finished (finishInterrupted e i cause ?w0)" for cause
    using finishInterrupted_finished [OF live_tick [OF Cons.prems(1)]] pend' by simp
  have go: "finished (let (res, w1) = runStep e i st tx (step_started e i st ?w0)
      in if sr_code res \<noteq> [] then step_failed e i st res w1
         else let w2 = step_completed e i st t w1; s = r_Steps (w_run w2) ! i
              in run_steps e def (Suc i) sts (vars(''steps.'' @ st_StepID st @ ''.output'' \<mapsto> sr_out res))
                   (i64 (tin + ss_InputTokens s)) (i64 (tout + ss_OutputTokens s)) w2)" for tx t
  proof -
    obtain res w1 where rs: "runStep e i st tx (step_started e i st ?w0) = (res, w1)" by fastforce
    have st: "live (step_started e i st ?w0)" "in_step i (step_started e i st ?w0)"
      "length (r_Steps (w_run (step_started e i st ?w0))) = n" "r_ErrorCode (w_run (step_started e i st ?w0)) = []"
      using step_started_facts [of ?w0 i e st] Cons.prems by (simp_all add: keeps)
    have w1: "live w1" "in_step i w1" "length (r_Steps (w_run w1)) = n" "r_ErrorCode (w_run w1) = []"
      using live.runStep_keeps [OF st(1)] statuses.runStep_keeps [OF st(2)]
        step_count.runStep_keeps [OF st(3)] error_code.runStep_keeps [OF st(4)] rs by (metis snd_conv)+
    show ?thesis
      using Cons.IH [OF step_completed_facts(1,2) [OF w1(1,2)], of e st t] Cons.prems w1
        step_completed_facts [OF w1(1,2), of e st t] step_failed_finished [OF w1(1,2)] rs
      by (simp add: Let_def)
  qed
  show ?case
    using fail [OF Cons.prems(1) refl codes(1)] fail [OF live_tick [OF Cons.prems(1)] _ codes(2)] intr go
    by (auto simp: Let_def split: option.splits sum.splits)
qed

section \<open>The executor calls of a run\<close>

lemma finishing_calls [simp]:
  "w_calls (failRun e n code msg w) = w_calls w"
  "w_calls (finishInterrupted e i cause w) = w_calls w"
  "w_calls (finish_run e def vars tin tout w) = w_calls w"
  "w_calls (step_started e i st w) = w_calls w"
  "w_calls (step_completed e i st t w) = w_calls w"
  by (simp_all add: failRun_def finishInterrupted_def finish_run_def step_started_def step_completed_def Let_def
      split: sum.splits)

lemma step_failed_calls [simp]: "w_calls (step_failed e i st res w) = w_calls w"
  by (simp add: step_failed_def Let_def split: option.splits)

text \<open>A request a step may make: its model, one of its approved pools, stateless, not streamed.\<close>

definition from_step :: "step \<Rightarrow> request \<Rightarrow> bool" where
  "from_step st q \<longleftrightarrow> LogicalModel q = rt_LogicalModel (st_RuntimeTarget st)
     \<and> (PoolID q = rt_PoolID (st_RuntimeTarget st)
          \<or> (\<exists>fp. st_FallbackPolicy st = Some fp \<and> PoolID q \<in> set (fp_AllowedPoolIDs fp)))
     \<and> Endpoint q = ''/v1/chat/completions'' \<and> req_Conversation q = None \<and> \<not> Stream q
     \<and> ContractVersion q = Version"

lemma targets_pool: "tg \<in> set (targets st) \<Longrightarrow> tg_poolID tg = rt_PoolID (st_RuntimeTarget st)
    \<or> (\<exists>fp. st_FallbackPolicy st = Some fp \<and> tg_poolID tg \<in> set (fp_AllowedPoolIDs fp))"
  by (auto simp: targets_def split: option.splits)

lemma attempt_request_from_step: "tg \<in> set (targets st) \<Longrightarrow> from_step st (attempt_request e r st tx q tg t)"
  using targets_pool [of tg st] by (simp add: from_step_def attempt_request_def)

interpretation approved: step_invariant e idx st
  "\<lambda>w. st \<in> S \<longrightarrow> list_all (\<lambda>(q, _). \<exists>st\<in>S. from_step st q) (w_calls w)" for e idx st S
  by unfold_locales (auto dest: attempt_request_from_step)

text \<open>A property of the call log that every step keeps is kept by the whole run.\<close>

lemma run_steps_calls:
  assumes step: "\<And>w st i tx. st \<in> S \<Longrightarrow> P (w_calls w) \<Longrightarrow> P (w_calls (snd (runStep e i st tx w)))"
  shows "set sts \<subseteq> S \<Longrightarrow> P (w_calls w) \<Longrightarrow> P (w_calls (run_steps e def i sts vars tin tout w))"
proof (induction sts arbitrary: i vars tin tout w)
  case (Cons st sts)
  have go: "P (w_calls (let (res, w1) = runStep e i st tx (step_started e i st (tick e w))
      in if sr_code res \<noteq> [] then step_failed e i st res w1
         else let w2 = step_completed e i st t w1; s = r_Steps (w_run w2) ! i
              in run_steps e def (Suc i) sts (vars(''steps.'' @ st_StepID st @ ''.output'' \<mapsto> sr_out res))
                   (i64 (tin + ss_InputTokens s)) (i64 (tout + ss_OutputTokens s)) w2))" for tx t
  proof -
    obtain res w1 where rs: "runStep e i st tx (step_started e i st (tick e w)) = (res, w1)" by fastforce
    have "P (w_calls w1)"
      using step [of st "step_started e i st (tick e w)" i tx] Cons.prems rs by simp
    then show ?thesis using Cons rs by (simp add: Let_def)
  qed
  show ?case
    using Cons.prems go by (simp add: Let_def split: option.split sum.split)
qed simp

text \<open>Calls after a timeout: none.\<close>

definition no_timeout :: "(request \<times> (perror + response)) list \<Rightarrow> bool" where
  "no_timeout cs \<longleftrightarrow> (\<forall>q err. (q, Inl err) \<in> set cs \<longrightarrow> Code err \<noteq> ErrInferenceTimeout)"

definition timeout_last :: "(request \<times> (perror + response)) list \<Rightarrow> bool" where
  "timeout_last cs \<longleftrightarrow> no_timeout (butlast cs)"

lemma no_timeout_last: "no_timeout cs \<Longrightarrow> timeout_last cs"
  by (auto simp: no_timeout_def timeout_last_def dest: in_set_butlastD)

lemma attempt_call:
  "\<exists>q res. w_calls (snd (attempt e st tx n tg w)) = w_calls w @ [(q, res)]
     \<and> (\<forall>err. res = Inl err \<longrightarrow> at_err (fst (attempt e st tx n tg w)) = Some err)"
  by (auto simp: attempt_def call_executor_def Let_def split: sum.splits option.splits prod.splits)

lemma attempt_wait_calls [simp]: "w_calls (snd (attempt_wait e idx st n w)) = w_calls w"
  by (simp add: attempt_wait_def Let_def)

text \<open>The log grows by at most one call, and the outcome is final when the call timed out.\<close>

lemma attempt_once_calls:
  "\<exists>new. w_calls (snd (attempt_once e idx st tx tg n w)) = w_calls w @ new \<and> length new \<le> 1
    \<and> (no_timeout new \<or> (\<exists>res. fst (attempt_once e idx st tx tg n w) = Inl res \<and> sr_code res = CodeStepTimeout))"
proof -
  obtain b w1 where w1: "attempt_wait e idx st (Suc n) (tick e w) = (b, w1)" by fastforce
  obtain res w2 where w2: "attempt e st tx (Suc n) tg w1 = (res, w2)" by fastforce
  have c1: "w_calls w1 = w_calls w" using attempt_wait_calls [of e idx st "Suc n" "tick e w"] w1 by simp
  obtain q r where q: "w_calls w2 = w_calls w @ [(q, r)]" "\<forall>err. r = Inl err \<longrightarrow> at_err res = Some err"
    using attempt_call [of e st tx "Suc n" tg w1] w2 c1 by auto
  show ?thesis
  proof (cases "w_ctx (tick e w) \<noteq> None \<or> \<not> b")
    case True
    then show ?thesis
      using w1 c1 by (intro exI [of _ "[]"]) (auto simp: attempt_once_def Let_def no_timeout_def)
  next
    case False
    then have o: "attempt_once e idx st tx tg n w =
        (attempt_outcome res, upd e (record_attempt idx (Suc n) (decision (Suc n) st tg res) res) w2)"
      using w1 w2 by (simp add: attempt_once_def Let_def)
    show ?thesis
      using q by (intro exI [of _ "[(q, r)]"]) (auto simp: o no_timeout_def attempt_outcome_def)
  qed
qed

lemma no_timeout_append [simp]: "no_timeout (a @ b) \<longleftrightarrow> no_timeout a \<and> no_timeout b"
  by (auto simp: no_timeout_def)

lemma timeout_last_single: "no_timeout cs \<Longrightarrow> length new \<le> 1 \<Longrightarrow> timeout_last (cs @ new)"
  by (cases new) (auto simp: timeout_last_def intro: no_timeout_last [unfolded timeout_last_def])

lemma code_timeout_ne [simp]: "CodeStepTimeout \<noteq> []" "CodeNoEligible \<noteq> []"
  by (simp_all add: go_defs)

text \<open>What a loop has done to the call log: bounded growth, a timeout only at the very end and
  then only with an error result.\<close>

definition calls_within :: "nat \<Rightarrow> world \<Rightarrow> world \<Rightarrow> bool \<Rightarrow> bool" where
  "calls_within k w w' failed \<longleftrightarrow> (no_timeout (w_calls w) \<longrightarrow>
     timeout_last (w_calls w') \<and> length (w_calls w') \<le> length (w_calls w) + k
     \<and> (no_timeout (w_calls w') \<or> failed))"

lemma try_target_calls:
  "calls_within a w (snd (try_target e idx st tx tg a n lst w))
     (\<exists>res. fst (try_target e idx st tx tg a n lst w) = Inl res \<and> sr_code res \<noteq> [])"
proof (induction a arbitrary: n lst w)
  case 0
  show ?case by (simp add: calls_within_def no_timeout_last)
next
  case (Suc a)
  obtain oc w' where oc: "attempt_once e idx st tx tg n w = (oc, w')" by fastforce
  from attempt_once_calls [of e idx st tx tg n w] oc obtain new where
    new: "w_calls w' = w_calls w @ new" "length new \<le> 1"
      "no_timeout new \<or> (\<exists>res. oc = Inl res \<and> sr_code res = CodeStepTimeout)" by auto
  show ?case
  proof (cases oc)
    case (Inl res)
    then show ?thesis
      using oc new by (auto simp: calls_within_def timeout_last_single)
  next
    case (Inr lst')
    then show ?thesis
      using Suc.IH [of w' "Suc n" lst'] oc new by (auto simp: calls_within_def)
  qed
qed

lemma try_targets_calls:
  "calls_within (a * length tgs) w (snd (try_targets e idx st tx a tgs n lst w))
     (sr_code (fst (try_targets e idx st tx a tgs n lst w)) \<noteq> [])"
proof (induction tgs arbitrary: n lst w)
  case Nil
  show ?case by (simp add: calls_within_def no_timeout_last)
next
  case (Cons tg tgs)
  let ?w0 = "if tg_fallback tg then emit e ''fallback.selected''
      [(''step_id'', JStr (st_StepID st)), (''pool_id'', JStr (tg_poolID tg))] w else w"
  have w0: "w_calls ?w0 = w_calls w" by simp
  obtain oc w' where oc: "try_target e idx st tx tg a n lst ?w0 = (oc, w')" by fastforce
  have t: "calls_within a ?w0 w' (\<exists>res. oc = Inl res \<and> sr_code res \<noteq> [])"
    using try_target_calls [of a ?w0 e idx st tx tg n lst] oc by simp
  show ?case
  proof (cases oc)
    case (Inl res)
    then show ?thesis using oc t w0 by (auto simp: calls_within_def Let_def)
  next
    case (Inr nl)
    obtain n' lst' where nl: "nl = (n', lst')" by (cases nl)
    show ?thesis
      using Cons.IH [of w' n' lst'] oc t w0 Inr nl by (auto simp: calls_within_def Let_def)
  qed
qed

lemma runStep_calls:
  "calls_within (nat (max_attempts st) * length (targets st)) w (snd (runStep e i st tx w))
     (sr_code (fst (runStep e i st tx w)) \<noteq> [])"
  unfolding runStep_def by (rule try_targets_calls)

definition call_bound :: "step list \<Rightarrow> nat" where
  "call_bound sts = sum_list (map (\<lambda>st. nat (max_attempts st) * length (targets st)) sts)"

lemma run_steps_bound:
  "no_timeout (w_calls w) \<Longrightarrow>
     timeout_last (w_calls (run_steps e def i sts vars tin tout w))
     \<and> length (w_calls (run_steps e def i sts vars tin tout w)) \<le> length (w_calls w) + call_bound sts"
proof (induction sts arbitrary: i vars tin tout w)
  case Nil
  then show ?case by (simp add: no_timeout_last)
next
  case (Cons st sts)
  let ?Q = "\<lambda>w'. timeout_last (w_calls w') \<and> length (w_calls w') \<le> length (w_calls w) + call_bound (st # sts)"
  have go: "?Q (let (res, w1) = runStep e i st tx (step_started e i st (tick e w))
      in if sr_code res \<noteq> [] then step_failed e i st res w1
         else let w2 = step_completed e i st t w1; s = r_Steps (w_run w2) ! i
              in run_steps e def (Suc i) sts (vars(''steps.'' @ st_StepID st @ ''.output'' \<mapsto> sr_out res))
                   (i64 (tin + ss_InputTokens s)) (i64 (tout + ss_OutputTokens s)) w2)" for tx t
  proof -
    obtain res w1 where rs: "runStep e i st tx (step_started e i st (tick e w)) = (res, w1)" by fastforce
    have c: "timeout_last (w_calls w1)" "length (w_calls w1) \<le> length (w_calls w) + nat (max_attempts st) * length (targets st)"
      "no_timeout (w_calls w1) \<or> sr_code res \<noteq> []"
      using runStep_calls [of st "step_started e i st (tick e w)" e i tx] rs Cons.prems by (simp_all add: calls_within_def)
    show ?thesis
    proof (cases "sr_code res = []")
      case True
      with c(3) have nt: "no_timeout (w_calls (step_completed e i st t w1))" by simp
      have IH: "timeout_last (w_calls (run_steps e def j sts v x y (step_completed e i st t w1)))
          \<and> length (w_calls (run_steps e def j sts v x y (step_completed e i st t w1)))
            \<le> length (w_calls w1) + call_bound sts" for j v x y
        using Cons.IH [OF nt] by simp
      have b: "length (w_calls w1) + call_bound sts \<le> length (w_calls w) + call_bound (st # sts)"
        using c(2) by (simp add: call_bound_def)
      show ?thesis
        unfolding rs using True IH order_trans [OF conjunct2 [OF IH] b] by (simp add: Let_def)
    next
      case False
      then show ?thesis using c rs by (simp add: Let_def call_bound_def)
    qed
  qed
  show ?case
    using go no_timeout_last [OF Cons.prems] by (simp add: Let_def split: option.split sum.split)
qed

section \<open>Templates of a validated flow\<close>

lemma input_vars_Cons: "input_vars ((k, v) # kvs) vars = input_vars kvs (vars(''inputs.'' @ k \<mapsto> v))"
  by (simp add: input_vars_def)

lemma input_vars_mono: "vars x \<noteq> None \<Longrightarrow> input_vars kvs vars x \<noteq> None"
proof (induction kvs arbitrary: vars)
  case (Cons kv kvs)
  then show ?case by (cases kv) (simp add: input_vars_Cons)
qed (simp add: input_vars_def)

lemma input_vars_binds: "n \<in> fst ` set kvs \<Longrightarrow> input_vars kvs vars (''inputs.'' @ n) \<noteq> None"
proof (induction kvs arbitrary: vars)
  case (Cons kv kvs)
  then show ?case
    using input_vars_mono [of "vars(''inputs.'' @ n \<mapsto> snd kv)" "''inputs.'' @ n" kvs]
    by (cases kv) (auto simp: input_vars_Cons)
qed simp

lemma init_vars_covers: "covers (init_vars def inputs rid) (input_names def) []"
proof -
  let ?d = "case fd_InputsSchema def of None \<Rightarrow> [] | Some is \<Rightarrow> map (\<lambda>(n, _). (n, [])) (is_Properties is)"
  have "n \<in> fst ` set ?d" if "n \<in> set (input_names def)" for n
    using that by (cases "fd_InputsSchema def") (auto simp: input_names_def image_image split_beta)
  then have "input_vars ?d [''run.id'' \<mapsto> rid] (''inputs.'' @ n) \<noteq> None" if "n \<in> set (input_names def)" for n
    using input_vars_binds that by blast
  moreover have "input_vars ?d [''run.id'' \<mapsto> rid] ''run.id'' \<noteq> None"
    by (rule input_vars_mono) simp
  ultimately show ?thesis
    unfolding covers_def init_vars_def using input_vars_mono by auto
qed

lemma covers_step:
  "covers vars inputs steps \<Longrightarrow> covers (vars(''steps.'' @ s @ ''.output'' \<mapsto> v)) inputs (steps @ [s])"
  by (simp add: covers_def)

lemma covers_subset: "covers vars inputs steps \<Longrightarrow> set deps \<subseteq> set steps \<Longrightarrow> covers vars inputs deps"
  by (auto simp: covers_def)

lemma wf_mapping_renders:
  assumes "wf_mapping inputs deps m" "covers vars inputs steps" "set deps \<subseteq> set steps"
  shows "\<exists>out. RenderTemplate (template_text m) vars = Inr out"
  using wf_mapping_text [OF assms(1)] wf_template_renders covers_subset [OF assms(2,3)]
  by (auto simp: template_text_def)

text \<open>The codes a step can end with.\<close>

definition step_codes :: "string set" where
  "step_codes = {[], CodeNoEligible, CodeStepTimeout, CodeInputValidation, CodeInvalidResponse, CodeCancelled}"

lemma attempt_once_codes:
  "case fst (attempt_once e idx st tx tg n w) of Inl res \<Rightarrow> sr_code res \<in> step_codes | Inr l \<Rightarrow> fst l = CodeNoEligible"
  by (auto simp: attempt_once_def attempt_outcome_def aborted_def step_codes_def Let_def
      split: prod.splits bool.splits option.splits)

lemma try_target_codes:
  "fst lst \<in> {[], CodeNoEligible} \<Longrightarrow>
     (case fst (try_target e idx st tx tg a n lst w) of
        Inl res \<Rightarrow> sr_code res \<in> step_codes | Inr (_, l) \<Rightarrow> fst l \<in> {[], CodeNoEligible})"
proof (induction a arbitrary: n lst w)
  case (Suc a)
  obtain oc w' where oc: "attempt_once e idx st tx tg n w = (oc, w')" by fastforce
  show ?case
    using attempt_once_codes [of e idx st tx tg n w] Suc.IH [of _ "Suc n" w'] oc by (cases oc) auto
qed simp

lemma try_targets_codes:
  "fst lst \<in> {[], CodeNoEligible} \<Longrightarrow> sr_code (fst (try_targets e idx st tx a tgs n lst w)) \<in> step_codes"
proof (induction tgs arbitrary: n lst w)
  case Nil
  then show ?case by (auto simp: step_codes_def)
next
  case (Cons tg tgs)
  let ?w0 = "if tg_fallback tg then emit e ''fallback.selected''
      [(''step_id'', JStr (st_StepID st)), (''pool_id'', JStr (tg_poolID tg))] w else w"
  obtain oc w' where oc: "try_target e idx st tx tg a n lst ?w0 = (oc, w')" by fastforce
  have "case oc of Inl res \<Rightarrow> sr_code res \<in> step_codes | Inr (_, l) \<Rightarrow> fst l \<in> {[], CodeNoEligible}"
    using try_target_codes [OF Cons.prems, of e idx st tx tg a n ?w0] oc by simp
  then show ?case
    using Cons.IH oc by (cases oc) (auto simp: Let_def)
qed

lemma runStep_codes: "sr_code (fst (runStep e i st tx w)) \<in> step_codes"
  unfolding runStep_def by (rule try_targets_codes) simp

lemma not_template_code: "c \<in> step_codes \<Longrightarrow> c \<noteq> CodeTemplateRender"
  by (auto simp: step_codes_def go_defs)

lemma template_code_ne [simp]:
  "CodeStepTimeout \<noteq> CodeTemplateRender" "CodeBudgetExceeded \<noteq> CodeTemplateRender"
  by (simp_all add: go_defs)

text \<open>A run that ends with the template error ends with the message of the size limit.\<close>

definition size_limit_only :: "world \<Rightarrow> bool" where
  "size_limit_only w \<longleftrightarrow> (r_ErrorCode (w_run w) = CodeTemplateRender \<longrightarrow>
     (''message'', JStr ''rendered input exceeds size limit'') \<in> set (ev_Data (last (r_events (w_run w)))))"

lemma failRun_code [simp]: "r_ErrorCode (w_run (failRun e n code msg w)) = code"
  by (simp add: failRun_def Let_def fail_update_def)

lemma failRun_message: "(''message'', JStr msg) \<in> set (ev_Data (last (r_events (w_run (failRun e n code msg w)))))"
  by (simp add: failRun_def Let_def mk_event_def)

lemma size_limit_failRun: "code \<noteq> CodeTemplateRender \<or> msg = ''rendered input exceeds size limit'' \<Longrightarrow>
    size_limit_only (failRun e n code msg w)"
  using failRun_message [of msg e n code w] by (auto simp: size_limit_only_def)

lemma size_limit_interrupted: "size_limit_only (finishInterrupted e i cause w)"
  by (simp add: size_limit_only_def finishInterrupted_def Let_def interrupt_update_def go_defs)

lemma size_limit_step_failed:
  "sr_code res \<noteq> CodeTemplateRender \<Longrightarrow> size_limit_only (step_failed e i st res w)"
  by (simp add: step_failed_def Let_def size_limit_interrupted size_limit_failRun split: option.splits)

lemma run_steps_renders:
  assumes "sts = drop i (fd_Steps def)" "i \<le> length (fd_Steps def)"
    and "\<And>j. j < length (fd_Steps def) \<Longrightarrow> wf_step r (input_names def) (step_ids (take j (fd_Steps def))) (fd_Steps def ! j)"
    and "wf_mapping (input_names def) (step_ids (fd_Steps def)) (fd_OutputMapping def)"
    and "covers vars (input_names def) (step_ids (take i (fd_Steps def)))"
    and "r_ErrorCode (w_run w) = []"
  shows "size_limit_only (run_steps e def i sts vars tin tout w)"
  using assms(1,2,5,6)
proof (induction sts arbitrary: i vars tin tout w)
  case Nil
  then have "covers vars (input_names def) (step_ids (fd_Steps def))" by simp
  from wf_mapping_renders [OF assms(4) this] obtain out where
    "RenderTemplate (template_text (fd_OutputMapping def)) vars = Inr out" by blast
  then show ?case
    using Nil by (simp add: finish_run_def Let_def size_limit_only_def complete_update_def go_defs)
next
  case (Cons st sts)
  from Cons.prems(1,2) have i: "i < length (fd_Steps def)" and st: "st = fd_Steps def ! i"
    and sts: "sts = drop (Suc i) (fd_Steps def)"
    by (cases "i < length (fd_Steps def)"; simp add: Cons_nth_drop_Suc [symmetric])+
  from assms(3) [OF i] have wf: "set (st_DependsOn st) \<subseteq> set (step_ids (take i (fd_Steps def)))"
    "wf_mapping (input_names def) (st_DependsOn st) (st_InputMapping st)"
    by (simp_all add: wf_step_def st)
  obtain tx where tx: "RenderTemplate (template_text (st_InputMapping st)) vars = Inr tx"
    using wf_mapping_renders [OF wf(2) Cons.prems(3) wf(1)] by blast
  have cov: "covers (vars(''steps.'' @ st_StepID st @ ''.output'' \<mapsto> v)) (input_names def)
      (step_ids (take (Suc i) (fd_Steps def)))" for v
    using covers_step [OF Cons.prems(3), of "st_StepID st" v] i st by (simp add: step_ids_def take_Suc_conv_app_nth)
  have go: "size_limit_only (let (res, w1) = runStep e i st tx (step_started e i st (tick e w))
      in if sr_code res \<noteq> [] then step_failed e i st res w1
         else let w2 = step_completed e i st t w1; s = r_Steps (w_run w2) ! i
              in run_steps e def (Suc i) sts (vars(''steps.'' @ st_StepID st @ ''.output'' \<mapsto> sr_out res))
                   (i64 (tin + ss_InputTokens s)) (i64 (tout + ss_OutputTokens s)) w2)" for t
  proof -
    obtain res w1 where rs: "runStep e i st tx (step_started e i st (tick e w)) = (res, w1)" by fastforce
    have ne: "sr_code res \<noteq> CodeTemplateRender"
      using not_template_code [OF runStep_codes] rs by (metis fst_conv)
    have "r_ErrorCode (w_run (step_started e i st (tick e w))) = []"
      using Cons.prems(4) by (simp add: step_started_def Let_def upd_step_def)
    from error_code.runStep_keeps [OF this] rs have "r_ErrorCode (w_run w1) = []" by (metis snd_conv)
    then have "r_ErrorCode (w_run (step_completed e i st t w1)) = []"
      by (simp add: step_completed_def Let_def upd_step_def)
    with i have "size_limit_only (run_steps e def (Suc i) sts (vars(''steps.'' @ st_StepID st @ ''.output'' \<mapsto> sr_out res))
        a b (step_completed e i st t w1))" for a b
      using Cons.IH [OF sts _ cov] by (meson Suc_leI)
    then show ?thesis
      unfolding rs Let_def prod.case using ne
      by (cases "sr_code res = []") (simp_all only: size_limit_step_failed simp_thms if_True if_False)
  qed
  have codes: "CodeBudgetExceeded \<noteq> CodeTemplateRender" by (simp add: go_defs)
  show ?case
    using go tx codes
    by (simp add: Let_def size_limit_failRun size_limit_interrupted split: option.split)
qed

section \<open>The beginning of a run\<close>

text \<open>The world in which \<open>StartRun\<close> starts the runner.\<close>

definition initial :: "flow_def \<Rightarrow> world \<Rightarrow> bool" where
  "initial def w \<longleftrightarrow> live w \<and> before_step 0 w \<and> length (r_Steps (w_run w)) = length (fd_Steps def)
     \<and> r_ErrorCode (w_run w) = [] \<and> w_calls w = []"

definition begun :: "env \<Rightarrow> world \<Rightarrow> world" where
  "begun e w =
     (let w1 = upd e (\<lambda>r. r\<lparr>r_Status := RunRunning, r_StartedAt := Some (e_now e (w_tick w)), r_cancelFn := True\<rparr>) w
      in emit e ''workflow.started'' (run_id_data (w_run w1)) w1)"

lemma execute_begun:
  "execute e def inputs w = run_steps e def 0 (fd_Steps def) (init_vars def inputs (r_ID (w_run (begun e w)))) 0 0 (begun e w)"
  by (simp add: execute_def begun_def Let_def)

lemma begun_initial:
  assumes "initial def w"
  shows "initial def (begun e w)"
proof -
  have "live (begun e w)"
    unfolding begun_def Let_def
    by (intro live_emit live_upd) (use assms in \<open>simp_all add: initial_def live_fn_def\<close>)
  then show ?thesis using assms by (simp add: initial_def begun_def Let_def)
qed

lemma execute_finished: "initial def w \<Longrightarrow> finished (execute e def inputs w)"
  unfolding execute_begun
  by (rule run_steps_finished [where n = "length (fd_Steps def)"])
    (use begun_initial in \<open>auto simp: initial_def\<close>)

lemma execute_size_limit_only:
  assumes "Validate def r = []" and "initial def w"
  shows "size_limit_only (execute e def inputs w)"
proof -
  have wf: "wf_flow r def" using assms(1) by (simp add: Validate_Nil)
  have "r_ErrorCode (w_run (begun e w)) = []" using begun_initial [OF assms(2), of e] by (simp add: initial_def)
  then show ?thesis
    unfolding execute_begun
    by (intro run_steps_renders [where r = r])
      (use wf init_vars_covers in \<open>simp_all add: wf_flow_def step_ids_def\<close>)
qed

text \<open>An environment without interference after the runner's first action.\<close>

definition quiet :: "env \<Rightarrow> bool" where
  "quiet e \<longleftrightarrow> (\<forall>k>0. e_events e k = [])"

interpretation quiet: step_invariant e idx st "\<lambda>w. quiet e \<longrightarrow> 0 < w_tick w \<and> w_ctx w = None" for e idx st
  by unfold_locales
    (auto simp: quiet_def tick_def upd_def emit_def store_run_def log_event_def call_executor_def Let_def)

section \<open>A cancellation that comes too early\<close>

lemma tick_terminal:
  assumes "Terminal (r_Status (w_run w))"
  shows "r_Status (w_run (tick e w)) = r_Status (w_run w)"
proof -
  have "r_Status (w_run (interfere e i w')) = r_Status (w_run w')" if "Terminal (r_Status (w_run w'))" for i w'
    using that by (cases i) (simp_all add: Let_def cancel_mark_def)
  then have "Terminal (r_Status (w_run (tick e w))) \<and> r_Status (w_run (tick e w)) = r_Status (w_run w)"
    by (intro tick_keeps [where P = "\<lambda>w'. Terminal (r_Status (w_run w')) \<and> r_Status (w_run w') = r_Status (w_run w)"])
      (use assms in auto)
  then show ?thesis by simp
qed

lemma failRun_status [simp]: "r_Status (w_run (failRun e n code msg w)) = RunFailed"
  using tick_terminal [of "upd e (fail_update n code (e_now e (w_tick w))) w" e]
  by (simp add: failRun_def Let_def fail_update_def)

lemma finish_run_status: "r_Status (w_run (finish_run e def vars tin tout w)) \<in> {RunCompleted, RunFailed}"
proof (cases "RenderTemplate (template_text (fd_OutputMapping def)) vars")
  case (Inr final)
  then show ?thesis
    using tick_terminal [of "upd e (complete_update (e_now e (w_tick w)) tin tout final) w" e]
    by (simp add: finish_run_def Let_def complete_update_def)
qed (simp add: finish_run_def)

definition undisturbed :: "world \<Rightarrow> bool" where
  "undisturbed w \<longleftrightarrow> 0 < w_tick w \<and> w_ctx w = None"

lemma undisturbed_tick: "quiet e \<Longrightarrow> undisturbed w \<Longrightarrow> undisturbed (tick e w)"
  by (auto simp: quiet_def undisturbed_def tick_def)

lemma undisturbed_acts:
  "quiet e \<Longrightarrow> undisturbed w \<Longrightarrow> undisturbed (upd e f w)"
  "quiet e \<Longrightarrow> undisturbed w \<Longrightarrow> undisturbed (emit e ty data w)"
  using undisturbed_tick [of e w] by (auto simp: undisturbed_def upd_def emit_def store_run_def log_event_def Let_def)

lemma run_steps_quiet:
  "quiet e \<Longrightarrow> undisturbed w \<Longrightarrow>
     r_Status (w_run (run_steps e def i sts vars tin tout w)) \<in> {RunCompleted, RunFailed}"
proof (induction sts arbitrary: i vars tin tout w)
  case Nil
  show ?case using finish_run_status by simp
next
  case (Cons st sts)
  let ?Q = "\<lambda>w'. r_Status (w_run w') \<in> {RunCompleted, RunFailed}"
  have t: "undisturbed (tick e w)" by (rule undisturbed_tick [OF Cons.prems])
  have go: "?Q (let (res, w1) = runStep e i st tx (step_started e i st (tick e w))
      in if sr_code res \<noteq> [] then step_failed e i st res w1
         else let w2 = step_completed e i st t w1; s = r_Steps (w_run w2) ! i
              in run_steps e def (Suc i) sts (vars(''steps.'' @ st_StepID st @ ''.output'' \<mapsto> sr_out res))
                   (i64 (tin + ss_InputTokens s)) (i64 (tout + ss_OutputTokens s)) w2)" for tx t
  proof -
    obtain res w1 where rs: "runStep e i st tx (step_started e i st (tick e w)) = (res, w1)" by fastforce
    have "undisturbed (step_started e i st (tick e w))"
      unfolding step_started_def Let_def by (intro undisturbed_acts t Cons.prems)
    then have "undisturbed w1"
      using quiet.runStep_keeps [of e "step_started e i st (tick e w)" i st tx] rs Cons.prems(1)
      by (simp add: undisturbed_def)
    note w1 = this
    have "undisturbed (step_completed e i st t w1)"
      unfolding step_completed_def Let_def by (intro undisturbed_acts w1 Cons.prems)
    note IH = Cons.IH [OF Cons.prems(1) this]
    have "w_ctx (tick e w1) = None" using undisturbed_tick [OF Cons.prems(1) w1] by (simp add: undisturbed_def)
    then show ?thesis
      using IH rs by (simp add: Let_def step_failed_def)
  qed
  show ?case
    using go t by (simp add: Let_def undisturbed_def split: option.split sum.split)
qed

text \<open>Before the first update there is no cancel function yet: a mark arms nothing.\<close>

lemma mark_without_fn:
  assumes "set is \<subseteq> {IMark, ICancelCtx, INotify}" "\<not> w_armed w" "w_ctx w = None" "\<not> r_cancelFn (w_run w)"
  shows "w_ctx (fold (interfere e) is w) = None"
  using assms
proof (induction "is" arbitrary: w)
  case (Cons i js)
  have "w_ctx (interfere e i w) = None" "\<not> w_armed (interfere e i w)"
    using Cons.prems by (auto simp: Let_def log_event_def split: if_splits)
  then show ?case using Cons by simp
qed simp

section \<open>An environment for the examples\<close>

definition demo_completion :: body where
  "demo_completion = Doc (JObj [(''choices'', JArr [JObj [(''message'', JObj [(''content'', JStr ''out'')])]])])"

definition demo_response :: response where
  "demo_response = \<lparr>StatusCode = 200, ContentType = ''application/json'', Body = demo_completion,
     resp_Usage = \<lparr>InputTokens = Some 3, OutputTokens = Some 5\<rparr>, resp_DeploymentID = ''d'', resp_RouteType = ''native'',
     ConversationVersion = 0\<rparr>"

definition demo_env :: "(nat \<Rightarrow> interference list) \<Rightarrow> (nat \<Rightarrow> request \<Rightarrow> perror + response) \<Rightarrow> env" where
  "demo_env ev ex = \<lparr>e_events = ev, e_now = int, e_write = (\<lambda>_. True), e_timer = (\<lambda>_. True), e_exec = ex, e_nf = id\<rparr>"

definition demo_world :: world where
  "demo_world = \<lparr>w_run = emit_run ''workflow.queued'' [] 0
       (demo_run\<lparr>r_Status := RunQueued, r_done := Some False, r_subs := Some [],
          r_Steps := [(r_Steps demo_run ! 0)\<lparr>ss_Status := StepPending\<rparr>]\<rparr>),
     w_files = \<lparr>rf_runs = [], rf_events = []\<rparr>, w_ctx = None, w_tick = 0, w_marked = False, w_armed = False,
     w_calls = [], w_closes = 0\<rparr>"

lemma demo_initial: "initial example_flow demo_world"
  by (simp add: initial_def live_def demo_world_def demo_run_def seq_ok_def emit_run_def Let_def mk_event_def
      split_at_def terminal_event_def example_flow_def)

lemma execute_calls_from_steps:
  assumes "initial def w"
  shows "list_all (\<lambda>(q, _). \<exists>st\<in>set (fd_Steps def). from_step st q) (w_calls (execute e def inputs w))"
proof -
  have c: "w_calls (begun e w) = []" using begun_initial [OF assms, of e] by (simp add: initial_def)
  have "list_all (\<lambda>(q, _). \<exists>st\<in>set (fd_Steps def). from_step st q)
      (w_calls (run_steps e def 0 (fd_Steps def) (init_vars def inputs (r_ID (w_run (begun e w)))) 0 0 (begun e w)))"
    by (rule run_steps_calls [where S = "set (fd_Steps def)"
          and P = "list_all (\<lambda>(q, _). \<exists>st\<in>set (fd_Steps def). from_step st q)"])
      (use approved.runStep_keeps c in \<open>auto simp: c\<close>)
  then show ?thesis by (simp add: execute_begun)
qed

section \<open>Properties\<close>

text \<open>C38: Whatever cancellations, deadlines and executor results come when, a run always ends: its
  status is final, its completion channel has been closed exactly once, its events are numbered
  consecutively with exactly one terminal event, the last one, and its steps are a completed prefix,
  at most one step that failed, timed out or was cancelled, and skipped steps after it; the run is
  completed exactly if all its steps are and no error is recorded.\<close>

theorem every_run_ends_settled:
  assumes "initial def w" and "w' = execute e def inputs w"
  shows "Terminal (r_Status (w_run w')) \<and> w_closes w' = 1
    \<and> map ev_Seq (r_events (w_run w')) = [1..r_seq (w_run w')]
    \<and> (\<exists>es ev. r_events (w_run w') = es @ [ev] \<and> terminal_event ev \<and> list_all (\<lambda>ev. \<not> terminal_event ev) es)
    \<and> (\<exists>k. split_at k settled StepSkipped (r_Steps (w_run w')))
    \<and> (r_Status (w_run w') = RunCompleted \<longleftrightarrow>
         list_all (\<lambda>s. ss_Status s = StepCompleted) (r_Steps (w_run w')) \<and> r_ErrorCode (w_run w') = [])"
  using execute_finished [OF assms(1), of e inputs] assms(2)
  unfolding finished_def final_shape_def seq_ok_def by blast

theorem every_run_ends_settled_witness:
  "w_closes (execute (demo_env (\<lambda>k. if k = 6 then [IMark, ICancelCtx] else []) (\<lambda>_ _. Inr demo_response))
     example_flow [(''q'', ''hi'')] demo_world) = 1"
  using every_run_ends_settled [OF demo_initial refl] by blast

text \<open>C39: A run asks the executor a bounded number of times, at most \<open>max_attempts\<close> times the number
  of targets for each step, and an inference timeout ends the run: no call ever follows a call that
  timed out (the same inference is not started twice).\<close>

theorem no_call_after_timeout:
  assumes "initial def w" and "w' = execute e def inputs w"
  shows "no_timeout (butlast (w_calls w')) \<and> length (w_calls w') \<le> call_bound (fd_Steps def)"
proof -
  have c: "w_calls (begun e w) = []" using begun_initial [OF assms(1), of e] by (simp add: initial_def)
  then have "no_timeout (w_calls (begun e w))" by (simp add: no_timeout_def)
  from run_steps_bound [OF this] show ?thesis
    using assms(2) c by (simp add: execute_begun timeout_last_def)
qed

theorem no_call_after_timeout_witness:
  "length (w_calls (execute (demo_env (\<lambda>_. []) (\<lambda>_ _. Inl (mk_error ErrInferenceTimeout [] 0)))
     example_flow [(''q'', ''hi'')] demo_world)) \<le> 1"
proof -
  have "call_bound (fd_Steps example_flow) = 1"
    by (simp add: call_bound_def example_flow_def example_step_def step0_def max_attempts_def targets_def go_defs)
  then show ?thesis using no_call_after_timeout [OF demo_initial refl] by metis
qed

text \<open>A run calls the executor only on behalf of its steps: every request has the logical model
  of a step and that step's pool or one of its approved fallback pools, uses the chat endpoint under
  the frozen contract version, opens no conversation and is not streamed.\<close>

theorem only_approved_targets_are_called:
  assumes "initial def w" and "w' = execute e def inputs w"
  shows "list_all (\<lambda>(q, _). \<exists>st\<in>set (fd_Steps def). from_step st q) (w_calls w')"
  using execute_calls_from_steps [OF assms(1), of e inputs] assms(2) by simp

theorem only_approved_targets_are_called_witness:
  "list_all (\<lambda>(q, _). \<exists>st\<in>set (fd_Steps example_flow). from_step st q)
     (w_calls (execute (demo_env (\<lambda>_. []) (\<lambda>_ _. Inr demo_response)) example_flow [(''q'', ''hi'')] demo_world))"
  by (rule only_approved_targets_are_called [OF demo_initial refl])

text \<open>Validation is enough for rendering: a run of a definition that \<open>Validate\<close> accepts never fails
  on a template reference, whatever inputs it was given; the only template error it can end with is
  the size limit of a rendered input.\<close>

theorem validated_flow_always_renders:
  assumes "Validate def r = []" and "initial def w" and "w' = execute e def inputs w"
    and "r_ErrorCode (w_run w') = CodeTemplateRender"
  shows "(''message'', JStr ''rendered input exceeds size limit'') \<in> set (ev_Data (last (r_events (w_run w'))))"
  using execute_size_limit_only [OF assms(1,2), of e inputs] assms(3,4) by (simp add: size_limit_only_def)

theorem validated_flow_always_renders_witness:
  "(''message'', JStr ''rendered input exceeds size limit'') \<in> set (ev_Data (last (r_events (w_run
     (execute (demo_env (\<lambda>_. []) (\<lambda>_ _. Inr demo_response)) example_flow
       [(''q'', replicate 4194305 CHR ''a'')] demo_world)))))"
proof (rule validated_flow_always_renders [OF validate_example demo_initial refl])
  let ?e = "demo_env (\<lambda>_. []) (\<lambda>_ _. Inr demo_response)" and ?v = "replicate 4194305 CHR ''a''"
  have "tokens ''{{inputs.q}}'' = [Ref ''inputs.q'']" by code_simp
  then have r: "RenderTemplate ''{{inputs.q}}'' vars = Inr v" if "vars ''inputs.q'' = Some v" for vars v
    using that by (simp add: RenderTemplate_def CheckTemplateSyntax_def stripped_def TemplateRefs_def)
  have v: "init_vars example_flow [(''q'', ?v)] rid ''inputs.q'' = Some ?v" for rid
    by (simp add: init_vars_def input_vars_def)
  have rr: "RenderTemplate ''{{inputs.q}}'' (init_vars example_flow [(''q'', ?v)] rid) = Inr ?v" for rid
    by (rule r, rule v)
  have f: "fd_Steps example_flow = [example_step]" "lim_MaxTotalTokens (fd_Limits example_flow) = 0"
    "template_text (st_InputMapping example_step) = ''{{inputs.q}}''"
    by (simp_all add: example_flow_def flow_def0_def example_step_def template_text_def)
  have "w_ctx (tick ?e (begun ?e demo_world)) = None"
    by (simp add: begun_def Let_def tick_def demo_env_def demo_world_def)
  then show "r_ErrorCode (w_run (execute ?e example_flow [(''q'', ?v)] demo_world)) = CodeTemplateRender"
    unfolding execute_begun f by (simp add: rr f Let_def MaxTemplateOutBytes_def)
qed

text \<open>A cancellation is lost when it is accepted between the creation of a run and the first
  update of its runner: \<open>CancelRun\<close> finds no cancel function yet and its mark is overwritten, so the
  run, undisturbed otherwise, is executed to its end and never becomes cancelled.\<close>

theorem early_cancel_is_lost:
  assumes "initial def w" and "w_tick w = 0" and "\<not> w_armed w" and "w_ctx w = None" and "\<not> r_cancelFn (w_run w)"
    and "set (e_events e 0) \<subseteq> {IMark, ICancelCtx, INotify}" and "quiet e"
  shows "r_Status (w_run (execute e def inputs w)) \<in> {RunCompleted, RunFailed}"
proof -
  have "undisturbed (upd e f w)" for f
    using mark_without_fn [OF assms(6,3,4,5), of e] assms(2)
    by (simp add: undisturbed_def upd_def Let_def tick_def store_run_def)
  then have "undisturbed (begun e w)"
    unfolding begun_def Let_def by (rule undisturbed_acts(2) [OF assms(7)])
  from run_steps_quiet [OF assms(7) this] show ?thesis by (simp only: execute_begun)
qed

theorem early_cancel_is_lost_witness:
  "r_Status (w_run (execute (demo_env (\<lambda>k. if k = 0 then [IMark, ICancelCtx, INotify] else []) (\<lambda>_ _. Inr demo_response))
     example_flow [(''q'', ''hi'')] demo_world)) \<in> {RunCompleted, RunFailed}"
  by (rule early_cancel_is_lost [OF demo_initial])
    (simp_all add: demo_world_def demo_run_def demo_env_def quiet_def)

end
