(* ===== verification/WorkflowServiceProps.thy ===== *)
theory WorkflowServiceProps
  imports WorkflowService WorkflowRunProps
begin

text \<open>
  Properties of the workflow service (\<open>platform/workflow/service.go\<close> 20-335): the draft of a flow
  under its revision (so that a publication publishes what was checked), the invariant of the
  service and its consequence for started runs, idempotent starts, and the digest of inputs.
\<close>

section \<open>A draft under its revision\<close>

text \<open>An operation leaves the draft of a flow alone or raises its revision.\<close>

definition draft_of :: "flow_store \<Rightarrow> string \<Rightarrow> draft on_disk" where
  "draft_of s fid = fdir_draft (flowDir s fid)"

definition draft_moved :: "flow_store \<Rightarrow> flow_store \<Rightarrow> string \<Rightarrow> bool" where
  "draft_moved s s' fid \<longleftrightarrow> (\<forall>m. flow_meta_of s fid = Some m \<longrightarrow> (\<exists>m'. flow_meta_of s' fid = Some m'
     \<and> (fm_DraftRevision m < fm_DraftRevision m'
        \<or> fm_DraftRevision m' = fm_DraftRevision m \<and> draft_of s' fid = draft_of s fid)))"

lemma draft_moved_refl: "draft_moved s s fid"
  by (simp add: draft_moved_def)

lemma draft_moved_trans: "draft_moved s t fid \<Longrightarrow> draft_moved t u fid \<Longrightarrow> draft_moved s u fid"
  unfolding draft_moved_def by (fastforce dest: less_trans)

lemma app_flow_draft:
  assumes inv: "flow_inv nf sha s"
  shows "draft_moved s (app_flow nf sha op s) fid"
proof -
  have id: "fm_FlowID m = f" if "flow_meta_of s f = Some m" for f m
    using flow_inv_ok [OF inv that] by (simp add: flow_ok_def)
  show ?thesis
  proof (cases op)
    case (OpCreate raw al nm f now w)
    then show ?thesis
      by (auto simp: draft_moved_def draft_of_def Create_flow_def Let_def store_writes split: option.splits)
  next
    case (OpUpdate f r raw now w)
    show ?thesis
    proof (cases "flow_meta_of s f")
      case (Some m)
      then show ?thesis
        using OpUpdate id [OF Some]
        by (auto simp: draft_moved_def draft_of_def UpdateDraft_def Let_def store_writes split: option.splits)
    qed (use OpUpdate draft_moved_refl in \<open>simp add: UpdateDraft_def\<close>)
  next
    case (OpPublish f r now w)
    show ?thesis
    proof (cases "flow_meta_of s f")
      case (Some m)
      then show ?thesis
        using OpPublish id [OF Some]
        by (auto simp: draft_moved_def draft_of_def Publish_def Let_def store_writes split: sum.splits)
    qed (use OpPublish draft_moved_refl in \<open>simp add: Publish_def\<close>)
  next
    case (OpSetStatus f st now w)
    show ?thesis
    proof (cases "flow_meta_of s f")
      case (Some m)
      then show ?thesis
        using OpSetStatus id [OF Some]
        by (auto simp: draft_moved_def draft_of_def SetStatus_def Let_def store_writes)
    qed (use OpSetStatus draft_moved_refl in \<open>simp add: SetStatus_def\<close>)
  qed
qed

lemma draft_history:
  assumes "idem nf"
  shows "flow_inv nf sha s \<Longrightarrow> draft_moved s (fold (app_flow nf sha) ops s) fid"
proof (induction ops arbitrary: s)
  case (Cons op ops)
  show ?case
    unfolding fold_Cons comp_apply
    by (rule draft_moved_trans [OF app_flow_draft [OF Cons.prems] Cons.IH [OF app_flow_inv [OF assms Cons.prems]]])
qed (simp add: draft_moved_refl)

lemma Publish_draft:
  "Publish fid r now w s = (Inr fv, s') \<Longrightarrow>
     \<exists>m d. flow_meta_of s fid = Some m \<and> fm_DraftRevision m = r \<and> draft_of s fid = File d \<and> fv_Definition fv = dr_Definition d
       \<and> fv_Version fv = fm_LatestVersion m + 1
       \<and> fdir_version (flowDir s fid) (fv_Version fv) = Missing"
  by (auto simp: Publish_def Let_def readDraft_def draft_of_def split: option.splits sum.splits if_splits on_disk.splits)

lemma publish_check_Inr:
  "publish_check fid r s = Inr def \<longleftrightarrow>
     (\<exists>m d. flow_meta_of (sv_flows s) fid = Some m \<and> draft_of (sv_flows s) fid = File d \<and> dr_Revision d = r
       \<and> ParseDefinition (Doc (dr_Definition d)) [] = Inr def \<and> Validate def (sv_resolver s) = [])"
  by (auto simp: publish_check_def GetDraft_def readDraft_def draft_of_def ValidateDefinition_def Let_def
      split: option.splits sum.splits if_splits on_disk.splits)

lemma publish_after_check:
  assumes nf: "idem nf" and inv: "flow_inv nf sha (sv_flows s)"
    and chk: "publish_check fid r s = Inr def"
    and pub: "Publish fid r now w (fold (app_flow nf sha) ops (sv_flows s)) = (Inr fv, fs')"
  shows "ParseDefinition (Doc (fv_Definition fv)) [] = Inr def \<and> Validate def (sv_resolver s) = []"
proof -
  obtain m d where m: "flow_meta_of (sv_flows s) fid = Some m" and d: "draft_of (sv_flows s) fid = File d" "dr_Revision d = r"
    and ok: "ParseDefinition (Doc (dr_Definition d)) [] = Inr def" "Validate def (sv_resolver s) = []"
    using chk publish_check_Inr by blast
  have rm: "fm_DraftRevision m = r"
    using flow_inv_ok [OF inv m] d by (auto simp: flow_ok_def draft_ok_def draft_of_def)
  obtain m' d' where m': "flow_meta_of (fold (app_flow nf sha) ops (sv_flows s)) fid = Some m'" "fm_DraftRevision m' = r"
    "draft_of (fold (app_flow nf sha) ops (sv_flows s)) fid = File d'" "fv_Definition fv = dr_Definition d'"
    using Publish_draft [OF pub] by blast
  have "draft_of (fold (app_flow nf sha) ops (sv_flows s)) fid = draft_of (sv_flows s) fid"
    using draft_history [OF nf inv, of ops fid] m m' rm unfolding draft_moved_def by fastforce
  with m' d have "fv_Definition fv = dr_Definition d" by simp
  with ok show ?thesis by simp
qed

section \<open>Histories of the service\<close>

text \<open>The flow operations as the service and the status changes of its administrators call them.\<close>

datatype sv_op =
    SvCreate body string string time "nat \<Rightarrow> bool"
  | SvUpdate string int body string time "nat \<Rightarrow> bool"
  | SvPublish string int time "nat \<Rightarrow> bool"
  | SvStatus string string time "nat \<Rightarrow> bool"

fun app_sv :: "(string \<Rightarrow> string) \<Rightarrow> (json \<Rightarrow> string) \<Rightarrow> sv_op \<Rightarrow> service \<Rightarrow> service" where
  "app_sv nf sha (SvCreate raw rest fid now w) s =
     (if flow_meta_of (sv_flows s) fid \<noteq> None \<or> fid \<in> fst ` set (fs_disk (sv_flows s)) then s
      else snd (CreateFlow nf sha raw rest fid now w s))"
| "app_sv nf sha (SvUpdate fid r raw rest now w) s = snd (UpdateFlow nf sha fid r raw rest now w s)"
| "app_sv nf sha (SvPublish fid r now w) s = snd (PublishFlow fid r now w s)"
| "app_sv nf sha (SvStatus fid st now w) s = s\<lparr>sv_flows := snd (SetStatus fid st now w (sv_flows s))\<rparr>"

text \<open>Every version file holds a definition that parses and was accepted by the catalog.\<close>

definition version_valid :: "resolver option \<Rightarrow> flow_version on_disk \<Rightarrow> bool" where
  "version_valid r f \<longleftrightarrow> (\<forall>fv. f = File fv \<longrightarrow>
     (\<exists>def. ParseDefinition (Doc (fv_Definition fv)) [] = Inr def \<and> Validate def r = []))"

definition service_inv :: "(string \<Rightarrow> string) \<Rightarrow> (json \<Rightarrow> string) \<Rightarrow> resolver option \<Rightarrow> service \<Rightarrow> bool" where
  "service_inv nf sha r s \<longleftrightarrow> sv_resolver s = r \<and> flow_inv nf sha (sv_flows s)
     \<and> (\<forall>fid v. version_valid r (fdir_version (flowDir (sv_flows s) fid) v))"

lemma Publish_versions_new:
  "fdir_version (flowDir (snd (Publish fid r now w s)) f) v \<noteq> fdir_version (flowDir s f) v \<Longrightarrow>
     \<exists>m d fv. flow_meta_of s fid = Some m \<and> fm_DraftRevision m = r \<and> f = fid
       \<and> fdir_version (flowDir (snd (Publish fid r now w s)) f) v = File fv
       \<and> draft_of s fid = File d \<and> fv_Definition fv = dr_Definition d"
  by (auto simp: Publish_def Let_def store_writes readDraft_def draft_of_def
      split: option.splits sum.splits if_splits on_disk.splits)

lemma CreateFlow_sv:
  "snd (CreateFlow nf sha raw rest fid now w s) = s
     \<or> (\<exists>al nm. snd (CreateFlow nf sha raw rest fid now w s) = s\<lparr>sv_flows := snd (Create_flow nf sha raw al nm fid now w (sv_flows s))\<rparr>)"
proof (cases "ParseDefinition raw rest")
  case (Inr def)
  then show ?thesis
    by (cases "alias_ok (fd_Alias def)") (auto simp: CreateFlow_def Let_def split_beta)
qed (simp add: CreateFlow_def)

lemma UpdateFlow_sv:
  "snd (UpdateFlow nf sha fid r raw rest now w s) = s
     \<or> snd (UpdateFlow nf sha fid r raw rest now w s) = s\<lparr>sv_flows := snd (UpdateDraft nf sha fid r raw now w (sv_flows s))\<rparr>"
  by (auto simp: UpdateFlow_def Let_def split: sum.splits prod.splits)

lemma app_sv_inv:
  assumes nf: "idem nf" and inv: "service_inv nf sha r s"
  shows "service_inv nf sha r (app_sv nf sha op s)"
proof -
  have i: "flow_inv nf sha (sv_flows s)" "sv_resolver s = r" using inv by (simp_all add: service_inv_def)
  have same: "service_inv nf sha r (s\<lparr>sv_flows := fs\<rparr>)"
    if "flow_inv nf sha fs" "\<And>f. fdir_version (flowDir fs f) = fdir_version (flowDir (sv_flows s) f)" for fs
    using that inv by (simp add: service_inv_def)
  show ?thesis
  proof (cases op)
    case (SvCreate raw rest fid now w)
    show ?thesis
    proof (cases "flow_meta_of (sv_flows s) fid \<noteq> None \<or> fid \<in> fst ` set (fs_disk (sv_flows s))")
      case True
      then show ?thesis using SvCreate inv by auto
    next
      case False
      then have "flow_inv nf sha (snd (Create_flow nf sha raw al nm fid now w (sv_flows s)))" for al nm
        using app_flow_inv [OF nf i(1), of "OpCreate raw al nm fid now w"] by simp
      then show ?thesis
        using SvCreate False inv CreateFlow_sv [of nf sha raw rest fid now w s] same Create_flow_versions
        by fastforce
    qed
  next
    case (SvUpdate fid rv raw rest now w)
    have "flow_inv nf sha (snd (UpdateDraft nf sha fid rv raw now w (sv_flows s)))"
      using app_flow_inv [OF nf i(1), of "OpUpdate fid rv raw now w"] by simp
    then show ?thesis
      using SvUpdate inv UpdateFlow_sv [of nf sha fid rv raw rest now w s] same UpdateDraft_versions by fastforce
  next
    case (SvStatus fid st now w)
    have "flow_inv nf sha (snd (SetStatus fid st now w (sv_flows s)))"
      using app_flow_inv [OF nf i(1), of "OpSetStatus fid st now w"] by simp
    then show ?thesis using SvStatus same SetStatus_versions by fastforce
  next
    case (SvPublish fid rv now w)
    show ?thesis
    proof (cases "publish_check fid rv s")
      case (Inl e)
      then show ?thesis using SvPublish inv by (simp add: PublishFlow_def)
    next
      case (Inr def)
      then obtain m d where d: "draft_of (sv_flows s) fid = File d" "ParseDefinition (Doc (dr_Definition d)) [] = Inr def"
        "Validate def r = []"
        using publish_check_Inr i(2) by blast
      let ?fs = "snd (Publish fid rv now w (sv_flows s))"
      have fi: "flow_inv nf sha ?fs"
        using app_flow_inv [OF nf i(1), of "OpPublish fid rv now w"] by simp
      have "version_valid r (fdir_version (flowDir ?fs f) v)" for f v
      proof (cases "fdir_version (flowDir ?fs f) v = fdir_version (flowDir (sv_flows s) f) v")
        case True
        then show ?thesis using inv by (simp add: service_inv_def)
      next
        case False
        from Publish_versions_new [OF False] d show ?thesis by (auto simp: version_valid_def)
      qed
      then have "service_inv nf sha r (s\<lparr>sv_flows := ?fs\<rparr>)" using fi i(2) by (simp add: service_inv_def)
      then show ?thesis using SvPublish Inr by (simp add: PublishFlow_def Let_def split_beta)
    qed
  qed
qed

definition empty_service :: "int \<Rightarrow> nat \<Rightarrow> resolver option \<Rightarrow> service" where
  "empty_service mx runs r = \<lparr>sv_flows = empty_store mx, sv_runs = empty_run_store, sv_resolver = r, sv_sem = 0, sv_maxRuns = runs\<rparr>"

lemma service_inv_empty: "service_inv nf sha r (empty_service mx runs r)"
  by (simp add: service_inv_def empty_service_def flow_inv_empty version_valid_def)
    (simp add: flowDir_def empty_store_def empty_dir_def)

interpretation service: guarded_component
  "\<lambda>s. idem nf \<longrightarrow> service_inv nf sha r s" "empty_service mx runs r" "app_sv nf sha" for nf sha r mx runs
  by unfold_locales (auto simp: service_inv_empty app_sv_inv)

section \<open>Starting a run\<close>

lemma start_plan_Inr:
  "start_plan nf sha hex p now s = Inr pl \<Longrightarrow>
     \<exists>fv latest. ResolveAlias (sv_flows s) (sp_Alias p) = Inr (pl_flowID pl, latest)
       \<and> pl_version pl = (if sp_FlowVersion p = 0 then latest else sp_FlowVersion p)
       \<and> GetVersion nf sha (sv_flows s) (pl_flowID pl) (pl_version pl) = Inr fv
       \<and> ParseDefinition (Doc (fv_Definition fv)) [] = Inr (pl_def pl)
       \<and> ValidateInputs (pl_def pl) (sp_Inputs p) = None"
  by (auto simp: start_plan_def Let_def split: sum.splits if_splits prod.splits)

lemma start_plan_idem:
  "start_plan nf sha hex p now s = Inr pl \<Longrightarrow> sp_IdemKey p \<noteq> [] \<Longrightarrow>
     pl_idem pl = Some (hashParts hex [sp_KeyID p, sp_IdemKey p],
       hashParts hex [sp_Alias p, int_str (pl_version pl), canonicalInputs hex (sp_Inputs p), sp_ResponseMode p])"
  by (auto simp: start_plan_def Let_def split: sum.splits if_splits prod.splits)

lemma GetVersion_file: "GetVersion nf sha s fid v = Inr fv \<Longrightarrow> fdir_version (flowDir s fid) v = File fv"
  by (auto simp: GetVersion_def split: option.splits on_disk.splits if_splits)

lemma start_plan_valid:
  assumes "service_inv nf sha r s" "start_plan nf sha hex p now s = Inr pl"
  shows "Validate (pl_def pl) r = []"
proof -
  obtain fv where fv: "GetVersion nf sha (sv_flows s) (pl_flowID pl) (pl_version pl) = Inr fv"
    "ParseDefinition (Doc (fv_Definition fv)) [] = Inr (pl_def pl)"
    using start_plan_Inr [OF assms(2)] by blast
  then have "version_valid r (File fv)"
    using assms(1) GetVersion_file [OF fv(1)] unfolding service_inv_def by metis
  with fv(2) show ?thesis by (auto simp: version_valid_def)
qed

text \<open>The world the runner of a new run starts in.\<close>

definition start_world :: "run \<Rightarrow> run_files \<Rightarrow> world" where
  "start_world r fs = \<lparr>w_run = r, w_files = fs, w_ctx = None, w_tick = 0, w_marked = False, w_armed = False,
     w_calls = [], w_closes = 0\<rparr>"

lemma StartRun_new:
  assumes "StartRun nf sha hex p rid now ok oke s = (Inr (r, Some def), s')"
  shows "\<exists>pl. start_plan nf sha hex p now s = Inr pl \<and> pl_existing pl = None \<and> def = pl_def pl \<and> ok
    \<and> sv_sem s < sv_maxRuns s
    \<and> r = emit_run ''workflow.queued'' [(''run_id'', JStr rid), (''flow_version'', JNum (int_str (pl_version pl)))] now
        ((new_run p (pl_flowID pl) (pl_version pl) (pl_checksum pl) (pl_def pl))
          \<lparr>r_ID := rid, r_Status := RunQueued, r_CreatedAt := now, r_subs := Some [], r_done := Some False\<rparr>)"
  using assms
  by (auto simp: StartRun_def Let_def Create_run_def split: sum.splits option.splits if_splits)

lemma StartRun_initial:
  assumes "StartRun nf sha hex p rid now ok oke s = (Inr (r, Some def), s')"
  shows "initial def (start_world r fs)"
proof -
  obtain pl :: start_plan where "def = pl_def pl" and r: "r = emit_run ''workflow.queued''
      [(''run_id'', JStr rid), (''flow_version'', JNum (int_str (pl_version pl)))] now
        ((new_run p (pl_flowID pl) (pl_version pl) (pl_checksum pl) (pl_def pl))
          \<lparr>r_ID := rid, r_Status := RunQueued, r_CreatedAt := now, r_subs := Some [], r_done := Some False\<rparr>)"
    using StartRun_new [OF assms] by blast
  then show ?thesis
    by (simp add: initial_def start_world_def live_def new_run_def seq_ok_def emit_run_def Let_def mk_event_def
        terminal_event_def split_at_def pending_step_def)
qed

text \<open>After any history of flow operations, what is started was validated.\<close>

lemma started_from_valid:
  assumes "idem nf" and "s = (fold (app_sv nf sha) ops (empty_service mx n r))\<lparr>sv_runs := rs, sv_sem := k\<rparr>"
    and "StartRun nf sha hex p rid now ok oke s = (Inr (run, Some def), s')"
  shows "Validate def r = [] \<and> initial def (start_world run fs)"
proof -
  have "service_inv nf sha r (fold (app_sv nf sha) ops (empty_service mx n r))"
    using service.run_from_init [of nf sha r ops mx n] assms(1) by simp
  then have "service_inv nf sha r s" by (simp add: assms(2) service_inv_def)
  moreover obtain pl :: start_plan where "start_plan nf sha hex p now s = Inr pl" "def = pl_def pl"
    using StartRun_new [OF assms(3)] by blast
  ultimately have "Validate def r = []" using start_plan_valid by blast
  then show ?thesis using StartRun_initial [OF assms(3)] by blast
qed

text \<open>The key of a request finds the run it started.\<close>

lemma Emit_store:
  "rst_idem (Emit rid ty data now ok s) = rst_idem s"
  "map_of (rst_runs s) rid = Some r \<Longrightarrow> r_ID r = rid \<Longrightarrow>
     map_of (rst_runs (Emit rid ty data now ok s)) rid = Some (emit_run ty data now r)"
  by (cases "map_of (rst_runs s) rid"; simp add: Emit_def put_run_def)+

lemma IdemCheck_cong: "rst_idem s = rst_idem s' \<Longrightarrow> IdemCheck s h p t = IdemCheck s' h p t"
  by (simp add: IdemCheck_def)

lemma IdemRecord_runs [simp]: "rst_runs (IdemRecord h p rid t s) = rst_runs s"
  by (simp add: IdemRecord_def Let_def)

text \<open>The service after a run was started under a key.\<close>

lemma StartRun_state:
  assumes st: "StartRun nf sha hex p rid now ok oke s = (Inr (r, Some def), s')"
    and pl: "start_plan nf sha hex p now s = Inr pl" "pl_existing pl = None" "pl_idem pl = Some (h, sm)"
  shows "\<exists>rs data. map_of (rst_runs rs) rid \<noteq> None \<and> (\<forall>r. map_of (rst_runs rs) rid = Some r \<longrightarrow> r_ID r = rid)
    \<and> s' = s\<lparr>sv_runs := Emit rid ''workflow.queued'' data now oke (IdemRecord h sm rid now rs), sv_sem := Suc (sv_sem s)\<rparr>"
proof -
  let ?c = "Create_run (new_run p (pl_flowID pl) (pl_version pl) (pl_checksum pl) (pl_def pl)) rid now ok (sv_runs s)"
  have "sv_sem s < sv_maxRuns s" "ok" using StartRun_new [OF st] by blast+
  then have "s' = s\<lparr>sv_runs := Emit rid ''workflow.queued''
      [(''run_id'', JStr rid), (''flow_version'', JNum (int_str (pl_version pl)))] now oke
      (IdemRecord h sm rid now (snd ?c)), sv_sem := Suc (sv_sem s)\<rparr>"
    using st pl by (auto simp: StartRun_def Let_def Create_run_def)
  moreover have "map_of (rst_runs (snd ?c)) rid \<noteq> None" "\<forall>r. map_of (rst_runs (snd ?c)) rid = Some r \<longrightarrow> r_ID r = rid"
    by (simp_all add: Create_run_def Let_def put_run_def)
  ultimately show ?thesis by blast
qed

lemma StartRun_repeat:
  assumes st: "StartRun nf sha hex p rid now ok oke s = (Inr (r, Some def), s')"
    and key: "sp_IdemKey p \<noteq> []" "rid \<noteq> []" and t: "now2 \<le> now + idemTTL"
  shows "\<exists>r'. StartRun nf sha hex p rid2 now2 ok2 oke2 s' = (Inr (r', None), s') \<and> r_ID r' = rid
    \<and> map_of (rst_runs (sv_runs s')) rid = Some r'"
proof -
  obtain pl :: start_plan where pl: "start_plan nf sha hex p now s = Inr pl" "pl_existing pl = None"
    using StartRun_new [OF st] by blast
  define h where "h = hashParts hex [sp_KeyID p, sp_IdemKey p]"
  define sm where "sm = hashParts hex [sp_Alias p, int_str (pl_version pl), canonicalInputs hex (sp_Inputs p), sp_ResponseMode p]"
  obtain fv latest where fv: "ResolveAlias (sv_flows s) (sp_Alias p) = Inr (pl_flowID pl, latest)"
    "pl_version pl = (if sp_FlowVersion p = 0 then latest else sp_FlowVersion p)"
    "GetVersion nf sha (sv_flows s) (pl_flowID pl) (pl_version pl) = Inr fv"
    "ParseDefinition (Doc (fv_Definition fv)) [] = Inr (pl_def pl)"
    "ValidateInputs (pl_def pl) (sp_Inputs p) = None"
    using start_plan_Inr [OF pl(1)] by blast
  have idem: "pl_idem pl = Some (h, sm)"
    using start_plan_idem [OF pl(1) key(1)] by (simp add: h_def sm_def)
  obtain rs data where rs: "map_of (rst_runs rs) rid \<noteq> None" "\<forall>r. map_of (rst_runs rs) rid = Some r \<longrightarrow> r_ID r = rid"
    and eq: "s' = s\<lparr>sv_runs := Emit rid ''workflow.queued'' data now oke (IdemRecord h sm rid now rs), sv_sem := Suc (sv_sem s)\<rparr>"
    using StartRun_state [OF st pl idem] by blast
  have s': "sv_flows s' = sv_flows s" by (simp add: eq)
  from rs obtain r0 where r0: "map_of (rst_runs rs) rid = Some r0" "r_ID r0 = rid" by blast
  have "\<exists>r'. map_of (rst_runs (sv_runs s')) rid = Some r' \<and> r_ID r' = rid"
    using Emit_store(2) [of "IdemRecord h sm rid now rs" rid r0] r0 by (simp add: eq)
  moreover have chk: "IdemCheck (sv_runs s') h sm now2 = (rid, False)"
    using IdemCheck_cong [OF Emit_store(1)] IdemCheck_IdemRecord [of h sm rid now rs sm now2] t by (simp add: eq)
  ultimately obtain r' where r': "map_of (rst_runs (sv_runs s')) rid = Some r'" "r_ID r' = rid" by blast
  have "start_plan nf sha hex p now2 s' = Inr (\<lparr>pl_flowID = pl_flowID pl, pl_version = pl_version pl,
      pl_checksum = fv_Checksum fv, pl_def = pl_def pl, pl_idem = Some (h, sm), pl_existing = Some r'\<rparr>)"
    using fv s' r' key chk by (simp add: start_plan_def Let_def Get_run_def h_def sm_def)
  then show ?thesis using r' by (simp add: StartRun_def)
qed

section \<open>The payload digest\<close>

text \<open>Strings closed by a NUL and free of it otherwise can be read back.\<close>

lemma concat_nul_inj:
  assumes "\<forall>p\<in>set ps. CHR 0x00 \<notin> set p" "\<forall>q\<in>set qs. CHR 0x00 \<notin> set q"
    and "concat (map (\<lambda>p. p @ [CHR 0x00]) ps) = concat (map (\<lambda>p. p @ [CHR 0x00]) qs)"
  shows "ps = qs"
  using assms
proof (induction ps arbitrary: qs)
  case Nil
  then show ?case by (cases qs) auto
next
  case (Cons p ps)
  then obtain q qs' where qs: "qs = q # qs'" by (cases qs) auto
  have "split_on CHR 0x00 (p @ CHR 0x00 # concat (map (\<lambda>p. p @ [CHR 0x00]) ps))
      = split_on CHR 0x00 (q @ CHR 0x00 # concat (map (\<lambda>p. p @ [CHR 0x00]) qs'))"
    using Cons.prems(3) qs by simp
  then have "p = q" using Cons.prems(1,2) qs by (simp add: split_on_append)
  moreover from this have "concat (map (\<lambda>p. p @ [CHR 0x00]) ps) = concat (map (\<lambda>p. p @ [CHR 0x00]) qs')"
    using Cons.prems(3) qs by (simp only: list.map concat.simps append_assoc same_append_eq)
  then have "ps = qs'" by (rule Cons.IH [rotated 2]) (use Cons.prems(1,2) qs in auto)
  ultimately show ?case using qs by simp
qed

lemma canonical_bytes_eq:
  "canonical_bytes inputs = concat (map (\<lambda>p. p @ [CHR 0x00]) (concat (map (\<lambda>(k, v). [k, v]) (sort_key fst inputs))))"
proof -
  have "concat (map (\<lambda>(k, v). k @ [CHR 0x00] @ v @ [CHR 0x00]) xs)
      = concat (map (\<lambda>p. p @ [CHR 0x00]) (concat (map (\<lambda>(k, v). [k, v]) xs)))" for xs :: "(string \<times> string) list"
    by (induction xs) auto
  then show ?thesis by (simp add: canonical_bytes_def)
qed

lemma pairs_inj: "concat (map (\<lambda>(k, v). [k, v]) xs) = concat (map (\<lambda>(k, v). [k, v]) ys) \<Longrightarrow> xs = ys"
proof (induction xs arbitrary: ys)
  case Nil
  then show ?case by (cases ys) (auto split: prod.splits)
next
  case (Cons x xs)
  then show ?case by (cases ys) (auto split: prod.splits)
qed

definition nul_free :: "(string \<times> string) list \<Rightarrow> bool" where
  "nul_free inputs \<longleftrightarrow> (\<forall>(k, v)\<in>set inputs. CHR 0x00 \<notin> set k \<and> CHR 0x00 \<notin> set v)"

lemma canonical_bytes_inj:
  assumes "nul_free xs" "nul_free ys" "canonical_bytes xs = canonical_bytes ys"
  shows "mset xs = mset ys"
proof -
  have "sort_key fst xs = sort_key fst ys"
    by (rule pairs_inj, rule concat_nul_inj)
      (use assms in \<open>auto simp: canonical_bytes_eq nul_free_def\<close>)
  then show ?thesis by (metis mset_sort)
qed

section \<open>A service for the examples\<close>

definition demo_sv_ops :: "sv_op list" where
  "demo_sv_ops = [SvCreate (Doc (JObj example_doc)) [] ''f1'' 5 (\<lambda>_. True), SvPublish ''f1'' 1 6 (\<lambda>_. True)]"

definition demo_service :: service where
  "demo_service = fold (app_sv id (\<lambda>_. ''h'')) demo_sv_ops (empty_service 10 4 None)"

definition demo_params :: start_params where
  "demo_params = \<lparr>sp_Alias = ''a'', sp_FlowVersion = 0, sp_Inputs = [(''q'', ''hi'')], sp_ResponseMode = ''sync'',
     sp_KeyID = ''k'', sp_RequestID = ''rq'', sp_DataClass = [], sp_IdemKey = ''key''\<rparr>"

lemma demo_check: "publish_check ''f1'' 1 demo_service = Inr example_flow"
  by code_simp

lemma demo_start:
  "\<exists>r s'. StartRun id (\<lambda>_. ''h'') id demo_params ''r9'' 7 True True demo_service = (Inr (r, Some example_flow), s')"
proof -
  have "map_sum id snd (fst (StartRun id (\<lambda>_. ''h'') id demo_params ''r9'' 7 True True demo_service)) = Inr (Some example_flow)"
    by code_simp
  then show ?thesis
    by (cases "StartRun id (\<lambda>_. ''h'') id demo_params ''r9'' 7 True True demo_service"; case_tac a) auto
qed

section \<open>Properties\<close>

text \<open>C40: What is published is what was validated: whatever flow operations other requests run between
  the check of \<open>PublishFlow\<close> and its publication, a publication that succeeds publishes exactly the
  definition that was checked.\<close>

theorem published_is_what_was_validated:
  assumes "idem nf" and "flow_inv nf sha (sv_flows s)"
    and "publish_check fid r s = Inr def"
    and "Publish fid r now w (fold (app_flow nf sha) ops (sv_flows s)) = (Inr fv, fs')"
  shows "ParseDefinition (Doc (fv_Definition fv)) [] = Inr def \<and> Validate def (sv_resolver s) = []"
  by (rule publish_after_check [OF assms])

text \<open>From the catalog to the run: after any history of flow operations through the service, a run
  that \<open>StartRun\<close> starts executes a definition the catalog accepted, in a proper initial state, and
  never fails on a template reference.\<close>

theorem started_run_is_validated:
  assumes "idem nf" and "s = (fold (app_sv nf sha) ops (empty_service mx n r))\<lparr>sv_runs := rs, sv_sem := k\<rparr>"
    and "StartRun nf sha hex p rid now ok oke s = (Inr (run, Some def), s')"
  shows "Validate def r = [] \<and> initial def (start_world run fs)
    \<and> size_limit_only (execute e def (sp_Inputs p) (start_world run fs))"
proof -
  have v: "Validate def r = []" and i: "initial def (start_world run fs)" using started_from_valid [OF assms] by blast+
  from v i execute_size_limit_only [OF v i] show ?thesis by blast
qed

text \<open>An idempotency key starts one run: within 24 hours of a start, the same request with the same
  key is answered with the run it started, without a new run and without a change of the service.\<close>

theorem repeated_start_returns_same_run:
  assumes "StartRun nf sha hex p rid now ok oke s = (Inr (r, Some def), s')"
    and "sp_IdemKey p \<noteq> []" and "rid \<noteq> []" and "now2 \<le> now + idemTTL"
  shows "\<exists>r'. StartRun nf sha hex p rid2 now2 ok2 oke2 s' = (Inr (r', None), s') \<and> r_ID r' = rid"
  using StartRun_repeat [OF assms] by blast

text \<open>For inputs without NUL bytes the digested bytes determine the inputs, so two payloads with the
  same digest of the bytes are the same payload.\<close>

theorem canonical_inputs_injective:
  assumes "nul_free xs" and "nul_free ys" and "canonical_bytes xs = canonical_bytes ys" and "distinct (map fst xs)"
  shows "map_of xs = map_of ys"
proof -
  have m: "mset xs = mset ys" by (rule canonical_bytes_inj [OF assms(1-3)])
  then have "distinct (map fst ys)"
    using assms(4) mset_eq_imp_distinct_iff [of "map fst xs" "map fst ys"] by simp
  then show ?thesis
    using assms(4) mset_eq_setD [OF m] map_of_inject_set [of xs ys] by blast
qed

text \<open>With NUL bytes, which JSON strings may hold, the digested bytes do not determine the inputs:
  a value can imitate a further input, and the two different payloads have the same digest under
  any hash function, so the key of one is answered with the run of the other.\<close>

theorem nul_inputs_collide:
  "\<exists>xs ys. map_of xs \<noteq> map_of ys \<and> distinct (map fst xs) \<and> distinct (map fst ys)
     \<and> canonicalInputs hex xs = canonicalInputs hex ys"
proof (intro exI conjI)
  let ?xs = "[(''a'', ''x'' @ [CHR 0x00] @ ''b'' @ [CHR 0x00] @ ''y'')]" and ?ys = "[(''a'', ''x''), (''b'', ''y'')]"
  have "map_of ?ys ''b'' = Some ''y''" "map_of ?xs ''b'' = None" by simp_all
  then show "map_of ?xs \<noteq> map_of ?ys" by (metis option.distinct(1))
  show "canonicalInputs hex ?xs = canonicalInputs hex ?ys"
    by (simp add: canonicalInputs_def canonical_bytes_def)
qed simp_all

theorem published_is_what_was_validated_witness:
  "\<exists>fv. fst (Publish ''f1'' 1 9 (\<lambda>_. True) (sv_flows demo_service)) = Inr fv
    \<and> ParseDefinition (Doc (fv_Definition fv)) [] = Inr example_flow"
proof -
  have inv: "flow_inv id (\<lambda>_. ''h'') (sv_flows demo_service)"
    using service.run_from_init [of id "\<lambda>_. ''h''" None demo_sv_ops 10 4]
    by (simp add: idem_id service_inv_def demo_service_def)
  obtain fv where fv: "fst (Publish ''f1'' 1 9 (\<lambda>_. True) (sv_flows demo_service)) = Inr fv"
    using demo_check
  proof -
    have "(case fst (Publish ''f1'' 1 9 (\<lambda>_. True) (sv_flows demo_service)) of Inl _ \<Rightarrow> False | Inr _ \<Rightarrow> True)"
      by code_simp
    then show thesis using that by (cases "fst (Publish ''f1'' 1 9 (\<lambda>_. True) (sv_flows demo_service))") auto
  qed
  then have "Publish ''f1'' 1 9 (\<lambda>_. True) (fold (app_flow id (\<lambda>_. ''h'')) [] (sv_flows demo_service))
      = (Inr fv, snd (Publish ''f1'' 1 9 (\<lambda>_. True) (sv_flows demo_service)))"
    by (metis fold_simps(1) prod.collapse)
  from published_is_what_was_validated [OF idem_id inv demo_check this] fv show ?thesis by blast
qed

theorem started_run_is_validated_witness: "Validate example_flow None = []"
proof -
  obtain r s' where "StartRun id (\<lambda>_. ''h'') id demo_params ''r9'' 7 True True demo_service = (Inr (r, Some example_flow), s')"
    using demo_start by blast
  moreover have "demo_service = (fold (app_sv id (\<lambda>_. ''h'')) demo_sv_ops (empty_service 10 4 None))
      \<lparr>sv_runs := sv_runs demo_service, sv_sem := sv_sem demo_service\<rparr>"
    unfolding demo_service_def [symmetric] by simp
  ultimately show ?thesis
    using started_run_is_validated [OF idem_id, where s = demo_service and sha = "\<lambda>_. ''h''"
        and ops = demo_sv_ops and mx = 10 and n = 4 and r = None and rs = "sv_runs demo_service" and k = "sv_sem demo_service"]
    by blast
qed

theorem repeated_start_returns_same_run_witness:
  "\<exists>r' s'. StartRun id (\<lambda>_. ''h'') id demo_params ''r10'' 8 True True
     (snd (StartRun id (\<lambda>_. ''h'') id demo_params ''r9'' 7 True True demo_service)) = (Inr (r', None), s') \<and> r_ID r' = ''r9''"
proof -
  obtain r s' where s: "StartRun id (\<lambda>_. ''h'') id demo_params ''r9'' 7 True True demo_service = (Inr (r, Some example_flow), s')"
    using demo_start by blast
  have "\<exists>r'. StartRun id (\<lambda>_. ''h'') id demo_params ''r10'' 8 True True s' = (Inr (r', None), s') \<and> r_ID r' = ''r9''"
    by (rule repeated_start_returns_same_run [OF s]) (simp_all add: demo_params_def go_defs)
  then show ?thesis using s by auto
qed

theorem canonical_inputs_injective_witness:
  "map_of [(''a'', ''x''), (''b'', ''y'')] = map_of [(''b'', ''y''), (''a'', ''x'')]"
  by (rule canonical_inputs_injective) (simp_all add: nul_free_def canonical_bytes_def)

end
