(* ===== verification/GwWorkflow.thy ===== *)
theory GwWorkflow
  imports GwPlatform WorkflowServiceProps
begin

text \<open>
  The data-plane API of the workflow engine (\<open>gwcore/workflow_api.go\<close>): starting a run, its result,
  steps and events, cancellation, the accounting when a run ends, and the chat endpoint for
  \<open>flow:\<close> models.

  A handler that waits for a run is given what happens meanwhile to the workflow service
  (\<open>we_later\<close>) and which of the awaited things comes first (\<open>we_wait\<close>, from the length of the wait).
  A stream is given the events it receives on its channel before the client goes away, and how many
  writes the client accepts. The service is \<open>None\<close> when it is not installed. The other parameters
  are those of the workflow service. A body is one document (\<open>Decode\<close> leaves bytes after it unread).
\<close>

section \<open>Errors\<close>

definition syncWaitCap :: time where [go_defs]: "syncWaitCap = 60 * sec"

type_synonym workflows = "service option"

definition SetWorkflowService :: "workflows \<Rightarrow> gw_server \<times> workflows \<Rightarrow> gw_server \<times> workflows" where
  "SetWorkflowService ws s = (fst s, ws)"

definition workflowService :: "gw_server \<times> workflows \<Rightarrow> service option" where
  "workflowService s = (if \<not> PlatformEnabled (sv_cfg (fst s)) \<or> \<not> sv_platform (fst s) then None else snd s)"

definition workflowHTTPStatus :: "string \<Rightarrow> int" where
  "workflowHTTPStatus c =
     (if c = CodeNotFound then 404
      else if c \<in> {CodeInputValidation, CodeTemplateRender} then 400
      else if c \<in> {CodeNotPublished, CodeNoEligible, CodeBudgetExceeded} then 422
      else if c \<in> {CodeIdemConflict, CodeRevConflict} then 409
      else if c = CodeCapacity then 429
      else if c = CodeStepTimeout then 504
      else if c = CodeInvalidResponse then 502
      else 500)"

definition workflow_error :: "run_err \<Rightarrow> api_error" where
  "workflow_error e =
     (api_error (workflowHTTPStatus (re_Code e)) (re_Code e) [])
       \<lparr>ae_RetryAfter := (if re_RetryAfter e > 0 then re_RetryAfter e else 0)\<rparr>"

section \<open>Requests and answers\<close>

record start_request =
  rq_FlowVersion :: int
  rq_Inputs :: "(string \<times> string) list"
  rq_ResponseMode :: string
  rq_TimeoutMS :: int
  rq_Metadata :: "(string \<times> json) list"

definition start_request0 :: start_request where
  "start_request0 = \<lparr>rq_FlowVersion = 0, rq_Inputs = [], rq_ResponseMode = [], rq_TimeoutMS = 0, rq_Metadata = []\<rparr>"

definition dec_start_request :: "string \<Rightarrow> json \<Rightarrow> start_request \<Rightarrow> start_request option" where
  "dec_start_request k v q =
     (if key_eq k ''flow_version'' then map_option (\<lambda>x. q\<lparr>rq_FlowVersion := x\<rparr>) (dec_int (rq_FlowVersion q) v)
      else if key_eq k ''inputs'' then map_option (\<lambda>x. q\<lparr>rq_Inputs := x\<rparr>) (dec_map (dec_string []) (rq_Inputs q) v)
      else if key_eq k ''response_mode'' then map_option (\<lambda>x. q\<lparr>rq_ResponseMode := x\<rparr>) (dec_string (rq_ResponseMode q) v)
      else if key_eq k ''timeout_ms'' then map_option (\<lambda>x. q\<lparr>rq_TimeoutMS := x\<rparr>) (dec_int (rq_TimeoutMS q) v)
      else if key_eq k ''metadata'' then map_option (\<lambda>x. q\<lparr>rq_Metadata := x\<rparr>) (dec_map Some (rq_Metadata q) v)
      else None)"

record run_result =
  rr_RunID :: string
  rr_FlowID :: string
  rr_Alias :: string
  rr_FlowVersion :: int
  rr_Status :: string
  rr_InputTokens :: int
  rr_OutputTokens :: int
  rr_TotalTokens :: int
  rr_CreatedAt :: time
  rr_ErrorCode :: string
  rr_Completed :: "(time \<times> int) option"
  rr_Output :: "string option"

record decision_view =
  dv_Attempt :: int
  dv_LogicalModel :: string
  dv_PoolID :: string
  dv_FallbackUsed :: bool
  dv_ErrorCode :: string

record step_view =
  sw_StepID :: string
  sw_Status :: string
  sw_Attempts :: int
  sw_InputTokens :: int
  sw_OutputTokens :: int
  sw_ErrorCode :: string
  sw_StartedAt :: "time option"
  sw_CompletedAt :: "time option"
  sw_Decisions :: "decision_view list"

datatype sse = SseEvent event | SseOutput string | SseDone

datatype wf_answer =
    WfError api_error
  | WfResult int run_result
  | WfSteps string "step_view list"
  | WfStream "sse list"
  | WfCancelling string string
  | WfChat bool string time string "int \<times> int \<times> int"
  | WfGone
  | WfPanic

definition run_not_found :: api_error where
  "run_not_found = api_error 404 CodeNotFound ''run not found''"

section \<open>Results\<close>

text \<open>\<open>Duration.Milliseconds\<close> truncates towards zero.\<close>

definition millis :: "time \<Rightarrow> int" where
  "millis d = (if d < 0 then - ((- d) div msec) else d div msec)"

definition run_result_of :: "run_store \<Rightarrow> run \<Rightarrow> run_result" where
  "run_result_of s snap =
     \<lparr>rr_RunID = r_ID snap, rr_FlowID = r_FlowID snap, rr_Alias = r_Alias snap, rr_FlowVersion = r_FlowVersion snap,
      rr_Status = r_Status snap, rr_InputTokens = r_InputTokens snap, rr_OutputTokens = r_OutputTokens snap,
      rr_TotalTokens = i64 (r_InputTokens snap + r_OutputTokens snap), rr_CreatedAt = r_CreatedAt snap,
      rr_ErrorCode = r_ErrorCode snap,
      rr_Completed = map_option (\<lambda>t. (t, millis (t - r_CreatedAt snap))) (r_CompletedAt snap),
      rr_Output = Output s (r_ID snap)\<rparr>"

definition writeRunResult :: "run_store \<Rightarrow> string \<Rightarrow> int \<Rightarrow> wf_answer" where
  "writeRunResult s runID status =
     (case Snapshot s runID of
        Inl _ \<Rightarrow> WfError run_not_found
      | Inr snap \<Rightarrow> WfResult status (run_result_of s snap))"

section \<open>Event streams\<close>

definition terminal_type :: "string \<Rightarrow> bool" where
  "terminal_type t \<longleftrightarrow> t \<in> {''workflow.completed'', ''workflow.failed'', ''workflow.cancelled''}"

definition stream_end :: "run_store \<Rightarrow> string \<Rightarrow> string \<Rightarrow> sse list" where
  "stream_end s runID typ =
     (if typ = ''workflow.completed'' then (case Output s runID of None \<Rightarrow> [] | Some t \<Rightarrow> [SseOutput t]) else []) @ [SseDone]"

text \<open>The writing of events up to the first terminal one; \<open>n\<close> writes are accepted by the client.\<close>

fun write_events :: "run_store \<Rightarrow> string \<Rightarrow> nat \<Rightarrow> event list \<Rightarrow> sse list" where
  "write_events s runID n [] = []"
| "write_events s runID 0 (ev # evs) = []"
| "write_events s runID (Suc n) (ev # evs) =
     SseEvent ev # (if terminal_type (ev_Type ev) then take n (stream_end s runID (ev_Type ev)) else write_events s runID n evs)"

text \<open>\<open>streamWorkflowRun\<close>: replayed events, then those received on the channel; \<open>later\<close> gives the service
  when the stream ends.\<close>

definition streamWorkflowRun ::
  "(service \<Rightarrow> service) \<Rightarrow> event list \<Rightarrow> nat \<Rightarrow> string \<Rightarrow> int \<Rightarrow> service \<Rightarrow> wf_answer \<times> service" where
  "streamWorkflowRun later received accepts runID lastSeq svc =
     (case Subscribe runID lastSeq (sv_runs svc) of
        (Inl ErrRunNotFound, rs) \<Rightarrow> (WfError run_not_found, svc\<lparr>sv_runs := rs\<rparr>)
      | (Inl _, rs) \<Rightarrow> (WfPanic, svc\<lparr>sv_runs := rs\<rparr>)
      | (Inr (replay, i), rs) \<Rightarrow>
          (let svc2 = later (svc\<lparr>sv_runs := rs\<rparr>)
           in (WfStream (write_events (sv_runs svc2) runID accepts (replay @ received)),
               svc2\<lparr>sv_runs := Unsubscribe runID i (sv_runs svc2)\<rparr>)))"

section \<open>Requests for one run\<close>

text \<open>\<open>ownRun\<close>: the run of another key is answered like an unknown one.\<close>

definition ownRun :: "virtual_key \<Rightarrow> string \<Rightarrow> gw_server \<times> workflows \<Rightarrow> api_error + service \<times> string" where
  "ownRun key runID s =
     (case workflowService s of
        None \<Rightarrow> Inl (api_error 404 ''invalid_request'' ''workflow support is not enabled'')
      | Some svc \<Rightarrow>
          (case Snapshot (sv_runs svc) runID of
             Inl _ \<Rightarrow> Inl run_not_found
           | Inr snap \<Rightarrow> if r_KeyID snap \<noteq> vk_ID key then Inl run_not_found else Inr (svc, runID)))"

definition handleWorkflowRunGet :: "virtual_key \<Rightarrow> string \<Rightarrow> gw_server \<times> workflows \<Rightarrow> wf_answer" where
  "handleWorkflowRunGet key rid s =
     (case ownRun key rid s of Inl err \<Rightarrow> WfError err | Inr (svc, runID) \<Rightarrow> writeRunResult (sv_runs svc) runID 200)"

definition decision_view_of :: "route_decision \<Rightarrow> decision_view" where
  "decision_view_of d = \<lparr>dv_Attempt = rd_Attempt d, dv_LogicalModel = rd_LogicalModel d, dv_PoolID = rd_PoolID d,
     dv_FallbackUsed = rd_FallbackUsed d, dv_ErrorCode = rd_ErrorCode d\<rparr>"

definition step_view_of :: "step_state \<Rightarrow> step_view" where
  "step_view_of st = \<lparr>sw_StepID = ss_StepID st, sw_Status = ss_Status st, sw_Attempts = ss_Attempts st,
     sw_InputTokens = ss_InputTokens st, sw_OutputTokens = ss_OutputTokens st, sw_ErrorCode = ss_ErrorCode st,
     sw_StartedAt = ss_StartedAt st, sw_CompletedAt = ss_CompletedAt st, sw_Decisions = map decision_view_of (ss_Decisions st)\<rparr>"

definition handleWorkflowRunSteps :: "virtual_key \<Rightarrow> string \<Rightarrow> gw_server \<times> workflows \<Rightarrow> wf_answer" where
  "handleWorkflowRunSteps key rid s =
     (case ownRun key rid s of
        Inl err \<Rightarrow> WfError err
      | Inr (svc, runID) \<Rightarrow>
          (case Snapshot (sv_runs svc) runID of
             Inl _ \<Rightarrow> WfError run_not_found
           | Inr snap \<Rightarrow> WfSteps (r_ID snap) (map step_view_of (r_Steps snap))))"

text \<open>The number of an event id: what \<open>strconv.ParseInt\<close> gives beside its error, the nearest 64-bit
  integer when it is out of range and 0 when it is not a number.\<close>

definition parse_clamped :: "string \<Rightarrow> int" where
  "parse_clamped s =
     (let (neg, ds) = (case s of [] \<Rightarrow> (False, []) | c # cs \<Rightarrow> if c = CHR ''-'' then (True, cs) else if c = CHR ''+'' then (False, cs) else (False, s));
          n = (if neg then - digits_val ds else digits_val ds)
      in if ds = [] \<or> \<not> list_all is_digit ds then 0 else max (- (2 ^ 63)) (min (2 ^ 63 - 1) n))"

definition last_event_id :: "string \<Rightarrow> string \<Rightarrow> int" where
  "last_event_id hdr qry = (if hdr \<noteq> [] then parse_clamped hdr else if qry \<noteq> [] then parse_clamped qry else 0)"

definition handleWorkflowRunEvents ::
  "(service \<Rightarrow> service) \<Rightarrow> event list \<Rightarrow> nat \<Rightarrow> string \<Rightarrow> string \<Rightarrow> virtual_key \<Rightarrow> string \<Rightarrow> gw_server \<times> workflows
     \<Rightarrow> wf_answer \<times> workflows" where
  "handleWorkflowRunEvents later received accepts hdr qry key rid s =
     (case ownRun key rid s of
        Inl err \<Rightarrow> (WfError err, snd s)
      | Inr (svc, runID) \<Rightarrow>
          (let lastSeq = last_event_id hdr qry in
           case Get_run (sv_runs svc) runID of
             Inl _ \<Rightarrow> (WfError run_not_found, snd s)
           | Inr run \<Rightarrow> (let (a, svc') = streamWorkflowRun later received accepts (r_ID run) lastSeq svc in (a, Some svc'))))"

text \<open>The cancellation with its event; the request to the executor is not part of the service's state.\<close>

definition handleWorkflowRunCancel ::
  "time \<Rightarrow> bool \<Rightarrow> virtual_key \<Rightarrow> string \<Rightarrow> gw_server \<times> workflows \<Rightarrow> wf_answer \<times> workflows" where
  "handleWorkflowRunCancel now ok key rid s =
     (case ownRun key rid s of
        Inl err \<Rightarrow> (WfError err, snd s)
      | Inr (svc, runID) \<Rightarrow>
          (case CancelRun runID ok (sv_runs svc) of
             (Inl _, rs) \<Rightarrow> (WfError run_not_found, Some (svc\<lparr>sv_runs := rs\<rparr>))
           | (Inr c, rs) \<Rightarrow>
               (let rs2 = (case c of None \<Rightarrow> rs | Some _ \<Rightarrow> cancel_event runID now ok rs);
                    status = (case Snapshot rs2 runID of Inl _ \<Rightarrow> RunCancelling | Inr snap \<Rightarrow> r_Status snap)
                in (WfCancelling runID status, Some (svc\<lparr>sv_runs := rs2\<rparr>)))))"

section \<open>Accounting\<close>

record watch =
  wt_RunID :: string
  wt_Alias :: string
  wt_KeyID :: string
  wt_DataClass :: string
  wt_Endpoint :: string

definition used_fallback :: "run \<Rightarrow> bool" where
  "used_fallback snap \<longleftrightarrow> list_ex (\<lambda>st. list_ex rd_FallbackUsed (ss_Decisions st)) (r_Steps snap)"

text \<open>\<open>watchWorkflowRun\<close> once the run is done.\<close>

definition watchWorkflowRun :: "time \<Rightarrow> string \<Rightarrow> watch \<Rightarrow> run_store \<Rightarrow> gw_server \<Rightarrow> gw_server" where
  "watchWorkflowRun now date x rs s =
     (case Snapshot rs (wt_RunID x) of
        Inl _ \<Rightarrow> s
      | Inr snap \<Rightarrow>
          (let (status, result) =
                 (if r_Status snap = RunFailed then (500, r_ErrorCode snap)
                  else if r_Status snap = RunTimedOut then (504, r_ErrorCode snap)
                  else if r_Status snap = RunCancelled then (200, ''cancelled'')
                  else (200, ''success''));
               toks = \<lparr>InputTokens = Some (r_InputTokens snap), OutputTokens = Some (r_OutputTokens snap)\<rparr>;
               s1 = Record \<lparr>ar_Timestamp = now, ar_RequestID = r_RequestID snap, ar_GatewayID = gs_ID (gc_Gateway (sv_cfg s)),
                      ar_VirtualKeyID = wt_KeyID x, ar_Endpoint = wt_Endpoint x, ar_LogicalModel = ''flow:'' @ wt_Alias x,
                      ar_PhysicalModel = [], ar_DataClass = wt_DataClass x, ar_Routing = ''workflow'', ar_Status = status,
                      ar_Result = result, ar_Tokens = toks, ar_LatencyMS = millis (now - r_CreatedAt snap), ar_ContentLogged = False\<rparr> s
           in s1\<lparr>sv_usage := add_usage date (''flow:'' @ wt_Alias x) (InputTokens toks) (OutputTokens toks)
                  (r_Status snap \<noteq> RunCompleted) (sv_usage s1),
                sv_metrics := recordWorkflowRun (r_Status snap) (used_fallback snap) (sv_metrics s1)\<rparr>))"

definition auditWorkflowDenied :: "time \<Rightarrow> in_request \<Rightarrow> virtual_key \<Rightarrow> string \<Rightarrow> run_err \<Rightarrow> gw_server \<Rightarrow> gw_server" where
  "auditWorkflowDenied now r key alias err s =
     Record \<lparr>ar_Timestamp = now, ar_RequestID = iq_RequestID r, ar_GatewayID = gs_ID (gc_Gateway (sv_cfg s)),
       ar_VirtualKeyID = vk_ID key, ar_Endpoint = iq_Path r, ar_LogicalModel = ''flow:'' @ alias, ar_PhysicalModel = [],
       ar_DataClass = iq_DataClass r, ar_Routing = ''workflow'', ar_Status = workflowHTTPStatus (re_Code err),
       ar_Result = re_Code err, ar_Tokens = no_usage, ar_LatencyMS = 0, ar_ContentLogged = False\<rparr> s"

section \<open>Starting a run\<close>

datatype wait = RunDone | WaitOver | ClientLeft

record wf_env =
  we_nf :: "string \<Rightarrow> string"
  we_sha :: "json \<Rightarrow> string"
  we_hex :: "string \<Rightarrow> string"
  we_newID :: string
  we_now :: time
  we_ok :: bool
  we_ok_event :: bool
  we_ttft :: time
  we_wait :: "time \<Rightarrow> wait"
  we_later :: "service \<Rightarrow> service"
  we_received :: "event list"
  we_accepts :: nat

text \<open>The start of a run and of its watcher, shared by both endpoints. A run whose request id is that of
  this request is taken for a new one.\<close>

definition start_watched ::
  "wf_env \<Rightarrow> in_request \<Rightarrow> start_params \<Rightarrow> service \<Rightarrow> (run_err + run \<times> watch list) \<times> service" where
  "start_watched e r p svc =
     (case StartRun (we_nf e) (we_sha e) (we_hex e) p (we_newID e) (we_now e) (we_ok e) (we_ok_event e) svc of
        (Inl err, svc') \<Rightarrow> (Inl err, svc')
      | (Inr (run, _), svc') \<Rightarrow>
          (Inr (run, if r_RequestID run = sp_RequestID p
                     then [\<lparr>wt_RunID = r_ID run, wt_Alias = sp_Alias p, wt_KeyID = sp_KeyID p,
                            wt_DataClass = sp_DataClass p, wt_Endpoint = iq_Path r\<rparr>]
                     else []), svc'))"

definition sync_wait :: "int \<Rightarrow> time" where
  "sync_wait timeoutMS =
     (if timeoutMS > 0 \<and> i64 (timeoutMS * msec) < syncWaitCap then i64 (timeoutMS * msec) else syncWaitCap)"

text \<open>The checks of \<open>handleWorkflowStart\<close>; the flag says whether a refusal is audited.\<close>

definition start_checks ::
  "in_request \<Rightarrow> virtual_key \<Rightarrow> string \<Rightarrow> gw_server \<times> workflows \<Rightarrow> (bool \<times> api_error) + service \<times> string \<times> start_request" where
  "start_checks r key alias s =
     (case workflowService s of
        None \<Rightarrow> Inl (False, api_error 404 ''invalid_request'' ''workflow support is not enabled'')
      | Some svc \<Rightarrow>
          if \<not> AllowsModel key (''flow:'' @ alias) then
            Inl (True, api_error 403 ''policy_denied'' ''this flow is not allowed for this key'')
          else if \<not> iq_BodyReadable r \<or> iq_BodyLength r > gs_MaxRequestBytes (gc_Gateway (sv_cfg (fst s))) then
            Inl (False, api_error 400 ''invalid_request'' ''request body unreadable or too large'')
          else
            (case unmarshal (dec_struct dec_start_request start_request0) (iq_Body r) of
               None \<Rightarrow> Inl (False, api_error 400 ''invalid_request'' ''invalid run request'')
             | Some q \<Rightarrow>
                 (let mode = (if rq_ResponseMode q = [] then ''sync'' else rq_ResponseMode q) in
                  if mode \<noteq> ''sync'' \<and> mode \<noteq> ''stream'' then
                    Inl (False, api_error 400 ''invalid_request'' ''response_mode must be sync or stream'')
                  else Inr (svc, mode, q))))"

definition start_request_params :: "in_request \<Rightarrow> virtual_key \<Rightarrow> string \<Rightarrow> string \<Rightarrow> start_request \<Rightarrow> start_params" where
  "start_request_params r key alias mode q =
     \<lparr>sp_Alias = alias, sp_FlowVersion = rq_FlowVersion q, sp_Inputs = rq_Inputs q, sp_ResponseMode = mode, sp_KeyID = vk_ID key,
      sp_RequestID = iq_RequestID r, sp_DataClass = iq_DataClass r, sp_IdemKey = iq_IdempotencyKey r\<rparr>"

definition handleWorkflowStart ::
  "wf_env \<Rightarrow> in_request \<Rightarrow> virtual_key \<Rightarrow> string \<Rightarrow> gw_server \<times> workflows \<Rightarrow> wf_answer \<times> (gw_server \<times> workflows) \<times> watch list" where
  "handleWorkflowStart e r key alias s =
     (case start_checks r key alias s of
        Inl (audited, err) \<Rightarrow>
          (WfError err, (if audited then auditDenied (we_now e) r (Some key) 403 ''policy_denied'' (fst s) else fst s, snd s), [])
      | Inr (svc, mode, q) \<Rightarrow>
          (case start_watched e r (start_request_params r key alias mode q) svc of
             (Inl err, svc') \<Rightarrow> (WfError (workflow_error err), (auditWorkflowDenied (we_now e) r key alias err (fst s), Some svc'), [])
           | (Inr (run, ws), svc') \<Rightarrow>
               if mode = ''stream'' then
                 (let (a, svc2) = streamWorkflowRun (we_later e) (we_received e) (we_accepts e) (r_ID run) 0 svc'
                  in (a, (fst s, Some svc2), ws))
               else
                 (let svc2 = we_later e svc';
                      a = (case we_wait e (sync_wait (rq_TimeoutMS q)) of
                             RunDone \<Rightarrow> writeRunResult (sv_runs svc2) (r_ID run) 200
                           | WaitOver \<Rightarrow> writeRunResult (sv_runs svc2) (r_ID run) 202
                           | ClientLeft \<Rightarrow> WfGone)
                  in (a, (fst s, Some svc2), ws))))"

section \<open>The chat endpoint\<close>

text \<open>The last message of the user.\<close>

definition chat_text :: "(string \<times> json) list \<Rightarrow> api_error + string" where
  "chat_text p =
     (case (case map_of p ''messages'' of None \<Rightarrow> Some [] | Some raw \<Rightarrow> raw_messages raw) of
        None \<Rightarrow> Inl (api_error 400 ''invalid_request'' ''messages must be an array'')
      | Some msgs \<Rightarrow>
          (let user = (case List.find (\<lambda>m. rm_Role m = ''user'') (rev msgs) of
                         None \<Rightarrow> Some []
                       | Some m \<Rightarrow> (case rm_Content m of None \<Rightarrow> None | Some v \<Rightarrow> dec_string [] v))
           in case user of
                None \<Rightarrow> Inl (api_error 400 ''invalid_request'' ''structured message content is not supported for flow models'')
              | Some t \<Rightarrow> if t = [] then Inl (api_error 400 ''invalid_request'' ''a user message is required'') else Inr t))"

definition chat_result :: "service \<Rightarrow> string \<Rightarrow> bool \<Rightarrow> wf_answer" where
  "chat_result svc runID streaming =
     (case Snapshot (sv_runs svc) runID of
        Inl _ \<Rightarrow> WfError (api_error 500 ''server_error'' ''run lost'')
      | Inr snap \<Rightarrow>
          if r_Status snap \<noteq> RunCompleted then
            (let c = (if r_ErrorCode snap = [] then CodeInternal else r_ErrorCode snap)
             in WfError (api_error (workflowHTTPStatus c) c (''workflow run '' @ to_lower (r_Status snap))))
          else
            WfChat streaming (r_ID snap) (r_CreatedAt snap)
              (case Output (sv_runs svc) runID of None \<Rightarrow> [] | Some t \<Rightarrow> t)
              (r_InputTokens snap, r_OutputTokens snap, i64 (r_InputTokens snap + r_OutputTokens snap)))"

text \<open>The metrics of an answer that is sent as a stream.\<close>

definition chat_stream :: "wf_env \<Rightarrow> wf_answer \<Rightarrow> gw_server \<Rightarrow> gw_server" where
  "chat_stream e a s =
     (case a of WfChat True _ _ _ _ \<Rightarrow> stream_ended (stream_started (we_ttft e) s) | _ \<Rightarrow> s)"

definition workflowChat ::
  "wf_env \<Rightarrow> bool \<Rightarrow> in_request \<Rightarrow> virtual_key \<Rightarrow> (string \<times> json) list \<Rightarrow> gw_server \<times> workflows
     \<Rightarrow> wf_answer \<times> (gw_server \<times> workflows) \<times> watch list" where
  "workflowChat e alias_on r key p s =
     (case workflowService s of
        None \<Rightarrow> (WfError (api_error 404 ''model_unavailable'' ''unknown model''), s, [])
      | Some svc \<Rightarrow>
          if \<not> alias_on then (WfError (api_error 404 ''model_unavailable'' ''unknown model''), s, [])
          else
            (let alias = trim_prefix (logical_model p) ''flow:'' in
             case chat_text p of
               Inl err \<Rightarrow> (WfError err, s, [])
             | Inr userText \<Rightarrow>
                 (case SingleInputName (we_nf e) (we_sha e) svc alias of
                    Inl err \<Rightarrow> (WfError (workflow_error err), (auditWorkflowDenied (we_now e) r key alias err (fst s), snd s), [])
                  | Inr inputName \<Rightarrow>
                      (case start_watched e r
                              \<lparr>sp_Alias = alias, sp_FlowVersion = 0, sp_Inputs = [(inputName, userText)], sp_ResponseMode = ''sync'',
                               sp_KeyID = vk_ID key, sp_RequestID = iq_RequestID r, sp_DataClass = iq_DataClass r,
                               sp_IdemKey = iq_IdempotencyKey r\<rparr> svc of
                         (Inl err, svc') \<Rightarrow>
                           (WfError (workflow_error err), (auditWorkflowDenied (we_now e) r key alias err (fst s), Some svc'), [])
                       | (Inr (run, ws), svc') \<Rightarrow>
                           (let svc2 = we_later e svc';
                                a = (case we_wait e syncWaitCap of
                                       RunDone \<Rightarrow> chat_result svc2 (r_ID run) (is_streaming p)
                                     | WaitOver \<Rightarrow> WfError (api_error 504 ''inference_timeout''
                                         ''workflow did not finish within the chat completion window; use the workflow API'')
                                     | ClientLeft \<Rightarrow> WfGone)
                            in (a, (chat_stream e a (fst s), Some svc2), ws))))))"

end
