(* ===== verification/GwWorkflowProps.thy ===== *)
theory GwWorkflowProps
  imports GwWorkflow
begin

text \<open>
  Properties of the workflow API: who may start and see a run, which definitions are executed, what an
  event stream shows, and the accounting of a repeated start.
\<close>

section \<open>Starting\<close>

lemma StartRun_new_run:
  assumes "StartRun nf sha hex p rid now ok oke s = (Inr (r, Some def), s')"
  shows "r_ID r = rid \<and> r_KeyID r = sp_KeyID p \<and> r_RequestID r = sp_RequestID p \<and> r_Alias r = sp_Alias p
    \<and> r_DataClass r = sp_DataClass p \<and> r_Status r = RunQueued"
  using StartRun_new [OF assms] by (auto simp: emit_run_def new_run_def Let_def)

lemma StartRun_stored:
  assumes "StartRun nf sha hex p rid now ok oke s = (Inr (r, Some def), s')"
  shows "map_of (rst_runs (sv_runs s')) rid = Some r"
  using assms
  by (auto simp: StartRun_def Create_run_def put_run_def Emit_def Let_def split: sum.splits option.splits if_splits)

lemma start_watched_Inr:
  assumes "start_watched e r p svc = (Inr (run, ws), svc')"
  shows "\<exists>d. StartRun (we_nf e) (we_sha e) (we_hex e) p (we_newID e) (we_now e) (we_ok e) (we_ok_event e) svc = (Inr (run, d), svc')"
    and "x \<in> set ws \<Longrightarrow> wt_RunID x = r_ID run \<and> wt_KeyID x = sp_KeyID p \<and> wt_Alias x = sp_Alias p"
  using assms by (auto simp: start_watched_def split: prod.splits sum.splits if_splits)

lemma start_checks_Inr:
  assumes "start_checks r key alias s = Inr (svc, mode, q)"
  shows "workflowService s = Some svc" and "AllowsModel key (''flow:'' @ alias)" and "mode \<in> {''sync'', ''stream''}"
  using assms by (auto simp: start_checks_def Let_def split: option.splits if_splits)

lemma handleWorkflowStart_watch:
  assumes "handleWorkflowStart e r key alias s = (a, s', x # ws)"
  obtains svc p run svc' where "workflowService s = Some svc" and "AllowsModel key (''flow:'' @ alias)"
    and "sp_Alias p = alias" and "sp_KeyID p = vk_ID key" and "sp_DataClass p = iq_DataClass r"
    and "start_watched e r p svc = (Inr (run, x # ws), svc')"
proof -
  obtain svc mode q where c: "start_checks r key alias s = Inr (svc, mode, q)"
    using assms by (cases "start_checks r key alias s") (auto simp: handleWorkflowStart_def split: prod.splits if_splits)
  let ?p = "start_request_params r key alias mode q"
  obtain res svc' where t: "start_watched e r ?p svc = (res, svc')" by (cases "start_watched e r ?p svc")
  obtain run ws' where "res = Inr (run, ws')"
    using assms c t by (cases res) (auto simp: handleWorkflowStart_def)
  moreover have "ws' = x # ws"
    using assms c t calculation by (auto simp: handleWorkflowStart_def Let_def split: prod.splits if_splits)
  ultimately show thesis
    using that [of svc ?p run svc'] start_checks_Inr [OF c] t by (simp add: start_request_params_def)
qed

lemma workflowChat_watch:
  assumes "workflowChat e on r key p s = (a, s', x # ws)"
  obtains svc q run svc' where "workflowService s = Some svc" and "on"
    and "sp_Alias q = trim_prefix (logical_model p) ''flow:''" and "sp_KeyID q = vk_ID key" and "sp_DataClass q = iq_DataClass r"
    and "start_watched e r q svc = (Inr (run, x # ws), svc')"
proof -
  obtain svc where v: "workflowService s = Some svc" "on"
    using assms by (cases "workflowService s") (auto simp: workflowChat_def split: if_splits)
  obtain txt' where t: "chat_text p = Inr txt'"
    using assms v by (cases "chat_text p") (auto simp: workflowChat_def)
  obtain nm where n: "SingleInputName (we_nf e) (we_sha e) svc (trim_prefix (logical_model p) ''flow:'') = Inr nm"
    using assms v t by (cases "SingleInputName (we_nf e) (we_sha e) svc (trim_prefix (logical_model p) ''flow:'')")
      (auto simp: workflowChat_def Let_def)
  let ?q = "\<lparr>sp_Alias = trim_prefix (logical_model p) ''flow:'', sp_FlowVersion = 0, sp_Inputs = [(nm, txt')],
    sp_ResponseMode = ''sync'', sp_KeyID = vk_ID key, sp_RequestID = iq_RequestID r, sp_DataClass = iq_DataClass r,
    sp_IdemKey = iq_IdempotencyKey r\<rparr>"
  obtain res svc' where w: "start_watched e r ?q svc = (res, svc')" by (cases "start_watched e r ?q svc")
  obtain run ws' where "res = Inr (run, ws')"
    using assms v t n w by (cases res) (auto simp: workflowChat_def Let_def)
  moreover have "ws' = x # ws" using assms v t n w calculation by (auto simp: workflowChat_def Let_def)
  ultimately show thesis using that [of svc ?q run svc'] v w by simp
qed

section \<open>Streams\<close>

text \<open>The events up to the first terminal one.\<close>

fun upto_terminal :: "event list \<Rightarrow> event list" where
  "upto_terminal [] = []"
| "upto_terminal (ev # evs) = (if terminal_type (ev_Type ev) then [ev] else ev # upto_terminal evs)"

definition shown :: "sse list \<Rightarrow> event list" where
  "shown out = concat (map (\<lambda>x. case x of SseEvent ev \<Rightarrow> [ev] | _ \<Rightarrow> []) out)"

lemma shown_simps [simp]:
  "shown [] = []" "shown (SseEvent ev # out) = ev # shown out" "shown (SseDone # out) = shown out"
  "shown (SseOutput t # out) = shown out"
  by (simp_all add: shown_def)

lemma shown_end [simp]: "shown (take n (stream_end s rid typ)) = []"
  by (cases n; cases "n - 1") (auto simp: stream_end_def split: option.splits)

lemma shown_write_events: "shown (write_events s rid n evs) = take n (upto_terminal evs)"
  by (induction s rid n evs rule: write_events.induct) simp_all

lemma stream_end_length: "length (stream_end s rid typ) \<le> 2"
  by (simp add: stream_end_def split: option.split)

lemma stream_end_done: "SseDone \<in> set (stream_end s rid typ)"
  unfolding stream_end_def set_append list.set by blast

lemma write_events_done:
  "length evs + 2 \<le> n \<Longrightarrow> SseDone \<in> set (write_events s rid n evs) \<longleftrightarrow> (\<exists>ev \<in> set evs. terminal_type (ev_Type ev))"
proof (induction evs arbitrary: n)
  case (Cons ev evs)
  then obtain m where m: "n = Suc m" "length evs + 2 \<le> m" by (cases n) auto
  then have "take m (stream_end s rid (ev_Type ev)) = stream_end s rid (ev_Type ev)"
    using stream_end_length [of s rid "ev_Type ev"] by simp
  then show ?case using Cons.IH [OF m(2)] m(1) stream_end_done by simp
qed simp

text \<open>A client that reconnects with the number of the last event, after the run has ended, gets
  nothing more, not even the end of the stream.\<close>

lemma resumed_stream_never_ends:
  assumes "map_of (rst_runs (sv_runs svc)) rid = Some r" and "r_subs r = Some subs" and "seq_ok r"
  shows "fst (streamWorkflowRun later [] n rid (r_seq r) svc) = WfStream []"
proof -
  have "ev_Seq ev \<le> r_seq r" if "ev \<in> set (r_events r)" for ev
  proof -
    have "ev_Seq ev \<in> set (map ev_Seq (r_events r))" using that by simp
    then show ?thesis using assms(3) unfolding seq_ok_def by simp
  qed
  then have "filter (\<lambda>ev. ev_Seq ev > r_seq r) (r_events r) = []" by (fastforce simp: filter_empty_conv)
  then show ?thesis using assms by (simp add: streamWorkflowRun_def Subscribe_def Let_def)
qed

lemma upto_terminal_prefix: "prefix (upto_terminal evs) evs"
  by (induction evs) auto

lemma prefix_upto: "prefix xs [a..b] \<Longrightarrow> xs = [a..a + int (length xs) - 1]"
proof (induction xs rule: rev_induct)
  case (snoc x xs)
  then have p: "prefix xs [a..b]" by (metis append_prefixD)
  note ih = snoc.IH [OF p]
  obtain zs where z: "[a..b] = xs @ x # zs" using snoc.prems by (auto simp: prefix_def)
  have "length xs < length [a..b]" unfolding z by simp
  moreover have "[a..b] ! length xs = x" unfolding z by simp
  ultimately have "x = a + int (length xs)" by simp
  then show ?case using ih by (simp add: upto_rec2)
qed simp

lemma upto_append: "a \<le> b + 1 \<Longrightarrow> [a..b] @ [b + 1..c] = [a..max b c]"
proof (cases "b < c")
  case True
  assume "a \<le> b + 1"
  then show ?thesis using True by (cases "a = b + 1") (simp_all add: upto_split2 [of a b c] max_def)
qed (simp add: max_def)

section \<open>Example\<close>

text \<open>A gateway whose key may start the flow of the example service.\<close>

definition flow_gateway :: gw_config where
  "flow_gateway = demo_gateway\<lparr>gc_Platform := Some demo_config,
     gc_VirtualKeys := [demo_key\<lparr>vk_AllowedModels := [''flow:a'']\<rparr>]\<rparr>"

definition flow_front :: gw_server where
  "flow_front = (NewServer (gw_with_defaults flow_gateway))\<lparr>sv_platform := True\<rparr>"

definition flow_in :: in_request where
  "flow_in = (demo_in ''internal'')\<lparr>iq_IdempotencyKey := ''key'',
     iq_Body := Doc (JObj [(''inputs'', JObj [(''q'', JStr ''hi'')])])\<rparr>"

definition flow_env :: wf_env where
  "flow_env = \<lparr>we_nf = id, we_sha = (\<lambda>_. ''h''), we_hex = id, we_newID = ''r9'', we_now = 7, we_ok = True, we_ok_event = True,
     we_ttft = 1, we_wait = (\<lambda>_. WaitOver), we_later = id, we_received = [], we_accepts = 0\<rparr>"

definition flow_call :: "(api_error + virtual_key \<times> in_request) \<times> gw_server" where
  "flow_call = withAuth demo_hash [] 0 flow_in flow_front"

lemma flow_call_starts:
  "case fst flow_call of Inl _ \<Rightarrow> False
   | Inr (key, r) \<Rightarrow>
       (case handleWorkflowStart flow_env r key ''a'' (snd flow_call, Some demo_service) of
          (a, s', ws) \<Rightarrow> map wt_RunID ws = [''r9''] \<and> (case a of WfResult st res \<Rightarrow> st = 202 \<and> rr_Status res = RunQueued | _ \<Rightarrow> False))"
  by code_simp

text \<open>The first call of the example, with its watcher.\<close>

definition watch_params :: start_params where
  "watch_params = demo_params\<lparr>sp_KeyID := ''k1'', sp_RequestID := ''q1''\<rparr>"

lemma demo_watched:
  "\<exists>run x svc'. start_watched flow_env flow_in watch_params demo_service = (Inr (run, [x]), svc')
     \<and> StartRun id (\<lambda>_. ''h'') id watch_params ''r9'' 7 True True demo_service = (Inr (run, Some example_flow), svc')"
proof -
  let ?S = "StartRun id (\<lambda>_. ''h'') id watch_params ''r9'' 7 True True demo_service"
  have "map_sum id (\<lambda>(r, d). (r_RequestID r, d)) (fst ?S) = Inr (''q1'', Some example_flow)" by code_simp
  then obtain run svc' where "?S = (Inr (run, Some example_flow), svc')" "r_RequestID run = ''q1''"
    by (cases ?S; cases "fst ?S") auto
  moreover have "sp_RequestID watch_params = ''q1''" by (simp add: watch_params_def)
  ultimately show ?thesis by (simp add: start_watched_def flow_env_def)
qed

section \<open>Properties\<close>


text \<open>A run belongs to the key that started it: right after the start its key reads it back, queued
  and without output, and for every other key the API answers each request for it like one for an
  unknown run and changes nothing.\<close>

theorem started_run_belongs_to_its_key:
  assumes "StartRun nf sha hex p rid now ok oke svc = (Inr (run, Some def), svc')"
    and "workflowService (s, Some svc') = Some svc'"
  shows "(\<forall>key. vk_ID key = sp_KeyID p \<longrightarrow>
        (\<exists>res. handleWorkflowRunGet key (r_ID run) (s, Some svc') = WfResult 200 res \<and> rr_RunID res = rid \<and> rr_Alias res = sp_Alias p
          \<and> rr_Status res = RunQueued \<and> rr_Output res = None))
    \<and> (\<forall>key. vk_ID key \<noteq> sp_KeyID p \<longrightarrow>
        handleWorkflowRunGet key (r_ID run) (s, Some svc') = WfError run_not_found
        \<and> handleWorkflowRunSteps key (r_ID run) (s, Some svc') = WfError run_not_found
        \<and> handleWorkflowRunEvents later received n hdr qry key (r_ID run) (s, Some svc') = (WfError run_not_found, Some svc')
        \<and> handleWorkflowRunCancel now2 ok2 key (r_ID run) (s, Some svc') = (WfError run_not_found, Some svc'))"
proof -
  note r = StartRun_new_run [OF assms(1)]
  have m: "map_of (rst_runs (sv_runs svc')) (r_ID run) = Some run" using StartRun_stored [OF assms(1)] r by simp
  have own: "ownRun key (r_ID run) (s, Some svc') = (if vk_ID key = sp_KeyID p then Inr (svc', r_ID run) else Inl run_not_found)" for key
    using assms(2) m r by (simp add: ownRun_def Snapshot_def snapshotLocked_def)
  have q: "RunQueued \<noteq> RunCompleted" by (simp add: go_defs)
  have "\<exists>res. writeRunResult (sv_runs svc') (r_ID run) 200 = WfResult 200 res \<and> rr_RunID res = rid \<and> rr_Alias res = sp_Alias p
          \<and> rr_Status res = RunQueued \<and> rr_Output res = None"
    using m r q by (simp add: writeRunResult_def run_result_of_def Snapshot_def snapshotLocked_def Output_def)
  then show ?thesis
    by (simp add: handleWorkflowRunGet_def handleWorkflowRunSteps_def handleWorkflowRunEvents_def handleWorkflowRunCancel_def own)
qed

text \<open>An event stream is complete: with a client that takes every write, the stream shows the events
  after the given number, numbered one after the other without a gap, replayed and live ones, up to
  the first terminal event, and it is closed with \<open>done\<close> exactly when there is one.\<close>

theorem event_stream_is_complete:
  assumes "map_of (rst_runs (sv_runs svc)) rid = Some r" and "r_subs r = Some subs" and "seq_ok r"
    and "0 \<le> lastSeq" and "lastSeq \<le> r_seq r" and "map ev_Seq received = [r_seq r + 1..m]"
    and "length (r_events r) + length received + 2 \<le> n"
  shows "\<exists>out. fst (streamWorkflowRun later received n rid lastSeq svc) = WfStream out
    \<and> shown out = upto_terminal (filter (\<lambda>ev. ev_Seq ev > lastSeq) (r_events r) @ received)
    \<and> map ev_Seq (shown out) = [lastSeq + 1..lastSeq + int (length (shown out))]
    \<and> (SseDone \<in> set out \<longleftrightarrow> (\<exists>ev \<in> set (r_events r) \<union> set received. lastSeq < ev_Seq ev \<and> terminal_type (ev_Type ev)))"
proof -
  let ?evs = "filter (\<lambda>ev. ev_Seq ev > lastSeq) (r_events r) @ received"
  define rs where "rs = snd (Subscribe rid lastSeq (sv_runs svc))"
  define out where "out = write_events (sv_runs (later (svc\<lparr>sv_runs := rs\<rparr>))) rid n ?evs"
  have o: "fst (streamWorkflowRun later received n rid lastSeq svc) = WfStream out"
    using assms(1,2) by (simp add: streamWorkflowRun_def Subscribe_def Let_def out_def rs_def)
  have len: "length ?evs + 2 \<le> n" by (rule order_trans [OF _ assms(7)]) simp
  have "prefix (shown out) ?evs" "length (upto_terminal ?evs) \<le> n"
    using upto_terminal_prefix [of ?evs] prefix_length_le [OF upto_terminal_prefix [of ?evs]] len
    by (simp_all add: out_def shown_write_events)
  then have sh: "shown out = upto_terminal ?evs" by (simp add: out_def shown_write_events)
  have rec: "lastSeq < ev_Seq ev" if "ev \<in> set received" for ev
  proof -
    have "ev_Seq ev \<in> set (map ev_Seq received)" using that by simp
    then show ?thesis using assms(5) unfolding assms(6) by simp
  qed
  have "map ev_Seq ?evs = [lastSeq + 1..r_seq r] @ [r_seq r + 1..m]"
    using replay_seqs [OF assms(3,4)] assms(6) by simp
  then have "map ev_Seq ?evs = [lastSeq + 1..max (r_seq r) m]" using assms(5) by (simp add: upto_append)
  moreover have "prefix (map ev_Seq (shown out)) (map ev_Seq ?evs)"
    using \<open>prefix (shown out) ?evs\<close> map_mono_prefix by blast
  ultimately have "map ev_Seq (shown out) = [lastSeq + 1..lastSeq + int (length (shown out))]"
    using prefix_upto [of "map ev_Seq (shown out)"] by fastforce
  moreover have "SseDone \<in> set out \<longleftrightarrow> (\<exists>ev \<in> set (r_events r) \<union> set received. lastSeq < ev_Seq ev \<and> terminal_type (ev_Type ev))"
    using write_events_done [OF len] rec unfolding out_def by auto
  ultimately show ?thesis using o sh by blast
qed

text \<open>A retried start is accounted twice: when a client repeats a start with the same idempotency key and
  the same request id, the service answers with the run of the first start, but the gateway takes
  it for a new one and watches it a second time, so that its end writes two audit lines and counts
  its tokens twice.\<close>

theorem retried_start_is_counted_twice:
  assumes "start_watched e r p svc = (Inr (run, ws), svc')"
    and "StartRun (we_nf e) (we_sha e) (we_hex e) p (we_newID e) (we_now e) (we_ok e) (we_ok_event e) svc = (Inr (run, Some def), svc')"
    and "sp_IdemKey p \<noteq> []" and "we_newID e \<noteq> []" and "now2 \<le> we_now e + idemTTL"
  shows "\<exists>x. ws = [x] \<and> wt_RunID x = we_newID e
    \<and> start_watched (e\<lparr>we_newID := rid2, we_now := now2\<rparr>) r p svc' = (Inr (run, [x]), svc')
    \<and> (\<forall>rs snap s t1 t2 d1 d2. Snapshot rs (we_newID e) = Inr snap \<longrightarrow>
         length (sv_audit (watchWorkflowRun t2 d2 x rs (watchWorkflowRun t1 d1 x rs s))) = length (sv_audit s) + 2)"
proof -
  note n = StartRun_new_run [OF assms(2)]
  define x where "x = \<lparr>wt_RunID = r_ID run, wt_Alias = sp_Alias p, wt_KeyID = sp_KeyID p, wt_DataClass = sp_DataClass p,
    wt_Endpoint = iq_Path r\<rparr>"
  have "ws = [x]" using assms(1,2) n by (simp add: start_watched_def x_def)
  moreover have "start_watched (e\<lparr>we_newID := rid2, we_now := now2\<rparr>) r p svc' = (Inr (run, [x]), svc')"
    using StartRun_repeat [OF assms(2,3,4,5), of rid2 "we_ok e" "we_ok_event e"] StartRun_stored [OF assms(2)] n
    by (auto simp: start_watched_def x_def)
  moreover have "length (sv_audit (watchWorkflowRun t d x rs s)) = length (sv_audit s) + 1"
    if "Snapshot rs (we_newID e) = Inr snap" for t d rs s snap
    using that n by (simp add: watchWorkflowRun_def x_def Record_def Let_def split: prod.split)
  moreover have "wt_RunID x = we_newID e" using n by (simp add: x_def)
  ultimately show ?thesis by auto
qed


theorem started_run_belongs_to_its_key_witness:
  "\<exists>(run :: run) svc'. handleWorkflowRunGet (demo_key\<lparr>vk_ID := ''other''\<rparr>) (r_ID run) (flow_front, Some svc') = WfError run_not_found
     \<and> (\<exists>res. handleWorkflowRunGet demo_key (r_ID run) (flow_front, Some svc') = WfResult 200 res)"
proof -
  obtain run x svc' where st: "StartRun id (\<lambda>_. ''h'') id watch_params ''r9'' 7 True True demo_service = (Inr (run, Some example_flow), svc')"
    using demo_watched by blast
  have "PlatformEnabled (sv_cfg flow_front) \<and> sv_platform flow_front" by code_simp
  then have "workflowService (flow_front, Some svc') = Some svc'" by (simp add: workflowService_def)
  from started_run_belongs_to_its_key [OF st this] have
    "vk_ID k = sp_KeyID watch_params \<Longrightarrow> \<exists>res. handleWorkflowRunGet k (r_ID run) (flow_front, Some svc') = WfResult 200 res"
    "vk_ID k \<noteq> sp_KeyID watch_params \<Longrightarrow> handleWorkflowRunGet k (r_ID run) (flow_front, Some svc') = WfError run_not_found" for k
    by blast+
  note h = this
  have "vk_ID demo_key = sp_KeyID watch_params" "vk_ID (demo_key\<lparr>vk_ID := ''other''\<rparr>) \<noteq> sp_KeyID watch_params"
    by (simp_all add: watch_params_def demo_key_def)
  from h(1) [OF this(1)] h(2) [OF this(2)] show ?thesis by blast
qed

theorem event_stream_is_complete_witness:
  "\<exists>svc out. fst (streamWorkflowRun id [] 5 ''r9'' 0 svc) = WfStream out \<and> map ev_Seq (shown out) = [1] \<and> SseDone \<notin> set out"
proof -
  let ?S = "StartRun id (\<lambda>_. ''h'') id watch_params ''r9'' 7 True True demo_service"
  obtain run svc' where st: "?S = (Inr (run, Some example_flow), svc')" using demo_watched by blast
  have "case fst ?S of Inl _ \<Rightarrow> False | Inr (r, _) \<Rightarrow> r_subs r = Some [] \<and> r_seq r = 1 \<and> map ev_Seq (r_events r) = [1]
      \<and> map ev_Type (r_events r) = [''workflow.queued'']" by code_simp
  then have r: "r_subs run = Some []" "r_seq run = 1" "map ev_Seq (r_events run) = [1]" "map ev_Type (r_events run) = [''workflow.queued'']"
    by (simp_all add: st)
  then obtain ev where ev: "r_events run = [ev]" "ev_Seq ev = 1" "ev_Type ev = ''workflow.queued''" by auto
  have "seq_ok run" using r by (simp add: seq_ok_def)
  from event_stream_is_complete [OF StartRun_stored [OF st] r(1) this, where lastSeq = 0 and m = 1 and received = "[]" and n = 5 and later = id]
  obtain out where "fst (streamWorkflowRun id [] 5 ''r9'' 0 svc') = WfStream out" "shown out = upto_terminal [ev]"
    "SseDone \<in> set out \<longleftrightarrow> terminal_type (ev_Type ev)"
    using ev r by auto
  then have "fst (streamWorkflowRun id [] 5 ''r9'' 0 svc') = WfStream out \<and> map ev_Seq (shown out) = [1] \<and> SseDone \<notin> set out"
    using ev by (simp add: terminal_type_def)
  then show ?thesis by (intro exI)
qed

theorem retried_start_is_counted_twice_witness:
  "\<exists>run x svc'. start_watched flow_env flow_in watch_params demo_service = (Inr (run, [x]), svc')
     \<and> start_watched (flow_env\<lparr>we_newID := ''r10'', we_now := 8\<rparr>) flow_in watch_params svc' = (Inr (run, [x]), svc')"
proof -
  obtain run x svc' where w: "start_watched flow_env flow_in watch_params demo_service = (Inr (run, [x]), svc')"
    and st: "StartRun id (\<lambda>_. ''h'') id watch_params ''r9'' 7 True True demo_service = (Inr (run, Some example_flow), svc')"
    using demo_watched by blast
  have st': "StartRun (we_nf flow_env) (we_sha flow_env) (we_hex flow_env) watch_params (we_newID flow_env) (we_now flow_env)
      (we_ok flow_env) (we_ok_event flow_env) demo_service = (Inr (run, Some example_flow), svc')"
    using st by (simp add: flow_env_def)
  have "sp_IdemKey watch_params \<noteq> []" "we_newID flow_env \<noteq> []" "8 \<le> we_now flow_env + idemTTL"
    by (simp_all add: watch_params_def demo_params_def flow_env_def go_defs)
  from retried_start_is_counted_twice [OF w st' this, of "''r10''"] w show ?thesis by auto
qed

end
