(* ===== verification/PlatformProps.thy ===== *)
theory PlatformProps
  imports OrchestratorProps GwWorkflowProps
begin

text \<open>
  Properties of the platform as a whole: a workflow validated against the catalog
  (\<open>platform/platform.go\<close>) and run by the orchestrator that serves this catalog, and a request that
  enters at the gateway.
\<close>

section \<open>Validated flows and the catalog\<close>

lemma validated_step:
  assumes "Validate def (Some (catalogResolver cfg)) = []" and st: "st \<in> set (fd_Steps def)"
  shows "(\<exists>m. FindModel cfg (rt_LogicalModel (st_RuntimeTarget st)) = Some m \<and> me_ApprovalStatus m = ApprovalApproved)
    \<and> (rt_PoolID (st_RuntimeTarget st) \<noteq> [] \<longrightarrow> FindPool cfg (rt_PoolID (st_RuntimeTarget st)) \<noteq> None)
    \<and> (\<forall>fp. st_FallbackPolicy st = Some fp \<longrightarrow> (\<forall>p\<in>set (fp_AllowedPoolIDs fp). FindPool cfg p \<noteq> None))"
proof -
  obtain i where "i < length (fd_Steps def)" "fd_Steps def ! i = st" using st by (auto simp: in_set_conv_nth)
  then have "\<exists>ns es. wf_step (Some (catalogResolver cfg)) ns es st" using assms(1) by (auto simp: Validate_Nil wf_flow_def)
  then show ?thesis by (auto simp: wf_step_def catalogResolver_def split: option.splits)
qed

lemma request_of_validated_step:
  assumes "Validate def (Some (catalogResolver cfg)) = []" and "st \<in> set (fd_Steps def)" and "from_step st q"
  shows "(\<exists>m. FindModel cfg (LogicalModel q) = Some m \<and> me_ApprovalStatus m = ApprovalApproved)
    \<and> (PoolID q \<noteq> [] \<longrightarrow> FindPool cfg (PoolID q) \<noteq> None)"
  using validated_step [OF assms(1,2)] assms(3) by (auto simp: from_step_def)

lemma Execute_reachable: "list_all (reachable_deployment o1 q) (map fst (snd (snd (snd (Execute nt q now done o1)))))"
proof -
  obtain a b c lg where e: "Execute nt q now done o1 = (a, b, c, lg)" by (metis surj_pair)
  then show ?thesis using Execute_log [OF e] prepared_reachable [of q now "nt_writes nt 0" o1] by auto
qed

section \<open>Example\<close>

definition chat_flow :: flow_def where
  "chat_flow = example_flow\<lparr>fd_Steps := [example_step\<lparr>st_RuntimeTarget := \<lparr>rt_LogicalModel = ''chat'', rt_PoolID = ''p1''\<rparr>\<rparr>]\<rparr>"

lemma chat_flow_valid: "Validate chat_flow (Some (catalogResolver (with_defaults demo_config))) = []"
  by code_simp

lemma chat_flow_initial: "initial chat_flow demo_world"
  using demo_initial by (simp add: initial_def chat_flow_def example_flow_def)

text \<open>The gateway in front of the platform of the examples.\<close>

definition demo_front :: gw_server where
  "demo_front = (NewServer (gw_with_defaults (demo_gateway\<lparr>gc_Platform := Some demo_config\<rparr>)))\<lparr>sv_platform := True\<rparr>"

definition demo_call :: "(api_error + virtual_key \<times> in_request) \<times> gw_server" where
  "demo_call = withAuth demo_hash [] 0 (demo_in ''internal'') demo_front"

lemma demo_call_passes: "map_sum id (\<lambda>(k, r). vk_ID k) (fst demo_call) = Inr ''k1''"
  by code_simp

lemma demo_call_route:
  "case fst demo_call of Inl _ \<Rightarrow> False
   | Inr (key, r) \<Rightarrow> (case platform_route (sv_cfg (snd demo_call)) r key ''/v1/chat/completions'' of
        ToBackend q p \<Rightarrow> map fst (snd (snd (snd (Execute demo_net q 0 9 demo_orch)))) = [''d1'', ''d2''] | _ \<Rightarrow> False)"
  by code_simp

section \<open>Properties\<close>



text \<open>C2: What is validated is what is served: a run of a flow that was validated against the catalog asks
  only for approved models and existing pools of this catalog, and when the orchestrator serving
  the catalog executes such a request, it calls only available deployments of that model in that
  pool.\<close>

theorem validated_flow_stays_in_catalog:
  assumes "Validate def (Some (catalogResolver (ot_cfg o1))) = []" and "initial def w" and "w' = execute e def inputs w"
  shows "list_all (\<lambda>(q, _). (\<exists>m. FindModel (ot_cfg o1) (LogicalModel q) = Some m \<and> me_ApprovalStatus m = ApprovalApproved)
      \<and> (PoolID q \<noteq> [] \<longrightarrow> FindPool (ot_cfg o1) (PoolID q) \<noteq> None)
      \<and> list_all (reachable_deployment o1 q) (map fst (snd (snd (snd (Execute nt q now done o1)))))) (w_calls w')"
  using execute_calls_from_steps [OF assms(2), of e inputs] request_of_validated_step [OF assms(1)] Execute_reachable assms(3)
  by (fastforce simp: list_all_iff)

theorem validated_flow_stays_in_catalog_witness:
  "list_all (\<lambda>(q, _). PoolID q \<noteq> [] \<longrightarrow> FindPool (with_defaults demo_config) (PoolID q) \<noteq> None)
     (w_calls (execute (demo_env (\<lambda>_. []) (\<lambda>_ _. Inr demo_response)) chat_flow [(''q'', ''hi'')] demo_world))"
proof -
  have v: "Validate chat_flow (Some (catalogResolver (ot_cfg demo_orch))) = []" using chat_flow_valid by (simp add: demo_orch_def)
  have "ot_cfg demo_orch = with_defaults demo_config" by (simp add: demo_orch_def)
  with validated_flow_stays_in_catalog [OF v chat_flow_initial refl, where nt = demo_net and now = 0]
  show ?thesis unfolding list_all_iff by fastforce
qed

end
