(* ===== verification/Signing.thy ===== *)
theory Signing
  imports Json "HOL-Library.Countable"
begin

text \<open>
  Signatures (\<open>sign/canonical.go\<close>, \<open>sign/license.go\<close>, \<open>sign/signer.go\<close>): the canonical form that is
  signed, and the issue and verification of licences.

  Of the standard library, base64 is defined here; the others are arguments: \<open>nf\<close> reprints a number,
  \<open>render\<close> prints a document, \<open>tstr\<close> and \<open>ptime\<close> print and read a time, \<open>sg\<close> signs with the private
  key and \<open>vf\<close> verifies with a public key (Ed25519). A document is given as it parses.
\<close>

section \<open>Base64\<close>

definition b64_alphabet :: string where
  "b64_alphabet = ''ABCDEFGHIJKLMNOPQRSTUVWXYZabcdefghijklmnopqrstuvwxyz0123456789+/''"

definition b64_char :: "nat \<Rightarrow> char" where
  "b64_char n = b64_alphabet ! n"

definition b64_val :: "char \<Rightarrow> nat option" where
  "b64_val c = (let i = length (takeWhile (\<lambda>x. x \<noteq> c) b64_alphabet) in if i < 64 then Some i else None)"

fun b64_encode_nats :: "nat list \<Rightarrow> string" where
  "b64_encode_nats [] = []"
| "b64_encode_nats [a] = [b64_char (a div 4), b64_char (a mod 4 * 16), CHR ''='', CHR ''='']"
| "b64_encode_nats [a, b] =
     [b64_char (a div 4), b64_char (a mod 4 * 16 + b div 16), b64_char (b mod 16 * 4), CHR ''='']"
| "b64_encode_nats (a # b # c # ns) =
     [b64_char (a div 4), b64_char (a mod 4 * 16 + b div 16), b64_char (b mod 16 * 4 + c div 64), b64_char (c mod 64)]
     @ b64_encode_nats ns"

definition b64_encode :: "string \<Rightarrow> string" where
  "b64_encode s = b64_encode_nats (map of_char s)"

text \<open>The quanta of four: padding ends the text, and the bits that padding leaves over are ignored.\<close>

fun b64_decode_nats :: "string \<Rightarrow> nat list option" where
  "b64_decode_nats [] = Some []"
| "b64_decode_nats (w # x # y # z # cs) =
     (case (b64_val w, b64_val x) of
        (Some a, Some b) \<Rightarrow>
          (if y = CHR ''='' then (if z = CHR ''='' \<and> cs = [] then Some [a * 4 + b div 16] else None)
           else case b64_val y of
             None \<Rightarrow> None
           | Some c \<Rightarrow>
               (if z = CHR ''='' then (if cs = [] then Some [a * 4 + b div 16, b mod 16 * 16 + c div 4] else None)
                else case (b64_val z, b64_decode_nats cs) of
                  (Some d, Some ns) \<Rightarrow> Some ([a * 4 + b div 16, b mod 16 * 16 + c div 4, c mod 4 * 64 + d] @ ns)
                | _ \<Rightarrow> None))
      | _ \<Rightarrow> None)"
| "b64_decode_nats _ = None"

definition b64_decode :: "string \<Rightarrow> string option" where
  "b64_decode s = map_option (map char_of) (b64_decode_nats (filter (\<lambda>c. c \<notin> {CHR 0x0A, CHR 0x0D}) s))"

lemma b64_alphabet_simps: "length b64_alphabet = 64" "distinct b64_alphabet"
  "CHR ''='' \<notin> set b64_alphabet" "CHR 0x0A \<notin> set b64_alphabet" "CHR 0x0D \<notin> set b64_alphabet"
  by (simp_all add: b64_alphabet_def)

lemma takeWhile_nth_distinct: "distinct xs \<Longrightarrow> n < length xs \<Longrightarrow> length (takeWhile (\<lambda>x. x \<noteq> xs ! n) xs) = n"
proof (induction xs arbitrary: n)
  case (Cons x xs)
  show ?case
  proof (cases n)
    case (Suc m)
    then have "x \<noteq> xs ! m" using Cons.prems by auto
    then show ?thesis using Cons Suc by simp
  qed simp
qed simp

lemma b64_val_char [simp]:
  assumes "n < 64"
  shows "b64_val (b64_char n) = Some n" "b64_char n \<noteq> CHR ''=''" "b64_char n \<noteq> CHR 0x0A" "b64_char n \<noteq> CHR 0x0D"
proof -
  have "b64_char n \<in> set b64_alphabet" using assms by (simp add: b64_char_def b64_alphabet_simps)
  then show "b64_char n \<noteq> CHR ''=''" "b64_char n \<noteq> CHR 0x0A" "b64_char n \<noteq> CHR 0x0D"
    using b64_alphabet_simps(3-5) by metis+
  show "b64_val (b64_char n) = Some n"
    using assms takeWhile_nth_distinct [OF b64_alphabet_simps(2), of n] by (simp add: b64_val_def b64_char_def b64_alphabet_simps(1))
qed

text \<open>The sextets of three bytes, and back.\<close>

lemma b64_split:
  assumes "y < k" and "0 < (k::nat)"
  shows "(x * k + y) div k = x" "(x * k + y) mod k = y"
  using assms by simp_all

lemma b64_sextets:
  assumes "a < (256::nat)" and "b < (256::nat)" and "c < (256::nat)"
  shows "a div 4 < 64" "a mod 4 * 16 + b div 16 < 64" "b mod 16 * 4 + c div 64 < 64" "c mod 64 < 64"
    and "a mod 4 * 16 < 64" "b mod 16 * 4 < 64"
    and "a div 4 * 4 + (a mod 4 * 16 + b div 16) div 16 = a"
    and "(a mod 4 * 16 + b div 16) mod 16 * 16 + (b mod 16 * 4 + c div 64) div 4 = b"
    and "(b mod 16 * 4 + c div 64) mod 4 * 64 + c mod 64 = c"
    and "a div 4 * 4 + a mod 4 * 16 div 16 = a"
    and "(a mod 4 * 16 + b div 16) mod 16 * 16 + b mod 16 * 4 div 4 = b"
proof -
  have l: "a div 4 < 64" "b div 16 < 16" "c div 64 < 4" by (rule less_mult_imp_div_less; use assms in simp)+
  have m: "a mod 4 < 4" "b mod 16 < 16" by simp_all
  note s = b64_split [OF l(2), of "a mod 4"] b64_split [OF l(3), of "b mod 16"]
  show "a div 4 < 64" by (rule l)
  show "a mod 4 * 16 + b div 16 < 64" "b mod 16 * 4 + c div 64 < 64" "a mod 4 * 16 < 64" "b mod 16 * 4 < 64"
    using l m by linarith+
  show "c mod 64 < 64" by simp
  show "a div 4 * 4 + (a mod 4 * 16 + b div 16) div 16 = a"
    "(a mod 4 * 16 + b div 16) mod 16 * 16 + (b mod 16 * 4 + c div 64) div 4 = b"
    "(b mod 16 * 4 + c div 64) mod 4 * 64 + c mod 64 = c"
    using s by (simp_all only: div_mult_mod_eq)
  have "x * 16 div 16 = x" "x * 4 div 4 = x" for x :: nat by simp_all
  then show "a div 4 * 4 + a mod 4 * 16 div 16 = a" "(a mod 4 * 16 + b div 16) mod 16 * 16 + b mod 16 * 4 div 4 = b"
    using s by (simp_all only: div_mult_mod_eq)
qed

lemma b64_quanta:
  assumes "w < 64" and "x < 64"
  shows "b64_decode_nats [b64_char w, b64_char x, CHR ''='', CHR ''=''] = Some [w * 4 + x div 16]"
    and "y < 64 \<Longrightarrow> b64_decode_nats [b64_char w, b64_char x, b64_char y, CHR ''=''] = Some [w * 4 + x div 16, x mod 16 * 16 + y div 4]"
    and "y < 64 \<Longrightarrow> z < 64 \<Longrightarrow> b64_decode_nats (b64_char w # b64_char x # b64_char y # b64_char z # cs)
      = map_option ((@) [w * 4 + x div 16, x mod 16 * 16 + y div 4, y mod 4 * 64 + z]) (b64_decode_nats cs)"
  using assms by (simp_all split: option.split)

lemma b64_nats_roundtrip: "list_all (\<lambda>n. n < 256) ns \<Longrightarrow> b64_decode_nats (b64_encode_nats ns) = Some ns"
proof (induction ns rule: b64_encode_nats.induct)
  case (2 a)
  then have "a < 256" by simp
  note x = b64_sextets [OF this this this]
  show ?case unfolding b64_encode_nats.simps b64_quanta(1) [OF x(1,5)] x(10) ..
next
  case (3 a b)
  then have ab: "a < 256" "b < 256" by simp_all
  note x = b64_sextets [OF ab ab(2)]
  show ?case unfolding b64_encode_nats.simps b64_quanta(2) [OF x(1,2,6)] x(7,11) ..
next
  case (4 a b c ns)
  then have abc: "a < 256" "b < 256" "c < 256" and ih: "b64_decode_nats (b64_encode_nats ns) = Some ns" by simp_all
  note x = b64_sextets [OF abc]
  show ?case unfolding b64_encode_nats.simps append.simps b64_quanta(3) [OF x(1,2,3,4)] x(7,8,9) ih by simp
qed simp

lemma b64_no_breaks:
  "list_all (\<lambda>n. n < 256) ns \<Longrightarrow> list_all (\<lambda>c. c \<notin> {CHR 0x0A, CHR 0x0D}) (b64_encode_nats ns)"
proof (induction ns rule: b64_encode_nats.induct)
  case (2 a)
  then have "a < 256" by simp
  note x = b64_sextets [OF this this this]
  show ?case unfolding b64_encode_nats.simps using b64_val_char(3,4) [OF x(1)] b64_val_char(3,4) [OF x(5)] by simp
next
  case (3 a b)
  then have ab: "a < 256" "b < 256" by simp_all
  note x = b64_sextets [OF ab ab(2)]
  show ?case unfolding b64_encode_nats.simps
    using b64_val_char(3,4) [OF x(1)] b64_val_char(3,4) [OF x(2)] b64_val_char(3,4) [OF x(6)] by simp
next
  case (4 a b c ns)
  then have abc: "a < 256" "b < 256" "c < 256" and ih: "list_all (\<lambda>c. c \<notin> {CHR 0x0A, CHR 0x0D}) (b64_encode_nats ns)" by simp_all
  note x = b64_sextets [OF abc]
  show ?case unfolding b64_encode_nats.simps list_all_append
    using b64_val_char(3,4) [OF x(1)] b64_val_char(3,4) [OF x(2)] b64_val_char(3,4) [OF x(3)] b64_val_char(3,4) [OF x(4)] ih
    by simp
qed simp

lemma b64_roundtrip [simp]: "b64_decode (b64_encode s) = Some s"
proof -
  have b: "list_all (\<lambda>n. n < 256) (map of_char s :: nat list)"
    by (simp add: list_all_iff)
  show ?thesis using b64_nats_roundtrip [OF b] b64_no_breaks [OF b]
    by (simp add: b64_decode_def b64_encode_def comp_def list_all_iff filter_id_conv)
qed

section \<open>Numbers\<close>

text \<open>A printed integer reads back.\<close>

lemma digit_char: "n < 10 \<Longrightarrow> is_digit (char_of (48 + n)) \<and> digit_val (char_of (48 + n)) = int n \<and> char_of (48 + n) \<noteq> CHR ''-''"
proof -
  assume "n < (10::nat)"
  then have "n \<in> {0, 1, 2, 3, 4, 5, 6, 7, 8, 9}" by auto
  then show ?thesis by (elim insertE) (simp_all add: is_digit_def digit_val_def less_eq_char_def char_of_eq_iff)
qed

lemma nat_str_digits:
  "list_all is_digit (nat_str n) \<and> digits_val (nat_str n) = int n \<and> nat_str n \<noteq> [] \<and> hd (nat_str n) \<noteq> CHR ''-''"
proof (induction n rule: nat_str.induct)
  case (1 n)
  show ?case
  proof (cases "n < 10")
    case True
    then show ?thesis using digit_char [OF True] by (simp add: nat_str.simps [of n] digits_val_def)
  next
    case False
    note d = digit_char [of "n mod 10"]
    have "10 * (n div 10) + n mod 10 = n" by simp
    then have "10 * int (n div 10) + int (n mod 10) = int n" by (metis of_nat_add of_nat_mult of_nat_numeral)
    then show ?thesis using 1 [OF False] d False by (simp add: nat_str.simps [of n] digits_val_def)
  qed
qed

lemma int_lit_int_str: "in_i64 n \<Longrightarrow> int_lit (int_str n) = Some n"
proof (cases "n < 0")
  case True
  assume "in_i64 n"
  then show ?thesis using True nat_str_digits [of "nat (- n)"] by (simp add: int_lit_def int_str_def)
next
  case False
  assume "in_i64 n"
  moreover obtain c cs where "nat_str (nat n) = c # cs" using nat_str_digits [of "nat n"] by (cases "nat_str (nat n)") auto
  ultimately show ?thesis using False nat_str_digits [of "nat n"] by (simp add: int_lit_def int_str_def)
qed

section \<open>Licences\<close>

text \<open>\<open>CanonicalJSON\<close>: the canonical form of a document; its bytes are \<open>render\<close> of it.\<close>

definition CanonicalJSON :: "(string \<Rightarrow> string) \<Rightarrow> body \<Rightarrow> json option" where
  "CanonicalJSON nf raw = unmarshal (\<lambda>v. Some (canon nf v)) raw"

record license =
  li_SchemaVersion :: string
  li_TenantID :: string
  li_GatewayID :: string
  li_Edition :: string
  li_IssuedAt :: time
  li_ExpiresAt :: time
  li_GraceDays :: int
  li_Signature :: string

definition LicenseValid :: string where [go_defs]: "LicenseValid = ''valid''"
definition LicenseInGrace :: string where [go_defs]: "LicenseInGrace = ''in_grace''"
definition LicenseExpired :: string where [go_defs]: "LicenseExpired = ''expired''"

datatype license_error =
    NoSigner | LicenseParse | LicenseSchema string | Unsigned | BadSignatureText | SignatureMismatch | OtherGateway | ExpiredAt time int

definition license_doc :: "(time \<Rightarrow> string) \<Rightarrow> license \<Rightarrow> json" where
  "license_doc tstr l =
     JObj ([(''schema_version'', JStr (li_SchemaVersion l)), (''tenant_id'', JStr (li_TenantID l)), (''gateway_id'', JStr (li_GatewayID l)),
            (''edition'', JStr (li_Edition l)), (''issued_at'', JStr (tstr (li_IssuedAt l))), (''expires_at'', JStr (tstr (li_ExpiresAt l))),
            (''grace_days'', JNum (int_str (li_GraceDays l)))]
           @ (if li_Signature l = [] then [] else [(''signature'', JStr (li_Signature l))]))"

text \<open>The zero \<open>time.Time\<close> is the first of January of the year 1.\<close>

definition license0 :: license where
  "license0 = \<lparr>li_SchemaVersion = [], li_TenantID = [], li_GatewayID = [], li_Edition = [], li_IssuedAt = - 62135596800 * sec,
     li_ExpiresAt = - 62135596800 * sec, li_GraceDays = 0, li_Signature = []\<rparr>"

fun dec_time :: "(string \<Rightarrow> time option) \<Rightarrow> time \<Rightarrow> json \<Rightarrow> time option" where
  "dec_time ptime old JNull = Some old"
| "dec_time ptime old (JStr s) = ptime s"
| "dec_time ptime old _ = None"

definition dec_license :: "(string \<Rightarrow> time option) \<Rightarrow> string \<Rightarrow> json \<Rightarrow> license \<Rightarrow> license option" where
  "dec_license ptime k v l =
     (if key_eq k ''schema_version'' then map_option (\<lambda>x. l\<lparr>li_SchemaVersion := x\<rparr>) (dec_string (li_SchemaVersion l) v)
      else if key_eq k ''tenant_id'' then map_option (\<lambda>x. l\<lparr>li_TenantID := x\<rparr>) (dec_string (li_TenantID l) v)
      else if key_eq k ''gateway_id'' then map_option (\<lambda>x. l\<lparr>li_GatewayID := x\<rparr>) (dec_string (li_GatewayID l) v)
      else if key_eq k ''edition'' then map_option (\<lambda>x. l\<lparr>li_Edition := x\<rparr>) (dec_string (li_Edition l) v)
      else if key_eq k ''issued_at'' then map_option (\<lambda>x. l\<lparr>li_IssuedAt := x\<rparr>) (dec_time ptime (li_IssuedAt l) v)
      else if key_eq k ''expires_at'' then map_option (\<lambda>x. l\<lparr>li_ExpiresAt := x\<rparr>) (dec_time ptime (li_ExpiresAt l) v)
      else if key_eq k ''grace_days'' then map_option (\<lambda>x. l\<lparr>li_GraceDays := x\<rparr>) (dec_int (li_GraceDays l) v)
      else if key_eq k ''signature'' then map_option (\<lambda>x. l\<lparr>li_Signature := x\<rparr>) (dec_string (li_Signature l) v)
      else Some l)"

definition licenseSigningBytes :: "(string \<Rightarrow> string) \<Rightarrow> (json \<Rightarrow> string) \<Rightarrow> (time \<Rightarrow> string) \<Rightarrow> license \<Rightarrow> string" where
  "licenseSigningBytes nf render tstr l = render (canon nf (license_doc tstr (l\<lparr>li_Signature := []\<rparr>)))"

definition IssueLicense ::
  "(string \<Rightarrow> string) \<Rightarrow> (json \<Rightarrow> string) \<Rightarrow> (time \<Rightarrow> string) \<Rightarrow> (string \<Rightarrow> string) option
     \<Rightarrow> string \<Rightarrow> string \<Rightarrow> string \<Rightarrow> time \<Rightarrow> int \<Rightarrow> time \<Rightarrow> license_error + json \<times> license" where
  "IssueLicense nf render tstr signer tenantID gatewayID edition expiresAt graceDays now =
     (case signer of
        None \<Rightarrow> Inl NoSigner
      | Some sg \<Rightarrow>
          (let l0 = \<lparr>li_SchemaVersion = ''1'', li_TenantID = tenantID, li_GatewayID = gatewayID, li_Edition = edition,
                      li_IssuedAt = now - now mod sec, li_ExpiresAt = expiresAt - expiresAt mod sec,
                      li_GraceDays = (if graceDays < 0 then 0 else graceDays), li_Signature = []\<rparr>;
               l = l0\<lparr>li_Signature := b64_encode (sg (licenseSigningBytes nf render tstr l0))\<rparr>
           in Inr (license_doc tstr l, l)))"

text \<open>The grace period is a \<open>time.Duration\<close>, a 64-bit number of nanoseconds.\<close>

definition grace_end :: "license \<Rightarrow> time" where
  "grace_end l = li_ExpiresAt l + i64 (i64 (li_GraceDays l * 24) * hour)"

definition VerifyLicense ::
  "(string \<Rightarrow> string) \<Rightarrow> (json \<Rightarrow> string) \<Rightarrow> (time \<Rightarrow> string) \<Rightarrow> (string \<Rightarrow> time option) \<Rightarrow> (string \<Rightarrow> string \<Rightarrow> bool)
     \<Rightarrow> body \<Rightarrow> string \<Rightarrow> time \<Rightarrow> license option \<times> string \<times> license_error option" where
  "VerifyLicense nf render tstr ptime vf raw gatewayID now =
     (case unmarshal (dec_struct (dec_license ptime) license0) raw of
        None \<Rightarrow> (None, LicenseExpired, Some LicenseParse)
      | Some l \<Rightarrow>
          if li_SchemaVersion l \<noteq> ''1'' then (None, LicenseExpired, Some (LicenseSchema (li_SchemaVersion l)))
          else if li_Signature l = [] then (None, LicenseExpired, Some Unsigned)
          else
            (case b64_decode (li_Signature l) of
               None \<Rightarrow> (None, LicenseExpired, Some BadSignatureText)
             | Some sig \<Rightarrow>
                 if \<not> vf (licenseSigningBytes nf render tstr l) sig then (None, LicenseExpired, Some SignatureMismatch)
                 else if gatewayID \<noteq> [] \<and> li_GatewayID l \<noteq> gatewayID then (None, LicenseExpired, Some OtherGateway)
                 else if now < li_ExpiresAt l then (Some l, LicenseValid, None)
                 else if now < grace_end l then (Some l, LicenseInGrace, None)
                 else (Some l, LicenseExpired, Some (ExpiredAt (li_ExpiresAt l) (li_GraceDays l)))))"

section \<open>Lemmas\<close>

lemma license_keys [simp]:
  "to_lower ''schema_version'' = ''schema_version''" "to_lower ''tenant_id'' = ''tenant_id''" "to_lower ''gateway_id'' = ''gateway_id''"
  "to_lower ''edition'' = ''edition''" "to_lower ''issued_at'' = ''issued_at''" "to_lower ''expires_at'' = ''expires_at''"
  "to_lower ''grace_days'' = ''grace_days''" "to_lower ''signature'' = ''signature''"
  by code_simp+

lemma license_decode:
  assumes "\<And>t. ptime (tstr t) = Some t" and "in_i64 (li_GraceDays l)"
  shows "dec_struct (dec_license ptime) license0 (license_doc tstr l) = Some l"
proof -
  have "int_lit (int_str (li_GraceDays l)) = Some (li_GraceDays l)" by (rule int_lit_int_str [OF assms(2)])
  then show ?thesis by (simp add: license_doc_def dec_license_def key_eq_def assms(1) license0_def)
qed

text \<open>The signed bytes determine the fields of a licence (the grace days up to the reprinting of numbers).\<close>

lemma canon_members: "distinct (map fst kvs) \<Longrightarrow> canon nf (JObj kvs) = JObj ms \<Longrightarrow> set ms = (\<lambda>(k, v). (k, canon nf v)) ` set kvs"
proof -
  assume d: "distinct (map fst kvs)" and c: "canon nf (JObj kvs) = JObj ms"
  have f: "map fst (map (\<lambda>(k, v). (k, canon nf v)) kvs) = map fst kvs" by (induction kvs) auto
  have "dedup_last (map (\<lambda>(k, v). (k, canon nf v)) kvs) = map (\<lambda>(k, v). (k, canon nf v)) kvs"
    by (rule dedup_last_id) (simp only: f d)
  then have "ms = sort_key fst (map (\<lambda>(k, v). (k, canon nf v)) kvs)" using c by simp
  then show ?thesis by simp
qed

lemma signing_bytes_determine:
  assumes "inj render" and "inj tstr" and "licenseSigningBytes nf render tstr l = licenseSigningBytes nf render tstr l'"
  shows "li_TenantID l = li_TenantID l' \<and> li_GatewayID l = li_GatewayID l' \<and> li_Edition l = li_Edition l'
    \<and> li_IssuedAt l = li_IssuedAt l' \<and> li_ExpiresAt l = li_ExpiresAt l'
    \<and> nf (int_str (li_GraceDays l)) = nf (int_str (li_GraceDays l'))"
proof -
  let ?kvs = "\<lambda>l. [(''schema_version'', JStr (li_SchemaVersion l)), (''tenant_id'', JStr (li_TenantID l)), (''gateway_id'', JStr (li_GatewayID l)),
    (''edition'', JStr (li_Edition l)), (''issued_at'', JStr (tstr (li_IssuedAt l))), (''expires_at'', JStr (tstr (li_ExpiresAt l))),
    (''grace_days'', JNum (int_str (li_GraceDays l)))]"
  have doc: "license_doc tstr (l\<lparr>li_Signature := []\<rparr>) = JObj (?kvs l)" for l by (simp add: license_doc_def)
  have d: "distinct (map fst (?kvs l))" for l by simp
  obtain ms where ms: "canon nf (JObj (?kvs l)) = JObj ms" by simp
  have "canon nf (JObj (?kvs l')) = JObj ms"
    using assms(1,3) ms unfolding licenseSigningBytes_def doc by (metis injD)
  then have eq: "(\<lambda>(k, v). (k, canon nf v)) ` set (?kvs l) = (\<lambda>(k, v). (k, canon nf v)) ` set (?kvs l')"
    using canon_members [OF d ms] canon_members [OF d, of nf l' ms] by simp
  have mem: "(k, canon nf v) \<in> (\<lambda>(k, v). (k, canon nf v)) ` set (?kvs l')" if "(k, v) \<in> set (?kvs l)" for k v
    unfolding eq [symmetric] by (rule image_eqI [OF _ that]) simp
  have "tstr (li_IssuedAt l) = tstr (li_IssuedAt l')" "tstr (li_ExpiresAt l) = tstr (li_ExpiresAt l')"
    using mem [of "''issued_at''" "JStr (tstr (li_IssuedAt l))"] mem [of "''expires_at''" "JStr (tstr (li_ExpiresAt l))"]
    by simp_all
  moreover have "li_TenantID l = li_TenantID l'" "li_GatewayID l = li_GatewayID l'" "li_Edition l = li_Edition l'"
    using mem [of "''tenant_id''" "JStr (li_TenantID l)"] mem [of "''gateway_id''" "JStr (li_GatewayID l)"]
      mem [of "''edition''" "JStr (li_Edition l)"] by simp_all
  moreover have "nf (int_str (li_GraceDays l)) = nf (int_str (li_GraceDays l'))"
    using mem [of "''grace_days''" "JNum (int_str (li_GraceDays l))"] by simp
  ultimately show ?thesis using injD [OF assms(2)] by blast
qed

text \<open>A grace period of 106752 days exceeds 64 bits of nanoseconds: it ends before the licence expires.\<close>

lemma long_grace_wraps: "li_GraceDays l = 106752 \<Longrightarrow> grace_end l < li_ExpiresAt l"
  by (simp add: grace_end_def i64_def go_defs)

lemma b64_encode_nonempty: "s \<noteq> [] \<Longrightarrow> b64_encode s \<noteq> []"
  using b64_roundtrip [of s] by (metis b64_decode_nats.simps(1) b64_decode_def filter.simps(1) list.simps(8) option.inject option.simps(9))

lemma issued_fields:
  assumes "in_i64 graceDays"
    and "IssueLicense nf render tstr (Some sg) tenantID gatewayID edition expiresAt graceDays now0 = Inr (doc, l)"
  shows "doc = license_doc tstr l \<and> li_SchemaVersion l = ''1'' \<and> li_GatewayID l = gatewayID \<and> in_i64 (li_GraceDays l)
    \<and> li_Signature l = b64_encode (sg (licenseSigningBytes nf render tstr l))"
  using assms by (auto simp: IssueLicense_def Let_def licenseSigningBytes_def in_i64_def)

section \<open>Example\<close>

text \<open>Times printed as strokes, documents by their number, and a signature that repeats the message.\<close>

instance json :: countable
  by countable_datatype

definition demo_tstr :: "time \<Rightarrow> string" where
  "demo_tstr t = (if t < 0 then CHR ''-'' # replicate (nat (- t)) CHR ''x'' else replicate (nat t) CHR ''x'')"

definition demo_ptime :: "string \<Rightarrow> time option" where
  "demo_ptime s = (if s \<noteq> [] \<and> hd s = CHR ''-'' then Some (- int (length s - 1)) else Some (int (length s)))"

definition demo_render :: "json \<Rightarrow> string" where
  "demo_render v = replicate (to_nat v) CHR ''x''"

definition demo_sign :: "string \<Rightarrow> string" where "demo_sign m = CHR ''s'' # m"

definition demo_license :: "json \<times> license" where
  "demo_license = (case IssueLicense id demo_render demo_tstr (Some demo_sign) ''t1'' ''gw'' ''pro'' (5 * sec) 3 sec of Inr x \<Rightarrow> x)"

definition demo_verify :: "string \<Rightarrow> string \<Rightarrow> bool" where
  "demo_verify m s \<longleftrightarrow> s = demo_sign m \<and> m = licenseSigningBytes id demo_render demo_tstr (snd demo_license)"

lemma demo_license_issued:
  "IssueLicense id demo_render demo_tstr (Some demo_sign) ''t1'' ''gw'' ''pro'' (5 * sec) 3 sec = Inr (fst demo_license, snd demo_license)"
  by (simp add: demo_license_def IssueLicense_def Let_def)

lemma demo_license_times: "li_ExpiresAt (snd demo_license) = 5 * sec"
  by (simp add: demo_license_def IssueLicense_def Let_def)

lemma demo_times: "demo_ptime (demo_tstr t) = Some t" "inj demo_tstr"
proof -
  show p: "demo_ptime (demo_tstr t) = Some t" for t
    by (cases "nat t") (auto simp: demo_ptime_def demo_tstr_def)
  show "inj demo_tstr" by (metis injI option.inject p)
qed

lemma demo_render_inj: "inj demo_render"
  by (rule injI) (metis demo_render_def inj_to_nat injD length_replicate)

section \<open>Properties\<close>

text \<open>A licence that is issued verifies: with the issuer's key and for the gateway it names it is valid
  until it expires, in grace for the grace period and expired after it, and for another gateway it is
  refused.\<close>

theorem issued_licence_verifies:
  assumes "\<forall>m. vf m (sg m) \<and> sg m \<noteq> []" and "\<forall>t. ptime (tstr t) = Some t" and "in_i64 graceDays"
    and "IssueLicense nf render tstr (Some sg) tenantID gatewayID edition expiresAt graceDays now0 = Inr (doc, l)"
  shows "VerifyLicense nf render tstr ptime vf (Doc doc) gatewayID now =
      (Some l, if now < li_ExpiresAt l then LicenseValid else if now < grace_end l then LicenseInGrace else LicenseExpired,
       if now < li_ExpiresAt l \<or> now < grace_end l then None else Some (ExpiredAt (li_ExpiresAt l) (li_GraceDays l)))
    \<and> (g \<noteq> [] \<and> g \<noteq> gatewayID \<longrightarrow>
        VerifyLicense nf render tstr ptime vf (Doc doc) g now = (None, LicenseExpired, Some OtherGateway))"
proof -
  have l: "doc = license_doc tstr l" "li_SchemaVersion l = ''1''" "li_GatewayID l = gatewayID" "in_i64 (li_GraceDays l)"
    "li_Signature l = b64_encode (sg (licenseSigningBytes nf render tstr l))"
    using issued_fields [OF assms(3,4)] by simp_all
  have "li_Signature l \<noteq> []" unfolding l(5) by (rule b64_encode_nonempty) (use assms(1) in simp)
  moreover have "dec_struct (dec_license ptime) license0 doc = Some l" unfolding l(1) by (rule license_decode) (use assms(2) l(4) in auto)
  ultimately show ?thesis using assms(1) l by (simp add: VerifyLicense_def)
qed

text \<open>C7: An accepted licence was issued: if only the bytes of issued licences have signatures that verify,
  then a licence that verifies has the tenant, gateway, edition and times of an issued one, names the
  gateway that checks it and has not passed its grace period.\<close>

theorem accepted_licence_was_issued:
  assumes "\<forall>m s. vf m s \<longrightarrow> m \<in> licenseSigningBytes nf render tstr ` issued" and "inj render" and "inj tstr"
    and "VerifyLicense nf render tstr ptime vf raw gatewayID now = (Some l, st, None)"
  shows "(\<exists>l0\<in>issued. li_TenantID l = li_TenantID l0 \<and> li_GatewayID l = li_GatewayID l0 \<and> li_Edition l = li_Edition l0
      \<and> li_IssuedAt l = li_IssuedAt l0 \<and> li_ExpiresAt l = li_ExpiresAt l0
      \<and> nf (int_str (li_GraceDays l)) = nf (int_str (li_GraceDays l0)))
    \<and> (gatewayID = [] \<or> li_GatewayID l = gatewayID)
    \<and> (st = LicenseValid \<and> now < li_ExpiresAt l \<or> st = LicenseInGrace \<and> li_ExpiresAt l \<le> now \<and> now < grace_end l)"
proof -
  have v: "\<exists>s. vf (licenseSigningBytes nf render tstr l) s" "gatewayID = [] \<or> li_GatewayID l = gatewayID"
    "st = LicenseValid \<and> now < li_ExpiresAt l \<or> st = LicenseInGrace \<and> li_ExpiresAt l \<le> now \<and> now < grace_end l"
    using assms(4) by (auto simp: VerifyLicense_def split: option.splits if_splits)
  then obtain l0 where "l0 \<in> issued" "licenseSigningBytes nf render tstr l = licenseSigningBytes nf render tstr l0"
    using assms(1) by blast
  then show ?thesis using signing_bytes_determine [OF assms(2,3)] v(2,3) by blast
qed

theorem issued_licence_verifies_witness:
  "VerifyLicense id demo_render demo_tstr demo_ptime (\<lambda>m s. s = demo_sign m) (Doc (fst demo_license)) ''gw'' sec
     = (Some (snd demo_license), LicenseValid, None)"
proof -
  have v: "\<forall>m. demo_sign m = demo_sign m \<and> demo_sign m \<noteq> []" by (simp add: demo_sign_def)
  have t: "\<forall>t. demo_ptime (demo_tstr t) = Some t" by (simp add: demo_times)
  have g: "in_i64 3" by (simp add: in_i64_def)
  from issued_licence_verifies [where sg = demo_sign and vf = "\<lambda>m s. s = demo_sign m" and ptime = demo_ptime and tstr = demo_tstr
      and now = sec and g = "[]", OF v t g demo_license_issued]
  show ?thesis by (simp add: demo_license_times sec_def)
qed

theorem accepted_licence_was_issued_witness:
  "\<exists>l st. VerifyLicense id demo_render demo_tstr demo_ptime demo_verify (Doc (fst demo_license)) ''gw'' sec = (Some l, st, None)
     \<and> li_TenantID l = li_TenantID (snd demo_license)"
proof -
  let ?l = "snd demo_license"
  have u: "\<forall>m s. demo_verify m s \<longrightarrow> m \<in> licenseSigningBytes id demo_render demo_tstr ` {?l}" by (simp add: demo_verify_def)
  have l: "fst demo_license = license_doc demo_tstr ?l" "li_SchemaVersion ?l = ''1''" "li_GatewayID ?l = ''gw''" "in_i64 (li_GraceDays ?l)"
    "li_Signature ?l = b64_encode (demo_sign (licenseSigningBytes id demo_render demo_tstr ?l))"
    using issued_fields [OF _ demo_license_issued] by (simp_all add: in_i64_def)
  have "li_Signature ?l \<noteq> []" unfolding l(5) by (rule b64_encode_nonempty) (simp add: demo_sign_def)
  moreover have "dec_struct (dec_license demo_ptime) license0 (fst demo_license) = Some ?l"
    unfolding l(1) by (rule license_decode) (use demo_times l(4) in auto)
  ultimately have a: "VerifyLicense id demo_render demo_tstr demo_ptime demo_verify (Doc (fst demo_license)) ''gw'' sec
      = (Some ?l, LicenseValid, None)"
    using l by (simp add: VerifyLicense_def demo_verify_def demo_license_times sec_def)
  with accepted_licence_was_issued [OF u demo_render_inj demo_times(2) a] show ?thesis by auto
qed

end
