(* ===== verification/GwAgent.thy ===== *)
theory GwAgent
  imports GwProxy Signing
begin

text \<open>
  Signed configurations (\<open>gwcore/import.go\<close>) and the control agent (\<open>gwcore/agent.go\<close>): the
  verification of a signed generation, the directory of generations with its current one, the offline
  import, and the agent's registration, heartbeat, usage upload and application of configurations.

  The arguments of the verification are the record \<open>config_keys\<close>: the reprinting of numbers, the
  printer, the digest, the verification with the distributed public key, the YAML decoder and the URL
  parser. The bytes of a canonical form are given by its document. The network answers requests. A
  file write succeeds, leaves the file untouched, or leaves it damaged.
\<close>

section \<open>Verification\<close>

record config_keys =
  ck_nf :: "string \<Rightarrow> string"
  ck_render :: "json \<Rightarrow> string"
  ck_hx :: "string \<Rightarrow> string"
  ck_vf :: "string \<Rightarrow> string \<Rightarrow> bool"
  ck_yaml :: "body \<Rightarrow> gw_config option"
  ck_urlp :: "string \<Rightarrow> (string \<times> string) option"

record signed_envelope =
  se_Version :: int
  se_SchemaVersion :: string
  se_ConfigJSON :: "json option"
  se_SHA256 :: "string option"
  se_SignatureRef :: "string option"

definition envelope0 :: signed_envelope where
  "envelope0 = \<lparr>se_Version = 0, se_SchemaVersion = [], se_ConfigJSON = None, se_SHA256 = None, se_SignatureRef = None\<rparr>"

fun dec_string_ptr :: "string option \<Rightarrow> json \<Rightarrow> string option option" where
  "dec_string_ptr old JNull = Some None"
| "dec_string_ptr old (JStr s) = Some (Some s)"
| "dec_string_ptr old _ = None"

definition dec_envelope :: "string \<Rightarrow> json \<Rightarrow> signed_envelope \<Rightarrow> signed_envelope option" where
  "dec_envelope k v x =
     (if key_eq k ''version'' then map_option (\<lambda>n. x\<lparr>se_Version := n\<rparr>) (dec_int (se_Version x) v)
      else if key_eq k ''schema_version'' then map_option (\<lambda>n. x\<lparr>se_SchemaVersion := n\<rparr>) (dec_string (se_SchemaVersion x) v)
      else if key_eq k ''config_json'' then Some (x\<lparr>se_ConfigJSON := Some v\<rparr>)
      else if key_eq k ''sha256'' then map_option (\<lambda>n. x\<lparr>se_SHA256 := n\<rparr>) (dec_string_ptr (se_SHA256 x) v)
      else if key_eq k ''signature_ref'' then map_option (\<lambda>n. x\<lparr>se_SignatureRef := n\<rparr>) (dec_string_ptr (se_SignatureRef x) v)
      else Some x)"

datatype config_error =
    ConfigUnsigned | NoConfig | DigestMismatch | BadSignatureEncoding | ConfigSignature | Staging load_error
  | BadEnvelope | VersionMissing | WrongGateway string string | NotNewer int int | DataDirFailed | StoreFailed
  | StatusError int | NetworkError

definition verifySignedConfig ::
  "config_keys \<Rightarrow> json option \<Rightarrow> string option \<Rightarrow> string option \<Rightarrow> config_error + gw_config \<times> json" where
  "verifySignedConfig ks raw sha sig =
     (case (sha, sig) of
        (Some digest, Some sigText) \<Rightarrow>
          (case raw of
             None \<Rightarrow> Inl NoConfig
           | Some doc \<Rightarrow>
               (let canonical = canon (ck_nf ks) doc in
                if ck_hx ks (ck_render ks canonical) \<noteq> digest then Inl DigestMismatch
                else
                  (case b64_decode sigText of
                     None \<Rightarrow> Inl BadSignatureEncoding
                   | Some sigBytes \<Rightarrow>
                       if \<not> ck_vf ks (ck_render ks canonical) sigBytes then Inl ConfigSignature
                       else
                         (case ParseConfig (ck_yaml ks) (ck_urlp ks) (Doc canonical) of
                            Inl e \<Rightarrow> Inl (Staging e)
                          | Inr cfg \<Rightarrow> Inr (cfg, canonical)))))
      | _ \<Rightarrow> Inl ConfigUnsigned)"

section \<open>The directory of generations\<close>

text \<open>The files \<open>config-v<n>.json\<close> by their number, \<open>config-current.json\<close>, and the number that
  \<open>config-current.version\<close> starts with, if any.\<close>

record cfg_dir =
  cd_gens :: "(int \<times> body) list"
  cd_current :: "body option"
  cd_marker :: "int option"

datatype file_write = Written | Untouched | Damaged

definition lkgKeep :: nat where [go_defs]: "lkgKeep = 2"

definition sortedGenerations :: "cfg_dir \<Rightarrow> int list" where
  "sortedGenerations d = sort (map fst (cd_gens d))"

definition currentGenerationVersion :: "cfg_dir \<Rightarrow> int" where
  "currentGenerationVersion d = (let vs = sortedGenerations d in if vs = [] then 0 else vs ! (length vs - 1))"

definition currentAppliedVersion :: "cfg_dir \<Rightarrow> int" where
  "currentAppliedVersion d =
     (case cd_marker d of Some v \<Rightarrow> if v > 0 then v else currentGenerationVersion d | None \<Rightarrow> currentGenerationVersion d)"

definition write_gen :: "file_write \<Rightarrow> int \<Rightarrow> json \<Rightarrow> cfg_dir \<Rightarrow> cfg_dir" where
  "write_gen w version canonical d =
     (case w of
        Written \<Rightarrow> d\<lparr>cd_gens := alist_put version (Doc canonical) (cd_gens d)\<rparr>
      | Untouched \<Rightarrow> d
      | Damaged \<Rightarrow> d\<lparr>cd_gens := alist_put version (Bytes []) (cd_gens d)\<rparr>)"

text \<open>The generations beyond the last ones are removed, except the one just written.\<close>

definition prune :: "int \<Rightarrow> cfg_dir \<Rightarrow> cfg_dir" where
  "prune version d =
     (let entries = sortedGenerations d; old = take (length entries - (lkgKeep + 1)) entries
      in if length entries > lkgKeep + 1
         then d\<lparr>cd_gens := filter (\<lambda>g. fst g \<notin> set old \<or> fst g = version) (cd_gens d)\<rparr> else d)"

text \<open>The writes of \<open>storeConfigGeneration\<close>: the generation, the temporary file, its renaming, the marker.\<close>

definition storeConfigGeneration :: "(nat \<Rightarrow> file_write) \<Rightarrow> int \<Rightarrow> json \<Rightarrow> cfg_dir \<Rightarrow> bool \<times> cfg_dir" where
  "storeConfigGeneration w version canonical d =
     (let d1 = write_gen (w 0) version canonical d in
      if w 0 \<noteq> Written \<or> w 1 \<noteq> Written \<or> w 2 \<noteq> Written then (False, d1)
      else
        let d2 = d1\<lparr>cd_current := Some (Doc canonical)\<rparr> in
        if w 3 \<noteq> Written then (False, if w 3 = Damaged then d2\<lparr>cd_marker := None\<rparr> else d2)
        else (True, prune version (d2\<lparr>cd_marker := Some version\<rparr>)))"

definition ImportSignedConfig ::
  "config_keys \<Rightarrow> body \<Rightarrow> string \<Rightarrow> bool \<Rightarrow> bool \<Rightarrow> (nat \<Rightarrow> file_write) \<Rightarrow> cfg_dir \<Rightarrow> (config_error + int \<times> gw_config) \<times> cfg_dir" where
  "ImportSignedConfig ks envelope expectedGatewayID force mkdir w d =
     (case unmarshal (dec_struct dec_envelope envelope0) envelope of
        None \<Rightarrow> (Inl BadEnvelope, d)
      | Some env \<Rightarrow>
          if se_Version env \<le> 0 then (Inl VersionMissing, d)
          else
           (case verifySignedConfig ks (se_ConfigJSON env) (se_SHA256 env) (se_SignatureRef env) of
              Inl err \<Rightarrow> (Inl err, d)
            | Inr (cfg, canonical) \<Rightarrow>
              if expectedGatewayID \<noteq> [] \<and> gs_ID (gc_Gateway cfg) \<noteq> expectedGatewayID then
                (Inl (WrongGateway (gs_ID (gc_Gateway cfg)) expectedGatewayID), d)
              else if se_Version env \<le> currentGenerationVersion d \<and> \<not> force then
                (Inl (NotNewer (se_Version env) (currentGenerationVersion d)), d)
              else if \<not> mkdir then (Inl DataDirFailed, d)
              else
                (let (ok, d') = storeConfigGeneration w (se_Version env) canonical d
                 in (if ok then Inr (se_Version env, cfg) else Inl StoreFailed, d'))))"

section \<open>The agent\<close>

record agent_settings =
  as_ControlPlaneURL :: string
  as_DataDir :: string
  as_SigningPubFile :: string
  as_InstallTokenFile :: string
  as_Heartbeat :: time
  as_ConfigPoll :: time
  as_SoftwareVersion :: string

record agent =
  ag_st :: agent_settings
  ag_srv :: gw_server
  ag_credential :: string
  ag_applied :: int
  ag_dir :: cfg_dir
  ag_credFile :: "string option"
  ag_token :: "string option"

datatype agent_error =
    NoControlPlane | NoDataDir | DataDirError | NoPublicKey | BadPublicKey | NoInstallToken | TokenUnreadable
  | RegisterRequest | RegisterStatus int | RegisterResponse | CredentialStore

text \<open>\<open>keyfile\<close> says whether a file holds an Ed25519 public key.\<close>

definition loadPublicKey :: "(string \<Rightarrow> bool) \<Rightarrow> string \<Rightarrow> agent_error + unit" where
  "loadPublicKey keyfile path = (if path = [] then Inl NoPublicKey else if \<not> keyfile path then Inl BadPublicKey else Inr ())"

definition agent_defaults :: "agent_settings \<Rightarrow> agent_settings" where
  "agent_defaults st =
     st\<lparr>as_Heartbeat := (if as_Heartbeat st \<le> 0 then 60 * sec else as_Heartbeat st),
        as_ConfigPoll := (if as_ConfigPoll st \<le> 0 then 300 * sec else as_ConfigPoll st)\<rparr>"

definition NewAgent ::
  "(string \<Rightarrow> bool) \<Rightarrow> bool \<Rightarrow> string option \<Rightarrow> string option \<Rightarrow> cfg_dir \<Rightarrow> agent_settings \<Rightarrow> gw_server \<Rightarrow> agent_error + agent" where
  "NewAgent keyfile mkdir credFile tok d st srv =
     (if as_ControlPlaneURL st = [] then Inl NoControlPlane
      else if as_DataDir st = [] then Inl NoDataDir
      else if \<not> mkdir then Inl DataDirError
      else
        res_bind (loadPublicKey keyfile (as_SigningPubFile st)) (\<lambda>_.
          Inr \<lparr>ag_st = agent_defaults st, ag_srv = srv,
               ag_credential = (case credFile of None \<Rightarrow> [] | Some raw \<Rightarrow> trim_space raw),
               ag_applied = 0, ag_dir = d, ag_credFile = credFile, ag_token = tok\<rparr>))"

definition Registered :: "agent \<Rightarrow> bool" where
  "Registered a \<longleftrightarrow> ag_credential a \<noteq> []"

text \<open>\<open>call\<close>: the request of the agent to the control plane.\<close>

definition agent_call :: "agent \<Rightarrow> string \<Rightarrow> string \<Rightarrow> json option \<Rightarrow> http_request" where
  "agent_call a meth path b =
     \<lparr>hq_Method = meth, hq_URL = as_ControlPlaneURL (ag_st a) @ path,
      hq_Headers = (''Authorization'', ''Bearer '' @ ag_credential a)
        # (if b = None then [] else [(''Content-Type'', ''application/json'')]),
      hq_Body = (case b of None \<Rightarrow> Bytes [] | Some v \<Rightarrow> Doc v)\<rparr>"

record register_out =
  ro_AgentToken :: string
  ro_GatewayID :: string

definition dec_register :: "string \<Rightarrow> json \<Rightarrow> register_out \<Rightarrow> register_out option" where
  "dec_register k v x =
     (if key_eq k ''agent_token'' then map_option (\<lambda>n. x\<lparr>ro_AgentToken := n\<rparr>) (dec_string (ro_AgentToken x) v)
      else if key_eq k ''gateway_id'' then map_option (\<lambda>n. x\<lparr>ro_GatewayID := n\<rparr>) (dec_string (ro_GatewayID x) v)
      else Some x)"

text \<open>\<open>Register\<close>; \<open>w\<close> is the write of the credential, \<open>renamed\<close> the renaming of the used token.\<close>

definition Register ::
  "(http_request \<Rightarrow> http_result) \<Rightarrow> (string \<Rightarrow> body) \<Rightarrow> bool \<Rightarrow> bool \<Rightarrow> agent \<Rightarrow> agent_error option \<times> agent" where
  "Register net parse w renamed a =
     (if Registered a then (None, a)
      else if as_InstallTokenFile (ag_st a) = [] then (Some NoInstallToken, a)
      else
       (case ag_token a of
          None \<Rightarrow> (Some TokenUnreadable, a)
        | Some raw \<Rightarrow>
          (case net \<lparr>hq_Method = ''POST'', hq_URL = as_ControlPlaneURL (ag_st a) @ ''/api/gateway-agent/v1/register'',
                     hq_Headers = [(''Content-Type'', ''application/json'')],
                     hq_Body = Doc (JObj [(''install_token'', JStr (trim_space raw)),
                                          (''software_version'', JStr (as_SoftwareVersion (ag_st a)))])\<rparr> of
             TransportError _ \<Rightarrow> (Some RegisterRequest, a)
           | Answer resp \<Rightarrow>
               if hp_StatusCode resp \<noteq> 201 then (Some (RegisterStatus (hp_StatusCode resp)), a)
               else
                (case unmarshal (dec_struct dec_register \<lparr>ro_AgentToken = [], ro_GatewayID = []\<rparr>) (parse (hp_Body resp)) of
                   None \<Rightarrow> (Some RegisterResponse, a)
                 | Some x \<Rightarrow>
                   if ro_AgentToken x = [] then (Some RegisterResponse, a)
                   else if \<not> w then (Some CredentialStore, a)
                   else (None, a\<lparr>ag_credFile := Some (ro_AgentToken x @ [CHR 0x0A]), ag_credential := ro_AgentToken x,
                                  ag_token := (if renamed then None else ag_token a)\<rparr>)))))"

section \<open>Heartbeat and usage\<close>

definition dec_heartbeat :: "string \<Rightarrow> json \<Rightarrow> int \<Rightarrow> int option" where
  "dec_heartbeat k v n = (if key_eq k ''latest_config_version'' then dec_int n v else Some n)"

definition sendHeartbeat ::
  "(http_request \<Rightarrow> http_result) \<Rightarrow> (string \<Rightarrow> body) \<Rightarrow> (string \<Rightarrow> bool) \<Rightarrow> agent \<Rightarrow> int option" where
  "sendHeartbeat net parse ping a =
     (let health = (if RuntimeHealthy ping (ag_srv a) then ''healthy'' else ''degraded'') in
      case net (agent_call a ''POST'' ''/api/gateway-agent/v1/heartbeat''
                 (Some (JObj [(''config_version'', JNum (int_str (ag_applied a))), (''health_status'', JStr health),
                              (''software_version'', JStr (as_SoftwareVersion (ag_st a)))]))) of
        TransportError _ \<Rightarrow> None
      | Answer resp \<Rightarrow>
          if hp_StatusCode resp \<noteq> 200 then None
          else unmarshal (dec_struct dec_heartbeat 0) (parse (hp_Body resp)))"

definition row_doc :: "usage_row \<Rightarrow> json" where
  "row_doc r =
     JObj [(''usage_date'', JStr (ur_UsageDate r)), (''logical_model'', JStr (ur_LogicalModel r)),
           (''request_count'', JNum (int_str (sint (ur_RequestCount r)))), (''input_tokens'', JNum (int_str (sint (ur_InputTokens r)))),
           (''output_tokens'', JNum (int_str (sint (ur_OutputTokens r)))), (''error_count'', JNum (int_str (sint (ur_ErrorCount r))))]"

definition usage_request :: "agent \<Rightarrow> usage_row list \<Rightarrow> http_request" where
  "usage_request a rows = agent_call a ''POST'' ''/api/gateway-agent/v1/usage'' (Some (JObj [(''rows'', JArr (map row_doc rows))]))"

definition uploadUsage :: "(http_request \<Rightarrow> http_result) \<Rightarrow> agent \<Rightarrow> agent" where
  "uploadUsage net a =
     (let (rows, u) = DrainUsage (sv_usage (ag_srv a)); a1 = a\<lparr>ag_srv := (ag_srv a)\<lparr>sv_usage := u\<rparr>\<rparr>;
          restored = a1\<lparr>ag_srv := (ag_srv a1)\<lparr>sv_usage := RestoreUsage rows u\<rparr>\<rparr>
      in if rows = [] then a1
         else
           (case net (usage_request a rows) of
              TransportError _ \<Rightarrow> restored
            | Answer resp \<Rightarrow> if hp_StatusCode resp \<noteq> 200 then restored else a1))"

section \<open>Configurations\<close>

definition applied_version :: "int \<Rightarrow> gw_server \<Rightarrow> gw_server" where
  "applied_version v s = s\<lparr>sv_metrics := SetConfigVersion v (sv_metrics s)\<rparr>"

definition ack_request :: "agent \<Rightarrow> int \<Rightarrow> bool \<Rightarrow> string \<Rightarrow> http_request" where
  "ack_request a version applied err =
     agent_call a ''POST'' ''/api/gateway-agent/v1/config-ack''
       (Some (JObj [(''applied'', JBool applied), (''error_code'', JStr err), (''version'', JNum (int_str version))]))"

text \<open>\<open>FetchAndApplyConfig\<close>, with the acknowledgements it sends. A configuration that cannot be stored is
  applied all the same.\<close>

definition FetchAndApplyConfig ::
  "config_keys \<Rightarrow> (http_request \<Rightarrow> http_result) \<Rightarrow> (string \<Rightarrow> body) \<Rightarrow> (nat \<Rightarrow> file_write) \<Rightarrow> agent
     \<Rightarrow> config_error option \<times> agent \<times> http_request list" where
  "FetchAndApplyConfig ks net parse w a =
     (case net (agent_call a ''GET'' ''/api/gateway-agent/v1/config'' None) of
        TransportError _ \<Rightarrow> (Some NetworkError, a, [])
      | Answer resp \<Rightarrow>
          if hp_StatusCode resp = 404 then (None, a, [])
          else if hp_StatusCode resp \<noteq> 200 then (Some (StatusError (hp_StatusCode resp)), a, [])
          else
           (case unmarshal (dec_struct dec_envelope envelope0) (parse (hp_Body resp)) of
              None \<Rightarrow> (Some BadEnvelope, a, [])
            | Some cv \<Rightarrow>
              if se_Version cv \<le> ag_applied a then (None, a, [])
              else
               (case verifySignedConfig ks (se_ConfigJSON cv) (se_SHA256 cv) (se_SignatureRef cv) of
                Inl err \<Rightarrow> (Some err, a, [ack_request a (se_Version cv) False ''verification_failed''])
              | Inr (cfg, canonical) \<Rightarrow>
                  (None,
                   a\<lparr>ag_dir := snd (storeConfigGeneration w (se_Version cv) canonical (ag_dir a)),
                     ag_srv := applied_version (se_Version cv) (SetConfig cfg (ag_srv a)), ag_applied := se_Version cv\<rparr>,
                   [ack_request a (se_Version cv) True []]))))"

definition heartbeat :: "bool \<Rightarrow> agent \<Rightarrow> agent" where
  "heartbeat ok a = a\<lparr>ag_srv := (ag_srv a)\<lparr>sv_metrics := RecordHeartbeat ok (sv_metrics (ag_srv a))\<rparr>\<rparr>"

definition agent_tick ::
  "config_keys \<Rightarrow> (http_request \<Rightarrow> http_result) \<Rightarrow> (string \<Rightarrow> body) \<Rightarrow> (string \<Rightarrow> bool) \<Rightarrow> (nat \<Rightarrow> file_write) \<Rightarrow> agent \<Rightarrow> agent" where
  "agent_tick ks net parse ping w a =
     (case sendHeartbeat net parse ping a of
        None \<Rightarrow> heartbeat False a
      | Some latest \<Rightarrow>
          (let a1 = uploadUsage net (heartbeat True a)
           in if latest > ag_applied a1 then fst (snd (FetchAndApplyConfig ks net parse w a1)) else a1))"

definition LoadStoredConfig :: "config_keys \<Rightarrow> agent \<Rightarrow> load_error option \<times> agent" where
  "LoadStoredConfig ks a =
     (case cd_current (ag_dir a) of
        None \<Rightarrow> (None, a)
      | Some raw \<Rightarrow>
          (case ParseConfig (ck_yaml ks) (ck_urlp ks) raw of
             Inl err \<Rightarrow> (Some err, a)
           | Inr cfg \<Rightarrow> (None, a\<lparr>ag_srv := applied_version (currentAppliedVersion (ag_dir a)) (SetConfig cfg (ag_srv a)),
                              ag_applied := currentAppliedVersion (ag_dir a)\<rparr>)))"

end
