(* ===== verification/GwAgentProps.thy ===== *)
theory GwAgentProps
  imports GwAgent
begin

text \<open>
  Properties of the agent: it runs signed configurations only, moves forward only, keeps the last known
  good generations, restores what it applied, and loses no usage; and what an import guarantees.
\<close>

section \<open>Verification\<close>

text \<open>A configuration that was read from signed bytes.\<close>

definition signed_doc :: "config_keys \<Rightarrow> json \<Rightarrow> gw_config \<Rightarrow> bool" where
  "signed_doc ks doc cfg \<longleftrightarrow> (\<exists>sg. ck_vf ks (ck_render ks doc) sg) \<and> ParseConfig (ck_yaml ks) (ck_urlp ks) (Doc doc) = Inr cfg"

lemma verifySignedConfig_Inr:
  "verifySignedConfig ks raw sha sg = Inr (cfg, doc) \<Longrightarrow> signed_doc ks doc cfg \<and> sha = Some (ck_hx ks (ck_render ks doc))"
  by (auto simp: verifySignedConfig_def signed_doc_def Let_def split: option.splits sum.splits if_splits)

section \<open>Generations\<close>

lemma write_gen_current [simp]: "cd_current (write_gen w v doc d) = cd_current d" "cd_marker (write_gen w v doc d) = cd_marker d"
  by (simp_all add: write_gen_def split: file_write.split)

lemma prune_simps [simp]: "cd_current (prune v d) = cd_current d" "cd_marker (prune v d) = cd_marker d"
  by (simp_all add: prune_def Let_def)

lemma store_current:
  "cd_current (snd (storeConfigGeneration w v doc d)) \<in> {cd_current d, Some (Doc doc)}"
  by (simp add: storeConfigGeneration_def Let_def)

lemma store_success:
  assumes "storeConfigGeneration w v doc d = (True, d')"
  shows "d' = prune v (d\<lparr>cd_gens := alist_put v (Doc doc) (cd_gens d), cd_current := Some (Doc doc), cd_marker := Some v\<rparr>)"
  using assms by (auto simp: storeConfigGeneration_def write_gen_def Let_def split: if_splits)

lemma store_writes [simp]:
  "storeConfigGeneration (\<lambda>_. Written) v doc d
     = (True, prune v (d\<lparr>cd_gens := alist_put v (Doc doc) (cd_gens d), cd_current := Some (Doc doc), cd_marker := Some v\<rparr>))"
  by (simp add: storeConfigGeneration_def write_gen_def)

text \<open>The versions that \<open>prune\<close> keeps.\<close>

lemma prune_gens: "cd_gens (prune v d) = filter (\<lambda>g. fst g \<notin> set (take (length (cd_gens d) - 3) (sortedGenerations d)) \<or> fst g = v) (cd_gens d)"
  by (simp add: prune_def sortedGenerations_def Let_def go_defs numeral_3_eq_3 filter_id_conv)

lemma prune_length:
  assumes "distinct (map fst (cd_gens d))"
  shows "length (cd_gens (prune v d)) \<le> 4"
proof -
  let ?xs = "sortedGenerations d" and ?n = "length (cd_gens d) - 3"
  have d: "distinct ?xs" "length ?xs = length (cd_gens d)" "set ?xs = fst ` set (cd_gens d)"
    using assms by (simp_all add: sortedGenerations_def)
  have "fst ` set (cd_gens (prune v d)) \<subseteq> insert v (set (drop ?n ?xs))"
  proof
    fix u assume "u \<in> fst ` set (cd_gens (prune v d))"
    then have "u \<in> set ?xs" "u \<notin> set (take ?n ?xs) \<or> u = v" by (auto simp: prune_gens d(3))
    then show "u \<in> insert v (set (drop ?n ?xs))" by (metis Un_iff append_take_drop_id insert_iff set_append)
  qed
  then have "card (fst ` set (cd_gens (prune v d))) \<le> card (insert v (set (drop ?n ?xs)))" by (rule card_mono [rotated]) simp
  also have "\<dots> \<le> Suc (length (drop ?n ?xs))" using card_length by (metis card_insert_if finite_set le_SucI Suc_le_mono)
  also have "\<dots> \<le> 4" using d(2) by simp
  finally have "card (set (map fst (cd_gens (prune v d)))) \<le> 4" by simp
  moreover have "distinct (map fst (cd_gens (prune v d)))" using assms by (simp add: prune_gens distinct_map_filter)
  ultimately show ?thesis using distinct_card by fastforce
qed

text \<open>A version that is removed has three newer ones.\<close>

lemma prune_removes_old:
  assumes "distinct (map fst (cd_gens d))" and "u \<in> fst ` set (cd_gens d)" and "u \<notin> fst ` set (cd_gens (prune v d))"
  shows "3 \<le> card {x \<in> fst ` set (cd_gens d). u < x}"
proof -
  let ?xs = "sortedGenerations d" and ?n = "length (cd_gens d) - 3"
  have d: "distinct ?xs" "sorted ?xs" "length ?xs = length (cd_gens d)" "set ?xs = fst ` set (cd_gens d)"
    using assms(1) by (simp_all add: sortedGenerations_def)
  have u: "u \<in> set (take ?n ?xs)" using assms(2,3) by (force simp: prune_gens)
  then have n: "3 < length ?xs" using d(3) by (cases "length (cd_gens d) \<le> 3") auto
  have s: "sorted_wrt (<) (take ?n ?xs @ drop ?n ?xs)" using d(1,2) by (simp add: strict_sorted_iff)
  then have "\<forall>x\<in>set (drop ?n ?xs). u < x" using u unfolding sorted_wrt_append by blast
  then have sub: "set (drop ?n ?xs) \<subseteq> {x \<in> fst ` set (cd_gens d). u < x}" using d(4) in_set_dropD by fastforce
  have fin: "finite {x \<in> fst ` set (cd_gens d). u < x}" by simp
  have card: "card (set (drop ?n ?xs)) = 3" using d n distinct_card [of "drop ?n ?xs"] by simp
  from card_mono [OF fin sub] show ?thesis unfolding card .
qed

section \<open>Importing\<close>

lemma ImportSignedConfig_cases:
  assumes "ImportSignedConfig ks raw g force mk w d = (res, d')"
  obtains (refused) err where "res = Inl err" "d' = d"
  | (stored) env cfg doc ok where "unmarshal (dec_struct dec_envelope envelope0) raw = Some env" "0 < se_Version env"
      "verifySignedConfig ks (se_ConfigJSON env) (se_SHA256 env) (se_SignatureRef env) = Inr (cfg, doc)"
      "g = [] \<or> gs_ID (gc_Gateway cfg) = g" "force \<or> currentGenerationVersion d < se_Version env"
      "storeConfigGeneration w (se_Version env) doc d = (ok, d')" "res = (if ok then Inr (se_Version env, cfg) else Inl StoreFailed)"
proof (cases "unmarshal (dec_struct dec_envelope envelope0) raw")
  case None
  then show thesis using assms refused by (auto simp: ImportSignedConfig_def)
next
  case (Some env)
  show thesis
  proof (cases "verifySignedConfig ks (se_ConfigJSON env) (se_SHA256 env) (se_SignatureRef env)")
    case (Inl e)
    then show thesis using assms Some refused by (auto simp: ImportSignedConfig_def split: if_splits)
  next
    case (Inr r)
    obtain cfg doc where r: "r = (cfg, doc)" by (cases r)
    obtain ok d2 where st: "storeConfigGeneration w (se_Version env) doc d = (ok, d2)" by (cases "storeConfigGeneration w (se_Version env) doc d")
    show thesis
    proof (cases "se_Version env \<le> 0 \<or> g \<noteq> [] \<and> gs_ID (gc_Gateway cfg) \<noteq> g
        \<or> se_Version env \<le> currentGenerationVersion d \<and> \<not> force \<or> \<not> mk")
      case True
      then show thesis using assms Some Inr r refused by (auto simp: ImportSignedConfig_def split: if_splits)
    next
      case False
      then have "res = (if ok then Inr (se_Version env, cfg) else Inl StoreFailed) \<and> d' = d2"
        using assms Some Inr r st by (auto simp: ImportSignedConfig_def)
      then show thesis using stored [of env cfg doc ok] Some Inr r st False by auto
    qed
  qed
qed

lemma ImportSignedConfig_Inl: "ImportSignedConfig ks raw g force mk w d = (Inl err, d') \<Longrightarrow> err \<noteq> StoreFailed \<Longrightarrow> d' = d"
  by (erule ImportSignedConfig_cases) (auto split: if_splits)

lemma ImportSignedConfig_current:
  assumes "ImportSignedConfig ks raw g force mk w d = (res, d')"
  shows "cd_current d' = cd_current d \<or> (\<exists>doc cfg. cd_current d' = Some (Doc doc) \<and> signed_doc ks doc cfg)"
proof -
  from assms show ?thesis
  proof (cases rule: ImportSignedConfig_cases)
    case (stored env cfg doc ok)
    have "cd_current d' \<in> {cd_current d, Some (Doc doc)}" using store_current [of w "se_Version env" doc d] stored(6) by simp
    then show ?thesis using verifySignedConfig_Inr [OF stored(3)] by blast
  qed simp
qed

lemma envelope_version:
  assumes "\<forall>(k, v)\<in>set ms. \<not> key_eq k ''version''"
  shows "dec_members dec_envelope ms (x\<lparr>se_Version := n\<rparr>) = map_option (\<lambda>y. y\<lparr>se_Version := n\<rparr>) (dec_members dec_envelope ms x)"
  using assms
proof (induction ms arbitrary: x)
  case (Cons kv ms)
  obtain k v where kv: "kv = (k, v)" by (cases kv)
  have nk: "\<not> key_eq k ''version''" and ih: "\<And>x. dec_members dec_envelope ms (x\<lparr>se_Version := n\<rparr>)
      = map_option (\<lambda>y. y\<lparr>se_Version := n\<rparr>) (dec_members dec_envelope ms x)"
    using Cons kv by auto
  have "dec_envelope k v (x\<lparr>se_Version := n\<rparr>) = map_option (\<lambda>y. y\<lparr>se_Version := n\<rparr>) (dec_envelope k v x)"
    using nk by (cases x) (simp add: dec_envelope_def option.map_comp comp_def)
  then show ?case using ih by (simp add: kv split: option.split)
qed simp

section \<open>The agent\<close>

lemma applied_version_simps [simp]:
  "sv_cfg (applied_version v s) = sv_cfg s" "sv_auth (applied_version v s) = sv_auth s" "sv_usage (applied_version v s) = sv_usage s"
  "sv_audit (applied_version v s) = sv_audit s" "sv_platform (applied_version v s) = sv_platform s"
  by (simp_all add: applied_version_def)

lemma heartbeat_simps [simp]:
  "sv_cfg (ag_srv (heartbeat ok a)) = sv_cfg (ag_srv a)" "sv_auth (ag_srv (heartbeat ok a)) = sv_auth (ag_srv a)"
  "sv_usage (ag_srv (heartbeat ok a)) = sv_usage (ag_srv a)" "ag_dir (heartbeat ok a) = ag_dir a" "ag_applied (heartbeat ok a) = ag_applied a"
  by (simp_all add: heartbeat_def)

lemma FetchAndApplyConfig_cases:
  assumes "FetchAndApplyConfig ks net parse w a = (err, a', acks)"
  obtains (kept) "a' = a" "acks = []"
  | (rejected) cv :: signed_envelope and e where "a' = a" "err = Some e" "ag_applied a < se_Version cv"
      "verifySignedConfig ks (se_ConfigJSON cv) (se_SHA256 cv) (se_SignatureRef cv) = Inl e"
      "acks = [ack_request a (se_Version cv) False ''verification_failed'']"
  | (applied) cv :: signed_envelope and cfg doc where "err = None" "ag_applied a < se_Version cv" "signed_doc ks doc cfg"
      "a' = a\<lparr>ag_dir := snd (storeConfigGeneration w (se_Version cv) doc (ag_dir a)), ag_srv := applied_version (se_Version cv) (SetConfig cfg (ag_srv a)),
              ag_applied := se_Version cv\<rparr>"
      "acks = [ack_request a (se_Version cv) True []]"
proof (cases "net (agent_call a ''GET'' ''/api/gateway-agent/v1/config'' None)")
  case (TransportError t)
  then show thesis using assms kept by (auto simp: FetchAndApplyConfig_def)
next
  case (Answer resp)
  show thesis
  proof (cases "unmarshal (dec_struct dec_envelope envelope0) (parse (hp_Body resp))")
    case None
    then show thesis using assms Answer kept by (auto simp: FetchAndApplyConfig_def split: if_splits)
  next
    case (Some cv)
    show thesis
    proof (cases "hp_StatusCode resp = 200 \<and> ag_applied a < se_Version cv")
      case False
      then show thesis using assms Answer Some kept by (auto simp: FetchAndApplyConfig_def split: if_splits)
    next
      case True
      show thesis
      proof (cases "verifySignedConfig ks (se_ConfigJSON cv) (se_SHA256 cv) (se_SignatureRef cv)")
        case (Inl e)
        then show thesis using assms Answer Some True rejected [of e cv] by (auto simp: FetchAndApplyConfig_def)
      next
        case (Inr r)
        obtain cfg doc where r: "r = (cfg, doc)" by (cases r)
        show thesis
          using assms Answer Some True Inr r verifySignedConfig_Inr [OF Inr [unfolded r]] applied [of cv doc cfg]
          by (auto simp: FetchAndApplyConfig_def)
      qed
    qed
  qed
qed

text \<open>The reachable agents of a gateway that is shipped with the configuration \<open>c0\<close>. What other parts of
  the gateway do to the server keeps its configuration and keys.\<close>

inductive agent_reach :: "config_keys \<Rightarrow> gw_config \<Rightarrow> agent \<Rightarrow> bool" for ks c0 where
  boot: "ag_srv a = NewServer c0 \<Longrightarrow> cd_current (ag_dir a) = None \<Longrightarrow> agent_reach ks c0 a"
| register: "agent_reach ks c0 a \<Longrightarrow> agent_reach ks c0 (snd (Register net parse wr renamed a))"
| tick: "agent_reach ks c0 a \<Longrightarrow> agent_reach ks c0 (agent_tick ks net parse ping w a)"
| poll: "agent_reach ks c0 a \<Longrightarrow> agent_reach ks c0 (fst (snd (FetchAndApplyConfig ks net parse w a)))"
| import_config: "agent_reach ks c0 a \<Longrightarrow> agent_reach ks c0 (a\<lparr>ag_dir := snd (ImportSignedConfig ks raw g force mk w (ag_dir a))\<rparr>)"
| serve: "agent_reach ks c0 a \<Longrightarrow> sv_cfg s = sv_cfg (ag_srv a) \<Longrightarrow> au_byHash (sv_auth s) = au_byHash (sv_auth (ag_srv a))
    \<Longrightarrow> agent_reach ks c0 (a\<lparr>ag_srv := s\<rparr>)"
| restart: "agent_reach ks c0 a \<Longrightarrow> agent_reach ks c0 (snd (LoadStoredConfig ks (a\<lparr>ag_srv := NewServer c0, ag_applied := 0\<rparr>)))"

definition agent_ok :: "config_keys \<Rightarrow> gw_config \<Rightarrow> agent \<Rightarrow> bool" where
  "agent_ok ks c0 a \<longleftrightarrow> (sv_cfg (ag_srv a) = c0 \<or> (\<exists>doc. signed_doc ks doc (sv_cfg (ag_srv a))))
     \<and> au_byHash (sv_auth (ag_srv a)) = au_byHash (NewAuthenticator (sv_cfg (ag_srv a)))
     \<and> (\<forall>raw. cd_current (ag_dir a) = Some raw \<longrightarrow> (\<exists>doc cfg. raw = Doc doc \<and> signed_doc ks doc cfg))"

lemma agent_ok_fetch [keeps]: "agent_ok ks c0 a \<Longrightarrow> agent_ok ks c0 (fst (snd (FetchAndApplyConfig ks net parse w a)))"
proof -
  assume ok: "agent_ok ks c0 a"
  obtain err a' acks where f: "FetchAndApplyConfig ks net parse w a = (err, a', acks)" by (metis surj_pair)
  then have "agent_ok ks c0 a'"
  proof (cases rule: FetchAndApplyConfig_cases)
    case (applied cv cfg doc)
    have "cd_current (ag_dir a') \<in> {cd_current (ag_dir a), Some (Doc doc)}"
      using store_current [of w "se_Version cv" doc "ag_dir a"] applied(4) by simp
    then show ?thesis using ok applied(3,4) by (auto simp: agent_ok_def)
  qed (use ok in auto)
  then show ?thesis using f by simp
qed

lemma uploadUsage_simps [simp]:
  "sv_cfg (ag_srv (uploadUsage net a)) = sv_cfg (ag_srv a)" "sv_auth (ag_srv (uploadUsage net a)) = sv_auth (ag_srv a)"
  "ag_dir (uploadUsage net a) = ag_dir a" "ag_applied (uploadUsage net a) = ag_applied a"
  by (simp_all add: uploadUsage_def DrainUsage_def Let_def split: http_result.split)

lemma agent_ok_tick [keeps]: "agent_ok ks c0 a \<Longrightarrow> agent_ok ks c0 (agent_tick ks net parse ping w a)"
proof -
  assume "agent_ok ks c0 a"
  then have "agent_ok ks c0 (heartbeat False a)" "agent_ok ks c0 (uploadUsage net (heartbeat True a))" by (simp_all add: agent_ok_def)
  then show ?thesis using agent_ok_fetch by (simp add: agent_tick_def Let_def split: option.split)
qed

lemma Register_simps [simp]: "ag_srv (snd (Register net parse wr rn a)) = ag_srv a" "ag_dir (snd (Register net parse wr rn a)) = ag_dir a"
  by (simp_all add: Register_def split: option.split http_result.split)

lemma agent_ok_import [keeps]:
  "agent_ok ks c0 a \<Longrightarrow> agent_ok ks c0 (a\<lparr>ag_dir := snd (ImportSignedConfig ks raw g force mk w (ag_dir a))\<rparr>)"
  using ImportSignedConfig_current [of ks raw g force mk w "ag_dir a" _ "snd (ImportSignedConfig ks raw g force mk w (ag_dir a))"]
  by (fastforce simp: agent_ok_def prod_eq_iff)

lemma agent_ok_restart [keeps]:
  "agent_ok ks c0 a \<Longrightarrow> agent_ok ks c0 (snd (LoadStoredConfig ks (a\<lparr>ag_srv := NewServer c0, ag_applied := 0\<rparr>)))"
  by (fastforce simp: agent_ok_def LoadStoredConfig_def NewServer_def signed_doc_def split: option.split sum.split)

lemma agent_reach_ok: "agent_reach ks c0 a \<Longrightarrow> agent_ok ks c0 a"
proof (induction rule: agent_reach.induct)
  case (boot a)
  then show ?case by (simp add: agent_ok_def NewServer_def)
next
  case (register a net parse wr renamed)
  then show ?case by (simp add: agent_ok_def)
next
  case (serve a s)
  then show ?case by (simp add: agent_ok_def)
qed (blast intro: keeps)+

text \<open>What an upload leaves and reports.\<close>

lemma uploadUsage_rows:
  assumes "usage_ok (sv_usage (ag_srv a))" and "rows = map snd (sv_usage (ag_srv a))"
    and "delivered \<longleftrightarrow> rows = [] \<or> (\<exists>resp. net (usage_request a rows) = Answer resp \<and> hp_StatusCode resp = 200)"
  shows "total k (map snd (sv_usage (ag_srv (uploadUsage net a)))) + (if delivered then total k rows else 0) = total k rows
    \<and> usage_ok (sv_usage (ag_srv (uploadUsage net a)))"
proof -
  have r: "total k (map snd (RestoreUsage rows [])) = total k rows" "usage_ok (RestoreUsage rows [])"
    using RestoreUsage_total [of "[]" rows k] by simp_all
  have q: "usage_request (a\<lparr>ag_srv := s\<rparr>) rows = usage_request a rows" for s by (simp add: usage_request_def agent_call_def)
  show ?thesis
    using assms(2,3) r by (auto simp: uploadUsage_def DrainUsage_def Let_def q split: http_result.split)
qed

section \<open>Example\<close>

text \<open>A control plane that serves one signed generation.\<close>

definition demo_keys :: config_keys where
  "demo_keys = \<lparr>ck_nf = id, ck_render = (\<lambda>_. ''doc''), ck_hx = id, ck_vf = (\<lambda>m s. m = ''doc''), ck_yaml = (\<lambda>_. Some demo_gateway),
     ck_urlp = demo_gw_urlp\<rparr>"

definition demo_members :: "(string \<times> json) list" where
  "demo_members = [(''config_json'', JObj []), (''sha256'', JStr ''doc''), (''signature_ref'', JStr [])]"

definition demo_generation :: "int \<Rightarrow> json" where
  "demo_generation v = JObj ((''version'', JNum (int_str v)) # demo_members)"

definition demo_plane :: "http_request \<Rightarrow> http_result" where
  "demo_plane _ = Answer \<lparr>hp_StatusCode = 200, hp_ContentType = [], hp_Body = [], hp_ReadErr = False\<rparr>"

definition demo_agent :: agent where
  "demo_agent = \<lparr>ag_st = \<lparr>as_ControlPlaneURL = ''http://cp'', as_DataDir = ''d'', as_SigningPubFile = ''p'', as_InstallTokenFile = [],
       as_Heartbeat = 1, as_ConfigPoll = 1, as_SoftwareVersion = ''1''\<rparr>,
     ag_srv = NewServer demo_gateway, ag_credential = ''c'', ag_applied = 0,
     ag_dir = \<lparr>cd_gens = [], cd_current = None, cd_marker = None\<rparr>, ag_credFile = None, ag_token = None\<rparr>"

lemma demo_verifies: "verifySignedConfig demo_keys (Some (JObj [])) (Some ''doc'') (Some []) = Inr (gw_with_defaults demo_gateway, JObj [])"
  by (simp add: verifySignedConfig_def demo_keys_def b64_decode_def ParseConfig_def demo_gateway_valid)

lemma demo_decodes: "in_i64 v \<Longrightarrow> dec_struct dec_envelope envelope0 (demo_generation v)
    = Some \<lparr>se_Version = v, se_SchemaVersion = [], se_ConfigJSON = Some (JObj []), se_SHA256 = Some ''doc'', se_SignatureRef = Some []\<rparr>"
proof -
  have "to_lower ''version'' = ''version''" "to_lower ''config_json'' = ''config_json''" "to_lower ''sha256'' = ''sha256''"
    "to_lower ''signature_ref'' = ''signature_ref''" by code_simp+
  then show "in_i64 v \<Longrightarrow> ?thesis"
    by (simp add: demo_generation_def demo_members_def dec_envelope_def envelope0_def key_eq_def int_lit_int_str)
qed

lemma demo_fetch:
  "FetchAndApplyConfig demo_keys demo_plane (\<lambda>_. Doc (demo_generation 1)) (\<lambda>_. Written) demo_agent
   = (None, demo_agent\<lparr>ag_dir := \<lparr>cd_gens = [(1, Doc (JObj []))], cd_current = Some (Doc (JObj [])), cd_marker = Some 1\<rparr>,
              ag_srv := applied_version 1 (SetConfig (gw_with_defaults demo_gateway) (NewServer demo_gateway)), ag_applied := 1\<rparr>,
      [ack_request demo_agent 1 True []])"
proof -
  have "in_i64 1" by (simp add: in_i64_def)
  note d = demo_decodes [OF this]
  show ?thesis
    by (simp add: FetchAndApplyConfig_def demo_plane_def d demo_verifies)
      (simp add: demo_agent_def prune_def sortedGenerations_def Let_def alist_put_def)
qed

section \<open>Properties\<close>


text \<open>The agent moves forward only: fetching a configuration leaves the agent as it was, after a failed
  verification with one negative acknowledgement, or installs a verified configuration with a larger
  version and acknowledges it.\<close>

theorem agent_moves_forward_only:
  assumes "FetchAndApplyConfig ks net parse w a = (err, a', acks)"
  shows "(a' = a \<and> (acks = [] \<or> (\<exists>v. err \<noteq> None \<and> acks = [ack_request a v False ''verification_failed''])))
    \<or> (err = None \<and> ag_applied a < ag_applied a' \<and> acks = [ack_request a (ag_applied a') True []]
       \<and> (\<exists>doc. signed_doc ks doc (sv_cfg (ag_srv a'))) \<and> sv_usage (ag_srv a') = sv_usage (ag_srv a)
       \<and> sv_audit (ag_srv a') = sv_audit (ag_srv a))"
  using assms
proof (cases rule: FetchAndApplyConfig_cases)
  case (applied cv cfg doc)
  then show ?thesis by auto
qed auto

text \<open>The last good generations are kept: a successful store makes the new generation the current one,
  keeps at most four, and removes a generation only when three newer ones are stored.\<close>

theorem last_generations_are_kept:
  assumes "distinct (map fst (cd_gens d))" and "storeConfigGeneration w v doc d = (True, d')"
  shows "cd_current d' = Some (Doc doc) \<and> currentAppliedVersion d' = (if 0 < v then v else currentGenerationVersion d')
    \<and> map_of (cd_gens d') v = Some (Doc doc) \<and> length (cd_gens d') \<le> 4
    \<and> (\<forall>u \<in> fst ` set (cd_gens d). u \<in> fst ` set (cd_gens d') \<or> 3 \<le> card {x \<in> insert v (fst ` set (cd_gens d)). u < x})"
proof -
  define d1 where "d1 = d\<lparr>cd_gens := alist_put v (Doc doc) (cd_gens d), cd_current := Some (Doc doc), cd_marker := Some v\<rparr>"
  have d': "d' = prune v d1" using store_success [OF assms(2)] by (simp add: d1_def)
  have dist: "distinct (map fst (cd_gens d1))" using alist_put_distinct [OF assms(1)] by (simp add: d1_def)
  have keys: "fst ` set (cd_gens d1) = insert v (fst ` set (cd_gens d))" by (auto simp: d1_def alist_put_def image_iff)
  have "(v, Doc doc) \<in> set (cd_gens d')" by (simp add: d' prune_gens) (simp add: d1_def alist_put_def)
  moreover have "distinct (map fst (cd_gens d'))" using dist by (simp add: d' prune_gens distinct_map_filter)
  ultimately have "map_of (cd_gens d') v = Some (Doc doc)" by simp
  moreover have "u \<in> fst ` set (cd_gens d') \<or> 3 \<le> card {x \<in> insert v (fst ` set (cd_gens d)). u < x}"
    if "u \<in> fst ` set (cd_gens d)" for u
    using prune_removes_old [OF dist, of u v] that unfolding keys d' by blast
  moreover have "length (cd_gens d') \<le> 4" unfolding d' by (rule prune_length [OF dist])
  moreover have "cd_current d' = Some (Doc doc)" "cd_marker d' = Some v" by (simp_all add: d' d1_def)
  ultimately show ?thesis by (simp add: currentAppliedVersion_def)
qed

text \<open>C35: A restart restores what was applied: after a fetch that installed a configuration and stored it, a
  restarted gateway loads the same configuration with the same version.\<close>

theorem restart_restores_applied_config:
  assumes "FetchAndApplyConfig ks net parse (\<lambda>_. Written) a = (err, a', acks)" and "0 \<le> ag_applied a"
    and "ag_applied a' \<noteq> ag_applied a"
  shows "\<exists>b. LoadStoredConfig ks (a'\<lparr>ag_srv := NewServer c0, ag_applied := 0\<rparr>) = (None, b)
    \<and> sv_cfg (ag_srv b) = sv_cfg (ag_srv a') \<and> ag_applied b = ag_applied a'"
  using assms(1)
proof (cases rule: FetchAndApplyConfig_cases)
  case (applied cv cfg doc)
  then show ?thesis
    using assms(2) by (auto simp: LoadStoredConfig_def signed_doc_def currentAppliedVersion_def)
qed (use assms(3) in auto)

text \<open>C8: An import is checked before anything is written: unless storing itself fails, a refused import
  leaves the directory as it was; an accepted one has a positive version newer than every stored one
  unless it is forced, a signed configuration, and the expected gateway.\<close>

theorem import_is_checked:
  assumes "ImportSignedConfig ks raw g force mk w d = (res, d')"
  shows "case res of
      Inl err \<Rightarrow> err = StoreFailed \<or> d' = d
    | Inr (v, cfg) \<Rightarrow> 0 < v \<and> (\<exists>doc. signed_doc ks doc cfg \<and> cd_current d' = Some (Doc doc)) \<and> (g = [] \<or> gs_ID (gc_Gateway cfg) = g)
        \<and> (force \<or> (\<forall>u \<in> fst ` set (cd_gens d). u < v))"
  using assms
proof (cases rule: ImportSignedConfig_cases)
  case (stored env cfg doc ok)
  have le: "u \<le> currentGenerationVersion d" if "u \<in> fst ` set (cd_gens d)" for u
  proof -
    have u: "u \<in> set (sortedGenerations d)" using that by (simp add: sortedGenerations_def)
    then obtain i where "i < length (sortedGenerations d)" "sortedGenerations d ! i = u" by (auto simp: in_set_conv_nth)
    moreover have "sorted (sortedGenerations d)" by (simp add: sortedGenerations_def)
    ultimately have "u \<le> sortedGenerations d ! (length (sortedGenerations d) - 1)" by (auto simp: sorted_iff_nth_mono)
    then show ?thesis using u by (auto simp: currentGenerationVersion_def Let_def)
  qed
  show ?thesis
  proof (cases ok)
    case True
    have "cd_current d' = Some (Doc doc)" using store_success [of w "se_Version env" doc d d'] stored(6) True by simp
    then show ?thesis using True stored verifySignedConfig_Inr [OF stored(3)] le by fastforce
  qed (simp add: stored)
qed simp

text \<open>The version is not signed: whoever has a signed configuration can present it again under a larger
  version, and an import accepts it as the newest one, although newer configurations were stored since.\<close>

theorem replayed_config_is_accepted:
  assumes "ImportSignedConfig ks (Doc (JObj ((''version'', JNum (int_str v)) # ms))) g force mk w d = (Inr (v, cfg), d1)"
    and "\<forall>(k, x)\<in>set ms. \<not> key_eq k ''version''" and "in_i64 v" and "in_i64 v'" and "0 < v'" and "currentGenerationVersion d2 < v'"
  shows "\<exists>d3. ImportSignedConfig ks (Doc (JObj ((''version'', JNum (int_str v')) # ms))) g False True (\<lambda>_. Written) d2 = (Inr (v', cfg), d3)
    \<and> cd_current d3 = cd_current d1"
proof -
  let ?doc = "\<lambda>v. Doc (JObj ((''version'', JNum (int_str v)) # ms))"
  have "key_eq ''version'' ''version''" by (simp add: key_eq_def)
  then have dec: "unmarshal (dec_struct dec_envelope envelope0) (?doc u) = map_option (\<lambda>y. y\<lparr>se_Version := u\<rparr>) (dec_members dec_envelope ms envelope0)"
    if "in_i64 u" for u
    using envelope_version [OF assms(2), where x = envelope0 and n = u] int_lit_int_str [OF that] by (simp add: dec_envelope_def)
  from assms(1) show ?thesis
  proof (cases rule: ImportSignedConfig_cases)
    case (stored env cfg' doc ok)
    have ok: "ok" "cfg' = cfg" using stored(7) by (auto split: if_splits)
    obtain y where y: "dec_members dec_envelope ms envelope0 = Some y" "env = y\<lparr>se_Version := v\<rparr>"
      using dec [OF assms(3)] stored(1) by auto
    have "verifySignedConfig ks (se_ConfigJSON y) (se_SHA256 y) (se_SignatureRef y) = Inr (cfg, doc)"
      using stored(3) ok(2) y(2) by simp
    moreover have "cd_current d1 = Some (Doc doc)" using store_success [of w "se_Version env" doc d d1] stored(6) ok(1) by simp
    ultimately show ?thesis
      using dec [OF assms(4)] y(1) stored(4) ok(2) assms(5,6) by (auto simp: ImportSignedConfig_def)
  qed simp
qed

text \<open>No usage is lost by an upload: the rows that the gateway still counts after it and those the
  control plane confirmed add up to the rows before it, for every day and model.\<close>

theorem upload_keeps_usage:
  assumes "usage_ok (sv_usage (ag_srv a))" and "rows = map snd (sv_usage (ag_srv a))"
    and "delivered \<longleftrightarrow> rows = [] \<or> (\<exists>resp. net (usage_request a rows) = Answer resp \<and> hp_StatusCode resp = 200)"
  shows "total k (map snd (sv_usage (ag_srv (uploadUsage net a)))) + (if delivered then total k rows else 0) = total k rows
    \<and> usage_ok (sv_usage (ag_srv (uploadUsage net a)))"
  using uploadUsage_rows [of a rows delivered net k] assms by blast


theorem agent_moves_forward_only_witness:
  "ag_applied demo_agent < ag_applied (fst (snd (FetchAndApplyConfig demo_keys demo_plane (\<lambda>_. Doc (demo_generation 1)) (\<lambda>_. Written) demo_agent)))"
  using agent_moves_forward_only [OF demo_fetch] unfolding demo_fetch by auto

theorem last_generations_are_kept_witness:
  "\<exists>d'. storeConfigGeneration (\<lambda>_. Written) 9 JNull \<lparr>cd_gens = [(1, Bytes []), (10, Bytes []), (2, Bytes [])], cd_current = None, cd_marker = None\<rparr> = (True, d')
     \<and> length (cd_gens d') \<le> 4 \<and> map_of (cd_gens d') 9 = Some (Doc JNull)"
proof -
  let ?d = "\<lparr>cd_gens = [(1, Bytes []), (10, Bytes []), (2, Bytes [])], cd_current = None, cd_marker = None\<rparr>"
  have "distinct (map fst (cd_gens ?d))" by simp
  from last_generations_are_kept [OF this store_writes, of 9 JNull] show ?thesis unfolding store_writes by blast
qed

theorem restart_restores_applied_config_witness:
  "\<exists>b. LoadStoredConfig demo_keys ((fst (snd (FetchAndApplyConfig demo_keys demo_plane (\<lambda>_. Doc (demo_generation 1)) (\<lambda>_. Written) demo_agent)))
      \<lparr>ag_srv := NewServer demo_gateway, ag_applied := 0\<rparr>) = (None, b) \<and> ag_applied b = 1"
proof -
  have "0 \<le> ag_applied demo_agent" "ag_applied (demo_agent\<lparr>ag_dir := d, ag_srv := s, ag_applied := 1\<rparr>) \<noteq> ag_applied demo_agent" for d s
    by (simp_all add: demo_agent_def)
  from restart_restores_applied_config [OF demo_fetch this, of demo_gateway] show ?thesis unfolding demo_fetch by auto
qed

theorem import_is_checked_witness:
  "\<exists>v cfg d'. ImportSignedConfig demo_keys (Doc (demo_generation 5)) ''gw'' False True (\<lambda>_. Written) (ag_dir demo_agent) = (Inr (v, cfg), d')
     \<and> 0 < v \<and> gs_ID (gc_Gateway cfg) = ''gw''"
proof -
  have "in_i64 5" by (simp add: in_i64_def)
  have "gs_ID (gc_Gateway (gw_with_defaults demo_gateway)) = ''gw''" by code_simp
  then have "\<exists>d'. ImportSignedConfig demo_keys (Doc (demo_generation 5)) ''gw'' False True (\<lambda>_. Written) (ag_dir demo_agent)
      = (Inr (5, gw_with_defaults demo_gateway), d')"
    by (simp add: ImportSignedConfig_def demo_decodes [OF \<open>in_i64 5\<close>] demo_verifies)
      (simp add: demo_agent_def currentGenerationVersion_def sortedGenerations_def)
  then obtain d' where i: "ImportSignedConfig demo_keys (Doc (demo_generation 5)) ''gw'' False True (\<lambda>_. Written) (ag_dir demo_agent)
      = (Inr (5, gw_with_defaults demo_gateway), d')" ..
  with import_is_checked [OF i] show ?thesis by auto
qed

theorem replayed_config_is_accepted_witness:
  "\<exists>d1 d3. ImportSignedConfig demo_keys (Doc (demo_generation 1)) [] False True (\<lambda>_. Written) (ag_dir demo_agent)
       = (Inr (1, gw_with_defaults demo_gateway), d1)
     \<and> ImportSignedConfig demo_keys (Doc (demo_generation 8)) [] False True (\<lambda>_. Written)
         \<lparr>cd_gens = [(7, Doc JNull)], cd_current = Some (Doc JNull), cd_marker = Some 7\<rparr> = (Inr (8, gw_with_defaults demo_gateway), d3)
     \<and> cd_current d3 = cd_current d1"
proof -
  have v: "in_i64 1" "in_i64 8" by (simp_all add: in_i64_def)
  let ?d2 = "\<lparr>cd_gens = [(7, Doc JNull)], cd_current = Some (Doc JNull), cd_marker = Some 7\<rparr>"
  have "\<exists>d1. ImportSignedConfig demo_keys (Doc (demo_generation 1)) [] False True (\<lambda>_. Written) (ag_dir demo_agent)
      = (Inr (1, gw_with_defaults demo_gateway), d1)"
    by (simp add: ImportSignedConfig_def demo_decodes [OF v(1)] demo_verifies)
      (simp add: demo_agent_def currentGenerationVersion_def sortedGenerations_def)
  then obtain d1 where i: "ImportSignedConfig demo_keys (Doc (demo_generation 1)) [] False True (\<lambda>_. Written) (ag_dir demo_agent)
      = (Inr (1, gw_with_defaults demo_gateway), d1)" ..
  have m: "\<forall>(k, x)\<in>set demo_members. \<not> key_eq k ''version''" by code_simp
  have "currentGenerationVersion ?d2 < 8" by (simp add: currentGenerationVersion_def sortedGenerations_def)
  from replayed_config_is_accepted [OF i [unfolded demo_generation_def] m v _ this] i
  show ?thesis unfolding demo_generation_def by auto
qed

theorem upload_keeps_usage_witness:
  "sv_usage (ag_srv (uploadUsage (\<lambda>_. TransportError True)
      (demo_agent\<lparr>ag_srv := (ag_srv demo_agent)\<lparr>sv_usage := add_usage ''d'' ''m'' (Some 3) None False []\<rparr>\<rparr>))) \<noteq> []"
proof -
  let ?a = "demo_agent\<lparr>ag_srv := (ag_srv demo_agent)\<lparr>sv_usage := add_usage ''d'' ''m'' (Some 3) None False []\<rparr>\<rparr>"
  have ok: "usage_ok (sv_usage (ag_srv ?a))" using add_usage_total [of "[]"] by simp
  have d: "False \<longleftrightarrow> map snd (sv_usage (ag_srv ?a)) = [] \<or> (\<exists>resp. TransportError True = Answer resp \<and> hp_StatusCode resp = 200)"
    by (simp add: add_usage_def alist_put_def Let_def)
  have "total (''d'', ''m'') (map snd (sv_usage (ag_srv ?a))) \<noteq> 0"
    by (simp add: add_usage_def alist_put_def total_def bump_row_def empty_row_def row_key_def counts_of_def zero_counts_def plus_counts_def)
  with upload_keeps_usage [OF ok refl d, of "(''d'', ''m'')"] show ?thesis by auto
qed

end
