(* ===== verification/Discover.thy ===== *)
theory Discover
  imports Connector GwConfig "HOL-Library.Word"
begin

text \<open>
  The discovery of local runtimes (\<open>gwcore/discover.go\<close>): the hosts of a scan, the probes of the known
  ports and the list of candidates. \<open>net\<close> answers a request, \<open>parse\<close> reads a body; a request that
  cannot be built counts as one that fails.

  \<open>net.ParseCIDR\<close> is modelled for IPv4; \<open>v6\<close> says which other texts it takes as IPv6 networks. The loop
  over the addresses is a partial function: \<open>None\<close> would be a loop that does not end.
\<close>

section \<open>Hosts\<close>

definition discoverPorts :: "(nat \<times> string) list" where
  "discoverPorts = [(11434, ''ollama''), (8000, ''vllm''), (8080, ''tgi''), (3000, ''tgi''), (1234, ''openai_compatible'')]"

definition discoverMaxHosts :: nat where [go_defs]: "discoverMaxHosts = 1024"

text \<open>An address: its bytes, the most significant first. \<open>nextIP\<close> works on the reversed bytes.\<close>

type_synonym ip = "8 word list"

fun inc_bytes :: "8 word list \<Rightarrow> 8 word list" where
  "inc_bytes [] = []"
| "inc_bytes (b # bs) = (if b + 1 \<noteq> 0 then (b + 1) # bs else (b + 1) # inc_bytes bs)"

definition nextIP :: "ip \<Rightarrow> ip" where
  "nextIP a = rev (inc_bytes (rev a))"

fun le_val :: "8 word list \<Rightarrow> nat" where
  "le_val [] = 0"
| "le_val (b # bs) = unat b + 256 * le_val bs"

fun le_bytes :: "nat \<Rightarrow> nat \<Rightarrow> 8 word list" where
  "le_bytes 0 v = []"
| "le_bytes (Suc n) v = of_nat (v mod 256) # le_bytes n (v div 256)"

definition ip_val :: "ip \<Rightarrow> nat" where "ip_val a = le_val (rev a)"
definition ip_of :: "nat \<Rightarrow> ip" where "ip_of v = rev (le_bytes 4 v)"

definition ip_str :: "ip \<Rightarrow> string" where
  "ip_str a = join_with ''.'' (map (\<lambda>b. nat_str (unat b)) a)"

text \<open>\<open>net.ParseCIDR\<close>.\<close>

datatype ipnet = Net4 ip nat | Net6

definition parse_octet :: "string \<Rightarrow> nat option" where
  "parse_octet s =
     (if s \<noteq> [] \<and> list_all is_digit s \<and> (length s = 1 \<or> hd s \<noteq> CHR ''0'') \<and> digits_val s \<le> 255
      then Some (nat (digits_val s)) else None)"

definition parse_ipv4 :: "string \<Rightarrow> ip option" where
  "parse_ipv4 s =
     (case map parse_octet (split_on CHR ''.'' s) of
        [Some a, Some b, Some c, Some d] \<Rightarrow> Some (map of_nat [a, b, c, d])
      | _ \<Rightarrow> None)"

definition parse_mask :: "string \<Rightarrow> nat option" where
  "parse_mask s = (if s \<noteq> [] \<and> list_all is_digit s \<and> digits_val s \<le> 32 then Some (nat (digits_val s)) else None)"

definition mask_ip :: "nat \<Rightarrow> ip \<Rightarrow> ip" where
  "mask_ip n a = ip_of (ip_val a div 2 ^ (32 - n) * 2 ^ (32 - n))"

definition ParseCIDR :: "(string \<Rightarrow> bool) \<Rightarrow> string \<Rightarrow> ipnet option" where
  "ParseCIDR v6 s =
     (case cut CHR ''/'' s of
        None \<Rightarrow> None
      | Some (addr, m) \<Rightarrow>
          (case parse_ipv4 addr of
             Some a \<Rightarrow> map_option (\<lambda>n. Net4 (mask_ip n a) n) (parse_mask m)
           | None \<Rightarrow> if v6 s then Some Net6 else None))"

text \<open>\<open>IPNet.Contains\<close>: the same bits under the mask.\<close>

definition net_contains :: "ip \<Rightarrow> nat \<Rightarrow> ip \<Rightarrow> bool" where
  "net_contains base n a \<longleftrightarrow> length a = length base \<and> ip_val a div 2 ^ (32 - n) = ip_val base div 2 ^ (32 - n)"

partial_function (option) host_loop :: "ip \<Rightarrow> nat \<Rightarrow> ip \<Rightarrow> string list option" where
  "host_loop base n a =
     (if net_contains base n a then Option.bind (host_loop base n (nextIP a)) (\<lambda>hs. Some (ip_str a # hs)) else Some [])"

datatype discover_error = InvalidCIDR string | OnlyIPv4 | CIDRTooLarge string

definition DiscoverHosts :: "(string \<Rightarrow> bool) \<Rightarrow> string \<Rightarrow> (discover_error + string list) option" where
  "DiscoverHosts v6 cidr =
     (if cidr = [] then Some (Inr [''127.0.0.1''])
      else
       (case ParseCIDR v6 cidr of
          None \<Rightarrow> Some (Inl (InvalidCIDR cidr))
        | Some Net6 \<Rightarrow> Some (Inl OnlyIPv4)
        | Some (Net4 base ones) \<Rightarrow>
            if 2 ^ (32 - ones) > discoverMaxHosts then Some (Inl (CIDRTooLarge cidr))
            else Option.bind (host_loop base ones base) (\<lambda>hs. Some (Inr hs))))"

section \<open>Probes\<close>

record candidate_runtime =
  rc_Endpoint :: string
  rc_Runtime :: string
  rc_Models :: "string list"
  rc_Configured :: bool

definition ConfiguredEndpoints :: "gw_config \<Rightarrow> string list" where
  "ConfiguredEndpoints cfg =
     map (trim_right CHR ''/'') (filter (\<lambda>e. e \<noteq> [])
       (concat (map (\<lambda>m. map mt_Endpoint (Targets m)) (gc_Models cfg))
        @ (case gc_Platform cfg of None \<Rightarrow> [] | Some p \<Rightarrow> map ep_BaseURL (cf_RuntimeEndpoints p))))"

definition get_request :: "string \<Rightarrow> http_request" where
  "get_request url = \<lparr>hq_Method = ''GET'', hq_URL = url, hq_Headers = [], hq_Body = Bytes []\<rparr>"

text \<open>The body of a successful answer, at most a megabyte of it.\<close>

definition probe_body :: "(http_request \<Rightarrow> http_result) \<Rightarrow> string \<Rightarrow> string option" where
  "probe_body net url =
     (case net (get_request url) of
        TransportError _ \<Rightarrow> None
      | Answer resp \<Rightarrow> if hp_StatusCode resp \<noteq> 200 \<or> hp_ReadErr resp then None else Some (take 1048576 (hp_Body resp)))"

definition probeJSON :: "(http_request \<Rightarrow> http_result) \<Rightarrow> string \<Rightarrow> (string \<Rightarrow> 'a option) \<Rightarrow> 'a option" where
  "probeJSON net url extract = Option.bind (probe_body net url) extract"

text \<open>A slice field; the inner \<open>None\<close> is the nil slice.\<close>

fun dec_slice :: "(json \<Rightarrow> 'a option) \<Rightarrow> json \<Rightarrow> 'a list option option" where
  "dec_slice f JNull = Some None"
| "dec_slice f (JArr vs) = map_option Some (those (map f vs))"
| "dec_slice f _ = None"

definition dec_tag :: "string \<Rightarrow> json \<Rightarrow> string \<Rightarrow> string option" where
  "dec_tag k v n = (if key_eq k ''name'' then dec_string n v else Some n)"

definition dec_tags :: "string \<Rightarrow> json \<Rightarrow> string list option \<Rightarrow> string list option option" where
  "dec_tags k v x = (if key_eq k ''models'' then dec_slice (dec_struct dec_tag []) v else Some x)"

definition dec_oai_model :: "string \<Rightarrow> json \<Rightarrow> string \<times> string \<Rightarrow> (string \<times> string) option" where
  "dec_oai_model k v x =
     (if key_eq k ''id'' then map_option (\<lambda>n. (n, snd x)) (dec_string (fst x) v)
      else if key_eq k ''owned_by'' then map_option (\<lambda>n. (fst x, n)) (dec_string (snd x) v)
      else Some x)"

definition dec_oai_models :: "string \<Rightarrow> json \<Rightarrow> (string \<times> string) list option \<Rightarrow> (string \<times> string) list option option" where
  "dec_oai_models k v x = (if key_eq k ''data'' then dec_slice (dec_struct dec_oai_model ([], [])) v else Some x)"

definition dec_engine :: "string \<Rightarrow> json \<Rightarrow> string \<Rightarrow> string option" where
  "dec_engine k v n = (if key_eq k ''engine'' then dec_string n v else Some n)"

definition probeEngineName :: "(http_request \<Rightarrow> http_result) \<Rightarrow> (string \<Rightarrow> body) \<Rightarrow> string \<Rightarrow> string" where
  "probeEngineName net parse base =
     (case probe_body net (base @ ''/api/version'') of
        None \<Rightarrow> []
      | Some raw \<Rightarrow> (case unmarshal (dec_struct dec_engine []) (parse raw) of None \<Rightarrow> [] | Some e \<Rightarrow> e))"

definition probeOpenAIModels ::
  "(http_request \<Rightarrow> http_result) \<Rightarrow> (string \<Rightarrow> body) \<Rightarrow> string \<Rightarrow> (string list \<times> bool) option" where
  "probeOpenAIModels net parse base =
     map_option (\<lambda>ms. (map fst ms, ms \<noteq> [] \<and> list_all (\<lambda>m. snd m = ''lykuro'') ms))
       (probeJSON net (base @ ''/v1/models'')
          (\<lambda>raw. case unmarshal (dec_struct dec_oai_models None) (parse raw) of None \<Rightarrow> None | Some x \<Rightarrow> x))"

definition probeRuntime ::
  "(http_request \<Rightarrow> http_result) \<Rightarrow> (string \<Rightarrow> body) \<Rightarrow> string \<Rightarrow> string \<Rightarrow> candidate_runtime option" where
  "probeRuntime net parse base guess =
     (case probeJSON net (base @ ''/api/tags'')
             (\<lambda>raw. case unmarshal (dec_struct dec_tags None) (parse raw) of None \<Rightarrow> None | Some x \<Rightarrow> x) of
        Some models \<Rightarrow>
          (let rt = (if probeEngineName net parse base = ''lykuro-native-engine'' then ''lykuro_native''
                     else if (case probeOpenAIModels net parse base of Some (_, True) \<Rightarrow> True | _ \<Rightarrow> False) then ''lykuro_native''
                     else ''ollama'')
           in Some \<lparr>rc_Endpoint = base, rc_Runtime = rt, rc_Models = models, rc_Configured = False\<rparr>)
      | None \<Rightarrow>
          (case probeOpenAIModels net parse base of
             Some (models, lykuro) \<Rightarrow>
               Some \<lparr>rc_Endpoint = base, rc_Runtime = (if lykuro then ''lykuro_native'' else guess), rc_Models = models, rc_Configured = False\<rparr>
           | None \<Rightarrow> None))"

definition JoinHostPort :: "string \<Rightarrow> nat \<Rightarrow> string" where
  "JoinHostPort host port =
     (if CHR '':'' \<in> set host then ''['' @ host @ '']'' else host) @ '':'' @ nat_str port"

definition probe_target :: "string \<Rightarrow> nat \<Rightarrow> string" where
  "probe_target host port = ''http://'' @ JoinHostPort host port"

definition probes :: "string list \<Rightarrow> (string \<times> string) list" where
  "probes hosts = concat (map (\<lambda>h. map (\<lambda>(port, guess). (probe_target h port, guess)) discoverPorts) hosts)"

definition found ::
  "(http_request \<Rightarrow> http_result) \<Rightarrow> (string \<Rightarrow> body) \<Rightarrow> string list \<Rightarrow> string \<times> string \<Rightarrow> candidate_runtime option" where
  "found net parse configured p =
     map_option (\<lambda>c. c\<lparr>rc_Configured := trim_right CHR ''/'' (rc_Endpoint c) \<in> set configured\<rparr>) (probeRuntime net parse (fst p) (snd p))"

text \<open>The probes run concurrently and end in any order \<open>order\<close>; the result is sorted.\<close>

definition DiscoverRuntimes ::
  "(http_request \<Rightarrow> http_result) \<Rightarrow> (string \<Rightarrow> body) \<Rightarrow> ((string \<times> string) list \<Rightarrow> (string \<times> string) list) \<Rightarrow> string list \<Rightarrow> string list
     \<Rightarrow> candidate_runtime list" where
  "DiscoverRuntimes net parse order hosts configured =
     sort_key rc_Endpoint (List.map_filter (found net parse configured) (order (probes hosts)))"

section \<open>Addresses\<close>

lemma byte_less: "unat (b :: 8 word) < 256"
proof -
  have "unat b < 2 ^ LENGTH(8)" by (rule unsigned_less)
  then show ?thesis by simp
qed

lemma byte_inc: "unat ((b :: 8 word) + 1) = (unat b + 1) mod 256"
  by (simp add: unat_word_ariths)

lemma byte_wraps: "(b :: 8 word) + 1 = 0 \<longleftrightarrow> unat b = 255"
proof -
  have "b + 1 = 0 \<longleftrightarrow> unat (b + 1) = 0" by (simp only: unat_eq_0)
  also have "\<dots> \<longleftrightarrow> (unat b + 1) mod 256 = 0" by (simp only: byte_inc)
  also have "\<dots> \<longleftrightarrow> unat b = 255" using byte_less [of b] by presburger
  finally show ?thesis .
qed

lemma le_val_bound: "le_val bs < 256 ^ length bs"
proof (induction bs)
  case (Cons b bs)
  then show ?case using byte_less [of b] by simp
qed simp

lemma length_le_bytes [simp]: "length (le_bytes n v) = n"
  by (induction n arbitrary: v) simp_all

lemma le_val_le_bytes: "le_val (le_bytes n v) = v mod 256 ^ n"
proof (induction n arbitrary: v)
  case (Suc n)
  have "unat (of_nat (v mod 256) :: 8 word) = v mod 256" by (simp add: unat_of_nat)
  then show ?case using Suc by (simp add: mod_mult2_eq)
qed simp

lemma le_bytes_le_val: "le_bytes (length bs) (le_val bs) = bs"
proof (induction bs)
  case (Cons b bs)
  then show ?case using byte_less [of b] by simp
qed simp

lemma le_val_inc: "le_val (inc_bytes bs) = (le_val bs + 1) mod 256 ^ length bs \<and> length (inc_bytes bs) = length bs"
proof (induction bs)
  case (Cons b bs)
  show ?case
  proof (cases "b + 1 = 0")
    case True
    then have "unat b = 255" by (simp add: byte_wraps)
    then have "(le_val (b # bs) + 1) mod 256 ^ length (b # bs) = 256 * ((le_val bs + 1) mod 256 ^ length bs)"
      by (simp add: mult_mod_right algebra_simps)
    then show ?thesis using True Cons by simp
  next
    case False
    then have "unat b + 1 < 256" using byte_less [of b] byte_wraps [of b] by simp
    then have u: "unat (b + 1) = unat b + 1" "unat b + 1 < 256" by (simp_all add: byte_inc)
    then have "le_val (b # bs) + 1 < 256 ^ length (b # bs)" using le_val_bound [of bs] by simp
    then show ?thesis using False u by simp
  qed
qed simp

lemma ip_val_of: "ip_val (ip_of v) = v mod 2 ^ 32"
  using le_val_le_bytes [of 4 v] by (simp add: ip_val_def ip_of_def)

lemma length_ip_of [simp]: "length (ip_of v) = 4"
  by (simp add: ip_of_def)

text \<open>\<open>nextIP\<close> is the successor of the number that the four bytes denote.\<close>

lemma nextIP_succ: "nextIP (ip_of v) = ip_of (v + 1)"
proof -
  let ?bs = "le_bytes 4 v"
  have mod: "le_bytes n (u mod 256 ^ n) = le_bytes n u" for n u
    using le_bytes_le_val [of "le_bytes n u"] by (simp add: le_val_le_bytes)
  have "inc_bytes ?bs = le_bytes 4 (le_val (inc_bytes ?bs))" using le_bytes_le_val [of "inc_bytes ?bs"] le_val_inc [of ?bs] by simp
  also have "le_val (inc_bytes ?bs) = (v + 1) mod 256 ^ 4"
    using le_val_inc [of ?bs] le_val_le_bytes [of 4 v] by (simp add: mod_Suc_eq)
  also have "le_bytes 4 ((v + 1) mod 256 ^ 4) = le_bytes 4 (v + 1)" by (rule mod)
  finally show ?thesis by (simp add: nextIP_def ip_of_def)
qed

lemma host_loop_network:
  assumes N: "N = 2 ^ (32 - n)" and top: "q * N + N \<le> 2 ^ 32" and n: "0 < n \<or> 0 < q"
    and base: "length base = 4" "ip_val base = q * N" and k: "k \<le> N"
  shows "host_loop base n (ip_of (q * N + (N - k))) = Some (map (\<lambda>v. ip_str (ip_of v)) [q * N + (N - k)..<q * N + N])"
  using k
proof (induction k)
  case 0
  have N0: "0 < N" by (simp add: N)
  have "ip_val (ip_of (q * N + N)) div N \<noteq> q"
  proof (cases "q * N + N = 2 ^ 32")
    case True
    have "q \<noteq> 0"
    proof
      assume "q = 0"
      then have "(2::nat) ^ (32 - n) = 2 ^ 32" using True N by simp
      then have "32 - n = 32" by (rule power_inject_exp [THEN iffD1, rotated]) simp
      then show False using n \<open>q = 0\<close> by simp
    qed
    then show ?thesis using True by (simp add: ip_val_of)
  next
    case False
    then have "ip_val (ip_of (q * N + N)) = (q + 1) * N" using top by (simp add: ip_val_of)
    then show ?thesis using N0 by (metis add_eq_self_zero nonzero_mult_div_cancel_right not_gr_zero one_neq_zero)
  qed
  then have "\<not> net_contains base n (ip_of (q * N + N))" using base N0 by (simp add: net_contains_def N [symmetric])
  then show ?case by (simp add: host_loop.simps)
next
  case (Suc k)
  have lt: "q * N + (N - Suc k) < q * N + N" using Suc.prems by simp
  then have "ip_val (ip_of (q * N + (N - Suc k))) div N = q" using top by (simp add: ip_val_of div_mult_self1 div_less)
  then have "net_contains base n (ip_of (q * N + (N - Suc k)))" using base N by (simp add: net_contains_def)
  then have "host_loop base n (ip_of (q * N + (N - Suc k)))
      = Option.bind (host_loop base n (ip_of (q * N + (N - Suc k) + 1))) (\<lambda>hs. Some (ip_str (ip_of (q * N + (N - Suc k))) # hs))"
    by (subst host_loop.simps) (simp only: nextIP_succ if_True)
  moreover have "q * N + (N - Suc k) + 1 = q * N + (N - k)" using Suc.prems by simp
  ultimately show ?case
    using Suc.IH Suc.prems lt by (simp only: upt_conv_Cons [OF lt] list.map bind.bind_lunit) simp
qed

lemma mask_ip_val: "length a = 4 \<Longrightarrow> ip_val (mask_ip n a) = ip_val a div 2 ^ (32 - n) * 2 ^ (32 - n)"
proof -
  assume "length a = 4"
  then have "ip_val a < 2 ^ 32" using le_val_bound [of "rev a"] by (simp add: ip_val_def)
  moreover have "ip_val a div 2 ^ (32 - n) * 2 ^ (32 - n) \<le> ip_val a" by simp
  ultimately have "ip_val a div 2 ^ (32 - n) * 2 ^ (32 - n) < 2 ^ 32" by linarith
  then show ?thesis by (simp add: mask_ip_def ip_val_of)
qed

lemma parse_ipv4_length: "parse_ipv4 s = Some a \<Longrightarrow> length a = 4"
  by (auto simp: parse_ipv4_def split: list.splits option.splits)

lemma ParseCIDR_Net4:
  assumes "ParseCIDR v6 cidr = Some (Net4 base n)"
  shows "\<exists>a. length a = 4 \<and> base = mask_ip n a \<and> n \<le> 32"
  using assms
  by (auto simp: ParseCIDR_def parse_mask_def nat_le_iff split: option.splits if_splits prod.splits dest: parse_ipv4_length)

text \<open>The hosts of a network that is small enough: all its addresses in order.\<close>

lemma host_loop_base:
  assumes a: "length a = 4" and n: "0 < n" "n \<le> 32"
  shows "host_loop (mask_ip n a) n (mask_ip n a)
    = Some (map (\<lambda>v. ip_str (ip_of v)) [ip_val (mask_ip n a)..<ip_val (mask_ip n a) + 2 ^ (32 - n)])"
proof -
  let ?N = "2 ^ (32 - n) :: nat" and ?q = "ip_val a div 2 ^ (32 - n)"
  have v: "ip_val (mask_ip n a) = ?q * ?N" by (rule mask_ip_val [OF a])
  have N: "2 ^ n * ?N = 2 ^ 32" using n by (simp flip: power_add)
  have "ip_val a < 2 ^ n * ?N" unfolding N using le_val_bound [of "rev a"] a by (simp add: ip_val_def)
  then have "?q < 2 ^ n" by (simp add: less_mult_imp_div_less)
  then have "(?q + 1) * ?N \<le> 2 ^ n * ?N" by (intro mult_le_mono1) simp
  then have top: "?q * ?N + ?N \<le> 2 ^ 32" unfolding N by (simp add: algebra_simps)
  have "mask_ip n a = ip_of (?q * ?N + (?N - ?N))" by (simp add: mask_ip_def)
  then show ?thesis
    using host_loop_network [OF refl top _ _ v, of ?N] n(1) v by (simp add: mask_ip_def)
qed

text \<open>Without the bound on the size the loop over the whole address space does not end.\<close>

lemma whole_range_never_ends:
  assumes "length a = length base" and "length base = 4"
  shows "host_loop base 0 a = None"
proof -
  let ?P = "\<lambda>(base :: ip) m (b :: ip) (hs :: string list). m = (0::nat) \<longrightarrow> length b = length base \<longrightarrow> length base = 4 \<longrightarrow> False"
  have z: "ip_val x div 2 ^ 32 = 0" if "length x = 4" for x
    using le_val_bound [of "rev x"] that by (simp add: ip_val_def)
  have "?P base 0 a hs" if "host_loop base 0 a = Some hs" for hs
  proof (rule host_loop.raw_induct [where P = ?P, OF _ that], intro impI)
    fix rec and base' :: ip and m and b :: ip and hs :: "string list"
    assume IH: "\<And>base m b hs. rec base m b = Some hs \<Longrightarrow> ?P base m b hs"
      and eq: "(if net_contains base' m b then Option.bind (rec base' m (nextIP b)) (\<lambda>hs. Some (ip_str b # hs)) else Some []) = Some hs"
      and l: "m = 0" "length b = length base'" "length base' = 4"
    have "net_contains base' m b" using l z [of b] z [of base'] by (simp add: net_contains_def)
    then obtain hs' where "rec base' m (nextIP b) = Some hs'" using eq by (auto simp: bind_eq_Some_conv)
    moreover have "length (nextIP b) = length base'" using l le_val_inc [of "rev b"] by (simp add: nextIP_def)
    ultimately show False using IH l by blast
  qed
  then show ?thesis using assms by (cases "host_loop base 0 a") auto
qed

section \<open>Candidates\<close>

lemma probeRuntime_Some:
  assumes "probeRuntime net parse base guess = Some c"
  shows "rc_Endpoint c = base \<and> rc_Runtime c \<in> {''lykuro_native'', ''ollama'', guess}"
  using assms by (auto simp: probeRuntime_def Let_def split: option.splits prod.splits if_splits)

lemma discoverPorts_valid: "list_all (\<lambda>(port, guess). validRuntimeAdapter guess) discoverPorts"
  by (simp add: discoverPorts_def validRuntimeAdapter_def)

lemma DiscoverRuntimes_mem:
  assumes "\<And>xs. set (order xs) = set xs" and "c \<in> set (DiscoverRuntimes net parse order hosts configured)"
  obtains h port guess c0 where "h \<in> set hosts" "(port, guess) \<in> set discoverPorts"
    "probeRuntime net parse (probe_target h port) guess = Some c0"
    "c = c0\<lparr>rc_Configured := trim_right CHR ''/'' (rc_Endpoint c0) \<in> set configured\<rparr>"
proof -
  have "c \<in> set (List.map_filter (found net parse configured) (order (probes hosts)))"
    using assms(2) by (simp add: DiscoverRuntimes_def)
  then obtain p where p: "p \<in> set (probes hosts)" "found net parse configured p = Some c"
    using assms(1) by (auto simp: map_filter_def)
  then obtain h port guess where "h \<in> set hosts" "(port, guess) \<in> set discoverPorts" "p = (probe_target h port, guess)"
    by (auto simp: probes_def)
  then show thesis using p that by (auto simp: found_def)
qed

lemma target_inj:
  assumes "probe_target h port = probe_target h' port'" and "CHR '':'' \<notin> set h" and "CHR '':'' \<notin> set h'"
  shows "h = h' \<and> nat_str port = nat_str port'"
proof -
  have "cut CHR '':'' (x @ CHR '':'' # y) = Some (x, y)" if "CHR '':'' \<notin> set x" for x y
    using that by (induction x) auto
  moreover have "h @ CHR '':'' # nat_str port = h' @ CHR '':'' # nat_str port'"
    using assms by (simp add: probe_target_def JoinHostPort_def)
  ultimately show ?thesis using assms(2,3) by (metis option.inject prod.inject)
qed

lemma probes_distinct:
  assumes "distinct hosts" and "\<forall>h\<in>set hosts. CHR '':'' \<notin> set h"
  shows "distinct (map fst (probes hosts))"
  using assms
proof (induction hosts)
  case (Cons h hosts)
  have ports: "distinct (map (\<lambda>(port, guess). nat_str port) discoverPorts)"
    by (simp add: discoverPorts_def nat_str.simps)
  have eq: "map fst (map (\<lambda>(port, guess). (probe_target h port, guess)) discoverPorts) = map (\<lambda>(port, guess). probe_target h port) discoverPorts"
    by (simp add: discoverPorts_def)
  have "distinct (map (\<lambda>(port, guess). probe_target h port) discoverPorts)"
    using ports by (simp add: discoverPorts_def probe_target_def JoinHostPort_def)
  moreover have "set (map (\<lambda>(port, guess). probe_target h port) discoverPorts) \<inter> set (map fst (probes hosts)) = {}"
  proof -
    have "probe_target h port \<noteq> probe_target h' port'" if "h' \<in> set hosts" for port h' port'
      using target_inj [of h port h' port'] that Cons.prems by auto
    then show ?thesis by (fastforce simp: probes_def)
  qed
  ultimately show ?case using Cons by (simp add: probes_def eq [symmetric] del: map_map)
qed (simp add: probes_def)

lemma found_endpoint: "found net parse configured p = Some c \<Longrightarrow> rc_Endpoint c = fst p"
  using probeRuntime_Some by (auto simp: found_def)

lemma found_distinct: "distinct (map fst ps) \<Longrightarrow> distinct (map rc_Endpoint (List.map_filter (found net parse configured) ps))"
proof (induction ps)
  case (Cons p ps)
  have other: "rc_Endpoint c \<noteq> fst p" if "c \<in> set (List.map_filter (found net parse configured) ps)" for c
  proof -
    obtain q where "q \<in> set ps" "found net parse configured q = Some c" using \<open>c \<in> _\<close> by (auto simp: map_filter_def)
    then have "rc_Endpoint c \<in> set (map fst ps)" using found_endpoint [of net parse configured q c] by simp
    moreover have "fst p \<notin> set (map fst ps)" using Cons.prems by simp
    ultimately show ?thesis by metis
  qed
  have ih: "distinct (map rc_Endpoint (List.map_filter (found net parse configured) ps))" using Cons by simp
  show ?case
    using ih found_endpoint [of net parse configured p] by (cases "found net parse configured p") (auto simp: image_iff dest: other)
qed simp

section \<open>Properties\<close>

text \<open>C23: The expansion of a scan range ends: for every text it returns, with an error or with the hosts of
  the network, at least one and at most 1024 of them, in order from the first address to the last.\<close>

theorem discovery_terminates:
  "\<exists>res. DiscoverHosts v6 cidr = Some res
     \<and> (\<forall>hs. res = Inr hs \<longrightarrow> hs \<noteq> [] \<and> length hs \<le> 1024
          \<and> (\<forall>base n. cidr \<noteq> [] \<longrightarrow> ParseCIDR v6 cidr = Some (Net4 base n) \<longrightarrow>
                hs = map (\<lambda>v. ip_str (ip_of v)) [ip_val base..<ip_val base + 2 ^ (32 - n)]))"
proof (cases "cidr = [] \<or> \<not> (\<exists>base n. ParseCIDR v6 cidr = Some (Net4 base n))")
  case True
  then show ?thesis by (auto simp: DiscoverHosts_def split: option.split ipnet.split)
next
  case False
  then obtain base n where c: "cidr \<noteq> []" "ParseCIDR v6 cidr = Some (Net4 base n)" by blast
  from ParseCIDR_Net4 [OF c(2)] obtain a where a: "length a = 4" "base = mask_ip n a" "n \<le> 32" by blast
  show ?thesis
  proof (cases "2 ^ (32 - n) > discoverMaxHosts")
    case True
    then show ?thesis using c by (simp add: DiscoverHosts_def)
  next
    case small: False
    have "0 < n" using small by (cases n) (simp_all add: discoverMaxHosts_def)
    then have "DiscoverHosts v6 cidr = Some (Inr (map (\<lambda>v. ip_str (ip_of v)) [ip_val base..<ip_val base + 2 ^ (32 - n)]))"
      using small c a host_loop_base [of a n] by (simp add: DiscoverHosts_def)
    then show ?thesis using c small by (simp add: discoverMaxHosts_def)
  qed
qed

text \<open>The candidates do not depend on the order in which the concurrent probes end.\<close>

theorem discovery_is_order_independent:
  assumes "distinct hosts" and "\<forall>h\<in>set hosts. CHR '':'' \<notin> set h" and "\<And>xs. mset (order xs) = mset xs"
  shows "DiscoverRuntimes net parse order hosts configured = DiscoverRuntimes net parse id hosts configured"
proof -
  let ?f = "found net parse configured" and ?ps = "probes hosts"
  have eq: "mset (order ?ps) = mset ?ps" by (rule assms(3))
  have "mset (List.map_filter ?f (order ?ps)) = mset (List.map_filter ?f ?ps)"
    unfolding map_filter_def mset_map mset_filter by (simp add: eq)
  moreover have "distinct (map fst (order ?ps))"
    using probes_distinct [OF assms(1,2)] eq mset_eq_imp_distinct_iff [of "map fst (order ?ps)" "map fst ?ps"] by simp
  ultimately show ?thesis
    unfolding DiscoverRuntimes_def id_apply by (intro sort_key_unique found_distinct)
qed

theorem discovery_is_order_independent_witness:
  "DiscoverRuntimes (\<lambda>_. TransportError False) Bytes rev [''10.0.0.1'', ''10.0.0.2''] []
   = DiscoverRuntimes (\<lambda>_. TransportError False) Bytes id [''10.0.0.1'', ''10.0.0.2''] []"
proof -
  have "distinct [''10.0.0.1'', ''10.0.0.2'']" "\<forall>h\<in>set [''10.0.0.1'', ''10.0.0.2'']. CHR '':'' \<notin> set h" by simp_all
  from discovery_is_order_independent [OF this, of rev "\<lambda>_. TransportError False" Bytes "[]"] show ?thesis by simp
qed

theorem discovery_terminates_witness:
  "DiscoverHosts (\<lambda>_. False) ''0.0.1.2/30'' = Some (Inr [''0.0.1.0'', ''0.0.1.1'', ''0.0.1.2'', ''0.0.1.3''])"
proof -
  let ?D = "DiscoverHosts (\<lambda>_. False) ''0.0.1.2/30''"
  have n: "ParseCIDR (\<lambda>_. False) ''0.0.1.2/30'' = Some (Net4 (ip_of 256) 30)" by code_simp
  have e: "ip_val (ip_of 256) = 256" by code_simp
  obtain res where res: "?D = Some res"
    and hs: "\<And>hs. res = Inr hs \<Longrightarrow> hs = map (\<lambda>v. ip_str (ip_of v)) [ip_val (ip_of 256)..<ip_val (ip_of 256) + 2 ^ (32 - 30)]"
    using discovery_terminates [of "\<lambda>_. False" "''0.0.1.2/30''"] n by blast
  have "\<not> discoverMaxHosts < 2 ^ (32 - 30)" by code_simp
  then have "?D = Option.bind (host_loop (ip_of 256) 30 (ip_of 256)) (\<lambda>hs. Some (Inr hs))"
    by (simp only: DiscoverHosts_def n option.case ipnet.case if_False list.distinct)
  then obtain hs' where "res = Inr hs'" using res by (cases "host_loop (ip_of 256) 30 (ip_of 256)") auto
  moreover have "map (\<lambda>v. ip_str (ip_of v)) [256..<256 + 2 ^ (32 - 30)] = [''0.0.1.0'', ''0.0.1.1'', ''0.0.1.2'', ''0.0.1.3'']" by code_simp
  ultimately show ?thesis using hs [of hs'] res unfolding e by simp
qed

end
