(* ===== verification/GwAdmin.thy ===== *)
theory GwAdmin
  imports GwAgent GwWorkflow Discover
begin

text \<open>
  The management interface of the gateway (\<open>gwcore/admin.go\<close>) and the rebuilding of the platform when a
  configuration is applied (\<open>applyPlatform\<close> of \<open>cmd/private-gateway/main.go\<close>, \<open>workflow.Open\<close>): the admin
  token, the editing of the configuration and of the keys, discovery and adoption, the audit tail.

  The state is the server with its workflow service and the configuration file. An answer is the data
  that is written as JSON. The arguments of a request are the record \<open>admin_env\<close>: besides digest, random
  source, decoders and clock, the YAML printer, the file writes, the network of the discovery and what
  the rebuilding of the platform finds. A body that is cut at its limit is no JSON document.
\<close>

section \<open>Rebuilding the platform\<close>

text \<open>What \<open>platform.New\<close> depends on besides the configuration: whether the conversation memory opens, and
  the files under the workflow directory.\<close>

record platform_env =
  pe_memory_ok :: "memory_cfg \<Rightarrow> bool"
  pe_mkdir :: bool
  pe_flows :: "string \<Rightarrow> (string \<times> flow_dir) list"
  pe_runs :: "string \<Rightarrow> run_files"
  pe_now :: time
  pe_writes :: "nat \<Rightarrow> bool"

text \<open>\<open>workflow.Open\<close>.\<close>

definition OpenService :: "platform_env \<Rightarrow> config \<Rightarrow> service option" where
  "OpenService e c =
     (let wc = cf_Workflows c in
      if \<not> pe_mkdir e then None
      else
       (case OpenFlowStore (pe_flows e (wc_DataDir wc)) (wc_MaxFlows wc) of
          Inl _ \<Rightarrow> None
        | Inr fs \<Rightarrow>
            Some \<lparr>sv_flows = fs, sv_runs = OpenRunStore (pe_runs e (wc_DataDir wc)) (pe_now e) (pe_writes e),
                  sv_resolver = Some (catalogResolver c), sv_sem = 0, sv_maxRuns = nat (wc_MaxConcurrentRuns wc)\<rparr>))"

text \<open>\<open>platform.New\<close>: \<open>None\<close> when it fails, otherwise its workflow service, if workflows are enabled.\<close>

definition New_platform :: "platform_env \<Rightarrow> config \<Rightarrow> workflows option" where
  "New_platform e c =
     (if \<not> cf_Enabled c then None
      else if mc_Mode (cf_Memory c) = ''managed'' \<and> \<not> pe_memory_ok e (cf_Memory c) then None
      else if \<not> wc_Enabled (cf_Workflows c) then Some None
      else map_option Some (OpenService e c))"

text \<open>\<open>applyPlatform\<close>.\<close>

definition applyPlatform :: "platform_env \<Rightarrow> gw_config \<Rightarrow> gw_server \<times> workflows \<Rightarrow> gw_server \<times> workflows" where
  "applyPlatform e cfg s =
     (case (if PlatformEnabled cfg then Option.bind (gc_Platform cfg) (New_platform e) else None) of
        None \<Rightarrow> SetWorkflowService None (SetPlatformBackend False (fst s), snd s)
      | Some ws \<Rightarrow> SetWorkflowService ws (SetPlatformBackend True (fst s), snd s))"

text \<open>\<open>SetConfig\<close> of a server whose hook is \<open>applyPlatform\<close>.\<close>

definition apply_config :: "platform_env \<Rightarrow> gw_config \<Rightarrow> gw_server \<times> workflows \<Rightarrow> gw_server \<times> workflows" where
  "apply_config e cfg s = applyPlatform e cfg (SetConfig cfg (fst s), snd s)"

section \<open>State\<close>

definition AdminTokenPrefix :: string where "AdminTokenPrefix = ''lkpadm_''"

definition GenerateAdminToken :: "(string \<Rightarrow> string) \<Rightarrow> (nat \<Rightarrow> nat option) \<Rightarrow> (string \<times> string) option" where
  "GenerateAdminToken hx draw =
     map_option (\<lambda>seg. (AdminTokenPrefix @ seg, HashToken hx (AdminTokenPrefix @ seg))) (RandomTokenSegment draw 48)"

record admin_options =
  ao_TokenHash :: string
  ao_ConfigPath :: string
  ao_AuditPath :: string
  ao_Connected :: bool

record admin_state =
  ad_srv :: gw_server
  ad_workflows :: workflows
  ad_opts :: admin_options
  ad_file :: "body option"

record admin_env =
  ae_keys :: config_keys
  ae_ym :: "gw_config \<Rightarrow> body option"
  ae_cut :: "body \<Rightarrow> body"
  ae_write :: bool
  ae_rename :: bool
  ae_plat :: platform_env
  ae_hx :: "string \<Rightarrow> string"
  ae_draw :: "nat \<Rightarrow> nat option"
  ae_now :: time
  ae_ping :: "string \<Rightarrow> bool"
  ae_net :: "http_request \<Rightarrow> http_result"
  ae_parse :: "string \<Rightarrow> body"
  ae_order :: "(string \<times> string) list \<Rightarrow> (string \<times> string) list"
  ae_v6 :: "string \<Rightarrow> bool"
  ae_audit :: "string option + unit"
  ae_fmt_g :: "time \<Rightarrow> string"
  ae_version :: string

record overview_model =
  om_LogicalName :: string
  om_Runtime :: string
  om_Endpoint :: string
  om_PhysicalModel :: string
  om_Healthy :: bool

record key_entry =
  ke_ID :: string
  ke_Name :: string
  ke_AllowedModels :: "string list"
  ke_RPMLimit :: int
  ke_Disabled :: bool
  ke_ToolsAllowed :: bool

record overview =
  ov_Version :: string
  ov_GatewayID :: string
  ov_Listen :: string
  ov_StrictLocal :: bool
  ov_PlatformEnabled :: bool
  ov_Connected :: bool
  ov_ConfigPath :: string
  ov_AuditAvailable :: bool
  ov_KeyCount :: nat
  ov_Models :: "overview_model list"

datatype admin_answer =
    AdError api_error
  | AdOverview overview
  | AdConfig body
  | AdApplied nat
  | AdKeys "key_entry list"
  | AdKeyCreated string string string
  | AdKeyUpdated string bool
  | AdKeyDeleted string
  | AdDiscovered nat "candidate_runtime list"
  | AdAdopted string string
  | AdAudit bool "json list"
  | AdMetrics string

definition internal_error :: api_error where
  "internal_error = api_error 500 ''internal_error'' []"

definition invalid :: "int \<Rightarrow> string \<Rightarrow> api_error" where
  "invalid status message = api_error status ''invalid_request'' message"

text \<open>\<open>withAuth\<close> of the admin interface.\<close>

definition admin_auth :: "(string \<Rightarrow> string) \<Rightarrow> string \<Rightarrow> in_request \<Rightarrow> admin_state \<Rightarrow> (api_error + in_request) \<times> admin_state" where
  "admin_auth hx freshID r0 a =
     (let r = ensureRequestID freshID r0; tok = BearerToken (iq_Authorization r) in
      if ao_TokenHash (ad_opts a) = [] \<or> \<not> has_prefix tok AdminTokenPrefix \<or> HashToken hx tok \<noteq> ao_TokenHash (ad_opts a) then
        (Inl (api_error 401 ''authentication_failed'' ''invalid or missing admin token''),
         a\<lparr>ad_srv := (ad_srv a)\<lparr>sv_metrics := recordDenied (iq_Path r) 401 ''authentication_failed'' (sv_metrics (ad_srv a))\<rparr>\<rparr>)
      else (Inr r, a))"

definition auditAdmin :: "time \<Rightarrow> in_request \<Rightarrow> string \<Rightarrow> admin_state \<Rightarrow> admin_state" where
  "auditAdmin now r result a =
     a\<lparr>ad_srv := Record \<lparr>ar_Timestamp = now, ar_RequestID = iq_RequestID r, ar_GatewayID = gs_ID (gc_Gateway (sv_cfg (ad_srv a))),
       ar_VirtualKeyID = [], ar_Endpoint = iq_Path r, ar_LogicalModel = [], ar_PhysicalModel = [], ar_DataClass = [],
       ar_Routing = ''admin'', ar_Status = 200, ar_Result = result, ar_Tokens = no_usage, ar_LatencyMS = 0,
       ar_ContentLogged = False\<rparr> (ad_srv a)\<rparr>"

definition limited_body :: "int \<Rightarrow> in_request \<Rightarrow> body" where
  "limited_body n r = (if iq_BodyLength r > n then Bytes [] else iq_Body r)"

section \<open>The configuration\<close>

text \<open>\<open>cloneConfig\<close>: printed and parsed again.\<close>

definition cloneConfig :: "admin_env \<Rightarrow> gw_config \<Rightarrow> gw_config option" where
  "cloneConfig e c =
     (case ae_ym e c of
        None \<Rightarrow> None
      | Some raw \<Rightarrow> (case ParseConfig (ck_yaml (ae_keys e)) (ck_urlp (ae_keys e)) raw of Inl _ \<Rightarrow> None | Inr c' \<Rightarrow> Some c'))"

text \<open>\<open>persistAndApply\<close>: the comment line that is written before the document is left out.\<close>

definition persistAndApply :: "admin_env \<Rightarrow> gw_config \<Rightarrow> admin_state \<Rightarrow> bool \<times> admin_state" where
  "persistAndApply e cfg a =
     (case ae_ym e cfg of
        None \<Rightarrow> (False, a)
      | Some raw \<Rightarrow>
          if \<not> ae_write e \<or> \<not> ae_rename e then (False, a)
          else
            (let (srv, ws) = apply_config (ae_plat e) cfg (ad_srv a, ad_workflows a)
             in (True, a\<lparr>ad_file := Some raw, ad_srv := srv, ad_workflows := ws\<rparr>)))"

text \<open>The end of every edit: the validated configuration is stored and applied, and the action audited.\<close>

definition commit :: "admin_env \<Rightarrow> in_request \<Rightarrow> string \<Rightarrow> admin_answer \<Rightarrow> gw_config \<Rightarrow> admin_state \<Rightarrow> admin_answer \<times> admin_state" where
  "commit e r action answer cfg a =
     (case persistAndApply e cfg a of
        (False, a') \<Rightarrow> (AdError internal_error, a')
      | (True, a') \<Rightarrow> (answer, auditAdmin (ae_now e) r action a'))"

definition handleOverview :: "admin_env \<Rightarrow> admin_state \<Rightarrow> admin_answer" where
  "handleOverview e a =
     (let cfg = sv_cfg (ad_srv a) in
      AdOverview \<lparr>ov_Version = ae_version e, ov_GatewayID = gs_ID (gc_Gateway cfg), ov_Listen = gs_Listen (gc_Gateway cfg),
        ov_StrictLocal = StrictLocal cfg, ov_PlatformEnabled = PlatformEnabled cfg, ov_Connected = ao_Connected (ad_opts a),
        ov_ConfigPath = ao_ConfigPath (ad_opts a), ov_AuditAvailable = (ao_AuditPath (ad_opts a) \<noteq> []),
        ov_KeyCount = length (gc_VirtualKeys cfg),
        ov_Models = map (\<lambda>m. \<lparr>om_LogicalName = md_LogicalName m, om_Runtime = md_Runtime m, om_Endpoint = md_Endpoint m,
                               om_PhysicalModel = md_PhysicalModel m, om_Healthy = ae_ping e (md_Endpoint m)\<rparr>) (gc_Models cfg)\<rparr>)"

definition handleConfigGet :: "admin_env \<Rightarrow> admin_state \<Rightarrow> admin_answer" where
  "handleConfigGet e a = (case ae_ym e (sv_cfg (ad_srv a)) of None \<Rightarrow> AdError internal_error | Some raw \<Rightarrow> AdConfig raw)"

text \<open>A longer body is cut after a megabyte, and what is left is parsed.\<close>

definition handleConfigPut :: "admin_env \<Rightarrow> in_request \<Rightarrow> admin_state \<Rightarrow> admin_answer \<times> admin_state" where
  "handleConfigPut e r a =
     (if \<not> iq_BodyReadable r then (AdError (invalid 400 ''read body failed''), a)
      else
        (let raw = (if iq_BodyLength r > 1048576 then ae_cut e (iq_Body r) else iq_Body r) in
         case ParseConfig (ck_yaml (ae_keys e)) (ck_urlp (ae_keys e)) raw of
           Inl _ \<Rightarrow> (AdError (invalid 422 []), a)
         | Inr cfg \<Rightarrow> commit e r ''admin_config_applied'' (AdApplied (length (gc_Models cfg))) cfg a))"

section \<open>Keys\<close>

definition handleKeysList :: "admin_state \<Rightarrow> admin_answer" where
  "handleKeysList a =
     AdKeys (map (\<lambda>k. \<lparr>ke_ID = vk_ID k, ke_Name = vk_Name k, ke_AllowedModels = vk_AllowedModels k, ke_RPMLimit = vk_RPMLimit k,
                        ke_Disabled = vk_Disabled k, ke_ToolsAllowed = key_ToolsAllowed k\<rparr>) (gc_VirtualKeys (sv_cfg (ad_srv a))))"

record key_create =
  kc_ID :: string
  kc_Name :: string
  kc_AllowedModels :: "string list"
  kc_RPMLimit :: int

definition dec_key_create :: "string \<Rightarrow> json \<Rightarrow> key_create \<Rightarrow> key_create option" where
  "dec_key_create k v x =
     (if key_eq k ''id'' then map_option (\<lambda>n. x\<lparr>kc_ID := n\<rparr>) (dec_string (kc_ID x) v)
      else if key_eq k ''name'' then map_option (\<lambda>n. x\<lparr>kc_Name := n\<rparr>) (dec_string (kc_Name x) v)
      else if key_eq k ''allowed_models'' then map_option (\<lambda>n. x\<lparr>kc_AllowedModels := n\<rparr>) (dec_list (dec_string []) (kc_AllowedModels x) v)
      else if key_eq k ''rpm_limit'' then map_option (\<lambda>n. x\<lparr>kc_RPMLimit := n\<rparr>) (dec_int (kc_RPMLimit x) v)
      else Some x)"

definition key_create0 :: key_create where
  "key_create0 = \<lparr>kc_ID = [], kc_Name = [], kc_AllowedModels = [], kc_RPMLimit = 0\<rparr>"

definition new_key :: "key_create \<Rightarrow> string \<Rightarrow> virtual_key" where
  "new_key q hash =
     \<lparr>vk_ID = kc_ID q, vk_Name = kc_Name q, vk_KeyHash = hash, vk_AllowedModels = kc_AllowedModels q, vk_RPMLimit = kc_RPMLimit q,
      vk_Disabled = False, vk_AllowTools = None\<rparr>"

text \<open>The changed clone of the configuration is validated before it is committed.\<close>

definition edit :: "admin_env \<Rightarrow> in_request \<Rightarrow> string \<Rightarrow> admin_answer \<Rightarrow> gw_config \<Rightarrow> admin_state \<Rightarrow> admin_answer \<times> admin_state" where
  "edit e r action answer cfg a =
     (case Validate_gateway (ck_urlp (ae_keys e)) cfg of
        Inl _ \<Rightarrow> (AdError (invalid 422 []), a)
      | Inr cfg' \<Rightarrow> commit e r action answer cfg' a)"

definition handleKeyCreate :: "admin_env \<Rightarrow> in_request \<Rightarrow> admin_state \<Rightarrow> admin_answer \<times> admin_state" where
  "handleKeyCreate e r a =
     (case unmarshal (dec_struct dec_key_create key_create0) (limited_body 65536 r) of
        None \<Rightarrow> (AdError (invalid 400 ''invalid JSON body''), a)
      | Some q \<Rightarrow>
          if kc_ID q = [] then (AdError (invalid 400 ''id is required''), a)
          else
           (case GenerateVirtualKey (ae_hx e) (ae_draw e) of
              None \<Rightarrow> (AdError internal_error, a)
            | Some (plain, hash) \<Rightarrow>
                (case cloneConfig e (sv_cfg (ad_srv a)) of
                   None \<Rightarrow> (AdError internal_error, a)
                 | Some cfg \<Rightarrow>
                     edit e r ''admin_key_created'' (AdKeyCreated (kc_ID q) plain hash)
                       (cfg\<lparr>gc_VirtualKeys := gc_VirtualKeys cfg @ [new_key q hash]\<rparr>) a)))"

record key_patch =
  kp_Name :: "string option"
  kp_Disabled :: "bool option"
  kp_RPMLimit :: "int option"
  kp_AllowedModels :: "string list option"

fun dec_int_option :: "json \<Rightarrow> int option option" where
  "dec_int_option JNull = Some None"
| "dec_int_option v = map_option Some (dec_int 0 v)"

definition dec_key_patch :: "string \<Rightarrow> json \<Rightarrow> key_patch \<Rightarrow> key_patch option" where
  "dec_key_patch k v x =
     (if key_eq k ''name'' then map_option (\<lambda>n. x\<lparr>kp_Name := n\<rparr>) (dec_string_ptr (kp_Name x) v)
      else if key_eq k ''disabled'' then map_option (\<lambda>n. x\<lparr>kp_Disabled := n\<rparr>) (dec_bool_ptr (kp_Disabled x) v)
      else if key_eq k ''rpm_limit'' then map_option (\<lambda>n. x\<lparr>kp_RPMLimit := n\<rparr>) (dec_int_option v)
      else if key_eq k ''allowed_models'' then map_option (\<lambda>n. x\<lparr>kp_AllowedModels := n\<rparr>) (dec_slice (dec_string []) v)
      else Some x)"

definition key_patch0 :: key_patch where
  "key_patch0 = \<lparr>kp_Name = None, kp_Disabled = None, kp_RPMLimit = None, kp_AllowedModels = None\<rparr>"

definition patch_key :: "key_patch \<Rightarrow> virtual_key \<Rightarrow> virtual_key" where
  "patch_key p k =
     k\<lparr>vk_Name := (case kp_Name p of None \<Rightarrow> vk_Name k | Some n \<Rightarrow> n),
       vk_Disabled := (case kp_Disabled p of None \<Rightarrow> vk_Disabled k | Some b \<Rightarrow> b),
       vk_RPMLimit := (case kp_RPMLimit p of None \<Rightarrow> vk_RPMLimit k | Some n \<Rightarrow> n),
       vk_AllowedModels := (case kp_AllowedModels p of None \<Rightarrow> vk_AllowedModels k | Some ms \<Rightarrow> ms)\<rparr>"

text \<open>\<open>mutateKey\<close>: the first key with the id.\<close>

fun update_key :: "string \<Rightarrow> (virtual_key \<Rightarrow> virtual_key) \<Rightarrow> virtual_key list \<Rightarrow> (virtual_key \<times> virtual_key list) option" where
  "update_key kid fn [] = None"
| "update_key kid fn (k # ks) =
     (if vk_ID k = kid then Some (fn k, fn k # ks)
      else map_option (\<lambda>(t, ks'). (t, k # ks')) (update_key kid fn ks))"

definition mutateKey ::
  "admin_env \<Rightarrow> in_request \<Rightarrow> string \<Rightarrow> string \<Rightarrow> (virtual_key \<Rightarrow> virtual_key) \<Rightarrow> admin_state \<Rightarrow> admin_answer \<times> admin_state" where
  "mutateKey e r kid action fn a =
     (case cloneConfig e (sv_cfg (ad_srv a)) of
        None \<Rightarrow> (AdError internal_error, a)
      | Some cfg \<Rightarrow>
          (case update_key kid fn (gc_VirtualKeys cfg) of
             None \<Rightarrow> (AdError (invalid 404 ''unknown key id''), a)
           | Some (target, keys) \<Rightarrow> edit e r action (AdKeyUpdated kid (vk_Disabled target)) (cfg\<lparr>gc_VirtualKeys := keys\<rparr>) a))"

definition handleKeyPatch :: "admin_env \<Rightarrow> in_request \<Rightarrow> string \<Rightarrow> admin_state \<Rightarrow> admin_answer \<times> admin_state" where
  "handleKeyPatch e r kid a =
     (case unmarshal (dec_struct dec_key_patch key_patch0) (limited_body 65536 r) of
        None \<Rightarrow> (AdError (invalid 400 ''invalid JSON body''), a)
      | Some p \<Rightarrow> mutateKey e r kid ''admin_key_updated'' (patch_key p) a)"

text \<open>A deletion is committed without another validation.\<close>

definition handleKeyDelete :: "admin_env \<Rightarrow> in_request \<Rightarrow> string \<Rightarrow> admin_state \<Rightarrow> admin_answer \<times> admin_state" where
  "handleKeyDelete e r kid a =
     (case cloneConfig e (sv_cfg (ad_srv a)) of
        None \<Rightarrow> (AdError internal_error, a)
      | Some cfg \<Rightarrow>
          if \<not> list_ex (\<lambda>k. vk_ID k = kid) (gc_VirtualKeys cfg) then (AdError (invalid 404 ''unknown key id''), a)
          else commit e r ''admin_key_deleted'' (AdKeyDeleted kid)
                 (cfg\<lparr>gc_VirtualKeys := filter (\<lambda>k. vk_ID k \<noteq> kid) (gc_VirtualKeys cfg)\<rparr>) a)"

section \<open>Discovery\<close>

text \<open>\<open>handleDiscover\<close>; the outer \<open>None\<close> is a scan that does not end.\<close>

definition handleDiscover :: "admin_env \<Rightarrow> in_request \<Rightarrow> string \<Rightarrow> admin_state \<Rightarrow> (admin_answer \<times> admin_state) option" where
  "handleDiscover e r cidr a =
     map_option (\<lambda>res. case res of
         Inl _ \<Rightarrow> (AdError (invalid 400 []), a)
       | Inr hosts \<Rightarrow>
           (AdDiscovered (length hosts)
              (DiscoverRuntimes (ae_net e) (ae_parse e) (ae_order e) hosts (ConfiguredEndpoints (sv_cfg (ad_srv a)))),
            auditAdmin (ae_now e) r ''admin_discover_scanned'' a))
       (DiscoverHosts (ae_v6 e) cidr)"

record adoption =
  ap_LogicalName :: string
  ap_Runtime :: string
  ap_Endpoint :: string
  ap_PhysicalModel :: string

definition dec_adoption :: "string \<Rightarrow> json \<Rightarrow> adoption \<Rightarrow> adoption option" where
  "dec_adoption k v x =
     (if key_eq k ''logical_name'' then map_option (\<lambda>n. x\<lparr>ap_LogicalName := n\<rparr>) (dec_string (ap_LogicalName x) v)
      else if key_eq k ''runtime'' then map_option (\<lambda>n. x\<lparr>ap_Runtime := n\<rparr>) (dec_string (ap_Runtime x) v)
      else if key_eq k ''endpoint'' then map_option (\<lambda>n. x\<lparr>ap_Endpoint := n\<rparr>) (dec_string (ap_Endpoint x) v)
      else if key_eq k ''physical_model'' then map_option (\<lambda>n. x\<lparr>ap_PhysicalModel := n\<rparr>) (dec_string (ap_PhysicalModel x) v)
      else Some x)"

definition adoption0 :: adoption where
  "adoption0 = \<lparr>ap_LogicalName = [], ap_Runtime = [], ap_Endpoint = [], ap_PhysicalModel = []\<rparr>"

definition adopted_model :: "adoption \<Rightarrow> model_def" where
  "adopted_model q =
     \<lparr>md_LogicalName = ap_LogicalName q, md_Runtime = (if ap_Runtime q = [] then ''openai_compatible'' else ap_Runtime q),
      md_Endpoint = trim_right CHR ''/'' (ap_Endpoint q), md_PhysicalModel = ap_PhysicalModel q, md_Fallback = [], md_CloudFallback = None\<rparr>"

definition handleDiscoverAdopt :: "admin_env \<Rightarrow> in_request \<Rightarrow> admin_state \<Rightarrow> admin_answer \<times> admin_state" where
  "handleDiscoverAdopt e r a =
     (case unmarshal (dec_struct dec_adoption adoption0) (limited_body 65536 r) of
        None \<Rightarrow> (AdError (invalid 400 ''invalid JSON body''), a)
      | Some q \<Rightarrow>
          if ap_LogicalName q = [] \<or> ap_Endpoint q = [] \<or> ap_PhysicalModel q = [] then
            (AdError (invalid 400 ''logical_name, endpoint and physical_model are required''), a)
          else
           (case cloneConfig e (sv_cfg (ad_srv a)) of
              None \<Rightarrow> (AdError internal_error, a)
            | Some cfg \<Rightarrow>
                edit e r ''admin_model_adopted'' (AdAdopted (ap_LogicalName q) (ap_Endpoint q))
                  (cfg\<lparr>gc_Models := gc_Models cfg @ [adopted_model q]\<rparr>) a))"

section \<open>The audit tail\<close>

definition tail_limit :: "string \<Rightarrow> nat" where
  "tail_limit s = (case parse_int s of None \<Rightarrow> 100 | Some v \<Rightarrow> if 0 < v \<and> v \<le> 1000 then nat v else 100)"

text \<open>\<open>tailJSONL\<close>: the last 512 KiB, without the line that may be cut, then the last records.\<close>

definition maxRead :: nat where [go_defs]: "maxRead = 524288"

definition json_lines :: "(string \<Rightarrow> body) \<Rightarrow> string \<Rightarrow> json list" where
  "json_lines parse s =
     List.map_filter (\<lambda>l. let t = trim_space l in if t = [] then None else (case parse t of Doc v \<Rightarrow> Some v | Bytes _ \<Rightarrow> None))
       (split_on CHR 0x0A s)"

definition tailJSONL :: "(string \<Rightarrow> body) \<Rightarrow> string option \<Rightarrow> nat \<Rightarrow> json list" where
  "tailJSONL parse file limit =
     (case file of
        None \<Rightarrow> []
      | Some content \<Rightarrow>
          (let offset = length content - maxRead;
               read = drop offset content;
               whole = (if offset > 0 then (case cut CHR 0x0A read of None \<Rightarrow> read | Some (_, rest) \<Rightarrow> rest) else read);
               records = json_lines parse whole
           in drop (length records - limit) records))"

definition handleAuditTail :: "admin_env \<Rightarrow> string \<Rightarrow> admin_state \<Rightarrow> admin_answer" where
  "handleAuditTail e limit a =
     (if ao_AuditPath (ad_opts a) = [] then AdAudit False []
      else
       (case ae_audit e of
          Inr _ \<Rightarrow> AdError internal_error
        | Inl file \<Rightarrow> AdAudit True (tailJSONL (ae_parse e) file (tail_limit limit))))"

section \<open>The router\<close>

datatype admin_op =
    OpOverview | OpConfigGet | OpConfigPut | OpKeysList | OpKeyCreate | OpKeyPatch string | OpKeyDelete string
  | OpDiscover string | OpDiscoverAdopt | OpAuditTail string | OpMetrics

definition admin_dispatch :: "admin_env \<Rightarrow> admin_op \<Rightarrow> in_request \<Rightarrow> admin_state \<Rightarrow> (admin_answer \<times> admin_state) option" where
  "admin_dispatch e op r a =
     (case op of
        OpOverview \<Rightarrow> Some (handleOverview e a, a)
      | OpConfigGet \<Rightarrow> Some (handleConfigGet e a, a)
      | OpConfigPut \<Rightarrow> Some (handleConfigPut e r a)
      | OpKeysList \<Rightarrow> Some (handleKeysList a, a)
      | OpKeyCreate \<Rightarrow> Some (handleKeyCreate e r a)
      | OpKeyPatch kid \<Rightarrow> Some (handleKeyPatch e r kid a)
      | OpKeyDelete kid \<Rightarrow> Some (handleKeyDelete e r kid a)
      | OpDiscover cidr \<Rightarrow> handleDiscover e r cidr a
      | OpDiscoverAdopt \<Rightarrow> Some (handleDiscoverAdopt e r a)
      | OpAuditTail limit \<Rightarrow> Some (handleAuditTail e limit a, a)
      | OpMetrics \<Rightarrow> Some (AdMetrics (handleMetrics (ae_fmt_g e) (ae_version e) (ad_srv a)), a))"

definition admin_serve :: "admin_env \<Rightarrow> string \<Rightarrow> admin_op \<Rightarrow> in_request \<Rightarrow> admin_state \<Rightarrow> (admin_answer \<times> admin_state) option" where
  "admin_serve e freshID op r a =
     (case admin_auth (ae_hx e) freshID r a of
        (Inl err, a') \<Rightarrow> Some (AdError err, a')
      | (Inr r', a') \<Rightarrow> admin_dispatch e op r' a')"

end
