(* ===== verification/GwAdminFlow.thy ===== *)
theory GwAdminFlow
  imports GwAdmin
begin

text \<open>
  The management of flows and runs (\<open>gwcore/admin_workflow.go\<close>): the handlers over the workflow service
  and the translation of the store's errors. The texts of errors are left out; a list of errors that is
  sent to the client is the list of the errors themselves. A run is sent with its persisted fields.
\<close>

record flow_env =
  fe_nf :: "string \<Rightarrow> string"
  fe_sha :: "json \<Rightarrow> string"
  fe_newID :: string
  fe_writes :: "nat \<Rightarrow> bool"
  fe_ok :: bool
  fe_ok_event :: bool

record run_row =
  rr_RunID :: string
  rr_Alias :: string
  rr_FlowVersion :: int
  rr_Status :: string
  rr_KeyID :: string
  rr_ErrorCode :: string
  rr_InTokens :: int
  rr_OutTokens :: int
  rr_CreatedAt :: time
  rr_CompletedAt :: "time option"

datatype flow_answer =
    FlowError api_error
  | FlowList "flow_meta list"
  | FlowMetaOut flow_meta
  | FlowErrors "sv_error list"
  | FlowDetail flow_meta draft
  | FlowDraftOut draft
  | FlowValidated bool int "sv_error list"
  | FlowPublishedOut int string time
  | FlowVersions "flow_version list"
  | FlowVersionOut flow_version
  | RunList "run_row list"
  | RunAccepted string
  | RunOut run

section \<open>Errors\<close>

definition adminWorkflowService :: "admin_state \<Rightarrow> api_error + service" where
  "adminWorkflowService a =
     (case workflowService (ad_srv a, ad_workflows a) of
        None \<Rightarrow> Inl (invalid 503 ''workflows are not enabled (platform.workflows.enabled)'')
      | Some svc \<Rightarrow> Inr svc)"

text \<open>\<open>writeFlowStoreError\<close>: whatever is no known error of the store is an internal error.\<close>

definition writeFlowStoreError :: "sv_error \<Rightarrow> api_error" where
  "writeFlowStoreError err =
     (if err \<in> {EStore ErrFlowNotFound, EStore ErrVersionNotFound} then api_error 404 CodeNotFound []
      else if err = EStore ErrRevisionConflict then api_error 409 CodeRevConflict []
      else if err \<in> {EStore ErrAliasTaken, EStore ErrFlowRetired} then api_error 409 ''invalid_request'' []
      else if err = EStore ErrTooManyFlows then api_error 422 ''invalid_request'' []
      else api_error 500 ''internal_error'' [])"

text \<open>The answer to a list of errors.\<close>

definition flow_failure :: "sv_error list \<Rightarrow> flow_answer" where
  "flow_failure errs = (if length errs = 1 then FlowError (writeFlowStoreError (errs ! 0)) else FlowErrors errs)"

definition store_failure :: "flow_error \<Rightarrow> flow_answer" where
  "store_failure err = FlowError (writeFlowStoreError (EStore err))"

definition set_service :: "service \<Rightarrow> admin_state \<Rightarrow> admin_state" where
  "set_service svc a = a\<lparr>ad_workflows := Some svc\<rparr>"

definition set_flows :: "flow_store \<Rightarrow> service \<Rightarrow> admin_state \<Rightarrow> admin_state" where
  "set_flows fs svc a = set_service (svc\<lparr>sv_flows := fs\<rparr>) a"

section \<open>Flows\<close>

definition dec_definition :: "string \<Rightarrow> json \<Rightarrow> json option \<Rightarrow> json option option" where
  "dec_definition k v d = (if key_eq k ''definition'' then Some (Some v) else Some d)"

definition handleFlowList :: "admin_state \<Rightarrow> flow_answer" where
  "handleFlowList a = (case adminWorkflowService a of Inl err \<Rightarrow> FlowError err | Inr svc \<Rightarrow> FlowList (List_flows (sv_flows svc)))"

definition handleFlowCreate :: "admin_env \<Rightarrow> flow_env \<Rightarrow> in_request \<Rightarrow> admin_state \<Rightarrow> flow_answer \<times> admin_state" where
  "handleFlowCreate e f r a =
     (case adminWorkflowService a of
        Inl err \<Rightarrow> (FlowError err, a)
      | Inr svc \<Rightarrow>
          (case unmarshal (dec_struct dec_definition None) (limited_body 1048576 r) of
             Some (Some def) \<Rightarrow>
               (case CreateFlow (fe_nf f) (fe_sha f) (Doc def) [] (fe_newID f) (ae_now e) (fe_writes f) svc of
                  (Inl errs, svc') \<Rightarrow> (flow_failure errs, set_service svc' a)
                | (Inr meta, svc') \<Rightarrow> (FlowMetaOut meta, auditAdmin (ae_now e) r ''admin_workflow_created'' (set_service svc' a)))
           | _ \<Rightarrow> (FlowError (invalid 400 ''definition is required''), a)))"

definition handleFlowGet :: "string \<Rightarrow> admin_state \<Rightarrow> flow_answer" where
  "handleFlowGet fid a =
     (case adminWorkflowService a of
        Inl err \<Rightarrow> FlowError err
      | Inr svc \<Rightarrow>
          (case Get_flow (sv_flows svc) fid of
             Inl err \<Rightarrow> store_failure err
           | Inr meta \<Rightarrow>
               (case GetDraft (sv_flows svc) fid of Inl err \<Rightarrow> store_failure err | Inr d \<Rightarrow> FlowDetail meta d)))"

record flow_patch =
  fp_Revision :: int
  fp_Definition :: "json option"

definition dec_flow_patch :: "string \<Rightarrow> json \<Rightarrow> flow_patch \<Rightarrow> flow_patch option" where
  "dec_flow_patch k v x =
     (if key_eq k ''revision'' then map_option (\<lambda>n. x\<lparr>fp_Revision := n\<rparr>) (dec_int (fp_Revision x) v)
      else if key_eq k ''definition'' then Some (x\<lparr>fp_Definition := Some v\<rparr>)
      else Some x)"

definition handleFlowPatch :: "admin_env \<Rightarrow> flow_env \<Rightarrow> in_request \<Rightarrow> string \<Rightarrow> admin_state \<Rightarrow> flow_answer \<times> admin_state" where
  "handleFlowPatch e f r fid a =
     (case adminWorkflowService a of
        Inl err \<Rightarrow> (FlowError err, a)
      | Inr svc \<Rightarrow>
          (case unmarshal (dec_struct dec_flow_patch \<lparr>fp_Revision = 0, fp_Definition = None\<rparr>) (limited_body 1048576 r) of
             None \<Rightarrow> (FlowError (invalid 400 ''revision and definition are required''), a)
           | Some x \<Rightarrow>
               (case fp_Definition x of
                  None \<Rightarrow> (FlowError (invalid 400 ''revision and definition are required''), a)
                | Some def \<Rightarrow>
                    (case UpdateFlow (fe_nf f) (fe_sha f) fid (fp_Revision x) (Doc def) [] (ae_now e) (fe_writes f) svc of
                       (Inl errs, svc') \<Rightarrow> (flow_failure errs, set_service svc' a)
                     | (Inr d, svc') \<Rightarrow> (FlowDraftOut d, auditAdmin (ae_now e) r ''admin_workflow_updated'' (set_service svc' a))))))"

definition handleFlowValidate :: "string \<Rightarrow> admin_state \<Rightarrow> flow_answer" where
  "handleFlowValidate fid a =
     (case adminWorkflowService a of
        Inl err \<Rightarrow> FlowError err
      | Inr svc \<Rightarrow>
          (case GetDraft (sv_flows svc) fid of
             Inl err \<Rightarrow> store_failure err
           | Inr d \<Rightarrow>
               (let errs = (case ValidateDefinition svc (Doc (dr_Definition d)) [] of Inl es \<Rightarrow> es | Inr _ \<Rightarrow> [])
                in FlowValidated (errs = []) (dr_Revision d) errs)))"

definition dec_revision :: "string \<Rightarrow> json \<Rightarrow> int \<Rightarrow> int option" where
  "dec_revision k v n = (if key_eq k ''revision'' then dec_int n v else Some n)"

definition handleFlowPublish :: "admin_env \<Rightarrow> flow_env \<Rightarrow> in_request \<Rightarrow> string \<Rightarrow> admin_state \<Rightarrow> flow_answer \<times> admin_state" where
  "handleFlowPublish e f r fid a =
     (case adminWorkflowService a of
        Inl err \<Rightarrow> (FlowError err, a)
      | Inr svc \<Rightarrow>
          (case unmarshal (dec_struct dec_revision 0) (limited_body 65536 r) of
             None \<Rightarrow> (FlowError (invalid 400 ''revision is required''), a)
           | Some n \<Rightarrow>
               (case PublishFlow fid n (ae_now e) (fe_writes f) svc of
                  (Inl errs, svc') \<Rightarrow> (flow_failure errs, set_service svc' a)
                | (Inr fv, svc') \<Rightarrow>
                    (FlowPublishedOut (fv_Version fv) (fv_Checksum fv) (fv_PublishedAt fv),
                     auditAdmin (ae_now e) r ''admin_workflow_published'' (set_service svc' a)))))"

definition handleFlowVersions :: "flow_env \<Rightarrow> string \<Rightarrow> admin_state \<Rightarrow> flow_answer" where
  "handleFlowVersions f fid a =
     (case adminWorkflowService a of
        Inl err \<Rightarrow> FlowError err
      | Inr svc \<Rightarrow>
          (case Versions (fe_nf f) (fe_sha f) (sv_flows svc) fid of Inl err \<Rightarrow> store_failure err | Inr vs \<Rightarrow> FlowVersions vs))"

definition handleFlowVersionGet :: "flow_env \<Rightarrow> string \<Rightarrow> string \<Rightarrow> admin_state \<Rightarrow> flow_answer" where
  "handleFlowVersionGet f fid version a =
     (case adminWorkflowService a of
        Inl err \<Rightarrow> FlowError err
      | Inr svc \<Rightarrow>
          (case parse_int version of
             None \<Rightarrow> FlowError (invalid 400 ''version must be an integer'')
           | Some ver \<Rightarrow>
               (case GetVersion (fe_nf f) (fe_sha f) (sv_flows svc) fid ver of
                  Inl err \<Rightarrow> store_failure err | Inr fv \<Rightarrow> FlowVersionOut fv)))"

definition dec_status :: "string \<Rightarrow> json \<Rightarrow> string \<Rightarrow> string option" where
  "dec_status k v s = (if key_eq k ''status'' then dec_string s v else Some s)"

definition handleFlowStatus :: "admin_env \<Rightarrow> flow_env \<Rightarrow> in_request \<Rightarrow> string \<Rightarrow> admin_state \<Rightarrow> flow_answer \<times> admin_state" where
  "handleFlowStatus e f r fid a =
     (case adminWorkflowService a of
        Inl err \<Rightarrow> (FlowError err, a)
      | Inr svc \<Rightarrow>
          (case unmarshal (dec_struct dec_status []) (limited_body 4096 r) of
             None \<Rightarrow> (FlowError (invalid 400 ''status is required''), a)
           | Some status \<Rightarrow>
               (case SetStatus fid status (ae_now e) (fe_writes f) (sv_flows svc) of
                  (Inl err, fs) \<Rightarrow> (store_failure err, set_flows fs svc a)
                | (Inr meta, fs) \<Rightarrow>
                    (FlowMetaOut meta, auditAdmin (ae_now e) r (''admin_workflow_status_'' @ status) (set_flows fs svc a)))))"

section \<open>Runs\<close>

definition run_row_of :: "run \<Rightarrow> run_row" where
  "run_row_of rr =
     \<lparr>rr_RunID = r_ID rr, rr_Alias = r_Alias rr, rr_FlowVersion = r_FlowVersion rr, rr_Status = r_Status rr, rr_KeyID = r_KeyID rr,
      rr_ErrorCode = r_ErrorCode rr, rr_InTokens = r_InputTokens rr, rr_OutTokens = r_OutputTokens rr, rr_CreatedAt = r_CreatedAt rr,
      rr_CompletedAt = r_CompletedAt rr\<rparr>"

definition handleRunList :: "string \<Rightarrow> admin_state \<Rightarrow> flow_answer" where
  "handleRunList limit a =
     (case adminWorkflowService a of
        Inl err \<Rightarrow> FlowError err
      | Inr svc \<Rightarrow> RunList (map run_row_of (List_runs (sv_runs svc) (int (tail_limit limit)))))"

definition handleRunCancel :: "admin_env \<Rightarrow> flow_env \<Rightarrow> in_request \<Rightarrow> string \<Rightarrow> admin_state \<Rightarrow> flow_answer \<times> admin_state" where
  "handleRunCancel e f r runID a =
     (case adminWorkflowService a of
        Inl err \<Rightarrow> (FlowError err, a)
      | Inr svc \<Rightarrow>
          (case CancelRun runID (fe_ok f) (sv_runs svc) of
             (Inl _, rs) \<Rightarrow> (FlowError run_not_found, set_service (svc\<lparr>sv_runs := rs\<rparr>) a)
           | (Inr c, rs) \<Rightarrow>
               (let rs2 = (case c of None \<Rightarrow> rs | Some _ \<Rightarrow> cancel_event runID (ae_now e) (fe_ok_event f) rs)
                in (RunAccepted runID, auditAdmin (ae_now e) r ''admin_workflow_run_cancelled'' (set_service (svc\<lparr>sv_runs := rs2\<rparr>) a)))))"

definition handleRunGet :: "string \<Rightarrow> admin_state \<Rightarrow> flow_answer" where
  "handleRunGet runID a =
     (case adminWorkflowService a of
        Inl err \<Rightarrow> FlowError err
      | Inr svc \<Rightarrow>
          (case Snapshot (sv_runs svc) runID of Inl _ \<Rightarrow> FlowError run_not_found | Inr snap \<Rightarrow> RunOut (persisted snap)))"

section \<open>The routes\<close>

datatype flow_op_admin =
    RtFlowList | RtFlowCreate | RtFlowGet string | RtFlowPatch string | RtFlowValidate string | RtFlowPublish string
  | RtFlowVersions string | RtFlowVersionGet string string | RtFlowStatus string | RtRunList string | RtRunGet string | RtRunCancel string

definition flow_dispatch :: "admin_env \<Rightarrow> flow_env \<Rightarrow> flow_op_admin \<Rightarrow> in_request \<Rightarrow> admin_state \<Rightarrow> flow_answer \<times> admin_state" where
  "flow_dispatch e f op r a =
     (case op of
        RtFlowList \<Rightarrow> (handleFlowList a, a)
      | RtFlowCreate \<Rightarrow> handleFlowCreate e f r a
      | RtFlowGet fid \<Rightarrow> (handleFlowGet fid a, a)
      | RtFlowPatch fid \<Rightarrow> handleFlowPatch e f r fid a
      | RtFlowValidate fid \<Rightarrow> (handleFlowValidate fid a, a)
      | RtFlowPublish fid \<Rightarrow> handleFlowPublish e f r fid a
      | RtFlowVersions fid \<Rightarrow> (handleFlowVersions f fid a, a)
      | RtFlowVersionGet fid v \<Rightarrow> (handleFlowVersionGet f fid v a, a)
      | RtFlowStatus fid \<Rightarrow> handleFlowStatus e f r fid a
      | RtRunList limit \<Rightarrow> (handleRunList limit a, a)
      | RtRunGet rid \<Rightarrow> (handleRunGet rid a, a)
      | RtRunCancel rid \<Rightarrow> handleRunCancel e f r rid a)"

definition flow_serve :: "admin_env \<Rightarrow> flow_env \<Rightarrow> string \<Rightarrow> flow_op_admin \<Rightarrow> in_request \<Rightarrow> admin_state \<Rightarrow> flow_answer \<times> admin_state" where
  "flow_serve e f freshID op r a =
     (case admin_auth (ae_hx e) freshID r a of
        (Inl err, a') \<Rightarrow> (FlowError err, a')
      | (Inr r', a') \<Rightarrow> flow_dispatch e f op r' a')"

end
