(* ===== verification/GwAdminProps.thy ===== *)
theory GwAdminProps
  imports GwAdminFlow
begin

text \<open>
  The properties of the management interface: histories of requests, what an answer says about the state,
  the configuration that stays valid, the keys, and the two ways in which the interface surprises its
  user.
\<close>

section \<open>Validation\<close>

text \<open>A validation that completes a document with its defaults accepts the completed one as it is. What was
  accepted then survives being printed and read again.\<close>

locale validation =
  fixes check :: "'c \<Rightarrow> 'e + 'c"
  assumes stable: "check c = Inr c' \<Longrightarrow> check c' = Inr c'"
begin

lemma reread:
  assumes "\<And>c raw. pr c = Some raw \<Longrightarrow> pa raw = Some c" and "check c = Inr c'" and "pr c' = Some raw"
  shows "map_option check (pa raw) = Some (Inr c')"
  using assms(1) [OF assms(3)] stable [OF assms(2)] by simp

lemma reread_again:
  assumes "\<And>c raw. pr c = Some raw \<Longrightarrow> pa raw = Some c" and "check c = Inr c" and "pr c = Some raw"
  shows "map_option check (pa raw) = Some (Inr c)"
  by (rule reread [where pr = pr, OF assms(1) assms(2,3)])

end

lemma gateway_defaults_idem: "gateway_defaults (gateway_defaults g) = gateway_defaults g"
  by (simp add: gateway_defaults_def)

lemma hybrid_defaults_idem: "hybrid_defaults (hybrid_defaults h) = hybrid_defaults h"
  by (simp add: hybrid_defaults_def)

lemma platform_defaults_idem: "platform_defaults (platform_defaults p) = platform_defaults p"
proof (cases p)
  case (Some c)
  have "cf_Enabled (with_defaults c) = cf_Enabled c" by (simp add: with_defaults_def)
  then show ?thesis by (simp add: platform_defaults_def Some with_defaults_idem)
qed (simp add: platform_defaults_def)

lemma gw_with_defaults_idem: "gw_with_defaults (gw_with_defaults c) = gw_with_defaults c"
  by (simp add: gw_with_defaults_def gateway_defaults_idem hybrid_defaults_idem platform_defaults_idem)

lemma gw_config_ok_defaults:
  assumes "gw_config_ok urlp c"
  shows "gw_config_ok urlp (gw_with_defaults c)"
proof -
  have "list_all ValidDataClass (gs_AllowedDataClasses (gateway_defaults g)) = list_all ValidDataClass (gs_AllowedDataClasses g)" for g
    by (simp add: gateway_defaults_def ValidDataClass_def)
  moreover have "gs_ID (gateway_defaults g) = gs_ID g" "gs_StrictLocalMode (gateway_defaults g) = gs_StrictLocalMode g" for g
    by (simp_all add: gateway_defaults_def)
  moreover have "hs_Enabled (hybrid_defaults h) = hs_Enabled h" for h by (simp add: hybrid_defaults_def)
  moreover have "hybrid_ok urlp b h \<Longrightarrow> hybrid_ok urlp b (hybrid_defaults h)" for b h
    by (auto simp: hybrid_ok_def hybrid_defaults_def)
  moreover have "config_ok urlp p" if pc: "platform_defaults (gc_Platform c) = Some p" "cf_Enabled p" for p
  proof -
    obtain p0 where "gc_Platform c = Some p0" "p = (if cf_Enabled p0 then with_defaults p0 else p0)"
      using pc(1) unfolding platform_defaults_def by (cases "gc_Platform c") simp_all
    then show ?thesis using assms pc(2) by (auto simp: gw_config_ok_def config_ok_defaults split: if_splits)
  qed
  ultimately show ?thesis using assms by (simp add: gw_config_ok_def gw_with_defaults_def StrictLocal_def)
qed

interpretation gwv: validation "Validate_gateway urlp"
  by unfold_locales (auto simp: Validate_gateway_Inr gw_config_ok_defaults gw_with_defaults_idem)

lemma Validate_config_stable: "Validate_config urlp c = Inr c' \<Longrightarrow> Validate_config urlp c' = Inr c'"
proof (cases "cf_Enabled c")
  case True
  have "cf_Enabled (with_defaults c) = cf_Enabled c" by (simp add: with_defaults_def)
  then show "Validate_config urlp c = Inr c' \<Longrightarrow> Validate_config urlp c' = Inr c'"
    using True by (auto simp: Validate_config_Inr config_ok_defaults with_defaults_idem)
qed (simp add: Validate_config_Inr)

interpretation plv: validation "Validate_config urlp"
  by unfold_locales (rule Validate_config_stable)

text \<open>The configurations that validation leaves as they are.\<close>

definition valid_as_is :: "(string \<Rightarrow> (string \<times> string) option) \<Rightarrow> gw_config \<Rightarrow> bool" where
  "valid_as_is urlp c \<longleftrightarrow> Validate_gateway urlp c = Inr c"

lemma valid_as_is_iff: "valid_as_is urlp c \<longleftrightarrow> gw_config_ok urlp c \<and> gw_with_defaults c = c"
  by (auto simp: valid_as_is_def Validate_gateway_Inr)

lemma valid_without_key:
  assumes "valid_as_is urlp c"
  shows "valid_as_is urlp (c\<lparr>gc_VirtualKeys := filter P (gc_VirtualKeys c)\<rparr>)"
proof -
  have ok: "gw_config_ok urlp c" "gw_with_defaults c = c" using assms by (simp_all add: valid_as_is_iff)
  have "StrictLocal (c\<lparr>gc_VirtualKeys := ks\<rparr>) = StrictLocal c" for ks by (simp add: StrictLocal_def)
  then have "gw_config_ok urlp (c\<lparr>gc_VirtualKeys := filter P (gc_VirtualKeys c)\<rparr>)"
    using ok(1) by (auto simp: gw_config_ok_def list_all_iff distinct_map_filter)
  moreover have "gw_with_defaults (c\<lparr>gc_VirtualKeys := ks\<rparr>) = (gw_with_defaults c)\<lparr>gc_VirtualKeys := ks\<rparr>" for ks
    by (simp add: gw_with_defaults_def)
  ultimately show ?thesis by (simp add: valid_as_is_iff ok(2))
qed

section \<open>What an answer says\<close>

text \<open>A change of the configuration: it was printed, stored and applied, and one line was audited.\<close>

definition applied :: "admin_env \<Rightarrow> in_request \<Rightarrow> string \<Rightarrow> gw_config \<Rightarrow> admin_state \<Rightarrow> admin_state \<Rightarrow> bool" where
  "applied e r action cfg a a' \<longleftrightarrow>
     (\<exists>raw. ae_ym e cfg = Some raw
        \<and> a' = auditAdmin (ae_now e) r action
                 (a\<lparr>ad_file := Some raw, ad_srv := fst (apply_config (ae_plat e) cfg (ad_srv a, ad_workflows a)),
                    ad_workflows := snd (apply_config (ae_plat e) cfg (ad_srv a, ad_workflows a))\<rparr>))"

lemma commit_cases:
  assumes "commit e r action answer cfg a = (ans, a')"
  obtains (failed) "ans = AdError internal_error" "a' = a"
  | (applied) "ans = answer" "applied e r action cfg a a'"
proof (cases "ae_ym e cfg")
  case (Some raw)
  then show ?thesis
    using assms that
    by (cases "apply_config (ae_plat e) cfg (ad_srv a, ad_workflows a)")
      (auto simp: commit_def persistAndApply_def applied_def split: if_splits)
qed (use assms that in \<open>simp add: commit_def persistAndApply_def\<close>)

lemma edit_cases:
  assumes "edit e r action answer cfg a = (ans, a')"
  obtains (failed) err where "ans = AdError err" "a' = a"
  | (applied) cfg' where "ans = answer" "Validate_gateway (ck_urlp (ae_keys e)) cfg = Inr cfg'" "applied e r action cfg' a a'"
proof (cases "Validate_gateway (ck_urlp (ae_keys e)) cfg")
  case (Inr cfg')
  then have "commit e r action answer cfg' a = (ans, a')" using assms by (simp add: edit_def)
  then show ?thesis by (cases rule: commit_cases) (use that Inr in blast)+
qed (use assms that in \<open>auto simp: edit_def\<close>)

lemma applyPlatform_server [simp]:
  "sv_cfg (fst (applyPlatform e cfg s)) = sv_cfg (fst s)" "sv_auth (fst (applyPlatform e cfg s)) = sv_auth (fst s)"
  "sv_audit (fst (applyPlatform e cfg s)) = sv_audit (fst s)" "sv_usage (fst (applyPlatform e cfg s)) = sv_usage (fst s)"
  "sv_metrics (fst (applyPlatform e cfg s)) = sv_metrics (fst s)"
  by (simp_all add: applyPlatform_def SetWorkflowService_def SetPlatformBackend_def split: option.split)

lemma auditAdmin_simps [simp]:
  "ad_opts (auditAdmin now r res a) = ad_opts a" "ad_file (auditAdmin now r res a) = ad_file a"
  "ad_workflows (auditAdmin now r res a) = ad_workflows a" "sv_cfg (ad_srv (auditAdmin now r res a)) = sv_cfg (ad_srv a)"
  "sv_auth (ad_srv (auditAdmin now r res a)) = sv_auth (ad_srv a)"
  by (simp_all add: auditAdmin_def)

lemma applied_state:
  assumes "applied e r action cfg a a'"
  obtains raw rec where "ae_ym e cfg = Some raw" "ad_file a' = Some raw" "sv_cfg (ad_srv a') = cfg"
    "sv_auth (ad_srv a') = NewAuthenticator cfg" "ad_opts a' = ad_opts a"
    "ad_workflows a' = snd (apply_config (ae_plat e) cfg (ad_srv a, ad_workflows a))"
    "sv_audit (ad_srv a') = sv_audit (ad_srv a) @ [rec]" "ar_Routing rec = ''admin''" "ar_Endpoint rec = iq_Path r"
proof -
  obtain raw where raw: "ae_ym e cfg = Some raw"
      "a' = auditAdmin (ae_now e) r action
                 (a\<lparr>ad_file := Some raw, ad_srv := fst (apply_config (ae_plat e) cfg (ad_srv a, ad_workflows a)),
                    ad_workflows := snd (apply_config (ae_plat e) cfg (ad_srv a, ad_workflows a))\<rparr>)"
    using assms by (auto simp: applied_def)
  show ?thesis
    by (rule that [OF raw(1), where rec = "\<lparr>ar_Timestamp = ae_now e, ar_RequestID = iq_RequestID r,
         ar_GatewayID = gs_ID (gc_Gateway cfg), ar_VirtualKeyID = [], ar_Endpoint = iq_Path r, ar_LogicalModel = [],
         ar_PhysicalModel = [], ar_DataClass = [], ar_Routing = ''admin'', ar_Status = 200, ar_Result = action, ar_Tokens = no_usage,
         ar_LatencyMS = 0, ar_ContentLogged = False\<rparr>"])
      (simp_all add: raw(2) apply_config_def, simp_all add: auditAdmin_def Record_def apply_config_def)
qed

lemma applied_result:
  assumes "applied e r action cfg a b"
  shows "ad_file b \<noteq> None" and "ad_file b = ae_ym e (sv_cfg (ad_srv b))"
    and "\<exists>rec. sv_audit (ad_srv b) = sv_audit (ad_srv a) @ [rec] \<and> ar_Routing rec = ''admin'' \<and> ar_Endpoint rec = iq_Path r"
  using assms by (auto elim: applied_state)

text \<open>The operations that change the configuration.\<close>

definition edits :: "admin_op \<Rightarrow> bool" where
  "edits op \<longleftrightarrow> (case op of OpConfigPut \<Rightarrow> True | OpKeyCreate \<Rightarrow> True | OpKeyPatch kid \<Rightarrow> True | OpKeyDelete kid \<Rightarrow> True
     | OpDiscoverAdopt \<Rightarrow> True | _ \<Rightarrow> False)"

text \<open>The configuration an edit aims at, from the running one, and its answer.\<close>

fun target_of :: "admin_env \<Rightarrow> admin_op \<Rightarrow> admin_answer \<Rightarrow> gw_config \<Rightarrow> gw_config \<Rightarrow> bool" where
  "target_of e OpConfigPut ans c c' \<longleftrightarrow> valid_as_is (ck_urlp (ae_keys e)) c' \<and> ans = AdApplied (length (gc_Models c'))"
| "target_of e OpKeyCreate ans c c' \<longleftrightarrow>
     (\<exists>q plain hash. GenerateVirtualKey (ae_hx e) (ae_draw e) = Some (plain, hash) \<and> ans = AdKeyCreated (kc_ID q) plain hash
        \<and> Validate_gateway (ck_urlp (ae_keys e)) (c\<lparr>gc_VirtualKeys := gc_VirtualKeys c @ [new_key q hash]\<rparr>) = Inr c')"
| "target_of e (OpKeyPatch kid) ans c c' \<longleftrightarrow>
     (\<exists>p t ks. update_key kid (patch_key p) (gc_VirtualKeys c) = Some (t, ks) \<and> ans = AdKeyUpdated kid (vk_Disabled t)
        \<and> Validate_gateway (ck_urlp (ae_keys e)) (c\<lparr>gc_VirtualKeys := ks\<rparr>) = Inr c')"
| "target_of e (OpKeyDelete kid) ans c c' \<longleftrightarrow>
     ans = AdKeyDeleted kid \<and> c' = c\<lparr>gc_VirtualKeys := filter (\<lambda>k. vk_ID k \<noteq> kid) (gc_VirtualKeys c)\<rparr>"
| "target_of e OpDiscoverAdopt ans c c' \<longleftrightarrow>
     (\<exists>q. ans = AdAdopted (ap_LogicalName q) (ap_Endpoint q)
        \<and> Validate_gateway (ck_urlp (ae_keys e)) (c\<lparr>gc_Models := gc_Models c @ [adopted_model q]\<rparr>) = Inr c')"
| "target_of e op ans c c' \<longleftrightarrow> False"

definition base_of :: "admin_env \<Rightarrow> admin_op \<Rightarrow> gw_config \<Rightarrow> gw_config \<Rightarrow> bool" where
  "base_of e op running c \<longleftrightarrow> (if op = OpConfigPut then c = running else cloneConfig e running = Some c)"

lemma edit_op_cases:
  assumes "admin_dispatch e op r a = Some (ans, a')" and "edits op"
  obtains (failed) err where "ans = AdError err" "a' = a"
  | (applied) c c' action where "base_of e op (sv_cfg (ad_srv a)) c" "target_of e op ans c c'" "applied e r action c' a a'"
proof (cases op)
  case OpConfigPut
  then have h: "handleConfigPut e r a = (ans, a')" using assms(1) by (simp add: admin_dispatch_def)
  show ?thesis
  proof (cases "\<exists>cfg. commit e r ''admin_config_applied'' (AdApplied (length (gc_Models cfg))) cfg a = (ans, a')
      \<and> valid_as_is (ck_urlp (ae_keys e)) cfg")
    case True
    then obtain cfg where c: "commit e r ''admin_config_applied'' (AdApplied (length (gc_Models cfg))) cfg a = (ans, a')"
        "valid_as_is (ck_urlp (ae_keys e)) cfg" by blast
    show ?thesis using c(1)
      by (cases rule: commit_cases) (use that c(2) OpConfigPut in \<open>auto simp: base_of_def\<close>)
  next
    case False
    then show ?thesis
      using h that(1)
      by (auto simp: handleConfigPut_def Let_def ParseConfig_def valid_as_is_def dest: gwv.stable split: if_splits sum.splits option.splits)
  qed
next
  case OpKeyCreate
  then have h: "handleKeyCreate e r a = (ans, a')" using assms(1) by (simp add: admin_dispatch_def)
  show ?thesis
  proof (cases "\<exists>q plain hash cfg. GenerateVirtualKey (ae_hx e) (ae_draw e) = Some (plain, hash)
      \<and> cloneConfig e (sv_cfg (ad_srv a)) = Some cfg
      \<and> edit e r ''admin_key_created'' (AdKeyCreated (kc_ID q) plain hash)
          (cfg\<lparr>gc_VirtualKeys := gc_VirtualKeys cfg @ [new_key q hash]\<rparr>) a = (ans, a')")
    case True
    then obtain q plain hash cfg where c: "GenerateVirtualKey (ae_hx e) (ae_draw e) = Some (plain, hash)"
        "cloneConfig e (sv_cfg (ad_srv a)) = Some cfg"
        "edit e r ''admin_key_created'' (AdKeyCreated (kc_ID q) plain hash)
          (cfg\<lparr>gc_VirtualKeys := gc_VirtualKeys cfg @ [new_key q hash]\<rparr>) a = (ans, a')" by blast
    show ?thesis using c(3)
      by (cases rule: edit_cases) (use that c(1,2) OpKeyCreate in \<open>auto simp: base_of_def\<close>)
  next
    case False
    then show ?thesis using h that(1) by (auto simp: handleKeyCreate_def split: if_splits option.splits)
  qed
next
  case (OpKeyPatch kid)
  then have h: "handleKeyPatch e r kid a = (ans, a')" using assms(1) by (simp add: admin_dispatch_def)
  show ?thesis
  proof (cases "\<exists>p t ks cfg. cloneConfig e (sv_cfg (ad_srv a)) = Some cfg \<and> update_key kid (patch_key p) (gc_VirtualKeys cfg) = Some (t, ks)
      \<and> edit e r ''admin_key_updated'' (AdKeyUpdated kid (vk_Disabled t)) (cfg\<lparr>gc_VirtualKeys := ks\<rparr>) a = (ans, a')")
    case True
    then obtain p t ks cfg where c: "cloneConfig e (sv_cfg (ad_srv a)) = Some cfg"
        "update_key kid (patch_key p) (gc_VirtualKeys cfg) = Some (t, ks)"
        "edit e r ''admin_key_updated'' (AdKeyUpdated kid (vk_Disabled t)) (cfg\<lparr>gc_VirtualKeys := ks\<rparr>) a = (ans, a')" by blast
    show ?thesis using c(3)
      by (cases rule: edit_cases) (use that c(1,2) OpKeyPatch in \<open>fastforce simp: base_of_def\<close>)+
  next
    case False
    then show ?thesis using h that(1) by (auto simp: handleKeyPatch_def mutateKey_def split: if_splits option.splits)
  qed
next
  case (OpKeyDelete kid)
  then have h: "handleKeyDelete e r kid a = (ans, a')" using assms(1) by (simp add: admin_dispatch_def)
  show ?thesis
  proof (cases "\<exists>cfg. cloneConfig e (sv_cfg (ad_srv a)) = Some cfg
      \<and> commit e r ''admin_key_deleted'' (AdKeyDeleted kid)
          (cfg\<lparr>gc_VirtualKeys := filter (\<lambda>k. vk_ID k \<noteq> kid) (gc_VirtualKeys cfg)\<rparr>) a = (ans, a')")
    case True
    then obtain cfg where c: "cloneConfig e (sv_cfg (ad_srv a)) = Some cfg"
        "commit e r ''admin_key_deleted'' (AdKeyDeleted kid)
          (cfg\<lparr>gc_VirtualKeys := filter (\<lambda>k. vk_ID k \<noteq> kid) (gc_VirtualKeys cfg)\<rparr>) a = (ans, a')" by blast
    show ?thesis using c(2)
      by (cases rule: commit_cases) (use that c(1) OpKeyDelete in \<open>auto simp: base_of_def\<close>)
  next
    case False
    then show ?thesis using h that(1) by (auto simp: handleKeyDelete_def split: if_splits option.splits)
  qed
next
  case OpDiscoverAdopt
  then have h: "handleDiscoverAdopt e r a = (ans, a')" using assms(1) by (simp add: admin_dispatch_def)
  show ?thesis
  proof (cases "\<exists>q cfg. cloneConfig e (sv_cfg (ad_srv a)) = Some cfg
      \<and> edit e r ''admin_model_adopted'' (AdAdopted (ap_LogicalName q) (ap_Endpoint q))
          (cfg\<lparr>gc_Models := gc_Models cfg @ [adopted_model q]\<rparr>) a = (ans, a')")
    case True
    then obtain q cfg where c: "cloneConfig e (sv_cfg (ad_srv a)) = Some cfg"
        "edit e r ''admin_model_adopted'' (AdAdopted (ap_LogicalName q) (ap_Endpoint q))
          (cfg\<lparr>gc_Models := gc_Models cfg @ [adopted_model q]\<rparr>) a = (ans, a')" by blast
    show ?thesis using c(2)
      by (cases rule: edit_cases) (use that c(1) OpDiscoverAdopt in \<open>fastforce simp: base_of_def\<close>)+
  next
    case False
    then show ?thesis using h that(1) by (auto simp: handleDiscoverAdopt_def split: if_splits option.splits)
  qed
qed (use assms(2) in \<open>simp_all add: edits_def\<close>)

text \<open>What every edit leaves behind.\<close>

lemma gw_with_defaults_keys [simp]: "gc_VirtualKeys (gw_with_defaults c) = gc_VirtualKeys c" "gc_Models (gw_with_defaults c) = gc_Models c"
  by (simp_all add: gw_with_defaults_def)

lemma defaults_of_changed:
  assumes "gw_with_defaults c = c"
  shows "gw_with_defaults (c\<lparr>gc_VirtualKeys := ks\<rparr>) = c\<lparr>gc_VirtualKeys := ks\<rparr>"
    and "gw_with_defaults (c\<lparr>gc_Models := ms\<rparr>) = c\<lparr>gc_Models := ms\<rparr>"
proof -
  have "gw_with_defaults (c\<lparr>gc_VirtualKeys := ks\<rparr>) = (gw_with_defaults c)\<lparr>gc_VirtualKeys := ks\<rparr>"
    "gw_with_defaults (c\<lparr>gc_Models := ms\<rparr>) = (gw_with_defaults c)\<lparr>gc_Models := ms\<rparr>" by (simp_all add: gw_with_defaults_def)
  then show "gw_with_defaults (c\<lparr>gc_VirtualKeys := ks\<rparr>) = c\<lparr>gc_VirtualKeys := ks\<rparr>"
    "gw_with_defaults (c\<lparr>gc_Models := ms\<rparr>) = c\<lparr>gc_Models := ms\<rparr>" by (simp_all add: assms)
qed

text \<open>The YAML printer and decoder fit: what is printed is read back as it was.\<close>

definition yaml_ok :: "config_keys \<Rightarrow> admin_env \<Rightarrow> bool" where
  "yaml_ok ks e \<longleftrightarrow> ae_keys e = ks \<and> (\<forall>c raw. ae_ym e c = Some raw \<longrightarrow> ck_yaml ks raw = Some c)"

lemma base_is_running:
  assumes "yaml_ok ks e" and "valid_as_is (ck_urlp ks) running" and "base_of e op running c"
  shows "c = running"
  using assms by (auto simp: base_of_def cloneConfig_def ParseConfig_def yaml_ok_def valid_as_is_def split: if_splits option.splits sum.splits)

lemma target_valid:
  assumes "yaml_ok ks e" and "valid_as_is (ck_urlp ks) c" and "target_of e op ans c c'"
  shows "valid_as_is (ck_urlp ks) c'"
proof -
  have "ae_keys e = ks" using assms(1) by (simp add: yaml_ok_def)
  then show ?thesis
    using assms(2,3) gwv.stable by (cases op) (auto simp: valid_without_key, auto simp: valid_as_is_def)
qed

text \<open>What an edit may change: the keys, and by an adoption one model at the end.\<close>

lemma target_changes:
  assumes "gw_with_defaults c = c" and "target_of e op ans c c'" and "op \<noteq> OpConfigPut"
  shows "\<exists>ms. c' = c\<lparr>gc_VirtualKeys := gc_VirtualKeys c', gc_Models := gc_Models c @ map adopted_model ms\<rparr>
    \<and> length ms \<le> (if op = OpDiscoverAdopt then 1 else 0)"
proof -
  have keys: "\<exists>ms. c' = c\<lparr>gc_VirtualKeys := gc_VirtualKeys c', gc_Models := gc_Models c @ map adopted_model ms\<rparr> \<and> length ms \<le> 0"
    if "c' = c\<lparr>gc_VirtualKeys := ks\<rparr>" for ks
    by (rule exI [of _ "[]"]) (simp add: that)
  have v: "Validate_gateway u (c\<lparr>gc_VirtualKeys := ks\<rparr>) = Inr c' \<Longrightarrow> c' = c\<lparr>gc_VirtualKeys := gc_VirtualKeys c'\<rparr>" for u ks
    by (simp add: Validate_gateway_Inr defaults_of_changed(1) [OF assms(1)])
  show ?thesis
  proof (cases op)
    case OpDiscoverAdopt
    then obtain q where "c' = c\<lparr>gc_Models := gc_Models c @ [adopted_model q]\<rparr>"
      using assms(2) by (auto simp: Validate_gateway_Inr defaults_of_changed(2) [OF assms(1)])
    then show ?thesis by (intro exI [of _ "[q]"]) (simp add: OpDiscoverAdopt)
  qed (use assms(2,3) v keys in \<open>auto 4 3\<close>)
qed

section \<open>Histories of requests\<close>

text \<open>What arrives: requests to the routes of \<open>admin.go\<close> and of \<open>admin_workflow.go\<close>; \<open>None\<close> is a scan that
  does not end.\<close>

datatype admin_call = Manage admin_op | Flows flow_op_admin

type_synonym admin_event = "admin_env \<times> flow_env \<times> string \<times> admin_call \<times> in_request"

fun answer_call :: "admin_event \<Rightarrow> admin_state \<Rightarrow> admin_state option" where
  "answer_call (e, f, fresh, Manage op, r) a = map_option snd (admin_serve e fresh op r a)"
| "answer_call (e, f, fresh, Flows op, r) a = Some (snd (flow_serve e f fresh op r a))"

fun answer_calls :: "admin_event list \<Rightarrow> admin_state \<Rightarrow> admin_state option" where
  "answer_calls [] a = Some a"
| "answer_calls (x # xs) a = Option.bind (answer_call x a) (answer_calls xs)"

text \<open>A request carries the token when its bearer has the prefix and hashes to the stored hash.\<close>

definition has_token :: "(string \<Rightarrow> string) \<Rightarrow> string \<Rightarrow> in_request \<Rightarrow> bool" where
  "has_token hx hash r \<longleftrightarrow> hash \<noteq> [] \<and> prefix AdminTokenPrefix (BearerToken (iq_Authorization r))
     \<and> HashToken hx (BearerToken (iq_Authorization r)) = hash"

definition only_metrics :: "admin_state \<Rightarrow> admin_state \<Rightarrow> bool" where
  "only_metrics a b \<longleftrightarrow> b = a\<lparr>ad_srv := (ad_srv a)\<lparr>sv_metrics := sv_metrics (ad_srv b)\<rparr>\<rparr>"

lemma only_metrics_refl [simp]: "only_metrics a a"
  by (simp add: only_metrics_def)

lemma only_metrics_trans: "only_metrics a b \<Longrightarrow> only_metrics b c \<Longrightarrow> only_metrics a c"
proof -
  assume b: "only_metrics a b" and c: "only_metrics b c"
  have "c = b\<lparr>ad_srv := (ad_srv b)\<lparr>sv_metrics := sv_metrics (ad_srv c)\<rparr>\<rparr>" using c by (simp only: only_metrics_def)
  also have "\<dots> = a\<lparr>ad_srv := (ad_srv a)\<lparr>sv_metrics := sv_metrics (ad_srv c)\<rparr>\<rparr>"
    by (subst b [unfolded only_metrics_def], subst b [unfolded only_metrics_def]) simp
  finally show ?thesis by (simp add: only_metrics_def)
qed

text \<open>What a request that is no edit leaves as it is.\<close>

definition settings :: "admin_state \<Rightarrow> gw_config \<times> authenticator \<times> body option \<times> admin_options" where
  "settings a = (sv_cfg (ad_srv a), sv_auth (ad_srv a), ad_file a, ad_opts a)"

lemma only_metrics_settings: "only_metrics a b \<Longrightarrow> settings b = settings a"
  by (erule only_metrics_def [THEN iffD1, THEN ssubst]) (simp add: settings_def)

lemma settings_audit [simp]: "settings (auditAdmin now r res a) = settings a" "settings (set_service svc a) = settings a"
  "settings (set_flows fs svc a) = settings a"
  by (simp_all add: settings_def set_service_def set_flows_def)

lemma admin_auth_cases:
  assumes "admin_auth hx fresh r0 a = (res, a1)"
  obtains (refused) "\<not> has_token hx (ao_TokenHash (ad_opts a)) r0"
      "res = Inl (api_error 401 ''authentication_failed'' ''invalid or missing admin token'')" "only_metrics a a1"
  | (passed) "has_token hx (ao_TokenHash (ad_opts a)) r0" "res = Inr (ensureRequestID fresh r0)" "a1 = a"
proof -
  have auth: "iq_Authorization (ensureRequestID fresh r0) = iq_Authorization r0" by (simp add: ensureRequestID_def)
  let ?a = "a\<lparr>ad_srv := (ad_srv a)\<lparr>sv_metrics := recordDenied (iq_Path (ensureRequestID fresh r0)) 401 ''authentication_failed''
      (sv_metrics (ad_srv a))\<rparr>\<rparr>"
  have e: "admin_auth hx fresh r0 a =
      (if has_token hx (ao_TokenHash (ad_opts a)) r0 then (Inr (ensureRequestID fresh r0), a)
       else (Inl (api_error 401 ''authentication_failed'' ''invalid or missing admin token''), ?a))"
    unfolding admin_auth_def Let_def has_token_def auth by simp
  have m: "only_metrics a ?a" by (simp add: only_metrics_def)
  show ?thesis
  proof (cases "has_token hx (ao_TokenHash (ad_opts a)) r0")
    case True
    then show ?thesis using assms by (intro passed) (simp_all add: e)
  next
    case False
    then have "res = Inl (api_error 401 ''authentication_failed'' ''invalid or missing admin token'')" "a1 = ?a"
      using assms by (simp_all add: e)
    then show ?thesis using refused [OF False] m by blast
  qed
qed

lemma settings_splits:
  "\<lbrakk>\<And>x. v = Inl x \<Longrightarrow> settings (snd (g x)) = t; \<And>y. v = Inr y \<Longrightarrow> settings (snd (h y)) = t\<rbrakk> \<Longrightarrow> settings (snd (case_sum g h v)) = t"
  "\<lbrakk>settings (snd d) = t; \<And>y. settings (snd (k y)) = t\<rbrakk> \<Longrightarrow> settings (snd (case_option d k w)) = t"
  "\<lbrakk>\<And>x y. settings (snd (q x y)) = t\<rbrakk> \<Longrightarrow> settings (snd (case_prod q z)) = t"
  by (simp_all split: sum.split option.split prod.split)

lemma flow_edit_settings:
  "settings (snd (handleFlowCreate e f r a)) = settings a" "settings (snd (handleFlowPatch e f r fid a)) = settings a"
  "settings (snd (handleFlowPublish e f r fid a)) = settings a" "settings (snd (handleFlowStatus e f r fid a)) = settings a"
  "settings (snd (handleRunCancel e f r rid a)) = settings a"
  unfolding handleFlowCreate_def handleFlowPatch_def handleFlowPublish_def handleFlowStatus_def handleRunCancel_def Let_def
  by (intro settings_splits; simp)+

lemma flow_dispatch_settings: "settings (snd (flow_dispatch e f op r a)) = settings a"
  by (cases op) (simp_all add: flow_dispatch_def flow_edit_settings)

lemma admin_read_cases:
  assumes "admin_dispatch e op r a = Some (ans, a')" and "\<not> edits op"
  obtains (read) "a' = a" | (scan) "a' = auditAdmin (ae_now e) r ''admin_discover_scanned'' a" "\<And>err. ans \<noteq> AdError err"
proof (cases op)
  case (OpDiscover cidr)
  then obtain res where "DiscoverHosts (ae_v6 e) cidr = Some res" using assms(1) by (auto simp: admin_dispatch_def handleDiscover_def)
  then show ?thesis using assms(1) that OpDiscover by (cases res) (auto simp: admin_dispatch_def handleDiscover_def)
qed (use assms that in \<open>auto simp: admin_dispatch_def edits_def\<close>)

lemma flow_serve_settings: "settings (snd (flow_serve e f fresh op r a)) = settings a"
proof -
  obtain res a1 where au: "admin_auth (ae_hx e) fresh r a = (res, a1)" by fastforce
  then show ?thesis
  proof (cases rule: admin_auth_cases)
    case refused
    then show ?thesis by (simp add: flow_serve_def au only_metrics_settings)
  next
    case passed
    then show ?thesis by (simp add: flow_serve_def au flow_dispatch_settings)
  qed
qed

lemma admin_serve_cases:
  assumes "admin_serve e fresh op r a = Some (ans, a')"
  obtains (refused) "\<not> has_token (ae_hx e) (ao_TokenHash (ad_opts a)) r" "only_metrics a a'"
      "ans = AdError (api_error 401 ''authentication_failed'' ''invalid or missing admin token'')"
  | (passed) "has_token (ae_hx e) (ao_TokenHash (ad_opts a)) r" "admin_dispatch e op (ensureRequestID fresh r) a = Some (ans, a')"
proof -
  obtain res a1 where au: "admin_auth (ae_hx e) fresh r a = (res, a1)" by fastforce
  then show ?thesis
    by (cases rule: admin_auth_cases) (use assms that au in \<open>auto simp: admin_serve_def\<close>)
qed

text \<open>A call is an edit that was applied, or leaves the settings.\<close>

lemma call_cases:
  assumes "answer_call (e, f, fresh, c, r) a = Some b"
  obtains (kept) "settings b = settings a"
  | (applied) op ans base cfg action where "c = Manage op" "edits op" "base_of e op (sv_cfg (ad_srv a)) base"
      "target_of e op ans base cfg" "applied e (ensureRequestID fresh r) action cfg a b"
proof (cases c)
  case (Flows op)
  then show ?thesis using assms that(1) flow_serve_settings [of e f fresh op r a] by auto
next
  case (Manage op)
  then obtain ans where sv: "admin_serve e fresh op r a = Some (ans, b)" using assms by auto
  then show ?thesis
  proof (cases rule: admin_serve_cases)
    case refused
    then show ?thesis using that(1) only_metrics_settings by blast
  next
    case passed
    show ?thesis
    proof (cases "edits op")
      case True
      with passed(2) show ?thesis by (cases rule: edit_op_cases) (use that Manage True in blast)+
    next
      case False
      with passed(2) show ?thesis by (cases rule: admin_read_cases) (use that(1) in simp_all)
    qed
  qed
qed

lemma answer_calls_Cons:
  "answer_calls (x # xs) a = Some b \<longleftrightarrow> (\<exists>m. answer_call x a = Some m \<and> answer_calls xs m = Some b)"
  by (cases "answer_call x a") auto

section \<open>The stored configuration\<close>

text \<open>The running configuration is valid, it is the one the keys are looked up in, and the file holds it.\<close>

definition admin_inv :: "config_keys \<Rightarrow> admin_state \<Rightarrow> bool" where
  "admin_inv ks a \<longleftrightarrow> Validate_gateway (ck_urlp ks) (sv_cfg (ad_srv a)) = Inr (sv_cfg (ad_srv a))
     \<and> sv_auth (ad_srv a) = NewAuthenticator (sv_cfg (ad_srv a))
     \<and> (\<exists>raw. ad_file a = Some raw \<and> ParseConfig (ck_yaml ks) (ck_urlp ks) raw = Inr (sv_cfg (ad_srv a)))"

lemma admin_inv_settings: "settings b = settings a \<Longrightarrow> admin_inv ks a \<Longrightarrow> admin_inv ks b"
  by (simp add: settings_def admin_inv_def)

lemma admin_inv_valid: "admin_inv ks a \<Longrightarrow> valid_as_is (ck_urlp ks) (sv_cfg (ad_srv a))"
  by (simp add: admin_inv_def valid_as_is_def)

lemma admin_inv_call:
  assumes "yaml_ok ks e" and "admin_inv ks a" and "answer_call (e, f, fresh, c, r) a = Some b"
  shows "admin_inv ks b"
  using assms(3)
proof (cases rule: call_cases)
  case kept
  then show ?thesis by (rule admin_inv_settings [OF _ assms(2)])
next
  case (applied op ans base cfg action)
  have "base = sv_cfg (ad_srv a)" by (rule base_is_running [OF assms(1) admin_inv_valid [OF assms(2)] applied(3)])
  then have v: "valid_as_is (ck_urlp ks) cfg" using target_valid [OF assms(1) admin_inv_valid [OF assms(2)]] applied(4) by blast
  from applied(5) obtain raw where raw: "ae_ym e cfg = Some raw" "ad_file b = Some raw" "sv_cfg (ad_srv b) = cfg"
      "sv_auth (ad_srv b) = NewAuthenticator cfg" by (rule applied_state)
  moreover have "ck_yaml ks raw = Some cfg" using assms(1) raw(1) by (simp add: yaml_ok_def)
  ultimately show ?thesis using v by (simp add: admin_inv_def ParseConfig_def valid_as_is_def)
qed

lemma admin_inv_calls:
  assumes "list_all (\<lambda>(e, _). yaml_ok ks e) xs" and "admin_inv ks a" and "answer_calls xs a = Some b"
  shows "admin_inv ks b"
  using assms
proof (induction xs arbitrary: a)
  case (Cons x xs)
  obtain e f fresh c r where x: "x = (e, f, fresh, c, r)" by (cases x)
  obtain m where m: "answer_call x a = Some m" "answer_calls xs m = Some b" using Cons.prems(3) unfolding answer_calls_Cons by blast
  have "admin_inv ks m" using Cons.prems(1,2) m(1) by (intro admin_inv_call [of ks e a f fresh c r m]) (simp_all add: x)
  then show ?case using Cons.IH Cons.prems(1) m(2) by simp
qed simp

text \<open>What a history without a replacement of the whole configuration may change.\<close>

abbreviation adoptions :: "admin_event list \<Rightarrow> nat" where
  "adoptions xs \<equiv> length (filter (\<lambda>(_, _, _, c, _). c = Manage OpDiscoverAdopt) xs)"

definition extends :: "nat \<Rightarrow> gw_config \<Rightarrow> gw_config \<Rightarrow> bool" where
  "extends n c c' \<longleftrightarrow>
     (\<exists>ms. c' = c\<lparr>gc_VirtualKeys := gc_VirtualKeys c', gc_Models := gc_Models c @ map adopted_model ms\<rparr> \<and> length ms \<le> n)"

lemma extends_refl: "extends 0 c c"
  by (simp add: extends_def)

lemma extends_trans: "extends m c d \<Longrightarrow> extends n d e \<Longrightarrow> extends (m + n) c e"
proof -
  assume "extends m c d" "extends n d e"
  then obtain ms ns where d: "d = c\<lparr>gc_VirtualKeys := gc_VirtualKeys d, gc_Models := gc_Models c @ map adopted_model ms\<rparr>" "length ms \<le> m"
    and e: "e = d\<lparr>gc_VirtualKeys := gc_VirtualKeys e, gc_Models := gc_Models d @ map adopted_model ns\<rparr>" "length ns \<le> n"
    by (auto simp: extends_def)
  have "gc_Models d = gc_Models c @ map adopted_model ms" by (subst d(1)) simp
  then have "e = c\<lparr>gc_VirtualKeys := gc_VirtualKeys e, gc_Models := gc_Models c @ map adopted_model (ms @ ns)\<rparr>"
    by (subst e(1), subst d(1)) simp
  then show ?thesis using d(2) e(2) unfolding extends_def by (intro exI [of _ "ms @ ns"]) simp
qed

lemma call_extends:
  assumes "yaml_ok ks e" and "admin_inv ks a" and "answer_call (e, f, fresh, c, r) a = Some b" and "c \<noteq> Manage OpConfigPut"
  shows "extends (adoptions [(e, f, fresh, c, r)]) (sv_cfg (ad_srv a)) (sv_cfg (ad_srv b))"
  using assms(3)
proof (cases rule: call_cases)
  case kept
  then have "sv_cfg (ad_srv b) = sv_cfg (ad_srv a)" by (simp add: settings_def)
  then show ?thesis by (auto simp: extends_def intro: exI [of _ "[]"])
next
  case (applied op ans base cfg action)
  have b: "base = sv_cfg (ad_srv a)" by (rule base_is_running [OF assms(1) admin_inv_valid [OF assms(2)] applied(3)])
  have "gw_with_defaults base = base" using admin_inv_valid [OF assms(2)] by (simp add: b valid_as_is_iff)
  moreover have "op \<noteq> OpConfigPut" using assms(4) applied(1) by blast
  moreover have "sv_cfg (ad_srv b) = cfg" using applied(5) by (rule applied_state)
  ultimately show ?thesis using target_changes [OF _ applied(4)] applied(1) by (auto simp: extends_def b)
qed

lemma calls_extend:
  assumes "list_all (\<lambda>(e, _). yaml_ok ks e) xs" and "admin_inv ks a" and "answer_calls xs a = Some b"
    and "list_all (\<lambda>(_, _, _, c, _). c \<noteq> Manage OpConfigPut) xs"
  shows "extends (adoptions xs) (sv_cfg (ad_srv a)) (sv_cfg (ad_srv b))"
  using assms
proof (induction xs arbitrary: a)
  case (Cons x xs)
  obtain e f fresh c r where x: "x = (e, f, fresh, c, r)" by (cases x)
  obtain m where m: "answer_call x a = Some m" "answer_calls xs m = Some b" using Cons.prems(3) unfolding answer_calls_Cons by blast
  have y: "yaml_ok ks e" "c \<noteq> Manage OpConfigPut" using Cons.prems(1,4) by (simp_all add: x)
  have "admin_inv ks m" using m(1) by (intro admin_inv_call [OF y(1) Cons.prems(2)]) (simp add: x)
  then have 2: "extends (adoptions xs) (sv_cfg (ad_srv m)) (sv_cfg (ad_srv b))" using Cons.IH Cons.prems(1,4) m(2) by simp
  have 1: "extends (adoptions [x]) (sv_cfg (ad_srv a)) (sv_cfg (ad_srv m))"
    using call_extends [OF y(1) Cons.prems(2) m(1) [unfolded x] y(2)] by (simp add: x)
  have "adoptions (x # xs) = adoptions [x] + adoptions xs" by simp
  then show ?case using extends_trans [OF 1 2] by (simp only:)
qed (simp add: extends_refl)

text \<open>Without the token nothing moves.\<close>

lemma call_without_token:
  assumes "\<not> has_token (ae_hx e) (ao_TokenHash (ad_opts a)) r" and "answer_call (e, f, fresh, c, r) a = Some b"
  shows "only_metrics a b"
proof (cases c)
  case (Manage op)
  then obtain ans where "admin_serve e fresh op r a = Some (ans, b)" using assms(2) by auto
  then show ?thesis by (cases rule: admin_serve_cases) (use assms(1) in simp_all)
next
  case (Flows op)
  obtain res a1 where au: "admin_auth (ae_hx e) fresh r a = (res, a1)" by fastforce
  then show ?thesis by (cases rule: admin_auth_cases) (use assms Flows au in \<open>simp_all add: flow_serve_def\<close>)
qed

lemma calls_without_token:
  assumes "list_all (\<lambda>(e, _, _, _, r). \<not> has_token (ae_hx e) (ao_TokenHash (ad_opts a)) r) xs" and "answer_calls xs a = Some b"
  shows "only_metrics a b"
  using assms
proof (induction xs arbitrary: a)
  case (Cons x xs)
  obtain e f fresh c r where x: "x = (e, f, fresh, c, r)" by (cases x)
  obtain m where m: "answer_call x a = Some m" "answer_calls xs m = Some b" using Cons.prems(2) unfolding answer_calls_Cons by blast
  have o: "only_metrics a m" using call_without_token [of e a r f fresh c m] Cons.prems(1) m(1) by (simp add: x)
  then have "ad_opts m = ad_opts a" using only_metrics_settings by (simp add: settings_def)
  then show ?case using only_metrics_trans [OF o Cons.IH] Cons.prems(1) m(2) by simp
qed simp

section \<open>Keys\<close>

lemma key_created:
  assumes "admin_dispatch e OpKeyCreate r a = Some (AdKeyCreated kid plain hash, a')"
  obtains ks q where "GenerateVirtualKey (ae_hx e) (ae_draw e) = Some (plain, hash)" "kc_ID q = kid"
    "gc_VirtualKeys (sv_cfg (ad_srv a')) = ks @ [new_key q hash]" "sv_auth (ad_srv a') = NewAuthenticator (sv_cfg (ad_srv a'))"
proof -
  have "edits OpKeyCreate" by (simp add: edits_def)
  with assms show ?thesis
  proof (cases rule: edit_op_cases)
    case (applied c c' action)
    from applied(3) have "sv_cfg (ad_srv a') = c'" "sv_auth (ad_srv a') = NewAuthenticator c'" by (auto elim: applied_state)
    then show ?thesis using applied(2) that by (auto simp: Validate_gateway_Inr)
  qed simp
qed

lemma update_key_Some:
  "update_key kid fn ks = Some (t, ks') \<Longrightarrow> (\<And>k. vk_ID (fn k) = vk_ID k) \<Longrightarrow> t \<in> set ks' \<and> vk_ID t = kid"
  by (induction ks arbitrary: ks') (auto split: if_splits)

lemma patch_key_ID [simp]: "vk_ID (patch_key p k) = vk_ID k"
  by (simp add: patch_key_def)

lemma distinct_ids:
  assumes "distinct (map vk_ID ks)" and "k \<in> set ks" and "t \<in> set ks" and "vk_ID k = vk_ID t"
  shows "k = t"
  using assms by (metis distinct_map inj_onD)

text \<open>After a key was deleted or disabled, no bearer is taken for it.\<close>

lemma key_revoked:
  assumes "admin_dispatch e op r a = Some (ans, a')" and "ans \<in> {AdKeyDeleted kid, AdKeyUpdated kid True}"
    and "Authenticate hx (sv_auth (ad_srv a')) auth = Some k"
  shows "vk_ID k \<noteq> kid"
proof -
  have ed: "edits op"
  proof (rule ccontr)
    assume n: "\<not> edits op"
    show False
    proof (cases op)
      case (OpDiscover cidr)
      then obtain res where "DiscoverHosts (ae_v6 e) cidr = Some res" using assms(1) by (auto simp: admin_dispatch_def handleDiscover_def)
      then show ?thesis using assms(1,2) OpDiscover by (cases res) (auto simp: admin_dispatch_def handleDiscover_def)
    qed (use assms(1,2) n in \<open>auto simp: edits_def admin_dispatch_def handleOverview_def handleConfigGet_def handleKeysList_def
          handleAuditTail_def Let_def split: option.splits sum.splits if_splits\<close>)
  qed
  show ?thesis
    using assms(1) ed
  proof (cases rule: edit_op_cases)
    case (applied c c' action)
    from applied(3) have s: "sv_auth (ad_srv a') = NewAuthenticator c'" by (auto elim: applied_state)
    have k: "k \<in> set (gc_VirtualKeys c')" "\<not> vk_Disabled k"
      using assms(3) find_Some_iff_first unfolding s Authenticate_Some by force+
    show ?thesis
    proof (cases op)
      case (OpKeyDelete kid')
      then show ?thesis using applied(2) assms(2) k(1) by auto
    next
      case (OpKeyPatch kid')
      then obtain p t ks where t: "update_key kid (patch_key p) (gc_VirtualKeys c) = Some (t, ks)" "vk_Disabled t"
          "Validate_gateway (ck_urlp (ae_keys e)) (c\<lparr>gc_VirtualKeys := ks\<rparr>) = Inr c'"
        using applied(2) assms(2) by auto
      have v: "distinct (map vk_ID ks)" "gc_VirtualKeys c' = ks" using t(3) by (auto simp: Validate_gateway_Inr gw_config_ok_def)
      have "t \<in> set ks" "vk_ID t = kid" using update_key_Some [OF t(1)] by simp_all
      then show ?thesis using distinct_ids [OF v(1)] k v(2) t(2) by metis
    qed (use applied(2) assms(2) ed in \<open>auto simp: edits_def\<close>)
  qed (use assms(2) in simp)
qed

section \<open>What an edit does to the runs\<close>

definition is_live :: "run \<Rightarrow> bool" where
  "is_live r \<longleftrightarrow> r_Status r \<in> {RunQueued, RunRunning, RunCancelling}"

lemma fold_load_idem: "rst_idem (fold (load_run now w) fs s) = rst_idem s"
proof (induction fs arbitrary: s)
  case (Cons f fs)
  have "rst_idem (load_run now w f s) = rst_idem s" by (cases f) (auto simp: load_run_def Let_def split: option.splits)
  then show ?case by (simp add: Cons.IH)
qed simp

text \<open>A run whose only file says that it is live is loaded as interrupted.\<close>

lemma fold_load_live:
  assumes "is_live r" and "r_ID r \<noteq> []"
    and "\<And>i p r'. (i, p, Some r') \<in> set fs \<Longrightarrow> r_ID r' = r_ID r \<Longrightarrow> r' = r"
    and "(\<exists>i p. (i, p, Some r) \<in> set fs) \<or> map_of (rst_runs s) (r_ID r) = Some (interrupt_run now r)"
  shows "map_of (rst_runs (fold (load_run now w) fs s)) (r_ID r) = Some (interrupt_run now r)"
  using assms(3,4)
proof (induction fs arbitrary: s)
  case (Cons x fs)
  obtain i p y where x: "x = (i, p, y)" by (cases x)
  have "(\<exists>i p. (i, p, Some r) \<in> set fs) \<or> map_of (rst_runs (load_run now w x s)) (r_ID r) = Some (interrupt_run now r)"
  proof (cases "y = Some r")
    case True
    then show ?thesis using assms(1,2) by (simp add: x load_run_def Let_def is_live_def)
  next
    case False
    have "map_of (rst_runs (load_run now w x s)) (r_ID r) = map_of (rst_runs s) (r_ID r)"
    proof (cases y)
      case (Some r')
      then have "r_ID r' \<noteq> r_ID r" using Cons.prems(1) [of i p r'] False by (auto simp: x)
      then show ?thesis by (simp add: x Some load_run_def Let_def)
    qed (simp add: x load_run_def)
    then show ?thesis using Cons.prems(2) False x by auto
  qed
  moreover have "r' = r" if "(i, p, Some r') \<in> set fs" "r_ID r' = r_ID r" for i p r'
    using Cons.prems(1) [of i p r'] that by simp
  ultimately show ?case unfolding fold_Cons comp_apply by (intro Cons.IH)
qed simp

lemma OpenRunStore_live:
  assumes "is_live r" and "r_ID r \<noteq> []" and "(p, Some r) \<in> set (rf_runs fs)"
    and "\<And>p r'. (p, Some r') \<in> set (rf_runs fs) \<Longrightarrow> r_ID r' = r_ID r \<Longrightarrow> r' = r"
  shows "map_of (rst_runs (OpenRunStore fs now w)) (r_ID r) = Some (interrupt_run now r)"
proof -
  obtain i where "i < length (rf_runs fs)" "rf_runs fs ! i = (p, Some r)" using assms(3) by (metis in_set_conv_nth)
  then have "(i, p, Some r) \<in> set (enumerate 0 (rf_runs fs))" by (simp add: in_set_enumerate_eq)
  moreover have "r' = r" if "(j, q, Some r') \<in> set (enumerate 0 (rf_runs fs))" "r_ID r' = r_ID r" for j q r'
    using assms(4) [of q r'] that by (auto simp: in_set_enumerate_eq dest: nth_mem)
  ultimately show ?thesis unfolding OpenRunStore_def by (intro fold_load_live [OF assms(1,2)]) blast+
qed

lemma applied_service:
  assumes "applied e r action cfg a a'" and "ad_workflows a' = Some svc"
  obtains c where "gc_Platform cfg = Some c"
    "sv_runs svc = OpenRunStore (pe_runs (ae_plat e) (wc_DataDir (cf_Workflows c))) (pe_now (ae_plat e)) (pe_writes (ae_plat e))"
    "sv_sem svc = 0"
proof -
  have "snd (apply_config (ae_plat e) cfg (ad_srv a, ad_workflows a)) = Some svc"
    using assms(1) by (rule applied_state) (use assms(2) in simp)
  then obtain c where c: "gc_Platform cfg = Some c" "OpenService (ae_plat e) c = Some svc"
    by (auto simp: apply_config_def applyPlatform_def New_platform_def SetWorkflowService_def Option.bind_eq_Some_conv
        split: option.splits if_splits)
  then show ?thesis using that by (auto simp: OpenService_def Let_def split: if_splits sum.splits)
qed

section \<open>Examples\<close>

text \<open>A gateway with a platform section and one key, and what its configuration becomes.\<close>

definition demo_full :: gw_config where
  "demo_full = gw_with_defaults (demo_gateway\<lparr>gc_Platform := Some demo_config\<rparr>)"

definition demo_full_0 :: gw_config where "demo_full_0 = demo_full\<lparr>gc_VirtualKeys := []\<rparr>"

definition demo_full_2 :: gw_config where
  "demo_full_2 = demo_full\<lparr>gc_VirtualKeys := [demo_key, new_key (key_create0\<lparr>kc_ID := ''k2''\<rparr>) (replicate 64 CHR ''0'')]\<rparr>"

definition demo_admin_keys :: config_keys where
  "demo_admin_keys = \<lparr>ck_nf = id, ck_render = (\<lambda>_. ''doc''), ck_hx = id, ck_vf = (\<lambda>_ _. True),
     ck_yaml = (\<lambda>raw. map_of [(Bytes ''full'', demo_full), (Bytes ''none'', demo_full_0), (Bytes ''two'', demo_full_2)] raw),
     ck_urlp = demo_gw_urlp\<rparr>"

definition demo_print :: "gw_config \<Rightarrow> body option" where
  "demo_print c = (if c = demo_full then Some (Bytes ''full'') else if c = demo_full_0 then Some (Bytes ''none'')
     else if c = demo_full_2 then Some (Bytes ''two'') else None)"

definition demo_admin_env :: admin_env where
  "demo_admin_env = \<lparr>ae_keys = demo_admin_keys, ae_ym = demo_print, ae_cut = id, ae_write = True, ae_rename = True,
     ae_plat = \<lparr>pe_memory_ok = (\<lambda>_. True), pe_mkdir = True, pe_flows = (\<lambda>_. []), pe_runs = (\<lambda>_. demo_files), pe_now = 5,
                 pe_writes = (\<lambda>_. True)\<rparr>,
     ae_hx = demo_hash, ae_draw = (\<lambda>_. Some 0), ae_now = 5, ae_ping = (\<lambda>_. True), ae_net = (\<lambda>_. TransportError False), ae_parse = Bytes,
     ae_order = id, ae_v6 = (\<lambda>_. False), ae_audit = Inl None, ae_fmt_g = (\<lambda>_. []), ae_version = ''1''\<rparr>"

definition demo_admin :: admin_state where
  "demo_admin = \<lparr>ad_srv = NewServer demo_full, ad_workflows = None,
     ad_opts = \<lparr>ao_TokenHash = replicate 64 CHR ''0'', ao_ConfigPath = ''c'', ao_AuditPath = [], ao_Connected = False\<rparr>,
     ad_file = Some (Bytes ''full'')\<rparr>"

definition demo_admin_in :: "string \<Rightarrow> body \<Rightarrow> in_request" where
  "demo_admin_in token body = (demo_in [])\<lparr>iq_Path := ''/api/keys'', iq_Authorization := ''Bearer '' @ token, iq_Body := body\<rparr>"

lemma demo_full_valid: "Validate_gateway demo_gw_urlp demo_full = Inr demo_full"
  by code_simp

lemma demo_yaml_ok: "yaml_ok demo_admin_keys demo_admin_env"
proof -
  have "demo_full \<noteq> demo_full_0" "demo_full \<noteq> demo_full_2" "demo_full_0 \<noteq> demo_full_2"
    by (simp_all add: demo_full_0_def demo_full_2_def demo_full_def demo_gateway_def gw_with_defaults_def)
  then show ?thesis by (auto simp: yaml_ok_def demo_admin_env_def demo_print_def demo_admin_keys_def split: if_splits)
qed

lemma demo_admin_inv: "admin_inv demo_admin_keys demo_admin"
  using demo_full_valid
  by (simp add: admin_inv_def demo_admin_def NewServer_def demo_admin_keys_def ParseConfig_def)

lemma demo_delete:
  "map_option fst (admin_serve demo_admin_env [] (OpKeyDelete ''k1'') (demo_admin_in ''lkpadm_x'' (Bytes [])) demo_admin)
     = Some (AdKeyDeleted ''k1'')"
  by code_simp

lemma demo_create:
  "\<exists>plain. map_option fst (admin_serve demo_admin_env [] OpKeyCreate
      (demo_admin_in ''lkpadm_x'' (Doc (JObj [(''id'', JStr ''k2'')]))) demo_admin)
     = Some (AdKeyCreated ''k2'' plain (replicate 64 CHR ''0''))"
proof -
  have "map_option fst (admin_serve demo_admin_env [] OpKeyCreate
      (demo_admin_in ''lkpadm_x'' (Doc (JObj [(''id'', JStr ''k2'')]))) demo_admin)
     = Some (AdKeyCreated ''k2'' (VirtualKeyPrefix @ replicate 44 (tokenAlphabet ! 0)) (replicate 64 CHR ''0''))"
    by code_simp
  then show ?thesis by blast
qed

lemma demo_answer:
  assumes "map_option fst (admin_serve e fresh op r a) = Some ans"
  obtains b where "admin_serve e fresh op r a = Some (ans, b)"
  using assms by (cases "admin_serve e fresh op r a") auto

definition demo_flow_env :: flow_env where
  "demo_flow_env = \<lparr>fe_nf = id, fe_sha = (\<lambda>_. []), fe_newID = [], fe_writes = (\<lambda>_. True), fe_ok = True, fe_ok_event = True\<rparr>"

section \<open>Properties\<close>

text \<open>C9: The management interface keeps the configuration valid: after any history of requests to it (the
  replacement of the configuration, the creation, change and deletion of keys, adoptions, flow
  management, refused requests) the running configuration is one that validation accepts as it is, the
  keys are looked up in it, and the configuration file, read as at the next start, gives it again. The
  YAML printer and decoder are assumed to fit.\<close>

theorem admin_keeps_config_valid:
  assumes "list_all (\<lambda>(e, _). yaml_ok ks e) xs" and "answer_calls xs a = Some b"
    and "Validate_gateway (ck_urlp ks) (sv_cfg (ad_srv a)) = Inr (sv_cfg (ad_srv a))"
    and "sv_auth (ad_srv a) = NewAuthenticator (sv_cfg (ad_srv a))"
    and "ad_file a = Some raw" and "ParseConfig (ck_yaml ks) (ck_urlp ks) raw = Inr (sv_cfg (ad_srv a))"
  shows "Validate_gateway (ck_urlp ks) (sv_cfg (ad_srv b)) = Inr (sv_cfg (ad_srv b))
    \<and> sv_auth (ad_srv b) = NewAuthenticator (sv_cfg (ad_srv b))
    \<and> (\<exists>raw. ad_file b = Some raw \<and> ParseConfig (ck_yaml ks) (ck_urlp ks) raw = Inr (sv_cfg (ad_srv b)))"
proof -
  have "admin_inv ks a" using assms(3-6) by (simp add: admin_inv_def)
  from admin_inv_calls [OF assms(1) this assms(2)] show ?thesis by (simp add: admin_inv_def)
qed

text \<open>C10: Without the admin token nothing moves: a history of management requests none of which carries a
  bearer with the token's prefix whose hash is the stored one leaves the configuration, its file, the
  keys, the flows, the runs and the audit trail as they were; only the metrics count the refusals.\<close>

theorem admin_needs_token:
  assumes "answer_calls xs a = Some b"
    and "list_all (\<lambda>(e, _, _, _, r). \<not> (prefix AdminTokenPrefix (BearerToken (iq_Authorization r))
           \<and> HashToken (ae_hx e) (BearerToken (iq_Authorization r)) = ao_TokenHash (ad_opts a))) xs"
  shows "b = a\<lparr>ad_srv := (ad_srv a)\<lparr>sv_metrics := sv_metrics (ad_srv b)\<rparr>\<rparr>"
proof -
  have "list_all (\<lambda>(e, _, _, _, r). \<not> has_token (ae_hx e) (ao_TokenHash (ad_opts a)) r) xs"
    using assms(2) by (auto simp: list_all_iff has_token_def)
  from calls_without_token [OF this assms(1)] show ?thesis by (simp only: only_metrics_def)
qed

text \<open>C13: An answer of the interface tells what happened: after an error nothing but the metrics has
  changed; an edit that is answered otherwise has stored the text of the configuration that now runs,
  and has left exactly one audit line, which names the request's path and the administration.\<close>

theorem edits_are_atomic_and_audited:
  assumes "admin_serve e fresh op r a = Some (ans, b)"
  shows "(\<exists>err. ans = AdError err) \<and> b = a\<lparr>ad_srv := (ad_srv a)\<lparr>sv_metrics := sv_metrics (ad_srv b)\<rparr>\<rparr>
    \<or> (\<nexists>err. ans = AdError err)
      \<and> (edits op \<longrightarrow> ad_file b \<noteq> None \<and> ad_file b = ae_ym e (sv_cfg (ad_srv b))
           \<and> (\<exists>rec. sv_audit (ad_srv b) = sv_audit (ad_srv a) @ [rec] \<and> ar_Routing rec = ''admin'' \<and> ar_Endpoint rec = iq_Path r))"
  using assms
proof (cases rule: admin_serve_cases)
  case refused
  then show ?thesis by (simp add: only_metrics_def)
next
  case passed
  have same: "b = a \<Longrightarrow> b = a\<lparr>ad_srv := (ad_srv a)\<lparr>sv_metrics := sv_metrics (ad_srv b)\<rparr>\<rparr>" by simp
  show ?thesis
  proof (cases "edits op")
    case True
    with passed(2) show ?thesis
    proof (cases rule: edit_op_cases)
      case (applied c c' action)
      have "\<nexists>err. ans = AdError err" using applied(2) True by (cases op) (auto simp: edits_def)
      then show ?thesis using applied_result [OF applied(3)] by (simp add: ensureRequestID_def split: if_splits)
    qed (use same in blast)
  next
    case False
    with passed(2) show ?thesis by (cases rule: admin_read_cases) (use same False in blast)+
  qed
qed

text \<open>A created key works at once and is stored only as its hash: when the interface answers with a new
  key, the bearer of that key is authenticated as the enabled entry with the requested id, whose hash is
  the digest of the key.\<close>

theorem created_key_authenticates:
  assumes "admin_serve e fresh OpKeyCreate r a = Some (AdKeyCreated kid plain hash, b)"
    and "\<And>j n. ae_draw e j = Some n \<Longrightarrow> n < 57"
  shows "\<exists>k. Authenticate (ae_hx e) (sv_auth (ad_srv b)) (''Bearer '' @ plain) = Some k \<and> k \<in> set (gc_VirtualKeys (sv_cfg (ad_srv b)))
    \<and> vk_ID k = kid \<and> \<not> vk_Disabled k \<and> vk_KeyHash k = ae_hx e plain"
  using assms(1)
proof (cases rule: admin_serve_cases)
  case passed
  from key_created [OF passed(2)] obtain ks q where k: "GenerateVirtualKey (ae_hx e) (ae_draw e) = Some (plain, hash)" "kc_ID q = kid"
      "gc_VirtualKeys (sv_cfg (ad_srv b)) = ks @ [new_key q hash]" "sv_auth (ad_srv b) = NewAuthenticator (sv_cfg (ad_srv b))" .
  have "hash = ae_hx e plain" by (rule bearer_of_generated(3) [OF k(1)]) (rule assms(2))
  moreover have "Authenticate (ae_hx e) (sv_auth (ad_srv b)) (''Bearer '' @ plain) = Some (new_key q hash)"
    unfolding k(4) by (rule generated_key_authenticates [OF k(1) _ k(3)]) (simp_all add: assms(2) new_key_def)
  ultimately show ?thesis using k(2,3) by (intro exI [of _ "new_key q hash"]) (simp add: new_key_def)
qed simp

text \<open>C11: A revoked key is refused at once: when the interface answers that a key was deleted, or changed and
  now disabled, no bearer is authenticated as a key of that id any more.\<close>

theorem revoked_key_is_refused:
  assumes "admin_serve e fresh op r a = Some (ans, b)" and "ans \<in> {AdKeyDeleted kid, AdKeyUpdated kid True}"
    and "Authenticate hx (sv_auth (ad_srv b)) auth = Some k"
  shows "vk_ID k \<noteq> kid"
  using assms(1)
proof (cases rule: admin_serve_cases)
  case passed
  then show ?thesis using key_revoked [OF passed(2) assms(2,3)] by blast
qed (use assms(2) in simp)

text \<open>C12: What a scan finds is used only after it was adopted: over any history of requests that does not
  replace the whole configuration, the models and all their targets stay, at most one model is added for each
  adoption, and apart from the keys nothing else of the configuration changes.\<close>

theorem only_adoption_adds_targets:
  assumes "list_all (\<lambda>(e, _). yaml_ok ks e) xs" and "answer_calls xs a = Some b" and "admin_inv ks a"
    and "list_all (\<lambda>(_, _, _, c, _). c \<noteq> Manage OpConfigPut) xs"
  shows "\<exists>ms. gc_Models (sv_cfg (ad_srv b)) = gc_Models (sv_cfg (ad_srv a)) @ map adopted_model ms
    \<and> length ms \<le> length (filter (\<lambda>(_, _, _, c, _). c = Manage OpDiscoverAdopt) xs)
    \<and> (sv_cfg (ad_srv b))\<lparr>gc_VirtualKeys := [], gc_Models := []\<rparr> = (sv_cfg (ad_srv a))\<lparr>gc_VirtualKeys := [], gc_Models := []\<rparr>"
proof -
  obtain ms where ms: "sv_cfg (ad_srv b) = (sv_cfg (ad_srv a))\<lparr>gc_VirtualKeys := gc_VirtualKeys (sv_cfg (ad_srv b)),
      gc_Models := gc_Models (sv_cfg (ad_srv a)) @ map adopted_model ms\<rparr>" "length ms \<le> adoptions xs"
    using calls_extend [OF assms(1,3,2,4)] unfolding extends_def by blast
  have "gc_Models (sv_cfg (ad_srv b)) = gc_Models (sv_cfg (ad_srv a)) @ map adopted_model ms" by (subst ms(1)) simp
  moreover have "(sv_cfg (ad_srv b))\<lparr>gc_VirtualKeys := [], gc_Models := []\<rparr>
      = (sv_cfg (ad_srv a))\<lparr>gc_VirtualKeys := [], gc_Models := []\<rparr>" by (subst ms(1)) simp
  ultimately show ?thesis using ms(2) by blast
qed

text \<open>Every edit of the configuration, be it the name of a key, ends the workflow service: the service
  that is there after an edit has no run that is live, all its slots are free and its idempotency keys are forgotten,
  and a run whose file says that it is live is reported as failed (interrupted).\<close>

theorem edit_interrupts_runs:
  assumes "admin_serve e fresh op r a = Some (ans, b)" and "edits op" and "\<nexists>err. ans = AdError err"
    and "ad_workflows b = Some svc" and "gc_Platform (sv_cfg (ad_srv b)) = Some pc"
    and "files = rf_runs (pe_runs (ae_plat e) (wc_DataDir (cf_Workflows pc)))"
  shows "(\<forall>rid run. map_of (rst_runs (sv_runs svc)) rid = Some run \<longrightarrow> \<not> is_live run) \<and> sv_sem svc = 0 \<and> rst_idem (sv_runs svc) = []
    \<and> (\<forall>p run. (p, Some run) \<in> set files \<and> is_live run \<and> r_ID run \<noteq> []
         \<and> (\<forall>p' run'. (p', Some run') \<in> set files \<and> r_ID run' = r_ID run \<longrightarrow> run' = run)
         \<longrightarrow> (\<exists>run'. map_of (rst_runs (sv_runs svc)) (r_ID run) = Some run' \<and> r_Status run' = RunFailed \<and> r_ErrorCode run' = ''interrupted''))"
  using assms(1)
proof (cases rule: admin_serve_cases)
  case passed
  from passed(2) assms(2) show ?thesis
  proof (cases rule: edit_op_cases)
    case (applied c c' action)
    have cfg: "sv_cfg (ad_srv b) = c'" using applied(3) by (rule applied_state)
    from applied(3) assms(4) obtain pc' where s: "gc_Platform c' = Some pc'"
        "sv_runs svc = OpenRunStore (pe_runs (ae_plat e) (wc_DataDir (cf_Workflows pc'))) (pe_now (ae_plat e)) (pe_writes (ae_plat e))"
        "sv_sem svc = 0" by (rule applied_service)
    have pc: "pc' = pc" using assms(5) s(1) cfg by simp
    have "\<exists>run'. map_of (rst_runs (sv_runs svc)) (r_ID run) = Some run' \<and> r_Status run' = RunFailed \<and> r_ErrorCode run' = ''interrupted''"
      if f: "(p, Some run) \<in> set files" and l: "is_live run" "r_ID run \<noteq> []"
        and u: "\<forall>p' run'. (p', Some run') \<in> set files \<and> r_ID run' = r_ID run \<longrightarrow> run' = run" for p run
      using OpenRunStore_live [OF l, of p "pe_runs (ae_plat e) (wc_DataDir (cf_Workflows pc))"] f u
      by (auto simp: s(2) pc assms(6) interrupt_run_def)
    moreover have "\<not> is_live run" if "map_of (rst_runs (sv_runs svc)) rid = Some run" for rid run
      using OpenRunStore_settled that by (auto simp: s(2) is_live_def run_settled_def)
    moreover have "rst_idem (sv_runs svc) = []" by (simp add: s(2) OpenRunStore_def fold_load_idem)
    ultimately show ?thesis using s(3) by blast
  qed (use assms(3) in blast)
qed (use assms(3) in blast)

text \<open>A draft with exactly one mistake is answered as a failure of the server: publishing a draft at its
  own revision is refused with the list of its errors when validation finds two or more, but with an
  internal error (500) when it finds one, although the check of the same draft reports that one.\<close>

theorem single_flow_error_is_internal:
  assumes "has_token (ae_hx e) (ao_TokenHash (ad_opts a)) r"
    and "workflowService (ad_srv a, ad_workflows a) = Some svc" and "GetDraft (sv_flows svc) fid = Inr d"
    and "unmarshal (dec_struct dec_revision 0) (limited_body 65536 r) = Some (dr_Revision d)"
    and "ValidateDefinition svc (Doc (dr_Definition d)) [] = Inl errs"
  shows "fst (flow_serve e f fresh (RtFlowPublish fid) r a) =
      (if length errs = 1 then FlowError (api_error 500 ''internal_error'' []) else FlowErrors errs)
    \<and> fst (flow_serve e f fresh (RtFlowValidate fid) r a) = FlowValidated False (dr_Revision d) errs"
proof -
  obtain res a1 where au: "admin_auth (ae_hx e) fresh r a = (res, a1)" by fastforce
  then have p: "res = Inr (ensureRequestID fresh r)" "a1 = a" by (cases rule: admin_auth_cases; use assms(1) in simp)+
  have body: "limited_body n (ensureRequestID fresh r) = limited_body n r" for n by (simp add: limited_body_def ensureRequestID_def)
  have svc: "adminWorkflowService a = Inr svc" by (simp add: adminWorkflowService_def assms(2))
  have ne: "errs \<noteq> []" "\<forall>err\<in>set errs. \<forall>x. err \<noteq> EStore x"
    using assms(5) by (auto simp: ValidateDefinition_def Let_def split: sum.splits if_splits)
  have one: "writeFlowStoreError (errs ! 0) = api_error 500 ''internal_error'' []"
    using ne by (simp add: writeFlowStoreError_def)
  have "PublishFlow fid (dr_Revision d) (ae_now e) (fe_writes f) svc = (Inl errs, svc)"
    using assms(3,5) by (simp add: PublishFlow_def publish_check_def)
  then have "fst (handleFlowPublish e f (ensureRequestID fresh r) fid a) = flow_failure errs"
    by (simp add: handleFlowPublish_def svc body assms(4))
  moreover have "handleFlowValidate fid a = FlowValidated False (dr_Revision d) errs"
    using ne by (simp add: handleFlowValidate_def svc assms(3,5))
  ultimately show ?thesis by (simp add: flow_serve_def au p flow_dispatch_def flow_failure_def one)
qed

section \<open>Witnesses\<close>

theorem admin_keeps_config_valid_witness:
  "\<exists>b. answer_calls [(demo_admin_env, demo_flow_env, [], Manage (OpKeyDelete ''k1''), demo_admin_in ''lkpadm_x'' (Bytes []))] demo_admin = Some b
     \<and> Validate_gateway demo_gw_urlp (sv_cfg (ad_srv b)) = Inr (sv_cfg (ad_srv b))"
proof -
  obtain b where b: "admin_serve demo_admin_env [] (OpKeyDelete ''k1'') (demo_admin_in ''lkpadm_x'' (Bytes [])) demo_admin
      = Some (AdKeyDeleted ''k1'', b)" using demo_delete by (rule demo_answer)
  let ?xs = "[(demo_admin_env, demo_flow_env, [], Manage (OpKeyDelete ''k1''), demo_admin_in ''lkpadm_x'' (Bytes []))]"
  have x: "answer_calls ?xs demo_admin = Some b" by (simp add: b)
  have i: "Validate_gateway (ck_urlp demo_admin_keys) (sv_cfg (ad_srv demo_admin)) = Inr (sv_cfg (ad_srv demo_admin))"
    "sv_auth (ad_srv demo_admin) = NewAuthenticator (sv_cfg (ad_srv demo_admin))" "ad_file demo_admin = Some (Bytes ''full'')"
    "ParseConfig (ck_yaml demo_admin_keys) (ck_urlp demo_admin_keys) (Bytes ''full'') = Inr (sv_cfg (ad_srv demo_admin))"
    using demo_admin_inv by (simp_all add: admin_inv_def demo_admin_def)
  have "list_all (\<lambda>(e, _). yaml_ok demo_admin_keys e) ?xs" by (simp add: demo_yaml_ok)
  from admin_keeps_config_valid [OF this x i] x show ?thesis by (auto simp: demo_admin_keys_def)
qed

theorem admin_needs_token_witness:
  "\<exists>b. answer_calls [(demo_admin_env, demo_flow_env, [], Manage (OpKeyDelete ''k1''), demo_admin_in ''x'' (Bytes []))] demo_admin = Some b
     \<and> b = demo_admin\<lparr>ad_srv := (ad_srv demo_admin)\<lparr>sv_metrics := sv_metrics (ad_srv b)\<rparr>\<rparr>"
proof -
  let ?xs = "[(demo_admin_env, demo_flow_env, [], Manage (OpKeyDelete ''k1''), demo_admin_in ''x'' (Bytes []))]"
  have "BearerToken (''Bearer '' @ ''x'') = ''x''" by code_simp
  then have t: "\<not> prefix AdminTokenPrefix (BearerToken (iq_Authorization (demo_admin_in ''x'' (Bytes []))))"
    by (simp add: demo_admin_in_def AdminTokenPrefix_def)
  have "\<exists>b. answer_calls ?xs demo_admin = Some b"
    by (simp add: admin_serve_def admin_dispatch_def split: prod.split sum.split)
  then obtain b where b: "answer_calls ?xs demo_admin = Some b" ..
  have "list_all (\<lambda>(e, _, _, _, r). \<not> (prefix AdminTokenPrefix (BearerToken (iq_Authorization r))
           \<and> HashToken (ae_hx e) (BearerToken (iq_Authorization r)) = ao_TokenHash (ad_opts demo_admin))) ?xs"
    using t by simp
  from admin_needs_token [OF b this] b show ?thesis by blast
qed

theorem edits_are_atomic_and_audited_witness:
  "\<exists>b rec. admin_serve demo_admin_env [] (OpKeyDelete ''k1'') (demo_admin_in ''lkpadm_x'' (Bytes [])) demo_admin = Some (AdKeyDeleted ''k1'', b)
     \<and> sv_audit (ad_srv b) = [rec] \<and> ar_Endpoint rec = ''/api/keys''"
proof -
  obtain b where b: "admin_serve demo_admin_env [] (OpKeyDelete ''k1'') (demo_admin_in ''lkpadm_x'' (Bytes [])) demo_admin
      = Some (AdKeyDeleted ''k1'', b)" using demo_delete by (rule demo_answer)
  from edits_are_atomic_and_audited [OF b] b show ?thesis
    by (auto simp: edits_def demo_admin_in_def demo_admin_def NewServer_def)
qed

theorem created_key_authenticates_witness:
  "\<exists>b plain k. admin_serve demo_admin_env [] OpKeyCreate (demo_admin_in ''lkpadm_x'' (Doc (JObj [(''id'', JStr ''k2'')]))) demo_admin
       = Some (AdKeyCreated ''k2'' plain (replicate 64 CHR ''0''), b)
     \<and> Authenticate demo_hash (sv_auth (ad_srv b)) (''Bearer '' @ plain) = Some k \<and> vk_ID k = ''k2''"
proof -
  obtain plain where "map_option fst (admin_serve demo_admin_env [] OpKeyCreate
      (demo_admin_in ''lkpadm_x'' (Doc (JObj [(''id'', JStr ''k2'')]))) demo_admin)
     = Some (AdKeyCreated ''k2'' plain (replicate 64 CHR ''0''))" using demo_create ..
  then obtain b where b: "admin_serve demo_admin_env [] OpKeyCreate
      (demo_admin_in ''lkpadm_x'' (Doc (JObj [(''id'', JStr ''k2'')]))) demo_admin
     = Some (AdKeyCreated ''k2'' plain (replicate 64 CHR ''0''), b)" by (rule demo_answer)
  have "ae_hx demo_admin_env = demo_hash" "\<And>j n. ae_draw demo_admin_env j = Some n \<Longrightarrow> n < 57" by (simp_all add: demo_admin_env_def)
  with created_key_authenticates [OF b] b show ?thesis by auto
qed

theorem revoked_key_is_refused_witness:
  "\<exists>b. admin_serve demo_admin_env [] (OpKeyDelete ''k1'') (demo_admin_in ''lkpadm_x'' (Bytes [])) demo_admin = Some (AdKeyDeleted ''k1'', b)
     \<and> Authenticate demo_hash (sv_auth (ad_srv b)) (''Bearer lkpgw_secret'') \<noteq> Some demo_key"
proof -
  obtain b where b: "admin_serve demo_admin_env [] (OpKeyDelete ''k1'') (demo_admin_in ''lkpadm_x'' (Bytes [])) demo_admin
      = Some (AdKeyDeleted ''k1'', b)" using demo_delete by (rule demo_answer)
  from revoked_key_is_refused [OF b, of "''k1''" demo_hash "''Bearer lkpgw_secret''" demo_key] b show ?thesis
    by (auto simp: demo_key_def)
qed

theorem only_adoption_adds_targets_witness:
  "\<exists>b ms. answer_calls [(demo_admin_env, demo_flow_env, [], Manage (OpKeyDelete ''k1''), demo_admin_in ''lkpadm_x'' (Bytes []))] demo_admin = Some b
     \<and> gc_Models (sv_cfg (ad_srv b)) = gc_Models demo_full"
proof -
  obtain b where b: "admin_serve demo_admin_env [] (OpKeyDelete ''k1'') (demo_admin_in ''lkpadm_x'' (Bytes [])) demo_admin
      = Some (AdKeyDeleted ''k1'', b)" using demo_delete by (rule demo_answer)
  let ?xs = "[(demo_admin_env, demo_flow_env, [], Manage (OpKeyDelete ''k1''), demo_admin_in ''lkpadm_x'' (Bytes []))]"
  have x: "answer_calls ?xs demo_admin = Some b" by (simp add: b)
  have "list_all (\<lambda>(e, _). yaml_ok demo_admin_keys e) ?xs" by (simp add: demo_yaml_ok)
  from only_adoption_adds_targets [OF this x demo_admin_inv] x show ?thesis by (auto simp: demo_admin_def NewServer_def)
qed

theorem edit_interrupts_runs_witness:
  "\<exists>b svc. admin_serve demo_admin_env [] (OpKeyDelete ''k1'') (demo_admin_in ''lkpadm_x'' (Bytes [])) demo_admin = Some (AdKeyDeleted ''k1'', b)
     \<and> ad_workflows b = Some svc \<and> r_Status demo_run = RunRunning
     \<and> (\<exists>run. map_of (rst_runs (sv_runs svc)) ''r1'' = Some run \<and> r_ErrorCode run = ''interrupted'')"
proof -
  let ?S = "admin_serve demo_admin_env [] (OpKeyDelete ''k1'') (demo_admin_in ''lkpadm_x'' (Bytes [])) demo_admin"
  obtain b where b: "?S = Some (AdKeyDeleted ''k1'', b)" using demo_delete by (rule demo_answer)
  have "map_option (\<lambda>(_, b). (ad_workflows b \<noteq> None, gc_Platform (sv_cfg (ad_srv b)) \<noteq> None)) ?S = Some (True, True)"
    by code_simp
  then obtain svc pc where w: "ad_workflows b = Some svc" "gc_Platform (sv_cfg (ad_srv b)) = Some pc" by (auto simp: b)
  have "edits (OpKeyDelete ''k1'')" by (simp add: edits_def)
  from edit_interrupts_runs [OF b this _ w refl] have "\<exists>run'. map_of (rst_runs (sv_runs svc)) (r_ID demo_run) = Some run'
      \<and> r_Status run' = RunFailed \<and> r_ErrorCode run' = ''interrupted''"
    by (auto simp: demo_admin_env_def demo_files_def is_live_def demo_run_def)
  then show ?thesis using b w by (auto simp: demo_run_def)
qed

text \<open>A service that knows no model, with a draft that names one.\<close>

definition demo_strict_service :: service where
  "demo_strict_service = demo_service\<lparr>sv_resolver := Some \<lparr>ModelExists = (\<lambda>_. False), PoolExists = (\<lambda>_. True)\<rparr>\<rparr>"

definition demo_flow_admin :: admin_state where
  "demo_flow_admin = demo_admin\<lparr>ad_srv := (ad_srv demo_admin)\<lparr>sv_platform := True\<rparr>, ad_workflows := Some demo_strict_service\<rparr>"

theorem single_flow_error_is_internal_witness:
  "fst (flow_serve demo_admin_env demo_flow_env [] (RtFlowPublish ''f1'') (demo_admin_in ''lkpadm_x'' (Doc (JObj [(''revision'', JNum ''1'')])))
      demo_flow_admin) = FlowError (api_error 500 ''internal_error'' [])"
proof -
  let ?r = "demo_admin_in ''lkpadm_x'' (Doc (JObj [(''revision'', JNum ''1'')]))"
  have t: "has_token (ae_hx demo_admin_env) (ao_TokenHash (ad_opts demo_flow_admin)) ?r" by code_simp
  have svc: "workflowService (ad_srv demo_flow_admin, ad_workflows demo_flow_admin) = Some demo_strict_service"
    by (simp add: workflowService_def demo_flow_admin_def demo_admin_def NewServer_def demo_full_def PlatformEnabled_def
        gw_with_defaults_def platform_defaults_def demo_config_def with_defaults_def)
  have "map_sum id dr_Revision (GetDraft (sv_flows demo_strict_service) ''f1'') = Inr 1" by code_simp
  then obtain d where d: "GetDraft (sv_flows demo_strict_service) ''f1'' = Inr d" "dr_Revision d = 1"
    by (cases "GetDraft (sv_flows demo_strict_service) ''f1''") auto
  have u: "unmarshal (dec_struct dec_revision 0) (limited_body 65536 ?r) = Some (dr_Revision d)"
  proof -
    have "unmarshal (dec_struct dec_revision 0) (limited_body 65536 ?r) = Some 1" by code_simp
    then show ?thesis by (simp add: d(2))
  qed
  have "map_sum length id (case GetDraft (sv_flows demo_strict_service) ''f1'' of Inl _ \<Rightarrow> Inl []
      | Inr d \<Rightarrow> ValidateDefinition demo_strict_service (Doc (dr_Definition d)) []) = Inl 1" by code_simp
  then obtain errs where e: "ValidateDefinition demo_strict_service (Doc (dr_Definition d)) [] = Inl errs" "length errs = 1"
    by (cases "ValidateDefinition demo_strict_service (Doc (dr_Definition d)) []") (auto simp: d(1))
  from single_flow_error_is_internal [OF t svc d(1) u e(1), of demo_flow_env "[]"] e(2) show ?thesis by simp
qed

end
