(* ===== verification/Upgrade.thy ===== *)
theory Upgrade
  imports Template Json
begin

text \<open>
  Upgrading and rolling back the gateway of a compose deployment (\<open>cmd/private-gateway/upgrade.go\<close>): the
  image line in the compose file, the wait for health, the application of a version with its automatic
  rollback, the two commands and the history file.

  The regular expression \<open>composeImageRe\<close> is the recogniser \<open>match_image\<close>: what its groups take is
  determined from left to right, except that the image takes as much as it can and that the spaces after the
  version are given back to the last line end. Which writes of the file succeed, what docker answers and
  what the health polls see is a parameter (\<open>up_env\<close>); the flags are parsed already. \<open>parse_time\<close> and
  \<open>fmt_time\<close> are the JSON form of a time.
\<close>

section \<open>The image line\<close>

definition nl :: char where "nl = CHR 0x0A"

text \<open>\<open>(\S*/private-gateway):(\S+)\<close> on a whole token: the last place where it can be divided.\<close>

fun split_image :: "string \<Rightarrow> (string \<times> string) option" where
  "split_image [] = None"
| "split_image (c # cs) =
     (case split_image cs of
        Some (img, ver) \<Rightarrow> Some (c # img, ver)
      | None \<Rightarrow>
          if prefix ''/private-gateway:'' (c # cs) \<and> length (c # cs) > 17
          then Some (''/private-gateway'', drop 17 (c # cs)) else None)"

text \<open>\<open>(\s*)$\<close>: all the spaces at the end of the text, otherwise those before the last line end among them.\<close>

definition line_tail :: "string \<Rightarrow> (string \<times> string) option" where
  "line_tail s =
     (if dropWhile is_re_space s = [] then Some (s, [])
      else
       (case dropWhile (\<lambda>c. c \<noteq> nl) (rev (takeWhile is_re_space s)) of
          [] \<Rightarrow> None
        | _ # p \<Rightarrow> Some (rev p, drop (length p) s)))"

record image_match =
  im_head :: string
  im_image :: string
  im_version :: string
  im_tail :: string
  im_rest :: string

definition match_image :: "string \<Rightarrow> image_match option" where
  "match_image s =
     (let w1 = takeWhile is_re_space s; s1 = dropWhile is_re_space s in
      if \<not> prefix ''image:'' s1 then None
      else
       (let s2 = drop 6 s1; w2 = takeWhile is_re_space s2; s3 = dropWhile is_re_space s2;
            token = takeWhile (\<lambda>c. \<not> is_re_space c) s3; s4 = dropWhile (\<lambda>c. \<not> is_re_space c) s3
        in case split_image token of
             None \<Rightarrow> None
           | Some (img, ver) \<Rightarrow>
               (case line_tail s4 of
                  None \<Rightarrow> None
                | Some (tail, rest) \<Rightarrow>
                    Some \<lparr>im_head = w1 @ ''image:'' @ w2, im_image = img, im_version = ver, im_tail = tail, im_rest = rest\<rparr>)))"

definition matched :: "image_match \<Rightarrow> string" where
  "matched m = im_head m @ im_image m @ '':'' @ im_version m @ im_tail m"

text \<open>The leftmost match, with the text before it; \<open>bol\<close> says whether the text begins a line.\<close>

fun first_image :: "bool \<Rightarrow> string \<Rightarrow> (string \<times> image_match) option" where
  "first_image bol [] = None"
| "first_image bol (c # cs) =
     (case (if bol then match_image (c # cs) else None) of
        Some m \<Rightarrow> Some ([], m)
      | None \<Rightarrow> map_option (\<lambda>(p, m). (c # p, m)) (first_image (c = nl) cs))"

lemma line_tail_append: "line_tail s = Some (t, r) \<Longrightarrow> s = t @ r"
proof -
  assume a: "line_tail s = Some (t, r)"
  show ?thesis
  proof (cases "dropWhile is_re_space s = []")
    case False
    define w where "w = takeWhile is_re_space s"
    obtain c p where d: "dropWhile (\<lambda>c. c \<noteq> nl) (rev w) = c # p" "t = rev p" "r = drop (length p) s"
      using a False unfolding line_tail_def w_def if_not_P [OF False]
      by (cases "dropWhile (\<lambda>c. c \<noteq> nl) (rev (takeWhile is_re_space s))") simp_all
    have "rev w = takeWhile (\<lambda>c. c \<noteq> nl) (rev w) @ c # p" using takeWhile_dropWhile_id [of "\<lambda>c. c \<noteq> nl" "rev w"] d(1) by simp
    then have "rev (rev w) = rev (takeWhile (\<lambda>c. c \<noteq> nl) (rev w) @ c # p)" by (rule arg_cong)
    then have w: "w = rev p @ c # rev (takeWhile (\<lambda>c. c \<noteq> nl) (rev w))" by simp
    have "s = w @ dropWhile is_re_space s" by (simp add: w_def)
    also have "\<dots> = (rev p @ c # rev (takeWhile (\<lambda>c. c \<noteq> nl) (rev w))) @ dropWhile is_re_space s"
      by (rule arg_cong [OF w, where f = "\<lambda>x. x @ dropWhile is_re_space s"])
    finally have "s = rev p @ (c # rev (takeWhile (\<lambda>c. c \<noteq> nl) (rev w))) @ dropWhile is_re_space s" by simp
    then have "take (length p) s = rev p" by (metis append_eq_conv_conj length_rev)
    then show ?thesis using d(2,3) append_take_drop_id [of "length p" s] by simp
  qed (use a in \<open>simp add: line_tail_def\<close>)
qed

lemma split_image_append: "split_image t = Some (img, ver) \<Longrightarrow> t = img @ '':'' @ ver \<and> ver \<noteq> []"
proof (induction t arbitrary: img)
  case (Cons c cs)
  show ?case
  proof (cases "split_image cs")
    case None
    then have "prefix ''/private-gateway:'' (c # cs)" "length (c # cs) > 17" "img = ''/private-gateway''" "ver = drop 17 (c # cs)"
      using Cons.prems by (simp_all split: if_splits)
    then show ?thesis by (auto simp: prefix_def)
  next
    case (Some x)
    then show ?thesis using Cons by (cases x) auto
  qed
qed simp

text \<open>The parts of a match.\<close>

definition parts_ok :: "string \<Rightarrow> string \<Rightarrow> string \<Rightarrow> string \<Rightarrow> bool" where
  "parts_ok w1 w2 t s4 \<longleftrightarrow> list_all is_re_space w1 \<and> list_all is_re_space w2 \<and> list_all (\<lambda>c. \<not> is_re_space c) t \<and> t \<noteq> []
     \<and> (s4 = [] \<or> is_re_space (hd s4))"

lemma spaces_then: "list_all P w \<Longrightarrow> x = [] \<or> \<not> P (hd x) \<Longrightarrow> takeWhile P (w @ x) = w \<and> dropWhile P (w @ x) = x"
  by (induction w) (cases x; simp)+

lemma hd_token [simp]: "\<not> is_re_space CHR ''i''"
  by (simp add: is_re_space_def)

lemma match_parts:
  assumes "parts_ok w1 w2 t s4"
  shows "match_image (w1 @ ''image:'' @ w2 @ t @ s4) =
    (case split_image t of None \<Rightarrow> None
     | Some (img, ver) \<Rightarrow>
         (case line_tail s4 of None \<Rightarrow> None
          | Some (tail, rest) \<Rightarrow> Some \<lparr>im_head = w1 @ ''image:'' @ w2, im_image = img, im_version = ver, im_tail = tail, im_rest = rest\<rparr>))"
proof -
  have a: "takeWhile is_re_space (w1 @ ''image:'' @ w2 @ t @ s4) = w1" "dropWhile is_re_space (w1 @ ''image:'' @ w2 @ t @ s4) = ''image:'' @ w2 @ t @ s4"
    using spaces_then [of is_re_space w1 "''image:'' @ w2 @ t @ s4"] assms by (simp_all add: parts_ok_def)
  have b: "takeWhile is_re_space (w2 @ t @ s4) = w2" "dropWhile is_re_space (w2 @ t @ s4) = t @ s4"
    using spaces_then [of is_re_space w2 "t @ s4"] assms by (cases t; simp add: parts_ok_def)+
  have c: "takeWhile (\<lambda>c. \<not> is_re_space c) (t @ s4) = t" "dropWhile (\<lambda>c. \<not> is_re_space c) (t @ s4) = s4"
    using spaces_then [of "\<lambda>c. \<not> is_re_space c" t s4] assms by (simp_all add: parts_ok_def)
  have d: "drop 6 (''image:'' @ w2 @ t @ s4) = w2 @ t @ s4" "prefix ''image:'' (''image:'' @ w2 @ t @ s4)" by simp_all
  show ?thesis unfolding match_image_def Let_def a d b c by simp
qed

lemma match_image_parts:
  assumes "match_image s = Some m"
  obtains w1 w2 t s4 where "s = w1 @ ''image:'' @ w2 @ t @ s4" "parts_ok w1 w2 t s4" "im_head m = w1 @ ''image:'' @ w2"
    "split_image t = Some (im_image m, im_version m)" "line_tail s4 = Some (im_tail m, im_rest m)"
proof -
  have all: "list_all P (takeWhile P x)" for P :: "char \<Rightarrow> bool" and x by (induction x) auto
  define s2 where "s2 = drop 6 (dropWhile is_re_space s)"
  define s3 where "s3 = dropWhile is_re_space s2"
  define t where "t = takeWhile (\<lambda>c. \<not> is_re_space c) s3"
  define s4 where "s4 = dropWhile (\<lambda>c. \<not> is_re_space c) s3"
  have p: "prefix ''image:'' (dropWhile is_re_space s)"
    using assms by (auto simp: match_image_def Let_def split: if_splits)
  then have s1: "dropWhile is_re_space s = ''image:'' @ s2" by (auto simp: prefix_def s2_def)
  have m: "(case split_image t of None \<Rightarrow> None
           | Some (img, ver) \<Rightarrow> (case line_tail s4 of None \<Rightarrow> None
                | Some (tail, rest) \<Rightarrow>
                    Some \<lparr>im_head = takeWhile is_re_space s @ ''image:'' @ takeWhile is_re_space s2, im_image = img, im_version = ver,
                          im_tail = tail, im_rest = rest\<rparr>)) = Some m"
    using assms p unfolding t_def s4_def s3_def s2_def by (simp add: match_image_def Let_def)
  then obtain img ver where i: "split_image t = Some (img, ver)" by (auto split: option.splits)
  then obtain tail rest where r: "line_tail s4 = Some (tail, rest)" using m by (auto split: option.splits)
  have t: "t \<noteq> []" using i by auto
  have "s4 = [] \<or> is_re_space (hd s4)" using hd_dropWhile [of "\<lambda>c. \<not> is_re_space c" s3] by (auto simp: s4_def)
  then have "parts_ok (takeWhile is_re_space s) (takeWhile is_re_space s2) t s4"
    using t all [of is_re_space] all [of "\<lambda>c. \<not> is_re_space c" s3] by (simp add: parts_ok_def t_def)
  moreover have "s = takeWhile is_re_space s @ ''image:'' @ takeWhile is_re_space s2 @ t @ s4"
  proof -
    have "s = takeWhile is_re_space s @ ''image:'' @ s2" using takeWhile_dropWhile_id [of is_re_space s] s1 by simp
    moreover have "s2 = takeWhile is_re_space s2 @ t @ s4" by (simp add: s3_def t_def s4_def)
    ultimately show ?thesis by (simp only: append_assoc)
  qed
  ultimately show ?thesis using m i r that by auto
qed

lemma match_image_append:
  assumes "match_image s = Some m"
  shows "s = matched m @ im_rest m" and "im_version m \<noteq> []"
proof -
  obtain w1 w2 t s4 where p: "s = w1 @ ''image:'' @ w2 @ t @ s4" "im_head m = w1 @ ''image:'' @ w2"
      "split_image t = Some (im_image m, im_version m)" "line_tail s4 = Some (im_tail m, im_rest m)"
    using assms by (rule match_image_parts)
  then show "s = matched m @ im_rest m" "im_version m \<noteq> []"
    using split_image_append [OF p(3)] line_tail_append [OF p(4)] by (simp_all add: matched_def)
qed

lemma first_image_append: "first_image bol s = Some (p, m) \<Longrightarrow> s = p @ matched m @ im_rest m \<and> im_version m \<noteq> []"
proof (induction bol s arbitrary: p rule: first_image.induct)
  case (2 bol c cs)
  show ?case
  proof (cases "if bol then match_image (c # cs) else None")
    case None
    then obtain q where "first_image (c = nl) cs = Some (q, m)" "p = c # q" using "2.prems" by auto
    then show ?thesis using "2.IH" [OF None] by simp
  next
    case (Some m')
    then have "p = []" "m' = m" "match_image (c # cs) = Some m" using "2.prems" by (auto split: if_splits)
    then show ?thesis using match_image_append [of "c # cs" m] by simp
  qed
qed simp

lemma first_image_shorter: "first_image bol s = Some (p, m) \<Longrightarrow> length (im_rest m) < length s"
  using first_image_append [of bol s p m] by (simp add: matched_def)

text \<open>\<open>ReplaceAll\<close>: every match, each from where the last one ended.\<close>

definition line_start :: "image_match \<Rightarrow> bool" where
  "line_start m \<longleftrightarrow> im_tail m \<noteq> [] \<and> last (im_tail m) = nl"

function replace_images :: "(image_match \<Rightarrow> string) \<Rightarrow> bool \<Rightarrow> string \<Rightarrow> string" where
  "replace_images f bol s =
     (case first_image bol s of
        None \<Rightarrow> s
      | Some (p, m) \<Rightarrow> p @ f m @ replace_images f (line_start m) (im_rest m))"
  by pat_completeness auto
termination
  by (relation "measure (\<lambda>(_, _, s). length s)") (auto intro: first_image_shorter)

declare replace_images.simps [simp del]

text \<open>The template of \<open>ReplaceAll\<close>: \<open>$name\<close> and \<open>${name}\<close> stand for a group, \<open>$$\<close> for a dollar sign.\<close>

definition extract_ref :: "string \<Rightarrow> (string \<times> string) option" where
  "extract_ref s =
     (if s \<noteq> [] \<and> hd s = CHR ''{'' then
        (let name = takeWhile is_word (tl s); r = dropWhile is_word (tl s)
         in if name \<noteq> [] \<and> r \<noteq> [] \<and> hd r = CHR ''}'' then Some (name, tl r) else None)
      else (let name = takeWhile is_word s in if name \<noteq> [] then Some (name, dropWhile is_word s) else None))"

definition group_text :: "string list \<Rightarrow> string \<Rightarrow> string" where
  "group_text gs name =
     (if list_all is_digit name \<and> (hd name \<noteq> CHR ''0'' \<or> length name = 1) \<and> digits_val name < int (length gs)
      then gs ! nat (digits_val name) else [])"

lemma extract_ref_shorter: "extract_ref s = Some (n, r) \<Longrightarrow> length r < length s"
proof (cases s)
  case (Cons c cs)
  have "length (dropWhile is_word xs) \<le> length xs" for xs by (simp add: length_dropWhile_le)
  moreover have "takeWhile is_word xs \<noteq> [] \<Longrightarrow> length (dropWhile is_word xs) < length xs" for xs
    by (cases xs) (auto simp: less_Suc_eq_le length_dropWhile_le split: if_splits)
  moreover assume "extract_ref s = Some (n, r)"
  ultimately show ?thesis
    by (auto simp: extract_ref_def Let_def Cons less_Suc_eq_le split: if_splits) (meson le_diff_conv2 less_imp_le_nat order.trans diff_le_self)+
qed (simp add: extract_ref_def)

function go_expand :: "string list \<Rightarrow> string \<Rightarrow> string" where
  "go_expand gs [] = []"
| "go_expand gs (c # cs) =
     (if c \<noteq> CHR ''$'' then c # go_expand gs cs
      else if cs \<noteq> [] \<and> hd cs = CHR ''$'' then CHR ''$'' # go_expand gs (tl cs)
      else
       (case extract_ref cs of
          None \<Rightarrow> CHR ''$'' # go_expand gs cs
        | Some (name, rest) \<Rightarrow> group_text gs name @ go_expand gs rest))"
  by pat_completeness auto
termination
  by (relation "measure (\<lambda>(_, s). length s)") (auto dest: extract_ref_shorter)

definition image_groups :: "image_match \<Rightarrow> string list" where
  "image_groups m = [matched m, im_head m, im_image m, im_version m, im_tail m]"

definition currentComposeVersion :: "string \<Rightarrow> string option" where
  "currentComposeVersion content = map_option (\<lambda>(_, m). im_version m) (first_image True content)"

definition rewriteComposeVersion :: "string \<Rightarrow> string \<Rightarrow> string option" where
  "rewriteComposeVersion content version =
     (if first_image True content = None then None
      else Some (replace_images (\<lambda>m. go_expand (image_groups m) (''${1}${2}:'' @ version @ ''${4}'')) True content))"

section \<open>Applying a version\<close>

text \<open>
  The host: the compose file (\<open>None\<close>: unreadable), the history file and every \<open>up\<close> with the text it was run
  on and whether it succeeded. A write of the compose file may leave it as it was or truncated.
\<close>

datatype write_result = WroteAll | WroteNothing | WrotePart string

record host =
  ho_compose :: "string option"
  ho_state :: "body option"
  ho_ups :: "(string option \<times> bool) list"

record up_env =
  ue_write :: "nat \<Rightarrow> write_result"
  ue_docker :: "nat \<Rightarrow> bool"
  ue_legacy :: "nat \<Rightarrow> bool"
  ue_poll :: "nat \<Rightarrow> nat \<Rightarrow> bool \<times> nat"
  ue_url_ok :: bool
  ue_timeout :: nat
  ue_state_written :: bool
  ue_now :: time

definition write_compose :: "write_result \<Rightarrow> string \<Rightarrow> host \<Rightarrow> bool \<times> host" where
  "write_compose w content h =
     (case w of
        WroteAll \<Rightarrow> (True, h\<lparr>ho_compose := Some content\<rparr>)
      | WroteNothing \<Rightarrow> (False, h)
      | WrotePart part \<Rightarrow> (False, h\<lparr>ho_compose := Some part\<rparr>))"

definition composeUp :: "up_env \<Rightarrow> nat \<Rightarrow> host \<Rightarrow> bool \<times> host" where
  "composeUp e n h = (let ok = ue_docker e n \<or> ue_legacy e n in (ok, h\<lparr>ho_ups := ho_ups h @ [(ho_compose h, ok)]\<rparr>))"

text \<open>\<open>waitHealthy\<close>: a poll gives its result and the time it took; two seconds pass between polls.\<close>

function poll_loop :: "(nat \<Rightarrow> bool \<times> nat) \<Rightarrow> nat \<Rightarrow> nat \<Rightarrow> nat \<Rightarrow> bool" where
  "poll_loop poll i now deadline =
     (if now < deadline
      then (let (ok, d) = poll i in if ok then True else poll_loop poll (Suc i) (now + d + nat (2 * sec)) deadline)
      else False)"
  by pat_completeness auto
termination
  by (relation "measure (\<lambda>(_, _, now, deadline). deadline - now)") (auto simp: sec_def)

declare poll_loop.simps [simp del]

definition waitHealthy :: "up_env \<Rightarrow> nat \<Rightarrow> bool" where
  "waitHealthy e n \<longleftrightarrow> ue_url_ok e \<and> poll_loop (ue_poll e n) 0 0 (ue_timeout e)"

datatype apply_error =
    ComposeUnreadable | NoImageLine | ComposeWrite | RestoreFailed | RollbackApplyFailed | RolledBackUnhealthy | RolledBack

definition applyVersion :: "up_env \<Rightarrow> string \<Rightarrow> host \<Rightarrow> apply_error option \<times> host" where
  "applyVersion e version h =
     (case ho_compose h of
        None \<Rightarrow> (Some ComposeUnreadable, h)
      | Some original \<Rightarrow>
          (case rewriteComposeVersion original version of
             None \<Rightarrow> (Some NoImageLine, h)
           | Some next_text \<Rightarrow>
               (case write_compose (ue_write e 0) next_text h of
                  (False, h1) \<Rightarrow> (Some ComposeWrite, h1)
                | (True, h1) \<Rightarrow>
                    (let (up, h2) = composeUp e 0 h1 in
                     if up \<and> waitHealthy e 0 then (None, h2)
                     else
                      (case write_compose (ue_write e 1) original h2 of
                         (False, h3) \<Rightarrow> (Some RestoreFailed, h3)
                       | (True, h3) \<Rightarrow>
                           (let (up2, h4) = composeUp e 1 h3 in
                            if \<not> up2 then (Some RollbackApplyFailed, h4)
                            else if \<not> waitHealthy e 1 then (Some RolledBackUnhealthy, h4)
                            else (Some RolledBack, h4)))))))"

section \<open>The history file\<close>

record upgrade_state =
  us_PreviousVersion :: string
  us_CurrentVersion :: string
  us_UpdatedAt :: time

definition dec_upgrade_state :: "(string \<Rightarrow> time option) \<Rightarrow> string \<Rightarrow> json \<Rightarrow> upgrade_state \<Rightarrow> upgrade_state option" where
  "dec_upgrade_state parse_time k v x =
     (if key_eq k ''previous_version'' then map_option (\<lambda>n. x\<lparr>us_PreviousVersion := n\<rparr>) (dec_string (us_PreviousVersion x) v)
      else if key_eq k ''current_version'' then map_option (\<lambda>n. x\<lparr>us_CurrentVersion := n\<rparr>) (dec_string (us_CurrentVersion x) v)
      else if key_eq k ''updated_at'' then
        (case v of JNull \<Rightarrow> Some x | JStr s \<Rightarrow> map_option (\<lambda>t. x\<lparr>us_UpdatedAt := t\<rparr>) (parse_time s) | _ \<Rightarrow> None)
      else Some x)"

datatype state_error = StateAbsent | StateCorrupt

definition loadUpgradeState :: "(string \<Rightarrow> time option) \<Rightarrow> host \<Rightarrow> state_error + upgrade_state" where
  "loadUpgradeState parse_time h =
     (case ho_state h of
        None \<Rightarrow> Inl StateAbsent
      | Some raw \<Rightarrow>
          (case unmarshal (dec_struct (dec_upgrade_state parse_time) \<lparr>us_PreviousVersion = [], us_CurrentVersion = [], us_UpdatedAt = 0\<rparr>) raw of
             None \<Rightarrow> Inl StateCorrupt
           | Some st \<Rightarrow> Inr st))"

definition saveUpgradeState :: "(time \<Rightarrow> string) \<Rightarrow> bool \<Rightarrow> upgrade_state \<Rightarrow> host \<Rightarrow> host" where
  "saveUpgradeState fmt_time ok st h =
     (if ok then h\<lparr>ho_state := Some (Doc (JObj [(''previous_version'', JStr (us_PreviousVersion st)),
         (''current_version'', JStr (us_CurrentVersion st)), (''updated_at'', JStr (fmt_time (us_UpdatedAt st)))]))\<rparr>
      else h)"

definition saveState :: "(time \<Rightarrow> string) \<Rightarrow> up_env \<Rightarrow> string \<Rightarrow> string \<Rightarrow> host \<Rightarrow> host" where
  "saveState fmt_time e from_version to_version h =
     saveUpgradeState fmt_time (ue_state_written e)
       \<lparr>us_PreviousVersion = from_version, us_CurrentVersion = to_version, us_UpdatedAt = ue_now e\<rparr> h"

section \<open>The commands\<close>

definition runUpgrade :: "(time \<Rightarrow> string) \<Rightarrow> up_env \<Rightarrow> string \<Rightarrow> bool \<Rightarrow> host \<Rightarrow> int \<times> host" where
  "runUpgrade fmt_time e to_version noApply h =
     (if to_version = [] then (2, h)
      else
       (case ho_compose h of
          None \<Rightarrow> (1, h)
        | Some original \<Rightarrow>
            (case currentComposeVersion original of
               None \<Rightarrow> (1, h)
             | Some current \<Rightarrow>
                 if current = to_version then (0, h)
                 else if noApply then
                  (case rewriteComposeVersion original to_version of
                     None \<Rightarrow> (1, h)
                   | Some next_text \<Rightarrow>
                       (case write_compose (ue_write e 0) next_text h of
                          (False, h1) \<Rightarrow> (1, h1)
                        | (True, h1) \<Rightarrow> (0, saveState fmt_time e current to_version h1)))
                 else
                  (case applyVersion e to_version h of
                     (Some _, h1) \<Rightarrow> (1, h1)
                   | (None, h1) \<Rightarrow> (0, saveState fmt_time e current to_version h1)))))"

definition runRollback :: "(string \<Rightarrow> time option) \<Rightarrow> (time \<Rightarrow> string) \<Rightarrow> up_env \<Rightarrow> bool \<Rightarrow> host \<Rightarrow> int \<times> host" where
  "runRollback parse_time fmt_time e noApply h =
     (case loadUpgradeState parse_time h of
        Inl _ \<Rightarrow> (1, h)
      | Inr st \<Rightarrow>
          if us_PreviousVersion st = [] then (1, h)
          else if noApply then
           (case ho_compose h of
              None \<Rightarrow> (1, h)
            | Some original \<Rightarrow>
                (case rewriteComposeVersion original (us_PreviousVersion st) of
                   None \<Rightarrow> (1, h)
                 | Some next_text \<Rightarrow>
                     (case write_compose (ue_write e 0) next_text h of
                        (False, h1) \<Rightarrow> (1, h1)
                      | (True, h1) \<Rightarrow> (0, saveState fmt_time e (us_CurrentVersion st) (us_PreviousVersion st) h1))))
          else
           (case applyVersion e (us_PreviousVersion st) h of
              (Some _, h1) \<Rightarrow> (1, h1)
            | (None, h1) \<Rightarrow> (0, saveState fmt_time e (us_CurrentVersion st) (us_PreviousVersion st) h1)))"

section \<open>Rewriting the image line\<close>

text \<open>A version that can stand in a tag: it has no space, no dollar sign and no further image name.\<close>

definition version_ok :: "string \<Rightarrow> bool" where
  "version_ok v \<longleftrightarrow> v \<noteq> [] \<and> list_all (\<lambda>c. \<not> is_re_space c \<and> c \<noteq> CHR ''$'') v \<and> split_image v = None"

lemma go_expand_plain: "CHR ''$'' \<notin> set v \<Longrightarrow> go_expand gs (v @ r) = v @ go_expand gs r"
  by (induction v) auto

lemma digit_group: "is_digit c \<Longrightarrow> extract_ref (CHR ''{'' # c # CHR ''}'' # r) = Some ([c], r)"
  by (simp add: extract_ref_def is_word_def Let_def is_lower_def is_upper_def is_digit_def)

lemma expand_template:
  assumes "CHR ''$'' \<notin> set v"
  shows "go_expand (image_groups m) (''${1}${2}:'' @ v @ ''${4}'') = im_head m @ im_image m @ '':'' @ v @ im_tail m"
proof -
  have g: "group_text (image_groups m) ''1'' = im_head m" "group_text (image_groups m) ''2'' = im_image m"
    "group_text (image_groups m) ''4'' = im_tail m"
    by (simp_all add: group_text_def image_groups_def is_digit_def digits_val_def digit_val_def)
  have x: "extract_ref (''{1}'' @ r) = Some (''1'', r)" "extract_ref (''{2}'' @ r) = Some (''2'', r)" "extract_ref (''{4}'' @ r) = Some (''4'', r)" for r
    using digit_group [of "CHR ''1''" r] digit_group [of "CHR ''2''" r] digit_group [of "CHR ''4''" r] by (simp_all add: is_digit_def)
  show ?thesis using x [of "''${2}:'' @ v @ ''${4}''"] x [of "'':'' @ v @ ''${4}''"] x [of "[]"] go_expand_plain [OF assms]
    by (simp add: g)
qed

text \<open>Where the version of an image may be exchanged.\<close>

lemma split_image_prepend: "split_image t = Some (img, v) \<Longrightarrow> split_image (a @ t) = Some (a @ img, v)"
  by (induction a) auto

lemma split_image_end: "split_image t = Some (img, v) \<Longrightarrow> \<exists>a. img = a @ ''/private-gateway''"
proof (induction t arbitrary: img)
  case (Cons c cs)
  show ?case
  proof (cases "split_image cs")
    case None
    then have "img = [] @ ''/private-gateway''" using Cons.prems by (auto split: if_splits)
    then show ?thesis by blast
  next
    case (Some x)
    then obtain i where "img = c # i" "split_image cs = Some (i, v)" using Cons.prems by (cases x) auto
    then show ?thesis using Cons.IH by (metis append_Cons)
  qed
qed simp

lemma split_image_last: "split_image t = Some (img, v) \<Longrightarrow> split_image v = None"
proof (rule ccontr)
  assume t: "split_image t = Some (img, v)" and "split_image v \<noteq> None"
  then obtain i w where w: "split_image v = Some (i, w)" by auto
  have "t = img @ '':'' @ v" using split_image_append [OF t] by simp
  then have "split_image t = Some ((img @ '':'') @ i, w)" using split_image_prepend [OF w, of "img @ '':''"] by simp
  then have "v = w" using t by simp
  then show False using split_image_append [OF w] by auto
qed

lemma split_image_no_slash: "CHR ''/'' \<notin> set u \<Longrightarrow> split_image v = None \<Longrightarrow> split_image (u @ v) = None"
  by (induction u) auto

lemma split_image_swap:
  assumes "split_image t = Some (img, v)" and "split_image v' = None" and "v' \<noteq> []"
  shows "split_image (img @ '':'' @ v') = Some (img, v')"
proof -
  obtain a where a: "img = a @ ''/private-gateway''" using split_image_end [OF assms(1)] ..
  have "split_image (''private-gateway:'' @ v') = None" by (rule split_image_no_slash) (simp_all add: assms(2))
  then have "split_image (CHR ''/'' # (''private-gateway:'' @ v')) = Some (''/private-gateway'', v')"
    using assms(3) by (cases v') simp_all
  from split_image_prepend [OF this, of a] show ?thesis by (simp add: a)
qed

end
