(* ===== verification/UpgradeProps.thy ===== *)
theory UpgradeProps
  imports Upgrade
begin

text \<open>
  Properties of the upgrade: the rewritten compose file carries the new version and differs nowhere else, an
  upgrade is all or nothing, a rollback gives back the file before it, and the wait for health sees a success
  in time.
\<close>

text \<open>The match with another version.\<close>

definition with_version :: "image_match \<Rightarrow> string \<Rightarrow> string" where
  "with_version m v = matched (m\<lparr>im_version := v\<rparr>) @ im_rest m"

lemma with_version_same [simp]: "with_version m (im_version m) = matched m @ im_rest m"
  by (simp add: with_version_def matched_def)

lemma with_version_again [simp]: "with_version (m\<lparr>im_version := u\<rparr>) v = with_version m v"
  by (simp add: with_version_def)

definition image_word :: string where "image_word = ''image:''"

lemma match_split:
  assumes "match_image (with_version m (im_version m)) = Some m"
  obtains w1 w2 s4 where "im_head m = w1 @ image_word @ w2" "line_tail s4 = Some (im_tail m, im_rest m)"
    "\<And>v. with_version m v = w1 @ image_word @ w2 @ (im_image m @ '':'' @ v) @ s4"
    "\<And>v. version_ok v \<or> v = im_version m \<Longrightarrow> parts_ok w1 w2 (im_image m @ '':'' @ v) s4 \<and> split_image (im_image m @ '':'' @ v) = Some (im_image m, v)"
proof -
  obtain w1 w2 t s4 where p: "parts_ok w1 w2 t s4" "im_head m = w1 @ image_word @ w2"
      "split_image t = Some (im_image m, im_version m)" "line_tail s4 = Some (im_tail m, im_rest m)"
    using assms unfolding image_word_def by (rule match_image_parts)
  have t: "t = im_image m @ '':'' @ im_version m" using split_image_append [OF p(3)] by simp
  have parts: "parts_ok w1 w2 (im_image m @ '':'' @ v) s4 \<and> split_image (im_image m @ '':'' @ v) = Some (im_image m, v)"
    if v: "version_ok v \<or> v = im_version m" for v
  proof (cases "v = im_version m")
    case True
    then show ?thesis using p(1,3) t by simp
  next
    case False
    then have ok: "split_image v = None" "v \<noteq> []" "list_all (\<lambda>c. \<not> is_re_space c) v"
      using v by (auto simp: version_ok_def list_all_iff)
    have "\<not> is_re_space CHR '':''" by (simp add: is_re_space_def)
    then have "parts_ok w1 w2 (im_image m @ '':'' @ v) s4" using p(1) t ok(3) by (simp add: parts_ok_def)
    then show ?thesis using split_image_swap [OF p(3) ok(1,2)] by blast
  qed
  have s4: "s4 = im_tail m @ im_rest m" by (rule line_tail_append [OF p(4)])
  have whole: "with_version m v = w1 @ image_word @ w2 @ (im_image m @ '':'' @ v) @ s4" for v
    unfolding with_version_def matched_def s4 using p(2) by simp
  show ?thesis by (rule that [OF p(2,4) whole parts])
qed

lemma match_swap:
  assumes "match_image (with_version m (im_version m)) = Some m" and "version_ok v"
  shows "match_image (with_version m v) = Some (m\<lparr>im_version := v\<rparr>)"
proof -
  obtain w1 w2 s4 where p: "im_head m = w1 @ image_word @ w2" "line_tail s4 = Some (im_tail m, im_rest m)"
    "with_version m v = w1 @ image_word @ w2 @ (im_image m @ '':'' @ v) @ s4"
    "parts_ok w1 w2 (im_image m @ '':'' @ v) s4" "split_image (im_image m @ '':'' @ v) = Some (im_image m, v)"
    using match_split [OF assms(1)] assms(2) by metis
  show ?thesis using match_parts [OF p(4)] unfolding p(3,5) p(2) p(1) [unfolded image_word_def] image_word_def by (simp add: p(1) image_word_def)
qed

text \<open>A text that ends a line does not see which version follows.\<close>

lemma append_cut:
  assumes "a @ b = c @ d"
  obtains (inside) u where "c = a @ u" "b = u @ d" | (beyond) u where "u \<noteq> []" "a = c @ u" "d = u @ b"
proof -
  from assms obtain u where "a = c @ u \<and> u @ b = d \<or> a @ u = c \<and> b = u @ d" unfolding append_eq_append_conv2 by blast
  then show ?thesis by (cases "u = []") (auto intro: inside beyond)
qed

lemma line_tail_None: "line_tail s = None \<longleftrightarrow> dropWhile is_re_space s \<noteq> [] \<and> nl \<notin> set (takeWhile is_re_space s)"
proof (cases "dropWhile (\<lambda>c. c \<noteq> nl) (rev (takeWhile is_re_space s))")
  case Nil
  then have "\<forall>x \<in> set (takeWhile is_re_space s). x \<noteq> nl"
    using dropWhile_eq_Nil_conv [of "\<lambda>c. c \<noteq> nl" "rev (takeWhile is_re_space s)"] by simp
  then show ?thesis unfolding line_tail_def Nil by auto
next
  case (Cons c p)
  then have "\<not> (\<forall>x \<in> set (takeWhile is_re_space s). x \<noteq> nl)"
    using dropWhile_eq_Nil_conv [of "\<lambda>c. c \<noteq> nl" "rev (takeWhile is_re_space s)"] by simp
  then have "nl \<in> set (takeWhile is_re_space s)" by blast
  then show ?thesis unfolding line_tail_def Cons by simp
qed

lemma nl_space [simp]: "is_re_space nl"
  by (simp add: is_re_space_def nl_def)

lemma line_tail_before:
  assumes "q \<noteq> []" and "last q = nl" and "line_tail (q @ y) \<noteq> None"
  shows "line_tail (q @ x) \<noteq> None"
proof (cases "list_all is_re_space q")
  case True
  then have "takeWhile is_re_space (q @ x) = q @ takeWhile is_re_space x" by (simp add: list_all_iff)
  then have "nl \<in> set (takeWhile is_re_space (q @ x))" using assms(1,2) last_in_set [of q] by simp
  then show ?thesis by (simp add: line_tail_None)
next
  case False
  then obtain c where c: "c \<in> set q" "\<not> is_re_space c" by (auto simp: list_all_iff)
  have "dropWhile is_re_space q \<noteq> []" using c by (auto simp: dropWhile_eq_Nil_conv)
  have tw: "takeWhile is_re_space (q @ z) = takeWhile is_re_space q" for z using takeWhile_append1 [of c q is_re_space z] c by simp
  have dw: "dropWhile is_re_space (q @ z) = dropWhile is_re_space q @ z" for z using dropWhile_append1 [of c q is_re_space z] c by simp
  show ?thesis using assms(3) c unfolding line_tail_None tw dw by auto
qed

lemma tokens_unique:
  assumes "list_all is_re_space w" "list_all is_re_space z" "x \<noteq> []" "\<not> is_re_space (hd x)" "y \<noteq> []" "\<not> is_re_space (hd y)" "w @ x = z @ y"
  shows "w = z \<and> x = y"
  using spaces_then [of is_re_space w x] spaces_then [of is_re_space z y] assms by metis

lemma tokens_unique':
  assumes "list_all (\<lambda>c. \<not> is_re_space c) w" "list_all (\<lambda>c. \<not> is_re_space c) z" "x = [] \<or> is_re_space (hd x)" "y = [] \<or> is_re_space (hd y)" "w @ x = z @ y"
  shows "w = z \<and> x = y"
  using spaces_then [of "\<lambda>c. \<not> is_re_space c" w x] spaces_then [of "\<lambda>c. \<not> is_re_space c" z y] assms by metis

lemma image_word_facts [simp]: "list_all (\<lambda>c. \<not> is_re_space c) image_word" "image_word \<noteq> []" "\<not> is_re_space (hd image_word)"
  "nl \<notin> set image_word" "split_image image_word = None"
  by (simp_all add: image_word_def is_re_space_def nl_def)

lemma match_some:
  "parts_ok c d v l \<Longrightarrow> split_image v \<noteq> None \<Longrightarrow> line_tail l \<noteq> None \<Longrightarrow> match_image (c @ image_word @ d @ v @ l) \<noteq> None"
  unfolding image_word_def using match_parts [of c d v l] by (auto simp del: append_assoc append.simps)

lemma match_behind:
  assumes q: "q \<noteq> []" "last q = nl" and p: "parts_ok a b u r" "split_image u \<noteq> None" "line_tail r \<noteq> None"
    and x: "parts_ok w1 w2 t s4" "split_image t \<noteq> None" "line_tail s4 \<noteq> None" and y: "parts_ok w1 w2 t' s4"
    and eq: "q @ w1 @ image_word @ w2 @ t' @ s4 = b @ u @ r"
  shows "match_image (a @ image_word @ q @ w1 @ image_word @ w2 @ t @ s4) \<noteq> None"
proof -
  have u: "u \<noteq> []" "\<not> is_re_space (hd u)" "list_all (\<lambda>c. \<not> is_re_space c) u" "r = [] \<or> is_re_space (hd r)" "nl \<notin> set u"
    using p(1) by (auto simp: parts_ok_def list_all_iff hd_in_set)
  from eq show ?thesis
  proof (cases rule: append_cut)
    case (inside z)
    have "z = w1 \<and> u @ r = image_word @ w2 @ t' @ s4"
      by (rule tokens_unique) (use inside p(1) x(1) u(1,2) in \<open>simp_all add: parts_ok_def\<close>)
    then have z: "b = q @ w1" "u @ r = image_word @ w2 @ t' @ s4" using inside(1) by simp_all
    show ?thesis
    proof (cases "w2 = []")
      case True
      obtain img ver where "split_image t = Some (img, ver)" using x(2) by auto
      then have t: "split_image (image_word @ t) \<noteq> None" by (simp add: split_image_prepend)
      have "parts_ok a (q @ w1) (image_word @ t) s4" using p(1) x(1) z(1) by (simp add: parts_ok_def)
      from match_some [OF this t x(3)] show ?thesis using True by simp
    next
      case False
      have "u = image_word \<and> r = w2 @ t' @ s4"
        by (rule tokens_unique') (use False x(1) u(3,4) z(2) in \<open>simp_all add: parts_ok_def hd_append list_all_iff image_word_facts(1) [unfolded list_all_iff]\<close>)
      then show ?thesis using p(2) by simp
    qed
  next
    case (beyond z)
    have nz: "nl \<in> set z" using beyond(1,2) q(2) last_in_set [of z] by simp
    from beyond(3) show ?thesis
    proof (cases rule: append_cut)
      case (beyond z2)
      then have "set z \<subseteq> set u" by simp
      then show ?thesis using nz u(5) by blast
    next
      case (inside z2)
      have ne: "z2 \<noteq> []" using nz u(5) inside(1) by auto
      then have z2: "z2 \<noteq> []" "last z2 = nl" using q(2) \<open>q = b @ z\<close> inside(1) by simp_all
      have "parts_ok a b u (z2 @ w1 @ image_word @ w2 @ t @ s4)" using p(1) z2(1) inside(2) by (simp add: parts_ok_def)
      from match_some [OF this p(2) line_tail_before [OF z2]] p(3) inside(2) show ?thesis
        using \<open>q = b @ z\<close> inside(1) by simp
    qed
  qed
qed

lemma match_before:
  assumes q: "q \<noteq> []" "last q = nl"
    and x: "parts_ok w1 w2 t s4" "split_image t \<noteq> None" "line_tail s4 \<noteq> None" and y: "parts_ok w1 w2 t' s4"
    and m: "match_image (q @ w1 @ image_word @ w2 @ t' @ s4) = Some m"
  shows "match_image (q @ w1 @ image_word @ w2 @ t @ s4) \<noteq> None"
proof -
  let ?x = "w1 @ image_word @ w2 @ t @ s4" and ?y = "w1 @ image_word @ w2 @ t' @ s4"
  obtain a b u r where p: "q @ ?y = a @ image_word @ b @ u @ r" "parts_ok a b u r" "split_image u \<noteq> None" "line_tail r \<noteq> None"
    using match_image_parts [OF m] unfolding image_word_def by (metis option.distinct(1))
  have u: "u \<noteq> []" "\<not> is_re_space (hd u)" "list_all (\<lambda>c. \<not> is_re_space c) u" "r = [] \<or> is_re_space (hd r)" "nl \<notin> set u"
    using p(2) by (auto simp: parts_ok_def list_all_iff hd_in_set)
  from p(1) [symmetric] show ?thesis
  proof (cases rule: append_cut)
    case (beyond v)
    then have "parts_ok (q @ w1) w2 t s4" using x(1) p(2) by (simp add: parts_ok_def)
    from match_some [OF this x(2,3)] show ?thesis by simp
  next
    case (inside v)
    show ?thesis
    proof (cases "v = []")
      case True
      then have "parts_ok (q @ w1) w2 t s4" using x(1) p(2) inside(1) by (simp add: parts_ok_def)
      from match_some [OF this x(2,3)] show ?thesis by simp
    next
      case False
      then have "nl \<in> set v" using inside(1) q(2) last_in_set [of v] by simp
      from inside(2) [symmetric] show ?thesis
      proof (cases rule: append_cut)
        case (inside z)
        have "set v \<subseteq> set image_word" unfolding inside(1) by simp
        then show ?thesis using \<open>nl \<in> set v\<close> image_word_facts(4) by blast
      next
        case (beyond b2)
        have b2: "last b2 = nl" using beyond(1,2) False inside(1) q(2) by simp
        have whole: "q @ z = a @ image_word @ b2 @ z" for z using inside(1) beyond(2) by simp
        show ?thesis unfolding whole by (rule match_behind [OF beyond(1) b2 p(2-4) x y beyond(3) [symmetric]])
      qed
    qed
  qed
qed

lemma first_image_at: "first_image bol s = Some (p, m) \<Longrightarrow> match_image (matched m @ im_rest m) = Some m \<and> (if p = [] then bol else last p = nl)"
proof (induction bol s arbitrary: p rule: first_image.induct)
  case (2 bol c cs)
  show ?case
  proof (cases "if bol then match_image (c # cs) else None")
    case None
    then obtain q where "first_image (c = nl) cs = Some (q, m)" "p = c # q" using "2.prems" by auto
    then show ?thesis using "2.IH" [OF None] by (auto split: if_splits)
  next
    case (Some m')
    then have "p = []" "bol" "match_image (c # cs) = Some m" using "2.prems" by (auto split: if_splits)
    moreover have "c # cs = matched m @ im_rest m" by (rule match_image_append [OF calculation(3)])
    ultimately show ?thesis by simp
  qed
qed simp

lemma match_before_swap:
  assumes m: "match_image (with_version m (im_version m)) = Some m" and v: "version_ok v" and q: "q \<noteq> []" "last q = nl"
    and b: "match_image (q @ with_version m v) = Some m1"
  shows "match_image (q @ with_version m (im_version m)) \<noteq> None"
proof -
  obtain w1 w2 s4 where p: "line_tail s4 = Some (im_tail m, im_rest m)"
    "\<And>u. with_version m u = w1 @ image_word @ w2 @ (im_image m @ '':'' @ u) @ s4"
    "\<And>u. version_ok u \<or> u = im_version m \<Longrightarrow> parts_ok w1 w2 (im_image m @ '':'' @ u) s4 \<and> split_image (im_image m @ '':'' @ u) = Some (im_image m, u)"
    using match_split [OF m] by metis
  show ?thesis unfolding p(2)
    by (rule match_before [OF q _ _ _ _ b [unfolded p(2)]]) (use p(1) p(3) [of v] p(3) [of "im_version m"] v in simp_all)
qed

lemma first_image_swap:
  "first_image bol s = Some (p, m) \<Longrightarrow> version_ok v \<Longrightarrow> first_image bol (p @ with_version m v) = Some (p, m\<lparr>im_version := v\<rparr>)"
proof (induction bol s arbitrary: p rule: first_image.induct)
  case (2 bol c cs)
  note at = first_image_at [OF "2.prems"(1)] and whole = first_image_append [OF "2.prems"(1)]
  have m: "match_image (with_version m (im_version m)) = Some m" using at by simp
  show ?case
  proof (cases "if bol then match_image (c # cs) else None")
    case None
    then obtain q where q: "first_image (c = nl) cs = Some (q, m)" "p = c # q" using "2.prems" by auto
    have "\<not> bol \<or> match_image (p @ with_version m v) = None"
    proof (rule ccontr)
      assume "\<not> ?thesis"
      then obtain m1 where "bol" "match_image (p @ with_version m v) = Some m1" by blast
      moreover have "p \<noteq> []" "last p = nl" using at q(2) by (auto split: if_splits)
      ultimately have "match_image (p @ with_version m (im_version m)) \<noteq> None"
        using match_before_swap [OF m "2.prems"(2)] by blast
      then show False using None \<open>bol\<close> whole by simp
    qed
    then show ?thesis using "2.IH" [OF None q(1) "2.prems"(2)] q(2) by auto
  next
    case (Some m')
    then have "p = []" "bol" using "2.prems" by (auto split: if_splits)
    moreover have "match_image (with_version m v) = Some (m\<lparr>im_version := v\<rparr>)" by (rule match_swap [OF m "2.prems"(2)])
    ultimately show ?thesis by (cases "with_version m v") (simp_all add: match_image_def)
  qed
qed simp

text \<open>Texts with one image line; its version.\<close>

definition one_image :: "string \<Rightarrow> bool" where
  "one_image s \<longleftrightarrow> (case first_image True s of None \<Rightarrow> False | Some (_, m) \<Rightarrow> first_image (line_start m) (im_rest m) = None)"

lemma rewrite_one:
  assumes "first_image True s = Some (p, m)" and "one_image s" and "version_ok v"
  shows "rewriteComposeVersion s v = Some (p @ with_version m v)"
proof -
  have "first_image (line_start m) (im_rest m) = None" using assms(1,2) by (simp add: one_image_def)
  then have rest: "replace_images f (line_start m) (im_rest m) = im_rest m" for f
    by (subst replace_images.simps) simp
  have "CHR ''$'' \<notin> set v" using assms(3) by (auto simp: version_ok_def list_all_iff)
  from expand_template [OF this, of m] rest show ?thesis
    unfolding rewriteComposeVersion_def by (subst replace_images.simps) (simp add: assms(1) with_version_def matched_def)
qed

lemma one_image_swap:
  assumes "first_image True s = Some (p, m)" and "one_image s" and "version_ok v"
  shows "one_image (p @ with_version m v)" and "currentComposeVersion (p @ with_version m v) = Some v"
  using assms first_image_swap [OF assms(1,3)] by (simp_all add: one_image_def currentComposeVersion_def line_start_def)

lemma rewrite_twice:
  assumes "one_image s" and "currentComposeVersion s = Some v0" and "version_ok v0" and "version_ok v" and "rewriteComposeVersion s v = Some s'"
  shows "currentComposeVersion s' = Some v" and "rewriteComposeVersion s' v0 = Some s"
proof -
  obtain p m where m: "first_image True s = Some (p, m)" "im_version m = v0"
    using assms(2) by (auto simp: currentComposeVersion_def)
  have s': "s' = p @ with_version m v" using rewrite_one [OF m(1) assms(1,4)] assms(5) by simp
  show "currentComposeVersion s' = Some v" unfolding s' by (rule one_image_swap [OF m(1) assms(1,4)])
  have "rewriteComposeVersion s' v0 = Some (p @ with_version (m\<lparr>im_version := v\<rparr>) v0)"
    unfolding s' by (rule rewrite_one [OF first_image_swap [OF m(1) assms(4)] one_image_swap(1) [OF m(1) assms(1,4)] assms(3)])
  also have "\<dots> = Some s" using first_image_append [OF m(1)] m(2) with_version_same [of m] by simp
  finally show "rewriteComposeVersion s' v0 = Some s" .
qed

section \<open>Waiting for health\<close>

definition poll_start :: "(nat \<Rightarrow> bool \<times> nat) \<Rightarrow> nat \<Rightarrow> nat" where
  "poll_start poll k = (\<Sum>i<k. snd (poll i) + nat (2 * sec))"

lemma poll_loop_iff: "poll_loop poll i now deadline \<longleftrightarrow> (\<exists>k. fst (poll (i + k)) \<and> now + poll_start (\<lambda>j. poll (i + j)) k < deadline)"
proof (induction poll i now deadline rule: poll_loop.induct)
  case (1 poll i now deadline)
  have shift: "(\<exists>k. P k) \<longleftrightarrow> P 0 \<or> (\<exists>k. P (Suc k))" for P :: "nat \<Rightarrow> bool" by (metis not0_implies_Suc)
  have zero: "poll_start f 0 = 0" for f by (simp add: poll_start_def)
  have step: "poll_start (\<lambda>j. poll (i + j)) (Suc k) = snd (poll i) + nat (2 * sec) + poll_start (\<lambda>j. poll (Suc i + j)) k" for k
    unfolding poll_start_def by (subst sum.lessThan_Suc_shift) simp
  show ?case
  proof (cases "now < deadline")
    case True
    obtain ok d where p: "poll i = (ok, d)" by (cases "poll i")
    show ?thesis
      using "1.IH" [OF True p [symmetric] refl] True
      by (subst shift, subst poll_loop.simps, simp only: step zero) (simp add: p add_ac)
  next
    case False
    then show ?thesis by (subst poll_loop.simps) auto
  qed
qed

text \<open>waiting for health succeeds exactly when one of the polls, started two seconds after the last one ended
  and before the deadline, gets status 200. A success after the deadline does not count, and one before it is
  never overlooked; the loop ends whatever the polls answer.\<close>

theorem wait_sees_a_timely_success:
  "waitHealthy e n \<longleftrightarrow> ue_url_ok e \<and> (\<exists>k. fst (ue_poll e n k) \<and> poll_start (ue_poll e n) k < ue_timeout e)"
  unfolding waitHealthy_def poll_loop_iff by simp

section \<open>All or nothing\<close>

lemma write_whole: "w = WroteAll \<or> w = WroteNothing \<Longrightarrow>
    write_compose w c h = (w = WroteAll, if w = WroteAll then h\<lparr>ho_compose := Some c\<rparr> else h)"
  by (auto simp: write_compose_def)

lemma applyVersion_done:
  assumes "applyVersion e version h = (None, h1)"
  shows "\<exists>c c'. ho_compose h = Some c \<and> rewriteComposeVersion c version = Some c' \<and>
     h1 = h\<lparr>ho_compose := Some c', ho_ups := ho_ups h @ [(Some c', True)]\<rparr> \<and> waitHealthy e 0"
  using assms by (auto simp: applyVersion_def write_compose_def composeUp_def Let_def split: option.splits prod.splits if_splits write_result.splits)

lemma applyVersion_undone:
  assumes "applyVersion e version h = (Some err, h1)" and "ho_compose h = Some c" and "\<forall>part. ue_write e 0 \<noteq> WrotePart part" and "ue_write e 1 = WroteAll"
  shows "ho_compose h1 = Some c \<and> ho_state h1 = ho_state h \<and> (ho_ups h1 = ho_ups h \<or> (\<exists>c' ok1 ok2. ho_ups h1 = ho_ups h @ [(Some c', ok1), (Some c, ok2)]))"
proof (cases "rewriteComposeVersion c version")
  case None
  then show ?thesis using assms(1,2) by (auto simp: applyVersion_def)
next
  case (Some c')
  have "ue_write e 0 = WroteAll \<or> ue_write e 0 = WroteNothing" using assms(3) by (cases "ue_write e 0") auto
  note w = write_whole [OF this]
  show ?thesis using assms(1,2,4) Some
    by (auto simp: applyVersion_def w write_whole composeUp_def Let_def split: if_splits)
qed


definition demo_compose :: string where
  "demo_compose = ''services:'' @ [nl] @ ''  gw:'' @ [nl] @ ''    image: r/private-gateway:1.0'' @ [nl]"

definition up_ok :: up_env where
  "up_ok = \<lparr>ue_write = \<lambda>_. WroteAll, ue_docker = \<lambda>_. True, ue_legacy = \<lambda>_. False, ue_poll = \<lambda>_ k. (k = 0, 0),
     ue_url_ok = True, ue_timeout = 1, ue_state_written = True, ue_now = 0\<rparr>"

definition demo_host :: host where
  "demo_host = \<lparr>ho_compose = Some demo_compose, ho_state = None, ho_ups = []\<rparr>"

lemma demo_current: "currentComposeVersion demo_compose = Some ''1.0''"
  by code_simp

lemma demo_env: "ue_write up_ok n = WroteAll" "ue_state_written up_ok" "ho_compose demo_host = Some demo_compose"
  by (simp_all add: up_ok_def demo_host_def)


lemma runUpgrade_done:
  assumes "runUpgrade fmt_time e v noApply h = (0, h1)" and "ho_compose h = Some c" and "currentComposeVersion c = Some v0" and "v \<noteq> v0"
  shows "\<exists>c'. rewriteComposeVersion c v = Some c' \<and> ho_compose h1 = Some c' \<and> ho_state h1 = ho_state (saveState fmt_time e v0 v h)"
proof (cases noApply)
  case True
  then show ?thesis using assms
    by (auto simp: runUpgrade_def write_compose_def saveState_def saveUpgradeState_def split: option.splits if_splits write_result.splits)
next
  case False
  then obtain h2 where a: "applyVersion e v h = (None, h2)" "h1 = saveState fmt_time e v0 v h2"
    using assms by (auto simp: runUpgrade_def split: prod.splits option.splits if_splits)
  show ?thesis using applyVersion_done [OF a(1)] assms(2) a(2) by (auto simp: saveState_def saveUpgradeState_def)
qed

lemma runRollback_done:
  assumes "runRollback parse_time fmt_time e noApply h = (0, h1)" and "loadUpgradeState parse_time h = Inr st" and "ho_compose h = Some c"
  shows "\<exists>c'. rewriteComposeVersion c (us_PreviousVersion st) = Some c' \<and> ho_compose h1 = Some c'"
proof (cases noApply)
  case True
  then show ?thesis using assms
    by (auto simp: runRollback_def write_compose_def saveState_def saveUpgradeState_def split: option.splits if_splits write_result.splits)
next
  case False
  then obtain h2 where a: "applyVersion e (us_PreviousVersion st) h = (None, h2)" "ho_compose h1 = ho_compose h2"
    using assms by (auto simp: runRollback_def saveState_def saveUpgradeState_def split: prod.splits option.splits if_splits)
  show ?thesis using applyVersion_done [OF a(1)] assms(3) a(2) by auto
qed

lemma state_keys:
  "key_eq k k" "\<not> key_eq ''current_version'' ''previous_version''" "\<not> key_eq ''updated_at'' ''previous_version''"
  "\<not> key_eq ''updated_at'' ''current_version''"
  by (simp add: key_eq_def) code_simp+

lemma load_saved:
  assumes "ho_state h = ho_state (saveState fmt_time e v0 v h0)" and "ue_state_written e" and "parse_time (fmt_time (ue_now e)) = Some t"
  shows "loadUpgradeState parse_time h = Inr \<lparr>us_PreviousVersion = v0, us_CurrentVersion = v, us_UpdatedAt = t\<rparr>"
  using assms
  by (simp add: loadUpgradeState_def saveState_def saveUpgradeState_def dec_upgrade_state_def state_keys)

text \<open>C19: an upgrade followed by a rollback gives back the compose file, byte for byte, when it has one gateway
  image whose version and the new one are tags (no space, no dollar sign), and the history was written.\<close>

theorem rollback_restores:
  assumes "one_image c" and "currentComposeVersion c = Some v0" and "version_ok v0" and "version_ok v" and "v \<noteq> v0"
    and "ho_compose h = Some c" and "runUpgrade fmt_time e v noApply h = (0, h1)" and "ue_state_written e"
    and "parse_time (fmt_time (ue_now e)) \<noteq> None" and "runRollback parse_time fmt_time e' noApply' h1 = (0, h2)"
  shows "ho_compose h2 = Some c"
proof -
  obtain c' where c': "rewriteComposeVersion c v = Some c'" "ho_compose h1 = Some c'" "ho_state h1 = ho_state (saveState fmt_time e v0 v h)"
    using runUpgrade_done [OF assms(7,6,2,5)] by blast
  obtain t where "parse_time (fmt_time (ue_now e)) = Some t" using assms(9) by auto
  then have st: "loadUpgradeState parse_time h1 = Inr \<lparr>us_PreviousVersion = v0, us_CurrentVersion = v, us_UpdatedAt = t\<rparr>"
    using load_saved [of h1 fmt_time e v0 v h parse_time t] c'(3) assms(8) by simp
  show ?thesis using runRollback_done [OF assms(10) st c'(2)] rewrite_twice(2) [OF assms(1-4) c'(1)] by simp
qed

lemma rollback_restores_witness:
  "ho_compose (snd (runRollback (\<lambda>_. Some 0) (\<lambda>_. ''t'') up_ok True (snd (runUpgrade (\<lambda>_. ''t'') up_ok ''2.0'' False demo_host)))) = Some demo_compose"
proof -
  let ?u = "runUpgrade (\<lambda>_. ''t'') up_ok ''2.0'' False demo_host"
  let ?r = "runRollback (\<lambda>_. Some 0) (\<lambda>_. ''t'') up_ok True (snd ?u)"
  have ok: "one_image demo_compose" "version_ok ''1.0''" "version_ok ''2.0''" by code_simp+
  have "fst ?u = 0" by code_simp
  then have u: "?u = (0, snd ?u)" by (metis prod.collapse)
  have "fst ?r = 0" by code_simp
  then have r: "?r = (0, snd ?r)" by (metis prod.collapse)
  show ?thesis by (rule rollback_restores [OF ok(1) demo_current ok(2,3) _ demo_env(3) u demo_env(2) _ r]) simp_all
qed

text \<open>
  A torn write of the compose file is reported, but the original is not put back: only what follows the write
  is rolled back (\<open>upgrade.go\<close>, lines 143 to 145).
\<close>

lemma torn_write_is_not_restored:
  "applyVersion (up_ok\<lparr>ue_write := \<lambda>_. WrotePart ''serv''\<rparr>) ''2.0'' demo_host = (Some ComposeWrite, demo_host\<lparr>ho_compose := Some ''serv''\<rparr>)"
proof -
  have "rewriteComposeVersion demo_compose ''2.0'' \<noteq> None" using demo_current by (auto simp: rewriteComposeVersion_def currentComposeVersion_def)
  then show ?thesis by (auto simp: applyVersion_def demo_env write_compose_def)
qed

end
