(* ===== verification/Mock.thy ===== *)
theory Mock
  imports Native
begin

text \<open>
  The engine behind the endpoint \<open>mock:\<close> (\<open>platform/enginecontract/mock.go\<close>), with the records of the control
  interface (\<open>enginecontract/engine.go\<close>, 147-204): loading with the approval of digests, draining, plain and
  streamed generation, counting of tokens, status, capacity and manifest.

  The loaded models are an association list; the order in which a Go map is listed is an argument. A consumer
  of events is a function \<open>emit\<close> on its own state, as in \<open>Native\<close>; \<open>ts\<close> gives the time stamps and
  \<open>gone\<close> says from which event on the context is cancelled.
\<close>

section \<open>Control interface\<close>

record model_status =
  ms_ModelInstanceID :: string
  ms_State :: string
  ms_ArtifactID :: string
  ms_ErrorCode :: string

record capacity_info =
  ca_TotalVRAMMB :: int
  ca_FreeVRAMMB :: int
  ca_ReservedVRAMMB :: int
  ca_ActiveSequences :: int
  ca_MaxSequences :: int
  ca_QueuedRequests :: int
  ca_MaxQueue :: int
  ca_KVUsedMB :: int
  ca_KVFreeMB :: int
  ca_LoadedModel :: string
  ca_ContextLimit :: int
  ca_EstimatedAdmissionTokens :: int
  ca_Health :: string
  ca_Throttled :: bool

record manifest_info =
  ma_SchemaVersion :: string
  ma_ArtifactID :: string
  ma_ModelFamily :: string
  ma_Architecture :: string
  ma_ModelVersion :: string
  ma_WeightFormat :: string
  ma_Precision :: string
  ma_MaxContextTokens :: int
  ma_LicenseReviewID :: string
  ma_CertifiedProfiles :: "string list"

record load_request =
  lr_ModelInstanceID :: string
  lr_ArtifactPath :: string
  lr_ArtifactDigest :: string

record engine_capabilities =
  ec_EngineVersion :: string
  ec_DataAPIVersion :: string
  ec_ControlAPIVersion :: string
  ec_LoadedModels :: "string list"
  ec_Streaming :: bool
  ec_CountTokens :: bool

record mock_engine =
  mk_state :: string
  mk_draining :: bool
  mk_loaded :: "(string \<times> model_status) list"
  mk_ApprovedDigests :: "string list option"
  mk_Capacity :: capacity_info

definition NewMockEngine :: mock_engine where
  "NewMockEngine =
     \<lparr>mk_state = ''idle'', mk_draining = False, mk_loaded = [], mk_ApprovedDigests = None,
      mk_Capacity = \<lparr>ca_TotalVRAMMB = 24576, ca_FreeVRAMMB = 24576, ca_ReservedVRAMMB = 0, ca_ActiveSequences = 0, ca_MaxSequences = 16,
        ca_QueuedRequests = 0, ca_MaxQueue = 64, ca_KVUsedMB = 0, ca_KVFreeMB = 0, ca_LoadedModel = [], ca_ContextLimit = 0,
        ca_EstimatedAdmissionTokens = 0, ca_Health = ''healthy'', ca_Throttled = False\<rparr>\<rparr>"

definition mock_error :: "string \<Rightarrow> string \<Rightarrow> bool \<Rightarrow> engine_error" where
  "mock_error code msg retryable = \<lparr>ee_RequestID = [], ee_Code = code, ee_Message = msg, ee_Retryable = retryable, ee_Component = []\<rparr>"

definition LoadModel :: "load_request \<Rightarrow> mock_engine \<Rightarrow> engine_error option \<times> mock_engine" where
  "LoadModel req m =
     (if lr_ModelInstanceID req = [] \<or> lr_ArtifactDigest req = [] then
        (Some (mock_error CodeInvalidRequest ''model_instance_id and artifact_digest are required'' False), m)
      else if (case mk_ApprovedDigests m of None \<Rightarrow> False | Some ds \<Rightarrow> lr_ArtifactDigest req \<notin> set ds) then
        (Some (mock_error CodeArtifactVerificationFailed ''artifact digest is not approved'' False),
         m\<lparr>mk_loaded := alist_put (lr_ModelInstanceID req)
            \<lparr>ms_ModelInstanceID = lr_ModelInstanceID req, ms_State = ''failed'', ms_ArtifactID = [],
             ms_ErrorCode = CodeArtifactVerificationFailed\<rparr> (mk_loaded m)\<rparr>)
      else
        (None, m\<lparr>mk_loaded := alist_put (lr_ModelInstanceID req)
            \<lparr>ms_ModelInstanceID = lr_ModelInstanceID req, ms_State = ''ready'', ms_ArtifactID = lr_ArtifactDigest req, ms_ErrorCode = []\<rparr>
            (mk_loaded m), mk_state := ''ready''\<rparr>))"

definition UnloadModel :: "string \<Rightarrow> mock_engine \<Rightarrow> engine_error option \<times> mock_engine" where
  "UnloadModel i m =
     (if map_of (mk_loaded m) i = None then (Some (mock_error CodeModelNotLoaded ''not loaded'' False), m)
      else (None, m\<lparr>mk_loaded := filter (\<lambda>(k, _). k \<noteq> i) (mk_loaded m)\<rparr>))"

definition mock_Drain :: "mock_engine \<Rightarrow> engine_error option \<times> mock_engine" where
  "mock_Drain m = (None, m\<lparr>mk_draining := True, mk_state := ''draining''\<rparr>)"

definition mock_Resume :: "mock_engine \<Rightarrow> engine_error option \<times> mock_engine" where
  "mock_Resume m = (None, m\<lparr>mk_draining := False, mk_state := ''ready''\<rparr>)"

definition GetModelStatus :: "mock_engine \<Rightarrow> string \<Rightarrow> model_status" where
  "GetModelStatus m i =
     (case map_of (mk_loaded m) i of
        None \<Rightarrow> \<lparr>ms_ModelInstanceID = i, ms_State = ''unloaded'', ms_ArtifactID = [], ms_ErrorCode = []\<rparr>
      | Some st \<Rightarrow> st)"

definition GetCapacity :: "mock_engine \<Rightarrow> capacity_info" where
  "GetCapacity m = (mk_Capacity m)\<lparr>ca_ActiveSequences := 0\<rparr>"

definition GetManifest :: "mock_engine \<Rightarrow> string \<Rightarrow> engine_error + manifest_info" where
  "GetManifest m i =
     (case map_of (mk_loaded m) i of
        None \<Rightarrow> Inl (mock_error CodeModelNotLoaded ''not loaded'' False)
      | Some st \<Rightarrow>
          Inr \<lparr>ma_SchemaVersion = ''1'', ma_ArtifactID = ms_ArtifactID st, ma_ModelFamily = ''mock'', ma_Architecture = ''mock-'' @ i,
               ma_ModelVersion = [], ma_WeightFormat = ''safetensors'', ma_Precision = [], ma_MaxContextTokens = 0,
               ma_LicenseReviewID = [], ma_CertifiedProfiles = []\<rparr>)"

definition DataAPIVersion :: string where [go_defs]: "DataAPIVersion = ''platform-engine-data-v1''"
definition ControlAPIVersion :: string where [go_defs]: "ControlAPIVersion = ''platform-engine-control-v1''"

definition GetCapabilities :: "(string list \<Rightarrow> string list) \<Rightarrow> mock_engine \<Rightarrow> engine_capabilities" where
  "GetCapabilities order m =
     \<lparr>ec_EngineVersion = ''mock-0.0.0'', ec_DataAPIVersion = DataAPIVersion, ec_ControlAPIVersion = ControlAPIVersion,
      ec_LoadedModels = order (map fst (filter (\<lambda>(_, st). ms_State st = ''ready'') (mk_loaded m))),
      ec_Streaming = True, ec_CountTokens = True\<rparr>"

section \<open>Data interface\<close>

definition modelReady :: "mock_engine \<Rightarrow> string \<Rightarrow> engine_error option" where
  "modelReady m i =
     (if mk_draining m then Some (mock_error CodeEngineDraining ''engine is draining'' True)
      else
       (case map_of (mk_loaded m) i of
          None \<Rightarrow> Some (mock_error CodeModelNotLoaded ''model instance is not loaded'' True)
        | Some st \<Rightarrow> if ms_State st \<noteq> ''ready'' then Some (mock_error CodeModelNotLoaded ''model instance is not loaded'' True) else None))"

definition quarter :: "string \<Rightarrow> int" where
  "quarter s = int (length s) div 4"

definition last_user :: "engine_input \<Rightarrow> string" where
  "last_user inp =
     (let u = fold (\<lambda>msg acc. if Role msg = ''user'' then Content msg else acc) (Messages inp) []
      in if u = [] then Prompt inp else u)"

definition Generate :: "time \<Rightarrow> mock_engine \<Rightarrow> generate_request \<Rightarrow> engine_error + generate_response" where
  "Generate now m req =
     (if gr_RequestID req = [] \<or> ModelInstanceID req = [] then
        Inl (mock_error CodeInvalidRequest ''request_id and model_instance_id are required'' False)
      else if Prompt (gr_Input req) \<noteq> [] \<and> Messages (gr_Input req) \<noteq> [] then
        Inl (mock_error CodeInvalidRequest ''prompt and messages are exclusive'' False)
      else
       (case modelReady m (ModelInstanceID req) of
          Some err \<Rightarrow> Inl err
        | None \<Rightarrow>
            if DeadlineUnixMS (gr_Scheduling req) > 0 \<and> now div msec > DeadlineUnixMS (gr_Scheduling req) then
              Inl (mock_error CodeDeadlineExceeded ''deadline exceeded'' False)
            else
             (let out = ''mock:'' @ ModelInstanceID req @ '':'' @ last_user (gr_Input req);
                  inTok = int (length (Prompt (gr_Input req))) + sum_list (map (quarter \<circ> Content) (Messages (gr_Input req)));
                  outTok = quarter out
              in Inr \<lparr>gres_RequestID = gr_RequestID req, gres_ModelInstanceID = ModelInstanceID req, OutputText = out,
                      FinishReason = ''stop'',
                      gres_Usage = \<lparr>ui_InputTokens = inTok, ui_OutputTokens = outTok, ui_TotalTokens = inTok + outTok\<rparr>,
                      gres_Timing = \<lparr>QueueMS = 0, TokenizeMS = 0, PrefillMS = 0, DecodeMS = 0, TotalMS = 1\<rparr>,
                      gres_Cache = \<lparr>ReuseHandle = [], AllowPrefixCache = False\<rparr>\<rparr>)))"

definition mock_CountTokens :: "mock_engine \<Rightarrow> string \<Rightarrow> engine_input \<Rightarrow> engine_error + int" where
  "mock_CountTokens m i inp =
     (case modelReady m i of
        Some err \<Rightarrow> Inl err
      | None \<Rightarrow> Inr (quarter (Prompt inp) + sum_list (map (quarter \<circ> Content) (Messages inp))))"

text \<open>\<open>strings.SplitAfter\<close> for a separator of one character.\<close>

fun split_after :: "char \<Rightarrow> string \<Rightarrow> string list" where
  "split_after c [] = [[]]"
| "split_after c (x # xs) =
     (if x = c then [x] # split_after c xs
      else (case split_after c xs of [] \<Rightarrow> [[x]] | p # ps \<Rightarrow> (x # p) # ps))"

definition mock_event :: "(nat \<Rightarrow> int) \<Rightarrow> string \<Rightarrow> nat \<Rightarrow> string \<Rightarrow> string \<Rightarrow> usage_info option \<Rightarrow> generate_response option \<Rightarrow> stream_event" where
  "mock_event ts rid seq type delta u final =
     \<lparr>se_Type = type, se_RequestID = rid, se_Sequence = int seq, se_TimestampMS = ts seq, Delta = delta, se_Usage = u,
      se_Final = final, se_Err = None\<rparr>"

definition consumer_gone :: engine_error where
  "consumer_gone = mock_error CodeRequestCancelled ''consumer gone'' False"

fun emit_parts ::
  "(stream_event \<Rightarrow> 'w \<Rightarrow> bool \<times> 'w) \<Rightarrow> (nat \<Rightarrow> int) \<Rightarrow> (nat \<Rightarrow> bool) \<Rightarrow> string \<Rightarrow> nat \<Rightarrow> string list \<Rightarrow> 'w
     \<Rightarrow> engine_error option \<times> nat \<times> 'w" where
  "emit_parts emit ts gone rid seq [] w = (None, seq, w)"
| "emit_parts emit ts gone rid seq (p # ps) w =
     (if p = [] then emit_parts emit ts gone rid seq ps w
      else if gone seq then (Some (mock_error CodeRequestCancelled ''cancelled'' False), seq, w)
      else
       (case emit (mock_event ts rid (Suc seq) EventTextDelta p None None) w of
          (False, w') \<Rightarrow> (Some consumer_gone, Suc seq, w')
        | (True, w') \<Rightarrow> emit_parts emit ts gone rid (Suc seq) ps w'))"

definition GenerateStream ::
  "time \<Rightarrow> mock_engine \<Rightarrow> (nat \<Rightarrow> int) \<Rightarrow> (nat \<Rightarrow> bool) \<Rightarrow> (stream_event \<Rightarrow> 'w \<Rightarrow> bool \<times> 'w) \<Rightarrow> generate_request \<Rightarrow> 'w
     \<Rightarrow> engine_error option \<times> 'w" where
  "GenerateStream now m ts gone emit req w =
     (case Generate now m req of
        Inl err \<Rightarrow> (Some err, w)
      | Inr resp \<Rightarrow>
          (case emit (mock_event ts (gr_RequestID req) 1 EventStarted [] None None) w of
             (False, w1) \<Rightarrow> (Some consumer_gone, w1)
           | (True, w1) \<Rightarrow>
               (case emit_parts emit ts gone (gr_RequestID req) 1 (split_after CHR '':'' (OutputText resp)) w1 of
                  (Some err, _, w2) \<Rightarrow> (Some err, w2)
                | (None, seq, w2) \<Rightarrow>
                    (case emit (mock_event ts (gr_RequestID req) (Suc seq) EventUsage [] (Some (gres_Usage resp)) None) w2 of
                       (False, w3) \<Rightarrow> (Some consumer_gone, w3)
                     | (True, w3) \<Rightarrow>
                         (None, snd (emit (mock_event ts (gr_RequestID req) (Suc (Suc seq)) EventCompleted [] None (Some resp)) w3))))))"

definition mock_Cancel :: "string \<Rightarrow> engine_error option" where
  "mock_Cancel i = None"

section \<open>Loading and draining\<close>

text \<open>What the model manager relies on: a load that succeeded is visible as the status \<open>ready\<close> and does not
  change other instances; draining refuses work and resuming admits it for the instances that are ready.\<close>

locale engine_control =
  fixes load :: "string \<Rightarrow> string \<Rightarrow> 's \<Rightarrow> bool \<times> 's"
    and status :: "'s \<Rightarrow> string \<Rightarrow> string"
    and drain :: "'s \<Rightarrow> 's"
    and resume :: "'s \<Rightarrow> 's"
    and admits :: "'s \<Rightarrow> string \<Rightarrow> bool"
  assumes load_ready: "load i d s = (True, s') \<Longrightarrow> status s' i = ''ready''"
    and load_other: "load i d s = (ok, s') \<Longrightarrow> j \<noteq> i \<Longrightarrow> status s' j = status s j"
    and drain_status: "status (drain s) i = status s i"
    and resume_status: "status (resume s) i = status s i"
    and drain_admits: "\<not> admits (drain s) i"
    and resume_admits: "admits (resume s) i \<longleftrightarrow> status s i = ''ready''"
begin

fun load_all :: "(string \<times> string) list \<Rightarrow> 's \<Rightarrow> bool list \<times> 's" where
  "load_all [] s = ([], s)"
| "load_all ((i, d) # xs) s = (let (ok, s1) = load i d s; (oks, s2) = load_all xs s1 in (ok # oks, s2))"

lemma load_all_other: "i \<notin> fst ` set xs \<Longrightarrow> status (snd (load_all xs s)) i = status s i"
proof (induction xs arbitrary: s)
  case (Cons x xs)
  obtain j d where x: "x = (j, d)" by (cases x)
  obtain ok s1 where l: "load j d s = (ok, s1)" by (cases "load j d s")
  then have "status s1 i = status s i" using Cons.prems x load_other by auto
  moreover have "snd (load_all (x # xs) s) = snd (load_all xs s1)" by (simp add: x l split: prod.split)
  ultimately show ?case using Cons.IH [of s1] Cons.prems by simp
qed simp

lemma loaded_are_ready:
  "distinct (map fst xs) \<Longrightarrow> load_all xs s = (oks, s') \<Longrightarrow> n < length xs \<Longrightarrow> oks ! n \<Longrightarrow> admits (resume s') (fst (xs ! n))"
proof (induction xs arbitrary: s oks n)
  case (Cons x xs)
  obtain j d where x: "x = (j, d)" by (cases x)
  obtain ok s1 where l: "load j d s = (ok, s1)" by (cases "load j d s")
  obtain oks1 where r: "load_all xs s1 = (oks1, s')" "oks = ok # oks1" using Cons.prems(2) by (auto simp: x l split: prod.splits)
  show ?case
  proof (cases n)
    case 0
    then have "status s1 j = ''ready''" using Cons.prems(4) r(2) l load_ready by auto
    then have "status s' j = ''ready''" using load_all_other [of j xs s1] r(1) Cons.prems(1) x by simp
    then show ?thesis using 0 x by (simp add: resume_admits)
  next
    case (Suc k)
    then show ?thesis using Cons.IH [OF _ r(1), of k] Cons.prems r(2) by simp
  qed
qed simp

end

definition mock_load :: "string \<Rightarrow> string \<Rightarrow> mock_engine \<Rightarrow> bool \<times> mock_engine" where
  "mock_load i d m =
     (let (err, m') = LoadModel \<lparr>lr_ModelInstanceID = i, lr_ArtifactPath = [], lr_ArtifactDigest = d\<rparr> m in (err = None, m'))"

interpretation mock: engine_control mock_load "\<lambda>m i. ms_State (GetModelStatus m i)" "snd \<circ> mock_Drain" "snd \<circ> mock_Resume"
    "\<lambda>m i. modelReady m i = None"
  by unfold_locales
    (auto simp: mock_load_def LoadModel_def GetModelStatus_def mock_Drain_def mock_Resume_def modelReady_def split: if_splits option.splits)

section \<open>Streaming and plain generation\<close>

lemma concat_split_after: "concat (split_after c s) = s"
  by (induction s) (auto split: list.splits)

text \<open>Delivering a list of events to a consumer until it refuses one.\<close>

fun send_all :: "('e \<Rightarrow> 'w \<Rightarrow> bool \<times> 'w) \<Rightarrow> 'e list \<Rightarrow> 'w \<Rightarrow> bool \<times> 'w" where
  "send_all emit [] w = (True, w)"
| "send_all emit (ev # evs) w = (case emit ev w of (False, w') \<Rightarrow> (False, w') | (True, w') \<Rightarrow> send_all emit evs w')"

fun deltas :: "(nat \<Rightarrow> int) \<Rightarrow> string \<Rightarrow> nat \<Rightarrow> string list \<Rightarrow> stream_event list" where
  "deltas ts rid seq [] = []"
| "deltas ts rid seq (p # ps) = mock_event ts rid (Suc seq) EventTextDelta p None None # deltas ts rid (Suc seq) ps"

definition parts :: "string \<Rightarrow> string list" where
  "parts out = filter (\<lambda>p. p \<noteq> []) (split_after CHR '':'' out)"

definition mock_events :: "(nat \<Rightarrow> int) \<Rightarrow> string \<Rightarrow> generate_response \<Rightarrow> stream_event list" where
  "mock_events ts rid resp =
     (let n = length (parts (OutputText resp)) in
      [mock_event ts rid 1 EventStarted [] None None] @ deltas ts rid 1 (parts (OutputText resp))
      @ [mock_event ts rid (n + 2) EventUsage [] (Some (gres_Usage resp)) None, mock_event ts rid (n + 3) EventCompleted [] None (Some resp)])"

lemma send_all_append:
  "send_all emit (xs @ ys) w = (case send_all emit xs w of (False, w') \<Rightarrow> (False, w') | (True, w') \<Rightarrow> send_all emit ys w')"
  by (induction xs arbitrary: w) (auto split: prod.splits bool.splits)

lemma emit_parts_all:
  "send_all emit (deltas ts rid seq (filter (\<lambda>p. p \<noteq> []) ps)) w = (True, w') \<Longrightarrow>
     emit_parts emit ts (\<lambda>_. False) rid seq ps w = (None, seq + length (filter (\<lambda>p. p \<noteq> []) ps), w')"
  by (induction ps arbitrary: seq w) (auto split: prod.splits bool.splits if_splits)

text \<open>A consumer that takes every event gets the events of the response, in order.\<close>

lemma stream_delivers:
  assumes "Generate now m req = Inr resp" and "send_all emit (mock_events ts (gr_RequestID req) resp) w = (True, w')"
  shows "GenerateStream now m ts (\<lambda>_. False) emit req w = (None, w')"
proof -
  let ?rid = "gr_RequestID req" and ?ps = "parts (OutputText resp)"
  obtain w1 where w1: "emit (mock_event ts ?rid 1 EventStarted [] None None) w = (True, w1)"
    using assms(2) by (auto simp: mock_events_def Let_def split: prod.splits bool.splits)
  obtain w2 where w2: "send_all emit (deltas ts ?rid 1 ?ps) w1 = (True, w2)"
    using assms(2) w1 by (auto simp: mock_events_def Let_def send_all_append split: prod.splits bool.splits)
  have "emit_parts emit ts (\<lambda>_. False) ?rid 1 (split_after CHR '':'' (OutputText resp)) w1 = (None, 1 + length ?ps, w2)"
    using emit_parts_all [of emit ts ?rid 1 "split_after CHR '':'' (OutputText resp)" w1 w2] w2 unfolding parts_def by blast
  then show ?thesis using assms w1 w2
    by (auto simp: GenerateStream_def mock_events_def Let_def send_all_append numeral_3_eq_3 split: prod.splits bool.splits)
qed

lemma send_all_collect: "send_all (\<lambda>ev evs. (True, evs @ [ev])) xs w = (True, w @ xs)"
  by (induction xs arbitrary: w) auto

lemma deltas_facts:
  "map se_Type (deltas ts rid seq ps) = replicate (length ps) EventTextDelta"
  "map se_Sequence (deltas ts rid seq ps) = map int [seq + 1..<seq + 1 + length ps]"
  "concat (map Delta (deltas ts rid seq ps)) = concat ps" "ev \<in> set (deltas ts rid seq ps) \<Longrightarrow> se_RequestID ev = rid"
  by (induction ps arbitrary: seq) (auto simp: mock_event_def upt_rec [of "Suc seq" for seq])

lemma concat_parts: "concat (parts out) = out"
proof -
  have "concat (filter (\<lambda>p. p \<noteq> []) ps) = concat ps" for ps :: "string list" by (induction ps) auto
  then show ?thesis by (simp add: parts_def concat_split_after)
qed

lemma event_numbers: "[1..<n + 4] = 1 # [1 + 1..<1 + 1 + n] @ [n + 2, n + 3 :: nat]"
  by (rule nth_equalityI) (auto simp: nth_append nth_Cons')

text \<open>C22: the mock engine streams what it generates. To a consumer that takes every event, a request that
  would be answered gives, in this order and numbered from one under the request's id, the start, the pieces of
  the text, the usage and the completion; the pieces make up the text of the answer, and the completion carries
  the answer. A request that would be refused gives the same error and no event.\<close>

theorem mock_streams_what_it_generates:
  "case GenerateStream now m ts (\<lambda>_. False) (\<lambda>ev evs. (True, evs @ [ev])) req [] of
     (Some err, evs) \<Rightarrow> Generate now m req = Inl err \<and> evs = []
   | (None, evs) \<Rightarrow>
       (\<exists>resp n. Generate now m req = Inr resp \<and> map se_Type evs = EventStarted # replicate n EventTextDelta @ [EventUsage, EventCompleted] \<and>
          map se_Sequence evs = map int [1..<n + 4] \<and> concat (map Delta evs) = OutputText resp \<and>
          se_Final (last evs) = Some resp \<and> (\<forall>ev \<in> set evs. se_RequestID ev = gr_RequestID req))"
proof (cases "Generate now m req")
  case (Inl err)
  then show ?thesis by (simp add: GenerateStream_def)
next
  case (Inr resp)
  let ?evs = "mock_events ts (gr_RequestID req) resp" and ?n = "length (parts (OutputText resp))"
  have s: "GenerateStream now m ts (\<lambda>_. False) (\<lambda>ev evs. (True, evs @ [ev])) req [] = (None, ?evs)"
    using stream_delivers [OF Inr, of "\<lambda>ev evs. (True, evs @ [ev])" ts "[]" ?evs] by (simp add: send_all_collect)
  have "map se_Type ?evs = EventStarted # replicate ?n EventTextDelta @ [EventUsage, EventCompleted]"
    by (simp add: mock_events_def Let_def deltas_facts) (simp add: mock_event_def)
  moreover have "map se_Sequence ?evs = map int [1..<?n + 4]"
  proof -
    show ?thesis
      unfolding event_numbers mock_events_def Let_def by (simp only: map_append list.map deltas_facts(2)) (simp add: mock_event_def)
  qed
  moreover have "concat (map Delta ?evs) = OutputText resp"
    by (simp add: mock_events_def Let_def deltas_facts concat_parts) (simp add: mock_event_def)
  moreover have "se_Final (last ?evs) = Some resp" by (simp add: mock_events_def Let_def mock_event_def)
  moreover have "\<forall>ev \<in> set ?evs. se_RequestID ev = gr_RequestID req"
    using deltas_facts(4) by (auto simp: mock_events_def Let_def mock_event_def)
  ultimately show ?thesis using s Inr by auto
qed

text \<open>
  The two counts of the engine differ on a prompt: the plain answer counts its bytes, \<open>CountTokens\<close> a quarter
  of them (\<open>mock.go\<close>, lines 77 and 134).
\<close>

lemma prompt_counted_twice:
  assumes "Generate now m req = Inr resp"
  shows "mock_CountTokens m (ModelInstanceID req) (gr_Input req)
    = Inr (ui_InputTokens (gres_Usage resp) - int (length (Prompt (gr_Input req))) + quarter (Prompt (gr_Input req)))"
  using assms by (auto simp: Generate_def mock_CountTokens_def Let_def split: if_splits option.splits)

section \<open>Example\<close>

definition demo_mock :: mock_engine where
  "demo_mock = snd (LoadModel \<lparr>lr_ModelInstanceID = ''m1'', lr_ArtifactPath = ''/models/m1'', lr_ArtifactDigest = ''d1''\<rparr> NewMockEngine)"

definition demo_generate :: generate_request where
  "demo_generate =
     \<lparr>gr_RequestID = ''r1'', gr_TraceID = [], gr_TenantScope = [], gr_ProjectScope = [], ModelInstanceID = ''m1'',
      gr_Input = \<lparr>Messages = [\<lparr>Role = ''user'', Content = ''hello''\<rparr>], Prompt = []\<rparr>,
      gr_Generation = \<lparr>eg_MaxOutputTokens = 16, eg_Temperature = None, eg_TopP = None, eg_TopK = None, eg_Seed = None, eg_Stop = []\<rparr>,
      gr_Scheduling = \<lparr>Priority = 0, DeadlineUnixMS = 0\<rparr>, gr_Cache = \<lparr>ReuseHandle = [], AllowPrefixCache = False\<rparr>\<rparr>"

lemma demo_mock_answer: "map_sum (\<lambda>_. ()) OutputText (Generate 0 demo_mock demo_generate) = Inr ''mock:m1:hello''"
  by code_simp

theorem mock_streams_what_it_generates_witness:
  "\<exists>evs. GenerateStream 0 demo_mock int (\<lambda>_. False) (\<lambda>ev evs. (True, evs @ [ev])) demo_generate [] = (None, evs)
     \<and> concat (map Delta evs) = ''mock:m1:hello'' \<and> set (map se_RequestID evs) = {''r1''}"
proof -
  obtain resp where r: "Generate 0 demo_mock demo_generate = Inr resp" "OutputText resp = ''mock:m1:hello''"
    using demo_mock_answer by (cases "Generate 0 demo_mock demo_generate") simp_all
  obtain err evs where s: "GenerateStream 0 demo_mock int (\<lambda>_. False) (\<lambda>ev evs. (True, evs @ [ev])) demo_generate [] = (err, evs)"
    by fastforce
  have id: "gr_RequestID demo_generate = ''r1''" by (simp add: demo_generate_def)
  have f: "err = None \<and> concat (map Delta evs) = OutputText resp \<and> evs \<noteq> [] \<and> (\<forall>ev \<in> set evs. se_RequestID ev = ''r1'')"
    using mock_streams_what_it_generates [where now = 0 and m = demo_mock and ts = int and req = demo_generate] unfolding s r(1) id by (cases err) auto
  then have "set (map se_RequestID evs) = {''r1''}" by (cases evs) auto
  then show ?thesis using s f r(2) by simp
qed

end
