(* ===== verification/Platform.thy ===== *)
theory Platform
  imports GwAdmin Mock Orchestrator
begin

text \<open>
  The assembly of the platform (\<open>platform/platform.go\<close>): engine bindings, manager, orchestrator, memory and
  workflow service of a configuration, the capabilities it announces and the hourly retention sweep.

  The platform holds the orchestrator (which holds configuration, manager with the pool, connectors and memory)
  and the workflow service. What the assembly reads is the record \<open>boot\<close>: key file and files of the memory,
  the environment of the workflow stores, the clock. Only the endpoint \<open>mock:\<close> is bound to an engine;
  \<open>Options.Engines\<close> may replace the bindings. \<open>New_platform\<close> of \<open>GwAdmin\<close> is the part of it that the
  administration sees.
\<close>

record platform =
  pf_orch :: orch
  pf_workflows :: workflows
  pf_running :: bool

record boot =
  bt_keyfile :: "string \<Rightarrow> string option"
  bt_convdir :: "string \<Rightarrow> bool"
  bt_convs :: "string \<Rightarrow> (string \<times> blob) list"
  bt_env :: platform_env

text \<open>The engines behind \<open>mock:\<close>: their ids, and what they answer to the manager once the deployments of
  the catalog were loaded.\<close>

definition mock_ids :: "config \<Rightarrow> string list" where
  "mock_ids c = map er_ID (filter (\<lambda>e. er_Endpoint e = ''mock:'') (cf_Engines c))"

definition load_of :: "deployment \<Rightarrow> load_request" where
  "load_of d = \<lparr>lr_ModelInstanceID = dep_ModelInstanceID d, lr_ArtifactPath = dep_ArtifactPath d, lr_ArtifactDigest = dep_ArtifactDigest d\<rparr>"

definition mock_loads :: "config \<Rightarrow> string \<Rightarrow> load_request list" where
  "mock_loads c eid =
     map (load_of \<circ> snd) (filter (\<lambda>(mdl, d). me_ApprovalStatus mdl = ApprovalApproved \<and> dep_BackendType d = BackendNativeEngine
                                            \<and> dep_EngineID d = eid) (catalog_pairs c))"

definition mock_after :: "config \<Rightarrow> string \<Rightarrow> mock_engine" where
  "mock_after c eid = fold (\<lambda>req m. snd (LoadModel req m)) (mock_loads c eid) NewMockEngine"

definition mock_env :: "config \<Rightarrow> (runtime_endpoint \<Rightarrow> bool) \<Rightarrow> engine_env" where
  "mock_env c probe =
     \<lparr>ev_Load = \<lambda>eid d. map_option ee_Code (fst (LoadModel (load_of d) (mock_after c eid))),
      ev_Status = \<lambda>eid i. Inr (ms_State (GetModelStatus (mock_after c eid) i)),
      ev_Drain = \<lambda>eid. map_option ee_Code (fst (mock_Drain (mock_after c eid))),
      ev_Resume = \<lambda>eid. map_option ee_Code (fst (mock_Resume (mock_after c eid))),
      ev_Probe = probe\<rparr>"

definition open_memory :: "boot \<Rightarrow> config \<Rightarrow> mem_store option option" where
  "open_memory b c =
     (if mc_Mode (cf_Memory c) \<noteq> ''managed'' then Some None
      else
       (case Open_memory (bt_keyfile b (mc_EncryptionKeyFile (cf_Memory c))) (mc_Retention (cf_Memory c)) (bt_convs b (mc_DataDir (cf_Memory c))) of
          Inl _ \<Rightarrow> None
        | Inr st \<Rightarrow> if bt_convdir b (mc_DataDir (cf_Memory c)) then Some (Some st) else None))"

text \<open>There is a connector for every configured endpoint only; the others are never asked.\<close>

definition no_endpoint :: runtime_endpoint where
  "no_endpoint = \<lparr>ep_ID = [], ep_DisplayName = [], ep_ConnectorType = [], ep_BaseURL = [], ep_NetworkZone = [], ep_CredentialFile = [],
     ep_ManagementMode = [], ep_HealthPath = []\<rparr>"

definition New_orchestrator :: "config \<Rightarrow> manager \<Rightarrow> mem_store option \<Rightarrow> orch" where
  "New_orchestrator c m mem =
     \<lparr>ot_cfg = c, ot_manager = m,
      ot_conns = (\<lambda>i. case mg_connectors m i of Some ep \<Rightarrow> New_connector ep | None \<Rightarrow> New_connector no_endpoint), ot_mem = mem\<rparr>"

text \<open>\<open>New\<close>; \<open>None\<close> stands for its errors.\<close>

definition New :: "boot \<Rightarrow> (runtime_endpoint \<Rightarrow> bool) \<Rightarrow> (string list \<times> engine_env) option \<Rightarrow> config option \<Rightarrow> platform option" where
  "New b probe opts cfg =
     (case cfg of
        None \<Rightarrow> None
      | Some c \<Rightarrow>
          if \<not> cf_Enabled c then None
          else
           (let (engines, env) = (case opts of Some x \<Rightarrow> x | None \<Rightarrow> (mock_ids c, mock_env c probe));
                mgr = New_manager c (New_pool (plc_StickyTTLSeconds (cf_Pool c) * sec)) engines
            in case open_memory b c of
                 None \<Rightarrow> None
               | Some mem \<Rightarrow>
                   (let o1 = New_orchestrator c (Apply_catalog env (pe_now (bt_env b)) mgr) mem in
                    if \<not> wc_Enabled (cf_Workflows c) then Some \<lparr>pf_orch = o1, pf_workflows = None, pf_running = True\<rparr>
                    else map_option (\<lambda>ws. \<lparr>pf_orch = o1, pf_workflows = Some ws, pf_running = True\<rparr>) (OpenService (bt_env b) c))))"

definition Close_platform :: "platform \<Rightarrow> platform" where
  "Close_platform pf = pf\<lparr>pf_running := False\<rparr>"

text \<open>A tick of \<open>retentionLoop\<close>.\<close>

definition retention_tick :: "time \<Rightarrow> platform \<Rightarrow> platform" where
  "retention_tick now pf =
     (if \<not> pf_running pf then pf
      else case ot_mem (pf_orch pf) of
        None \<Rightarrow> pf
      | Some mem \<Rightarrow> pf\<lparr>pf_orch := (pf_orch pf)\<lparr>ot_mem := Some (snd (SweepExpired now mem))\<rparr>\<rparr>)"

definition GetPlatformCapabilities :: "platform \<Rightarrow> capabilities" where
  "GetPlatformCapabilities pf =
     \<lparr>cap_ContractVersion = Version, cap_Streaming = True, cap_Conversation = (ot_mem (pf_orch pf) \<noteq> None),
      cap_NativeEngine = HasNativeEngine (ot_manager (pf_orch pf)), cap_DistributedPool = True, cap_TaskDecomposition = False\<rparr>"

section \<open>The part the administration sees\<close>

definition memory_opens :: "boot \<Rightarrow> memory_cfg \<Rightarrow> bool" where
  "memory_opens b mc \<longleftrightarrow> Open_memory (bt_keyfile b (mc_EncryptionKeyFile mc)) (mc_Retention mc) (bt_convs b (mc_DataDir mc)) \<notin> range Inl
     \<and> bt_convdir b (mc_DataDir mc)"

lemma open_memory_None: "open_memory b c = None \<longleftrightarrow> mc_Mode (cf_Memory c) = ''managed'' \<and> \<not> memory_opens b (cf_Memory c)"
  by (auto simp: open_memory_def memory_opens_def split: sum.split)

lemma OpenService_memory [simp]: "OpenService (e\<lparr>pe_memory_ok := f\<rparr>) c = OpenService e c"
  by (simp add: OpenService_def Let_def split: sum.split)


section \<open>What the platform serves\<close>

definition all_ready :: "mock_engine \<Rightarrow> bool" where
  "all_ready m \<longleftrightarrow> mk_ApprovedDigests m = None \<and> list_all (\<lambda>(_, st). ms_State st = ''ready'') (mk_loaded m)"

lemma LoadModel_ready:
  assumes "all_ready m" and "lr_ModelInstanceID req \<noteq> []" and "lr_ArtifactDigest req \<noteq> []"
  shows "fst (LoadModel req m) = None" "all_ready (snd (LoadModel req m))"
    "fst ` set (mk_loaded (snd (LoadModel req m))) = insert (lr_ModelInstanceID req) (fst ` set (mk_loaded m))"
  using assms by (auto simp: LoadModel_def all_ready_def alist_put_def list_all_iff image_iff)

lemma loads_ready:
  assumes "\<forall>req \<in> set reqs. lr_ModelInstanceID req \<noteq> [] \<and> lr_ArtifactDigest req \<noteq> []" and "all_ready m"
  shows "all_ready (fold (\<lambda>req m. snd (LoadModel req m)) reqs m)
    \<and> fst ` set (mk_loaded (fold (\<lambda>req m. snd (LoadModel req m)) reqs m)) = lr_ModelInstanceID ` set reqs \<union> fst ` set (mk_loaded m)"
  using assms by (induction reqs arbitrary: m) (auto simp: LoadModel_ready)

lemma ready_status: "all_ready m \<Longrightarrow> i \<in> fst ` set (mk_loaded m) \<Longrightarrow> ms_State (GetModelStatus m i) = ''ready''"
  by (auto simp: all_ready_def GetModelStatus_def list_all_iff split: option.split dest: map_of_SomeD weak_map_of_SomeI)

lemma mock_after_ready:
  assumes "config_ok urlp c"
  shows "all_ready (mock_after c eid) \<and> fst ` set (mk_loaded (mock_after c eid)) = lr_ModelInstanceID ` set (mock_loads c eid)"
proof -
  have "lr_ModelInstanceID req \<noteq> [] \<and> lr_ArtifactDigest req \<noteq> []" if "req \<in> set (mock_loads c eid)" for req
  proof -
    obtain mdl d where d: "mdl \<in> set (cf_Models c)" "d \<in> set (me_Deployments mdl)" "dep_BackendType d = BackendNativeEngine" "req = load_of d"
      using \<open>req \<in> set (mock_loads c eid)\<close> by (auto simp: mock_loads_def catalog_pairs_def)
    from config_ok_deployment [OF assms d(1,2)] d(3,4) show ?thesis
      by (auto simp: deployment_ok_def load_of_def go_defs)
  qed
  moreover have "all_ready NewMockEngine" by (simp add: all_ready_def NewMockEngine_def)
  ultimately show ?thesis using loads_ready [of "mock_loads c eid" NewMockEngine] unfolding mock_after_def by (simp add: NewMockEngine_def)
qed

lemma mock_verified:
  assumes ok: "config_ok urlp c" and m: "mdl \<in> set (cf_Models c)" "me_ApprovalStatus mdl = ApprovalApproved"
    and d: "d \<in> set (me_Deployments mdl)" "dep_BackendType d = BackendNativeEngine"
  shows "verified (mock_env c probe) (mock_ids c) d \<longleftrightarrow> dep_EngineID d \<in> set (mock_ids c)"
proof -
  let ?m = "mock_after c (dep_EngineID d)"
  have ids: "dep_ModelInstanceID d \<noteq> []" "dep_ArtifactDigest d \<noteq> []"
    using config_ok_deployment [OF ok m(1) d(1)] d(2) by (auto simp: deployment_ok_def go_defs)
  have "load_of d \<in> set (mock_loads c (dep_EngineID d))"
    unfolding mock_loads_def using m d by (auto simp: catalog_pairs_def image_iff intro!: bexI [of _ "(mdl, d)"])
  then have "dep_ModelInstanceID d \<in> lr_ModelInstanceID ` set (mock_loads c (dep_EngineID d))"
    by (metis image_eqI load_of_def load_request.select_convs(1))
  then have "ms_State (GetModelStatus ?m (dep_ModelInstanceID d)) = ''ready''"
    using ready_status mock_after_ready [OF ok] by blast
  moreover have "fst (LoadModel (load_of d) ?m) = None"
    by (rule LoadModel_ready) (use mock_after_ready [OF ok] ids in \<open>auto simp: load_of_def\<close>)
  ultimately show ?thesis by (auto simp: verified_def mock_env_def)
qed

lemma New_parts:
  assumes "New b probe opts (Some c) = Some pf"
  shows "cf_Enabled c"
    "ot_manager (pf_orch pf) = (let (engines, env) = (case opts of Some x \<Rightarrow> x | None \<Rightarrow> (mock_ids c, mock_env c probe))
       in Apply_catalog env (pe_now (bt_env b)) (New_manager c (New_pool (plc_StickyTTLSeconds (cf_Pool c) * sec)) engines))"
    "ot_mem (pf_orch pf) \<noteq> None \<longleftrightarrow> mc_Mode (cf_Memory c) = ''managed''"
  using assms by (auto simp: New_def Let_def New_orchestrator_def open_memory_def split: if_splits option.splits prod.splits sum.splits)

text \<open>C20: of a valid configuration the assembled platform makes available exactly what it can serve: the
  connector deployments and the native deployments whose engine is bound (endpoint \<open>mock:\<close>), of approved
  models; a native deployment on any other engine is unavailable, a model that is not approved is suspended. The
  announced capabilities name a native engine only if one is bound and conversations only if the memory is managed.\<close>

theorem only_bound_engines_serve:
  assumes "Validate_config urlp c0 = Inr c" and "New b probe None (Some c) = Some pf" and "mdl \<in> set (cf_Models c)" and "d \<in> set (me_Deployments mdl)"
  shows "(status_of (ot_manager (pf_orch pf)) (dep_ID d) =
      (if me_ApprovalStatus mdl \<noteq> ApprovalApproved then ''suspended''
       else if dep_BackendType d = BackendExternalConnector \<or> (\<exists>e \<in> set (cf_Engines c). er_ID e = dep_EngineID d \<and> er_Endpoint e = ''mock:'')
       then ''available'' else ''unavailable''))
     \<and> (cap_NativeEngine (GetPlatformCapabilities pf) \<longleftrightarrow> (\<exists>e \<in> set (cf_Engines c). er_Endpoint e = ''mock:''))
     \<and> (cap_Conversation (GetPlatformCapabilities pf) \<longleftrightarrow> mc_Mode (cf_Memory c) = ''managed'')"
proof (intro conjI)
  let ?mgr = "New_manager c (New_pool (plc_StickyTTLSeconds (cf_Pool c) * sec)) (mock_ids c)"
  note pf = New_parts [OF assms(2)]
  have m: "ot_manager (pf_orch pf) = Apply_catalog (mock_env c probe) (pe_now (bt_env b)) ?mgr" using pf(2) by simp
  have parts: "mg_cfg ?mgr = c" "mg_engines ?mgr = mock_ids c" by (simp_all add: New_manager_def)
  have ok: "config_ok urlp c" using assms(1) pf(1) by (auto simp: Validate_config_Inr config_ok_defaults split: if_splits)
  have ids: "dep_EngineID d \<in> set (mock_ids c) \<longleftrightarrow> (\<exists>e \<in> set (cf_Engines c). er_ID e = dep_EngineID d \<and> er_Endpoint e = ''mock:'')"
    by (force simp: mock_ids_def)
  have ext: "dep_BackendType d = BackendExternalConnector \<or> dep_BackendType d = BackendNativeEngine"
    using config_ok_deployment [OF ok assms(3,4)] by (auto simp: deployment_ok_def)
  have "status_of (ot_manager (pf_orch pf)) (dep_ID d) = activation (mock_env c probe) (mock_ids c) mdl d"
    unfolding m using Apply_status [of urlp ?mgr mdl d] ok assms(3,4) parts by simp
  then show "status_of (ot_manager (pf_orch pf)) (dep_ID d) =
      (if me_ApprovalStatus mdl \<noteq> ApprovalApproved then ''suspended''
       else if dep_BackendType d = BackendExternalConnector \<or> (\<exists>e \<in> set (cf_Engines c). er_ID e = dep_EngineID d \<and> er_Endpoint e = ''mock:'')
       then ''available'' else ''unavailable'')"
    using mock_verified [OF ok assms(3) _ assms(4)] ext unfolding activation_def ids [symmetric] by auto
  have "mg_engines (ot_manager (pf_orch pf)) = mock_ids c" unfolding m by (simp add: Apply_catalog_pairs fold_apply_keeps parts)
  then show "cap_NativeEngine (GetPlatformCapabilities pf) \<longleftrightarrow> (\<exists>e \<in> set (cf_Engines c). er_Endpoint e = ''mock:'')"
    by (auto simp: GetPlatformCapabilities_def HasNativeEngine_def mock_ids_def filter_empty_conv)
  show "cap_Conversation (GetPlatformCapabilities pf) \<longleftrightarrow> mc_Mode (cf_Memory c) = ''managed''"
    using pf(3) by (simp add: GetPlatformCapabilities_def)
qed

definition demo_native :: config where
  "demo_native = demo_config\<lparr>cf_Engines := [\<lparr>er_ID = ''e1'', er_Endpoint = ''mock:''\<rparr>, \<lparr>er_ID = ''e2'', er_Endpoint = ''unix:/run/engine''\<rparr>],
     cf_Models := [demo_model\<lparr>me_Deployments :=
       [\<lparr>dep_ID = ''d1'', dep_BackendType = BackendNativeEngine, dep_RuntimeEndpointID = [], dep_PhysicalModel = [], dep_EngineID = ''e1'',
         dep_ModelInstanceID = ''i1'', dep_ArtifactPath = [], dep_ArtifactDigest = ''sha256:1''\<rparr>,
        \<lparr>dep_ID = ''d2'', dep_BackendType = BackendNativeEngine, dep_RuntimeEndpointID = [], dep_PhysicalModel = [], dep_EngineID = ''e2'',
         dep_ModelInstanceID = ''i2'', dep_ArtifactPath = [], dep_ArtifactDigest = ''sha256:2''\<rparr>]\<rparr>],
     cf_Workflows := (cf_Workflows demo_config)\<lparr>wc_Enabled := False\<rparr>\<rparr>"

definition demo_boot :: boot where
  "demo_boot = \<lparr>bt_keyfile = \<lambda>_. None, bt_convdir = \<lambda>_. True, bt_convs = \<lambda>_. [],
     bt_env = \<lparr>pe_memory_ok = \<lambda>_. True, pe_mkdir = True, pe_flows = \<lambda>_. [], pe_runs = \<lambda>_. \<lparr>rf_runs = [], rf_events = []\<rparr>, pe_now = 0, pe_writes = \<lambda>_. True\<rparr>\<rparr>"

lemma demo_native_valid: "Validate_config demo_urlp demo_native = Inr (with_defaults demo_native)"
  by code_simp

theorem only_bound_engines_serve_witness:
  "\<exists>pf. New demo_boot (\<lambda>_. True) None (Some (with_defaults demo_native)) = Some pf \<and>
     map (status_of (ot_manager (pf_orch pf))) [''d1'', ''d2''] = [''available'', ''unavailable'']"
proof -
  let ?c = "with_defaults demo_native"
  have "New demo_boot (\<lambda>_. True) None (Some ?c) \<noteq> None"
  proof -
    have "cf_Enabled ?c" "mc_Mode (cf_Memory ?c) \<noteq> ''managed''" "\<not> wc_Enabled (cf_Workflows ?c)" by code_simp+
    then show ?thesis by (simp add: New_def Let_def open_memory_def)
  qed
  then obtain pf where pf: "New demo_boot (\<lambda>_. True) None (Some ?c) = Some pf" by auto
  obtain mdl d1 d2 where c: "cf_Models ?c = [mdl]" "me_Deployments mdl = [d1, d2]" "dep_ID d1 = ''d1''" "dep_ID d2 = ''d2''"
      "me_ApprovalStatus mdl = ApprovalApproved" "dep_BackendType d1 \<noteq> BackendExternalConnector" "dep_BackendType d2 \<noteq> BackendExternalConnector"
      "dep_EngineID d1 = ''e1''" "dep_EngineID d2 = ''e2''"
    by (simp add: with_defaults_def demo_native_def demo_config_def demo_model_def go_defs)
  have e: "cf_Engines ?c = [\<lparr>er_ID = ''e1'', er_Endpoint = ''mock:''\<rparr>, \<lparr>er_ID = ''e2'', er_Endpoint = ''unix:/run/engine''\<rparr>]"
    by (simp add: with_defaults_def demo_native_def)
  show ?thesis
    using only_bound_engines_serve [OF demo_native_valid pf, of mdl d1] only_bound_engines_serve [OF demo_native_valid pf, of mdl d2] pf c e
    by auto
qed

end
