(* ===== verification/Cli.thy ===== *)
theory Cli
  imports Platform Upgrade
begin

text \<open>
  The command line of the gateway (\<open>cmd/private-gateway/main.go\<close>, \<open>init.go\<close>): the settings from the
  environment, the start of the service, the commands around keys, licence, configuration, registration and
  inspection, and the generation of a configuration from what was discovered. \<open>upgrade\<close> and \<open>rollback\<close>
  are in \<open>Upgrade\<close>.

  A command takes the environment \<open>cli_env\<close>, its arguments and the files, and gives its exit code and the
  files it leaves; what it prints is kept only where a value carries it. Files are a map from names to bodies. The
  environment has the variables, the decoders and checks of \<open>config_keys\<close>, the outcomes of system calls and
  network requests, and the random draws of every key generation.
\<close>

section \<open>Environment and arguments\<close>

type_synonym files = "string \<Rightarrow> body option"

record cli_env =
  cl_getenv :: "string \<Rightarrow> string"
  cl_keys :: config_keys
  cl_ptime :: "string \<Rightarrow> time option"
  cl_tstr :: "time \<Rightarrow> string"
  cl_ym :: "gw_config \<Rightarrow> string option"
  cl_keyfile :: "string \<Rightarrow> bool"
  cl_audit_ok :: "string \<Rightarrow> bool"
  cl_mkdir :: "string \<Rightarrow> bool"
  cl_write :: "string \<Rightarrow> bool"
  cl_draw :: "nat \<Rightarrow> nat \<Rightarrow> nat option"
  cl_now :: time
  cl_net :: "http_request \<Rightarrow> http_result"
  cl_parse :: "string \<Rightarrow> body"
  cl_order :: "(string \<times> string) list \<Rightarrow> (string \<times> string) list"
  cl_v6 :: "string \<Rightarrow> bool"
  cl_plat :: "nat \<Rightarrow> platform_env"
  cl_gens :: "file_write \<times> file_write \<times> file_write \<times> file_write"
  cl_renamed :: bool
  cl_version :: string
  cl_os_arch :: string
  cl_stamp :: "time \<Rightarrow> string"

definition text_of :: "body \<Rightarrow> string" where
  "text_of b = (case b of Bytes s \<Rightarrow> s | Doc v \<Rightarrow> [])"

text \<open>The loops over the arguments: the last flag that is followed by a value gives it; a flag alone is seen anywhere.\<close>

fun flag_value :: "string list \<Rightarrow> string \<Rightarrow> string list \<Rightarrow> string" where
  "flag_value names v (a # b # rest) = flag_value names (if a \<in> set names then b else v) (b # rest)"
| "flag_value names v _ = v"

definition flag_given :: "string list \<Rightarrow> string list \<Rightarrow> bool" where
  "flag_given names args = list_ex (\<lambda>a. a \<in> set names) args"

definition dataDirDefault :: "cli_env \<Rightarrow> string" where
  "dataDirDefault e = (let d = cl_getenv e ''LYKURO_DATA_DIR'' in if d \<noteq> [] then d else ''.'')"

text \<open>\<open>filepath.Join\<close> of a clean directory and a name.\<close>

definition join_path :: "string \<Rightarrow> string \<Rightarrow> string" where
  "join_path d n = (if d = ''.'' then n else d @ ''/'' @ n)"

text \<open>The seconds of a setting; their product with \<open>time.Second\<close> is a 64-bit number.\<close>

definition seconds_of :: "cli_env \<Rightarrow> string \<Rightarrow> time" where
  "seconds_of e name = (case parse_int (cl_getenv e name) of None \<Rightarrow> 0 | Some v \<Rightarrow> if v > 0 then i64 (v * sec) else 0)"

definition agentSettings :: "cli_env \<Rightarrow> agent_settings option" where
  "agentSettings e =
     (if cl_getenv e ''LYKURO_CONTROL_PLANE_URL'' = [] then None
      else Some \<lparr>as_ControlPlaneURL = cl_getenv e ''LYKURO_CONTROL_PLANE_URL'', as_DataDir = dataDirDefault e,
                 as_SigningPubFile = cl_getenv e ''LYKURO_SIGNING_PUB_FILE'',
                 as_InstallTokenFile = cl_getenv e ''LYKURO_INSTALL_TOKEN_FILE'',
                 as_Heartbeat = seconds_of e ''LYKURO_HEARTBEAT_INTERVAL_SECONDS'',
                 as_ConfigPoll = seconds_of e ''LYKURO_CONFIG_POLL_INTERVAL_SECONDS'', as_SoftwareVersion = cl_version e\<rparr>)"

definition configPath :: "cli_env \<Rightarrow> string list \<Rightarrow> string" where
  "configPath e args =
     flag_value [''-config'', ''--config'']
       (if cl_getenv e ''LYKURO_CONFIG_PATH'' \<noteq> [] then cl_getenv e ''LYKURO_CONFIG_PATH'' else ''gateway.yaml'') args"

definition load_config :: "cli_env \<Rightarrow> string list \<Rightarrow> files \<Rightarrow> load_error + gw_config" where
  "load_config e args fs = LoadConfig fs (ck_yaml (cl_keys e)) (ck_urlp (cl_keys e)) (configPath e args)"

section \<open>Licence\<close>

definition checkLicense :: "cli_env \<Rightarrow> files \<Rightarrow> string \<Rightarrow> int" where
  "checkLicense e fs gatewayID =
     (let licPath = cl_getenv e ''LYKURO_LICENSE_FILE''; pubPath = cl_getenv e ''LYKURO_SIGNING_PUB_FILE'' in
      if licPath = [] then 0
      else if pubPath = [] then 31
      else if \<not> cl_keyfile e pubPath then 31
      else
       (case fs licPath of
          None \<Rightarrow> 31
        | Some raw \<Rightarrow>
            (let (_, state, _) = VerifyLicense (ck_nf (cl_keys e)) (ck_render (cl_keys e)) (cl_tstr e) (cl_ptime e) (ck_vf (cl_keys e))
                                   raw gatewayID (cl_now e)
             in if state = LicenseValid \<or> state = LicenseInGrace then 0 else 31)))"

section \<open>Keys and tokens\<close>

text \<open>\<open>runGenkey\<close>: the exit code, and the key and its hash that are printed.\<close>

definition runGenkey :: "cli_env \<Rightarrow> int \<times> (string \<times> string) option" where
  "runGenkey e =
     (case GenerateVirtualKey (ck_hx (cl_keys e)) (cl_draw e 0) of None \<Rightarrow> (1, None) | Some (plain, h) \<Rightarrow> (0, Some (plain, h)))"

text \<open>\<open>writeSecretFile\<close> opens the file for creation only; a file it cannot fill is removed.\<close>

definition writeSecretFile :: "cli_env \<Rightarrow> string \<Rightarrow> string \<Rightarrow> files \<Rightarrow> bool \<times> files" where
  "writeSecretFile e path content fs =
     (if fs path \<noteq> None then (False, fs) else if \<not> cl_write e path then (False, fs) else (True, fs(path \<mapsto> Bytes content)))"

definition AdminTokenHashFile :: string where [go_defs]: "AdminTokenHashFile = ''admin-token.hash''"

text \<open>\<open>runAdminToken\<close>: the exit code, the token if it is printed, the files.\<close>

definition runAdminToken :: "cli_env \<Rightarrow> string list \<Rightarrow> files \<Rightarrow> int \<times> string option \<times> files" where
  "runAdminToken e args fs =
     (let outPath = flag_value [''-out'', ''--out''] [] args; dataDir = dataDirDefault e in
      case GenerateAdminToken (ck_hx (cl_keys e)) (cl_draw e 0) of
        None \<Rightarrow> (1, None, fs)
      | Some (plain, hash) \<Rightarrow>
          if \<not> cl_mkdir e dataDir then (1, None, fs)
          else
            (let hashPath = join_path dataDir AdminTokenHashFile in
             if \<not> cl_write e hashPath then (1, None, fs)
             else
               (let fs1 = fs(hashPath \<mapsto> Bytes (hash @ [CHR 0x0A])) in
                if outPath = [] then (0, Some plain, fs1)
                else
                 (case writeSecretFile e outPath (plain @ [CHR 0x0A]) fs1 of
                    (False, fs2) \<Rightarrow> (1, None, fs2)
                  | (True, fs2) \<Rightarrow> (0, None, fs2)))))"

section \<open>Configuration commands\<close>

definition runValidate :: "cli_env \<Rightarrow> string list \<Rightarrow> files \<Rightarrow> int" where
  "runValidate e args fs = (case load_config e args fs of Inl _ \<Rightarrow> 2 | Inr _ \<Rightarrow> 0)"

text \<open>\<open>runConfigImport\<close> works on the generations of the data directory.\<close>

definition gen_writes :: "cli_env \<Rightarrow> nat \<Rightarrow> file_write" where
  "gen_writes e n = (case cl_gens e of (w0, w1, w2, w3) \<Rightarrow> if n = 0 then w0 else if n = 1 then w1 else if n = 2 then w2 else w3)"

definition runConfigImport :: "cli_env \<Rightarrow> string list \<Rightarrow> files \<Rightarrow> cfg_dir \<Rightarrow> int \<times> cfg_dir" where
  "runConfigImport e args fs d =
     (let file = flag_value [''-file'', ''--file''] [] args; force = flag_given [''-force'', ''--force''] args;
          pubPath = cl_getenv e ''LYKURO_SIGNING_PUB_FILE'' in
      if file = [] then (2, d)
      else
       (case load_config e args fs of
          Inl _ \<Rightarrow> (2, d)
        | Inr localCfg \<Rightarrow>
            if pubPath = [] then (2, d)
            else if \<not> cl_keyfile e pubPath then (20, d)
            else
             (case fs file of
                None \<Rightarrow> (2, d)
              | Some envelope \<Rightarrow>
                  (case ImportSignedConfig (cl_keys e) envelope (gs_ID (gc_Gateway localCfg)) force (cl_mkdir e (dataDirDefault e)) (gen_writes e) d of
                     (Inl _, d') \<Rightarrow> (20, d')
                   | (Inr _, d') \<Rightarrow> (0, d')))))"

definition runRegister :: "cli_env \<Rightarrow> string list \<Rightarrow> files \<Rightarrow> cfg_dir \<Rightarrow> string option \<Rightarrow> string option \<Rightarrow> int \<times> agent option" where
  "runRegister e args fs d cred tok =
     (case load_config e args fs of
        Inl _ \<Rightarrow> (2, None)
      | Inr cfg \<Rightarrow>
          (case agentSettings e of
             None \<Rightarrow> (2, None)
           | Some st \<Rightarrow>
               (case NewAgent (cl_keyfile e) (cl_mkdir e (as_DataDir st)) cred tok d st (NewServer cfg) of
                  Inl _ \<Rightarrow> (2, None)
                | Inr a \<Rightarrow>
                    if Registered a then (0, Some a)
                    else
                     (case GwAgent.Register (cl_net e) (cl_parse e) (cl_write e (join_path (as_DataDir st) ''agent-credential'')) (cl_renamed e) a of
                        (Some _, a1) \<Rightarrow> (30, Some a1)
                      | (None, a1) \<Rightarrow> (0, Some a1)))))"

section \<open>Generating a configuration\<close>

definition name_char :: "char \<Rightarrow> bool" where
  "name_char c \<longleftrightarrow> is_lower c \<or> is_digit c \<or> c = CHR ''.'' \<or> c = CHR ''_'' \<or> c = CHR ''-''"

text \<open>\<open>logicalNameRe.ReplaceAllString(_, "-")\<close>: every run of other characters becomes one dash.\<close>

fun dash_runs :: "bool \<Rightarrow> string \<Rightarrow> string" where
  "dash_runs inside [] = []"
| "dash_runs inside (c # cs) =
     (if name_char c then c # dash_runs False cs
      else if inside then dash_runs True cs else CHR ''-'' # dash_runs True cs)"

definition sanitizeLogicalName :: "string \<Rightarrow> string" where
  "sanitizeLogicalName physical =
     (let name = trim_char CHR ''-'' (dash_runs False (to_lower physical)) in if name = [] then ''model'' else name)"

definition numbered :: "string \<Rightarrow> nat \<Rightarrow> string" where
  "numbered base n = base @ ''-'' @ nat_str n"

lemma nat_str_inj: "nat_str m = nat_str n \<Longrightarrow> m = n"
  by (metis nat_str_digits of_nat_eq_iff)

lemma finite_numbered: "finite {k. n \<le> k \<and> numbered base k \<in> set used}"
proof -
  have "inj (numbered base)" by (rule injI) (auto simp: numbered_def dest: nat_str_inj)
  then have "finite (numbered base -` set used)" by (rule finite_vimageI [OF finite_set])
  then show ?thesis by (rule rev_finite_subset) auto
qed

text \<open>The loop over the numbers ends: each turn uses up one of the names that are taken.\<close>

definition taken :: "string \<Rightarrow> string list \<Rightarrow> string \<Rightarrow> nat \<Rightarrow> nat" where
  "taken base used logical n = card {k. n \<le> k \<and> numbered base k \<in> set used} + (if logical \<in> set used then 1 else 0)"

lemma taken_next: "logical \<in> set used \<Longrightarrow> taken base used (numbered base n) (Suc n) < taken base used logical n"
proof -
  have "{k. n \<le> k \<and> numbered base k \<in> set used}
      = (if numbered base n \<in> set used then insert n {k. Suc n \<le> k \<and> numbered base k \<in> set used} else {k. Suc n \<le> k \<and> numbered base k \<in> set used})"
    by (auto simp: not_less_eq_eq [symmetric] Suc_le_eq le_less)
  then show "logical \<in> set used \<Longrightarrow> ?thesis"
    by (auto simp: taken_def card_insert_if [OF finite_numbered])
qed

function free_name :: "string \<Rightarrow> string list \<Rightarrow> string \<Rightarrow> nat \<Rightarrow> string" where
  "free_name base used logical n = (if logical \<in> set used then free_name base used (numbered base n) (Suc n) else logical)"
  by pat_completeness auto
termination
  by (relation "measure (\<lambda>(base, used, logical, n). taken base used logical n)") (simp_all add: taken_next)

declare free_name.simps [simp del]

definition init_model :: "candidate_runtime \<Rightarrow> string \<Rightarrow> string \<Rightarrow> model_def" where
  "init_model c logical physical =
     \<lparr>md_LogicalName = logical, md_Runtime = rc_Runtime c, md_Endpoint = trim_right CHR ''/'' (rc_Endpoint c), md_PhysicalModel = physical,
      md_Fallback = [], md_CloudFallback = None\<rparr>"

fun init_models :: "string list \<Rightarrow> (candidate_runtime \<times> string) list \<Rightarrow> model_def list" where
  "init_models used [] = []"
| "init_models used ((c, physical) # rest) =
     (let base = sanitizeLogicalName physical; logical = free_name base used base 2
      in init_model c logical physical # init_models (logical # used) rest)"

definition buildInitConfig :: "string \<Rightarrow> candidate_runtime list \<Rightarrow> gw_config" where
  "buildInitConfig gatewayID candidates =
     \<lparr>gc_SchemaVersion = ''1'',
      gc_Gateway = \<lparr>gs_ID = gatewayID, gs_Listen = '':8443'', gs_StrictLocalMode = None, gs_AllowedDataClasses = [], gs_MaxRequestBytes = 0\<rparr>,
      gc_VirtualKeys = [], gc_Models = init_models [] (concat (map (\<lambda>c. map (Pair c) (rc_Models c)) candidates)), gc_AuditPath = [],
      gc_Hybrid = \<lparr>hs_Enabled = False, hs_Endpoint = [], hs_APIKeyFile = [], hs_AllowedDataClasses = []\<rparr>, gc_Platform = None\<rparr>"

definition init_key :: "string \<Rightarrow> virtual_key" where
  "init_key hash = \<lparr>vk_ID = ''vk-default'', vk_Name = ''generated by init'', vk_KeyHash = hash, vk_AllowedModels = [], vk_RPMLimit = 0,
     vk_Disabled = False, vk_AllowTools = None\<rparr>"

definition init_header :: "cli_env \<Rightarrow> string \<Rightarrow> string" where
  "init_header e path =
     ''# generated by private-gateway init ('' @ cl_tstr e (cl_now e) @ '')'' @ [CHR 0x0A]
     @ ''# '' @ [CHR 0xE6, CHR 0xA4, CHR 0x9C, CHR 0xE8, CHR 0xA8, CHR 0xBC] @ '': private-gateway config validate -config '' @ path @ [CHR 0x0A]"

text \<open>\<open>runInit\<close>; \<open>None\<close> would be an enumeration of hosts that does not end.\<close>

definition runInit :: "cli_env \<Rightarrow> string list \<Rightarrow> files \<Rightarrow> (int \<times> files) option" where
  "runInit e args fs =
     (let cidr = flag_value [''-cidr'', ''--cidr''] [] args; force = flag_given [''-force'', ''--force''] args; path = configPath e args in
      if fs path \<noteq> None \<and> \<not> force then Some (2, fs)
      else
       Option.bind (DiscoverHosts (cl_v6 e) cidr) (\<lambda>r.
         case r of
           Inl _ \<Rightarrow> Some (2, fs)
         | Inr hosts \<Rightarrow>
             (let candidates = DiscoverRuntimes (cl_net e) (cl_parse e) (cl_order e) hosts [] in
              case RandomTokenSegment (cl_draw e 0) 8 of
                None \<Rightarrow> Some (1, fs)
              | Some seg \<Rightarrow>
                  (let cfg = buildInitConfig (''gw-'' @ to_lower seg) candidates in
                   case GenerateVirtualKey (ck_hx (cl_keys e)) (cl_draw e 1) of
                     None \<Rightarrow> Some (1, fs)
                   | Some (plain, keyHash) \<Rightarrow>
                       (case Validate_gateway (ck_urlp (cl_keys e)) (cfg\<lparr>gc_VirtualKeys := [init_key keyHash]\<rparr>) of
                          Inl _ \<Rightarrow> Some (1, fs)
                        | Inr valid \<Rightarrow>
                            (case cl_ym e valid of
                               None \<Rightarrow> Some (1, fs)
                             | Some raw \<Rightarrow>
                                 if \<not> cl_mkdir e path then Some (1, fs)
                                 else if \<not> cl_write e path then Some (1, fs)
                                 else Some (0, fs(path \<mapsto> Bytes (init_header e path @ raw)))))))))"

section \<open>Inspection\<close>

record check =
  pk_Name :: string
  pk_OK :: bool
  pk_Detail :: "string option"

text \<open>A check; the text of an error is not kept.\<close>

definition check_of :: "string \<Rightarrow> bool \<Rightarrow> string \<Rightarrow> check" where
  "check_of name good detail = \<lparr>pk_Name = name, pk_OK = good, pk_Detail = (if good then Some detail else None)\<rparr>"

definition reachable :: "cli_env \<Rightarrow> string \<Rightarrow> bool" where
  "reachable e url = (case cl_net e (get_request url) of TransportError _ \<Rightarrow> False | Answer _ \<Rightarrow> True)"

definition precheck_list :: "cli_env \<Rightarrow> string list \<Rightarrow> files \<Rightarrow> check list" where
  "precheck_list e args fs =
     check_of ''os_arch'' True (cl_os_arch e)
     # (case load_config e args fs of
          Inl _ \<Rightarrow> [check_of ''config'' False []]
        | Inr cfg \<Rightarrow>
            check_of ''config'' True (configPath e args)
            # map (\<lambda>m. check_of (''runtime:'' @ md_LogicalName m) (reachable e (md_Endpoint m @ ''/v1/models'')) (md_Endpoint m)) (gc_Models cfg))
     @ (case agentSettings e of
          None \<Rightarrow> [check_of ''control_plane'' True ''not configured (standalone mode)'']
        | Some st \<Rightarrow>
            [check_of ''data_dir'' (cl_mkdir e (as_DataDir st) \<and> cl_write e (join_path (as_DataDir st) ''.precheck'')) (as_DataDir st),
             check_of ''control_plane'' (reachable e (as_ControlPlaneURL st @ ''/health'')) (as_ControlPlaneURL st)]
            @ (if as_SigningPubFile st = [] then []
               else [check_of ''signing_pub'' (fs (as_SigningPubFile st) \<noteq> None) (as_SigningPubFile st)]))"

definition runPrecheck :: "cli_env \<Rightarrow> string list \<Rightarrow> files \<Rightarrow> int \<times> check list" where
  "runPrecheck e args fs =
     (let checks = precheck_list e args fs; failed = length (filter (\<lambda>c. \<not> pk_OK c) checks) in (if failed > 0 then 10 else 0, checks))"

text \<open>\<open>runDiscover\<close>: the exit code, and the number of hosts with the candidates.\<close>

definition runDiscover :: "cli_env \<Rightarrow> string list \<Rightarrow> files \<Rightarrow> (int \<times> (nat \<times> candidate_runtime list) option) option" where
  "runDiscover e args fs =
     Option.bind (DiscoverHosts (cl_v6 e) (flag_value [''-cidr'', ''--cidr''] [] args)) (\<lambda>r.
       case r of
         Inl _ \<Rightarrow> Some (2, None)
       | Inr hosts \<Rightarrow>
           (let configured = (case load_config e args fs of Inl _ \<Rightarrow> [] | Inr cfg \<Rightarrow> ConfiguredEndpoints cfg)
            in Some (0, Some (length hosts, DiscoverRuntimes (cl_net e) (cl_parse e) (cl_order e) hosts configured))))"

text \<open>The proposed entries: runtime, endpoint and physical model of the new candidates.\<close>

definition discover_snippet :: "candidate_runtime list \<Rightarrow> (string \<times> string \<times> string) list" where
  "discover_snippet cs =
     map (\<lambda>c. (rc_Runtime c, rc_Endpoint c, if rc_Models c = [] then ''<physical-model>'' else hd (rc_Models c)))
       (filter (\<lambda>c. \<not> rc_Configured c) cs)"

definition localBase :: "cli_env \<Rightarrow> string list \<Rightarrow> files \<Rightarrow> load_error + string" where
  "localBase e args fs =
     res_bind (load_config e args fs) (\<lambda>cfg.
       let listen = gs_Listen (gc_Gateway cfg)
       in Inr (''http://'' @ (if has_prefix listen '':'' then ''127.0.0.1'' @ listen else listen)))"

fun status_lines :: "cli_env \<Rightarrow> string \<Rightarrow> string list \<Rightarrow> bool \<times> (string \<times> int \<times> string) list" where
  "status_lines e base [] = (True, [])"
| "status_lines e base (p # ps) =
     (case cl_net e (get_request (base @ p)) of
        TransportError _ \<Rightarrow> (False, [])
      | Answer resp \<Rightarrow> (let (ok, ls) = status_lines e base ps in (ok, (p, hp_StatusCode resp, trim_space (hp_Body resp)) # ls)))"

definition runStatus :: "cli_env \<Rightarrow> string list \<Rightarrow> files \<Rightarrow> int \<times> (string \<times> int \<times> string) list" where
  "runStatus e args fs =
     (case localBase e args fs of
        Inl _ \<Rightarrow> (2, [])
      | Inr base \<Rightarrow> (let (ok, ls) = status_lines e base [''/healthz'', ''/readyz'', ''/version''] in (if ok then 0 else 41, ls)))"

text \<open>The support bundle, with the members in the order in which a Go map is printed; a body that is no JSON
  value is null, and the text of a transport error is left out.\<close>

definition probe_doc :: "cli_env \<Rightarrow> string \<Rightarrow> json" where
  "probe_doc e url =
     (case cl_net e (get_request url) of
        TransportError _ \<Rightarrow> JObj [(''error'', JStr [])]
      | Answer resp \<Rightarrow> JObj [(''body'', case cl_parse e (hp_Body resp) of Doc v \<Rightarrow> v | Bytes _ \<Rightarrow> JNull),
                             (''status'', JNum (int_str (hp_StatusCode resp)))])"

definition env_names :: "string list" where
  "env_names = [''LYKURO_CONFIG_PATH'', ''LYKURO_CONTROL_PLANE_URL'', ''LYKURO_DATA_DIR'', ''LYKURO_INSTALL_TOKEN_FILE'',
     ''LYKURO_SIGNING_PUB_FILE'']"

definition diagnose_bundle :: "cli_env \<Rightarrow> string \<Rightarrow> json" where
  "diagnose_bundle e base =
     JObj [(''env_present'', JObj (map (\<lambda>k. (k, JBool (cl_getenv e k \<noteq> []))) env_names)), (''healthz'', probe_doc e (base @ ''/healthz'')),
           (''os_arch'', JStr (cl_os_arch e)), (''readyz'', probe_doc e (base @ ''/readyz'')), (''time_utc'', JStr (cl_tstr e (cl_now e))),
           (''version'', JStr (cl_version e))]"

definition runDiagnose :: "cli_env \<Rightarrow> string list \<Rightarrow> files \<Rightarrow> int \<times> files" where
  "runDiagnose e args fs =
     (case localBase e args fs of
        Inl _ \<Rightarrow> (2, fs)
      | Inr base \<Rightarrow>
          (let name = ''lykuro-diagnose-'' @ cl_stamp e (cl_now e) @ ''.json'' in
           if \<not> cl_write e name then (1, fs) else (0, fs(name \<mapsto> Doc (diagnose_bundle e base)))))"

section \<open>The service\<close>

text \<open>What \<open>runServe\<close> sets up before it listens: the server with its workflow service, the agent, the
  listener of the metrics and the management interface with its listener.\<close>

record serving =
  sg_srv :: gw_server
  sg_workflows :: workflows
  sg_agent :: "agent option"
  sg_metrics :: "string option"
  sg_admin :: "(string \<times> admin_options) option"

definition switched_on :: "cli_env \<Rightarrow> string \<Rightarrow> bool" where
  "switched_on e name \<longleftrightarrow> cl_getenv e name \<in> {''true'', ''1''}"

definition listen_of :: "cli_env \<Rightarrow> string \<Rightarrow> string \<Rightarrow> string" where
  "listen_of e name dflt = (if cl_getenv e name = [] then dflt else cl_getenv e name)"

text \<open>The hook of the server: whether a configuration installs a backend; \<open>k\<close> counts the builds.\<close>

definition installs :: "cli_env \<Rightarrow> nat \<Rightarrow> gw_config \<Rightarrow> bool" where
  "installs e k cfg \<longleftrightarrow> PlatformEnabled cfg \<and> Option.bind (gc_Platform cfg) (New_platform (cl_plat e k)) \<noteq> None"

definition with_hook :: "cli_env \<Rightarrow> gw_config \<Rightarrow> gw_server \<times> workflows" where
  "with_hook e cfg = applyPlatform (cl_plat e 0) cfg (OnConfigApplied (installs e 1) (NewServer cfg), None)"

text \<open>The configuration of an earlier import, used when there is no control plane.\<close>

definition apply_imported :: "cli_env \<Rightarrow> cfg_dir \<Rightarrow> gw_server \<times> workflows \<Rightarrow> gw_server \<times> workflows" where
  "apply_imported e d s =
     (case cd_current d of
        None \<Rightarrow> s
      | Some raw \<Rightarrow>
          (case ParseConfig (ck_yaml (cl_keys e)) (ck_urlp (cl_keys e)) raw of
             Inl _ \<Rightarrow> s
           | Inr imported \<Rightarrow> apply_config (cl_plat e 1) imported s))"

text \<open>The agent: restored configuration, registration if there is no credential. Its failures leave the
  service running on its own.\<close>

definition start_agent ::
  "cli_env \<Rightarrow> agent_settings \<Rightarrow> cfg_dir \<Rightarrow> string option \<Rightarrow> string option \<Rightarrow> gw_server \<times> workflows
     \<Rightarrow> (gw_server \<times> workflows) \<times> agent option" where
  "start_agent e st d cred tok s =
     (case NewAgent (cl_keyfile e) (cl_mkdir e (as_DataDir st)) cred tok d st (fst s) of
        Inl _ \<Rightarrow> (s, None)
      | Inr a \<Rightarrow>
          (let (err, a1) = LoadStoredConfig (cl_keys e) a;
               restored = cd_current d \<noteq> None \<and> err = None;
               ws = (if restored then snd (applyPlatform (cl_plat e 1) (sv_cfg (ag_srv a1)) (ag_srv a1, snd s)) else snd s);
               a2 = (if Registered a1 then a1
                     else snd (GwAgent.Register (cl_net e) (cl_parse e) (cl_write e (join_path (as_DataDir st) ''agent-credential''))
                                 (cl_renamed e) a1))
           in ((ag_srv a2, ws), Some a2)))"

definition admin_of :: "cli_env \<Rightarrow> string list \<Rightarrow> files \<Rightarrow> gw_config \<Rightarrow> (string \<times> admin_options) option" where
  "admin_of e args fs cfg =
     (if \<not> switched_on e ''LYKURO_ADMIN_ENABLED'' then None
      else
       (case fs (join_path (dataDirDefault e) AdminTokenHashFile) of
          None \<Rightarrow> None
        | Some hashRaw \<Rightarrow>
            Some (listen_of e ''LYKURO_ADMIN_LISTEN'' ''127.0.0.1:9465'',
                  \<lparr>ao_TokenHash = trim_space (text_of hashRaw), ao_ConfigPath = configPath e args, ao_AuditPath = gc_AuditPath cfg,
                   ao_Connected = (agentSettings e \<noteq> None)\<rparr>)))"

definition serve_up :: "cli_env \<Rightarrow> string list \<Rightarrow> files \<Rightarrow> cfg_dir \<Rightarrow> string option \<Rightarrow> string option \<Rightarrow> int + serving" where
  "serve_up e args fs d cred tok =
     (case load_config e args fs of
        Inl _ \<Rightarrow> Inl 2
      | Inr cfg \<Rightarrow>
          if \<not> cl_audit_ok e (gc_AuditPath cfg) then Inl 2
          else if checkLicense e fs (gs_ID (gc_Gateway cfg)) \<noteq> 0 then Inl (checkLicense e fs (gs_ID (gc_Gateway cfg)))
          else
            (let s = with_hook e cfg;
                 (s1, agent) = (case agentSettings e of
                                  None \<Rightarrow> (apply_imported e d s, None)
                                | Some st \<Rightarrow> start_agent e st d cred tok s)
             in Inr \<lparr>sg_srv = fst s1, sg_workflows = snd s1, sg_agent = agent,
                     sg_metrics = (if switched_on e ''LYKURO_METRICS_ENABLED''
                                   then Some (listen_of e ''LYKURO_METRICS_LISTEN'' ''127.0.0.1:9464'') else None),
                     sg_admin = admin_of e args fs cfg\<rparr>))"

text \<open>The exit code; \<open>served\<close> says whether the listener ended by a shutdown.\<close>

definition runServe :: "cli_env \<Rightarrow> string list \<Rightarrow> files \<Rightarrow> cfg_dir \<Rightarrow> string option \<Rightarrow> string option \<Rightarrow> bool \<Rightarrow> int" where
  "runServe e args fs d cred tok served =
     (case serve_up e args fs d cred tok of Inl code \<Rightarrow> code | Inr _ \<Rightarrow> if served then 0 else 1)"

section \<open>Commands\<close>

datatype command =
    Serve "string list" | Genkey | AdminToken "string list" | RegisterCmd "string list" | Precheck "string list"
  | DiscoverCmd "string list" | Init "string list" | Status "string list" | Diagnose "string list" | ConfigValidate "string list"
  | ConfigImport "string list" | ConfigUsage | Upgrade_cmd "string list" | Rollback_cmd "string list" | VersionCmd | UnknownCommand string
  | IndexPanic

text \<open>The first argument is the command unless it starts with a dash; \<open>args[0][0]\<close> panics on an empty argument.\<close>

definition command_of :: "string \<Rightarrow> string list \<Rightarrow> command" where
  "command_of cmd args =
     (if cmd = ''serve'' then Serve args
      else if cmd = ''genkey'' then Genkey
      else if cmd = ''admin-token'' then AdminToken args
      else if cmd = ''register'' then RegisterCmd args
      else if cmd = ''precheck'' then Precheck args
      else if cmd = ''discover'' then DiscoverCmd args
      else if cmd = ''init'' then Init args
      else if cmd = ''status'' then Status args
      else if cmd = ''diagnose'' then Diagnose args
      else if cmd = ''config'' then
        (if args \<noteq> [] \<and> hd args = ''validate'' then ConfigValidate (tl args)
         else if args \<noteq> [] \<and> hd args = ''import'' then ConfigImport (tl args)
         else ConfigUsage)
      else if cmd = ''upgrade'' then Upgrade_cmd args
      else if cmd = ''rollback'' then Rollback_cmd args
      else if cmd = ''version'' then VersionCmd
      else UnknownCommand cmd)"

definition main_command :: "string list \<Rightarrow> command" where
  "main_command args =
     (case args of
        [] \<Rightarrow> command_of ''serve'' []
      | a # rest \<Rightarrow>
          if a = [] then IndexPanic
          else if hd a \<noteq> CHR ''-'' then command_of a rest else command_of ''serve'' args)"

end
