(* ===== verification/CliProps.thy ===== *)
theory CliProps
  imports Cli GwAdminProps GwAgentProps
begin

text \<open>
  Properties of the command line: the generated configuration, the import of signed configurations and the
  start of the service, the admin token, the support bundle.
\<close>

section \<open>Names\<close>

lemma free_name_free: "free_name base used logical n \<notin> set used"
  by (induction base used logical n rule: free_name.induct) (subst free_name.simps, simp)

lemma free_name_form: "free_name base used logical n = logical \<or> (\<exists>k \<ge> n. free_name base used logical n = numbered base k)"
proof (induction base used logical n rule: free_name.induct)
  case (1 base used logical n)
  show ?case
  proof (cases "logical \<in> set used")
    case True
    have "free_name base used logical n = free_name base used (numbered base n) (Suc n)" by (subst free_name.simps) (simp add: True)
    then show ?thesis using 1 [OF True] by (metis Suc_leD order_refl)
  next
    case False
    then show ?thesis by (subst (1) free_name.simps) simp
  qed
qed

lemma dash_runs_chars: "list_all name_char (dash_runs b s)"
  by (induction b s rule: dash_runs.induct) (auto simp: name_char_def)

lemma trim_char_subset: "set (trim_char c s) \<subseteq> set s"
proof -
  have d: "set (dropWhile P xs) \<subseteq> set xs" for P and xs :: string by (auto dest: set_dropWhileD)
  have "set (trim_char c s) \<subseteq> set (rev (dropWhile (\<lambda>x. x = c) s))" by (simp only: trim_char_def trim_right_def set_rev d [of _ "rev (dropWhile (\<lambda>x. x = c) s)", unfolded set_rev])
  also have "\<dots> \<subseteq> set s" unfolding set_rev by (rule d)
  finally show ?thesis .
qed

lemma sanitize_chars: "list_all name_char (sanitizeLogicalName p) \<and> sanitizeLogicalName p \<noteq> []"
proof -
  have "list_all name_char (trim_char CHR ''-'' (dash_runs False (to_lower p)))"
    using dash_runs_chars [of False "to_lower p"] trim_char_subset by (fastforce simp: list_all_iff)
  moreover have "list_all name_char ''model''" by code_simp
  ultimately show ?thesis by (simp add: sanitizeLogicalName_def Let_def)
qed

lemma digit_name_char: "is_digit c \<Longrightarrow> name_char c"
  by (simp add: name_char_def)

lemma free_name_chars: "list_all name_char (free_name (sanitizeLogicalName p) used (sanitizeLogicalName p) 2)
    \<and> free_name (sanitizeLogicalName p) used (sanitizeLogicalName p) 2 \<noteq> []"
proof -
  have "list_all name_char (nat_str k)" for k
    using nat_str_digits [of k] by (auto simp: list_all_iff digit_name_char)
  then have "list_all name_char (numbered (sanitizeLogicalName p) k) \<and> numbered (sanitizeLogicalName p) k \<noteq> []" for k
    using sanitize_chars [of p] by (simp add: numbered_def name_char_def)
  then show ?thesis
    using free_name_form [of "sanitizeLogicalName p" used "sanitizeLogicalName p" 2] sanitize_chars [of p] by metis
qed

lemma init_models_names:
  "distinct (map md_LogicalName (init_models used xs)) \<and> set (map md_LogicalName (init_models used xs)) \<inter> set used = {}
    \<and> list_all (\<lambda>m. list_all name_char (md_LogicalName m) \<and> md_LogicalName m \<noteq> []) (init_models used xs)"
proof (induction used xs rule: init_models.induct)
  case (2 used c p rest)
  let ?l = "free_name (sanitizeLogicalName p) used (sanitizeLogicalName p) 2"
  have "?l \<notin> set used" by (rule free_name_free)
  then show ?case using 2 [OF refl refl] free_name_chars [of p used] by (auto simp: Let_def init_model_def)
qed simp

lemma init_models_targets:
  "map (\<lambda>m. (md_Runtime m, md_Endpoint m, md_PhysicalModel m, md_Fallback m, md_CloudFallback m)) (init_models used xs)
    = map (\<lambda>(c, p). (rc_Runtime c, trim_right CHR ''/'' (rc_Endpoint c), p, [], None)) xs"
  by (induction used xs rule: init_models.induct) (auto simp: Let_def init_model_def)

lemma init_models_mem:
  assumes "m \<in> set (init_models used xs)"
  obtains c p where "(c, p) \<in> set xs" "md_Runtime m = rc_Runtime c" "md_Endpoint m = trim_right CHR ''/'' (rc_Endpoint c)"
    "md_PhysicalModel m = p" "md_Fallback m = []" "md_CloudFallback m = None"
proof -
  have "(md_Runtime m, md_Endpoint m, md_PhysicalModel m, md_Fallback m, md_CloudFallback m)
      \<in> set (map (\<lambda>(c, p). (rc_Runtime c, trim_right CHR ''/'' (rc_Endpoint c), p, [], None)) xs)"
    using assms unfolding init_models_targets [of used xs, symmetric] by auto
  then show ?thesis using that by auto
qed

section \<open>The generated configuration\<close>

text \<open>C17: what \<open>init\<close> generates from the discovered runtimes is a valid configuration, if the runtimes and
  endpoints are ones that a configuration may name and no reported model has an empty name: one entry for each
  reported model, in order, under pairwise different names made of small letters, digits, dots, underscores and
  dashes.\<close>

theorem init_config_is_valid:
  assumes "gatewayID \<noteq> []" and "sha256_hex hash"
    and "list_all (\<lambda>c. validRuntimeAdapter (rc_Runtime c) \<and> valid_url urlp (trim_right CHR ''/'' (rc_Endpoint c)) \<and> [] \<notin> set (rc_Models c)) cands"
  shows "\<exists>valid. Validate_gateway urlp ((buildInitConfig gatewayID cands)\<lparr>gc_VirtualKeys := [init_key hash]\<rparr>) = Inr valid \<and>
     map md_PhysicalModel (gc_Models valid) = concat (map rc_Models cands) \<and>
     distinct (map md_LogicalName (gc_Models valid)) \<and> list_all (list_all name_char \<circ> md_LogicalName) (gc_Models valid)"
proof -
  let ?c = "(buildInitConfig gatewayID cands)\<lparr>gc_VirtualKeys := [init_key hash]\<rparr>"
  let ?xs = "concat (map (\<lambda>c. map (Pair c) (rc_Models c)) cands)"
  have "model_def_ok urlp False m" if m: "m \<in> set (init_models [] ?xs)" for m
  proof -
    obtain c p where p: "(c, p) \<in> set ?xs" "md_Runtime m = rc_Runtime c" "md_Endpoint m = trim_right CHR ''/'' (rc_Endpoint c)"
        "md_PhysicalModel m = p" "md_Fallback m = []" "md_CloudFallback m = None"
      using m by (rule init_models_mem)
    have "p \<noteq> []" "validRuntimeAdapter (rc_Runtime c)" "valid_url urlp (trim_right CHR ''/'' (rc_Endpoint c))"
      using p(1) assms(3) by (auto simp: list_all_iff)
    then show ?thesis using init_models_names [of "[]" ?xs] m p
      by (auto simp: model_def_ok_def Targets_def primary_target_def target_ok_def list_all_iff)
  qed
  then have "gw_config_ok urlp ?c"
    using assms(1,2) init_models_names [of "[]" ?xs]
    by (auto simp: gw_config_ok_def buildInitConfig_def list_all_iff hybrid_ok_def init_key_def key_ok_def)
  then have "Validate_gateway urlp ?c = Inr (gw_with_defaults ?c)" by (simp add: Validate_gateway_Inr)
  moreover have "gc_Models (gw_with_defaults ?c) = init_models [] ?xs" by (simp add: gw_with_defaults_def buildInitConfig_def)
  moreover have "map md_PhysicalModel (init_models [] ?xs) = concat (map rc_Models cands)"
  proof -
    have "map md_PhysicalModel (init_models used xs) = map snd xs" for used xs
      by (induction used xs rule: init_models.induct) (auto simp: Let_def init_model_def)
    then show ?thesis by (simp add: map_concat comp_def)
  qed
  ultimately show ?thesis using init_models_names [of "[]" ?xs] by (auto simp: list_all_iff)
qed

text \<open>
  A runtime that reports a model without a name makes the whole generation fail: the entry is kept and the
  configuration is refused (\<open>init.go\<close>, lines 67 and 133 to 146).
\<close>

lemma nameless_model_blocks_init:
  assumes "c \<in> set cands" and "[] \<in> set (rc_Models c)"
  shows "\<exists>err. Validate_gateway urlp ((buildInitConfig gatewayID cands)\<lparr>gc_VirtualKeys := ks\<rparr>) = Inl err"
proof (rule ccontr)
  let ?c = "(buildInitConfig gatewayID cands)\<lparr>gc_VirtualKeys := ks\<rparr>" and ?xs = "concat (map (\<lambda>c. map (Pair c) (rc_Models c)) cands)"
  assume "\<not> ?thesis"
  then obtain valid where "Validate_gateway urlp ?c = Inr valid" by (cases "Validate_gateway urlp ?c") auto
  then have ok: "list_all (model_def_ok urlp False) (init_models [] ?xs)"
    by (simp add: Validate_gateway_Inr gw_config_ok_def buildInitConfig_def)
  have "(c, []) \<in> set ?xs" using assms by auto
  then have "[] \<in> md_PhysicalModel ` set (init_models [] ?xs)"
    using arg_cong [OF init_models_targets [of "[]" ?xs], of "\<lambda>ts. [] \<in> (\<lambda>t. fst (snd (snd t))) ` set ts"]
    by (force simp: image_image)
  then show False using ok by (auto simp: list_all_iff model_def_ok_def Targets_def primary_target_def target_ok_def)
qed

section \<open>Starting the service\<close>

lemma ParseConfig_valid: "ParseConfig yaml urlp raw = Inr c \<Longrightarrow> \<exists>c0. Validate_gateway urlp c0 = Inr c"
  by (auto simp: ParseConfig_def split: option.splits sum.splits)

lemma load_config_valid: "load_config e args fs = Inr c \<Longrightarrow> \<exists>c0. Validate_gateway (ck_urlp (cl_keys e)) c0 = Inr c"
  by (auto simp: load_config_def LoadConfig_def ParseConfig_valid split: option.splits)

lemma applyPlatform_cfg [simp]: "sv_cfg (fst (applyPlatform pe c s)) = sv_cfg (fst s)"
  by (auto simp: applyPlatform_def SetWorkflowService_def SetPlatformBackend_def split: option.split)

lemma with_hook_cfg [simp]: "sv_cfg (fst (with_hook e c)) = c"
  by (simp add: with_hook_def OnConfigApplied_def NewServer_def)

text \<open>The configuration of a generation directory, if it is there and can be used.\<close>

definition stored_config :: "config_keys \<Rightarrow> cfg_dir \<Rightarrow> gw_config option" where
  "stored_config ks d =
     (case cd_current d of None \<Rightarrow> None | Some raw \<Rightarrow> (case ParseConfig (ck_yaml ks) (ck_urlp ks) raw of Inl _ \<Rightarrow> None | Inr c \<Rightarrow> Some c))"

lemma apply_imported_cfg:
  "sv_cfg (fst (apply_imported e d s)) = (case stored_config (cl_keys e) d of None \<Rightarrow> sv_cfg (fst s) | Some c \<Rightarrow> c)"
  by (auto simp: apply_imported_def apply_config_def stored_config_def split: option.split sum.split)

lemma Register_srv: "ag_srv (snd (GwAgent.Register net parse w renamed a)) = ag_srv a"
  by (auto simp: GwAgent.Register_def Let_def split: option.split http_result.split)

lemma NewAgent_parts: "NewAgent kf mk cred tok d st srv = Inr a \<Longrightarrow> ag_srv a = srv \<and> ag_dir a = d"
  by (auto simp: NewAgent_def res_bind_def split: if_splits sum.splits)

lemma LoadStoredConfig_cfg:
  "sv_cfg (ag_srv (snd (LoadStoredConfig ks a))) = (case stored_config ks (ag_dir a) of None \<Rightarrow> sv_cfg (ag_srv a) | Some c \<Rightarrow> c)"
  by (auto simp: LoadStoredConfig_def stored_config_def applied_version_def split: option.split sum.split)

lemma start_agent_cfg:
  "sv_cfg (fst (fst (start_agent e st d cred tok s))) \<in> {sv_cfg (fst s)} \<union> set_option (stored_config (cl_keys e) d)"
proof (cases "NewAgent (cl_keyfile e) (cl_mkdir e (as_DataDir st)) cred tok d st (fst s)")
  case (Inl err)
  then show ?thesis by (simp add: start_agent_def)
next
  case (Inr a)
  then show ?thesis using LoadStoredConfig_cfg [of "cl_keys e" a] NewAgent_parts [OF Inr]
    by (auto simp: start_agent_def Let_def Register_srv split: prod.split option.splits)
qed

lemma serve_up_cases:
  assumes "serve_up e args fs d cred tok = Inr sg"
  obtains cfg where "load_config e args fs = Inr cfg" "cl_audit_ok e (gc_AuditPath cfg)" "checkLicense e fs (gs_ID (gc_Gateway cfg)) = 0"
    "sg_admin sg = admin_of e args fs cfg"
    "sv_cfg (sg_srv sg) \<in> {cfg} \<union> set_option (stored_config (cl_keys e) d)"
    "agentSettings e = None \<Longrightarrow> sv_cfg (sg_srv sg) = (case stored_config (cl_keys e) d of None \<Rightarrow> cfg | Some c \<Rightarrow> c)"
proof -
  obtain cfg where c: "load_config e args fs = Inr cfg" "cl_audit_ok e (gc_AuditPath cfg)" "checkLicense e fs (gs_ID (gc_Gateway cfg)) = 0"
    using assms by (auto simp: serve_up_def split: sum.splits if_splits)
  have sg: "sg_admin sg = admin_of e args fs cfg"
    "sg_srv sg = (case agentSettings e of None \<Rightarrow> fst (apply_imported e d (with_hook e cfg))
                  | Some st \<Rightarrow> fst (fst (start_agent e st d cred tok (with_hook e cfg))))"
    using assms c by (auto simp: serve_up_def Let_def split: option.splits prod.splits)
  have alone: "agentSettings e = None \<Longrightarrow> sv_cfg (sg_srv sg) = (case stored_config (cl_keys e) d of None \<Rightarrow> cfg | Some c \<Rightarrow> c)"
    using sg(2) by (simp add: apply_imported_cfg split: option.split)
  have "sv_cfg (sg_srv sg) \<in> {cfg} \<union> set_option (stored_config (cl_keys e) d)"
  proof (cases "agentSettings e")
    case None
    then show ?thesis using alone by (auto split: option.splits)
  next
    case (Some st)
    then show ?thesis using sg(2) start_agent_cfg [of e st d cred tok "with_hook e cfg"] by simp
  qed
  from that [OF c sg(1) this alone] show ?thesis .
qed

definition licensed :: "cli_env \<Rightarrow> files \<Rightarrow> string \<Rightarrow> bool" where
  "licensed e fs gatewayID \<longleftrightarrow> cl_getenv e ''LYKURO_LICENSE_FILE'' = []
     \<or> (\<exists>raw lic err state. fs (cl_getenv e ''LYKURO_LICENSE_FILE'') = Some raw \<and>
          VerifyLicense (ck_nf (cl_keys e)) (ck_render (cl_keys e)) (cl_tstr e) (cl_ptime e) (ck_vf (cl_keys e)) raw gatewayID (cl_now e)
            = (lic, state, err) \<and> state \<in> {LicenseValid, LicenseInGrace})"

lemma checkLicense_zero: "checkLicense e fs g = 0 \<Longrightarrow> licensed e fs g"
  by (auto simp: checkLicense_def licensed_def Let_def split: if_splits option.splits prod.splits)

text \<open>C14: the service fails closed: it is only set up with an accepted configuration, with an audit log that can be
  written and, when a licence is configured, with one that verifies for the gateway's id and is valid or in its
  grace period; the configuration it runs was accepted by the validation; and the management interface is
  only opened when it is switched on and a token was provisioned.\<close>

theorem serve_fails_closed:
  assumes "serve_up e args fs d cred tok = Inr sg"
  shows "(\<exists>cfg. load_config e args fs = Inr cfg \<and> cl_audit_ok e (gc_AuditPath cfg) \<and> licensed e fs (gs_ID (gc_Gateway cfg)))
     \<and> (\<exists>c0. Validate_gateway (ck_urlp (cl_keys e)) c0 = Inr (sv_cfg (sg_srv sg)))
     \<and> (sg_admin sg = None \<or> (switched_on e ''LYKURO_ADMIN_ENABLED'' \<and> fs (join_path (dataDirDefault e) AdminTokenHashFile) \<noteq> None))"
proof (intro conjI)
  obtain cfg where c: "load_config e args fs = Inr cfg" "cl_audit_ok e (gc_AuditPath cfg)" "checkLicense e fs (gs_ID (gc_Gateway cfg)) = 0"
    "sg_admin sg = admin_of e args fs cfg" "sv_cfg (sg_srv sg) \<in> {cfg} \<union> set_option (stored_config (cl_keys e) d)"
    using assms by (rule serve_up_cases)
  show "\<exists>cfg. load_config e args fs = Inr cfg \<and> cl_audit_ok e (gc_AuditPath cfg) \<and> licensed e fs (gs_ID (gc_Gateway cfg))"
    using c(1-3) checkLicense_zero by blast
  show "\<exists>c0. Validate_gateway (ck_urlp (cl_keys e)) c0 = Inr (sv_cfg (sg_srv sg))"
    using c(5) load_config_valid [OF c(1)] by (auto simp: stored_config_def dest: ParseConfig_valid split: option.splits sum.splits)
  show "sg_admin sg = None \<or> (switched_on e ''LYKURO_ADMIN_ENABLED'' \<and> fs (join_path (dataDirDefault e) AdminTokenHashFile) \<noteq> None)"
    unfolding c(4) by (auto simp: admin_of_def split: option.splits)
qed

lemma runConfigImport_done:
  assumes "runConfigImport e args fs d = (0, d')"
  obtains local envelope v cfg where "load_config e args fs = Inr local"
    "ImportSignedConfig (cl_keys e) envelope (gs_ID (gc_Gateway local)) (flag_given [''-force'', ''--force''] args)
       (cl_mkdir e (dataDirDefault e)) (gen_writes e) d = (Inr (v, cfg), d')"
proof -
  let ?file = "flag_value [''-file'', ''--file''] [] args"
  have f: "?file \<noteq> []" using assms unfolding runConfigImport_def Let_def by (cases "?file = []") simp_all
  obtain local where l: "load_config e args fs = Inr local"
    using assms f unfolding runConfigImport_def Let_def if_not_P [OF f] by (cases "load_config e args fs") simp_all
  obtain envelope where v: "fs ?file = Some envelope" "cl_getenv e ''LYKURO_SIGNING_PUB_FILE'' \<noteq> []" "cl_keyfile e (cl_getenv e ''LYKURO_SIGNING_PUB_FILE'')"
    using assms unfolding runConfigImport_def Let_def if_not_P [OF f] l by (auto split: if_splits option.splits)
  let ?i = "ImportSignedConfig (cl_keys e) envelope (gs_ID (gc_Gateway local)) (flag_given [''-force'', ''--force''] args)
       (cl_mkdir e (dataDirDefault e)) (gen_writes e) d"
  have "(case ?i of (Inl _, d1) \<Rightarrow> (20, d1) | (Inr _, d1) \<Rightarrow> (0, d1)) = (0 :: int, d')"
    using assms unfolding runConfigImport_def Let_def if_not_P [OF f] l using v by simp
  then obtain v cfg where "?i = (Inr (v, cfg), d')" by (cases ?i) (auto split: sum.splits)
  then show ?thesis using that l by blast
qed


section \<open>The admin token\<close>

lemma admin_token_plain:
  assumes "GenerateAdminToken hx draw = Some (plain, hash)" and "\<And>j k. draw j = Some k \<Longrightarrow> k < 57"
  shows "BearerToken (''Bearer '' @ plain) = plain" and "prefix AdminTokenPrefix plain" and "hash = hx plain"
proof -
  obtain seg where seg: "random_chars draw 0 48 = Some seg" "plain = AdminTokenPrefix @ seg" "hash = hx plain"
    using assms(1) by (auto simp: GenerateAdminToken_def RandomTokenSegment_def HashToken_def)
  have "length seg = 48 \<and> set seg \<subseteq> set tokenAlphabet" by (rule random_chars_spec [OF seg(1)]) (rule assms(2))
  then have "list_all (\<lambda>c. \<not> is_space c) seg" using tokenAlphabet_facts(2) by (auto simp: list_all_iff)
  moreover have "list_all (\<lambda>c. \<not> is_space c) AdminTokenPrefix" by code_simp
  ultimately have "trim_space plain = plain" by (simp add: seg(2) trim_space_solid)
  then show "BearerToken (''Bearer '' @ plain) = plain" unfolding BearerToken_def trim_prefix_prefix .
  show "prefix AdminTokenPrefix plain" "hash = hx plain" using seg by simp_all
qed

lemma trim_space_line: "list_all (\<lambda>c. \<not> is_space c) s \<Longrightarrow> trim_space (s @ [CHR 0x0A]) = s"
proof -
  have nl: "is_space (CHR 0x0A)" by code_simp
  have d: "list_all (\<lambda>c. \<not> is_space c) t \<Longrightarrow> dropWhile is_space t = t" for t by (cases t) auto
  assume s: "list_all (\<lambda>c. \<not> is_space c) s"
  then have "list_all (\<lambda>c. \<not> is_space c) (rev s)" by (simp add: list_all_iff)
  note trimmed = d [OF this]
  show ?thesis
  proof (cases s)
    case Nil
    then show ?thesis using nl by (simp add: trim_space_def)
  next
    case (Cons c cs)
    have "trim_space (s @ [CHR 0x0A]) = rev (dropWhile is_space (rev (s @ [CHR 0x0A])))" using s Cons by (simp add: trim_space_def)
    also have "\<dots> = rev (dropWhile is_space (rev s))" using nl by simp
    finally show ?thesis unfolding trimmed by simp
  qed
qed

lemma runAdminToken_printed:
  assumes "runAdminToken e args fs = (0, Some plain, fs')"
  obtains hash where "GenerateAdminToken (ck_hx (cl_keys e)) (cl_draw e 0) = Some (plain, hash)"
    "fs' = fs(join_path (dataDirDefault e) AdminTokenHashFile \<mapsto> Bytes (hash @ [CHR 0x0A]))"
proof -
  obtain p hash where g: "GenerateAdminToken (ck_hx (cl_keys e)) (cl_draw e 0) = Some (p, hash)"
    using assms by (cases "GenerateAdminToken (ck_hx (cl_keys e)) (cl_draw e 0)") (auto simp: runAdminToken_def)
  let ?secret = "writeSecretFile e (flag_value [''-out'', ''--out''] [] args) (p @ [CHR 0x0A])
      (fs(join_path (dataDirDefault e) AdminTokenHashFile \<mapsto> Bytes (hash @ [CHR 0x0A])))"
  obtain ok fs2 where w: "?secret = (ok, fs2)" by (cases ?secret)
  have "p = plain \<and> fs' = fs(join_path (dataDirDefault e) AdminTokenHashFile \<mapsto> Bytes (hash @ [CHR 0x0A]))"
    using assms by (cases ok) (simp_all add: runAdminToken_def g Let_def w split: if_splits)
  then show ?thesis using that g by blast
qed

text \<open>C16: the token that \<open>admin-token\<close> prints opens the management interface of the next start: the hash it
  leaves in the data directory is the one the interface compares, and a request that bears the token is let
  through with its id.\<close>

theorem issued_admin_token_opens:
  assumes "runAdminToken e args fs = (0, Some plain, fs')" and "\<forall>j k. cl_draw e 0 j = Some k \<longrightarrow> k < 57"
    and "ck_hx (cl_keys e) plain \<noteq> []" and "list_all (\<lambda>c. \<not> is_space c) (ck_hx (cl_keys e) plain)"
    and "serve_up e' args' fs' d cred tok = Inr sg" and "switched_on e' ''LYKURO_ADMIN_ENABLED''" and "dataDirDefault e' = dataDirDefault e"
    and "iq_Authorization r = ''Bearer '' @ plain"
  shows "\<exists>listen opts. sg_admin sg = Some (listen, opts) \<and>
     (\<forall>a. ad_opts a = opts \<longrightarrow> admin_auth (ck_hx (cl_keys e)) fresh r a = (Inr (ensureRequestID fresh r), a))"
proof -
  let ?path = "join_path (dataDirDefault e) AdminTokenHashFile"
  obtain hash where g: "GenerateAdminToken (ck_hx (cl_keys e)) (cl_draw e 0) = Some (plain, hash)" "fs' = fs(?path \<mapsto> Bytes (hash @ [CHR 0x0A]))"
    using assms(1) by (rule runAdminToken_printed)
  have "\<And>j k. cl_draw e 0 j = Some k \<Longrightarrow> k < 57" using assms(2) by blast
  note t = admin_token_plain [OF g(1) this]
  obtain cfg where "sg_admin sg = admin_of e' args' fs' cfg" by (rule serve_up_cases [OF assms(5)])
  then obtain listen opts where o: "sg_admin sg = Some (listen, opts)" "ao_TokenHash opts = trim_space (hash @ [CHR 0x0A])"
    using assms(6,7) by (simp add: admin_of_def text_of_def g(2))
  have h: "ao_TokenHash opts = ck_hx (cl_keys e) plain" using o(2) t(3) trim_space_line [OF assms(4)] by simp
  have "admin_auth (ck_hx (cl_keys e)) fresh r a = (Inr (ensureRequestID fresh r), a)" if "ad_opts a = opts" for a
  proof -
    have "has_token (ck_hx (cl_keys e)) (ao_TokenHash (ad_opts a)) r"
      using that h t(1,2) assms(3,8) by (simp add: has_token_def HashToken_def)
    moreover obtain res a1 where "admin_auth (ck_hx (cl_keys e)) fresh r a = (res, a1)" by fastforce
    ultimately show ?thesis using admin_auth_cases [of "ck_hx (cl_keys e)" fresh r a res a1] by metis
  qed
  then show ?thesis using o(1) by blast
qed

text \<open>
  With \<open>-out\<close> the hash is replaced before the token file is created: if that file exists already, the command
  fails, the former token is no longer valid, and the new one is neither printed nor stored
  (\<open>main.go\<close>, lines 414 to 424).
\<close>

lemma failed_token_file_locks_out:
  assumes "GenerateAdminToken (ck_hx (cl_keys e)) (cl_draw e 0) = Some (plain, hash)" and "cl_mkdir e (dataDirDefault e)"
    and "cl_write e (join_path (dataDirDefault e) AdminTokenHashFile)" and "out \<noteq> []" and "fs out \<noteq> None"
  shows "\<exists>fs'. runAdminToken e [''-out'', out] fs = (1, None, fs')
     \<and> fs' (join_path (dataDirDefault e) AdminTokenHashFile) = Some (Bytes (hash @ [CHR 0x0A]))"
  using assms by (auto simp: runAdminToken_def Let_def writeSecretFile_def)

section \<open>Arguments and settings\<close>

text \<open>The flag wins over \<open>LYKURO_CONFIG_PATH\<close>, although the comment in \<open>configPath\<close> has it the other way round.\<close>

lemma flag_overrides_environment: "configPath e [''-config'', p] = p"
  by (simp add: configPath_def)

lemma empty_argument_panics: "main_command ([] # args) = IndexPanic"
  by (simp add: main_command_def)

text \<open>An interval of 18446744074 seconds becomes one of 0.29 seconds: the product wraps around.\<close>

lemma huge_interval_wraps: "cl_getenv e n = ''18446744074'' \<Longrightarrow> seconds_of e n = 290448384"
proof -
  have "parse_int ''18446744074'' = Some 18446744074" by code_simp
  then show "cl_getenv e n = ''18446744074'' \<Longrightarrow> ?thesis" by (simp add: seconds_of_def i64_def sec_def)
qed

text \<open>The support bundle depends on the settings only by whether they are there.\<close>

lemma diagnose_reveals_no_settings:
  assumes "\<forall>k \<in> set env_names. (g k = []) = (cl_getenv e k = [])" and "localBase (e\<lparr>cl_getenv := g\<rparr>) args fs = localBase e args fs"
  shows "runDiagnose (e\<lparr>cl_getenv := g\<rparr>) args fs = runDiagnose e args fs"
proof -
  have "diagnose_bundle (e\<lparr>cl_getenv := g\<rparr>) base = diagnose_bundle e base" for base
    using assms(1) by (simp add: diagnose_bundle_def probe_doc_def env_names_def split: http_result.split)
  then show ?thesis by (simp add: runDiagnose_def Let_def assms(2) split: sum.split)
qed

section \<open>Examples\<close>

definition demo_settings :: "string \<Rightarrow> string" where
  "demo_settings name = (if name = ''LYKURO_SIGNING_PUB_FILE'' then ''pub'' else if name = ''LYKURO_ADMIN_ENABLED'' then ''1'' else [])"

definition demo_cli :: cli_env where
  "demo_cli = \<lparr>cl_getenv = demo_settings, cl_keys = demo_keys, cl_ptime = \<lambda>_. None, cl_tstr = \<lambda>_. [], cl_ym = \<lambda>_. None,
     cl_keyfile = \<lambda>_. True, cl_audit_ok = \<lambda>_. True, cl_mkdir = \<lambda>_. True, cl_write = \<lambda>_. True, cl_draw = \<lambda>_ _. Some 0, cl_now = 0,
     cl_net = \<lambda>_. TransportError False, cl_parse = Bytes, cl_order = id, cl_v6 = \<lambda>_. False,
     cl_plat = \<lambda>_. \<lparr>pe_memory_ok = \<lambda>_. True, pe_mkdir = True, pe_flows = \<lambda>_. [], pe_runs = \<lambda>_. \<lparr>rf_runs = [], rf_events = []\<rparr>,
        pe_now = 0, pe_writes = \<lambda>_. True\<rparr>,
     cl_gens = (Written, Written, Written, Written), cl_renamed = True, cl_version = ''1'', cl_os_arch = ''linux/amd64'', cl_stamp = \<lambda>_. []\<rparr>"

definition demo_disk :: files where
  "demo_disk = [''gateway.yaml'' \<mapsto> Bytes [], ''import.json'' \<mapsto> Doc (demo_generation 5)]"

definition demo_dir :: cfg_dir where
  "demo_dir = \<lparr>cd_gens = [], cd_current = None, cd_marker = None\<rparr>"

lemma demo_settings_simps: "cl_getenv demo_cli = demo_settings" "cl_keys demo_cli = demo_keys" "agentSettings demo_cli = None"
  "configPath demo_cli args = flag_value [''-config'', ''--config''] ''gateway.yaml'' args" "dataDirDefault demo_cli = ''.''"
  "cl_keyfile demo_cli x" "cl_mkdir demo_cli x" "cl_write demo_cli x" "cl_draw demo_cli i j = Some 0"
  by (simp_all add: demo_cli_def demo_settings_def agentSettings_def configPath_def dataDirDefault_def)

lemma demo_load: "fs ''gateway.yaml'' \<noteq> None \<Longrightarrow> load_config demo_cli [] fs = Inr (gw_with_defaults demo_gateway)"
  by (auto simp: load_config_def LoadConfig_def ParseConfig_def demo_settings_simps demo_keys_def demo_gateway_valid)

lemma demo_serves: "fs ''gateway.yaml'' \<noteq> None \<Longrightarrow> \<exists>sg. serve_up demo_cli [] fs d None None = Inr sg"
proof -
  have "checkLicense demo_cli fs g = 0" for g by (simp add: checkLicense_def demo_settings_simps demo_settings_def)
  then show "fs ''gateway.yaml'' \<noteq> None \<Longrightarrow> ?thesis"
    by (auto simp: serve_up_def demo_load Let_def demo_settings_simps) (simp add: demo_cli_def)
qed

theorem serve_fails_closed_witness:
  "\<exists>sg c0. serve_up demo_cli [] demo_disk demo_dir None None = Inr sg
     \<and> Validate_gateway (ck_urlp (cl_keys demo_cli)) c0 = Inr (sv_cfg (sg_srv sg))"
proof -
  obtain sg where "serve_up demo_cli [] demo_disk demo_dir None None = Inr sg"
    using demo_serves [of demo_disk demo_dir] by (auto simp: demo_disk_def)
  with serve_fails_closed [OF this] show ?thesis by blast
qed


theorem issued_admin_token_opens_witness:
  "\<exists>plain fs' sg listen opts. runAdminToken demo_cli [] demo_disk = (0, Some plain, fs') \<and> serve_up demo_cli [] fs' demo_dir None None = Inr sg
     \<and> sg_admin sg = Some (listen, opts)
     \<and> admin_auth id ''r1'' (demo_admin_in plain (Bytes [])) (demo_admin\<lparr>ad_opts := opts\<rparr>)
         = (Inr (ensureRequestID ''r1'' (demo_admin_in plain (Bytes []))), demo_admin\<lparr>ad_opts := opts\<rparr>)"
proof -
  have hk: "ck_hx demo_keys = id" by (simp add: demo_keys_def)
  then have h: "ck_hx (cl_keys demo_cli) = id" by (simp add: demo_settings_simps)
  have "\<exists>plain hash. GenerateAdminToken id (cl_draw demo_cli 0) = Some (plain, hash) \<and> plain \<noteq> [] \<and> list_all (\<lambda>c. \<not> is_space c) plain"
  proof -
    have "map_option fst (GenerateAdminToken id (\<lambda>_. Some 0)) = Some (AdminTokenPrefix @ replicate 48 CHR ''A'')" by code_simp
    moreover have "list_all (\<lambda>c. \<not> is_space c) (AdminTokenPrefix @ replicate 48 CHR ''A'')" by code_simp
    moreover have "AdminTokenPrefix @ replicate 48 CHR ''A'' \<noteq> []" by simp
    moreover have "cl_draw demo_cli 0 = (\<lambda>_. Some 0)" by (simp add: demo_cli_def)
    ultimately show ?thesis by (cases "GenerateAdminToken id (\<lambda>_. Some 0)") auto
  qed
  then obtain plain hash where t: "GenerateAdminToken id (cl_draw demo_cli 0) = Some (plain, hash)" "plain \<noteq> []"
      "list_all (\<lambda>c. \<not> is_space c) plain" by blast
  obtain fs' where r: "runAdminToken demo_cli [] demo_disk = (0, Some plain, fs')" "fs' ''gateway.yaml'' \<noteq> None"
  proof -
    have "''gateway.yaml'' \<noteq> join_path ''.'' AdminTokenHashFile" by (simp add: join_path_def AdminTokenHashFile_def)
    then show ?thesis using that t(1)
      by (simp add: runAdminToken_def demo_settings_simps hk Let_def) (simp add: demo_disk_def)
  qed
  obtain sg where s: "serve_up demo_cli [] fs' demo_dir None None = Inr sg" using demo_serves [of fs' demo_dir] r(2) by blast
  have d: "\<forall>j k. cl_draw demo_cli 0 j = Some k \<longrightarrow> k < 57" by (simp add: demo_settings_simps)
  have on: "switched_on demo_cli ''LYKURO_ADMIN_ENABLED''" by (simp add: switched_on_def demo_settings_simps demo_settings_def)
  have a: "iq_Authorization (demo_admin_in plain (Bytes [])) = ''Bearer '' @ plain" by (simp add: demo_admin_in_def)
  have ne: "ck_hx (cl_keys demo_cli) plain \<noteq> []" "list_all (\<lambda>c. \<not> is_space c) (ck_hx (cl_keys demo_cli) plain)"
    using t(2,3) by (simp_all add: h)
  obtain listen opts where o: "sg_admin sg = Some (listen, opts)"
    "\<forall>a. ad_opts a = opts \<longrightarrow> admin_auth id ''r1'' (demo_admin_in plain (Bytes [])) a
       = (Inr (ensureRequestID ''r1'' (demo_admin_in plain (Bytes []))), a)"
    using issued_admin_token_opens [OF r(1) d ne s on refl a, of "''r1''"] unfolding h by blast
  have "ad_opts (demo_admin\<lparr>ad_opts := opts\<rparr>) = opts" by simp
  then have "admin_auth id ''r1'' (demo_admin_in plain (Bytes [])) (demo_admin\<lparr>ad_opts := opts\<rparr>)
      = (Inr (ensureRequestID ''r1'' (demo_admin_in plain (Bytes []))), demo_admin\<lparr>ad_opts := opts\<rparr>)"
    using o(2) by blast
  then show ?thesis using r(1) s o(1) by blast
qed

theorem init_config_is_valid_witness:
  "\<exists>valid. Validate_gateway demo_gw_urlp ((buildInitConfig ''gw-a'' [\<lparr>rc_Endpoint = ''http://10.0.0.1:8000/'', rc_Runtime = ''vllm'',
       rc_Models = [''Llama 3:8b'', ''llama-3-8b''], rc_Configured = False\<rparr>])\<lparr>gc_VirtualKeys := [init_key (replicate 64 CHR ''a'')]\<rparr>) = Inr valid
     \<and> distinct (map md_LogicalName (gc_Models valid))"
proof -
  have n: "''gw-a'' \<noteq> []" by simp
  have h: "sha256_hex (replicate 64 CHR ''a'')" by code_simp
  have c: "list_all (\<lambda>c. validRuntimeAdapter (rc_Runtime c) \<and> valid_url demo_gw_urlp (trim_right CHR ''/'' (rc_Endpoint c)) \<and> [] \<notin> set (rc_Models c))
      [\<lparr>rc_Endpoint = ''http://10.0.0.1:8000/'', rc_Runtime = ''vllm'', rc_Models = [''Llama 3:8b'', ''llama-3-8b''], rc_Configured = False\<rparr>]"
    by code_simp
  from init_config_is_valid [OF n h c] show ?thesis by (elim exE conjE) (intro exI conjI)
qed

end
