(* ===== verification/Spec2Isabelle.thy ===== *)
theory Spec2Isabelle
  imports PlatformProps GwAgentProps GwAdminProps UpgradeProps CliProps
begin

text \<open>
  A verification development of the Native LLM Platform: the private gateway (\<open>gwcore/\<close>) and its
  inference platform (\<open>platform/\<close>) as executable definitions translated from the Go sources, with the theorems that make
  it correct.

  \<^bold>\<open>The program.\<close> The gateway (\<open>gwcore\<close>) authenticates a request by its virtual key, limits its rate and
  checks its data class. With the platform off, its proxy sends the request to the configured runtimes
  of the model, in order, and to an approved cloud only when the request is eligible. With the
  platform on, an adapter hands it over a frozen contract (\<open>platform/contract\<close>) to the platform.
  Both count the usage and write one audit line.
  The orchestrator (\<open>platform/orchestrator\<close>) admits a request, asks the model manager
  (\<open>platform/modelmanager\<close>) for the deployments that may serve it under the catalog
  (\<open>platform/platformcfg\<close>), orders them by the state of the node pool (\<open>platform/pool\<close>), adds the stored
  conversation (\<open>platform/memory\<close>) and tries them one after the other, by a connector to a remote runtime
  (\<open>platform/connector\<close>) or by a native engine (\<open>platform/enginecontract\<close>). The workflow engine
  (\<open>platform/workflow\<close>) stores flow definitions with drafts and immutable versions and runs them step by
  step, with the orchestrator as its executor.
  The gateway's configuration is a file, a signed generation that an agent fetches from the control plane or
  an operator imports (\<open>gwcore/agent.go\<close>, \<open>import.go\<close>, \<open>sign/\<close>), or an edit of the management interface
  (\<open>gwcore/admin.go\<close>, \<open>admin_workflow.go\<close>), which also manages flows and adopts discovered runtimes
  (\<open>gwcore/discover.go\<close>). The command line (\<open>cmd/private-gateway\<close>) starts the service and holds the
  commands for licences, tokens, inspection, initialisation and upgrades.

  \<^bold>\<open>Theories.\<close> Sources are relative to \<open>src/\<close>.
  \<^item> \<open>Prelude\<close>: times (nanoseconds), 64-bit integers, results, Go's string functions; the collections
    \<open>go_defs\<close>, \<open>res_simps\<close> and \<open>keeps\<close>; the locale \<open>guarded_component\<close> (operations that keep an
    invariant, with its run lemmas), which every store of the program interprets.
  \<^item> \<open>Json\<close>: what the sources use of \<open>encoding/json\<close>.
  \<^item> \<open>Contract\<close>: \<open>platform/contract/contract.go\<close> and \<open>platform/enginecontract/engine.go\<close>.
  \<^item> \<open>Template\<close>, \<open>FlowDef\<close>: \<open>platform/workflow/template.go\<close> and \<open>flowdef.go\<close>.
  \<^item> \<open>FlowStore\<close>, \<open>RunStore\<close>: \<open>platform/workflow/store.go\<close> and \<open>run.go\<close>; memory and disk are separate parts
    of the state, so that a failed write and a restart can be stated.
  \<^item> \<open>WorkflowRun\<close>, \<open>WorkflowService\<close>: \<open>platform/workflow/service.go\<close>, the runner and the operations;
    \<open>WorkflowRunProps\<close> and \<open>WorkflowServiceProps\<close> hold their properties. The runner's contract of a step is the
    locale \<open>step_invariant\<close>, interpreted on each of its invariants.
  \<^item> \<open>PlatformCfg\<close>: \<open>platform/platformcfg/config.go\<close> and \<open>catalogResolver\<close> of \<open>platform/platform.go\<close>.
  \<^item> \<open>Pool\<close>: \<open>platform/pool/pool.go\<close>; the sort key \<open>score\<close> is an instance of \<open>linorder\<close>.
  \<^item> \<open>ModelManager\<close>: \<open>platform/modelmanager/manager.go\<close>.
  \<^item> \<open>Memory\<close>: \<open>platform/memory/memory.go\<close> and \<open>context.go\<close>.
  \<^item> \<open>StreamWriter\<close>: \<open>contract.StreamWriter\<close> as the locale \<open>stream_writer\<close>, interpreted on the gateway's
    \<open>httpStreamWriter\<close> (\<open>gwcore/platform_adapter.go\<close>) and on \<open>platform/orchestrator/stream.go\<close>.
  \<^item> \<open>Connector\<close>: \<open>platform/connector/connector.go\<close>.
  \<^item> \<open>Native\<close>, \<open>Orchestrator\<close>: \<open>platform/orchestrator/native.go\<close>, \<open>orchestrator.go\<close> and \<open>summary.go\<close>;
    \<open>OrchestratorProps\<close> holds their properties.
  \<^item> \<open>GwConfig\<close>: \<open>gwcore/config.go\<close>; \<open>GwAuth\<close>: \<open>gwcore/auth.go\<close> and \<open>token/token.go\<close>; \<open>GwUsage\<close>:
    \<open>gwcore/usage.go\<close>, with the totals of the counters as a commutative monoid.
  \<^item> \<open>GwServer\<close>: \<open>gwcore/server.go\<close> and \<open>audit.go\<close>, the checks of every request; \<open>GwProxy\<close>:
    \<open>gwcore/proxy.go\<close>; \<open>GwPlatform\<close>: \<open>gwcore/platform_adapter.go\<close> and \<open>routeInference\<close>.
  \<^item> \<open>PlatformProps\<close>: the workflow engine, the catalog and the orchestrator together; and the path of a
    request from the gateway to a deployment.
  \<^item> \<open>GwWorkflow\<close>, \<open>GwWorkflowProps\<close>: \<open>gwcore/workflow_api.go\<close>, runs and their event streams over HTTP.
  \<^item> \<open>Signing\<close>: \<open>sign/canonical.go\<close>, \<open>license.go\<close> and \<open>signer.go\<close>; JSON values are an instance of
    \<open>countable\<close>, which gives the witnesses an injective signature.
  \<^item> \<open>GwAgent\<close>, \<open>GwAgentProps\<close>: \<open>gwcore/import.go\<close> and \<open>agent.go\<close>, the directory of configuration
    generations and the agent of the control plane, with the histories of agent, import and restart.
  \<^item> \<open>Metrics\<close>: \<open>gwcore/metrics.go\<close>; \<open>Discover\<close>: \<open>gwcore/discover.go\<close>.
  \<^item> \<open>GwAdmin\<close>, \<open>GwAdminFlow\<close>, \<open>GwAdminProps\<close>: \<open>gwcore/admin.go\<close> and \<open>admin_workflow.go\<close>, the management
    interface, with histories of its requests; the locale \<open>validation\<close> (a check that completes a value and
    accepts what it completed) is interpreted on both configurations.
  \<^item> \<open>Mock\<close>: \<open>platform/enginecontract/mock.go\<close>; the locale \<open>engine_control\<close> is the control interface of an
    engine, interpreted on it. \<open>Platform\<close>: \<open>platform/platform.go\<close>, the assembly of the components.
  \<^item> \<open>Upgrade\<close>, \<open>UpgradeProps\<close>: \<open>cmd/private-gateway/upgrade.go\<close>, the compose file and its rewriting.
  \<^item> \<open>Cli\<close>, \<open>CliProps\<close>: \<open>cmd/private-gateway/main.go\<close> and \<open>init.go\<close>, the start of the service and the
    other commands.

  \<^bold>\<open>How it is modelled.\<close> A struct is a record, an error a sum; Go maps are maps or association lists with
  distinct keys (the order of an iteration that is visible is kept as the sorted order of the printer).
  Operations take the state and give it back. Clocks, random identifiers, the success of file writes,
  the digest and the cipher, the network, the engines and the URL parser are arguments. The runner's
  concurrency is a tick before each of its actions, at which the environment may cancel it; the
  orchestrator's is a list of pool operations of other requests between two candidates; admission is
  a step relation. Integers that the code can overflow are reduced to 64 bits where it adds them
  (\<open>i64\<close>); the latency averages, floats in the code, are rationals.

  \<^bold>\<open>What the theorems show.\<close> Validation of flows, inputs and the platform configuration accepts exactly the
  well-formed values; templates are replaced in a single pass; published versions never change and
  restarts restore the stores; every run ends settled, with bounded calls, nothing after a timeout and
  only approved targets; conversations stay well-formed, turns are stored once, the context is the
  longest history that fits; the order of candidates is a stable sort; the circuit breaker opens and
  streams pass unchanged; failover calls no deployment twice and gives every slot back; and a flow
  that was validated against the catalog is served from the approved model in the approved pool.
  At the gateway, validation accepts exactly the well-formed configurations; nothing is sent without
  an enabled key that may use the model; confidential data, and whatever is not declared, stays with
  the local runtimes; a key gets at most twice its limit in any minute; usage is conserved over failed
  uploads; the proxy fails over in order; and a request that passed the gateway reaches only
  deployments that the key, the data class and the catalog admit. Runs started over HTTP belong to an
  authenticated key that may use the flow. An accepted licence carries what was signed; whatever the
  control plane sends, whatever writes fail and whenever it restarts, the gateway runs the shipped
  configuration or one reached by signed updates, moves forward only and loads again what it applied.
  The management interface changes nothing without its token, keeps the configuration valid, refuses
  revoked keys and is atomic: an error changes nothing, an edit is stored and audited. A service is set
  up only with a valid configuration, a writable audit log and a valid licence; the assembled platform
  serves only verified deployments of bound engines; a failed upgrade leaves the old version, and a
  rollback gives the compose file back byte for byte.

  \<^bold>\<open>Surprises.\<close> These theorems state behaviour that the code's comments or purpose contradict:
  \<open>failed_create_blocks_restart\<close>, \<open>subscribe_to_restored_run_panics\<close>, \<open>early_cancel_is_lost\<close>,
  \<open>nul_inputs_collide\<close>, \<open>null_options_become_values\<close>, \<open>half_open_admits_every_caller\<close>,
  \<open>crlf_is_rewritten\<close>, \<open>reload_forgets_windows\<close>, \<open>failed_cloud_call_is_audited_as_local\<close>,
  \<open>retried_start_is_counted_twice\<close>, \<open>resumed_stream_never_ends\<close>, \<open>replayed_config_is_accepted\<close>,
  \<open>long_grace_wraps\<close>, \<open>single_flow_error_is_internal\<close>, \<open>edit_interrupts_runs\<close>,
  \<open>torn_write_is_not_restored\<close>, \<open>prompt_counted_twice\<close>, \<open>flag_overrides_environment\<close>,
  \<open>empty_argument_panics\<close>, \<open>failed_token_file_locks_out\<close>, \<open>nameless_model_blocks_init\<close> and
  \<open>huge_interval_wraps\<close>.

  \<^bold>\<open>Termination.\<close> Most loops of the code are structural recursions over a list (steps, targets, attempts,
  candidates, lines); the lists' lengths give the bounds on calls. The others: the enumeration of a
  scan's hosts (\<open>host_loop\<close>) is an option-valued partial function, and \<open>discovery_terminates\<close> shows that it
  returns for every text; the wait for health (\<open>poll_loop\<close>) has the time left as its measure; the search
  for a free name (\<open>free_name\<close>) ends because only finitely many are taken; the rewriting of the compose
  file (\<open>replace_images\<close>, \<open>go_expand\<close>) consumes its text. No definition needs fuel.

  \<^bold>\<open>Not modelled.\<close> The HTTP router and client, the YAML decoder, the digests, ciphers and signatures are
  arguments. Reading PEM key files (\<open>NewSignerFromFile\<close> of \<open>sign/signer.go\<close>) only calls the library.
  The processes behind an upgrade (docker, signals), the tickers that repeat a modelled step, log lines and
  the printed layout of the inspection commands are left out, and so is the text of error messages where
  only their code is used. A write of the audit log always succeeds.
\<close>

end
